(* ===== verification/Types.thy ===== *)
theory Types
  imports Prelude
begin

text \<open>
  The enumerations and the request context of \<open>packages/types/src/index.ts\<close>, with the
  string each enumeration value is in the source (it appears in messages and in payloads).
\<close>

type_synonym uuid = string
type_synonym instant = int

datatype AppScope = PlatformAdmin | TenantMember | DeviceScope

datatype OrderChannel = ADMIN | POS | KIOSK | DELIVERY

datatype CartStatus = OPEN | CONVERTED

datatype OrderStatus =
  PLACED | CONFIRMED | IN_PREPARATION | READY | COMPLETED | CANCELLED

datatype RefundStatus = NONE | NOT_REQUIRED | PENDING_MANUAL

datatype KitchenTicketStatus =
  TkNew | TkInProgress | TkReady | TkCompleted | TkCancelled

datatype KitchenBoardStatus =
  BdNew | BdInProgress | BdReady | BdCompleted | BdCancelled

datatype PriceSource =
  StoreOverride | PriceListSource | VariantBase | ProductBase | NoSource

datatype CatalogTargetType = TgtProduct | TgtVariant | TgtModifierOption

datatype AvailabilityTargetType = AvProduct | AvVariant

datatype PosShiftStatus = ShiftOpen | ShiftClosed

datatype PosSessionStatus = SessionActive | SessionEnded

datatype PaymentMethodKind = CASH | CARD | QR

datatype FulfillmentMode = FmDelivery | FmPickup | FmDineIn

datatype FulfillmentStatus =
  FsPending | FsScheduled | FsPreparing | FsReadyForPickup | FsOutForDelivery | FsDelivered
| FsPickedUp | FsTableAssigned | FsServed

datatype PromotionType = PERCENTAGE | FIXED_AMOUNT | LOYALTY_REDEEM

datatype PromotionStatus = PromoActive | PromoPaused | PromoArchived

datatype LoyaltyLedgerEntryKind = EARN | REDEEM | ADJUST

datatype DeviceKind = DevPOS | DevKIOSK | DevKITCHEN | DevBOARD | DevBACKOFFICE

definition show_channel :: "OrderChannel \<Rightarrow> string" where
  "show_channel c = (case c of ADMIN \<Rightarrow> ''ADMIN'' | POS \<Rightarrow> ''POS'' | KIOSK \<Rightarrow> ''KIOSK''
     | DELIVERY \<Rightarrow> ''DELIVERY'')"

definition show_order_status :: "OrderStatus \<Rightarrow> string" where
  "show_order_status s = (case s of PLACED \<Rightarrow> ''PLACED'' | CONFIRMED \<Rightarrow> ''CONFIRMED''
     | IN_PREPARATION \<Rightarrow> ''IN_PREPARATION'' | READY \<Rightarrow> ''READY''
     | COMPLETED \<Rightarrow> ''COMPLETED'' | CANCELLED \<Rightarrow> ''CANCELLED'')"

definition show_refund_status :: "RefundStatus \<Rightarrow> string" where
  "show_refund_status s = (case s of NONE \<Rightarrow> ''NONE'' | NOT_REQUIRED \<Rightarrow> ''NOT_REQUIRED''
     | PENDING_MANUAL \<Rightarrow> ''PENDING_MANUAL'')"

definition show_cart_status :: "CartStatus \<Rightarrow> string" where
  "show_cart_status s = (case s of OPEN \<Rightarrow> ''OPEN'' | CONVERTED \<Rightarrow> ''CONVERTED'')"

definition show_ticket_status :: "KitchenTicketStatus \<Rightarrow> string" where
  "show_ticket_status s = (case s of TkNew \<Rightarrow> ''NEW'' | TkInProgress \<Rightarrow> ''IN_PROGRESS''
     | TkReady \<Rightarrow> ''READY'' | TkCompleted \<Rightarrow> ''COMPLETED'' | TkCancelled \<Rightarrow> ''CANCELLED'')"

definition show_board_status :: "KitchenBoardStatus \<Rightarrow> string" where
  "show_board_status s = (case s of BdNew \<Rightarrow> ''NEW'' | BdInProgress \<Rightarrow> ''IN_PROGRESS''
     | BdReady \<Rightarrow> ''READY'' | BdCompleted \<Rightarrow> ''COMPLETED'' | BdCancelled \<Rightarrow> ''CANCELLED'')"

definition show_source :: "PriceSource \<Rightarrow> string" where
  "show_source s = (case s of StoreOverride \<Rightarrow> ''store_override'' | PriceListSource \<Rightarrow> ''price_list''
     | VariantBase \<Rightarrow> ''variant_base'' | ProductBase \<Rightarrow> ''product_base'' | NoSource \<Rightarrow> ''none'')"

definition show_fulfillment_mode :: "FulfillmentMode \<Rightarrow> string" where
  "show_fulfillment_mode m = (case m of FmDelivery \<Rightarrow> ''DELIVERY'' | FmPickup \<Rightarrow> ''PICKUP''
     | FmDineIn \<Rightarrow> ''DINE_IN'')"

definition show_fulfillment_status :: "FulfillmentStatus \<Rightarrow> string" where
  "show_fulfillment_status s = (case s of FsPending \<Rightarrow> ''PENDING'' | FsScheduled \<Rightarrow> ''SCHEDULED''
     | FsPreparing \<Rightarrow> ''PREPARING'' | FsReadyForPickup \<Rightarrow> ''READY_FOR_PICKUP''
     | FsOutForDelivery \<Rightarrow> ''OUT_FOR_DELIVERY'' | FsDelivered \<Rightarrow> ''DELIVERED''
     | FsPickedUp \<Rightarrow> ''PICKED_UP'' | FsTableAssigned \<Rightarrow> ''TABLE_ASSIGNED''
     | FsServed \<Rightarrow> ''SERVED'')"

definition show_promotion_type :: "PromotionType \<Rightarrow> string" where
  "show_promotion_type t = (case t of PERCENTAGE \<Rightarrow> ''PERCENTAGE'' | FIXED_AMOUNT \<Rightarrow> ''FIXED_AMOUNT''
     | LOYALTY_REDEEM \<Rightarrow> ''LOYALTY_REDEEM'')"

definition show_promotion_status :: "PromotionStatus \<Rightarrow> string" where
  "show_promotion_status s = (case s of PromoActive \<Rightarrow> ''ACTIVE'' | PromoPaused \<Rightarrow> ''PAUSED''
     | PromoArchived \<Rightarrow> ''ARCHIVED'')"

definition show_entry_kind :: "LoyaltyLedgerEntryKind \<Rightarrow> string" where
  "show_entry_kind k = (case k of EARN \<Rightarrow> ''EARN'' | REDEEM \<Rightarrow> ''REDEEM'' | ADJUST \<Rightarrow> ''ADJUST'')"

definition show_shift_status :: "PosShiftStatus \<Rightarrow> string" where
  "show_shift_status s = (case s of ShiftOpen \<Rightarrow> ''OPEN'' | ShiftClosed \<Rightarrow> ''CLOSED'')"

definition show_session_status :: "PosSessionStatus \<Rightarrow> string" where
  "show_session_status s = (case s of SessionActive \<Rightarrow> ''ACTIVE'' | SessionEnded \<Rightarrow> ''ENDED'')"

record RequestContext =
  ctx_userId :: uuid
  ctx_tenantId :: "uuid option"
  ctx_scope :: AppScope
  ctx_roleIds :: "uuid list"
  ctx_permissions :: "string list"
  ctx_storeIds :: "uuid list"
  ctx_deviceId :: "uuid option"

text \<open>
  The price sources are ordered by precedence, the order in which the price resolution
  tries them.
\<close>

definition source_rank :: "PriceSource \<Rightarrow> nat" where
  "source_rank s = (case s of StoreOverride \<Rightarrow> 0 | PriceListSource \<Rightarrow> 1 | VariantBase \<Rightarrow> 2
     | ProductBase \<Rightarrow> 3 | NoSource \<Rightarrow> 4)"

lemma source_rank_inj: "source_rank a = source_rank b \<Longrightarrow> a = b"
  by (cases a; cases b) (simp_all add: source_rank_def)

instantiation PriceSource :: linorder
begin

definition less_eq_PriceSource :: "PriceSource \<Rightarrow> PriceSource \<Rightarrow> bool" where
  "less_eq_PriceSource a b \<longleftrightarrow> source_rank a \<le> source_rank b"

definition less_PriceSource :: "PriceSource \<Rightarrow> PriceSource \<Rightarrow> bool" where
  "less_PriceSource a b \<longleftrightarrow> source_rank a < source_rank b"

instance
  by standard (auto simp: less_eq_PriceSource_def less_PriceSource_def dest: source_rank_inj)

end

end
