(* ===== verification/Money.thy ===== *)
theory Money
  imports Types
begin

text \<open>
  Money: \<open>pricing/money.util.ts\<close>, \<open>orders/order-money.util.ts\<close> and
  \<open>pos/pos-payments.util.ts\<close>. Amounts are decimal strings outside and integer cents inside.
  Cents are mathematical integers here; in the source they are doubles, which are exact
  up to \<open>2 ^ 53\<close> cents.
\<close>

section \<open>Parsing and formatting\<close>

definition moneyPattern :: "string \<Rightarrow> bool" where
  "moneyPattern s =
     (let body = (if take 1 s = ''-'' then drop 1 s else s);
          rest = dropWhile is_digit body
      in takeWhile is_digit body \<noteq> [] \<and>
         (case rest of
            [] \<Rightarrow> True
          | c # ds \<Rightarrow> c = CHR ''.'' \<and> list_all is_digit ds \<and> (length ds = 1 \<or> length ds = 2)))"

definition parseMoneyToCents :: "string option \<Rightarrow> error + int option" where
  "parseMoneyToCents value =
     (case value of
        None \<Rightarrow> Inr None
      | Some s \<Rightarrow>
          if s = '''' then Inr None
          else if \<not> moneyPattern s then Inl (JsError (''Invalid money value: '' @ s))
          else
            let negative = (take 1 s = ''-'');
                normalized = (if negative then drop 1 s else s);
                whole = takeWhile (\<lambda>c. c \<noteq> CHR ''.'') normalized;
                fraction = drop 1 (dropWhile (\<lambda>c. c \<noteq> CHR ''.'') normalized);
                cents = number_of whole * 100 + number_of (take 2 (padEnd 2 (CHR ''0'') fraction))
            in Inr (Some (if negative then - cents else cents)))"

definition formatCents :: "int \<Rightarrow> string" where
  "formatCents value =
     (let negative = (if value < 0 then ''-'' else '''');
          absolute = \<bar>value\<bar>;
          whole = digits_of (absolute div 100);
          fraction = padStart 2 (CHR ''0'') (digits_of (absolute mod 100))
      in negative @ whole @ ''.'' @ fraction)"

text \<open>\<open>sum + (parseMoneyToCents(value) ?? 0)\<close>, the step of every money sum of the source.\<close>

definition addMoney :: "string option \<Rightarrow> int \<Rightarrow> error + int" where
  "addMoney value acc = bnd (parseMoneyToCents value) (\<lambda>c. Inr (acc + nullish c 0))"

lemma is_digit_not_dot [simp]: "is_digit c \<Longrightarrow> c \<noteq> CHR ''.''"
  by (auto simp: is_digit_def code_def)

lemma is_digit_not_minus [simp]: "is_digit c \<Longrightarrow> c \<noteq> CHR ''-''"
  by (auto simp: is_digit_def code_def)

lemma not_is_digit_dot [simp]: "\<not> is_digit (CHR ''.'')"
  by (simp add: is_digit_def code_def)

lemma digit_char_0: "digit_char 0 = CHR ''0''"
  by code_simp

lemma pad2_digits:
  assumes "0 \<le> r" and "r < 100"
  shows "padStart 2 (CHR ''0'') (digits_of r) = [digit_char (r div 10), digit_char (r mod 10)]"
proof (cases "r < 10")
  case True
  with assms have "r div 10 = 0" and "r mod 10 = r" by auto
  with True show ?thesis
    by (simp add: digits_of.simps [of r] padStart_def digit_char_0)
next
  case False
  with assms have "r div 10 < 10" by auto
  with False show ?thesis
    by (simp add: digits_of.simps [of r] digits_of.simps [of "r div 10"] padStart_def)
qed

lemma abs_div_nonneg [simp]: "0 \<le> \<bar>c::int\<bar> div 100" "0 \<le> \<bar>c::int\<bar> mod 100"
  by (simp_all add: pos_imp_zdiv_nonneg_iff)

lemma parseMoneyToCents_None [simp]: "parseMoneyToCents None = Inr None"
  by (simp add: parseMoneyToCents_def)

lemma digits_of_hd: "0 \<le> n \<Longrightarrow> \<exists>c cs. digits_of n = c # cs \<and> is_digit c \<and> list_all is_digit cs"
  by (metis digits_of_digits digits_of_nonempty list.pred_inject(2) neq_Nil_conv)

lemma takeWhile_digits:
  "list_all P xs \<Longrightarrow> \<not> P y \<Longrightarrow> takeWhile P (xs @ y # ys) = xs"
  "list_all P xs \<Longrightarrow> \<not> P y \<Longrightarrow> dropWhile P (xs @ y # ys) = y # ys"
  by (induction xs) auto

lemma not_dot_digits: "list_all is_digit xs \<Longrightarrow> list_all (\<lambda>c. c \<noteq> CHR ''.'') xs"
  by (auto simp: list_all_iff)

lemma formatCents_shape:
  obtains sg w a b where
    "formatCents c = sg @ w @ ''.'' @ [a, b]" "sg = (if c < 0 then ''-'' else '''')"
    "w = digits_of (\<bar>c\<bar> div 100)" "a = digit_char (\<bar>c\<bar> mod 100 div 10)"
    "b = digit_char (\<bar>c\<bar> mod 10)"
proof -
  have "padStart 2 (CHR ''0'') (digits_of (\<bar>c\<bar> mod 100)) =
      [digit_char (\<bar>c\<bar> mod 100 div 10), digit_char (\<bar>c\<bar> mod 100 mod 10)]"
    by (rule pad2_digits) auto
  moreover have "\<bar>c\<bar> mod 100 mod 10 = \<bar>c\<bar> mod 10" by (simp add: mod_mod_cancel)
  ultimately show thesis by (intro that) (simp_all add: formatCents_def Let_def)
qed

lemma parse_formatCents [simp]: "parseMoneyToCents (Some (formatCents c)) = Inr (Some c)"
proof -
  obtain sg w a b where f: "formatCents c = sg @ w @ ''.'' @ [a, b]"
    and sg: "sg = (if c < 0 then ''-'' else '''')" and w: "w = digits_of (\<bar>c\<bar> div 100)"
    and ab: "a = digit_char (\<bar>c\<bar> mod 100 div 10)" "b = digit_char (\<bar>c\<bar> mod 10)"
    by (rule formatCents_shape)
  have r: "0 \<le> \<bar>c\<bar> mod 100 div 10" "\<bar>c\<bar> mod 100 div 10 < 10" by auto
  have dw: "list_all is_digit w" by (simp add: w digits_of_digits)
  have dab: "is_digit a" "is_digit b" using r by (simp_all add: ab)
  obtain d ds where wd: "w = d # ds" "is_digit d" "list_all is_digit ds"
    using digits_of_hd [of "\<bar>c\<bar> div 100"] w by auto
  have first: "take 1 (formatCents c) = ''-'' \<longleftrightarrow> c < 0"
    using wd(2) by (auto simp: f sg wd(1))
  have body: "(if c < 0 then drop 1 (formatCents c) else formatCents c) = w @ CHR ''.'' # [a, b]"
    by (simp add: f sg)
  have pat: "moneyPattern (formatCents c)"
    unfolding moneyPattern_def Let_def first body
    using dw dab wd by (simp add: takeWhile_digits)
  have num: "number_of w * 100 + number_of (take 2 (padEnd 2 (CHR ''0'') [a, b])) = \<bar>c\<bar>"
  proof -
    have "number_of [a, b] = 10 * (\<bar>c\<bar> mod 100 div 10) + \<bar>c\<bar> mod 10"
      using r by (simp add: number_of_def ab)
    moreover have "number_of w = \<bar>c\<bar> div 100" by (simp add: w)
    moreover have "10 * (\<bar>c\<bar> mod 100 div 10) + \<bar>c\<bar> mod 10 = \<bar>c\<bar> mod 100"
      using mult_div_mod_eq [of 10 "\<bar>c\<bar> mod 100"] by (simp add: mod_mod_cancel)
    moreover have "\<bar>c\<bar> div 100 * 100 + \<bar>c\<bar> mod 100 = \<bar>c\<bar>" by simp
    ultimately show ?thesis by (simp add: padEnd_def)
  qed
  have "formatCents c \<noteq> ''''" by (simp add: f)
  with pat show ?thesis
    unfolding parseMoneyToCents_def option.case Let_def first body
    using num takeWhile_digits [OF not_dot_digits [OF dw], of "CHR ''.''" "[a, b]"] by simp
qed

lemma addMoney_format [simp]: "addMoney (Some (formatCents c)) n = Inr (n + c)"
  by (simp add: addMoney_def)

lemma addMoney_None [simp]: "addMoney None n = Inr n"
  by (simp add: addMoney_def)

lemma addMoney_format_opt [simp]: "addMoney (map_option formatCents m) n = Inr (n + nullish m 0)"
  by (cases m) simp_all

lemma foldE_addMoney [simp]:
  "foldE addMoney (map (\<lambda>c. Some (formatCents c)) cs) n = Inr (n + sum_list cs)"
  by (induction cs arbitrary: n) (simp_all add: add.assoc)

lemma parse_Some_cents: "parseMoneyToCents (Some s) = Inr (Some c) \<Longrightarrow> s \<noteq> '''' \<and> moneyPattern s"
  by (auto simp: parseMoneyToCents_def Let_def split: if_splits)

lemma formatCents_inj: "formatCents a = formatCents b \<Longrightarrow> a = b"
  by (metis Inr_inject option.inject parse_formatCents)

section \<open>Price resolution\<close>

record PriceModifierInput =
  pm_optionId :: uuid
  pm_priceDelta :: string

record PriceResolutionInput =
  pri_storeOverridePrice :: "string option"
  pri_priceListPrice :: "string option"
  pri_variantBasePrice :: "string option"
  pri_productBasePrice :: "string option"
  pri_modifiers :: "PriceModifierInput list"

record PriceResolutionResult =
  prr_basePrice :: "string option"
  prr_modifierTotal :: string
  prr_finalPrice :: string
  prr_source :: PriceSource
  prr_modifierBreakdown :: "PriceModifierInput list"

text \<open>\<open>sources.find(([, price]) => parseMoneyToCents(price) !== null)\<close>; a bad price throws.\<close>

fun find_priced ::
  "(PriceSource \<times> string option) list \<Rightarrow> error + (PriceSource \<times> string option) option" where
  "find_priced [] = Inr None"
| "find_priced ((src, price) # rest) =
     bnd (parseMoneyToCents price) (\<lambda>c.
       if c \<noteq> None then Inr (Some (src, price)) else find_priced rest)"

definition resolvePrice :: "PriceResolutionInput \<Rightarrow> error + PriceResolutionResult" where
  "resolvePrice input =
     (let modifiers = pri_modifiers input in
      bnd (foldE (\<lambda>m. addMoney (Some (pm_priceDelta m))) modifiers 0) (\<lambda>modifierTotalCents.
      bnd (find_priced
             [(StoreOverride, pri_storeOverridePrice input),
              (PriceListSource, pri_priceListPrice input),
              (VariantBase, pri_variantBasePrice input),
              (ProductBase, pri_productBasePrice input)]) (\<lambda>found.
      let resolvedSource = nullish found (NoSource, None);
          src = fst resolvedSource;
          rawBasePrice = snd resolvedSource in
      bnd (parseMoneyToCents rawBasePrice) (\<lambda>basePriceCents.
      Inr \<lparr>prr_basePrice = map_option formatCents basePriceCents,
           prr_modifierTotal = formatCents modifierTotalCents,
           prr_finalPrice = formatCents (nullish basePriceCents 0 + modifierTotalCents),
           prr_source = src,
           prr_modifierBreakdown = modifiers\<rparr>))))"

text \<open>The prices a selection has, each with where it comes from, as cents.\<close>

definition price_candidates ::
  "int option \<Rightarrow> int option \<Rightarrow> int option \<Rightarrow> int option \<Rightarrow> (PriceSource \<times> int) list" where
  "price_candidates ov pl vb pb =
     List.map_filter (\<lambda>(s, p). map_option (Pair s) p)
       [(StoreOverride, ov), (PriceListSource, pl), (VariantBase, vb), (ProductBase, pb)]"

definition price_input ::
  "int option \<Rightarrow> int option \<Rightarrow> int option \<Rightarrow> int option \<Rightarrow> PriceModifierInput list \<Rightarrow>
   PriceResolutionInput" where
  "price_input ov pl vb pb ms =
     \<lparr>pri_storeOverridePrice = map_option formatCents ov,
      pri_priceListPrice = map_option formatCents pl,
      pri_variantBasePrice = map_option formatCents vb,
      pri_productBasePrice = map_option formatCents pb,
      pri_modifiers = ms\<rparr>"

lemma parse_map_formatCents [simp]:
  "parseMoneyToCents (map_option formatCents m) = Inr m"
  by (cases m) simp_all

lemma foldE_addMoney_map [simp]:
  "foldE (\<lambda>m. addMoney (Some (formatCents (f m)))) ms n = Inr (n + sum_list (map f ms))"
  by (induction ms arbitrary: n) (simp_all add: add.assoc)

lemma resolvePrice_cents:
  assumes ms: "foldE (\<lambda>m. addMoney (Some (pm_priceDelta m))) ms 0 = Inr mt"
    and fst: "(src, b) = (case price_candidates ov pl vb pb of [] \<Rightarrow> (NoSource, None)
                | (s, p) # _ \<Rightarrow> (s, Some p))"
  shows "resolvePrice (price_input ov pl vb pb ms) =
     Inr \<lparr>prr_basePrice = map_option formatCents b, prr_modifierTotal = formatCents mt,
          prr_finalPrice = formatCents (nullish b 0 + mt), prr_source = src,
          prr_modifierBreakdown = ms\<rparr>"
  using fst
  by (cases ov; cases pl; cases vb; cases pb)
    (simp_all add: resolvePrice_def price_input_def price_candidates_def ms map_filter_simps Let_def)

lemma resolvePrice_errors:
  "resolvePrice input = Inl e \<Longrightarrow> \<exists>s. e = JsError (''Invalid money value: '' @ s) \<and> \<not> moneyPattern s"
proof -
  have parse: "parseMoneyToCents v = Inl e \<Longrightarrow>
      \<exists>s. e = JsError (''Invalid money value: '' @ s) \<and> \<not> moneyPattern s" for v e
    by (auto simp: parseMoneyToCents_def Let_def split: option.splits if_splits)
  have fold: "foldE (\<lambda>m. addMoney (Some (pm_priceDelta m))) ms n = Inl e \<Longrightarrow>
      \<exists>s. e = JsError (''Invalid money value: '' @ s) \<and> \<not> moneyPattern s" for ms n e
    by (induction ms arbitrary: n) (auto simp: addMoney_def bnd_eq_Inl dest: parse)
  have found: "find_priced xs = Inl e \<Longrightarrow>
      \<exists>s. e = JsError (''Invalid money value: '' @ s) \<and> \<not> moneyPattern s" for xs e
    by (induction xs rule: find_priced.induct) (auto simp: bnd_eq_Inl split: if_splits dest: parse)
  assume "resolvePrice input = Inl e"
  then show ?thesis
    unfolding resolvePrice_def Let_def
    by (auto simp: bnd_eq_Inl simp del: find_priced.simps split: prod.splits
        dest: parse fold found)
qed

section \<open>Line and cart totals\<close>

record CalculatedLineTotals =
  lt_modifierTotal :: string
  lt_lineTotal :: string

record CalculatedCartTotals =
  ct_subtotal :: string
  ct_modifierTotal :: string
  ct_discountTotal :: string
  ct_total :: string

definition calculateLineTotals ::
  "int \<Rightarrow> string option \<Rightarrow> string list \<Rightarrow> error + CalculatedLineTotals" where
  "calculateLineTotals quantity unitBasePrice modifierPriceDeltas =
     bnd (parseMoneyToCents unitBasePrice) (\<lambda>unitBase.
     bnd (foldE (\<lambda>v. addMoney (Some v)) modifierPriceDeltas 0) (\<lambda>modifierPerUnitCents.
     let unitBasePriceCents = nullish unitBase 0;
         modifierTotalCents = modifierPerUnitCents * quantity;
         lineTotalCents = unitBasePriceCents * quantity + modifierTotalCents
     in Inr \<lparr>lt_modifierTotal = formatCents modifierTotalCents,
             lt_lineTotal = formatCents lineTotalCents\<rparr>))"

text \<open>A cart item as the totals see it: quantity, unit base price, modifier total.\<close>

record TotalsItem =
  ti_quantity :: int
  ti_unitBasePrice :: "string option"
  ti_modifierTotal :: string

definition calculateCartTotals ::
  "TotalsItem list \<Rightarrow> string option \<Rightarrow> string option \<Rightarrow> error + CalculatedCartTotals" where
  "calculateCartTotals items fulfillmentFee discountTotal =
     bnd (foldE (\<lambda>item acc. bnd (parseMoneyToCents (ti_unitBasePrice item)) (\<lambda>c.
            Inr (acc + nullish c 0 * ti_quantity item))) items 0) (\<lambda>subtotalCents.
     bnd (foldE (\<lambda>item. addMoney (Some (ti_modifierTotal item))) items 0) (\<lambda>modifierTotalCents.
     bnd (parseMoneyToCents fulfillmentFee) (\<lambda>fee.
     bnd (parseMoneyToCents discountTotal) (\<lambda>disc.
     let fulfillmentFeeCents = nullish fee 0;
         discountTotalCents = max 0 (nullish disc 0);
         grossTotalCents = subtotalCents + modifierTotalCents + fulfillmentFeeCents
     in Inr \<lparr>ct_subtotal = formatCents subtotalCents,
             ct_modifierTotal = formatCents modifierTotalCents,
             ct_discountTotal = formatCents (min grossTotalCents discountTotalCents),
             ct_total = formatCents (max 0 (grossTotalCents - discountTotalCents))\<rparr>))))"

text \<open>
  The same totals on cents: what the string computation refines. \<open>items\<close> are triples of
  quantity, unit price and modifier total.
\<close>

record cents_totals =
  c_subtotal :: int
  c_modifierTotal :: int
  c_discountTotal :: int
  c_total :: int

definition cart_gross :: "(int \<times> int option \<times> int) list \<Rightarrow> int \<Rightarrow> int" where
  "cart_gross items fee =
     (\<Sum>(q, b, m)\<leftarrow>items. nullish b 0 * q) + (\<Sum>(q, b, m)\<leftarrow>items. m) + fee"

definition cents_cart_totals :: "(int \<times> int option \<times> int) list \<Rightarrow> int \<Rightarrow> int \<Rightarrow> cents_totals" where
  "cents_cart_totals items fee disc =
     \<lparr>c_subtotal = (\<Sum>(q, b, m)\<leftarrow>items. nullish b 0 * q),
      c_modifierTotal = (\<Sum>(q, b, m)\<leftarrow>items. m),
      c_discountTotal = min (cart_gross items fee) (max 0 disc),
      c_total = max 0 (cart_gross items fee - max 0 disc)\<rparr>"

definition totals_item :: "int \<times> int option \<times> int \<Rightarrow> TotalsItem" where
  "totals_item = (\<lambda>(q, b, m). \<lparr>ti_quantity = q, ti_unitBasePrice = map_option formatCents b,
     ti_modifierTotal = formatCents m\<rparr>)"

definition format_totals :: "cents_totals \<Rightarrow> CalculatedCartTotals" where
  "format_totals t = \<lparr>ct_subtotal = formatCents (c_subtotal t),
     ct_modifierTotal = formatCents (c_modifierTotal t),
     ct_discountTotal = formatCents (c_discountTotal t), ct_total = formatCents (c_total t)\<rparr>"

lemma calculateLineTotals_cents [simp]:
  "calculateLineTotals q (map_option formatCents b) (map formatCents ds) =
     Inr \<lparr>lt_modifierTotal = formatCents (sum_list ds * q),
          lt_lineTotal = formatCents ((nullish b 0 + sum_list ds) * q)\<rparr>"
proof -
  have "foldE (\<lambda>v. addMoney (Some v)) (map formatCents ds) n = Inr (n + sum_list ds)" for n
    by (induction ds arbitrary: n) (simp_all add: add.assoc)
  then show ?thesis by (simp add: calculateLineTotals_def Let_def algebra_simps)
qed

lemma subtotal_cents:
  "foldE (\<lambda>item acc. bnd (parseMoneyToCents (ti_unitBasePrice item)) (\<lambda>c.
      Inr (acc + nullish c 0 * ti_quantity item))) (map totals_item items) n =
   Inr (n + (\<Sum>(q, b, m)\<leftarrow>items. nullish b 0 * q))"
  by (induction items arbitrary: n) (auto simp: totals_item_def add.assoc)

lemma modifier_cents:
  "foldE (\<lambda>item. addMoney (Some (ti_modifierTotal item))) (map totals_item items) n =
   Inr (n + (\<Sum>(q, b, m)\<leftarrow>items. m))"
  by (induction items arbitrary: n) (auto simp: totals_item_def add.assoc)

lemma calculateCartTotals_cents:
  "calculateCartTotals (map totals_item items) (Some (formatCents fee)) (Some (formatCents disc)) =
     Inr (format_totals (cents_cart_totals items fee disc))"
  by (simp add: calculateCartTotals_def subtotal_cents modifier_cents format_totals_def
      cents_cart_totals_def cart_gross_def Let_def)

lemma cents_totals_bounds:
  assumes "0 \<le> cart_gross items fee"
  shows "0 \<le> c_total (cents_cart_totals items fee disc)"
    and "c_total (cents_cart_totals items fee disc) + c_discountTotal (cents_cart_totals items fee disc)
      = cart_gross items fee"
    and "0 \<le> c_discountTotal (cents_cart_totals items fee disc)"
  using assms by (auto simp: cents_cart_totals_def)

text \<open>The totals computed from a discount already bounded by the totals do not move again.\<close>

lemma cents_totals_idem:
  assumes "0 \<le> cart_gross items fee"
  shows "cents_cart_totals items fee (c_discountTotal (cents_cart_totals items fee disc)) =
    cents_cart_totals items fee disc"
  using assms by (auto simp: cents_cart_totals_def)

section \<open>Payment allocations at the point of sale\<close>

record PaymentAllocationInput =
  pa_method :: PaymentMethodKind
  pa_amount :: string

definition addAllocation :: "PaymentAllocationInput \<Rightarrow> int \<Rightarrow> error + int" where
  "addAllocation allocation acc =
     bnd (parseMoneyToCents (Some (pa_amount allocation))) (\<lambda>c.
       case c of
         None \<Rightarrow> Inl (BadRequestException ''Payment allocation amount must be greater than zero.'')
       | Some cents \<Rightarrow>
           if cents \<le> 0
           then Inl (BadRequestException ''Payment allocation amount must be greater than zero.'')
           else Inr (acc + cents))"

definition validatePaymentAllocations ::
  "PaymentAllocationInput list \<Rightarrow> string \<Rightarrow> error + string" where
  "validatePaymentAllocations allocations orderTotal =
     bnd (ensure (allocations \<noteq> []) (BadRequestException ''At least one payment allocation is required.'')) (\<lambda>_.
     bnd (parseMoneyToCents (Some orderTotal)) (\<lambda>total.
     bnd (foldE addAllocation allocations 0) (\<lambda>allocationTotalCents.
     bnd (ensure (allocationTotalCents = nullish total 0)
            (BadRequestException ''Payment allocations must match the order total.'')) (\<lambda>_.
     Inr (formatCents allocationTotalCents)))))"

lemma addAllocation_Inr:
  "addAllocation a acc = Inr acc' \<longleftrightarrow>
     (\<exists>c. parseMoneyToCents (Some (pa_amount a)) = Inr (Some c) \<and> 0 < c \<and> acc' = acc + c)"
proof (cases "parseMoneyToCents (Some (pa_amount a))")
  case Inl
  then show ?thesis by (simp add: addAllocation_def)
next
  case (Inr m)
  then show ?thesis by (cases m) (auto simp: addAllocation_def)
qed

lemma foldE_addAllocation:
  "foldE addAllocation as acc = Inr t \<longleftrightarrow>
     (\<exists>cs. map (\<lambda>a. parseMoneyToCents (Some (pa_amount a))) as = map (\<lambda>c. Inr (Some c)) cs \<and>
           (\<forall>c \<in> set cs. 0 < c) \<and> t = acc + sum_list cs)"
proof (induction as arbitrary: acc)
  case Nil
  then show ?case by auto
next
  case (Cons a as)
  show ?case (is "?L \<longleftrightarrow> ?R")
  proof
    assume ?L
    then obtain c where c: "parseMoneyToCents (Some (pa_amount a)) = Inr (Some c)" "0 < c"
      and "foldE addAllocation as (acc + c) = Inr t"
      by (auto simp: addAllocation_Inr)
    then obtain cs where "map (\<lambda>a. parseMoneyToCents (Some (pa_amount a))) as = map (\<lambda>c. Inr (Some c)) cs"
      "\<forall>c \<in> set cs. 0 < c" "t = acc + c + sum_list cs"
      using Cons.IH by blast
    with c show ?R by (intro exI [of _ "c # cs"]) auto
  next
    assume ?R
    then obtain cs where "map (\<lambda>a. parseMoneyToCents (Some (pa_amount a))) (a # as) = map (\<lambda>c. Inr (Some c)) cs"
      "\<forall>c \<in> set cs. 0 < c" "t = acc + sum_list cs" by blast
    then obtain c cs' where "cs = c # cs'" "parseMoneyToCents (Some (pa_amount a)) = Inr (Some c)"
      "0 < c" "foldE addAllocation as (acc + c) = Inr t"
      using Cons.IH [of "acc + hd cs"] by (cases cs) auto
    then show ?L by (simp add: addAllocation_Inr)
  qed
qed

end
