(* ===== verification/Calendar.thy ===== *)
theory Calendar
  imports Types
begin

text \<open>
  Instants are milliseconds since the epoch. \<open>Date.toISOString\<close> writes one in the proleptic
  Gregorian calendar; outside the range a \<open>Date\<close> can hold it throws.
\<close>

definition civil_from_days :: "int \<Rightarrow> int \<times> int \<times> int" where
  "civil_from_days days =
     (let z = days + 719468;
          era = z div 146097;
          doe = z - era * 146097;
          yoe = (doe - doe div 1460 + doe div 36524 - doe div 146096) div 365;
          doy = doe - (365 * yoe + yoe div 4 - yoe div 100);
          mp = (5 * doy + 2) div 153;
          d = doy - (153 * mp + 2) div 5 + 1;
          m = (if mp < 10 then mp + 3 else mp - 9);
          y = yoe + era * 400 + (if m \<le> 2 then 1 else 0)
      in (y, m, d))"

definition pad_number :: "nat \<Rightarrow> int \<Rightarrow> string" where
  "pad_number w n = padStart w (CHR ''0'') (digits_of n)"

definition iso_year :: "int \<Rightarrow> string" where
  "iso_year y = (if 0 \<le> y \<and> y \<le> 9999 then pad_number 4 y
     else if y < 0 then ''-'' @ pad_number 6 (- y) else ''+'' @ pad_number 6 y)"

definition toISOString :: "instant \<Rightarrow> string" where
  "toISOString t =
     (let (y, m, d) = civil_from_days (t div 86400000); r = t mod 86400000
      in iso_year y @ ''-'' @ pad_number 2 m @ ''-'' @ pad_number 2 d @ ''T'' @
         pad_number 2 (r div 3600000) @ '':'' @ pad_number 2 (r div 60000 mod 60) @ '':'' @
         pad_number 2 (r div 1000 mod 60) @ ''.'' @ pad_number 3 (r mod 1000) @ ''Z'')"

definition valid_instant :: "instant \<Rightarrow> bool" where
  "valid_instant t \<longleftrightarrow> \<bar>t\<bar> \<le> 8640000000000000"

definition jdate :: "instant option \<Rightarrow> json" where
  "jdate m = jopt (map_option toISOString m)"

text \<open>The calendar at the epoch, at a leap day and just before the epoch.\<close>

lemma iso_epoch: "toISOString 0 = ''1970-01-01T00:00:00.000Z''"
  by code_simp

lemma iso_leap_day: "toISOString 1709164799999 = ''2024-02-28T23:59:59.999Z''"
  "toISOString 1709164800000 = ''2024-02-29T00:00:00.000Z''"
  by code_simp+

lemma iso_before_epoch: "toISOString (- 1) = ''1969-12-31T23:59:59.999Z''"
  by code_simp

lemma pad_number_digits:
  assumes "0 \<le> n"
  shows "number_of (pad_number w n) = n" "list_all is_digit (pad_number w n)"
    "n < 10 ^ Suc v \<Longrightarrow> length (pad_number (Suc v) n) = Suc v"
  using assms length_digits_of [of n v]
  by (auto simp: pad_number_def padStart_def number_of_padded digits_of_digits list_all_iff
      is_digit_def code_def split: if_splits)
    (use digits_of_digits [OF assms] in \<open>auto simp: list_all_iff is_digit_def code_def\<close>)

section \<open>Reading an instant back\<close>

text \<open>
  \<open>new Date(text)\<close> for a text in the format \<open>toISOString\<close> writes; other texts are not read.
\<close>

definition days_from_civil :: "int \<Rightarrow> int \<Rightarrow> int \<Rightarrow> int" where
  "days_from_civil y m d =
     (let y' = (if m \<le> 2 then y - 1 else y);
          era = y' div 400;
          yoe = y' - era * 400;
          mp = (if m > 2 then m - 3 else m + 9);
          doy = (153 * mp + 2) div 5 + d - 1;
          doe = yoe * 365 + yoe div 4 - yoe div 100 + doy
      in era * 146097 + doe - 719468)"

definition iso_shape :: "string \<Rightarrow> bool" where
  "iso_shape rest = list_all2 (\<lambda>p c. if p = CHR ''0'' then is_digit c else c = p)
     ''-00-00T00:00:00.000Z'' rest"

definition digits_at :: "nat \<Rightarrow> nat \<Rightarrow> string \<Rightarrow> int" where
  "digits_at k n s = number_of (take n (drop k s))"

definition split_year :: "string \<Rightarrow> int \<times> string" where
  "split_year s =
     (if take 1 s = ''-'' then (- digits_at 1 6 s, drop 7 s)
      else if take 1 s = ''+'' then (digits_at 1 6 s, drop 7 s)
      else (digits_at 0 4 s, drop 4 s))"

definition parse_iso :: "string \<Rightarrow> instant option" where
  "parse_iso s =
     (let (year, rest) = split_year s in
      if iso_shape rest
      then Some (days_from_civil year (digits_at 1 2 rest) (digits_at 4 2 rest) * 86400000 +
        digits_at 7 2 rest * 3600000 + digits_at 10 2 rest * 60000 + digits_at 13 2 rest * 1000 +
        digits_at 16 3 rest)
      else None)"

text \<open>A day of a 400 year era is a century, a group of four years, a year and a day of that year.\<close>

lemma era_split:
  fixes doe :: int
  assumes "0 \<le> doe" "doe < 146097"
  obtains c f y e where "doe = 36524 * c + 1461 * f + 365 * y + e"
    "0 \<le> c" "c \<le> 3" "0 \<le> f" "f \<le> 24" "0 \<le> y" "y \<le> 3" "0 \<le> e" "e \<le> 365" "e = 365 \<longrightarrow> y = 3"
    "c < 3 \<longrightarrow> doe < 36524 * (c + 1)"
proof -
  define c where "c = (if doe = 146096 then 3 else doe div 36524)"
  define dc where "dc = doe - 36524 * c"
  have c: "0 \<le> c" "c \<le> 3" "c < 3 \<Longrightarrow> doe < 36524 * (c + 1)" using assms by (auto simp: c_def)
  have dc: "0 \<le> dc" "dc \<le> 36524" using assms by (auto simp: c_def dc_def)
  define f where "f = dc div 1461"
  define df where "df = dc - 1461 * f"
  have f: "0 \<le> f" "f \<le> 24" "0 \<le> df" "df \<le> 1460" using dc by (auto simp: f_def df_def)
  define y where "y = (if df = 1460 then 3 else df div 365)"
  have y: "0 \<le> y" "y \<le> 3" "0 \<le> df - 365 * y" "df - 365 * y \<le> 365" "df - 365 * y = 365 \<Longrightarrow> y = 3"
    using f by (auto simp: y_def)
  show thesis
    by (rule that [of c f y "df - 365 * y"]) (use c f y in \<open>auto simp: df_def dc_def\<close>)
qed

lemma civil_bounds:
  fixes doe :: int
  assumes "0 \<le> doe" "doe < 146097"
  defines "yoe \<equiv> (doe - doe div 1460 + doe div 36524 - doe div 146096) div 365"
  defines "doy \<equiv> doe - (365 * yoe + yoe div 4 - yoe div 100)"
  shows "0 \<le> yoe" "yoe < 400" "0 \<le> doy" "doy \<le> 365"
proof -
  obtain c f y e where d: "doe = 36524 * c + 1461 * f + 365 * y + e"
    and b: "0 \<le> c" "c \<le> 3" "0 \<le> f" "f \<le> 24" "0 \<le> y" "y \<le> 3" "0 \<le> e" "e \<le> 365" "e = 365 \<longrightarrow> y = 3"
      "c < 3 \<longrightarrow> doe < 36524 * (c + 1)"
    by (rule era_split [OF assms(1,2)])
  have g: "doe div 1460 = 25 * c + f + (if 24 * c + f + 365 * y + e \<ge> 1460 then 1 else 0)"
    using d b by auto
  have h: "doe div 36524 - doe div 146096 = c"
  proof (cases "doe = 146096")
    case True
    with b show ?thesis by auto
  next
    case False
    have z: "doe div 146096 = 0" using False assms(1,2) by auto
    have "36524 * c \<le> doe" using d b by linarith
    moreover have "doe < 36524 * (c + 1)" using b(2,10) False assms(2) by (cases "c = 3") auto
    ultimately have "doe div 36524 = c" by (intro int_div_pos_eq [of _ _ _ "doe - 36524 * c"]) auto
    with z show ?thesis by simp
  qed
  have "doe - doe div 1460 + doe div 36524 - doe div 146096 =
      365 * (100 * c + 4 * f + y) + (e - (if 24 * c + f + 365 * y + e \<ge> 1460 then 1 else 0))"
    using d g h by simp
  moreover have "0 \<le> e - (if 24 * c + f + 365 * y + e \<ge> 1460 then 1 else 0)"
    "e - (if 24 * c + f + 365 * y + e \<ge> 1460 then 1 else 0) < 365" using b by auto
  ultimately have yoe: "yoe = 100 * c + 4 * f + y" unfolding yoe_def by simp
  have "yoe div 4 = 25 * c + f" "yoe div 100 = c" using b unfolding yoe by auto
  then have "doy = e" unfolding doy_def using d yoe by simp
  then show "0 \<le> yoe" "yoe < 400" "0 \<le> doy" "doy \<le> 365" using yoe b by auto
qed

lemma days_from_civil_inverse:
  assumes "civil_from_days z = (y, m, d)"
  shows "days_from_civil y m d = z" "1 \<le> m" "m \<le> 12" "1 \<le> d" "d \<le> 31"
proof -
  define doe where "doe = z + 719468 - (z + 719468) div 146097 * 146097"
  define yoe where "yoe = (doe - doe div 1460 + doe div 36524 - doe div 146096) div 365"
  define doy where "doy = doe - (365 * yoe + yoe div 4 - yoe div 100)"
  define mp where "mp = (5 * doy + 2) div 153"
  have doe: "0 \<le> doe" "doe < 146097" by (auto simp: doe_def)
  note B = civil_bounds [OF doe, folded yoe_def, folded doy_def]
  have mp: "0 \<le> mp" "mp \<le> 11" using B by (auto simp: mp_def)
  have y: "y = yoe + (z + 719468) div 146097 * 400 + (if m \<le> 2 then 1 else 0)"
    and m: "m = (if mp < 10 then mp + 3 else mp - 9)" and d: "d = doy - (153 * mp + 2) div 5 + 1"
    using assms unfolding civil_from_days_def Let_def doe_def [symmetric] yoe_def [symmetric]
      doy_def [symmetric] mp_def [symmetric] by auto
  show "1 \<le> m" "m \<le> 12" using m mp by auto
  show "1 \<le> d" "d \<le> 31" using B unfolding d mp_def by auto
  have y': "(if m \<le> 2 then y - 1 else y) = yoe + (z + 719468) div 146097 * 400" using y by simp
  have era: "(yoe + (z + 719468) div 146097 * 400) div 400 = (z + 719468) div 146097" using B by simp
  have mp': "(if m > 2 then m - 3 else m + 9) = mp" using m mp by auto
  show "days_from_civil y m d = z"
    unfolding days_from_civil_def y' era mp' Let_def using doy_def by (simp add: d) (simp add: doe_def)
qed

lemma civil_year_bound:
  assumes "civil_from_days z = (y, m, d)" and "\<bar>z\<bar> \<le> 100000000"
  shows "\<bar>y\<bar> < 1000000"
proof -
  define doe where "doe = z + 719468 - (z + 719468) div 146097 * 146097"
  define yoe where "yoe = (doe - doe div 1460 + doe div 36524 - doe div 146096) div 365"
  have "0 \<le> doe" "doe < 146097" by (auto simp: doe_def)
  then have yoe: "0 \<le> yoe" "yoe < 400" using civil_bounds(1,2) by (simp_all add: yoe_def)
  have era: "- 1000 \<le> (z + 719468) div 146097" "(z + 719468) div 146097 \<le> 1000" using assms(2) by linarith+
  define doy where "doy = doe - (365 * yoe + yoe div 4 - yoe div 100)"
  define mp where "mp = (5 * doy + 2) div 153"
  have "y = yoe + (z + 719468) div 146097 * 400 + (if m \<le> 2 then 1 else 0)"
    using assms(1) unfolding civil_from_days_def Let_def doe_def [symmetric] yoe_def [symmetric]
      doy_def [symmetric] mp_def [symmetric] by auto
  with yoe era show ?thesis by (auto split: if_splits)
qed

lemma length_2: "length xs = 2 \<longleftrightarrow> (\<exists>a b. xs = [a, b])"
  by (cases xs; cases "tl xs"; simp)

lemma length_3: "length xs = 3 \<longleftrightarrow> (\<exists>a b c. xs = [a, b, c])"
  by (cases xs; cases "tl xs"; cases "tl (tl xs)"; simp)

lemma pad_2:
  assumes "0 \<le> n" "n < 100"
  obtains a b where "pad_number 2 n = [a, b]" "is_digit a" "is_digit b" "number_of [a, b] = n"
proof -
  have "length (pad_number 2 n) = 2"
    using pad_number_digits(3) [of n 1] assms by (simp add: numeral_2_eq_2 [symmetric])
  then obtain a b where p: "pad_number 2 n = [a, b]" by (auto simp: length_2)
  then show thesis using pad_number_digits(1,2) [OF assms(1), of 2] by (intro that [OF p]) simp_all
qed

lemma pad_3:
  assumes "0 \<le> n" "n < 1000"
  obtains a b c where "pad_number 3 n = [a, b, c]" "is_digit a" "is_digit b" "is_digit c"
    "number_of [a, b, c] = n"
proof -
  have "length (pad_number 3 n) = 3"
    using pad_number_digits(3) [of n 2] assms by (simp add: numeral_3_eq_3 numeral_2_eq_2)
  then obtain a b c where p: "pad_number 3 n = [a, b, c]" by (auto simp: length_3)
  then show thesis using pad_number_digits(1,2) [OF assms(1), of 3] by (intro that [OF p]) simp_all
qed

lemma split_year_iso:
  assumes "\<bar>y\<bar> < 1000000"
  shows "split_year (iso_year y @ rest) = (y, rest)"
proof -
  have six: "length (pad_number 6 n) = 6" "number_of (pad_number 6 n) = n" if "0 \<le> n" "n < 1000000" for n
    using pad_number_digits(1) [of n 6] pad_number_digits(3) [of n 5] that by (simp_all add: numeral_eq_Suc)
  have four: "length (pad_number 4 n) = 4" "number_of (pad_number 4 n) = n" "list_all is_digit (pad_number 4 n)"
    if "0 \<le> n" "n \<le> 9999" for n
    using pad_number_digits [of n 4] pad_number_digits(3) [of n 3] that by (simp_all add: numeral_eq_Suc)
  consider "y < 0" | "0 \<le> y" "y \<le> 9999" | "9999 < y" by linarith
  then show ?thesis
  proof cases
    case 1
    with assms six [of "- y"] show ?thesis by (simp add: iso_year_def split_year_def digits_at_def numeral_eq_Suc)
  next
    case 2
    obtain c cs where p: "pad_number 4 y = c # cs" using four(1) [OF 2] by (cases "pad_number 4 y") auto
    then have "is_digit c" using four(3) [OF 2] by simp
    then have "c \<noteq> CHR ''-''" "c \<noteq> CHR ''+''" by (auto simp: is_digit_def code_def)
    then show ?thesis using four [OF 2] p 2
      by (simp add: iso_year_def split_year_def digits_at_def del: number_of_snoc)
  next
    case 3
    with assms six [of y] show ?thesis by (simp add: iso_year_def split_year_def digits_at_def numeral_eq_Suc)
  qed
qed

text \<open>\<open>new Date(date.toISOString())\<close> is the same instant.\<close>

lemma parse_iso_toISOString:
  assumes "valid_instant t"
  shows "parse_iso (toISOString t) = Some t"
proof -
  obtain y m d where c: "civil_from_days (t div 86400000) = (y, m, d)" by (metis prod_cases3)
  note D = days_from_civil_inverse [OF c]
  have y: "\<bar>y\<bar> < 1000000" by (rule civil_year_bound [OF c]) (use assms in \<open>auto simp: valid_instant_def\<close>)
  define r where "r = t mod 86400000"
  have r: "0 \<le> r" "r < 86400000" by (simp_all add: r_def)
  have hour: "0 \<le> r div 3600000" "r div 3600000 < 100" using r by linarith+
  have mins: "0 \<le> r div 60000 mod 60" "r div 60000 mod 60 < 100"
    "0 \<le> r div 1000 mod 60" "r div 1000 mod 60 < 100" by linarith+
  obtain m1 m2 where m: "pad_number 2 m = [m1, m2]" "is_digit m1" "is_digit m2" "number_of [m1, m2] = m"
    using pad_2 [of m] D by auto
  obtain d1 d2 where d: "pad_number 2 d = [d1, d2]" "is_digit d1" "is_digit d2" "number_of [d1, d2] = d"
    using pad_2 [of d] D by auto
  obtain h1 h2 where h: "pad_number 2 (r div 3600000) = [h1, h2]" "is_digit h1" "is_digit h2"
    "number_of [h1, h2] = r div 3600000"
    using pad_2 [of "r div 3600000"] hour by blast
  obtain i1 i2 where i: "pad_number 2 (r div 60000 mod 60) = [i1, i2]" "is_digit i1" "is_digit i2"
    "number_of [i1, i2] = r div 60000 mod 60" using pad_2 [of "r div 60000 mod 60"] mins(1,2) by blast
  obtain s1 s2 where s: "pad_number 2 (r div 1000 mod 60) = [s1, s2]" "is_digit s1" "is_digit s2"
    "number_of [s1, s2] = r div 1000 mod 60" using pad_2 [of "r div 1000 mod 60"] mins(3,4) by blast
  obtain u1 u2 u3 where u: "pad_number 3 (r mod 1000) = [u1, u2, u3]" "is_digit u1" "is_digit u2" "is_digit u3"
    "number_of [u1, u2, u3] = r mod 1000" using pad_3 [of "r mod 1000"] by auto
  have iso: "toISOString t = iso_year y @ [CHR ''-'', m1, m2, CHR ''-'', d1, d2, CHR ''T'', h1, h2, CHR '':'',
      i1, i2, CHR '':'', s1, s2, CHR ''.'', u1, u2, u3, CHR ''Z'']"
    by (simp add: toISOString_def c Let_def r_def [symmetric] m d h i s u)
  have sum: "(t div 86400000) * 86400000 + r div 3600000 * 3600000 + r div 60000 mod 60 * 60000 +
      r div 1000 mod 60 * 1000 + r mod 1000 = t"
  proof -
    have q: "r div 1000 div 60 = r div 60000" "r div 60000 div 60 = r div 3600000"
      by (simp_all add: zdiv_zmult2_eq [symmetric])
    have "t = t div 86400000 * 86400000 + r" unfolding r_def by simp
    moreover have "r = r div 1000 * 1000 + r mod 1000" by simp
    moreover have "r div 1000 = r div 1000 div 60 * 60 + r div 1000 mod 60" by simp
    moreover have "r div 60000 = r div 60000 div 60 * 60 + r div 60000 mod 60" by simp
    ultimately show ?thesis unfolding q by linarith
  qed
  let ?rest = "[CHR ''-'', m1, m2, CHR ''-'', d1, d2, CHR ''T'', h1, h2, CHR '':'',
      i1, i2, CHR '':'', s1, s2, CHR ''.'', u1, u2, u3, CHR ''Z'']"
  have at: "digits_at 1 2 ?rest = m" "digits_at 4 2 ?rest = d" "digits_at 7 2 ?rest = r div 3600000"
    "digits_at 10 2 ?rest = r div 60000 mod 60" "digits_at 13 2 ?rest = r div 1000 mod 60"
    "digits_at 16 3 ?rest = r mod 1000"
    using m(4) d(4) h(4) i(4) s(4) u(5) by (simp_all only: digits_at_def)
      (simp_all add: take_Cons' drop_Cons')
  have shape: "iso_shape ?rest" using m d h i s u by (simp add: iso_shape_def)
  show ?thesis
    unfolding iso parse_iso_def split_year_iso [OF y] Let_def prod.case at
    using D(1) sum shape by simp
qed

end
