(* ===== verification/Fulfillment.thy ===== *)
theory Fulfillment
  imports Money Calendar
begin

text \<open>
  How an order reaches the guest: the configuration, the selection and the quote of
  \<open>fulfillment/fulfillment-runtime.util.ts\<close>. Configurations and selections come as JSON.
\<close>

definition asFulfillmentMode :: "json option \<Rightarrow> FulfillmentMode option" where
  "asFulfillmentMode value =
     (case jstring value of
        None \<Rightarrow> None
      | Some s \<Rightarrow> if s = ''DELIVERY'' then Some FmDelivery else if s = ''PICKUP'' then Some FmPickup
                 else if s = ''DINE_IN'' then Some FmDineIn else None)"

definition asFulfillmentStatus :: "string option \<Rightarrow> FulfillmentStatus option" where
  "asFulfillmentStatus value =
     Option.bind value (map_of (map (\<lambda>s. (show_fulfillment_status s, s))
       [FsPending, FsScheduled, FsPreparing, FsReadyForPickup, FsOutForDelivery, FsDelivered,
        FsPickedUp, FsTableAssigned, FsServed]))"

definition asStringArray :: "json option \<Rightarrow> string list" where
  "asStringArray value = (case value of Some (JArr xs) \<Rightarrow> List.map_filter (\<lambda>x. jstring (Some x)) xs
     | _ \<Rightarrow> [])"

definition asRecords :: "json option \<Rightarrow> json list" where
  "asRecords value = (case value of Some (JArr xs) \<Rightarrow> filter jrecord xs | _ \<Rightarrow> [])"

definition toNumberOr :: "json option \<Rightarrow> rat \<Rightarrow> rat" where
  "toNumberOr value fallback = nullish (jnumber value) fallback"

text \<open>A string that is no amount throws; an empty one is no amount.\<close>

definition toMoney :: "json option \<Rightarrow> string \<Rightarrow> error + string" where
  "toMoney value fallback =
     (case jstring value of
        None \<Rightarrow> Inr fallback
      | Some s \<Rightarrow> bnd (parseMoneyToCents (Some s)) (\<lambda>c. Inr (if c \<noteq> None then s else fallback)))"

definition text_or :: "json option \<Rightarrow> string \<Rightarrow> string" where
  "text_or value fallback =
     (case jstring value of None \<Rightarrow> fallback | Some s \<Rightarrow> if trim s \<noteq> '''' then s else fallback)"

definition text_opt :: "json option \<Rightarrow> string option" where
  "text_opt value =
     (case jstring value of None \<Rightarrow> None | Some s \<Rightarrow> if trim s \<noteq> '''' then Some s else None)"

text \<open>\<open>input?.field\<close>: no field when the input is not an object.\<close>

definition field :: "json option \<Rightarrow> string \<Rightarrow> json option" where
  "field input k = Option.bind input (\<lambda>j. jfield j k)"

definition not_false :: "json option \<Rightarrow> bool" where
  "not_false v \<longleftrightarrow> v \<noteq> Some (JBool False)"

definition is_true :: "json option \<Rightarrow> bool" where
  "is_true v \<longleftrightarrow> v = Some (JBool True)"

section \<open>Store configuration\<close>

record DeliveryZone =
  dz_code :: string
  dz_name :: string
  dz_postalCodes :: "string list"
  dz_fee :: string
  dz_etaMinMinutes :: rat
  dz_etaMaxMinutes :: rat
  dz_slaMinutes :: rat
  dz_isActive :: bool

record PickupConfig =
  pk_enabled :: bool
  pk_leadTimeMinutes :: rat
  pk_promisedWindowMinutes :: rat
  pk_instructions :: "string option"

record DineInTable =
  dt_code :: string
  dt_label :: string
  dt_capacity :: rat
  dt_isActive :: bool

record DineInConfig =
  di_enabled :: bool
  di_leadTimeMinutes :: rat
  di_tables :: "DineInTable list"

record FulfillmentProvider =
  fp_providerKey :: string
  fp_providerType :: string
  fp_enabled :: bool

record StoreFulfillmentConfig =
  fc_storeId :: uuid
  fc_enabledModes :: "FulfillmentMode list"
  fc_defaultMode :: FulfillmentMode
  fc_deliveryZones :: "DeliveryZone list"
  fc_pickup :: PickupConfig
  fc_dineIn :: DineInConfig
  fc_providers :: "FulfillmentProvider list"

definition numbered :: "string \<Rightarrow> nat \<Rightarrow> string" where
  "numbered prefix index = prefix @ digits_of (int index + 1)"

definition normalizeDeliveryZones :: "json option \<Rightarrow> error + DeliveryZone list" where
  "normalizeDeliveryZones value =
     mapE (\<lambda>(index, entry).
       bnd (toMoney (jfield entry ''fee'') ''0.00'') (\<lambda>fee.
       Inr \<lparr>dz_code = text_or (jfield entry ''code'') (numbered ''zone-'' index),
            dz_name = text_or (jfield entry ''name'') (numbered ''Zone '' index),
            dz_postalCodes = asStringArray (jfield entry ''postalCodes''),
            dz_fee = fee,
            dz_etaMinMinutes = toNumberOr (jfield entry ''etaMinMinutes'') 20,
            dz_etaMaxMinutes = toNumberOr (jfield entry ''etaMaxMinutes'') 40,
            dz_slaMinutes = toNumberOr (jfield entry ''slaMinutes'') 60,
            dz_isActive = not_false (jfield entry ''isActive'')\<rparr>))
       (List.enumerate 0 (asRecords value))"

definition normalizePickup :: "json option \<Rightarrow> PickupConfig" where
  "normalizePickup input =
     \<lparr>pk_enabled = not_false (field input ''enabled''),
      pk_leadTimeMinutes = toNumberOr (field input ''leadTimeMinutes'') 20,
      pk_promisedWindowMinutes = toNumberOr (field input ''promisedWindowMinutes'') 15,
      pk_instructions = text_opt (field input ''instructions'')\<rparr>"

definition normalizeTables :: "json option \<Rightarrow> DineInTable list" where
  "normalizeTables value =
     map (\<lambda>(index, entry).
       \<lparr>dt_code = text_or (jfield entry ''code'') (numbered ''table-'' index),
        dt_label = text_or (jfield entry ''label'') (numbered ''Table '' index),
        dt_capacity = toNumberOr (jfield entry ''capacity'') 2,
        dt_isActive = not_false (jfield entry ''isActive'')\<rparr>)
       (List.enumerate 0 (asRecords value))"

definition normalizeDineIn :: "json option \<Rightarrow> DineInConfig" where
  "normalizeDineIn input =
     \<lparr>di_enabled = is_true (field input ''enabled''),
      di_leadTimeMinutes = toNumberOr (field input ''leadTimeMinutes'') 15,
      di_tables = normalizeTables (field input ''tables'')\<rparr>"

definition normalizeProviders :: "json option \<Rightarrow> FulfillmentProvider list" where
  "normalizeProviders value =
     map (\<lambda>(index, entry).
       \<lparr>fp_providerKey = text_or (jfield entry ''providerKey'') (numbered ''manual-'' index),
        fp_providerType =
          (if jfield entry ''providerType'' = Some (JStr ''EXTERNAL_PLACEHOLDER'')
           then ''EXTERNAL_PLACEHOLDER'' else ''MANUAL''),
        fp_enabled = not_false (jfield entry ''enabled'')\<rparr>)
       (List.enumerate 0 (asRecords value))"

text \<open>\<open>[...new Set(xs)]\<close>: the first occurrences, in order.\<close>

definition unique :: "'a list \<Rightarrow> 'a list" where
  "unique xs = rev (remdups (rev xs))"

definition resolveStoreFulfillmentConfig :: "uuid \<Rightarrow> json option \<Rightarrow> error + StoreFulfillmentConfig" where
  "resolveStoreFulfillmentConfig storeId input =
     (let enabledModes =
            (case field input ''enabledModes'' of
               Some (JArr modes) \<Rightarrow> List.map_filter (\<lambda>m. asFulfillmentMode (Some m)) modes
             | _ \<Rightarrow> [FmDelivery, FmPickup]);
          uniqueModes = unique enabledModes;
          defaultMode = nullish (asFulfillmentMode (field input ''defaultMode''))
            (case uniqueModes of [] \<Rightarrow> FmDelivery | m # _ \<Rightarrow> m)
      in bnd (normalizeDeliveryZones (field input ''deliveryZones'')) (\<lambda>zones.
         Inr \<lparr>fc_storeId = storeId,
              fc_enabledModes = (if uniqueModes \<noteq> [] then uniqueModes else [FmDelivery]),
              fc_defaultMode = defaultMode,
              fc_deliveryZones = zones,
              fc_pickup = normalizePickup (field input ''pickup''),
              fc_dineIn = normalizeDineIn (field input ''dineIn''),
              fc_providers = normalizeProviders (field input ''providers'')\<rparr>))"

section \<open>Selection and quote\<close>

record FulfillmentSelection =
  fs_mode :: FulfillmentMode
  fs_zoneCode :: "string option"
  fs_addressLine1 :: "string option"
  fs_addressLine2 :: "string option"
  fs_postalCode :: "string option"
  fs_contactless :: bool
  fs_pickupSlotLabel :: "string option"
  fs_tableCode :: "string option"
  fs_guestCount :: "rat option"
  fs_instructions :: "string option"

definition normalizeFulfillmentSelection :: "json option \<Rightarrow> FulfillmentSelection option" where
  "normalizeFulfillmentSelection input =
     (case asFulfillmentMode (field input ''mode'') of
        None \<Rightarrow> None
      | Some mode \<Rightarrow> Some
          \<lparr>fs_mode = mode,
           fs_zoneCode = text_opt (field input ''zoneCode''),
           fs_addressLine1 = text_opt (field input ''addressLine1''),
           fs_addressLine2 = text_opt (field input ''addressLine2''),
           fs_postalCode = text_opt (field input ''postalCode''),
           fs_contactless = is_true (field input ''contactless''),
           fs_pickupSlotLabel = text_opt (field input ''pickupSlotLabel''),
           fs_tableCode = text_opt (field input ''tableCode''),
           fs_guestCount =
             (case jnumber (field input ''guestCount'') of
                None \<Rightarrow> None | Some n \<Rightarrow> if 0 < n then Some n else None),
           fs_instructions = text_opt (field input ''instructions'')\<rparr>)"

definition truncate_rat :: "rat \<Rightarrow> int" where
  "truncate_rat x = (if x < 0 then \<lceil>x\<rceil> else \<lfloor>x\<rfloor>)"

definition shiftIso :: "instant \<Rightarrow> rat \<Rightarrow> error + string" where
  "shiftIso base minutes =
     (let t = of_int base + minutes * 60 * 1000 in
      bnd (ensure (\<bar>t\<bar> \<le> 8640000000000000) (JsError ''Invalid time value'')) (\<lambda>_.
      Inr (toISOString (truncate_rat t))))"

record FulfillmentQuote =
  fq_status :: FulfillmentStatus
  fq_fee :: string
  fq_promisedAt :: string
  fq_etaAt :: string
  fq_selection :: FulfillmentSelection

definition select_zone :: "DeliveryZone list \<Rightarrow> FulfillmentSelection \<Rightarrow> DeliveryZone option" where
  "select_zone zones selection =
     orElse (find (\<lambda>item. Some (dz_code item) = fs_zoneCode selection \<and> dz_isActive item) zones)
            (find (\<lambda>item. dz_isActive item \<and>
               (case fs_postalCode selection of None \<Rightarrow> False | Some p \<Rightarrow> p \<in> set (dz_postalCodes item)))
               zones)"

definition quoteFulfillment ::
  "StoreFulfillmentConfig \<Rightarrow> FulfillmentSelection \<Rightarrow> instant \<Rightarrow> error + FulfillmentQuote" where
  "quoteFulfillment config selection now =
     (if fs_mode selection \<notin> set (fc_enabledModes config)
      then Inl (JsError (''Fulfillment mode '' @ show_fulfillment_mode (fs_mode selection) @
             '' is disabled for this store.''))
      else if fs_mode selection = FmDelivery then
        bnd (orThrow (select_zone (fc_deliveryZones config) selection)
               (JsError ''Delivery selection does not match an active delivery zone.'')) (\<lambda>zone.
        bnd (shiftIso now (dz_slaMinutes zone)) (\<lambda>promisedAt.
        bnd (shiftIso now (dz_etaMaxMinutes zone)) (\<lambda>etaAt.
        Inr \<lparr>fq_status = FsPending, fq_fee = dz_fee zone, fq_promisedAt = promisedAt,
             fq_etaAt = etaAt, fq_selection = selection\<lparr>fs_zoneCode := Some (dz_code zone)\<rparr>\<rparr>)))
      else if fs_mode selection = FmPickup then
        bnd (ensure (pk_enabled (fc_pickup config)) (JsError ''Pickup is disabled for this store.'')) (\<lambda>_.
        bnd (shiftIso now (pk_leadTimeMinutes (fc_pickup config))) (\<lambda>due.
        Inr \<lparr>fq_status = FsScheduled, fq_fee = ''0.00'', fq_promisedAt = due, fq_etaAt = due,
             fq_selection = selection\<rparr>))
      else
        bnd (ensure (di_enabled (fc_dineIn config)) (JsError ''Dine-in is disabled for this store.'')) (\<lambda>_.
        bnd (orThrow (find (\<lambda>item. Some (dt_code item) = fs_tableCode selection \<and> dt_isActive item)
                        (di_tables (fc_dineIn config)))
               (JsError ''Selected dine-in table is not active for this store.'')) (\<lambda>table.
        bnd (shiftIso now (di_leadTimeMinutes (fc_dineIn config))) (\<lambda>due.
        Inr \<lparr>fq_status = FsTableAssigned, fq_fee = ''0.00'', fq_promisedAt = due, fq_etaAt = due,
             fq_selection = selection\<lparr>fs_tableCode := Some (dt_code table)\<rparr>\<rparr>))))"

section \<open>The snapshot a cart or an order shows\<close>

definition selection_json :: "FulfillmentSelection option \<Rightarrow> json" where
  "selection_json m =
     (case m of None \<Rightarrow> JNull
      | Some s \<Rightarrow> JObj
          [(''mode'', JStr (show_fulfillment_mode (fs_mode s))),
           (''zoneCode'', jopt (fs_zoneCode s)),
           (''addressLine1'', jopt (fs_addressLine1 s)),
           (''addressLine2'', jopt (fs_addressLine2 s)),
           (''postalCode'', jopt (fs_postalCode s)),
           (''contactless'', JBool (fs_contactless s)),
           (''pickupSlotLabel'', jopt (fs_pickupSlotLabel s)),
           (''tableCode'', jopt (fs_tableCode s)),
           (''guestCount'', (case fs_guestCount s of None \<Rightarrow> JNull | Some n \<Rightarrow> JNum n)),
           (''instructions'', jopt (fs_instructions s))])"

text \<open>
  The fee is a column of cents here, so it is always an amount and the guard of the source,
  which falls back to \<open>0.00\<close> for no amount, only matters for an absent fee.
\<close>

definition mapFulfillmentSnapshot ::
  "string option \<Rightarrow> string option \<Rightarrow> int option \<Rightarrow> instant option \<Rightarrow> instant option \<Rightarrow> json option \<Rightarrow> json" where
  "mapFulfillmentSnapshot mode status fee promisedAt etaAt payload =
     (let selection = normalizeFulfillmentSelection payload;
          courier = (case field payload ''courier'' of
                       Some j \<Rightarrow> if jrecord j then Some j else None | None \<Rightarrow> None)
      in JObj
        [(''mode'', jopt (map_option show_fulfillment_mode (asFulfillmentMode (map_option JStr mode)))),
         (''status'', jopt (map_option show_fulfillment_status (asFulfillmentStatus status))),
         (''fee'', JStr (nullish (map_option formatCents fee) ''0.00'')),
         (''promisedAt'', jdate promisedAt),
         (''etaAt'', jdate etaAt),
         (''details'', selection_json selection),
         (''courier'',
           (case courier of None \<Rightarrow> JNull
            | Some c \<Rightarrow> JObj
                [(''courierName'', jopt (text_opt (jfield c ''courierName''))),
                 (''courierPhone'', jopt (text_opt (jfield c ''courierPhone''))),
                 (''courierExternalId'', jopt (text_opt (jfield c ''courierExternalId'')))]))])"

definition stringifyMoneySum :: "string option list \<Rightarrow> error + string" where
  "stringifyMoneySum values = bnd (foldE addMoney values 0) (\<lambda>cents. Inr (formatCents cents))"

section \<open>What a quote guarantees\<close>

lemma unique_set [simp]: "set (unique xs) = set xs" "distinct (unique xs)"
  by (simp_all add: unique_def)

lemma select_zone_active: "select_zone zones sel = Some z \<Longrightarrow> z \<in> set zones \<and> dz_isActive z"
  by (auto simp: select_zone_def orElse_def split: option.splits dest: find_SomeD)

lemma find_code:
  assumes "distinct (map dz_code (filter dz_isActive zones))" and "z \<in> set zones" and "dz_isActive z"
  shows "find (\<lambda>item. dz_code item = dz_code z \<and> dz_isActive item) zones = Some z"
  using assms by (induction zones) (auto simp: image_iff split: if_splits)

lemma select_zone_again:
  assumes "distinct (map dz_code (filter dz_isActive zones))" and "select_zone zones sel = Some z"
  shows "select_zone zones (sel\<lparr>fs_zoneCode := Some (dz_code z)\<rparr>) = Some z"
  using find_code [OF assms(1)] select_zone_active [OF assms(2)]
  by (simp add: select_zone_def)

lemma find_table_again:
  assumes "find (\<lambda>i. Some (dt_code i) = c \<and> dt_isActive i) tables = Some t"
  shows "find (\<lambda>i. Some (dt_code i) = Some (dt_code t) \<and> dt_isActive i) tables = Some t"
  using assms find_SomeD [OF assms] by auto

lemma quote_mode: "quoteFulfillment config sel now = Inr q \<Longrightarrow>
    fs_mode sel \<in> set (fc_enabledModes config) \<and> fs_mode (fq_selection q) = fs_mode sel"
  by (auto simp: quoteFulfillment_def split: if_splits)

lemma toMoney_amount:
  "toMoney v d = Inr s \<Longrightarrow> \<exists>c. parseMoneyToCents (Some d) = Inr (Some c) \<Longrightarrow>
     \<exists>c. parseMoneyToCents (Some s) = Inr (Some c)"
  by (auto simp: toMoney_def split: option.splits if_splits)

lemma mapE_set: "mapE f xs = Inr ys \<Longrightarrow> y \<in> set ys \<Longrightarrow> \<exists>x \<in> set xs. f x = Inr y"
  by (induction xs arbitrary: ys) auto

lemma parse_zero: "parseMoneyToCents (Some ''0.00'') = Inr (Some 0)"
  by code_simp

lemma normalizeDeliveryZones_fee:
  assumes "normalizeDeliveryZones v = Inr zones" and "z \<in> set zones"
  shows "\<exists>c. parseMoneyToCents (Some (dz_fee z)) = Inr (Some c)"
proof -
  from mapE_set [OF assms(1) [unfolded normalizeDeliveryZones_def] assms(2)]
  obtain i entry where "toMoney (jfield entry ''fee'') ''0.00'' = Inr (dz_fee z)" by auto
  then show ?thesis using toMoney_amount parse_zero by blast
qed

lemma resolved_config:
  assumes "resolveStoreFulfillmentConfig sid raw = Inr config"
  shows "fc_enabledModes config \<noteq> []" "distinct (fc_enabledModes config)"
    "z \<in> set (fc_deliveryZones config) \<Longrightarrow> \<exists>c. parseMoneyToCents (Some (dz_fee z)) = Inr (Some c)"
  using assms normalizeDeliveryZones_fee
  by (auto simp: resolveStoreFulfillmentConfig_def Let_def split: if_splits)

end
