(* ===== verification/Access.thy ===== *)
theory Access
  imports Types
begin

text \<open>
  Who may act: \<open>common/access-control.service.ts\<close>, the permission guard
  \<open>common/guards/permissions.guard.ts\<close>, and the inventory service's own tenant check.
\<close>

text \<open>JavaScript truth of an optional string: absent and empty are both false.\<close>

definition truthy :: "string option \<Rightarrow> bool" where
  "truthy m = (case m of None \<Rightarrow> False | Some s \<Rightarrow> s \<noteq> '''')"

lemma truthy_iff: "truthy m \<longleftrightarrow> (\<exists>s. m = Some s \<and> s \<noteq> '''')"
  by (cases m) (simp_all add: truthy_def)

lemma truthy_simps [simp]: "\<not> truthy None" "truthy (Some s) \<longleftrightarrow> s \<noteq> ''''"
  by (simp_all add: truthy_def)

definition requirePlatformAdmin :: "RequestContext \<Rightarrow> error + unit" where
  "requirePlatformAdmin context =
     ensure (ctx_scope context = PlatformAdmin)
       (ForbiddenException ''Platform admin scope is required.'')"

definition resolveTenantId :: "RequestContext \<Rightarrow> uuid option \<Rightarrow> bool \<Rightarrow> error + uuid" where
  "resolveTenantId context tenantId required =
     (if ctx_scope context = PlatformAdmin
      then if \<not> truthy tenantId \<and> required
           then Inl (ForbiddenException ''Tenant id is required for this operation.'')
           else Inr (nullish tenantId '''')
      else if \<not> truthy (ctx_tenantId context)
      then Inl (ForbiddenException ''Tenant context is missing.'')
      else if truthy tenantId \<and> tenantId \<noteq> ctx_tenantId context
      then Inl (ForbiddenException ''Cross-tenant access is not allowed.'')
      else Inr (nullish (ctx_tenantId context) ''''))"

text \<open>The \<open>where\<close> clause: \<open>None\<close> puts no condition on the tenant.\<close>

definition tenantWhere :: "RequestContext \<Rightarrow> uuid option \<Rightarrow> error + uuid option" where
  "tenantWhere context tenantId =
     (if ctx_scope context = PlatformAdmin
      then Inr (if truthy tenantId then tenantId else None)
      else if \<not> truthy (ctx_tenantId context)
      then Inl (ForbiddenException ''Tenant context is missing.'')
      else if truthy tenantId \<and> tenantId \<noteq> ctx_tenantId context
      then Inl (ForbiddenException ''Cross-tenant access is not allowed.'')
      else Inr (ctx_tenantId context))"

definition enforceStoreAccess :: "RequestContext \<Rightarrow> uuid \<Rightarrow> error + unit" where
  "enforceStoreAccess context storeId =
     (if ctx_scope context = PlatformAdmin then Inr ()
      else ensure (\<not> (ctx_storeIds context \<noteq> [] \<and> storeId \<notin> set (ctx_storeIds context)))
             (ForbiddenException ''Store access is not allowed.''))"

definition storeFilter :: "RequestContext \<Rightarrow> uuid list option" where
  "storeFilter context =
     (if ctx_scope context = PlatformAdmin \<or> ctx_storeIds context = [] then None
      else Some (ctx_storeIds context))"

text \<open>\<open>missing.join(", ")\<close>.\<close>

fun join_comma :: "string list \<Rightarrow> string" where
  "join_comma [] = ''''"
| "join_comma [s] = s"
| "join_comma (s # ss) = s @ '', '' @ join_comma ss"

definition canActivate ::
  "bool \<Rightarrow> string list option \<Rightarrow> RequestContext option \<Rightarrow> error + bool" where
  "canActivate isPublic permissionsMeta user =
     (let requiredPermissions = nullish permissionsMeta [] in
      if isPublic then Inr True
      else if requiredPermissions = [] then Inr True
      else case user of
             None \<Rightarrow> Inl (ForbiddenException ''Authentication context is missing.'')
           | Some u \<Rightarrow>
               if ctx_scope u = PlatformAdmin then Inr True
               else let missingPermissions =
                          filter (\<lambda>p. p \<notin> set (ctx_permissions u)) requiredPermissions
                    in if missingPermissions \<noteq> []
                       then Inl (ForbiddenException
                              (''Missing required permissions: '' @ join_comma missingPermissions))
                       else Inr True)"

text \<open>The inventory service resolves the tenant itself and lets an administrator leave it out.\<close>

definition inv_resolveTenantId :: "RequestContext \<Rightarrow> uuid option \<Rightarrow> error + uuid" where
  "inv_resolveTenantId context tenantId =
     (if ctx_scope context = PlatformAdmin then Inr (nullish tenantId '''')
      else if \<not> truthy (ctx_tenantId context)
      then Inl (BadRequestException ''Tenant context is required.'')
      else if truthy tenantId \<and> tenantId \<noteq> ctx_tenantId context
      then Inl (BadRequestException ''Cross-tenant inventory access is not allowed.'')
      else Inr (nullish (ctx_tenantId context) ''''))"

section \<open>What a passed check means\<close>

text \<open>
  A context may act on a resource of tenant \<open>t\<close> in store \<open>s\<close>: what the two checks the
  handlers make on every resource they load establish together.
\<close>

definition may_access :: "RequestContext \<Rightarrow> uuid \<Rightarrow> uuid \<Rightarrow> bool" where
  "may_access context t s \<longleftrightarrow>
     ctx_scope context = PlatformAdmin \<or>
     (ctx_tenantId context = Some t \<and> (ctx_storeIds context = [] \<or> s \<in> set (ctx_storeIds context)))"

lemma resolveTenantId_Some:
  "t \<noteq> '''' \<Longrightarrow> resolveTenantId context (Some t) req = Inr t' \<longleftrightarrow>
     t' = t \<and> (ctx_scope context = PlatformAdmin \<or> ctx_tenantId context = Some t)"
  by (auto simp: resolveTenantId_def truthy_iff)

lemma resolveTenantId_member:
  "ctx_scope context \<noteq> PlatformAdmin \<Longrightarrow> resolveTenantId context m req = Inr t \<Longrightarrow>
     ctx_tenantId context = Some t \<and> t \<noteq> ''''"
  by (auto simp: resolveTenantId_def truthy_iff split: if_splits)

lemma enforceStoreAccess_Inr [simp]:
  "enforceStoreAccess context s = Inr u \<longleftrightarrow>
     ctx_scope context = PlatformAdmin \<or> ctx_storeIds context = [] \<or> s \<in> set (ctx_storeIds context)"
  by (auto simp: enforceStoreAccess_def)

lemma checks_may_access:
  assumes "t \<noteq> ''''"
  shows "bnd (resolveTenantId context (Some t) True) (\<lambda>_. enforceStoreAccess context s) = Inr u
    \<longleftrightarrow> may_access context t s"
  using assms by (auto simp: resolveTenantId_Some may_access_def)

lemma tenantWhere_member:
  "ctx_scope context \<noteq> PlatformAdmin \<Longrightarrow> tenantWhere context m = Inr w \<Longrightarrow>
     (\<exists>t. w = Some t \<and> t \<noteq> '''' \<and> ctx_tenantId context = Some t)"
  by (cases "ctx_tenantId context") (auto simp: tenantWhere_def truthy_iff split: if_splits)

lemma canActivate_True:
  "canActivate False (Some ps) (Some u) = Inr True \<longleftrightarrow>
     ctx_scope u = PlatformAdmin \<or> set ps \<subseteq> set (ctx_permissions u)"
proof (cases "ps = []")
  case True
  then show ?thesis by (simp add: canActivate_def)
next
  case False
  then show ?thesis by (auto simp: canActivate_def Let_def filter_empty_conv)
qed

lemma canActivate_not_False: "canActivate p m u \<noteq> Inr False"
  by (auto simp: canActivate_def Let_def split: option.splits)

end
