(* ===== verification/Availability.thy ===== *)
theory Availability
  imports Types
begin

text \<open>
  When a catalogue entry is on sale: \<open>pricing/availability.util.ts\<close>. A minute of the week
  is a weekday and a minute of the day.
\<close>

record AvailabilityWindow =
  aw_weekday :: int
  aw_startTime :: string
  aw_endTime :: string

record CatalogAvailabilityInput =
  cai_status :: string
  cai_isVisible :: bool
  cai_isAvailable :: bool
  cai_isOutOfStock :: bool
  cai_windows :: "AvailabilityWindow list option"
  cai_currentWeekday :: int
  cai_currentMinuteOfDay :: int

text \<open>The pattern \<open>/^([01]\d|2[0-3]):([0-5]\d)$/\<close>.\<close>

definition clock_match :: "string \<Rightarrow> (string \<times> string) option" where
  "clock_match value =
     (case value of
        [h1, h2, colon, m1, m2] \<Rightarrow>
          if ((h1 = CHR ''0'' \<or> h1 = CHR ''1'') \<and> is_digit h2 \<or>
              h1 = CHR ''2'' \<and> 48 \<le> code h2 \<and> code h2 \<le> 51) \<and>
             colon = CHR '':'' \<and> 48 \<le> code m1 \<and> code m1 \<le> 53 \<and> is_digit m2
          then Some ([h1, h2], [m1, m2]) else None
      | _ \<Rightarrow> None)"

definition parseClockTime :: "string \<Rightarrow> error + int" where
  "parseClockTime value =
     (case clock_match value of
        None \<Rightarrow> Inl (JsError (''Invalid clock value: '' @ value))
      | Some (h, m) \<Rightarrow> Inr (number_of h * 60 + number_of m))"

definition weekdayMap :: "string \<Rightarrow> int option" where
  "weekdayMap = map_of [(''Sun'', 0), (''Mon'', 1), (''Tue'', 2), (''Wed'', 3), (''Thu'', 4),
     (''Fri'', 5), (''Sat'', 6)]"

text \<open>
  The current slot from the parts the platform's date formatter returns for the store's time
  zone (a list of part type and value).
\<close>

definition resolveCurrentSlot :: "(string \<times> string) list \<Rightarrow> int \<times> int" where
  "resolveCurrentSlot parts =
     (let weekdayToken = nullish (map_of parts ''weekday'') ''Sun'';
          hourToken = nullish (map_of parts ''hour'') ''00'';
          minuteToken = nullish (map_of parts ''minute'') ''00''
      in (nullish (weekdayMap weekdayToken) 0, number_of hourToken * 60 + number_of minuteToken))"

definition window_contains :: "AvailabilityWindow \<Rightarrow> int \<Rightarrow> int \<Rightarrow> error + bool" where
  "window_contains window currentWeekday currentMinuteOfDay =
     bnd (parseClockTime (aw_startTime window)) (\<lambda>start.
     bnd (parseClockTime (aw_endTime window)) (\<lambda>finish.
     Inr
       (if start = finish then aw_weekday window = currentWeekday
        else if start < finish
        then aw_weekday window = currentWeekday \<and> start \<le> currentMinuteOfDay \<and>
             currentMinuteOfDay < finish
        else let nextWeekday = (aw_weekday window + 1) mod 7
             in (aw_weekday window = currentWeekday \<and> start \<le> currentMinuteOfDay) \<or>
                (nextWeekday = currentWeekday \<and> currentMinuteOfDay < finish))))"

text \<open>\<open>windows.some(...)\<close>: it stops at the first window that contains the slot.\<close>

fun some_window :: "AvailabilityWindow list \<Rightarrow> int \<Rightarrow> int \<Rightarrow> error + bool" where
  "some_window [] wd m = Inr False"
| "some_window (w # ws) wd m =
     bnd (window_contains w wd m) (\<lambda>b. if b then Inr True else some_window ws wd m)"

definition isWithinAvailabilityWindows ::
  "AvailabilityWindow list \<Rightarrow> int \<Rightarrow> int \<Rightarrow> error + bool" where
  "isWithinAvailabilityWindows windows currentWeekday currentMinuteOfDay =
     (if windows = [] then Inr True
      else some_window windows currentWeekday currentMinuteOfDay)"

definition isCatalogEntryAvailable :: "CatalogAvailabilityInput \<Rightarrow> error + bool" where
  "isCatalogEntryAvailable input =
     (if cai_status input \<noteq> ''ACTIVE'' then Inr False
      else if \<not> cai_isVisible input \<or> \<not> cai_isAvailable input \<or> cai_isOutOfStock input
      then Inr False
      else isWithinAvailabilityWindows (nullish (cai_windows input) [])
             (cai_currentWeekday input) (cai_currentMinuteOfDay input))"

section \<open>Clock values\<close>

definition clock_string :: "int \<Rightarrow> string" where
  "clock_string n = [digit_char (n div 600), digit_char (n div 60 mod 10), CHR '':'',
     digit_char (n mod 60 div 10), digit_char (n mod 10)]"

lemma clock_match_SomeD:
  assumes "clock_match s = Some (h, m)"
  obtains a b c d where "h = [a, b]" "m = [c, d]" "s = [a, b, CHR '':'', c, d]"
    "is_digit a" "is_digit b" "is_digit c" "is_digit d"
    "digit_val a * 10 + digit_val b < 24" "digit_val c < 6"
  using assms
  by (auto simp: clock_match_def is_digit_def digit_val_def code_def
      split: list.splits if_splits)

lemma parseClockTime_bounds:
  "parseClockTime s = Inr n \<Longrightarrow> 0 \<le> n \<and> n < 1440"
proof -
  assume "parseClockTime s = Inr n"
  then obtain h m where hm: "clock_match s = Some (h, m)" and n: "n = number_of h * 60 + number_of m"
    by (auto simp: parseClockTime_def split: option.splits)
  from hm obtain a b c d where "h = [a, b]" "m = [c, d]" "is_digit a" "is_digit b" "is_digit c"
    "is_digit d" "digit_val a * 10 + digit_val b < 24" "digit_val c < 6"
    by (rule clock_match_SomeD)
  then show ?thesis
    unfolding n using digit_val_bounds [of a] digit_val_bounds [of b] digit_val_bounds [of c]
      digit_val_bounds [of d] by (auto simp: number_of_def)
qed

lemma code_digit_char: "0 \<le> d \<Longrightarrow> d < 10 \<Longrightarrow> code (digit_char d) = 48 + d"
  by (simp add: digit_char_def code_char_of)

lemma code_inject: "code a = code b \<Longrightarrow> a = b"
  by (metis char_of_code)

lemma digit_char_eq:
  assumes "0 \<le> d" and "d < 10"
  shows "digit_char d = CHR ''0'' \<longleftrightarrow> d = 0" "digit_char d = CHR ''1'' \<longleftrightarrow> d = 1"
    "digit_char d = CHR ''2'' \<longleftrightarrow> d = 2"
proof -
  have eq: "digit_char d = c \<longleftrightarrow> 48 + d = code c" for c
    using code_digit_char [OF assms] code_inject [of "digit_char d" c] by auto
  have "code (CHR ''0'') = 48" "code (CHR ''1'') = 49" "code (CHR ''2'') = 50"
    by (simp_all add: code_def)
  then show "digit_char d = CHR ''0'' \<longleftrightarrow> d = 0" "digit_char d = CHR ''1'' \<longleftrightarrow> d = 1"
    "digit_char d = CHR ''2'' \<longleftrightarrow> d = 2"
    by (simp_all add: eq)
qed

lemma parse_digits:
  assumes "0 \<le> a" "a < 3" "0 \<le> b" "b < 10" "0 \<le> c" "c < 6" "0 \<le> e" "e < 10" "a = 2 \<Longrightarrow> b \<le> 3"
  shows "parseClockTime [digit_char a, digit_char b, CHR '':'', digit_char c, digit_char e] =
    Inr ((10 * a + b) * 60 + (10 * c + e))"
proof -
  have "a = 0 \<or> a = 1 \<or> a = 2" using assms(1,2) by linarith
  then have "clock_match [digit_char a, digit_char b, CHR '':'', digit_char c, digit_char e] =
      Some ([digit_char a, digit_char b], [digit_char c, digit_char e])"
    using assms by (auto simp: clock_match_def digit_char_eq code_digit_char)
  then show ?thesis using assms by (simp add: parseClockTime_def number_of_def)
qed

lemma recompose:
  fixes n :: int
  shows "h = 10 * a + b \<Longrightarrow> 10 * c + e = r \<Longrightarrow> 60 * h + r = n \<Longrightarrow> (10 * a + b) * 60 + (10 * c + e) = n"
  by simp

lemma parse_clock_string:
  assumes "0 \<le> n" and "n < 1440"
  shows "parseClockTime (clock_string n) = Inr n"
proof -
  have r: "0 \<le> n div 600" "n div 600 < 3" "0 \<le> n div 60 mod 10" "n div 60 mod 10 < 10"
    "0 \<le> n mod 60 div 10" "n mod 60 div 10 < 6" "0 \<le> n mod 10" "n mod 10 < 10"
    using assms by auto
  have h: "n div 600 = n div 60 div 10" by (simp add: zdiv_zmult2_eq [symmetric])
  have h10: "n div 60 = 10 * (n div 600) + n div 60 mod 10"
    unfolding h using mult_div_mod_eq [of 10 "n div 60"] by simp
  have "n div 60 < 24" using assms by linarith
  then have two: "n div 600 = 2 \<Longrightarrow> n div 60 mod 10 \<le> 3" using h10 by linarith
  have zero: "n div 600 = 0 \<or> n div 600 = 1 \<or> n div 600 = 2"
    using r by linarith
  have num: "(10 * (n div 600) + n div 60 mod 10) * 60 + (10 * (n mod 60 div 10) + n mod 10) = n"
  proof -
    have "n mod 60 mod 10 = n mod 10" by (simp add: mod_mod_cancel)
    then have "10 * (n mod 60 div 10) + n mod 10 = n mod 60"
      using mult_div_mod_eq [of 10 "n mod 60"] by simp
    moreover have "60 * (n div 60) + n mod 60 = n" by simp
    ultimately show ?thesis using recompose [OF h10] by blast
  qed
  show ?thesis
    unfolding clock_string_def
    by (subst parse_digits; (rule r two | subst num | assumption)?) (assumption | rule refl)+
qed

section \<open>Windows as intervals of the week\<close>

text \<open>
  The week as a circle of 10080 minutes. A window is an interval of it: it starts at its start
  time on its weekday and lasts until its end time, the next day when the end is not after the
  start; a window whose two times are equal is the whole calendar day.
\<close>

definition covers_minute :: "int \<Rightarrow> int \<Rightarrow> int \<Rightarrow> int \<Rightarrow> int \<Rightarrow> bool" where
  "covers_minute wd0 s e wd m \<longleftrightarrow>
     (if s = e then ((wd * 1440 + m) - wd0 * 1440) mod 10080 < 1440
      else ((wd * 1440 + m) - (wd0 * 1440 + s)) mod 10080 < (e - s) mod 1440)"

lemma week_mod:
  assumes "- 10080 \<le> d" and "d < 10080"
  shows "(d::int) mod 10080 = (if 0 \<le> d then d else d + 10080)"
proof (cases "0 \<le> d")
  case True
  with assms show ?thesis by simp
next
  case False
  with assms have "(d + 10080) mod 10080 = d + 10080" by (intro mod_pos_pos_trivial) auto
  with False show ?thesis by simp
qed

lemma day_mod:
  assumes "- 1440 \<le> d" and "d < 1440"
  shows "(d::int) mod 1440 = (if 0 \<le> d then d else d + 1440)"
proof (cases "0 \<le> d")
  case True
  with assms show ?thesis by simp
next
  case False
  with assms have "(d + 1440) mod 1440 = d + 1440" by (intro mod_pos_pos_trivial) auto
  with False show ?thesis by simp
qed

lemma next_weekday: "0 \<le> w \<Longrightarrow> w < 7 \<Longrightarrow> ((w::int) + 1) mod 7 = (if w = 6 then 0 else w + 1)"
  by (cases "w = 6") simp_all

lemma window_contains_covers:
  assumes "parseClockTime (aw_startTime w) = Inr s" and "parseClockTime (aw_endTime w) = Inr e"
    and "0 \<le> aw_weekday w" "aw_weekday w < 7" "0 \<le> wd" "wd < 7" "0 \<le> m" "m < 1440"
  shows "window_contains w wd m = Inr (covers_minute (aw_weekday w) s e wd m)"
proof -
  have b: "0 \<le> s" "s < 1440" "0 \<le> e" "e < 1440"
    using assms(1,2) parseClockTime_bounds by auto
  obtain j where j: "0 \<le> j" "j < 7" "wd = aw_weekday w + j \<or> wd = aw_weekday w + j - 7"
    using assms(3-6) that [of "wd - aw_weekday w"] that [of "wd - aw_weekday w + 7"]
    by (cases "aw_weekday w \<le> wd") auto
  have same: "aw_weekday w = wd \<longleftrightarrow> j = 0" using j assms(3-6) by auto
  have nxt: "(aw_weekday w + 1) mod 7 = wd \<longleftrightarrow> j = 1"
    using j assms(3-6) by (auto simp: next_weekday)
  have shift: "(wd * 1440 + m) - (aw_weekday w * 1440 + x) = j * 1440 + m - x \<or>
      (wd * 1440 + m) - (aw_weekday w * 1440 + x) = j * 1440 + m - x - 10080" for x
    using j(3) by auto
  then have wrap: "((wd * 1440 + m) - (aw_weekday w * 1440 + x)) mod 10080 = (j * 1440 + m - x) mod 10080" for x
    by (metis minus_mod_self2)
  have "((wd * 1440 + m) - aw_weekday w * 1440) mod 10080 = (j * 1440 + m) mod 10080"
    using wrap [of 0] by simp
  also have "\<dots> = j * 1440 + m" using j assms by (intro mod_pos_pos_trivial) auto
  finally have d1: "((wd * 1440 + m) - aw_weekday w * 1440) mod 10080 = j * 1440 + m" .
  have "((wd * 1440 + m) - (aw_weekday w * 1440 + s)) mod 10080 = (j * 1440 + m - s) mod 10080"
    by (rule wrap)
  also have "\<dots> = (if 0 \<le> j * 1440 + m - s then j * 1440 + m - s else j * 1440 + m - s + 10080)"
    using j b assms by (intro week_mod) auto
  finally have d2: "((wd * 1440 + m) - (aw_weekday w * 1440 + s)) mod 10080 =
    (if 0 \<le> j * 1440 + m - s then j * 1440 + m - s else j * 1440 + m - s + 10080)" .
  have d3: "(e - s) mod 1440 = (if 0 \<le> e - s then e - s else e - s + 1440)"
    using b by (intro day_mod) auto
  consider "j = 0" | "j = 1" | "2 \<le> j" using j by linarith
  then show ?thesis
    using assms b j(1,2)
    unfolding window_contains_def covers_minute_def d1 d2 d3 Let_def
    by cases (auto simp: same nxt)
qed

lemma some_window_covers:
  assumes "\<And>w. w \<in> set ws \<Longrightarrow> window_contains w wd m = Inr (P w)"
  shows "some_window ws wd m = Inr (\<exists>w \<in> set ws. P w)"
  using assms by (induction ws) auto

end
