(* ===== verification/Database.thy ===== *)
theory Database
  imports Fulfillment Access Availability
begin

text \<open>
  The data the services share: the rows of \<open>packages/database/prisma/schema.prisma\<close> with the
  columns the modelled operations read or write. Money columns are cents, stock quantities are
  exact numbers, instants are milliseconds. The rows of a relation that only its parent reads
  (the modifiers of an item, the items of an order or of a ticket, the lines of a receiving
  record) are a list in the parent row.
\<close>

section \<open>Catalogue rows\<close>

record Brand =
  br_id :: uuid
  br_tenantId :: uuid
  br_code :: string
  br_name :: string
  br_status :: string
  br_createdAt :: instant
  br_updatedAt :: instant

record Store =
  st_id :: uuid
  st_tenantId :: uuid
  st_brandId :: "uuid option"
  st_code :: string
  st_name :: string
  st_timezone :: string
  st_status :: string
  st_createdAt :: instant
  st_updatedAt :: instant

record Device =
  dev_id :: uuid
  dev_tenantId :: uuid
  dev_storeId :: uuid
  dev_type :: DeviceKind

record Category =
  cat_id :: uuid
  cat_tenantId :: uuid
  cat_parentId :: "uuid option"
  cat_code :: string
  cat_name :: string
  cat_description :: "string option"
  cat_sortOrder :: int
  cat_status :: string
  cat_createdAt :: instant
  cat_updatedAt :: instant

text \<open>The links of a product to its modifier groups are the list of their ids in the order of
  \<open>sortOrder\<close>.\<close>

record Product =
  pr_id :: uuid
  pr_tenantId :: uuid
  pr_categoryId :: "uuid option"
  pr_brandId :: "uuid option"
  pr_code :: string
  pr_name :: string
  pr_description :: "string option"
  pr_status :: string
  pr_isVisible :: bool
  pr_isAvailable :: bool
  pr_isOutOfStock :: bool
  pr_basePrice :: "int option"
  pr_modifierGroupIds :: "uuid list"
  pr_createdAt :: instant
  pr_updatedAt :: instant

record ProductVariant =
  pv_id :: uuid
  pv_tenantId :: uuid
  pv_productId :: uuid
  pv_code :: string
  pv_name :: string
  pv_sku :: "string option"
  pv_barcode :: "string option"
  pv_status :: string
  pv_isVisible :: bool
  pv_isAvailable :: bool
  pv_isOutOfStock :: bool
  pv_basePrice :: "int option"
  pv_createdAt :: instant
  pv_updatedAt :: instant

record ModifierGroup =
  mg_id :: uuid
  mg_tenantId :: uuid
  mg_code :: string
  mg_name :: string
  mg_description :: "string option"
  mg_selectionMode :: string
  mg_minSelection :: int
  mg_maxSelection :: "int option"
  mg_required :: bool
  mg_status :: string
  mg_createdAt :: instant
  mg_updatedAt :: instant

record ModifierOption =
  mo_id :: uuid
  mo_tenantId :: uuid
  mo_groupId :: uuid
  mo_code :: string
  mo_name :: string
  mo_status :: string
  mo_priceDelta :: int
  mo_createdAt :: instant
  mo_updatedAt :: instant

record PriceListItem =
  pli_id :: uuid
  pli_tenantId :: uuid
  pli_targetType :: CatalogTargetType
  pli_targetId :: uuid
  pli_price :: int
  pli_createdAt :: instant
  pli_updatedAt :: instant

record PriceList =
  pl_id :: uuid
  pl_tenantId :: uuid
  pl_code :: string
  pl_name :: string
  pl_currency :: string
  pl_status :: string
  pl_items :: "PriceListItem list"
  pl_createdAt :: instant
  pl_updatedAt :: instant

record StoreCatalogOverride =
  sco_id :: uuid
  sco_tenantId :: uuid
  sco_storeId :: uuid
  sco_targetType :: CatalogTargetType
  sco_targetId :: uuid
  sco_isVisible :: "bool option"
  sco_isAvailable :: "bool option"
  sco_isOutOfStock :: "bool option"
  sco_priceOverride :: "int option"
  sco_createdAt :: instant
  sco_updatedAt :: instant

text \<open>The row of an availability window; the availability rules read its first three columns.\<close>

record AvailabilityWindowRecord = AvailabilityWindow +
  awr_id :: uuid
  awr_tenantId :: uuid
  awr_storeId :: "uuid option"
  awr_targetType :: AvailabilityTargetType
  awr_targetId :: uuid
  awr_createdAt :: instant
  awr_updatedAt :: instant

text \<open>A setting of a tenant or of a store; the owner is that tenant or store.\<close>

record Setting =
  set_id :: uuid
  set_tenantId :: uuid
  set_ownerId :: uuid
  set_key :: string
  set_value :: json
  set_createdAt :: instant
  set_updatedAt :: instant

section \<open>Cart and order rows\<close>

text \<open>The modifiers of a cart item and of an order item have the same columns.\<close>

record ItemModifier =
  im_id :: uuid
  im_modifierGroupId :: uuid
  im_modifierOptionId :: uuid
  im_nameSnapshot :: string
  im_priceDelta :: int

record CartItem =
  ci_id :: uuid
  ci_cartId :: uuid
  ci_productId :: uuid
  ci_variantId :: "uuid option"
  ci_quantity :: int
  ci_priceListId :: "uuid option"
  ci_unitBasePrice :: "int option"
  ci_modifierTotal :: int
  ci_lineTotal :: int
  ci_snapshot :: json
  ci_createdAt :: instant
  ci_updatedAt :: instant
  ci_modifiers :: "ItemModifier list"

record Cart =
  cart_id :: uuid
  cart_tenantId :: uuid
  cart_storeId :: uuid
  cart_customerProfileId :: "uuid option"
  cart_channel :: OrderChannel
  cart_status :: CartStatus
  cart_customerName :: "string option"
  cart_customerPhone :: "string option"
  cart_note :: "string option"
  cart_subtotal :: int
  cart_modifierTotal :: int
  cart_fulfillmentFee :: int
  cart_discountTotal :: int
  cart_total :: int
  cart_promotionCode :: "string option"
  cart_promotionSnapshot :: "json option"
  cart_fulfillmentMode :: "string option"
  cart_fulfillmentStatus :: "string option"
  cart_fulfillmentPayload :: "json option"
  cart_promisedAt :: "instant option"
  cart_etaAt :: "instant option"
  cart_deviceId :: "uuid option"
  cart_createdByUserId :: "uuid option"
  cart_createdAt :: instant
  cart_updatedAt :: instant

record OrderItem =
  oi_id :: uuid
  oi_orderId :: uuid
  oi_productId :: uuid
  oi_variantId :: "uuid option"
  oi_quantity :: int
  oi_unitBasePrice :: "int option"
  oi_modifierTotal :: int
  oi_lineTotal :: int
  oi_snapshot :: json
  oi_createdAt :: instant
  oi_modifiers :: "ItemModifier list"

record Order =
  ord_id :: uuid
  ord_tenantId :: uuid
  ord_storeId :: uuid
  ord_cartId :: "uuid option"
  ord_customerProfileId :: "uuid option"
  ord_number :: string
  ord_channel :: OrderChannel
  ord_status :: OrderStatus
  ord_refundStatus :: RefundStatus
  ord_customerName :: "string option"
  ord_customerPhone :: "string option"
  ord_note :: "string option"
  ord_subtotal :: int
  ord_modifierTotal :: int
  ord_fulfillmentFee :: int
  ord_discountTotal :: int
  ord_total :: int
  ord_promotionCode :: "string option"
  ord_promotionSnapshot :: "json option"
  ord_fulfillmentMode :: "string option"
  ord_fulfillmentStatus :: "string option"
  ord_fulfillmentPayload :: "json option"
  ord_promisedAt :: "instant option"
  ord_etaAt :: "instant option"
  ord_placedAt :: instant
  ord_confirmedAt :: "instant option"
  ord_readyAt :: "instant option"
  ord_completedAt :: "instant option"
  ord_cancelledAt :: "instant option"
  ord_cancelReason :: "string option"
  ord_deviceId :: "uuid option"
  ord_createdByUserId :: "uuid option"
  ord_createdAt :: instant
  ord_updatedAt :: instant
  ord_items :: "OrderItem list"

record OrderEvent =
  oe_id :: uuid
  oe_orderId :: uuid
  oe_tenantId :: uuid
  oe_storeId :: uuid
  oe_type :: string
  oe_payload :: json
  oe_createdAt :: instant

record KitchenTicketItem =
  kti_id :: uuid
  kti_ticketId :: uuid
  kti_orderItemId :: uuid
  kti_productId :: uuid
  kti_variantId :: "uuid option"
  kti_quantity :: int
  kti_lineTotal :: int
  kti_snapshot :: json
  kti_createdAt :: instant

record KitchenTicket =
  tk_id :: uuid
  tk_orderId :: uuid
  tk_tenantId :: uuid
  tk_storeId :: uuid
  tk_stationKey :: string
  tk_status :: KitchenTicketStatus
  tk_sourceChannel :: OrderChannel
  tk_displayNumber :: string
  tk_note :: "string option"
  tk_itemCount :: int
  tk_startedAt :: "instant option"
  tk_readyAt :: "instant option"
  tk_completedAt :: "instant option"
  tk_cancelledAt :: "instant option"
  tk_createdAt :: instant
  tk_updatedAt :: instant
  tk_items :: "KitchenTicketItem list"

section \<open>Stock rows\<close>

type_synonym quantity = rat

record Warehouse =
  wh_id :: uuid
  wh_tenantId :: uuid
  wh_storeId :: "uuid option"
  wh_code :: string
  wh_name :: string
  wh_kind :: string
  wh_notes :: "string option"
  wh_isActive :: bool
  wh_metadata :: json
  wh_createdAt :: instant
  wh_updatedAt :: instant

record Ingredient =
  ing_id :: uuid
  ing_tenantId :: uuid
  ing_code :: string
  ing_name :: string
  ing_unit :: string
  ing_lowStockThreshold :: quantity
  ing_metadata :: json
  ing_createdAt :: instant
  ing_updatedAt :: instant

record InventoryItem =
  ii_id :: uuid
  ii_tenantId :: uuid
  ii_warehouseId :: uuid
  ii_ingredientId :: uuid
  ii_sku :: "string option"
  ii_onHand :: quantity
  ii_reserved :: quantity
  ii_reorderPoint :: quantity
  ii_metadata :: json
  ii_createdAt :: instant
  ii_updatedAt :: instant

record RecipeBom =
  rb_id :: uuid
  rb_tenantId :: uuid
  rb_productId :: uuid
  rb_variantId :: "uuid option"
  rb_ingredientId :: uuid
  rb_quantity :: quantity
  rb_metadata :: json
  rb_createdAt :: instant
  rb_updatedAt :: instant

record ReceivingLine =
  rl_id :: uuid
  rl_ingredientId :: uuid
  rl_quantity :: quantity
  rl_unitCost :: "int option"
  rl_metadata :: json

record ReceivingRecord =
  rr_id :: uuid
  rr_tenantId :: uuid
  rr_warehouseId :: uuid
  rr_reference :: string
  rr_status :: string
  rr_receivedBy :: "string option"
  rr_completedAt :: "instant option"
  rr_metadata :: json
  rr_createdAt :: instant
  rr_updatedAt :: instant
  rr_lines :: "ReceivingLine list"

record InventoryAdjustment =
  ia_id :: uuid
  ia_tenantId :: uuid
  ia_warehouseId :: uuid
  ia_ingredientId :: uuid
  ia_adjustmentType :: string
  ia_quantity :: quantity
  ia_reason :: "string option"
  ia_metadata :: json
  ia_createdAt :: instant

datatype ReservationStatus = ResActive | ResReleased | ResConsumed

record StockReservation =
  sr_id :: uuid
  sr_tenantId :: uuid
  sr_warehouseId :: uuid
  sr_ingredientId :: uuid
  sr_sourceType :: string
  sr_sourceId :: string
  sr_quantity :: quantity
  sr_status :: ReservationStatus
  sr_expiresAt :: "instant option"
  sr_metadata :: json
  sr_createdAt :: instant
  sr_updatedAt :: instant

record StockLedgerEntry =
  sle_id :: uuid
  sle_tenantId :: uuid
  sle_warehouseId :: uuid
  sle_ingredientId :: uuid
  sle_entryType :: string
  sle_quantity :: quantity
  sle_balanceAfter :: quantity
  sle_sourceType :: string
  sle_sourceId :: string
  sle_metadata :: json
  sle_createdAt :: instant

record StopListRule =
  slr_id :: uuid
  slr_tenantId :: uuid
  slr_storeId :: "uuid option"
  slr_warehouseId :: "uuid option"
  slr_ingredientId :: "uuid option"
  slr_sku :: "string option"
  slr_ruleType :: string
  slr_threshold :: quantity
  slr_isActive :: bool
  slr_metadata :: json
  slr_createdAt :: instant
  slr_updatedAt :: instant

section \<open>Point of sale rows\<close>

record PosShift =
  ps_id :: uuid
  ps_tenantId :: uuid
  ps_storeId :: uuid
  ps_deviceId :: uuid
  ps_openedByUserId :: uuid
  ps_status :: PosShiftStatus
  ps_openingCashAmount :: "int option"
  ps_closingCashAmount :: "int option"
  ps_openedAt :: instant
  ps_closedAt :: "instant option"
  ps_createdAt :: instant
  ps_updatedAt :: instant

record PosSession =
  pse_id :: uuid
  pse_tenantId :: uuid
  pse_storeId :: uuid
  pse_deviceId :: uuid
  pse_shiftId :: uuid
  pse_userId :: uuid
  pse_status :: PosSessionStatus
  pse_startedAt :: instant
  pse_endedAt :: "instant option"
  pse_lastHeartbeatAt :: "instant option"
  pse_createdAt :: instant
  pse_updatedAt :: instant

section \<open>Customer rows\<close>

record CustomerProfile =
  cp_id :: uuid
  cp_tenantId :: uuid
  cp_preferredStoreId :: "uuid option"
  cp_fullName :: "string option"
  cp_phone :: string
  cp_phoneNormalized :: string
  cp_status :: string
  cp_orderCount :: int
  cp_completedOrderCount :: int
  cp_totalSpent :: int
  cp_lastOrderAt :: "instant option"
  cp_lastSeenAt :: "instant option"
  cp_segments :: "json option"
  cp_retentionState :: "json option"
  cp_createdAt :: instant
  cp_updatedAt :: instant

record LoyaltyAccount =
  la_id :: uuid
  la_tenantId :: uuid
  la_customerProfileId :: uuid
  la_pointsBalance :: int
  la_totalEarnedPoints :: int
  la_totalRedeemedPoints :: int
  la_tierKey :: "string option"
  la_createdAt :: instant
  la_updatedAt :: instant

record LoyaltyLedgerEntry =
  lle_id :: uuid
  lle_tenantId :: uuid
  lle_customerProfileId :: uuid
  lle_loyaltyAccountId :: uuid
  lle_orderId :: "uuid option"
  lle_entryKind :: LoyaltyLedgerEntryKind
  lle_points :: int
  lle_amount :: "int option"
  lle_description :: "string option"
  lle_metadata :: "json option"
  lle_createdAt :: instant

record PromotionCampaign =
  pc_id :: uuid
  pc_tenantId :: uuid
  pc_storeId :: "uuid option"
  pc_code :: string
  pc_name :: string
  pc_status :: PromotionStatus
  pc_type :: PromotionType
  pc_value :: int
  pc_minimumOrderTotal :: int
  pc_maxDiscountAmount :: "int option"
  pc_pointsCost :: "int option"
  pc_segmentKeys :: "string list"
  pc_usageLimit :: "int option"
  pc_usedCount :: int
  pc_activeFrom :: "instant option"
  pc_activeTo :: "instant option"
  pc_metadata :: "json option"
  pc_createdAt :: instant
  pc_updatedAt :: instant

section \<open>Log rows\<close>

record AuditLog =
  al_tenantId :: "uuid option"
  al_storeId :: "uuid option"
  al_actorType :: string
  al_actorId :: string
  al_action :: string
  al_entityType :: string
  al_entityId :: string
  al_payload :: "json option"

record OutboxEvent =
  ob_tenantId :: "uuid option"
  ob_eventName :: string
  ob_aggregate :: string
  ob_aggregateId :: string
  ob_payload :: json

record RealtimeMessage =
  rt_tenantId :: uuid
  rt_storeId :: uuid
  rt_type :: string
  rt_payload :: json
  rt_emittedAt :: instant

end
