(* ===== verification/Db.thy ===== *)
theory Db
  imports Database
begin

text \<open>
  The database as a record of tables, the identifiers it hands out, the access to single rows,
  and the writes every handler makes: order events, audit log, outbox and realtime messages. A
  handler is a function from the database to an error or a result and the next database: an
  error is the transaction \<open>DatabaseContextService.withRequestContext\<close> rolls back. Tables
  list their rows in the order of creation.
\<close>

section \<open>Tables\<close>

record db =
  db_seq :: nat
  stores :: "Store list"
  devices :: "Device list"
  brands :: "Brand list"
  categories :: "Category list"
  products :: "Product list"
  variants :: "ProductVariant list"
  modifierGroups :: "ModifierGroup list"
  modifierOptions :: "ModifierOption list"
  priceLists :: "PriceList list"
  overrides :: "StoreCatalogOverride list"
  availabilityWindows :: "AvailabilityWindowRecord list"
  storeSettings :: "Setting list"
  tenantSettings :: "Setting list"
  carts :: "Cart list"
  cartItems :: "CartItem list"
  orders :: "Order list"
  orderEvents :: "OrderEvent list"
  tickets :: "KitchenTicket list"
  warehouses :: "Warehouse list"
  ingredients :: "Ingredient list"
  invItems :: "InventoryItem list"
  recipeBoms :: "RecipeBom list"
  receivings :: "ReceivingRecord list"
  adjustments :: "InventoryAdjustment list"
  reservations :: "StockReservation list"
  ledger :: "StockLedgerEntry list"
  stopRules :: "StopListRule list"
  posShifts :: "PosShift list"
  posSessions :: "PosSession list"
  customerProfiles :: "CustomerProfile list"
  loyaltyAccounts :: "LoyaltyAccount list"
  loyaltyEntries :: "LoyaltyLedgerEntry list"
  promotions :: "PromotionCampaign list"
  auditLogs :: "AuditLog list"
  outbox :: "OutboxEvent list"
  realtime :: "RealtimeMessage list"

type_synonym 'a result = "error + 'a"

text \<open>
  A request that runs several transactions keeps what the committed ones wrote when a later step
  fails: its outcome is the answer, or the error, and the database it leaves.
\<close>

type_synonym 'a outcome = "(error + 'a) \<times> db"

definition committed :: "('a \<times> db) result \<Rightarrow> db \<Rightarrow> 'a outcome" where
  "committed m d = (case m of Inl e \<Rightarrow> (Inl e, d) | Inr (x, d') \<Rightarrow> (Inr x, d'))"

definition and_then :: "'a outcome \<Rightarrow> ('a \<Rightarrow> db \<Rightarrow> 'b outcome) \<Rightarrow> 'b outcome" where
  "and_then m f = (case m of (Inl e, d) \<Rightarrow> (Inl e, d) | (Inr x, d) \<Rightarrow> f x d)"

definition viewed :: "'a result \<Rightarrow> db \<Rightarrow> 'a outcome" where
  "viewed m d = (m, d)"

declare committed_def [code_unfold] and_then_def [code_unfold] viewed_def [code_unfold]

lemma committed_simps [simp]:
  "committed (Inl e) d = (Inl e, d)" "committed (Inr (x, d')) d = (Inr x, d')"
  by (simp_all add: committed_def)

lemma and_then_simps [simp]: "and_then (Inl e, d) f = (Inl e, d)" "and_then (Inr x, d) f = f x d"
  by (simp_all add: and_then_def)

lemma viewed_simp [simp]: "viewed m d = (m, d)"
  by (simp add: viewed_def)

section \<open>Fresh identifiers\<close>

text \<open>
  \<open>randomUUID()\<close> and the database's default ids never return an id twice: the counter
  \<open>db_seq\<close> numbers them. Ids the clients or the seed data brought are strings of their own.
\<close>

definition newId :: "nat \<Rightarrow> uuid" where
  "newId n = padStart 8 (CHR ''0'') (digits_of (int n)) @ ''-0000-4000-8000-000000000000''"

definition fresh_from :: "nat \<Rightarrow> uuid list \<Rightarrow> bool" where
  "fresh_from n ids \<longleftrightarrow> (\<forall>k\<ge>n. newId k \<notin> set ids)"

definition bump :: "db \<Rightarrow> db" where
  "bump d = d\<lparr>db_seq := Suc (db_seq d)\<rparr>"

definition nextId :: "db \<Rightarrow> uuid" where
  "nextId d = newId (db_seq d)"

declare bump_def [simp] nextId_def [simp]

lemma newId_inj [simp]: "newId m = newId n \<longleftrightarrow> m = n"
proof
  assume "newId m = newId n"
  then have "number_of (padStart 8 (CHR ''0'') (digits_of (int m))) =
      number_of (padStart 8 (CHR ''0'') (digits_of (int n)))"
    by (simp add: newId_def)
  then show "m = n" by (simp add: padStart_def number_of_padded)
qed simp

lemma fresh_from_Nil [simp]: "fresh_from n []"
  by (simp add: fresh_from_def)

lemma fresh_from_append [simp]: "fresh_from n (xs @ ys) \<longleftrightarrow> fresh_from n xs \<and> fresh_from n ys"
  by (auto simp: fresh_from_def)

lemma fresh_from_newId [simp]: "fresh_from n [newId k] \<longleftrightarrow> k < n"
  by (auto simp: fresh_from_def not_less [symmetric])

lemma fresh_from_mono: "fresh_from n ids \<Longrightarrow> n \<le> m \<Longrightarrow> fresh_from m ids"
  by (auto simp: fresh_from_def)

lemma fresh_from_Suc: "fresh_from n ids \<Longrightarrow> fresh_from (Suc n) ids"
  by (erule fresh_from_mono) simp

lemma fresh_fromD: "fresh_from n ids \<Longrightarrow> n \<le> k \<Longrightarrow> newId k \<notin> set ids"
  by (auto simp: fresh_from_def)

text \<open>Nested creates: each element takes its ids from the counter and hands it on.\<close>

fun create_rows :: "(nat \<Rightarrow> 'a \<Rightarrow> 'b \<times> nat) \<Rightarrow> 'a list \<Rightarrow> nat \<Rightarrow> 'b list \<times> nat" where
  "create_rows f [] n = ([], n)"
| "create_rows f (x # xs) n =
     (case f n x of (y, n1) \<Rightarrow> case create_rows f xs n1 of (ys, n2) \<Rightarrow> (y # ys, n2))"

lemma create_rows_map:
  "(\<And>n x. fst (f n x) = g n x) \<Longrightarrow> (\<And>n x. k (g n x) = h x) \<Longrightarrow>
     map k (fst (create_rows f xs n)) = map h xs"
  by (induction xs arbitrary: n) (simp_all add: case_prod_unfold)

lemma create_rows_length: "length (fst (create_rows f xs n)) = length xs"
  by (induction xs arbitrary: n) (simp_all add: case_prod_unfold)

lemma create_rows_counter: "(\<And>n x. n \<le> snd (f n x)) \<Longrightarrow> n \<le> snd (create_rows f xs n)"
  by (induction xs arbitrary: n) (auto simp: case_prod_unfold intro: order_trans)

section \<open>The interface of a table\<close>

text \<open>
  What a handler relies on when it finds, updates and creates rows by their id: an update is
  seen by later lookups of that id and by no other, a created row is found, and neither
  changes which ids the table holds, the created one apart.
\<close>

locale row_store =
  fixes key :: "'r \<Rightarrow> uuid"
    and keys :: "'d \<Rightarrow> uuid list"
    and get :: "uuid \<Rightarrow> 'd \<Rightarrow> 'r option"
    and upd :: "uuid \<Rightarrow> ('r \<Rightarrow> 'r) \<Rightarrow> 'd \<Rightarrow> 'd"
    and ins :: "'r \<Rightarrow> 'd \<Rightarrow> 'd"
  assumes get_upd: "(\<And>r. key (f r) = key r) \<Longrightarrow>
      get i (upd j f d) = (if i = j then map_option f (get i d) else get i d)"
    and get_ins: "get i (ins r d) = (case get i d of None \<Rightarrow> if key r = i then Some r else None
      | Some x \<Rightarrow> Some x)"
    and get_key: "get i d = Some r \<Longrightarrow> key r = i"
    and get_keys: "get i d = None \<longleftrightarrow> i \<notin> set (keys d)"
    and keys_upd: "(\<And>r. key (f r) = key r) \<Longrightarrow> keys (upd j f d) = keys d"
    and keys_ins: "keys (ins r d) = keys d @ [key r]"
begin

lemma get_ins_fresh: "key r \<notin> set (keys d) \<Longrightarrow>
    get i (ins r d) = (if i = key r then Some r else get i d)"
  by (auto simp: get_ins get_keys [symmetric] split: option.splits)

lemma get_upd_same: "(\<And>r. key (f r) = key r) \<Longrightarrow> get i d = Some r \<Longrightarrow> get i (upd i f d) = Some (f r)"
  by (simp add: get_upd)

lemma get_upd_other: "(\<And>r. key (f r) = key r) \<Longrightarrow> i \<noteq> j \<Longrightarrow> get i (upd j f d) = get i d"
  by (simp add: get_upd)

lemma distinct_ins: "distinct (keys d) \<Longrightarrow> key r \<notin> set (keys d) \<Longrightarrow> distinct (keys (ins r d))"
  by (simp add: keys_ins)

end

text \<open>A table that is a list of rows is such a store.\<close>

lemma row_store_list:
  fixes key :: "'r \<Rightarrow> uuid"
  assumes g: "\<And>i d. get i d = find (\<lambda>r. key r = i) (rows d)"
    and u: "\<And>i f d. rows (upd i f d) = update_where (\<lambda>r. key r = i) f (rows d)"
    and n: "\<And>r d. rows (ins r d) = rows d @ [r]"
  shows "row_store key (\<lambda>d. map key (rows d)) get upd ins"
proof
  fix f :: "'r \<Rightarrow> 'r" and i j d
  assume f: "\<And>r. key (f r) = key r"
  show "map key (rows (upd j f d)) = map key (rows d)"
    using f by (simp add: u map_update_where_key)
  have "find (\<lambda>r. key r = i) (update_where (\<lambda>r. key r = j) f rs) =
      (if i = j then map_option f (find (\<lambda>r. key r = i) rs) else find (\<lambda>r. key r = i) rs)" for rs
    using f by (induction rs) (auto simp: update_where_Cons)
  then show "get i (upd j f d) = (if i = j then map_option f (get i d) else get i d)"
    by (simp add: g u)
next
  fix i r d
  show "get i (ins r d) = (case get i d of None \<Rightarrow> if key r = i then Some r else None | Some x \<Rightarrow> Some x)"
    by (simp add: g n find_append split: option.split)
  show "get i d = Some r \<Longrightarrow> key r = i" using find_SomeD [of "\<lambda>r. key r = i"] by (simp add: g)
  show "(get i d = None) = (i \<notin> set (map key (rows d)))" by (auto simp: g find_None_iff)
qed (simp add: n)

section \<open>Settings\<close>

text \<open>
  Tenants and stores have settings under a key, unique per owner; \<open>upsert\<close> writes the value of
  an existing one and creates a missing one.
\<close>

definition find_setting :: "uuid \<Rightarrow> string \<Rightarrow> Setting list \<Rightarrow> Setting option" where
  "find_setting owner key settings = find (\<lambda>s. set_ownerId s = owner \<and> set_key s = key) settings"

definition with_value :: "instant \<Rightarrow> json \<Rightarrow> Setting \<Rightarrow> Setting" where
  "with_value now value s = s\<lparr>set_value := value, set_updatedAt := now\<rparr>"

definition put_setting ::
  "instant \<Rightarrow> uuid \<Rightarrow> uuid \<Rightarrow> uuid \<Rightarrow> string \<Rightarrow> json \<Rightarrow> Setting list \<Rightarrow> Setting \<times> Setting list" where
  "put_setting now i tenantId owner key value rows =
     (case find_setting owner key rows of
        Some s \<Rightarrow> (with_value now value s,
          update_where (\<lambda>s. set_ownerId s = owner \<and> set_key s = key) (with_value now value) rows)
      | None \<Rightarrow>
          let s = \<lparr>set_id = i, set_tenantId = tenantId, set_ownerId = owner, set_key = key,
                   set_value = value, set_createdAt = now, set_updatedAt = now\<rparr>
          in (s, rows @ [s]))"

definition setting_seq :: "uuid \<Rightarrow> string \<Rightarrow> Setting list \<Rightarrow> nat \<Rightarrow> nat" where
  "setting_seq owner key rows n = (if find_setting owner key rows = None then Suc n else n)"

definition upsert_setting ::
  "instant \<Rightarrow> uuid \<Rightarrow> uuid \<Rightarrow> string \<Rightarrow> json \<Rightarrow> db \<Rightarrow> Setting \<times> db" where
  "upsert_setting now tenantId owner key value d =
     (let (s, rows) = put_setting now (nextId d) tenantId owner key value (storeSettings d)
      in (s, d\<lparr>db_seq := setting_seq owner key (storeSettings d) (db_seq d), storeSettings := rows\<rparr>))"

definition upsert_tenant_setting :: "instant \<Rightarrow> uuid \<Rightarrow> string \<Rightarrow> json \<Rightarrow> db \<Rightarrow> Setting \<times> db" where
  "upsert_tenant_setting now tenantId key value d =
     (let (s, rows) = put_setting now (nextId d) tenantId tenantId key value (tenantSettings d)
      in (s, d\<lparr>db_seq := setting_seq tenantId key (tenantSettings d) (db_seq d), tenantSettings := rows\<rparr>))"

locale settings_store =
  fixes get :: "uuid \<Rightarrow> string \<Rightarrow> 'd \<Rightarrow> Setting option"
    and put :: "instant \<Rightarrow> uuid \<Rightarrow> string \<Rightarrow> json \<Rightarrow> 'd \<Rightarrow> Setting \<times> 'd"
  assumes get_put: "put now owner key v d = (s, d') \<Longrightarrow>
      get i k d' = (if i = owner \<and> k = key then Some s else get i k d)"
    and put_value: "put now owner key v d = (s, d') \<Longrightarrow> set_value s = v \<and> set_updatedAt s = now"
    and put_old: "put now owner key v d = (s, d') \<Longrightarrow> get owner key d = Some r \<Longrightarrow>
      set_id s = set_id r \<and> set_createdAt s = set_createdAt r"
begin

lemma read_back: "put now owner key v d = (s, d') \<Longrightarrow> map_option set_value (get owner key d') = Some v"
  by (auto simp: get_put put_value)

lemma read_other: "put now owner key v d = (s, d') \<Longrightarrow> (i, k) \<noteq> (owner, key) \<Longrightarrow> get i k d' = get i k d"
  by (auto simp: get_put)

text \<open>A second write keeps the id and the creation time of the first.\<close>

lemma put_again: "put now owner key v d = (s, d') \<Longrightarrow> put now' owner key v' d' = (s', d'') \<Longrightarrow>
    set_id s' = set_id s \<and> set_createdAt s' = set_createdAt s \<and> set_value s' = v'"
  using put_old [of now' owner key v' d' s' d''] put_value [of now' owner key v' d'] by (simp add: get_put)

end

lemma find_update_where_value:
  assumes "find P rows = Some r" and "P (f r)"
  shows "find P (update_where P f rows) = Some (f r)"
  using assms by (induction rows) (auto simp: update_where_Cons split: if_splits)

lemma find_put_setting:
  assumes "put_setting now i tenantId owner key v rows = (s, rows')"
  shows "find_setting j k rows' = (if j = owner \<and> k = key then Some s else find_setting j k rows)"
proof (cases "find_setting owner key rows")
  case None
  then have s: "set_ownerId s = owner" "set_key s = key" "rows' = rows @ [s]"
    using assms by (auto simp: put_setting_def Let_def)
  then show ?thesis using None by (auto simp: find_setting_def find_append split: option.splits)
next
  case (Some r)
  then have s: "s = with_value now v r" "rows' = update_where (\<lambda>s. set_ownerId s = owner \<and> set_key s = key)
      (with_value now v) rows"
    using assms by (auto simp: put_setting_def)
  have r: "set_ownerId r = owner" "set_key r = key" using find_SomeD [OF Some [unfolded find_setting_def]] by auto
  have "find_setting owner key rows' = Some s"
    unfolding s find_setting_def by (rule find_update_where_value [OF Some [unfolded find_setting_def]])
      (simp add: r with_value_def)
  moreover have "find_setting j k rows' = find_setting j k rows" if "\<not> (j = owner \<and> k = key)"
    unfolding s using that by (induction rows) (auto simp: find_setting_def update_where_Cons with_value_def)
  ultimately show ?thesis by simp
qed

lemma put_setting_value:
  assumes "put_setting now i tenantId owner key v rows = (s, rows')"
  shows "set_value s = v \<and> set_updatedAt s = now"
    "find_setting owner key rows = Some r \<Longrightarrow> set_id s = set_id r \<and> set_createdAt s = set_createdAt r"
  using assms by (auto simp: put_setting_def with_value_def Let_def split: option.splits)

interpretation store_settings: settings_store "\<lambda>owner key d. find_setting owner key (storeSettings d)"
  "\<lambda>now owner. upsert_setting now tenantId owner"
  for tenantId
  by unfold_locales (auto simp: upsert_setting_def find_put_setting dest: put_setting_value split: prod.splits)

interpretation tenant_settings: settings_store "\<lambda>owner key d. find_setting owner key (tenantSettings d)"
  upsert_tenant_setting
  by unfold_locales (auto simp: upsert_tenant_setting_def find_put_setting dest: put_setting_value split: prod.splits)

lemma upsert_logged: "upsert_setting now t owner key v d = (s, d') \<Longrightarrow>
    \<exists>n ss. db_seq d \<le> n \<and> d' = d\<lparr>db_seq := n, storeSettings := ss\<rparr>"
  by (rule exI [of _ "db_seq d'"], rule exI [of _ "storeSettings d'"])
    (cases d, auto simp: upsert_setting_def setting_seq_def split: prod.splits)

lemma upsert_tenant_logged: "upsert_tenant_setting now t key v d = (s, d') \<Longrightarrow>
    \<exists>n ss. db_seq d \<le> n \<and> d' = d\<lparr>db_seq := n, tenantSettings := ss\<rparr>"
  by (rule exI [of _ "db_seq d'"], rule exI [of _ "tenantSettings d'"])
    (cases d, auto simp: upsert_tenant_setting_def setting_seq_def split: prod.splits)

section \<open>The writes every handler makes\<close>

definition jtime :: "instant \<Rightarrow> json" where
  "jtime t = JStr (toISOString t)"

definition jmoney :: "int \<Rightarrow> json" where
  "jmoney c = JStr (formatCents c)"

definition jlist :: "json list \<Rightarrow> json" where
  "jlist items = JObj [(''items'', JArr items), (''total'', jint (int (length items)))]"

definition recordTx :: "AuditLog \<Rightarrow> db \<Rightarrow> db" where
  "recordTx input d = d\<lparr>auditLogs := auditLogs d @ [input]\<rparr>"

definition domainEvents_record :: "OutboxEvent \<Rightarrow> db \<Rightarrow> db" where
  "domainEvents_record input d = d\<lparr>outbox := outbox d @ [input]\<rparr>"

definition emitToStore :: "instant \<Rightarrow> uuid \<Rightarrow> uuid \<Rightarrow> string \<Rightarrow> json \<Rightarrow> db \<Rightarrow> db" where
  "emitToStore now tenantId storeId type payload d =
     d\<lparr>realtime := realtime d @
        [\<lparr>rt_tenantId = tenantId, rt_storeId = storeId, rt_type = type, rt_payload = payload,
          rt_emittedAt = now\<rparr>]\<rparr>"

definition recordOrderEvent :: "instant \<Rightarrow> uuid \<Rightarrow> uuid \<Rightarrow> uuid \<Rightarrow> string \<Rightarrow> json \<Rightarrow> db \<Rightarrow> db" where
  "recordOrderEvent now orderId tenantId storeId type payload d =
     bump (d\<lparr>orderEvents := orderEvents d @
        [\<lparr>oe_id = nextId d, oe_orderId = orderId, oe_tenantId = tenantId, oe_storeId = storeId,
          oe_type = type, oe_payload = payload, oe_createdAt = now\<rparr>]\<rparr>)"

declare recordTx_def [simp] domainEvents_record_def [simp] emitToStore_def [simp]
  recordOrderEvent_def [simp]

definition resolveActorType :: "RequestContext \<Rightarrow> string" where
  "resolveActorType context = (if ctx_scope context = DeviceScope then ''DEVICE'' else ''USER'')"

definition resolveActorId :: "RequestContext \<Rightarrow> string" where
  "resolveActorId context =
     (if ctx_scope context = DeviceScope \<and> truthy (ctx_deviceId context)
      then nullish (ctx_deviceId context) '''' else ctx_userId context)"

definition resolveCreatedByUserId :: "RequestContext \<Rightarrow> string option" where
  "resolveCreatedByUserId context =
     (if ctx_scope context = DeviceScope then None else Some (ctx_userId context))"

text \<open>A tenant restriction of a query: \<open>None\<close> restricts nothing.\<close>

definition of_tenant :: "uuid option \<Rightarrow> uuid \<Rightarrow> bool" where
  "of_tenant w t \<longleftrightarrow> (case w of None \<Rightarrow> True | Some x \<Rightarrow> t = x)"

text \<open>
  The \<open>where\<close> clause of every list: the tenant, then the requested store or, without one, the
  stores the context is restricted to.
\<close>

definition in_scope :: "RequestContext \<Rightarrow> uuid option \<Rightarrow> uuid option \<Rightarrow> uuid \<Rightarrow> uuid \<Rightarrow> bool" where
  "in_scope context tw storeId t s \<longleftrightarrow>
     of_tenant tw t \<and> (truthy storeId \<longrightarrow> storeId = Some s) \<and>
     (\<not> truthy storeId \<longrightarrow> (case storeFilter context of None \<Rightarrow> True | Some ss \<Rightarrow> s \<in> set ss))"

definition checkStoreQuery :: "RequestContext \<Rightarrow> uuid option \<Rightarrow> error + unit" where
  "checkStoreQuery context storeId =
     (if truthy storeId then enforceStoreAccess context (nullish storeId '''') else Inr ())"

text \<open>Every row such a query returns is one the context may act on.\<close>

lemma in_scope_may_access:
  assumes "tenantWhere context q = Inr tw" and "checkStoreQuery context storeId = Inr u"
    and "in_scope context tw storeId t s"
  shows "may_access context t s"
proof (cases "ctx_scope context = PlatformAdmin")
  case True
  then show ?thesis by (simp add: may_access_def)
next
  case False
  with assms(1) tenantWhere_member obtain x where "tw = Some x" "ctx_tenantId context = Some x"
    by blast
  with False assms(2,3) show ?thesis
    by (auto simp: in_scope_def may_access_def of_tenant_def checkStoreQuery_def storeFilter_def
        truthy_iff split: if_splits)
qed

end
