(* ===== verification/Lifecycle.thy ===== *)
theory Lifecycle
  imports Types
begin

text \<open>
  The two status machines: \<open>orders/order-lifecycle.util.ts\<close> and the ticket transitions, the
  board status and the station routing of \<open>kitchen/kitchen-runtime.util.ts\<close>.
\<close>

section \<open>A transition table with a rank\<close>

text \<open>
  What a caller relies on in a transition table: every allowed step climbs in a bounded rank,
  and exactly the terminal statuses have no way out.
\<close>

locale lifecycle =
  fixes can :: "'s \<Rightarrow> 's \<Rightarrow> bool"
    and rank :: "'s \<Rightarrow> nat"
    and top :: nat
    and terminal :: "'s \<Rightarrow> bool"
  assumes climbs: "can a b \<Longrightarrow> rank a < rank b"
    and bounded: "rank a \<le> top"
    and terminal_iff: "terminal a \<longleftrightarrow> (\<forall>b. \<not> can a b)"
begin

fun run :: "'s \<Rightarrow> 's list \<Rightarrow> bool" where
  "run a [] = True"
| "run a (b # bs) = (can a b \<and> run b bs)"

lemma run_rank: "run a bs \<Longrightarrow> rank a + length bs \<le> top"
proof (induction bs arbitrary: a)
  case Nil
  then show ?case by (simp add: bounded)
next
  case (Cons b bs)
  then have "rank a < rank b" and "rank b + length bs \<le> top" by (auto dest: climbs)
  then show ?case by simp
qed

lemma tranclp_climbs: "can\<^sup>+\<^sup>+ a b \<Longrightarrow> rank a < rank b"
  by (induction rule: tranclp_induct) (auto dest: climbs)

lemma acyclic: "\<not> can\<^sup>+\<^sup>+ a a"
  by (auto dest: tranclp_climbs)

lemma terminal_run: "terminal a \<Longrightarrow> run a bs \<longleftrightarrow> bs = []"
  by (cases bs) (auto simp: terminal_iff)

lemma reaches_terminal: "\<exists>b. can\<^sup>*\<^sup>* a b \<and> terminal b"
proof (induction "top - rank a" arbitrary: a rule: less_induct)
  case less
  show ?case
  proof (cases "terminal a")
    case True
    then show ?thesis by blast
  next
    case False
    then obtain b where b: "can a b" by (auto simp: terminal_iff)
    then have "rank a < rank b" by (rule climbs)
    with bounded [of b] have "top - rank b < top - rank a" by linarith
    then obtain c where "can\<^sup>*\<^sup>* b c" "terminal c" using less by blast
    with b show ?thesis by (meson converse_rtranclp_into_rtranclp)
  qed
qed

end

section \<open>Orders\<close>

definition transitionMap :: "(OrderStatus \<times> OrderStatus list) list" where
  "transitionMap =
     [(PLACED, [CONFIRMED, CANCELLED]),
      (CONFIRMED, [IN_PREPARATION, CANCELLED]),
      (IN_PREPARATION, [READY, CANCELLED]),
      (READY, [COMPLETED]),
      (COMPLETED, []),
      (CANCELLED, [])]"

definition canTransitionOrder :: "OrderStatus \<Rightarrow> OrderStatus \<Rightarrow> bool" where
  "canTransitionOrder fromStatus toStatus =
     (case map_of transitionMap fromStatus of None \<Rightarrow> False | Some allowed \<Rightarrow> toStatus \<in> set allowed)"

definition resolveRefundStatusOnCancel :: "bool option \<Rightarrow> RefundStatus" where
  "resolveRefundStatusOnCancel hasExternalPayment =
     (if hasExternalPayment = Some True then PENDING_MANUAL else NOT_REQUIRED)"

definition order_rank :: "OrderStatus \<Rightarrow> nat" where
  "order_rank s = (case s of PLACED \<Rightarrow> 0 | CONFIRMED \<Rightarrow> 1 | IN_PREPARATION \<Rightarrow> 2 | READY \<Rightarrow> 3
     | COMPLETED \<Rightarrow> 4 | CANCELLED \<Rightarrow> 4)"

definition order_terminal :: "OrderStatus \<Rightarrow> bool" where
  "order_terminal s \<longleftrightarrow> s = COMPLETED \<or> s = CANCELLED"

lemma canTransitionOrder_iff:
  "canTransitionOrder a b \<longleftrightarrow>
     (a = PLACED \<and> (b = CONFIRMED \<or> b = CANCELLED)) \<or>
     (a = CONFIRMED \<and> (b = IN_PREPARATION \<or> b = CANCELLED)) \<or>
     (a = IN_PREPARATION \<and> (b = READY \<or> b = CANCELLED)) \<or>
     (a = READY \<and> b = COMPLETED)"
  by (cases a) (auto simp: canTransitionOrder_def transitionMap_def)

interpretation ordl: lifecycle canTransitionOrder order_rank 4 order_terminal
proof unfold_locales
  show "order_terminal a \<longleftrightarrow> (\<forall>b. \<not> canTransitionOrder a b)" for a
    by (cases a) (auto simp: order_terminal_def canTransitionOrder_iff)
qed (auto simp: canTransitionOrder_iff order_rank_def split: OrderStatus.split)

section \<open>Kitchen tickets\<close>

definition ticketTransitionMap :: "(KitchenTicketStatus \<times> KitchenTicketStatus list) list" where
  "ticketTransitionMap =
     [(TkNew, [TkInProgress, TkCancelled]),
      (TkInProgress, [TkReady, TkCancelled]),
      (TkReady, [TkCompleted]),
      (TkCompleted, []),
      (TkCancelled, [])]"

definition canTransitionKitchenTicket :: "KitchenTicketStatus \<Rightarrow> KitchenTicketStatus \<Rightarrow> bool" where
  "canTransitionKitchenTicket fromStatus toStatus =
     (case map_of ticketTransitionMap fromStatus of
        None \<Rightarrow> False | Some allowed \<Rightarrow> toStatus \<in> set allowed)"

definition ticket_rank :: "KitchenTicketStatus \<Rightarrow> nat" where
  "ticket_rank s = (case s of TkNew \<Rightarrow> 0 | TkInProgress \<Rightarrow> 1 | TkReady \<Rightarrow> 2 | TkCompleted \<Rightarrow> 3
     | TkCancelled \<Rightarrow> 3)"

definition ticket_terminal :: "KitchenTicketStatus \<Rightarrow> bool" where
  "ticket_terminal s \<longleftrightarrow> s = TkCompleted \<or> s = TkCancelled"

lemma canTransitionKitchenTicket_iff:
  "canTransitionKitchenTicket a b \<longleftrightarrow>
     (a = TkNew \<and> (b = TkInProgress \<or> b = TkCancelled)) \<or>
     (a = TkInProgress \<and> (b = TkReady \<or> b = TkCancelled)) \<or>
     (a = TkReady \<and> b = TkCompleted)"
  by (cases a) (auto simp: canTransitionKitchenTicket_def ticketTransitionMap_def)

interpretation tktl: lifecycle canTransitionKitchenTicket ticket_rank 3 ticket_terminal
proof unfold_locales
  show "ticket_terminal a \<longleftrightarrow> (\<forall>b. \<not> canTransitionKitchenTicket a b)" for a
    by (cases a) (auto simp: ticket_terminal_def canTransitionKitchenTicket_iff)
qed (auto simp: canTransitionKitchenTicket_iff ticket_rank_def split: KitchenTicketStatus.split)

definition deriveBoardStatus :: "OrderStatus \<Rightarrow> KitchenTicketStatus list \<Rightarrow> KitchenBoardStatus" where
  "deriveBoardStatus orderStatus ticketStatuses =
     (if orderStatus = CANCELLED then BdCancelled
      else if ticketStatuses = [] then (if orderStatus = COMPLETED then BdCompleted else BdNew)
      else if list_all (\<lambda>s. s = TkCompleted) ticketStatuses then BdCompleted
      else if list_all (\<lambda>s. s = TkCancelled) ticketStatuses then BdCancelled
      else if list_all (\<lambda>s. s = TkReady \<or> s = TkCompleted) ticketStatuses then BdReady
      else if list_ex (\<lambda>s. s = TkInProgress) ticketStatuses then BdInProgress
      else BdNew)"

lemma deriveBoardStatus_completed:
  "deriveBoardStatus st ts = BdCompleted \<longleftrightarrow>
     st \<noteq> CANCELLED \<and>
     (if ts = [] then st = COMPLETED else \<forall>t \<in> set ts. t = TkCompleted)"
  by (auto simp: deriveBoardStatus_def list_all_iff)

lemma deriveBoardStatus_perm:
  "set ts = set ts' \<Longrightarrow> deriveBoardStatus st ts = deriveBoardStatus st ts'"
  by (auto simp: deriveBoardStatus_def list_all_iff list_ex_iff)

section \<open>Station routing\<close>

definition station_char :: "char \<Rightarrow> bool" where
  "station_char c \<longleftrightarrow> is_upper c \<or> is_digit c"

text \<open>\<open>replace(/[^A-Z0-9]+/g, "_")\<close>: the flag says that the run has its underscore already.\<close>

fun collapse_runs :: "bool \<Rightarrow> string \<Rightarrow> string" where
  "collapse_runs r [] = []"
| "collapse_runs r (c # cs) =
     (if station_char c then c # collapse_runs False cs
      else if r then collapse_runs True cs
      else CHR ''_'' # collapse_runs True cs)"

text \<open>\<open>replace(/^_+|_+$/g, "")\<close>.\<close>

definition strip_underscores :: "string \<Rightarrow> string" where
  "strip_underscores s =
     rev (dropWhile (\<lambda>c. c = CHR ''_'') (rev (dropWhile (\<lambda>c. c = CHR ''_'') s)))"

definition normalizeStationKey :: "string option \<Rightarrow> string" where
  "normalizeStationKey value =
     (let normalized =
        strip_underscores (collapse_runs False (toUpperCase (trim (nullish value ''''))))
      in if normalized = '''' then ''KITCHEN'' else normalized)"

text \<open>
  \<open>Object.fromEntries\<close> of the string entries, the keys trimmed and in lower case; a later
  entry for the same key wins.
\<close>

definition normalizeRecord :: "json option \<Rightarrow> (string \<times> string) list" where
  "normalizeRecord input =
     (case input of
        Some (JObj entries) \<Rightarrow>
          rev (List.map_filter (\<lambda>(k, v). case v of
                 JStr s \<Rightarrow> if trim s \<noteq> '''' then Some (toLowerCase (trim k), normalizeStationKey (Some s))
                           else None
               | _ \<Rightarrow> None) entries)
      | _ \<Rightarrow> [])"

record KitchenRoutingConfig =
  krc_defaultStationKey :: string
  krc_productCodeMap :: "(string \<times> string) list"
  krc_categoryCodeMap :: "(string \<times> string) list"

definition resolveKitchenRoutingConfig :: "json option \<Rightarrow> KitchenRoutingConfig" where
  "resolveKitchenRoutingConfig value =
     (let field = (\<lambda>k. Option.bind value (\<lambda>j. jfield j k)) in
      \<lparr>krc_defaultStationKey =
         normalizeStationKey (Some (nullish (jstring (field ''defaultStationKey'')) ''KITCHEN'')),
       krc_productCodeMap = normalizeRecord (field ''productCodeMap''),
       krc_categoryCodeMap = normalizeRecord (field ''categoryCodeMap'')\<rparr>)"

definition resolveKitchenStationKey ::
  "KitchenRoutingConfig \<Rightarrow> string \<Rightarrow> string option \<Rightarrow> string" where
  "resolveKitchenStationKey config productCode0 categoryCode0 =
     (let productCode = toLowerCase (trim productCode0);
          categoryCode = map_option (\<lambda>c. toLowerCase (trim c)) categoryCode0
      in nullish
           (orElse (map_of (krc_productCodeMap config) productCode)
              (case categoryCode of
                 None \<Rightarrow> None
               | Some c \<Rightarrow> if c = '''' then None else map_of (krc_categoryCodeMap config) c))
           (krc_defaultStationKey config))"

text \<open>A normal station key: not empty, letters and digits in runs joined by single underscores.\<close>

fun single_underscores :: "string \<Rightarrow> bool" where
  "single_underscores (a # b # s) \<longleftrightarrow>
     \<not> (a = CHR ''_'' \<and> b = CHR ''_'') \<and> single_underscores (b # s)"
| "single_underscores s \<longleftrightarrow> True"

definition station_key :: "string \<Rightarrow> bool" where
  "station_key s \<longleftrightarrow> s \<noteq> [] \<and> hd s \<noteq> CHR ''_'' \<and> last s \<noteq> CHR ''_'' \<and>
     list_all (\<lambda>c. station_char c \<or> c = CHR ''_'') s \<and> single_underscores s"

lemma station_char_not_underscore [simp]: "\<not> station_char (CHR ''_'')"
  by (simp add: station_char_def is_upper_def is_digit_def code_def)

lemma collapse_chars: "list_all (\<lambda>c. station_char c \<or> c = CHR ''_'') (collapse_runs r s)"
  by (induction r s rule: collapse_runs.induct) auto

lemma collapse_True_hd: "collapse_runs True s = c # cs \<Longrightarrow> station_char c"
  by (induction s) (auto split: if_splits)

lemma collapse_single: "single_underscores (collapse_runs r s)"
proof (induction r s rule: collapse_runs.induct)
  case (2 r c cs)
  show ?case
  proof (cases "collapse_runs True cs")
    case Nil
    with 2 show ?thesis
      by (cases "collapse_runs False cs") auto
  next
    case (Cons d ds)
    then have "d \<noteq> CHR ''_''" using collapse_True_hd by fastforce
    with 2 Cons show ?thesis
      by (cases "collapse_runs False cs") auto
  qed
qed simp

lemma single_drop: "single_underscores s \<Longrightarrow> single_underscores (dropWhile P s)"
  by (induction s rule: single_underscores.induct) auto

lemma single_append: "single_underscores (s @ t) \<Longrightarrow> single_underscores s"
  by (induction s rule: single_underscores.induct) (auto, (case_tac t; simp)?)

lemma strip_decomp:
  obtains t where "dropWhile (\<lambda>c. c = CHR ''_'') s = strip_underscores s @ t"
  using takeWhile_dropWhile_id [of "\<lambda>c. c = CHR ''_''" "rev (dropWhile (\<lambda>c. c = CHR ''_'') s)"]
  by (metis rev_append rev_rev_ident strip_underscores_def)

lemma strip_ends:
  assumes "strip_underscores s \<noteq> []"
  shows "hd (strip_underscores s) \<noteq> CHR ''_''" and "last (strip_underscores s) \<noteq> CHR ''_''"
proof -
  let ?d = "dropWhile (\<lambda>c. c = CHR ''_'') s"
  obtain t where t: "?d = strip_underscores s @ t" by (rule strip_decomp)
  with assms have "hd (strip_underscores s) = hd ?d" and "?d \<noteq> []" by auto
  then show "hd (strip_underscores s) \<noteq> CHR ''_''"
    using hd_dropWhile [of "\<lambda>c. c = CHR ''_''" s] by simp
  have "dropWhile (\<lambda>c. c = CHR ''_'') (rev ?d) \<noteq> []"
    using assms by (auto simp: strip_underscores_def)
  then show "last (strip_underscores s) \<noteq> CHR ''_''"
    using hd_dropWhile [of "\<lambda>c. c = CHR ''_''" "rev ?d"] by (simp add: strip_underscores_def last_rev)
qed

lemma normalizeStationKey_normal: "station_key (normalizeStationKey v)"
proof -
  let ?c = "collapse_runs False (toUpperCase (trim (nullish v '''')))"
  obtain t where t: "dropWhile (\<lambda>c. c = CHR ''_'') ?c = strip_underscores ?c @ t"
    by (rule strip_decomp)
  have single: "single_underscores (strip_underscores ?c)"
    using single_append single_drop collapse_single by (metis t)
  have "set (strip_underscores ?c) \<subseteq> set ?c"
    using t by (metis Un_iff set_append set_dropWhileD subsetI)
  then have chars: "list_all (\<lambda>c. station_char c \<or> c = CHR ''_'') (strip_underscores ?c)"
    using collapse_chars [of False "toUpperCase (trim (nullish v ''''))"] by (auto simp: list_all_iff)
  show ?thesis
  proof (cases "strip_underscores ?c = []")
    case True
    then have "normalizeStationKey v = ''KITCHEN''" by (simp add: normalizeStationKey_def Let_def)
    then show ?thesis
      by (simp add: station_key_def station_char_def is_upper_def is_digit_def code_def)
  next
    case False
    then have "normalizeStationKey v = strip_underscores ?c"
      by (simp add: normalizeStationKey_def Let_def)
    with False single chars strip_ends show ?thesis by (simp add: station_key_def)
  qed
qed

text \<open>Routing always ends at a normal station key.\<close>

lemma normalizeRecord_keys: "(k, v) \<in> set (normalizeRecord j) \<Longrightarrow> station_key v"
  by (cases j)
    (auto simp: normalizeRecord_def map_filter_def normalizeStationKey_normal
      split: json.splits if_splits)

lemma resolveKitchenStationKey_normal:
  "station_key (resolveKitchenStationKey (resolveKitchenRoutingConfig j) p c)"
proof -
  have m: "map_of (normalizeRecord x) k = Some v \<Longrightarrow> station_key v" for x k v
    by (auto dest: map_of_SomeD normalizeRecord_keys)
  show ?thesis
    by (auto simp: resolveKitchenStationKey_def resolveKitchenRoutingConfig_def Let_def nullish_def
        orElse_def normalizeStationKey_normal split: option.splits dest: m)
qed

end
