(* ===== verification/Mappers.thy ===== *)
theory Mappers
  imports Db Lifecycle
begin

text \<open>
  The transfer objects of carts, orders and kitchen tickets: the mapping functions of
  \<open>orders/orders.module.ts\<close> and \<open>kitchen/kitchen.module.ts\<close>. A missing column is a JSON null.
\<close>

definition mapModifier :: "ItemModifier \<Rightarrow> json" where
  "mapModifier modifier = JObj
     [(''id'', JStr (im_id modifier)),
      (''modifierGroupId'', JStr (im_modifierGroupId modifier)),
      (''modifierOptionId'', JStr (im_modifierOptionId modifier)),
      (''nameSnapshot'', JStr (im_nameSnapshot modifier)),
      (''priceDelta'', jmoney (im_priceDelta modifier))]"

definition mapCartItem :: "CartItem \<Rightarrow> json" where
  "mapCartItem item = JObj
     [(''id'', JStr (ci_id item)),
      (''cartId'', JStr (ci_cartId item)),
      (''productId'', JStr (ci_productId item)),
      (''variantId'', jopt (ci_variantId item)),
      (''quantity'', jint (ci_quantity item)),
      (''priceListId'', jopt (ci_priceListId item)),
      (''unitBasePrice'', jopt (map_option formatCents (ci_unitBasePrice item))),
      (''modifierTotal'', jmoney (ci_modifierTotal item)),
      (''lineTotal'', jmoney (ci_lineTotal item)),
      (''snapshot'', ci_snapshot item),
      (''createdAt'', jtime (ci_createdAt item)),
      (''updatedAt'', jtime (ci_updatedAt item)),
      (''modifiers'', JArr (map mapModifier (ci_modifiers item)))]"

definition mapAppliedPromotion :: "json option \<Rightarrow> int \<Rightarrow> json" where
  "mapAppliedPromotion value discountTotal =
     (case value of
        Some (JObj kvs) \<Rightarrow>
          (let field = map_of kvs;
               type = jstring (field ''type'')
           in JObj
             [(''code'', JStr (nullish (jstring (field ''code'')) ''PROMO'')),
              (''name'', JStr (nullish (jstring (field ''name'')) ''Promotion'')),
              (''type'', JStr (case type of None \<Rightarrow> ''FIXED_AMOUNT''
                 | Some t \<Rightarrow> if t \<in> {''PERCENTAGE'', ''FIXED_AMOUNT'', ''LOYALTY_REDEEM''} then t
                           else ''FIXED_AMOUNT'')),
              (''discountTotal'',
                JStr (nullish (jstring (field ''discountTotal'')) (formatCents discountTotal))),
              (''pointsCost'', (case jnumber (field ''pointsCost'') of None \<Rightarrow> JNull | Some n \<Rightarrow> JNum n))])
      | _ \<Rightarrow> JNull)"

definition mapCart :: "Cart \<Rightarrow> CartItem list \<Rightarrow> json" where
  "mapCart cart items = JObj
     [(''id'', JStr (cart_id cart)),
      (''tenantId'', JStr (cart_tenantId cart)),
      (''storeId'', JStr (cart_storeId cart)),
      (''customerProfileId'', jopt (cart_customerProfileId cart)),
      (''channel'', JStr (show_channel (cart_channel cart))),
      (''status'', JStr (show_cart_status (cart_status cart))),
      (''customerName'', jopt (cart_customerName cart)),
      (''customerPhone'', jopt (cart_customerPhone cart)),
      (''note'', jopt (cart_note cart)),
      (''subtotal'', jmoney (cart_subtotal cart)),
      (''modifierTotal'', jmoney (cart_modifierTotal cart)),
      (''fulfillmentFee'', jmoney (cart_fulfillmentFee cart)),
      (''discountTotal'', jmoney (cart_discountTotal cart)),
      (''total'', jmoney (cart_total cart)),
      (''promotion'', mapAppliedPromotion (cart_promotionSnapshot cart) (cart_discountTotal cart)),
      (''fulfillment'', mapFulfillmentSnapshot (cart_fulfillmentMode cart) (cart_fulfillmentStatus cart)
         (Some (cart_fulfillmentFee cart)) (cart_promisedAt cart) (cart_etaAt cart)
         (cart_fulfillmentPayload cart)),
      (''deviceId'', jopt (cart_deviceId cart)),
      (''createdByUserId'', jopt (cart_createdByUserId cart)),
      (''createdAt'', jtime (cart_createdAt cart)),
      (''updatedAt'', jtime (cart_updatedAt cart)),
      (''items'', JArr (map mapCartItem items))]"

definition mapOrderItem :: "OrderItem \<Rightarrow> json" where
  "mapOrderItem item = JObj
     [(''id'', JStr (oi_id item)),
      (''orderId'', JStr (oi_orderId item)),
      (''productId'', JStr (oi_productId item)),
      (''variantId'', jopt (oi_variantId item)),
      (''quantity'', jint (oi_quantity item)),
      (''unitBasePrice'', jopt (map_option formatCents (oi_unitBasePrice item))),
      (''modifierTotal'', jmoney (oi_modifierTotal item)),
      (''lineTotal'', jmoney (oi_lineTotal item)),
      (''snapshot'', oi_snapshot item),
      (''createdAt'', jtime (oi_createdAt item)),
      (''modifiers'', JArr (map mapModifier (oi_modifiers item)))]"

definition mapOrder :: "Order \<Rightarrow> json" where
  "mapOrder order = JObj
     [(''id'', JStr (ord_id order)),
      (''tenantId'', JStr (ord_tenantId order)),
      (''storeId'', JStr (ord_storeId order)),
      (''cartId'', jopt (ord_cartId order)),
      (''customerProfileId'', jopt (ord_customerProfileId order)),
      (''number'', JStr (ord_number order)),
      (''channel'', JStr (show_channel (ord_channel order))),
      (''status'', JStr (show_order_status (ord_status order))),
      (''refundStatus'', JStr (show_refund_status (ord_refundStatus order))),
      (''customerName'', jopt (ord_customerName order)),
      (''customerPhone'', jopt (ord_customerPhone order)),
      (''note'', jopt (ord_note order)),
      (''subtotal'', jmoney (ord_subtotal order)),
      (''modifierTotal'', jmoney (ord_modifierTotal order)),
      (''fulfillmentFee'', jmoney (ord_fulfillmentFee order)),
      (''discountTotal'', jmoney (ord_discountTotal order)),
      (''total'', jmoney (ord_total order)),
      (''promotion'', mapAppliedPromotion (ord_promotionSnapshot order) (ord_discountTotal order)),
      (''fulfillment'', mapFulfillmentSnapshot (ord_fulfillmentMode order) (ord_fulfillmentStatus order)
         (Some (ord_fulfillmentFee order)) (ord_promisedAt order) (ord_etaAt order)
         (ord_fulfillmentPayload order)),
      (''cancelReason'', jopt (ord_cancelReason order)),
      (''deviceId'', jopt (ord_deviceId order)),
      (''createdByUserId'', jopt (ord_createdByUserId order)),
      (''placedAt'', jtime (ord_placedAt order)),
      (''confirmedAt'', jdate (ord_confirmedAt order)),
      (''readyAt'', jdate (ord_readyAt order)),
      (''completedAt'', jdate (ord_completedAt order)),
      (''cancelledAt'', jdate (ord_cancelledAt order)),
      (''createdAt'', jtime (ord_createdAt order)),
      (''updatedAt'', jtime (ord_updatedAt order)),
      (''items'', JArr (map mapOrderItem (ord_items order)))]"

definition mapOrderEvent :: "OrderEvent \<Rightarrow> json" where
  "mapOrderEvent event = JObj
     [(''id'', JStr (oe_id event)),
      (''orderId'', JStr (oe_orderId event)),
      (''tenantId'', JStr (oe_tenantId event)),
      (''storeId'', JStr (oe_storeId event)),
      (''type'', JStr (oe_type event)),
      (''payload'', oe_payload event),
      (''createdAt'', jtime (oe_createdAt event))]"

definition mapKitchenTicketItem :: "KitchenTicketItem \<Rightarrow> json" where
  "mapKitchenTicketItem item = JObj
     [(''id'', JStr (kti_id item)),
      (''ticketId'', JStr (kti_ticketId item)),
      (''orderItemId'', JStr (kti_orderItemId item)),
      (''productId'', JStr (kti_productId item)),
      (''variantId'', jopt (kti_variantId item)),
      (''quantity'', jint (kti_quantity item)),
      (''lineTotal'', jmoney (kti_lineTotal item)),
      (''snapshot'', kti_snapshot item),
      (''createdAt'', jtime (kti_createdAt item))]"

definition mapKitchenTicket :: "KitchenTicket \<Rightarrow> json" where
  "mapKitchenTicket ticket = JObj
     [(''id'', JStr (tk_id ticket)),
      (''orderId'', JStr (tk_orderId ticket)),
      (''tenantId'', JStr (tk_tenantId ticket)),
      (''storeId'', JStr (tk_storeId ticket)),
      (''stationKey'', JStr (tk_stationKey ticket)),
      (''status'', JStr (show_ticket_status (tk_status ticket))),
      (''sourceChannel'', JStr (show_channel (tk_sourceChannel ticket))),
      (''displayNumber'', JStr (tk_displayNumber ticket)),
      (''note'', jopt (tk_note ticket)),
      (''itemCount'', jint (tk_itemCount ticket)),
      (''startedAt'', jdate (tk_startedAt ticket)),
      (''readyAt'', jdate (tk_readyAt ticket)),
      (''completedAt'', jdate (tk_completedAt ticket)),
      (''cancelledAt'', jdate (tk_cancelledAt ticket)),
      (''createdAt'', jtime (tk_createdAt ticket)),
      (''updatedAt'', jtime (tk_updatedAt ticket)),
      (''items'', JArr (map mapKitchenTicketItem (tk_items ticket)))]"

text \<open>The entry of the board needs the tickets of its order.\<close>

definition board_status_of :: "Order \<Rightarrow> KitchenTicket list \<Rightarrow> KitchenBoardStatus" where
  "board_status_of order kitchenTickets =
     deriveBoardStatus (ord_status order) (map tk_status kitchenTickets)"

definition mapBoardEntry :: "Order \<Rightarrow> KitchenTicket list \<Rightarrow> json" where
  "mapBoardEntry order kitchenTickets = JObj
     [(''orderId'', JStr (ord_id order)),
      (''tenantId'', JStr (ord_tenantId order)),
      (''storeId'', JStr (ord_storeId order)),
      (''number'', JStr (ord_number order)),
      (''channel'', JStr (show_channel (ord_channel order))),
      (''orderStatus'', JStr (show_order_status (ord_status order))),
      (''boardStatus'', JStr (show_board_status (board_status_of order kitchenTickets))),
      (''customerName'', jopt (ord_customerName order)),
      (''note'', jopt (ord_note order)),
      (''placedAt'', jtime (ord_placedAt order)),
      (''readyAt'', jdate (ord_readyAt order)),
      (''completedAt'', jdate (ord_completedAt order)),
      (''ticketStatuses'', JArr (map (\<lambda>ticket. JObj
         [(''ticketId'', JStr (tk_id ticket)),
          (''stationKey'', JStr (tk_stationKey ticket)),
          (''status'', JStr (show_ticket_status (tk_status ticket)))]) kitchenTickets))]"

end
