(* ===== verification/Pricing.thy ===== *)
theory Pricing
  imports Db
begin

text \<open>
  The price of a selection: \<open>resolveSelectionTx\<close> of \<open>pricing/pricing.module.ts\<close>. Store overrides
  come before the price list, the price list before the catalogue, for the sold thing and for
  each modifier by itself.
\<close>

type_synonym target = "CatalogTargetType \<times> uuid"

record PricePreviewRequest =
  ppq_tenantId :: "uuid option"
  ppq_storeId :: uuid
  ppq_productId :: uuid
  ppq_variantId :: "uuid option"
  ppq_priceListId :: "uuid option"
  ppq_modifierOptionIds :: "uuid list"

record PricePreviewResponse =
  ppr_tenantId :: uuid
  ppr_storeId :: uuid
  ppr_productId :: uuid
  ppr_variantId :: "uuid option"
  ppr_priceListId :: "uuid option"
  ppr_basePrice :: "string option"
  ppr_modifierTotal :: string
  ppr_finalPrice :: string
  ppr_source :: PriceSource
  ppr_modifierBreakdown :: "PriceModifierInput list"

text \<open>\<open>findUniqueOrThrow\<close> behind the source's \<open>id ? ... : null\<close>: no id, no row.\<close>

definition find_optional :: "('r \<Rightarrow> uuid) \<Rightarrow> string \<Rightarrow> 'r list \<Rightarrow> uuid option \<Rightarrow> 'r option result" where
  "find_optional key model rows m =
     (if truthy m
      then bnd (orThrow (find (\<lambda>r. Some (key r) = m) rows) (RecordNotFound model)) (\<lambda>r. Inr (Some r))
      else Inr None)"

definition options_in :: "uuid list \<Rightarrow> db \<Rightarrow> ModifierOption list" where
  "options_in ids d = filter (\<lambda>x. mo_id x \<in> set ids) (modifierOptions d)"

text \<open>A JavaScript \<open>Map\<close> built from entries: the last entry for a key wins.\<close>

definition js_map :: "('k \<times> 'v) list \<Rightarrow> 'k \<Rightarrow> 'v option" where
  "js_map entries k = map_of (rev entries) k"

definition override_price :: "StoreCatalogOverride list \<Rightarrow> target \<Rightarrow> int option" where
  "override_price ovs t =
     Option.bind (js_map (map (\<lambda>x. ((sco_targetType x, sco_targetId x), x)) ovs) t) sco_priceOverride"

definition list_price :: "PriceListItem list \<Rightarrow> target \<Rightarrow> int option" where
  "list_price items t =
     map_option pli_price (js_map (map (\<lambda>x. ((pli_targetType x, pli_targetId x), x)) items) t)"

definition modifier_price ::
  "StoreCatalogOverride list \<Rightarrow> PriceListItem list \<Rightarrow> ModifierOption \<Rightarrow> PriceModifierInput" where
  "modifier_price ovs items option =
     \<lparr>pm_optionId = mo_id option,
      pm_priceDelta = nullish
        (orElse (map_option formatCents (override_price ovs (TgtModifierOption, mo_id option)))
           (map_option formatCents (list_price items (TgtModifierOption, mo_id option))))
        (formatCents (mo_priceDelta option))\<rparr>"

definition resolveSelectionTx ::
  "RequestContext \<Rightarrow> PricePreviewRequest \<Rightarrow> db \<Rightarrow> PricePreviewResponse result" where
  "resolveSelectionTx context dto d =
     bnd (orThrow (find (\<lambda>s. st_id s = ppq_storeId dto) (stores d)) (RecordNotFound ''Store'')) (\<lambda>store.
     bnd (resolveTenantId context (Some (nullish (ppq_tenantId dto) (st_tenantId store))) True) (\<lambda>_.
     bnd (enforceStoreAccess context (st_id store)) (\<lambda>_.
     bnd (orThrow (find (\<lambda>p. pr_id p = ppq_productId dto) (products d)) (RecordNotFound ''Product''))
       (\<lambda>product.
     bnd (ensure (pr_tenantId product = st_tenantId store)
            (BadRequestException ''Product tenant mismatch.'')) (\<lambda>_.
     bnd (find_optional pv_id ''ProductVariant'' (variants d) (ppq_variantId dto)) (\<lambda>variant.
     bnd (ensure (case variant of None \<Rightarrow> True | Some v \<Rightarrow> pv_productId v = pr_id product)
            (BadRequestException ''Variant does not belong to the requested product.'')) (\<lambda>_.
     let options = options_in (ppq_modifierOptionIds dto) d in
     bnd (ensure (length options = length (ppq_modifierOptionIds dto))
            (BadRequestException ''One or more modifier options were not found.'')) (\<lambda>_.
     bnd (find_optional pl_id ''PriceList'' (priceLists d) (ppq_priceListId dto)) (\<lambda>priceList.
     bnd (ensure (case priceList of None \<Rightarrow> True | Some l \<Rightarrow> pl_tenantId l = st_tenantId store)
            (BadRequestException ''Price list tenant mismatch.'')) (\<lambda>_.
     let overrideTargets = [(TgtProduct, pr_id product)] @
           (case variant of None \<Rightarrow> [] | Some v \<Rightarrow> [(TgtVariant, pv_id v)]) @
           map (\<lambda>x. (TgtModifierOption, mo_id x)) options;
         ovs = filter (\<lambda>x. sco_storeId x = st_id store \<and>
                 (sco_targetType x, sco_targetId x) \<in> set overrideTargets) (overrides d);
         items = (case priceList of None \<Rightarrow> [] | Some l \<Rightarrow> pl_items l);
         modifierBreakdown = map (modifier_price ovs items) options;
         priceTarget = (case variant of None \<Rightarrow> (TgtProduct, pr_id product)
                          | Some v \<Rightarrow> (TgtVariant, pv_id v)) in
     bnd (resolvePrice
            \<lparr>pri_storeOverridePrice = map_option formatCents (override_price ovs priceTarget),
             pri_priceListPrice = map_option formatCents (list_price items priceTarget),
             pri_variantBasePrice = map_option formatCents (Option.bind variant pv_basePrice),
             pri_productBasePrice = map_option formatCents (pr_basePrice product),
             pri_modifiers = modifierBreakdown\<rparr>) (\<lambda>resolved.
     Inr \<lparr>ppr_tenantId = st_tenantId store, ppr_storeId = st_id store,
          ppr_productId = pr_id product, ppr_variantId = map_option pv_id variant,
          ppr_priceListId = map_option pl_id priceList,
          ppr_basePrice = prr_basePrice resolved, ppr_modifierTotal = prr_modifierTotal resolved,
          ppr_finalPrice = prr_finalPrice resolved, ppr_source = prr_source resolved,
          ppr_modifierBreakdown = modifierBreakdown\<rparr>)))))))))))"

section \<open>The price in cents\<close>

definition modifier_delta :: "StoreCatalogOverride list \<Rightarrow> PriceListItem list \<Rightarrow> ModifierOption \<Rightarrow> int" where
  "modifier_delta ovs items option =
     nullish (orElse (override_price ovs (TgtModifierOption, mo_id option))
                (list_price items (TgtModifierOption, mo_id option))) (mo_priceDelta option)"

lemma modifier_price_delta:
  "modifier_price ovs items option =
     \<lparr>pm_optionId = mo_id option, pm_priceDelta = formatCents (modifier_delta ovs items option)\<rparr>"
  by (simp add: modifier_price_def modifier_delta_def nullish_def orElse_def split: option.splits)

lemma fold_modifier_prices:
  "foldE (\<lambda>m. addMoney (Some (pm_priceDelta m))) (map (modifier_price ovs items) os) n =
     Inr (n + sum_list (map (modifier_delta ovs items) os))"
  by (induction os arbitrary: n) (simp_all add: modifier_price_delta add.assoc)

lemma resolvePrice_decimal:
  assumes "resolvePrice \<lparr>pri_storeOverridePrice = map_option formatCents ov,
      pri_priceListPrice = map_option formatCents pl, pri_variantBasePrice = map_option formatCents vb,
      pri_productBasePrice = map_option formatCents pb,
      pri_modifiers = map (modifier_price ovs items) os\<rparr> = Inr r"
  shows "\<exists>b. (prr_source r, b) = (case price_candidates ov pl vb pb of [] \<Rightarrow> (NoSource, None)
        | (s, p) # _ \<Rightarrow> (s, Some p)) \<and> prr_basePrice r = map_option formatCents b \<and>
      prr_finalPrice r =
        formatCents (nullish b 0 + sum_list (map (modifier_delta ovs items) os)) \<and>
      prr_modifierTotal r = formatCents (sum_list (map (modifier_delta ovs items) os))"
proof -
  let ?c = "case price_candidates ov pl vb pb of [] \<Rightarrow> (NoSource, None) | (s, p) # _ \<Rightarrow> (s, Some p)"
  obtain src b where c: "(src, b) = ?c" by (metis surj_pair)
  note this [THEN resolvePrice_cents [OF fold_modifier_prices]]
  with assms have "r = \<lparr>prr_basePrice = map_option formatCents b,
      prr_modifierTotal = formatCents (0 + sum_list (map (modifier_delta ovs items) os)),
      prr_finalPrice = formatCents (nullish b 0 + (0 + sum_list (map (modifier_delta ovs items) os))),
      prr_source = src, prr_modifierBreakdown = map (modifier_price ovs items) os\<rparr>"
    by (simp add: price_input_def)
  with c show ?thesis by (intro exI [of _ b]) simp
qed

text \<open>What the caller of a resolution may rely on.\<close>

lemma resolveSelectionTx_Inr:
  assumes "resolveSelectionTx context dto d = Inr r"
  obtains b deltas where
    "ppr_basePrice r = map_option formatCents b"
    "map pm_priceDelta (ppr_modifierBreakdown r) = map formatCents deltas"
    "map pm_optionId (ppr_modifierBreakdown r) = map mo_id (options_in (ppq_modifierOptionIds dto) d)"
    "ppr_modifierTotal r = formatCents (sum_list deltas)"
    "ppr_finalPrice r = formatCents (nullish b 0 + sum_list deltas)"
    "ppr_source r = NoSource \<longleftrightarrow> b = None"
proof -
  from assms obtain ovs items res ov pl vb pb where
    res: "resolvePrice \<lparr>pri_storeOverridePrice = map_option formatCents ov,
      pri_priceListPrice = map_option formatCents pl, pri_variantBasePrice = map_option formatCents vb,
      pri_productBasePrice = map_option formatCents pb,
      pri_modifiers = map (modifier_price ovs items) (options_in (ppq_modifierOptionIds dto) d)\<rparr> = Inr res"
    and r: "ppr_basePrice r = prr_basePrice res" "ppr_modifierTotal r = prr_modifierTotal res"
      "ppr_finalPrice r = prr_finalPrice res" "ppr_source r = prr_source res"
      "ppr_modifierBreakdown r = map (modifier_price ovs items) (options_in (ppq_modifierOptionIds dto) d)"
    unfolding resolveSelectionTx_def Let_def by fastforce
  from resolvePrice_decimal [OF res] obtain b where
    b: "(prr_source res, b) = (case price_candidates ov pl vb pb of [] \<Rightarrow> (NoSource, None)
        | (s, p) # _ \<Rightarrow> (s, Some p))" "prr_basePrice res = map_option formatCents b"
      "prr_finalPrice res = formatCents (nullish b 0 +
        sum_list (map (modifier_delta ovs items) (options_in (ppq_modifierOptionIds dto) d)))"
      "prr_modifierTotal res = formatCents
        (sum_list (map (modifier_delta ovs items) (options_in (ppq_modifierOptionIds dto) d)))"
    by blast
  have "prr_source res = NoSource \<longleftrightarrow> b = None"
    using b(1) by (cases ov; cases pl; cases vb; cases pb) (auto simp: price_candidates_def map_filter_def)
  with b r show thesis
    by (intro that [of b "map (modifier_delta ovs items) (options_in (ppq_modifierOptionIds dto) d)"])
      (simp_all add: modifier_price_delta o_def)
qed

end
