(* ===== verification/Carts.thy ===== *)
theory Carts
  imports Mappers Pricing
begin

text \<open>
  The cart half of \<open>orders/orders.module.ts\<close>: a cart is created for a store, its items carry a
  priced snapshot of what was selected, and its totals are recomputed from the items after every
  change.
\<close>

section \<open>Rows\<close>

definition cart_get :: "uuid \<Rightarrow> db \<Rightarrow> Cart option" where
  "cart_get i d = find (\<lambda>c. cart_id c = i) (carts d)"

definition cart_update :: "uuid \<Rightarrow> (Cart \<Rightarrow> Cart) \<Rightarrow> db \<Rightarrow> db" where
  "cart_update i f d = d\<lparr>carts := update_where (\<lambda>c. cart_id c = i) f (carts d)\<rparr>"

definition cart_create :: "Cart \<Rightarrow> db \<Rightarrow> db" where
  "cart_create c d = d\<lparr>carts := carts d @ [c]\<rparr>"

definition cartItem_get :: "uuid \<Rightarrow> db \<Rightarrow> CartItem option" where
  "cartItem_get i d = find (\<lambda>c. ci_id c = i) (cartItems d)"

definition cartItem_update :: "uuid \<Rightarrow> (CartItem \<Rightarrow> CartItem) \<Rightarrow> db \<Rightarrow> db" where
  "cartItem_update i f d = d\<lparr>cartItems := update_where (\<lambda>c. ci_id c = i) f (cartItems d)\<rparr>"

definition cartItem_create :: "CartItem \<Rightarrow> db \<Rightarrow> db" where
  "cartItem_create c d = d\<lparr>cartItems := cartItems d @ [c]\<rparr>"

definition cartItem_delete :: "uuid \<Rightarrow> db \<Rightarrow> db" where
  "cartItem_delete i d = d\<lparr>cartItems := filter (\<lambda>c. ci_id c \<noteq> i) (cartItems d)\<rparr>"

definition cart_items :: "uuid \<Rightarrow> db \<Rightarrow> CartItem list" where
  "cart_items i d = filter (\<lambda>c. ci_cartId c = i) (cartItems d)"

definition loadCart :: "uuid \<Rightarrow> db \<Rightarrow> (Cart \<times> CartItem list) result" where
  "loadCart i d = bnd (orThrow (cart_get i d) (RecordNotFound ''Cart'')) (\<lambda>c. Inr (c, cart_items i d))"

interpretation cart_rows: row_store cart_id "\<lambda>d. map cart_id (carts d)" cart_get cart_update cart_create
  by (rule row_store_list) (simp_all add: cart_get_def cart_update_def cart_create_def)

interpretation cartItem_rows: row_store ci_id "\<lambda>d. map ci_id (cartItems d)" cartItem_get
    cartItem_update cartItem_create
  by (rule row_store_list) (simp_all add: cartItem_get_def cartItem_update_def cartItem_create_def)

section \<open>Checks\<close>

definition ensureCartOpen :: "Cart \<Rightarrow> error + unit" where
  "ensureCartOpen cart =
     ensure (cart_status cart = OPEN) (BadRequestException ''Only open carts can be modified.'')"

definition ensureDeviceBelongsToStore :: "uuid \<Rightarrow> uuid \<Rightarrow> uuid \<Rightarrow> db \<Rightarrow> error + unit" where
  "ensureDeviceBelongsToStore tenantId storeId deviceId d =
     bnd (orThrow (find (\<lambda>v. dev_id v = deviceId) (devices d)) (RecordNotFound ''Device'')) (\<lambda>device.
     ensure (dev_tenantId device = tenantId \<and> dev_storeId device = storeId)
       (BadRequestException ''Device does not belong to the requested store.''))"

text \<open>\<open>resolveTenantId\<close> and \<open>enforceStoreAccess\<close> on a loaded row.\<close>

definition checkAccess :: "RequestContext \<Rightarrow> uuid \<Rightarrow> uuid \<Rightarrow> error + unit" where
  "checkAccess context tenantId storeId =
     bnd (resolveTenantId context (Some tenantId) True) (\<lambda>_. enforceStoreAccess context storeId)"

lemma checkAccess_may_access:
  "t \<noteq> '''' \<Longrightarrow> checkAccess context t s = Inr u \<longleftrightarrow> may_access context t s"
  by (simp add: checkAccess_def checks_may_access del: bnd_eq_Inr)

section \<open>Totals\<close>

text \<open>An amount written to a money column.\<close>

definition decimal_of :: "string \<Rightarrow> int result" where
  "decimal_of s = bnd (parseMoneyToCents (Some s)) (\<lambda>c. orThrow c (JsError ''Invalid Decimal''))"

lemma decimal_of_format [simp]: "decimal_of (formatCents c) = Inr c"
  by (simp add: decimal_of_def)

definition recalculateCartTotals :: "instant \<Rightarrow> uuid \<Rightarrow> db \<Rightarrow> db result" where
  "recalculateCartTotals now cartId d =
     (let items = cart_items cartId d in
      bnd (orThrow (cart_get cartId d) (RecordNotFound ''Cart'')) (\<lambda>cart.
      bnd (calculateCartTotals
             (map (\<lambda>item. \<lparr>ti_quantity = ci_quantity item,
                ti_unitBasePrice = map_option formatCents (ci_unitBasePrice item),
                ti_modifierTotal = formatCents (ci_modifierTotal item)\<rparr>) items)
             (Some (formatCents (cart_fulfillmentFee cart)))
             (Some (formatCents (cart_discountTotal cart)))) (\<lambda>totals.
      bnd (decimal_of (ct_subtotal totals)) (\<lambda>subtotal.
      bnd (decimal_of (ct_modifierTotal totals)) (\<lambda>modifierTotal.
      bnd (decimal_of (ct_discountTotal totals)) (\<lambda>discountTotal.
      bnd (decimal_of (ct_total totals)) (\<lambda>total.
      Inr (cart_update cartId (\<lambda>c. c\<lparr>cart_subtotal := subtotal, cart_modifierTotal := modifierTotal,
             cart_discountTotal := discountTotal, cart_total := total, cart_updatedAt := now\<rparr>) d))))))))"

definition clearCartPromotionTx :: "instant \<Rightarrow> uuid \<Rightarrow> db \<Rightarrow> db" where
  "clearCartPromotionTx now cartId d =
     cart_update cartId (\<lambda>c. c\<lparr>cart_discountTotal := 0, cart_promotionCode := None,
       cart_promotionSnapshot := None, cart_updatedAt := now\<rparr>) d"

section \<open>What was selected\<close>

record SelectionInput =
  si_tenantId :: uuid
  si_storeId :: uuid
  si_productId :: uuid
  si_variantId :: "uuid option"
  si_priceListId :: "uuid option"
  si_modifierOptionIds :: "uuid list"

record SnapshotModifier =
  sm_groupId :: uuid
  sm_groupCode :: "string option"
  sm_groupName :: "string option"
  sm_optionId :: uuid
  sm_optionCode :: string
  sm_optionName :: string
  sm_priceDelta :: string

record ResolvedSelection =
  rs_product :: Product
  rs_variant :: "ProductVariant option"
  rs_price :: PricePreviewResponse
  rs_modifiers :: "SnapshotModifier list"
  rs_snapshot :: json

definition snapshot_json ::
  "instant \<Rightarrow> PricePreviewResponse \<Rightarrow> Product \<Rightarrow> ProductVariant option \<Rightarrow> SnapshotModifier list \<Rightarrow> json" where
  "snapshot_json now price product variant modifiers = JObj
     [(''capturedAt'', jtime now),
      (''priceListId'', jopt (ppr_priceListId price)),
      (''source'', JStr (show_source (ppr_source price))),
      (''product'', JObj
         [(''id'', JStr (pr_id product)), (''code'', JStr (pr_code product)),
          (''name'', JStr (pr_name product)), (''description'', jopt (pr_description product))]),
      (''variant'', (case variant of None \<Rightarrow> JNull | Some v \<Rightarrow> JObj
         [(''id'', JStr (pv_id v)), (''code'', JStr (pv_code v)), (''name'', JStr (pv_name v)),
          (''sku'', jopt (pv_sku v)), (''barcode'', jopt (pv_barcode v))])),
      (''modifiers'', JArr (map (\<lambda>m. JObj
         [(''groupId'', JStr (sm_groupId m)), (''groupCode'', jopt (sm_groupCode m)),
          (''groupName'', jopt (sm_groupName m)), (''optionId'', JStr (sm_optionId m)),
          (''optionCode'', JStr (sm_optionCode m)), (''optionName'', JStr (sm_optionName m)),
          (''priceDelta'', JStr (sm_priceDelta m))]) modifiers))]"

definition snapshot_modifier ::
  "Product \<Rightarrow> PricePreviewResponse \<Rightarrow> db \<Rightarrow> ModifierOption \<Rightarrow> SnapshotModifier" where
  "snapshot_modifier product price d option =
     (let group = (if mo_groupId option \<in> set (pr_modifierGroupIds product)
                   then find (\<lambda>g. mg_id g = mo_groupId option) (modifierGroups d) else None)
      in \<lparr>sm_groupId = mo_groupId option, sm_groupCode = map_option mg_code group,
          sm_groupName = map_option mg_name group, sm_optionId = mo_id option,
          sm_optionCode = mo_code option, sm_optionName = mo_name option,
          sm_priceDelta = nullish
            (js_map (map (\<lambda>m. (pm_optionId m, pm_priceDelta m)) (ppr_modifierBreakdown price))
               (mo_id option)) ''0.00''\<rparr>)"

definition resolveCartItemSelection ::
  "RequestContext \<Rightarrow> instant \<Rightarrow> SelectionInput \<Rightarrow> db \<Rightarrow> ResolvedSelection result" where
  "resolveCartItemSelection context now input d =
     bnd (orThrow (find (\<lambda>p. pr_id p = si_productId input) (products d)) (RecordNotFound ''Product''))
       (\<lambda>product.
     bnd (ensure (pr_tenantId product = si_tenantId input)
            (BadRequestException ''Product tenant mismatch.'')) (\<lambda>_.
     bnd (find_optional pv_id ''ProductVariant'' (variants d) (si_variantId input)) (\<lambda>variant.
     bnd (ensure (case variant of None \<Rightarrow> True | Some v \<Rightarrow> pv_productId v = pr_id product)
            (BadRequestException ''Variant does not belong to the requested product.'')) (\<lambda>_.
     let options = options_in (si_modifierOptionIds input) d in
     bnd (ensure (length options = length (si_modifierOptionIds input))
            (BadRequestException ''One or more modifier options were not found.'')) (\<lambda>_.
     bnd (ensure (list_all (\<lambda>x. mo_groupId x \<in> set (pr_modifierGroupIds product)) options)
            (BadRequestException ''Modifier option does not belong to the product.'')) (\<lambda>_.
     bnd (resolveSelectionTx context
            \<lparr>ppq_tenantId = Some (si_tenantId input), ppq_storeId = si_storeId input,
             ppq_productId = si_productId input, ppq_variantId = si_variantId input,
             ppq_priceListId = si_priceListId input,
             ppq_modifierOptionIds = si_modifierOptionIds input\<rparr> d) (\<lambda>price.
     let modifiers = map (snapshot_modifier product price d) options in
     Inr \<lparr>rs_product = product, rs_variant = variant, rs_price = price, rs_modifiers = modifiers,
          rs_snapshot = snapshot_json now price product variant modifiers\<rparr>)))))))"

text \<open>The nested create of an item's modifiers.\<close>

definition modifier_row :: "nat \<Rightarrow> SnapshotModifier \<times> int \<Rightarrow> ItemModifier \<times> nat" where
  "modifier_row n = (\<lambda>(m, delta).
     (\<lparr>im_id = newId n, im_modifierGroupId = sm_groupId m, im_modifierOptionId = sm_optionId m,
       im_nameSnapshot = sm_optionName m, im_priceDelta = delta\<rparr>, Suc n))"

definition item_amounts ::
  "int \<Rightarrow> ResolvedSelection \<Rightarrow> (int option \<times> int \<times> int \<times> int list) result" where
  "item_amounts quantity selection =
     bnd (calculateLineTotals quantity (ppr_basePrice (rs_price selection))
            (map pm_priceDelta (ppr_modifierBreakdown (rs_price selection)))) (\<lambda>lineTotals.
     bnd (case ppr_basePrice (rs_price selection) of None \<Rightarrow> Inr None
            | Some s \<Rightarrow> bnd (decimal_of s) (\<lambda>c. Inr (Some c))) (\<lambda>unitBasePrice.
     bnd (decimal_of (lt_modifierTotal lineTotals)) (\<lambda>modifierTotal.
     bnd (decimal_of (lt_lineTotal lineTotals)) (\<lambda>lineTotal.
     bnd (mapE (\<lambda>m. decimal_of (sm_priceDelta m)) (rs_modifiers selection)) (\<lambda>deltas.
     Inr (unitBasePrice, modifierTotal, lineTotal, deltas))))))"

section \<open>The shared log writes of a cart handler\<close>

definition cart_log ::
  "RequestContext \<Rightarrow> uuid \<Rightarrow> uuid \<Rightarrow> uuid \<Rightarrow> string \<Rightarrow> json \<Rightarrow> json \<Rightarrow> db \<Rightarrow> db" where
  "cart_log context tenantId storeId cartId action auditPayload eventPayload d =
     domainEvents_record \<lparr>ob_tenantId = Some tenantId, ob_eventName = action, ob_aggregate = ''cart'',
         ob_aggregateId = cartId, ob_payload = eventPayload\<rparr>
       (recordTx \<lparr>al_tenantId = Some tenantId, al_storeId = Some storeId,
           al_actorType = resolveActorType context, al_actorId = resolveActorId context,
           al_action = action, al_entityType = ''cart'', al_entityId = cartId,
           al_payload = Some auditPayload\<rparr> d)"

declare cart_log_def [simp]

end
