(* ===== verification/CartOps.thy ===== *)
theory CartOps
  imports Carts
begin

text \<open>
  The cart handlers of \<open>orders/orders.module.ts\<close>, whole: checks, writes and logs in the order of
  the source. A request field that may be absent is an option, one that may also be null is an
  option of an option.
\<close>

record CartsQuery =
  cq_tenantId :: "uuid option"
  cq_storeId :: "uuid option"
  cq_status :: "CartStatus option"

record CreateCartDto =
  cc_tenantId :: "uuid option"
  cc_storeId :: uuid
  cc_channel :: "OrderChannel option"
  cc_customerName :: "string option"
  cc_customerPhone :: "string option"
  cc_note :: "string option"
  cc_deviceId :: "uuid option"

record UpdateCartDto =
  uc_customerName :: "string option option"
  uc_customerPhone :: "string option option"
  uc_note :: "string option option"

record AddCartItemDto =
  ac_productId :: uuid
  ac_variantId :: "uuid option"
  ac_quantity :: int
  ac_priceListId :: "uuid option"
  ac_modifierOptionIds :: "uuid list option"

record UpdateCartItemDto =
  ui_variantId :: "uuid option option"
  ui_quantity :: "int option"
  ui_priceListId :: "uuid option option"
  ui_modifierOptionIds :: "uuid list option"

section \<open>Reads\<close>

definition listCarts :: "RequestContext \<Rightarrow> CartsQuery \<Rightarrow> db \<Rightarrow> json result" where
  "listCarts context query d =
     bnd (checkStoreQuery context (cq_storeId query)) (\<lambda>_.
     bnd (tenantWhere context (cq_tenantId query)) (\<lambda>tw.
     let rows = rev (filter (\<lambda>c. in_scope context tw (cq_storeId query) (cart_tenantId c) (cart_storeId c) \<and>
           (case cq_status query of None \<Rightarrow> True | Some s \<Rightarrow> cart_status c = s)) (carts d)) in
     Inr (jlist (map (\<lambda>c. mapCart c (cart_items (cart_id c) d)) rows))))"

definition getCart :: "RequestContext \<Rightarrow> uuid \<Rightarrow> db \<Rightarrow> json result" where
  "getCart context cartId d =
     bnd (loadCart cartId d) (\<lambda>(cart, items).
     bnd (checkAccess context (cart_tenantId cart) (cart_storeId cart)) (\<lambda>_.
     Inr (mapCart cart items)))"

section \<open>Creating and changing a cart\<close>

definition new_cart ::
  "RequestContext \<Rightarrow> instant \<Rightarrow> CreateCartDto \<Rightarrow> uuid \<Rightarrow> Store \<Rightarrow> db \<Rightarrow> Cart" where
  "new_cart context now dto tenantId store d =
     \<lparr>cart_id = nextId d, cart_tenantId = tenantId, cart_storeId = st_id store,
      cart_customerProfileId = None, cart_channel = nullish (cc_channel dto) ADMIN,
      cart_status = OPEN, cart_customerName = cc_customerName dto,
      cart_customerPhone = cc_customerPhone dto, cart_note = cc_note dto,
      cart_subtotal = 0, cart_modifierTotal = 0, cart_fulfillmentFee = 0,
      cart_discountTotal = 0, cart_total = 0, cart_promotionCode = None,
      cart_promotionSnapshot = None, cart_fulfillmentMode = None,
      cart_fulfillmentStatus = None, cart_fulfillmentPayload = None,
      cart_promisedAt = None, cart_etaAt = None, cart_deviceId = cc_deviceId dto,
      cart_createdByUserId = resolveCreatedByUserId context,
      cart_createdAt = now, cart_updatedAt = now\<rparr>"

definition createCart ::
  "RequestContext \<Rightarrow> instant \<Rightarrow> CreateCartDto \<Rightarrow> db \<Rightarrow> (json \<times> db) result" where
  "createCart context now dto d =
     bnd (orThrow (find (\<lambda>s. st_id s = cc_storeId dto) (stores d)) (RecordNotFound ''Store'')) (\<lambda>store.
     bnd (resolveTenantId context (Some (nullish (cc_tenantId dto) (st_tenantId store))) True) (\<lambda>tenantId.
     bnd (enforceStoreAccess context (st_id store)) (\<lambda>_.
     bnd (ensure (st_tenantId store = tenantId) (BadRequestException ''Store tenant mismatch.'')) (\<lambda>_.
     bnd (if truthy (cc_deviceId dto)
          then ensureDeviceBelongsToStore tenantId (st_id store) (nullish (cc_deviceId dto) '''') d
          else Inr ()) (\<lambda>_.
     let cart = new_cart context now dto tenantId store d;
         d1 = cart_create cart (bump d);
         d2 = cart_log context tenantId (st_id store) (cart_id cart) ''cart.created''
           (JObj [(''channel'', JStr (show_channel (cart_channel cart))),
                  (''deviceId'', jopt (cart_deviceId cart))])
           (JObj [(''cartId'', JStr (cart_id cart)), (''storeId'', JStr (cart_storeId cart)),
                  (''channel'', JStr (show_channel (cart_channel cart)))]) d1 in
     Inr (mapCart cart [], d2))))))"

definition jgiven :: "string \<Rightarrow> string option option \<Rightarrow> (string \<times> json) list" where
  "jgiven k m = (case m of None \<Rightarrow> [] | Some v \<Rightarrow> [(k, jopt v)])"

definition field_of :: "'v option \<Rightarrow> 'v \<Rightarrow> 'v" where
  "field_of m old = (case m of None \<Rightarrow> old | Some v \<Rightarrow> v)"

definition changed_cart :: "instant \<Rightarrow> UpdateCartDto \<Rightarrow> bool \<Rightarrow> Cart \<Rightarrow> Cart" where
  "changed_cart now dto shouldResetPromotion c = c\<lparr>
     cart_customerProfileId := (if shouldResetPromotion then None else cart_customerProfileId c),
     cart_customerName := field_of (uc_customerName dto) (cart_customerName c),
     cart_customerPhone := field_of (uc_customerPhone dto) (cart_customerPhone c),
     cart_note := field_of (uc_note dto) (cart_note c),
     cart_updatedAt := now\<rparr>"

text \<open>The answer is the cart as it was read before the totals are recomputed.\<close>

definition updateCart ::
  "RequestContext \<Rightarrow> instant \<Rightarrow> uuid \<Rightarrow> UpdateCartDto \<Rightarrow> db \<Rightarrow> (json \<times> db) result" where
  "updateCart context now cartId dto d =
     bnd (loadCart cartId d) (\<lambda>(cart, items).
     bnd (ensureCartOpen cart) (\<lambda>_.
     bnd (checkAccess context (cart_tenantId cart) (cart_storeId cart)) (\<lambda>_.
     let shouldResetPromotion = (case uc_customerPhone dto of None \<Rightarrow> False
           | Some phone \<Rightarrow> phone \<noteq> cart_customerPhone cart);
         d1 = (if shouldResetPromotion then clearCartPromotionTx now (cart_id cart) d else d);
         d2 = cart_update (cart_id cart) (changed_cart now dto shouldResetPromotion) d1 in
     bnd (loadCart (cart_id cart) d2) (\<lambda>(updatedCart, updatedItems).
     bnd (if shouldResetPromotion then recalculateCartTotals now (cart_id cart) d2 else Inr d2) (\<lambda>d3.
     let d4 = cart_log context (cart_tenantId updatedCart) (cart_storeId updatedCart) (cart_id updatedCart)
           ''cart.updated''
           (JObj (jgiven ''customerName'' (uc_customerName dto) @
                  jgiven ''customerPhone'' (uc_customerPhone dto) @ jgiven ''note'' (uc_note dto)))
           (JObj [(''cartId'', JStr (cart_id updatedCart))]) d3 in
     Inr (mapCart updatedCart updatedItems, d4))))))"

section \<open>Items\<close>

text \<open>Every change of the items drops the promotion, recomputes the totals and rereads the cart.\<close>

definition finish_items :: "instant \<Rightarrow> uuid \<Rightarrow> db \<Rightarrow> (json \<times> db) result" where
  "finish_items now cartId d =
     bnd (recalculateCartTotals now cartId (clearCartPromotionTx now cartId d)) (\<lambda>d1.
     bnd (loadCart cartId d1) (\<lambda>(updatedCart, items).
     Inr (mapCart updatedCart items, d1)))"

definition new_item ::
  "instant \<Rightarrow> Cart \<Rightarrow> AddCartItemDto \<Rightarrow> ResolvedSelection \<Rightarrow> int option \<Rightarrow> int \<Rightarrow> int \<Rightarrow>
   ItemModifier list \<Rightarrow> db \<Rightarrow> CartItem" where
  "new_item now cart dto selection unitBasePrice modifierTotal lineTotal modifiers d =
     \<lparr>ci_id = nextId d, ci_cartId = cart_id cart, ci_productId = pr_id (rs_product selection),
      ci_variantId = map_option pv_id (rs_variant selection), ci_quantity = ac_quantity dto,
      ci_priceListId = ppr_priceListId (rs_price selection), ci_unitBasePrice = unitBasePrice,
      ci_modifierTotal = modifierTotal, ci_lineTotal = lineTotal,
      ci_snapshot = rs_snapshot selection, ci_createdAt = now, ci_updatedAt = now,
      ci_modifiers = modifiers\<rparr>"

definition addItem ::
  "RequestContext \<Rightarrow> instant \<Rightarrow> uuid \<Rightarrow> AddCartItemDto \<Rightarrow> db \<Rightarrow> (json \<times> db) result" where
  "addItem context now cartId dto d =
     bnd (loadCart cartId d) (\<lambda>(cart, items).
     bnd (ensureCartOpen cart) (\<lambda>_.
     bnd (checkAccess context (cart_tenantId cart) (cart_storeId cart)) (\<lambda>_.
     bnd (resolveCartItemSelection context now
            \<lparr>si_tenantId = cart_tenantId cart, si_storeId = cart_storeId cart,
             si_productId = ac_productId dto, si_variantId = ac_variantId dto,
             si_priceListId = ac_priceListId dto,
             si_modifierOptionIds = nullish (ac_modifierOptionIds dto) []\<rparr> d) (\<lambda>selection.
     bnd (item_amounts (ac_quantity dto) selection)
       (\<lambda>(unitBasePrice, modifierTotal, lineTotal, deltas).
     let (modifiers, n) = create_rows modifier_row (zip (rs_modifiers selection) deltas) (Suc (db_seq d));
         item = new_item now cart dto selection unitBasePrice modifierTotal lineTotal modifiers d;
         d1 = cartItem_create item (d\<lparr>db_seq := n\<rparr>) in
     bnd (finish_items now (cart_id cart) d1) (\<lambda>(view, d2).
     Inr (view, cart_log context (cart_tenantId cart) (cart_storeId cart) (cart_id cart) ''cart.item_added''
       (JObj [(''productId'', JStr (ac_productId dto)), (''variantId'', jopt (ac_variantId dto)),
              (''quantity'', jint (ac_quantity dto))])
       (JObj [(''cartId'', JStr (cart_id cart)), (''productId'', JStr (ac_productId dto)),
              (''quantity'', jint (ac_quantity dto))]) d2)))))))"

definition changed_item ::
  "instant \<Rightarrow> int \<Rightarrow> ResolvedSelection \<Rightarrow> int option \<Rightarrow> int \<Rightarrow> int \<Rightarrow> ItemModifier list \<Rightarrow>
   CartItem \<Rightarrow> CartItem" where
  "changed_item now quantity selection unitBasePrice modifierTotal lineTotal modifiers x = x\<lparr>
     ci_variantId := map_option pv_id (rs_variant selection),
     ci_priceListId := ppr_priceListId (rs_price selection), ci_quantity := quantity,
     ci_unitBasePrice := unitBasePrice, ci_modifierTotal := modifierTotal,
     ci_lineTotal := lineTotal, ci_snapshot := rs_snapshot selection,
     ci_updatedAt := now, ci_modifiers := modifiers\<rparr>"

definition updateItem ::
  "RequestContext \<Rightarrow> instant \<Rightarrow> uuid \<Rightarrow> uuid \<Rightarrow> UpdateCartItemDto \<Rightarrow> db \<Rightarrow> (json \<times> db) result" where
  "updateItem context now cartId itemId dto d =
     bnd (loadCart cartId d) (\<lambda>(cart, items).
     bnd (ensureCartOpen cart) (\<lambda>_.
     bnd (checkAccess context (cart_tenantId cart) (cart_storeId cart)) (\<lambda>_.
     bnd (orThrow (find (\<lambda>x. ci_id x = itemId) items) (BadRequestException ''Cart item was not found.''))
       (\<lambda>currentItem.
     bnd (resolveCartItemSelection context now
            \<lparr>si_tenantId = cart_tenantId cart, si_storeId = cart_storeId cart,
             si_productId = ci_productId currentItem,
             si_variantId = field_of (ui_variantId dto) (ci_variantId currentItem),
             si_priceListId = field_of (ui_priceListId dto) (ci_priceListId currentItem),
             si_modifierOptionIds = nullish (ui_modifierOptionIds dto)
               (map im_modifierOptionId (ci_modifiers currentItem))\<rparr> d) (\<lambda>selection.
     let quantity = nullish (ui_quantity dto) (ci_quantity currentItem) in
     bnd (item_amounts quantity selection) (\<lambda>(unitBasePrice, modifierTotal, lineTotal, deltas).
     let (modifiers, n) = create_rows modifier_row (zip (rs_modifiers selection) deltas) (db_seq d);
         d1 = cartItem_update (ci_id currentItem) 
           (changed_item now quantity selection unitBasePrice modifierTotal lineTotal modifiers) (d\<lparr>db_seq := n\<rparr>) in
     bnd (finish_items now (cart_id cart) d1) (\<lambda>(view, d2).
     Inr (view, cart_log context (cart_tenantId cart) (cart_storeId cart) (cart_id cart) ''cart.item_updated''
       (JObj [(''itemId'', JStr itemId), (''quantity'', jint quantity)])
       (JObj [(''cartId'', JStr (cart_id cart)), (''itemId'', JStr itemId)]) d2))))))))"

definition deleteItem ::
  "RequestContext \<Rightarrow> instant \<Rightarrow> uuid \<Rightarrow> uuid \<Rightarrow> db \<Rightarrow> (json \<times> db) result" where
  "deleteItem context now cartId itemId d =
     bnd (loadCart cartId d) (\<lambda>(cart, items).
     bnd (ensureCartOpen cart) (\<lambda>_.
     bnd (checkAccess context (cart_tenantId cart) (cart_storeId cart)) (\<lambda>_.
     bnd (orThrow (find (\<lambda>x. ci_id x = itemId) items) (BadRequestException ''Cart item was not found.''))
       (\<lambda>currentItem.
     bnd (finish_items now (cart_id cart) (cartItem_delete itemId d)) (\<lambda>(view, d2).
     Inr (view, cart_log context (cart_tenantId cart) (cart_storeId cart) (cart_id cart) ''cart.item_removed''
       (JObj [(''itemId'', JStr itemId)])
       (JObj [(''cartId'', JStr (cart_id cart)), (''itemId'', JStr itemId)]) d2))))))"

section \<open>Consistent totals\<close>

text \<open>
  The specification of a cart: its four totals are the totals of its items, its fee and its
  discount, in cents. Where the items come to less than nothing the discount the totals give is
  negative, and the handlers record either that amount or zero. \<open>carts_ok\<close> says so of every cart,
  that the amounts of every item are those of its price and its modifiers, and that no two rows
  share an id.
\<close>

definition recorded_discount :: "int \<Rightarrow> int \<Rightarrow> bool" where
  "recorded_discount computed stored \<longleftrightarrow> stored = computed \<or> stored = max 0 computed"

lemma recorded_discount_self [simp]: "recorded_discount c c" "recorded_discount c (max 0 c)"
  by (simp_all add: recorded_discount_def)

definition item_cents :: "CartItem \<Rightarrow> int \<times> int option \<times> int" where
  "item_cents item = (ci_quantity item, ci_unitBasePrice item, ci_modifierTotal item)"

definition cart_consistent :: "Cart \<Rightarrow> CartItem list \<Rightarrow> bool" where
  "cart_consistent c items \<longleftrightarrow>
     (let t = cents_cart_totals (map item_cents items) (cart_fulfillmentFee c) (cart_discountTotal c)
      in cart_subtotal c = c_subtotal t \<and> cart_modifierTotal c = c_modifierTotal t \<and>
         recorded_discount (c_discountTotal t) (cart_discountTotal c) \<and> cart_total c = c_total t)"

text \<open>An item's amounts are its unit price and its modifiers, times its quantity.\<close>

definition line_ok :: "CartItem \<Rightarrow> bool" where
  "line_ok x \<longleftrightarrow>
     ci_modifierTotal x = ci_quantity x * sum_list (map im_priceDelta (ci_modifiers x)) \<and>
     ci_lineTotal x = ci_quantity x * nullish (ci_unitBasePrice x) 0 + ci_modifierTotal x"

definition carts_ok :: "db \<Rightarrow> bool" where
  "carts_ok d \<longleftrightarrow> distinct (map cart_id (carts d)) \<and> distinct (map ci_id (cartItems d)) \<and>
     fresh_from (db_seq d) (map cart_id (carts d)) \<and> fresh_from (db_seq d) (map ci_id (cartItems d)) \<and>
     fresh_from (db_seq d) (map ci_cartId (cartItems d)) \<and>
     distinct (map mo_id (modifierOptions d)) \<and> (\<forall>x \<in> set (cartItems d). line_ok x) \<and>
     (\<forall>c \<in> set (carts d). cart_consistent c (cart_items (cart_id c) d))"

lemma cents_totals_stable:
  "cents_cart_totals items fee (c_discountTotal (cents_cart_totals items fee disc)) =
     cents_cart_totals items fee disc"
  by (auto simp: cents_cart_totals_def min_def max_def)

lemma recalculate_cents:
  assumes c: "cart_get i d = Some c"
  defines "t \<equiv> cents_cart_totals (map item_cents (cart_items i d)) (cart_fulfillmentFee c)
    (cart_discountTotal c)"
  shows "recalculateCartTotals now i d = Inr (cart_update i (\<lambda>c. c\<lparr>cart_subtotal := c_subtotal t,
    cart_modifierTotal := c_modifierTotal t, cart_discountTotal := c_discountTotal t,
    cart_total := c_total t, cart_updatedAt := now\<rparr>) d)"
proof -
  have m: "map (\<lambda>item. \<lparr>ti_quantity = ci_quantity item,
      ti_unitBasePrice = map_option formatCents (ci_unitBasePrice item),
      ti_modifierTotal = formatCents (ci_modifierTotal item)\<rparr>) (cart_items i d) =
    map totals_item (map item_cents (cart_items i d))"
    by (simp add: totals_item_def item_cents_def)
  show ?thesis
    using c unfolding recalculateCartTotals_def Let_def m
    by (simp add: calculateCartTotals_cents format_totals_def t_def del: map_map)
qed

text \<open>What the end of an item handler does to the database, in one update.\<close>

definition settle_cart :: "instant \<Rightarrow> CartItem list \<Rightarrow> Cart \<Rightarrow> Cart" where
  "settle_cart now items c =
     (let t = cents_cart_totals (map item_cents items) (cart_fulfillmentFee c) 0
      in c\<lparr>cart_promotionCode := None, cart_promotionSnapshot := None,
           cart_subtotal := c_subtotal t, cart_modifierTotal := c_modifierTotal t,
           cart_discountTotal := c_discountTotal t, cart_total := c_total t, cart_updatedAt := now\<rparr>)"

lemma settle_cart_keeps [simp]:
  "cart_id (settle_cart now items c) = cart_id c"
  "cart_status (settle_cart now items c) = cart_status c"
  "cart_tenantId (settle_cart now items c) = cart_tenantId c"
  "cart_storeId (settle_cart now items c) = cart_storeId c"
  "cart_fulfillmentFee (settle_cart now items c) = cart_fulfillmentFee c"
  by (simp_all add: settle_cart_def Let_def)

lemma settle_cart_consistent: "cart_consistent (settle_cart now items c) items"
  by (simp add: cart_consistent_def settle_cart_def Let_def cents_totals_stable)

lemma update_where_cong:
  "(\<And>r. r \<in> set rows \<Longrightarrow> P r \<Longrightarrow> f r = g r) \<Longrightarrow> update_where P f rows = update_where P g rows"
  by (simp add: update_where_def)

lemma update_where_twice:
  "(\<And>r. P (f r) = P r) \<Longrightarrow> update_where P g (update_where P f rows) = update_where P (\<lambda>r. g (f r)) rows"
  by (simp add: update_where_def o_def)

lemma cart_items_update [simp]: "cart_items i (cart_update j f d) = cart_items i d"
  by (simp add: cart_items_def cart_update_def)

lemma cart_getD: "cart_get i d = Some c \<Longrightarrow> c \<in> set (carts d) \<and> cart_id c = i"
  by (auto simp: cart_get_def dest: find_SomeD)

lemma finish_items_eq:
  assumes dist: "distinct (map cart_id (carts d))" and c: "cart_get i d = Some c"
  shows "finish_items now i d = Inr (mapCart (settle_cart now (cart_items i d) c) (cart_items i d),
    cart_update i (settle_cart now (cart_items i d)) d)"
proof -
  let ?clear = "\<lambda>c. c\<lparr>cart_discountTotal := 0, cart_promotionCode := None,
      cart_promotionSnapshot := None, cart_updatedAt := now\<rparr>"
  let ?d = "clearCartPromotionTx now i d"
  have one: "r = c" if "r \<in> set (carts d)" "cart_id r = i" for r
    using distinct_key_eq [OF dist] cart_getD [OF c] that by metis
  have c1: "cart_get i ?d = Some (?clear c)"
    unfolding clearCartPromotionTx_def by (rule cart_rows.get_upd_same) (simp_all add: c)
  have items: "cart_items i ?d = cart_items i d" by (simp add: clearCartPromotionTx_def)
  have "recalculateCartTotals now i ?d = Inr (cart_update i (settle_cart now (cart_items i d)) d)"
    unfolding recalculate_cents [OF c1] items
    by (simp add: clearCartPromotionTx_def cart_update_def update_where_twice)
      (intro arg_cong [where f = "\<lambda>x. d\<lparr>carts := x\<rparr>"] update_where_cong,
        drule (1) one, simp add: settle_cart_def Let_def)
  moreover have "cart_get i (cart_update i (settle_cart now (cart_items i d)) d) =
      Some (settle_cart now (cart_items i d) c)"
    by (rule cart_rows.get_upd_same) (simp_all add: c)
  ultimately show ?thesis by (simp add: finish_items_def loadCart_def)
qed

text \<open>A change of the items of one cart, followed by the end of the handler, keeps \<open>carts_ok\<close>.\<close>

lemma carts_ok_settle:
  assumes ok: "carts_ok d" and carts': "carts d1 = carts d" and seq: "db_seq d \<le> db_seq d1"
    and other: "\<And>j. j \<noteq> i \<Longrightarrow> cart_items j d1 = cart_items j d"
    and ids: "distinct (map ci_id (cartItems d1))" "fresh_from (db_seq d1) (map ci_id (cartItems d1))"
      "fresh_from (db_seq d1) (map ci_cartId (cartItems d1))"
    and lines: "\<And>x. x \<in> set (cartItems d1) \<Longrightarrow> line_ok x" and opts: "modifierOptions d1 = modifierOptions d"
  shows "carts_ok (cart_update i (settle_cart now (cart_items i d1)) d1)"
proof -
  let ?d = "cart_update i (settle_cart now (cart_items i d1)) d1"
  have keys: "map cart_id (carts ?d) = map cart_id (carts d)"
    using cart_rows.keys_upd [of "settle_cart now (cart_items i d1)" i d1] carts' by simp
  have "cart_consistent x (cart_items (cart_id x) ?d)" if "x \<in> set (carts ?d)" for x
  proof -
    from that obtain c where c: "c \<in> set (carts d)"
      "x = (if cart_id c = i then settle_cart now (cart_items i d1) c else c)"
      by (auto simp: cart_update_def update_where_def carts')
    show ?thesis
    proof (cases "cart_id c = i")
      case True
      with c show ?thesis by (simp add: settle_cart_consistent)
    next
      case False
      with c ok other show ?thesis by (simp add: carts_ok_def)
    qed
  qed
  moreover have "cartItems ?d = cartItems d1" "db_seq ?d = db_seq d1" "modifierOptions ?d = modifierOptions d"
    by (simp_all add: cart_update_def opts)
  ultimately show ?thesis
    using ok keys ids lines unfolding carts_ok_def by (simp add: fresh_from_mono [OF _ seq])
qed

lemma carts_ok_cong:
  "carts d' = carts d \<Longrightarrow> cartItems d' = cartItems d \<Longrightarrow> modifierOptions d' = modifierOptions d \<Longrightarrow>
     db_seq d \<le> db_seq d' \<Longrightarrow> carts_ok d \<Longrightarrow> carts_ok d'"
  by (auto simp: carts_ok_def cart_items_def elim: fresh_from_mono)

end
