(* ===== verification/CartLaws.thy ===== *)
theory CartLaws
  imports CartOps
begin

text \<open>
  What the cart handlers guarantee: only open carts change, only for a context that may act on
  them, and every handler keeps the invariant \<open>carts_ok\<close> (consistent totals).
\<close>

section \<open>The amounts of a selection\<close>

lemma js_map_values:
  assumes "distinct ks" and "length ks = length vs"
  shows "map (\<lambda>k. nullish (js_map (zip ks vs) k) z) ks = vs"
proof (rule nth_equalityI)
  fix n assume "n < length (map (\<lambda>k. nullish (js_map (zip ks vs) k) z) ks)"
  then have n: "n < length ks" by simp
  have "js_map (zip ks vs) (ks ! n) = Some (vs ! n)"
    using assms n unfolding js_map_def
    by (intro map_of_is_SomeI) (auto simp: rev_map [symmetric] set_zip)
  with n show "map (\<lambda>k. nullish (js_map (zip ks vs) k) z) ks ! n = vs ! n" by simp
qed (use assms in simp)

lemma mapE_decimal: "mapE decimal_of (map formatCents cs) = Inr cs"
  by (induction cs) simp_all

lemma mapE_o: "mapE (\<lambda>x. f (g x)) xs = mapE f (map g xs)"
  by (induction xs) simp_all

lemma resolveCartItemSelection_Inr:
  assumes dist: "distinct (map mo_id (modifierOptions d))"
    and run: "resolveCartItemSelection context now input d = Inr sel"
  obtains b ds where "ppr_basePrice (rs_price sel) = map_option formatCents b"
    "map pm_priceDelta (ppr_modifierBreakdown (rs_price sel)) = map formatCents ds"
    "map sm_priceDelta (rs_modifiers sel) = map formatCents ds"
    "map sm_optionId (rs_modifiers sel) = map mo_id (options_in (si_modifierOptionIds input) d)"
    "\<And>q. item_amounts q sel = Inr (b, sum_list ds * q, (nullish b 0 + sum_list ds) * q, ds)"
proof -
  let ?opts = "options_in (si_modifierOptionIds input) d"
  from run obtain product req price where
    price: "resolveSelectionTx context req d = Inr price"
    and ids: "ppq_modifierOptionIds req = si_modifierOptionIds input"
    and sel: "rs_price sel = price" "rs_modifiers sel = map (snapshot_modifier product price d) ?opts"
    unfolding resolveCartItemSelection_def Let_def by fastforce
  from price obtain b ds where b: "ppr_basePrice price = map_option formatCents b"
    and ds: "map pm_priceDelta (ppr_modifierBreakdown price) = map formatCents ds"
    and os: "map pm_optionId (ppr_modifierBreakdown price) = map mo_id ?opts"
    using ids by (metis resolveSelectionTx_Inr)
  have entries: "map (\<lambda>m. (pm_optionId m, pm_priceDelta m)) (ppr_modifierBreakdown price) =
      zip (map mo_id ?opts) (map formatCents ds)"
    unfolding os [symmetric] ds [symmetric] by (simp add: zip_map_map zip_same_conv_map)
  have "map sm_priceDelta (rs_modifiers sel) =
      map (\<lambda>k. nullish (js_map (zip (map mo_id ?opts) (map formatCents ds)) k) ''0.00'') (map mo_id ?opts)"
    by (simp add: sel snapshot_modifier_def entries Let_def)
  also have "\<dots> = map formatCents ds"
  proof (rule js_map_values)
    show "distinct (map mo_id ?opts)" using dist by (simp add: options_in_def distinct_map_filter)
    have "length (map pm_optionId (ppr_modifierBreakdown price)) = length (map mo_id ?opts)"
      "length (map pm_priceDelta (ppr_modifierBreakdown price)) = length (map formatCents ds)"
      by (simp_all only: os ds)
    then show "length (map mo_id ?opts) = length (map formatCents ds)" by simp
  qed
  finally have m: "map sm_priceDelta (rs_modifiers sel) = map formatCents ds" .
  have mm: "mapE (\<lambda>m. decimal_of (sm_priceDelta m)) (rs_modifiers sel) = Inr ds"
    unfolding mapE_o [of decimal_of sm_priceDelta] m by (rule mapE_decimal)
  have "item_amounts q sel = Inr (b, sum_list ds * q, (nullish b 0 + sum_list ds) * q, ds)" for q
    unfolding item_amounts_def sel(1) b ds calculateLineTotals_cents
      by (cases b) (simp_all add: mm)
  moreover have "map sm_optionId (rs_modifiers sel) = map mo_id ?opts"
    by (simp add: sel snapshot_modifier_def Let_def)
  ultimately show thesis using b ds m sel(1) that by metis
qed

lemma modifier_rows:
  "map im_priceDelta (fst (create_rows modifier_row (zip ms ds) n)) = map snd (zip ms ds)"
  "map im_modifierOptionId (fst (create_rows modifier_row (zip ms ds) n)) = map (\<lambda>x. sm_optionId (fst x)) (zip ms ds)"
  "n \<le> snd (create_rows modifier_row (zip ms ds) n)"
  by (rule create_rows_map [where g = "\<lambda>n x. fst (modifier_row n x)"] create_rows_counter;
      simp add: modifier_row_def split: prod.split)+

section \<open>What a handler that succeeded did\<close>

text \<open>The part of the database a cart handler never touches.\<close>

definition same_store :: "db \<Rightarrow> db \<Rightarrow> bool" where
  "same_store d d' \<longleftrightarrow> orders d' = orders d \<and> tickets d' = tickets d \<and> invItems d' = invItems d \<and>
     reservations d' = reservations d \<and> ledger d' = ledger d \<and> posShifts d' = posShifts d \<and>
     posSessions d' = posSessions d \<and> orderEvents d' = orderEvents d \<and>
     modifierOptions d' = modifierOptions d \<and> stores d' = stores d \<and> db_seq d \<le> db_seq d'"

lemma loadCart_Inr: "loadCart i d = Inr (c, items) \<longleftrightarrow> cart_get i d = Some c \<and> items = cart_items i d"
  by (auto simp: loadCart_def)

lemma same_store_settle: "same_store d d1 \<Longrightarrow> same_store d (cart_update i f d1)"
  by (simp add: same_store_def cart_update_def)

text \<open>An accepted change of the items of a cart.\<close>

definition item_change :: "RequestContext \<Rightarrow> instant \<Rightarrow> uuid \<Rightarrow> db \<Rightarrow> db \<Rightarrow> db \<Rightarrow> bool" where
  "item_change context now i d d1 d' \<longleftrightarrow>
     (\<exists>c l1 l2. cart_get i d = Some c \<and> cart_status c = OPEN \<and>
        checkAccess context (cart_tenantId c) (cart_storeId c) = Inr () \<and>
        d' = (cart_update i (settle_cart now (cart_items i d1)) d1)\<lparr>auditLogs := l1, outbox := l2\<rparr>)"

lemma amounts_line_ok:
  assumes "distinct (map mo_id (modifierOptions d))"
    and "resolveCartItemSelection context now input d = Inr sel"
    and "item_amounts q sel = Inr (b, mt, lt, ds)"
    and "create_rows modifier_row (zip (rs_modifiers sel) ds) n = (mods, n')"
  shows "mt = q * sum_list (map im_priceDelta mods)" "lt = q * nullish b 0 + mt" "n \<le> n'"
proof -
  from resolveCartItemSelection_Inr [OF assms(1,2)] obtain b' ds' where
    m: "map sm_priceDelta (rs_modifiers sel) = map formatCents ds'"
    and a: "item_amounts q sel = Inr (b', sum_list ds' * q, (nullish b' 0 + sum_list ds') * q, ds')"
    by metis
  have "length (rs_modifiers sel) = length ds'" using m by (metis length_map)
  with a assms(3,4) modifier_rows(1,3) [where ms = "rs_modifiers sel" and ds = ds and n = n]
  show "mt = q * sum_list (map im_priceDelta mods)" "lt = q * nullish b 0 + mt" "n \<le> n'"
    by (auto simp: algebra_simps)
qed

lemma addItem_Inr:
  assumes ok: "carts_ok d" and run: "addItem context now i dto d = Inr (v, d')"
  shows "\<exists>item n. item_change context now i d (d\<lparr>db_seq := n, cartItems := cartItems d @ [item]\<rparr>) d' \<and>
    ci_id item = newId (db_seq d) \<and> ci_cartId item = i \<and> ci_quantity item = ac_quantity dto \<and>
    db_seq d < n \<and> line_ok item"
  using run unfolding addItem_def
  apply (clarsimp simp: loadCart_Inr ensureCartOpen_def Let_def case_prod_Inr)
  subgoal premises p for c sel b mt lt ds mods n d2
  proof -
    let ?item = "new_item now c dto sel b mt lt mods d"
    let ?d1 = "d\<lparr>db_seq := n, cartItems := cartItems d @ [?item]\<rparr>"
    have i: "cart_id c = i" using cart_getD p by blast
    have opt: "distinct (map mo_id (modifierOptions d))" using ok by (simp add: carts_ok_def)
    note A = amounts_line_ok [OF opt p(4,5,6)]
    have "cart_get i ?d1 = Some c" using p by (simp add: cart_get_def)
    with p i ok have "d2 = cart_update i (settle_cart now (cart_items i ?d1)) ?d1"
      by (simp add: cartItem_create_def finish_items_eq carts_ok_def)
    with p have "item_change context now i d ?d1 (d2\<lparr>auditLogs := l1, outbox := l2\<rparr>)" for l1 l2
      by (auto simp: item_change_def)
    with A i show ?thesis
      by (intro exI [of _ ?item] exI [of _ n]) (simp add: new_item_def line_ok_def)
  qed
  done

lemma updateItem_Inr:
  assumes ok: "carts_ok d" and run: "updateItem context now i itemId dto d = Inr (v, d')"
  shows "\<exists>f n. item_change context now i d (cartItem_update itemId f (d\<lparr>db_seq := n\<rparr>)) d' \<and>
    (\<forall>x. ci_id (f x) = ci_id x \<and> ci_cartId (f x) = ci_cartId x \<and> line_ok (f x)) \<and>
    db_seq d \<le> n \<and> (\<exists>x \<in> set (cart_items i d). ci_id x = itemId)"
  using run unfolding updateItem_def
  apply (clarsimp simp: loadCart_Inr ensureCartOpen_def Let_def case_prod_Inr)
  subgoal premises p for c x sel b mt lt ds mods n d2
  proof -
    let ?q = "nullish (ui_quantity dto) (ci_quantity x)"
    let ?f = "changed_item now ?q sel b mt lt mods"
    let ?d1 = "cartItem_update itemId ?f (d\<lparr>db_seq := n\<rparr>)"
    have i: "cart_id c = i" using cart_getD p by blast
    have x: "x \<in> set (cart_items i d)" "ci_id x = itemId" using p find_SomeD by fastforce+
    have opt: "distinct (map mo_id (modifierOptions d))" using ok by (simp add: carts_ok_def)
    note A = amounts_line_ok [OF opt p(5,6,7)]
    have "cart_get i ?d1 = Some c" using p by (simp add: cart_get_def cartItem_update_def)
    moreover have "distinct (map cart_id (carts ?d1))"
      using ok by (simp add: carts_ok_def cartItem_update_def)
    ultimately have "d2 = cart_update i (settle_cart now (cart_items i ?d1)) ?d1"
      using p i x by (simp add: finish_items_eq)
    with p have "item_change context now i d ?d1 (d2\<lparr>auditLogs := l1, outbox := l2\<rparr>)" for l1 l2
      by (auto simp: item_change_def)
    with A i x show ?thesis
      by (intro exI [of _ ?f] exI [of _ n]) (auto simp: changed_item_def line_ok_def)
  qed
  done

lemma deleteItem_Inr:
  assumes ok: "carts_ok d" and run: "deleteItem context now i itemId d = Inr (v, d')"
  shows "item_change context now i d (cartItem_delete itemId d) d' \<and>
    (\<exists>x \<in> set (cart_items i d). ci_id x = itemId)"
  using run unfolding deleteItem_def
  apply (clarsimp simp: loadCart_Inr ensureCartOpen_def Let_def case_prod_Inr)
  subgoal premises p for c x d2
  proof -
    let ?d1 = "cartItem_delete itemId d"
    have i: "cart_id c = i" using cart_getD p by blast
    have x: "x \<in> set (cart_items i d)" "ci_id x = itemId" using p find_SomeD by fastforce+
    have "cart_get i ?d1 = Some c" using p by (simp add: cart_get_def cartItem_delete_def)
    moreover have "distinct (map cart_id (carts ?d1))"
      using ok by (simp add: carts_ok_def cartItem_delete_def)
    ultimately have "d2 = cart_update i (settle_cart now (cart_items i ?d1)) ?d1"
      using p i x by (simp add: finish_items_eq)
    with p have "item_change context now i d ?d1 (d2\<lparr>auditLogs := l1, outbox := l2\<rparr>)" for l1 l2
      by (auto simp: item_change_def)
    with i x show ?thesis by auto
  qed
  done

section \<open>The invariant\<close>

lemma item_change_ok:
  assumes ok: "carts_ok d" and ch: "item_change context now i d d1 d'"
    and "carts d1 = carts d" "db_seq d \<le> db_seq d1" "\<And>j. j \<noteq> i \<Longrightarrow> cart_items j d1 = cart_items j d"
    "distinct (map ci_id (cartItems d1))" "fresh_from (db_seq d1) (map ci_id (cartItems d1))"
    "fresh_from (db_seq d1) (map ci_cartId (cartItems d1))"
    "\<And>x. x \<in> set (cartItems d1) \<Longrightarrow> line_ok x" "modifierOptions d1 = modifierOptions d"
  shows "carts_ok d'"
proof -
  from ch obtain l1 l2 where
    d': "d' = (cart_update i (settle_cart now (cart_items i d1)) d1)\<lparr>auditLogs := l1, outbox := l2\<rparr>"
    by (auto simp: item_change_def)
  show ?thesis
    by (rule carts_ok_cong [OF _ _ _ _ carts_ok_settle [OF ok assms(3-10), where now = now]]) (simp_all add: d')
qed

lemma addItem_ok:
  assumes ok: "carts_ok d" and run: "addItem context now i dto d = Inr (v, d')"
  shows "carts_ok d'"
proof -
  from addItem_Inr [OF ok run] obtain item n where
    ch: "item_change context now i d (d\<lparr>db_seq := n, cartItems := cartItems d @ [item]\<rparr>) d'"
    and it: "ci_id item = newId (db_seq d)" "ci_cartId item = i" "db_seq d < n" "line_ok item" by blast
  from ch obtain c where c: "cart_get i d = Some c" by (auto simp: item_change_def)
  then have "i \<in> set (map cart_id (carts d))" using cart_getD by fastforce
  with ok have "fresh_from n [i]" using it(3)
    unfolding carts_ok_def fresh_from_def by (metis empty_iff empty_set le_trans less_imp_le set_ConsD)
  with ok it show ?thesis
    by (intro item_change_ok [OF ok ch])
      (auto simp: carts_ok_def cart_items_def dest: fresh_fromD elim: fresh_from_mono)
qed

lemma updateItem_ok:
  assumes ok: "carts_ok d" and run: "updateItem context now i itemId dto d = Inr (v, d')"
  shows "carts_ok d'"
proof -
  from updateItem_Inr [OF ok run] obtain f n x where
    ch: "item_change context now i d (cartItem_update itemId f (d\<lparr>db_seq := n\<rparr>)) d'"
    and f: "\<And>x. ci_id (f x) = ci_id x" "\<And>x. ci_cartId (f x) = ci_cartId x" "\<And>x. line_ok (f x)"
    and n: "db_seq d \<le> n" and x: "x \<in> set (cart_items i d)" "ci_id x = itemId" by blast
  have keys: "map ci_id (update_where P f rows) = map ci_id rows"
    "map ci_cartId (update_where P f rows) = map ci_cartId rows" for P rows
    using f by (simp_all add: map_update_where_key)
  have same: "y = x" if "y \<in> set (cartItems d)" "ci_id y = itemId" for y
    using ok x that distinct_key_eq [of ci_id "cartItems d" y x] by (simp add: carts_ok_def cart_items_def)
  have "cart_items j (cartItem_update itemId f (d\<lparr>db_seq := n\<rparr>)) = cart_items j d" if "j \<noteq> i" for j
  proof -
    have "filter (\<lambda>c. ci_cartId c = j) (update_where (\<lambda>c. ci_id c = itemId) f rows) =
        filter (\<lambda>c. ci_cartId c = j) rows" if "set rows \<subseteq> set (cartItems d)" for rows
      using that \<open>j \<noteq> i\<close> same x f
      by (induction rows) (auto simp: update_where_Cons cart_items_def)
    then show ?thesis by (simp add: cart_items_def cartItem_update_def)
  qed
  with ok n f show ?thesis
    by (intro item_change_ok [OF ok ch])
      (auto simp: carts_ok_def cartItem_update_def keys set_update_where elim: fresh_from_mono)
qed

lemma deleteItem_ok:
  assumes ok: "carts_ok d" and run: "deleteItem context now i itemId d = Inr (v, d')"
  shows "carts_ok d'"
proof -
  from deleteItem_Inr [OF ok run] obtain x where
    ch: "item_change context now i d (cartItem_delete itemId d) d'"
    and x: "x \<in> set (cart_items i d)" "ci_id x = itemId" by blast
  have same: "y = x" if "y \<in> set (cartItems d)" "ci_id y = itemId" for y
    using ok x that distinct_key_eq [of ci_id "cartItems d" y x] by (simp add: carts_ok_def cart_items_def)
  have "cart_items j (cartItem_delete itemId d) = cart_items j d" if "j \<noteq> i" for j
    using that x same by (auto simp: cart_items_def cartItem_delete_def intro!: filter_cong)
  with ok show ?thesis
    by (intro item_change_ok [OF ok ch])
      (auto simp: carts_ok_def cartItem_delete_def distinct_map_filter fresh_from_def)
qed

lemma carts_ok_update:
  assumes ok: "carts_ok d" and c: "cart_get i d = Some c"
    and d': "carts d' = update_where (\<lambda>c. cart_id c = i) g (carts d)" "cartItems d' = cartItems d"
      "modifierOptions d' = modifierOptions d" "db_seq d \<le> db_seq d'"
    and g: "\<And>x. cart_id (g x) = cart_id x" "cart_consistent (g c) (cart_items i d)"
  shows "carts_ok d'"
proof -
  have keys: "map cart_id (carts d') = map cart_id (carts d)"
    unfolding d' using g by (intro map_update_where_key) simp
  have items: "cart_items j d' = cart_items j d" for j by (simp add: cart_items_def d')
  have "cart_consistent x (cart_items (cart_id x) d)" if "x \<in> set (carts d')" for x
  proof -
    from that obtain c' where c': "c' \<in> set (carts d)" "x = (if cart_id c' = i then g c' else c')"
      by (auto simp: d' update_where_def)
    moreover have "c' = c" if "cart_id c' = i"
      using ok c' that cart_getD [OF c] distinct_key_eq [of cart_id "carts d" c' c]
      by (simp add: carts_ok_def)
    ultimately show ?thesis using ok g cart_getD [OF c] by (cases "cart_id c' = i") (auto simp: carts_ok_def)
  qed
  with ok keys d' show ?thesis
    unfolding carts_ok_def by (simp add: items fresh_from_mono [OF _ d'(4)])
qed

lemma updateCart_Inr:
  assumes ok: "carts_ok d" and run: "updateCart context now i dto d = Inr (v, d')"
  shows "\<exists>c g l1 l2. cart_get i d = Some c \<and> cart_status c = OPEN \<and>
    checkAccess context (cart_tenantId c) (cart_storeId c) = Inr () \<and>
    (\<forall>x. cart_id (g x) = cart_id x \<and> cart_status (g x) = cart_status x) \<and>
    cart_consistent (g c) (cart_items i d) \<and>
    d' = (cart_update i g d)\<lparr>auditLogs := l1, outbox := l2\<rparr>"
  using run unfolding updateCart_def
  apply (clarsimp simp: loadCart_Inr ensureCartOpen_def Let_def case_prod_Inr)
  subgoal premises p for c c2 d3
  proof -
    define reset where "reset = (case uc_customerPhone dto of None \<Rightarrow> False
        | Some phone \<Rightarrow> phone \<noteq> cart_customerPhone c)"
    have c: "cart_get i d = Some c" and i: "cart_id c = i" using cart_getD p by blast+
    have cons: "cart_consistent c (cart_items i d)"
      using ok cart_getD [OF c] by (auto simp: carts_ok_def)
    let ?clear = "\<lambda>c. c\<lparr>cart_discountTotal := 0, cart_promotionCode := None,
      cart_promotionSnapshot := None, cart_updatedAt := now\<rparr>"
    let ?g2 = "\<lambda>c. changed_cart now dto reset (if reset then ?clear c else c)"
    let ?d2 = "cart_update i ?g2 d"
    have d2: "cart_update i (changed_cart now dto reset) (if reset then clearCartPromotionTx now i d else d) = ?d2"
      by (auto simp: clearCartPromotionTx_def cart_update_def update_where_twice)
    have c2: "cart_get i ?d2 = Some (?g2 c)"
      by (rule cart_rows.get_upd_same) (simp_all add: c changed_cart_def)
    have "\<exists>g. d3 = cart_update i g d \<and> cart_consistent (g c) (cart_items i d) \<and>
        (\<forall>x. cart_id (g x) = cart_id x \<and> cart_status (g x) = cart_status x)"
    proof (cases reset)
      case False
      with p(5) d2 i have "d3 = ?d2" unfolding reset_def by (auto split: option.splits if_splits)
      with False cons show ?thesis
        by (intro exI [of _ ?g2]) (simp add: changed_cart_def cart_consistent_def)
    next
      case True
      define t where "t = cents_cart_totals (map item_cents (cart_items i ?d2))
        (cart_fulfillmentFee (?g2 c)) (cart_discountTotal (?g2 c))"
      let ?g3 = "\<lambda>c. (?g2 c)\<lparr>cart_subtotal := c_subtotal t, cart_modifierTotal := c_modifierTotal t,
        cart_discountTotal := c_discountTotal t, cart_total := c_total t, cart_updatedAt := now\<rparr>"
      have "recalculateCartTotals now i ?d2 = Inr d3"
        using p(5) True d2 i unfolding reset_def by (auto split: option.splits if_splits)
      then have "d3 = cart_update i ?g3 d"
        unfolding recalculate_cents [OF c2]
        by (simp add: t_def cart_update_def update_where_twice changed_cart_def)
      moreover have "cart_consistent (?g3 c) (cart_items i d)"
        using True by (simp add: cart_consistent_def Let_def t_def changed_cart_def cents_totals_stable)
      ultimately show ?thesis
        by (intro exI [of _ ?g3]) (simp add: changed_cart_def)
    qed
    with p c show ?thesis by blast
  qed
  done

lemma updateCart_ok:
  assumes ok: "carts_ok d" and run: "updateCart context now i dto d = Inr (v, d')"
  shows "carts_ok d'"
proof -
  from updateCart_Inr [OF ok run] obtain c g l1 l2 where c: "cart_get i d = Some c"
    and g: "\<And>x. cart_id (g x) = cart_id x" "cart_consistent (g c) (cart_items i d)"
    and d': "d' = (cart_update i g d)\<lparr>auditLogs := l1, outbox := l2\<rparr>" by blast
  show ?thesis
    by (rule carts_ok_update [OF ok c _ _ _ _ g]) (simp_all add: d' cart_update_def)
qed

lemma createCart_Inr:
  assumes "createCart context now dto d = Inr (v, d')"
  shows "\<exists>store t l1 l2. store \<in> set (stores d) \<and> st_id store = cc_storeId dto \<and> st_tenantId store = t \<and>
    resolveTenantId context (Some (nullish (cc_tenantId dto) t)) True = Inr t \<and>
    enforceStoreAccess context (st_id store) = Inr () \<and>
    d' = (cart_create (new_cart context now dto t store d) (bump d))\<lparr>auditLogs := l1, outbox := l2\<rparr>"
  using assms unfolding createCart_def
  by (clarsimp simp: Let_def simp del: enforceStoreAccess_Inr) (drule find_SomeD, fastforce)

lemma createCart_ok:
  assumes ok: "carts_ok d" and run: "createCart context now dto d = Inr (v, d')"
  shows "carts_ok d'"
proof -
  from createCart_Inr [OF run] obtain store t l1 l2 where
    d': "d' = (cart_create (new_cart context now dto t store d) (bump d))\<lparr>auditLogs := l1, outbox := l2\<rparr>"
    by blast
  have "newId (db_seq d) \<notin> set (map ci_cartId (cartItems d))"
    using ok by (intro fresh_fromD [of "db_seq d"]) (simp_all add: carts_ok_def)
  then have none: "cart_items (newId (db_seq d)) d = []"
    unfolding cart_items_def filter_empty_conv by (metis image_eqI image_set)
  have items: "cart_items j d' = cart_items j d" for j
    by (simp add: cart_items_def d' cart_create_def)
  define c0 where "c0 = new_cart context now dto t store d"
  have f: "carts d' = carts d @ [c0]" "cartItems d' = cartItems d"
    "modifierOptions d' = modifierOptions d" "db_seq d' = Suc (db_seq d)"
    by (simp_all add: d' cart_create_def c0_def)
  have c0: "cart_id c0 = newId (db_seq d)" "cart_consistent c0 []"
    by (simp_all add: c0_def cart_consistent_def new_cart_def cents_cart_totals_def cart_gross_def)
  have "newId (db_seq d) \<notin> set (map cart_id (carts d))"
    using ok by (intro fresh_fromD [of "db_seq d"]) (simp_all add: carts_ok_def)
  with ok none c0 show ?thesis
    unfolding carts_ok_def items f by (simp add: fresh_from_Suc)
qed

end
