(* ===== verification/Stock.thy ===== *)
theory Stock
  imports Db
begin

text \<open>
  Stock on hand, reservations and the ledger: the part of \<open>inventory/inventory.service.ts\<close> that
  moves quantities. An item is the stock of an ingredient in a warehouse, its \<open>reserved\<close> column
  is kept beside the reservations that justify it, and every change of \<open>onHand\<close> writes a ledger
  entry. Quantities are exact.
\<close>

definition asRecord :: "json \<Rightarrow> json" where
  "asRecord value = (if jrecord value then value else JObj [])"

section \<open>Items\<close>

definition available :: "InventoryItem \<Rightarrow> quantity" where
  "available item = ii_onHand item - ii_reserved item"

definition getItemByWarehouseIngredientTx :: "uuid \<Rightarrow> uuid \<Rightarrow> db \<Rightarrow> InventoryItem option" where
  "getItemByWarehouseIngredientTx warehouseId ingredientId d =
     find (\<lambda>x. ii_warehouseId x = warehouseId \<and> ii_ingredientId x = ingredientId) (invItems d)"

definition inventoryItem_create :: "InventoryItem \<Rightarrow> db \<Rightarrow> db result" where
  "inventoryItem_create item d =
     bnd (ensure (getItemByWarehouseIngredientTx (ii_warehouseId item) (ii_ingredientId item) d = None)
            (UniqueViolation ''InventoryItem'')) (\<lambda>_.
     Inr (d\<lparr>invItems := invItems d @ [item]\<rparr>))"

definition inventoryItem_update ::
  "instant \<Rightarrow> uuid \<Rightarrow> (InventoryItem \<Rightarrow> InventoryItem) \<Rightarrow> db \<Rightarrow> db" where
  "inventoryItem_update now i f d =
     d\<lparr>invItems := update_where (\<lambda>x. ii_id x = i) (\<lambda>x. (f x)\<lparr>ii_updatedAt := now\<rparr>) (invItems d)\<rparr>"

definition getOrCreateItemTx ::
  "instant \<Rightarrow> uuid \<Rightarrow> uuid \<Rightarrow> uuid \<Rightarrow> db \<Rightarrow> (InventoryItem \<times> db) result" where
  "getOrCreateItemTx now tenantId warehouseId ingredientId d =
     (case getItemByWarehouseIngredientTx warehouseId ingredientId d of
        Some existing \<Rightarrow> Inr (existing, d)
      | None \<Rightarrow>
          let item = \<lparr>ii_id = nextId d, ii_tenantId = tenantId, ii_warehouseId = warehouseId,
                      ii_ingredientId = ingredientId, ii_sku = None, ii_onHand = 0,
                      ii_reserved = 0, ii_reorderPoint = 0, ii_metadata = JObj [],
                      ii_createdAt = now, ii_updatedAt = now\<rparr>
          in bnd (inventoryItem_create item (bump d)) (\<lambda>d'. Inr (item, d')))"

section \<open>The ledger\<close>

definition stockLedgerEntry_create ::
  "instant \<Rightarrow> uuid \<Rightarrow> uuid \<Rightarrow> uuid \<Rightarrow> string \<Rightarrow> quantity \<Rightarrow> quantity \<Rightarrow> string \<Rightarrow> string \<Rightarrow> json \<Rightarrow>
   db \<Rightarrow> db" where
  "stockLedgerEntry_create now tenantId warehouseId ingredientId entryType quantity balanceAfter
     sourceType sourceId metadata d =
     bump (d\<lparr>ledger := ledger d @
       [\<lparr>sle_id = nextId d, sle_tenantId = tenantId, sle_warehouseId = warehouseId,
         sle_ingredientId = ingredientId, sle_entryType = entryType, sle_quantity = quantity,
         sle_balanceAfter = balanceAfter, sle_sourceType = sourceType, sle_sourceId = sourceId,
         sle_metadata = metadata, sle_createdAt = now\<rparr>]\<rparr>)"

record StockDelta =
  sd_tenantId :: uuid
  sd_warehouseId :: uuid
  sd_ingredientId :: uuid
  sd_delta :: quantity
  sd_entryType :: string
  sd_sourceType :: string
  sd_sourceId :: string
  sd_metadata :: json

definition applyStockDeltaTx :: "instant \<Rightarrow> StockDelta \<Rightarrow> db \<Rightarrow> db result" where
  "applyStockDeltaTx now input d =
     bnd (getOrCreateItemTx now (sd_tenantId input) (sd_warehouseId input) (sd_ingredientId input) d)
       (\<lambda>(item, d1).
     let nextOnHand = ii_onHand item + sd_delta input;
         d2 = inventoryItem_update now (ii_id item) (\<lambda>x. x\<lparr>ii_onHand := nextOnHand\<rparr>) d1
     in Inr (stockLedgerEntry_create now (sd_tenantId input) (sd_warehouseId input)
               (sd_ingredientId input) (sd_entryType input) (sd_delta input) nextOnHand
               (sd_sourceType input) (sd_sourceId input) (sd_metadata input) d2))"

section \<open>Reservations\<close>

definition show_reservation_status :: "ReservationStatus \<Rightarrow> string" where
  "show_reservation_status s = (case s of ResActive \<Rightarrow> ''ACTIVE'' | ResReleased \<Rightarrow> ''RELEASED''
     | ResConsumed \<Rightarrow> ''CONSUMED'')"

definition mapReservation :: "StockReservation \<Rightarrow> json" where
  "mapReservation model = JObj
     [(''id'', JStr (sr_id model)),
      (''tenantId'', JStr (sr_tenantId model)),
      (''warehouseId'', JStr (sr_warehouseId model)),
      (''ingredientId'', JStr (sr_ingredientId model)),
      (''sourceType'', JStr (sr_sourceType model)),
      (''sourceId'', JStr (sr_sourceId model)),
      (''quantity'', JNum (sr_quantity model)),
      (''status'', JStr (show_reservation_status (sr_status model))),
      (''expiresAt'', jdate (sr_expiresAt model)),
      (''metadata'', asRecord (sr_metadata model)),
      (''createdAt'', jtime (sr_createdAt model)),
      (''updatedAt'', jtime (sr_updatedAt model))]"

definition reservation_key :: "StockReservation \<Rightarrow> uuid \<times> string \<times> string \<times> uuid" where
  "reservation_key r = (sr_warehouseId r, sr_sourceType r, sr_sourceId r, sr_ingredientId r)"

definition stockReservation_create :: "StockReservation \<Rightarrow> db \<Rightarrow> db result" where
  "stockReservation_create r d =
     bnd (ensure (reservation_key r \<notin> set (map reservation_key (reservations d)))
            (UniqueViolation ''StockReservation'')) (\<lambda>_.
     Inr (d\<lparr>reservations := reservations d @ [r]\<rparr>))"

definition stockReservation_update :: "instant \<Rightarrow> uuid \<Rightarrow> ReservationStatus \<Rightarrow> db \<Rightarrow> db" where
  "stockReservation_update now i s d =
     d\<lparr>reservations := update_where (\<lambda>r. sr_id r = i)
        (\<lambda>r. r\<lparr>sr_status := s, sr_updatedAt := now\<rparr>) (reservations d)\<rparr>"

definition getReservationTx :: "uuid \<Rightarrow> db \<Rightarrow> StockReservation result" where
  "getReservationTx i d =
     orThrow (find (\<lambda>r. sr_id r = i) (reservations d)) (NotFoundException ''Reservation not found.'')"

record CreateStockReservationDto =
  csr_tenantId :: "uuid option"
  csr_warehouseId :: uuid
  csr_ingredientId :: uuid
  csr_sourceType :: string
  csr_sourceId :: string
  csr_quantity :: quantity
  csr_expiresAt :: "instant option"
  csr_metadata :: "json option"

definition createReservation ::
  "RequestContext \<Rightarrow> instant \<Rightarrow> CreateStockReservationDto \<Rightarrow> db \<Rightarrow> (json \<times> db) result" where
  "createReservation context now dto d =
     bnd (inv_resolveTenantId context (csr_tenantId dto)) (\<lambda>tenantId.
     bnd (orThrow (getItemByWarehouseIngredientTx (csr_warehouseId dto) (csr_ingredientId dto) d)
            (NotFoundException ''Inventory item not found.'')) (\<lambda>item.
     bnd (ensure (ii_tenantId item = tenantId) (NotFoundException ''Inventory item not found.'')) (\<lambda>_.
     bnd (ensure (\<not> available item < csr_quantity dto)
            (BadRequestException ''Not enough available stock to reserve.'')) (\<lambda>_.
     let reservation = \<lparr>sr_id = nextId d, sr_tenantId = tenantId,
           sr_warehouseId = csr_warehouseId dto, sr_ingredientId = csr_ingredientId dto,
           sr_sourceType = csr_sourceType dto, sr_sourceId = csr_sourceId dto,
           sr_quantity = csr_quantity dto, sr_status = ResActive,
           sr_expiresAt = csr_expiresAt dto, sr_metadata = nullish (csr_metadata dto) (JObj []),
           sr_createdAt = now, sr_updatedAt = now\<rparr> in
     bnd (stockReservation_create reservation (bump d)) (\<lambda>d1.
     Inr (mapReservation reservation,
          inventoryItem_update now (ii_id item)
            (\<lambda>x. x\<lparr>ii_reserved := ii_reserved item + csr_quantity dto\<rparr>) d1))))))"

text \<open>Taking an active reservation back, and turning it into consumed stock.\<close>

definition release_one :: "instant \<Rightarrow> InventoryItem \<Rightarrow> StockReservation \<Rightarrow> db \<Rightarrow> db" where
  "release_one now item r d =
     stockReservation_update now (sr_id r) ResReleased
       (inventoryItem_update now (ii_id item)
          (\<lambda>x. x\<lparr>ii_reserved := max (ii_reserved item - sr_quantity r) 0\<rparr>) d)"

definition consume_one ::
  "instant \<Rightarrow> uuid \<Rightarrow> json \<Rightarrow> InventoryItem \<Rightarrow> StockReservation \<Rightarrow> db \<Rightarrow> db" where
  "consume_one now tenantId metadata item r d =
     (let nextOnHand = max (ii_onHand item - sr_quantity r) 0 in
      stockLedgerEntry_create now tenantId (sr_warehouseId r) (sr_ingredientId r) ''CONSUME''
        (- sr_quantity r) nextOnHand ''reservation'' (sr_id r) metadata
        (stockReservation_update now (sr_id r) ResConsumed
          (inventoryItem_update now (ii_id item)
            (\<lambda>x. x\<lparr>ii_onHand := nextOnHand,
                    ii_reserved := max (ii_reserved item - sr_quantity r) 0\<rparr>) d)))"

definition releaseReservation ::
  "RequestContext \<Rightarrow> instant \<Rightarrow> uuid \<Rightarrow> db \<Rightarrow> (json \<times> db) result" where
  "releaseReservation context now reservationId d =
     bnd (getReservationTx reservationId d) (\<lambda>reservation.
     bnd (inv_resolveTenantId context (Some (sr_tenantId reservation))) (\<lambda>_.
     if sr_status reservation \<noteq> ResActive then Inr (mapReservation reservation, d)
     else
       bnd (orThrow (getItemByWarehouseIngredientTx (sr_warehouseId reservation)
                       (sr_ingredientId reservation) d)
              (NotFoundException ''Inventory item not found.'')) (\<lambda>item.
       let d1 = release_one now item reservation d in
       bnd (getReservationTx reservationId d1) (\<lambda>r. Inr (mapReservation r, d1)))))"

definition consumeReservation ::
  "RequestContext \<Rightarrow> instant \<Rightarrow> uuid \<Rightarrow> db \<Rightarrow> (json \<times> db) result" where
  "consumeReservation context now reservationId d =
     bnd (getReservationTx reservationId d) (\<lambda>reservation.
     bnd (inv_resolveTenantId context (Some (sr_tenantId reservation))) (\<lambda>_.
     if sr_status reservation \<noteq> ResActive then Inr (mapReservation reservation, d)
     else
       bnd (orThrow (getItemByWarehouseIngredientTx (sr_warehouseId reservation)
                       (sr_ingredientId reservation) d)
              (NotFoundException ''Inventory item not found.'')) (\<lambda>item.
       let d1 = consume_one now (sr_tenantId reservation)
                  (JObj [(''reservationId'', JStr reservationId)]) item reservation d in
       bnd (getReservationTx reservationId d1) (\<lambda>r. Inr (mapReservation r, d1)))))"

section \<open>What an order does with the stock\<close>

record InventoryReservationPlanEntry =
  rpe_warehouseId :: uuid
  rpe_ingredientId :: uuid
  rpe_quantity :: quantity

definition reserve_entry ::
  "instant \<Rightarrow> uuid \<Rightarrow> uuid \<Rightarrow> InventoryReservationPlanEntry \<Rightarrow> db \<Rightarrow> db result" where
  "reserve_entry now tenantId orderId reservation d =
     bnd (getOrCreateItemTx now tenantId (rpe_warehouseId reservation) (rpe_ingredientId reservation) d)
       (\<lambda>(item, d1).
     bnd (stockReservation_create
            \<lparr>sr_id = nextId d1, sr_tenantId = tenantId,
             sr_warehouseId = rpe_warehouseId reservation,
             sr_ingredientId = rpe_ingredientId reservation,
             sr_sourceType = ''order'', sr_sourceId = orderId,
             sr_quantity = rpe_quantity reservation, sr_status = ResActive, sr_expiresAt = None,
             sr_metadata = JObj [(''orderId'', JStr orderId)],
             sr_createdAt = now, sr_updatedAt = now\<rparr> (bump d1)) (\<lambda>d2.
     Inr (inventoryItem_update now (ii_id item)
            (\<lambda>x. x\<lparr>ii_reserved := ii_reserved item + rpe_quantity reservation\<rparr>) d2)))"

definition reserveOrderInventoryTx ::
  "instant \<Rightarrow> uuid \<Rightarrow> uuid \<Rightarrow> InventoryReservationPlanEntry list \<Rightarrow> db \<Rightarrow> db result" where
  "reserveOrderInventoryTx now tenantId orderId plan d =
     foldE (reserve_entry now tenantId orderId) plan d"

definition order_reservations :: "uuid \<Rightarrow> uuid \<Rightarrow> db \<Rightarrow> StockReservation list" where
  "order_reservations tenantId orderId d =
     filter (\<lambda>r. sr_tenantId r = tenantId \<and> sr_sourceType r = ''order'' \<and> sr_sourceId r = orderId \<and>
               sr_status r = ResActive) (reservations d)"

text \<open>A reservation whose item is gone is skipped, and still counted.\<close>

definition with_item ::
  "(InventoryItem \<Rightarrow> StockReservation \<Rightarrow> db \<Rightarrow> db) \<Rightarrow> StockReservation \<Rightarrow> db \<Rightarrow> db" where
  "with_item step r d =
     (case getItemByWarehouseIngredientTx (sr_warehouseId r) (sr_ingredientId r) d of
        None \<Rightarrow> d | Some item \<Rightarrow> step item r d)"

definition releaseOrderInventoryReservationsTx ::
  "instant \<Rightarrow> uuid \<Rightarrow> uuid \<Rightarrow> db \<Rightarrow> nat \<times> db" where
  "releaseOrderInventoryReservationsTx now tenantId orderId d =
     (let rs = order_reservations tenantId orderId d
      in (length rs, fold (with_item (release_one now)) rs d))"

definition consumeOrderInventoryReservationsTx ::
  "instant \<Rightarrow> uuid \<Rightarrow> uuid \<Rightarrow> db \<Rightarrow> nat \<times> db" where
  "consumeOrderInventoryReservationsTx now tenantId orderId d =
     (let rs = order_reservations tenantId orderId d
      in (length rs,
          fold (with_item (\<lambda>item r.
            consume_one now tenantId
              (JObj [(''orderId'', JStr orderId), (''reservationId'', JStr (sr_id r))]) item r))
            rs d))"

end
