(* ===== verification/StockLaws.thy ===== *)
theory StockLaws
  imports Stock
begin

text \<open>
  The stock invariant and the laws the order service relies on. \<open>stock_ok\<close>: identifiers and
  keys are unique, every active reservation has its item, and the \<open>reserved\<close> column of an item
  is the sum of its active reservations. Reserving, releasing and consuming are then additions
  and subtractions on the levels of the items, stated as the interface \<open>stock_port\<close>.
\<close>

section \<open>The invariant\<close>

definition item_key :: "InventoryItem \<Rightarrow> uuid \<times> uuid" where
  "item_key x = (ii_warehouseId x, ii_ingredientId x)"

definition contrib :: "uuid \<Rightarrow> uuid \<Rightarrow> StockReservation \<Rightarrow> quantity" where
  "contrib w i r =
     (if sr_status r = ResActive \<and> sr_warehouseId r = w \<and> sr_ingredientId r = i
      then sr_quantity r else 0)"

definition reserved_for :: "uuid \<Rightarrow> uuid \<Rightarrow> StockReservation list \<Rightarrow> quantity" where
  "reserved_for w i rs = sum_list (map (contrib w i) rs)"

definition stock_ok :: "db \<Rightarrow> bool" where
  "stock_ok d \<longleftrightarrow>
     distinct (map ii_id (invItems d)) \<and> distinct (map item_key (invItems d)) \<and>
     distinct (map sr_id (reservations d)) \<and>
     fresh_from (db_seq d) (map ii_id (invItems d)) \<and>
     fresh_from (db_seq d) (map sr_id (reservations d)) \<and>
     (\<forall>r \<in> set (reservations d). 0 \<le> sr_quantity r) \<and>
     (\<forall>r \<in> set (reservations d). sr_status r = ResActive \<longrightarrow>
        getItemByWarehouseIngredientTx (sr_warehouseId r) (sr_ingredientId r) d \<noteq> None) \<and>
     (\<forall>x \<in> set (invItems d).
        ii_reserved x = reserved_for (ii_warehouseId x) (ii_ingredientId x) (reservations d))"

lemma stock_okD:
  assumes "stock_ok d"
  shows "distinct (map ii_id (invItems d))" "distinct (map item_key (invItems d))"
    "distinct (map sr_id (reservations d))"
    "fresh_from (db_seq d) (map ii_id (invItems d))"
    "fresh_from (db_seq d) (map sr_id (reservations d))"
    "r \<in> set (reservations d) \<Longrightarrow> 0 \<le> sr_quantity r"
    "r \<in> set (reservations d) \<Longrightarrow> sr_status r = ResActive \<Longrightarrow>
       \<exists>x. getItemByWarehouseIngredientTx (sr_warehouseId r) (sr_ingredientId r) d = Some x"
    "x \<in> set (invItems d) \<Longrightarrow>
       ii_reserved x = reserved_for (ii_warehouseId x) (ii_ingredientId x) (reservations d)"
  using assms by (auto simp: stock_ok_def)

text \<open>The invariant reads three fields only.\<close>

lemma stock_ok_cong:
  "invItems d' = invItems d \<Longrightarrow> reservations d' = reservations d \<Longrightarrow> db_seq d \<le> db_seq d' \<Longrightarrow>
     stock_ok d \<Longrightarrow> stock_ok d'"
  by (auto simp: stock_ok_def getItemByWarehouseIngredientTx_def elim: fresh_from_mono)

lemma getItem_SomeD:
  "getItemByWarehouseIngredientTx w i d = Some x \<Longrightarrow>
     x \<in> set (invItems d) \<and> ii_warehouseId x = w \<and> ii_ingredientId x = i"
  by (auto simp: getItemByWarehouseIngredientTx_def dest: find_SomeD)

lemma getItem_cong: "invItems d' = invItems d \<Longrightarrow>
    getItemByWarehouseIngredientTx w i d' = getItemByWarehouseIngredientTx w i d"
  by (simp add: getItemByWarehouseIngredientTx_def)

lemma getItem_in_set:
  assumes "distinct (map item_key (invItems d))" and "x \<in> set (invItems d)"
  shows "getItemByWarehouseIngredientTx (ii_warehouseId x) (ii_ingredientId x) d = Some x"
  using find_key_unique [OF assms] by (simp add: getItemByWarehouseIngredientTx_def item_key_def)

lemma getItem_None_iff:
  "getItemByWarehouseIngredientTx w i d = None \<longleftrightarrow> (w, i) \<notin> set (map item_key (invItems d))"
  by (auto simp: getItemByWarehouseIngredientTx_def find_None_iff item_key_def)

lemma find_update_where_keep:
  assumes "\<And>r. P (g r) = P r"
  shows "find P (update_where Q g rows) = map_option (\<lambda>r. if Q r then g r else r) (find P rows)"
  using assms by (induction rows) (auto simp: update_where_Cons)

text \<open>Updating the item of one key is not seen under any other key.\<close>

lemma getItem_update:
  assumes "distinct (map ii_id (invItems d))"
    and "getItemByWarehouseIngredientTx w i d = Some item"
    and "\<And>x. item_key (g x) = item_key x"
    and "invItems d' = update_where (\<lambda>x. ii_id x = ii_id item) g (invItems d)"
  shows "getItemByWarehouseIngredientTx w' i' d' =
    (if w' = w \<and> i' = i then Some (g item) else getItemByWarehouseIngredientTx w' i' d)"
proof -
  have "getItemByWarehouseIngredientTx w' i' d' =
      map_option (\<lambda>x. if ii_id x = ii_id item then g x else x)
        (getItemByWarehouseIngredientTx w' i' d)"
    using assms(3) unfolding getItemByWarehouseIngredientTx_def assms(4)
    by (intro find_update_where_keep) (simp add: item_key_def)
  moreover have "ii_id x = ii_id item \<longleftrightarrow> x = item"
    if "getItemByWarehouseIngredientTx w' i' d = Some x" for x
    using getItem_SomeD [OF that] getItem_SomeD [OF assms(2)] distinct_key_eq [OF assms(1)] by blast
  ultimately show ?thesis
    using assms(2) getItem_SomeD [OF assms(2)] getItem_SomeD [of w' i' d]
    by (cases "getItemByWarehouseIngredientTx w' i' d") auto
qed

lemma reserved_for_append [simp]:
  "reserved_for w i (rs @ rs') = reserved_for w i rs + reserved_for w i rs'"
  by (simp add: reserved_for_def)

lemma reserved_for_simps [simp]:
  "reserved_for w i [] = 0" "reserved_for w i (r # rs) = contrib w i r + reserved_for w i rs"
  by (simp_all add: reserved_for_def)

lemma contrib_nonneg: "0 \<le> sr_quantity r \<Longrightarrow> 0 \<le> contrib w i r"
  by (simp add: contrib_def)

lemma reserved_for_nonneg: "(\<And>r. r \<in> set rs \<Longrightarrow> 0 \<le> sr_quantity r) \<Longrightarrow> 0 \<le> reserved_for w i rs"
  by (induction rs) (auto intro: add_nonneg_nonneg contrib_nonneg)

lemma contrib_le_reserved:
  "(\<And>r. r \<in> set rs \<Longrightarrow> 0 \<le> sr_quantity r) \<Longrightarrow> r \<in> set rs \<Longrightarrow> contrib w i r \<le> reserved_for w i rs"
proof (induction rs)
  case (Cons a rs)
  then have "0 \<le> contrib w i a" "0 \<le> reserved_for w i rs"
    by (auto intro: contrib_nonneg reserved_for_nonneg)
  with Cons show ?case by (auto simp: add_increasing2 add_increasing)
qed simp

lemma reserved_for_settle:
  assumes "distinct (map sr_id rs)" and "r \<in> set rs" and "s \<noteq> ResActive"
  shows "reserved_for w i (update_where (\<lambda>x. sr_id x = sr_id r)
      (\<lambda>x. x\<lparr>sr_status := s, sr_updatedAt := t\<rparr>) rs) = reserved_for w i rs - contrib w i r"
  using sum_update_one [OF assms(1,2), of "contrib w i" "\<lambda>x. x\<lparr>sr_status := s, sr_updatedAt := t\<rparr>"] assms(3)
  by (simp add: reserved_for_def contrib_def)

section \<open>Levels\<close>

definition reservedAt :: "uuid \<Rightarrow> uuid \<Rightarrow> db \<Rightarrow> quantity" where
  "reservedAt w i d = (case getItemByWarehouseIngredientTx w i d of None \<Rightarrow> 0 | Some x \<Rightarrow> ii_reserved x)"

definition onHandAt :: "uuid \<Rightarrow> uuid \<Rightarrow> db \<Rightarrow> quantity" where
  "onHandAt w i d = (case getItemByWarehouseIngredientTx w i d of None \<Rightarrow> 0 | Some x \<Rightarrow> ii_onHand x)"

definition heldBy :: "uuid \<Rightarrow> uuid \<Rightarrow> uuid \<Rightarrow> uuid \<Rightarrow> db \<Rightarrow> quantity" where
  "heldBy tenantId orderId w i d = reserved_for w i (order_reservations tenantId orderId d)"

definition planned :: "uuid \<Rightarrow> uuid \<Rightarrow> InventoryReservationPlanEntry list \<Rightarrow> quantity" where
  "planned w i plan =
     (\<Sum>e\<leftarrow>plan. if rpe_warehouseId e = w \<and> rpe_ingredientId e = i then rpe_quantity e else 0)"

section \<open>Settling one reservation\<close>

text \<open>
  What releasing and consuming have in common: the reservation stops being active, and its
  quantity leaves the \<open>reserved\<close> column of its item.
\<close>

lemma settle_step:
  assumes ok: "stock_ok d" and r: "r \<in> set (reservations d)" "sr_status r = ResActive"
    and item: "getItemByWarehouseIngredientTx (sr_warehouseId r) (sr_ingredientId r) d = Some item"
    and items': "invItems d' = update_where (\<lambda>x. ii_id x = ii_id item) g (invItems d)"
    and g: "\<And>x. ii_id (g x) = ii_id x" "\<And>x. item_key (g x) = item_key x"
      "ii_reserved (g item) = max (ii_reserved item - sr_quantity r) 0"
    and res': "reservations d' = update_where (\<lambda>x. sr_id x = sr_id r)
      (\<lambda>x. x\<lparr>sr_status := s, sr_updatedAt := t\<rparr>) (reservations d)"
    and s: "s \<noteq> ResActive" and seq: "db_seq d \<le> db_seq d'"
  shows "stock_ok d'"
    and "getItemByWarehouseIngredientTx w i d' = (if w = sr_warehouseId r \<and> i = sr_ingredientId r
       then Some (g item) else getItemByWarehouseIngredientTx w i d)"
    and "ii_reserved (g item) = ii_reserved item - sr_quantity r"
proof -
  note D = stock_okD [OF ok]
  show look: "getItemByWarehouseIngredientTx w i d' = (if w = sr_warehouseId r \<and> i = sr_ingredientId r
      then Some (g item) else getItemByWarehouseIngredientTx w i d)" for w i
    by (rule getItem_update [OF D(1) item g(2) items'])
  have it: "item \<in> set (invItems d)" "ii_warehouseId item = sr_warehouseId r"
    "ii_ingredientId item = sr_ingredientId r"
    using getItem_SomeD [OF item] by auto
  have "contrib (sr_warehouseId r) (sr_ingredientId r) r \<le> ii_reserved item"
    using D(8) [OF it(1)] it contrib_le_reserved [OF D(6) r(1)] by simp
  then show sub: "ii_reserved (g item) = ii_reserved item - sr_quantity r"
    using r(2) g(3) by (simp add: contrib_def)
  have ids: "map ii_id (invItems d') = map ii_id (invItems d)"
    "map item_key (invItems d') = map item_key (invItems d)"
    "map sr_id (reservations d') = map sr_id (reservations d)"
    unfolding items' res' using g by (auto intro!: map_update_where_key)
  have rf: "reserved_for w i (reservations d') = reserved_for w i (reservations d) - contrib w i r" for w i
    unfolding res' by (rule reserved_for_settle [OF D(3) r(1) s])
  have "ii_reserved x = reserved_for (ii_warehouseId x) (ii_ingredientId x) (reservations d')"
    if x: "x \<in> set (invItems d')" for x
  proof -
    have x': "getItemByWarehouseIngredientTx (ii_warehouseId x) (ii_ingredientId x) d' = Some x"
      using getItem_in_set x ids(2) D(2) by metis
    show ?thesis
    proof (cases "ii_warehouseId x = sr_warehouseId r \<and> ii_ingredientId x = sr_ingredientId r")
      case True
      then have "x = g item" using x' look by simp
      with True D(8) [OF it(1)] it sub r(2) show ?thesis by (simp add: rf contrib_def)
    next
      case False
      then have "getItemByWarehouseIngredientTx (ii_warehouseId x) (ii_ingredientId x) d = Some x"
        using x' look by (auto split: if_splits)
      then have "x \<in> set (invItems d)" using getItem_SomeD by blast
      with False D(8) show ?thesis by (auto simp: rf contrib_def)
    qed
  qed
  moreover have "0 \<le> sr_quantity q" "sr_status q = ResActive \<Longrightarrow>
      getItemByWarehouseIngredientTx (sr_warehouseId q) (sr_ingredientId q) d' \<noteq> None"
    if "q \<in> set (reservations d')" for q
    using that D(6,7) s unfolding res' look by (auto simp: set_update_where)
  ultimately show "stock_ok d'"
    using D ids seq unfolding stock_ok_def by (simp add: fresh_from_mono)
qed

section \<open>Reserving\<close>

lemma inactive_reserved: "(\<And>r. r \<in> set rs \<Longrightarrow> contrib w i r = 0) \<Longrightarrow> reserved_for w i rs = 0"
  by (induction rs) auto

lemma getOrCreateItemTx_Inr:
  assumes ok: "stock_ok d" and run: "getOrCreateItemTx now t w i d = Inr (item, d')"
  shows "stock_ok d'" "getItemByWarehouseIngredientTx w i d' = Some item"
    "reservations d' = reservations d" "reservedAt w' i' d' = reservedAt w' i' d"
    "onHandAt w' i' d' = onHandAt w' i' d"
proof -
  note D = stock_okD [OF ok]
  have "stock_ok d' \<and> getItemByWarehouseIngredientTx w i d' = Some item \<and>
      reservations d' = reservations d \<and> reservedAt w' i' d' = reservedAt w' i' d \<and>
      onHandAt w' i' d' = onHandAt w' i' d"
  proof (cases "getItemByWarehouseIngredientTx w i d")
    case (Some x)
    with run ok show ?thesis by (simp add: getOrCreateItemTx_def)
  next
    case None
    let ?new = "\<lparr>ii_id = nextId d, ii_tenantId = t, ii_warehouseId = w, ii_ingredientId = i,
      ii_sku = None, ii_onHand = 0, ii_reserved = 0, ii_reorderPoint = 0, ii_metadata = JObj [],
      ii_createdAt = now, ii_updatedAt = now\<rparr>"
    from None run have it: "item = ?new" and d': "d' = (bump d)\<lparr>invItems := invItems d @ [?new]\<rparr>"
      by (auto simp: getOrCreateItemTx_def inventoryItem_create_def Let_def)
    have I: "invItems d' = invItems d @ [?new]" "reservations d' = reservations d"
      by (simp_all add: d')
    have look: "getItemByWarehouseIngredientTx w'' i'' d' = (if w'' = w \<and> i'' = i then Some ?new
        else getItemByWarehouseIngredientTx w'' i'' d)" for w'' i''
      using None by (auto simp: d' getItemByWarehouseIngredientTx_def find_append split: option.splits)
    have zero: "reserved_for w i (reservations d) = 0"
      by (rule inactive_reserved) (metis D(7) None contrib_def option.distinct(1))
    have "stock_ok d'"
      unfolding stock_ok_def
    proof (intro conjI ballI impI)
      show "distinct (map ii_id (invItems d'))"
        using D(1,4) by (auto simp: d' dest: fresh_fromD)
      show "distinct (map item_key (invItems d'))"
        using D(2) None by (auto simp: d' getItem_None_iff item_key_def)
      show "fresh_from (db_seq d') (map ii_id (invItems d'))"
        using D(4) by (auto simp: d' fresh_from_Suc)
      show "fresh_from (db_seq d') (map sr_id (reservations d'))"
        using D(5) by (auto simp: d' fresh_from_Suc)
    qed (use D zero in \<open>auto simp: look I\<close>)
    with None show ?thesis by (simp add: look it I reservedAt_def onHandAt_def)
  qed
  then show "stock_ok d'" "getItemByWarehouseIngredientTx w i d' = Some item"
    "reservations d' = reservations d" "reservedAt w' i' d' = reservedAt w' i' d"
    "onHandAt w' i' d' = onHandAt w' i' d"
    by auto
qed

lemma reserve_step:
  assumes ok: "stock_ok d"
    and item: "getItemByWarehouseIngredientTx (sr_warehouseId r) (sr_ingredientId r) d = Some item"
    and r: "sr_status r = ResActive" "0 \<le> sr_quantity r" "sr_id r = newId (db_seq d)"
    and items': "invItems d' = update_where (\<lambda>x. ii_id x = ii_id item) g (invItems d)"
    and g: "\<And>x. ii_id (g x) = ii_id x" "\<And>x. item_key (g x) = item_key x"
      "ii_reserved (g item) = ii_reserved item + sr_quantity r"
    and res': "reservations d' = reservations d @ [r]" and seq: "db_seq d < db_seq d'"
  shows "stock_ok d'"
    and "getItemByWarehouseIngredientTx w i d' = (if w = sr_warehouseId r \<and> i = sr_ingredientId r
       then Some (g item) else getItemByWarehouseIngredientTx w i d)"
proof -
  note D = stock_okD [OF ok]
  show look: "getItemByWarehouseIngredientTx w i d' = (if w = sr_warehouseId r \<and> i = sr_ingredientId r
      then Some (g item) else getItemByWarehouseIngredientTx w i d)" for w i
    by (rule getItem_update [OF D(1) item g(2) items'])
  have it: "item \<in> set (invItems d)" "ii_warehouseId item = sr_warehouseId r"
    "ii_ingredientId item = sr_ingredientId r"
    using getItem_SomeD [OF item] by auto
  have ids: "map ii_id (invItems d') = map ii_id (invItems d)"
    "map item_key (invItems d') = map item_key (invItems d)"
    unfolding items' using g by (auto intro!: map_update_where_key)
  have "ii_reserved x = reserved_for (ii_warehouseId x) (ii_ingredientId x) (reservations d')"
    if x: "x \<in> set (invItems d')" for x
  proof -
    have x': "getItemByWarehouseIngredientTx (ii_warehouseId x) (ii_ingredientId x) d' = Some x"
      using getItem_in_set x ids(2) D(2) by metis
    show ?thesis
    proof (cases "ii_warehouseId x = sr_warehouseId r \<and> ii_ingredientId x = sr_ingredientId r")
      case True
      then have "x = g item" using x' look by simp
      with True D(8) [OF it(1)] it r(1) g(3) show ?thesis by (simp add: res' contrib_def)
    next
      case False
      then have "getItemByWarehouseIngredientTx (ii_warehouseId x) (ii_ingredientId x) d = Some x"
        using x' look by (auto split: if_splits)
      then have "x \<in> set (invItems d)" using getItem_SomeD by blast
      with False D(8) show ?thesis by (auto simp: res' contrib_def)
    qed
  qed
  moreover have "sr_id r \<notin> set (map sr_id (reservations d))"
    using D(5) r(3) by (auto dest: fresh_fromD)
  moreover have "fresh_from (db_seq d') (map sr_id (reservations d'))"
    using fresh_from_mono [OF D(5)] seq r(3) by (simp add: res')
  ultimately show "stock_ok d'"
    using D ids seq r unfolding stock_ok_def look res'
    by (auto simp: fresh_from_mono)
qed

lemmas level_defs = reservedAt_def onHandAt_def

lemma reserve_entry_Inr:
  assumes ok: "stock_ok d" and q: "0 \<le> rpe_quantity e" and run: "reserve_entry now t oid e d = Inr d'"
  shows "stock_ok d'" "reservedAt w i d' = reservedAt w i d + planned w i [e]"
    "onHandAt w i d' = onHandAt w i d"
    "heldBy t' o' w i d' = heldBy t' o' w i d + (if t' = t \<and> o' = oid then planned w i [e] else 0)"
proof -
  let ?w = "rpe_warehouseId e" and ?i = "rpe_ingredientId e" and ?q = "rpe_quantity e"
  from run obtain item d1 r where get: "getOrCreateItemTx now t ?w ?i d = Inr (item, d1)"
    and r: "r = \<lparr>sr_id = nextId d1, sr_tenantId = t, sr_warehouseId = ?w, sr_ingredientId = ?i,
        sr_sourceType = ''order'', sr_sourceId = oid, sr_quantity = ?q, sr_status = ResActive,
        sr_expiresAt = None, sr_metadata = JObj [(''orderId'', JStr oid)], sr_createdAt = now,
        sr_updatedAt = now\<rparr>"
    and d': "d' = inventoryItem_update now (ii_id item) (\<lambda>x. x\<lparr>ii_reserved := ii_reserved item + ?q\<rparr>)
        (bump d1\<lparr>reservations := reservations d1 @ [r]\<rparr>)"
    by (auto simp: reserve_entry_def stockReservation_create_def)
  note G = getOrCreateItemTx_Inr [OF ok get]
  have step: "stock_ok d'" "getItemByWarehouseIngredientTx w i d' = (if w = ?w \<and> i = ?i
       then Some (item\<lparr>ii_reserved := ii_reserved item + ?q, ii_updatedAt := now\<rparr>)
       else getItemByWarehouseIngredientTx w i d1)" for w i
    using reserve_step [OF G(1), of r item d' "\<lambda>x. x\<lparr>ii_reserved := ii_reserved item + ?q, ii_updatedAt := now\<rparr>"]
      G(2) q by (auto simp: r d' inventoryItem_update_def item_key_def)
  show "stock_ok d'" by (rule step(1))
  show "reservedAt w i d' = reservedAt w i d + planned w i [e]" "onHandAt w i d' = onHandAt w i d"
    using G(2) step(2) G(4,5) [of w i] by (auto simp: level_defs planned_def)
  show "heldBy t' o' w i d' = heldBy t' o' w i d + (if t' = t \<and> o' = oid then planned w i [e] else 0)"
    using G(3) by (auto simp: heldBy_def order_reservations_def d' inventoryItem_update_def r
        contrib_def planned_def)
qed

lemma planned_Cons: "planned w i (e # es) = planned w i [e] + planned w i es"
  by (simp add: planned_def)

lemma reserveOrderInventoryTx_Inr:
  assumes "stock_ok d" and "\<And>e. e \<in> set plan \<Longrightarrow> 0 \<le> rpe_quantity e"
    and "reserveOrderInventoryTx now t oid plan d = Inr d'"
  shows "stock_ok d' \<and> reservedAt w i d' = reservedAt w i d + planned w i plan \<and>
    onHandAt w i d' = onHandAt w i d \<and>
    heldBy t' o' w i d' = heldBy t' o' w i d + (if t' = t \<and> o' = oid then planned w i plan else 0)"
  using assms unfolding reserveOrderInventoryTx_def
proof (induction plan arbitrary: d)
  case Nil
  then show ?case by (simp add: planned_def)
next
  case (Cons e es)
  from Cons.prems(3) obtain d1 where step: "reserve_entry now t oid e d = Inr d1"
    and rest: "foldE (reserve_entry now t oid) es d1 = Inr d'" by auto
  note S = reserve_entry_Inr [OF Cons.prems(1) _ step]
  have q: "0 \<le> rpe_quantity e" using Cons.prems(2) by simp
  from Cons.IH [OF S(1) [OF q] _ rest] Cons.prems(2) show ?case
    using S(2-4) [OF q] by (auto simp: planned_Cons [of w i e es])
qed

section \<open>Releasing and consuming the reservations of an order\<close>

text \<open>
  One pass over reservations that are all active: the held quantities leave \<open>reserved\<close>, the
  reservations stop being active, and \<open>onHand\<close> changes as each step says.
\<close>

definition settles ::
  "ReservationStatus \<Rightarrow> (quantity \<Rightarrow> quantity \<Rightarrow> quantity) \<Rightarrow>
   (InventoryItem \<Rightarrow> StockReservation \<Rightarrow> db \<Rightarrow> db) \<Rightarrow> bool" where
  "settles s h step \<longleftrightarrow> s \<noteq> ResActive \<and>
     (\<forall>item r d. \<exists>g t.
        invItems (step item r d) = update_where (\<lambda>x. ii_id x = ii_id item) g (invItems d) \<and>
        (\<forall>x. ii_id (g x) = ii_id x \<and> item_key (g x) = item_key x) \<and>
        ii_reserved (g item) = max (ii_reserved item - sr_quantity r) 0 \<and>
        ii_onHand (g item) = h (ii_onHand item) (sr_quantity r) \<and>
        reservations (step item r d) = update_where (\<lambda>x. sr_id x = sr_id r)
          (\<lambda>x. x\<lparr>sr_status := s, sr_updatedAt := t\<rparr>) (reservations d) \<and>
        db_seq d \<le> db_seq (step item r d))"

definition taken :: "quantity \<Rightarrow> quantity \<Rightarrow> quantity" where
  "taken onHand q = max (onHand - q) 0"

lemma settles_release: "settles ResReleased (\<lambda>h q. h) (release_one now)"
  unfolding settles_def
proof (intro conjI allI)
  fix item r d
  show "\<exists>g t.
      invItems (release_one now item r d) = update_where (\<lambda>x. ii_id x = ii_id item) g (invItems d) \<and>
      (\<forall>x. ii_id (g x) = ii_id x \<and> item_key (g x) = item_key x) \<and>
      ii_reserved (g item) = max (ii_reserved item - sr_quantity r) 0 \<and>
      ii_onHand (g item) = ii_onHand item \<and>
      reservations (release_one now item r d) = update_where (\<lambda>x. sr_id x = sr_id r)
        (\<lambda>x. x\<lparr>sr_status := ResReleased, sr_updatedAt := t\<rparr>) (reservations d) \<and>
      db_seq d \<le> db_seq (release_one now item r d)"
    by (rule exI [of _ "\<lambda>x. x\<lparr>ii_reserved := max (ii_reserved item - sr_quantity r) 0, ii_updatedAt := now\<rparr>"],
        rule exI [of _ now])
      (simp add: release_one_def inventoryItem_update_def stockReservation_update_def item_key_def)
qed simp

lemma settles_consume: "settles ResConsumed taken (\<lambda>item r. consume_one now t (m r) item r)"
  unfolding settles_def
proof (intro conjI allI)
  fix item r d
  show "\<exists>g u.
      invItems (consume_one now t (m r) item r d) =
        update_where (\<lambda>x. ii_id x = ii_id item) g (invItems d) \<and>
      (\<forall>x. ii_id (g x) = ii_id x \<and> item_key (g x) = item_key x) \<and>
      ii_reserved (g item) = max (ii_reserved item - sr_quantity r) 0 \<and>
      ii_onHand (g item) = taken (ii_onHand item) (sr_quantity r) \<and>
      reservations (consume_one now t (m r) item r d) = update_where (\<lambda>x. sr_id x = sr_id r)
        (\<lambda>x. x\<lparr>sr_status := ResConsumed, sr_updatedAt := u\<rparr>) (reservations d) \<and>
      db_seq d \<le> db_seq (consume_one now t (m r) item r d)"
    by (rule exI [of _ "\<lambda>x. x\<lparr>ii_onHand := max (ii_onHand item - sr_quantity r) 0,
            ii_reserved := max (ii_reserved item - sr_quantity r) 0, ii_updatedAt := now\<rparr>"],
        rule exI [of _ now])
      (simp add: consume_one_def inventoryItem_update_def stockReservation_update_def item_key_def
        stockLedgerEntry_create_def Let_def taken_def)
qed simp

lemma settle_one:
  assumes st: "settles s h step" and ok: "stock_ok d"
    and r: "r \<in> set (reservations d)" "sr_status r = ResActive"
  shows "stock_ok (with_item step r d)"
    and "reservedAt w i (with_item step r d) = reservedAt w i d - contrib w i r"
    and "onHandAt w i (with_item step r d) = (if sr_warehouseId r = w \<and> sr_ingredientId r = i
       then h (onHandAt w i d) (sr_quantity r) else onHandAt w i d)"
    and "\<exists>t. reservations (with_item step r d) = update_where (\<lambda>x. sr_id x = sr_id r)
       (\<lambda>x. x\<lparr>sr_status := s, sr_updatedAt := t\<rparr>) (reservations d)"
proof -
  obtain item where item: "getItemByWarehouseIngredientTx (sr_warehouseId r) (sr_ingredientId r) d = Some item"
    using stock_okD(7) [OF ok r] by blast
  then have w: "with_item step r d = step item r d" by (simp add: with_item_def)
  from st obtain g t where
    I: "invItems (step item r d) = update_where (\<lambda>x. ii_id x = ii_id item) g (invItems d)"
    and g: "\<And>x. ii_id (g x) = ii_id x" "\<And>x. item_key (g x) = item_key x"
      "ii_reserved (g item) = max (ii_reserved item - sr_quantity r) 0"
    and h: "ii_onHand (g item) = h (ii_onHand item) (sr_quantity r)"
    and R: "reservations (step item r d) = update_where (\<lambda>x. sr_id x = sr_id r)
          (\<lambda>x. x\<lparr>sr_status := s, sr_updatedAt := t\<rparr>) (reservations d)"
    and q: "db_seq d \<le> db_seq (step item r d)" and s: "s \<noteq> ResActive"
    unfolding settles_def by metis
  note S = settle_step [OF ok r item I g R s q]
  show "stock_ok (with_item step r d)" using S(1) by (simp add: w)
  show "reservedAt w i (with_item step r d) = reservedAt w i d - contrib w i r"
    using S(2) [of w i] S(3) item r(2) by (auto simp: w reservedAt_def contrib_def)
  show "onHandAt w i (with_item step r d) = (if sr_warehouseId r = w \<and> sr_ingredientId r = i
       then h (onHandAt w i d) (sr_quantity r) else onHandAt w i d)"
    using S(2) [of w i] h item by (auto simp: w onHandAt_def)
  show "\<exists>t. reservations (with_item step r d) = update_where (\<lambda>x. sr_id x = sr_id r)
       (\<lambda>x. x\<lparr>sr_status := s, sr_updatedAt := t\<rparr>) (reservations d)"
    using R by (auto simp: w)
qed

text \<open>A whole pass, over distinct reservations that are active.\<close>

definition settled :: "ReservationStatus \<Rightarrow> uuid set \<Rightarrow> StockReservation list \<Rightarrow>
    StockReservation list \<Rightarrow> bool" where
  "settled s ids rs rs' \<longleftrightarrow> list_all2 (\<lambda>r r'. if sr_id r \<in> ids
      then \<exists>t. r' = r\<lparr>sr_status := s, sr_updatedAt := t\<rparr> else r' = r) rs rs'"

lemma settled_update:
  "settled s {i} rs (update_where (\<lambda>x. sr_id x = i) (\<lambda>x. x\<lparr>sr_status := s, sr_updatedAt := t\<rparr>) rs)"
  by (induction rs) (auto simp: settled_def update_where_Cons)

lemma settled_trans:
  assumes "settled s a rs rs'" and "settled s b rs' rs''"
  shows "settled s (a \<union> b) rs rs''"
  unfolding settled_def
proof (rule list_all2_trans [OF _ assms [unfolded settled_def]])
  fix r r' r''
  assume "if sr_id r \<in> a then \<exists>t. r' = r\<lparr>sr_status := s, sr_updatedAt := t\<rparr> else r' = r"
    and "if sr_id r' \<in> b then \<exists>t. r'' = r'\<lparr>sr_status := s, sr_updatedAt := t\<rparr> else r'' = r'"
  then show "if sr_id r \<in> a \<union> b then \<exists>t. r'' = r\<lparr>sr_status := s, sr_updatedAt := t\<rparr> else r'' = r"
    by (auto split: if_splits)
qed

lemma settled_refl: "settled s {} rs rs"
  by (simp add: settled_def list_all2_refl)

lemma settle_pass:
  assumes "settles s h step" and "stock_ok d" and "set rs \<subseteq> set (reservations d)"
    and "\<And>r. r \<in> set rs \<Longrightarrow> sr_status r = ResActive" and "distinct (map sr_id rs)"
  shows "stock_ok (fold (with_item step) rs d) \<and>
    reservedAt w i (fold (with_item step) rs d) = reservedAt w i d - reserved_for w i rs \<and>
    onHandAt w i (fold (with_item step) rs d) =
      foldl h (onHandAt w i d) (map sr_quantity (filter (\<lambda>r. sr_warehouseId r = w \<and> sr_ingredientId r = i) rs)) \<and>
    settled s (sr_id ` set rs) (reservations d) (reservations (fold (with_item step) rs d))"
  using assms(2-)
proof (induction rs arbitrary: d)
  case Nil
  then show ?case by (simp add: settled_refl)
next
  case (Cons r rs)
  let ?d = "with_item step r d"
  have r: "r \<in> set (reservations d)" "sr_status r = ResActive" using Cons.prems by auto
  note O = settle_one [OF assms(1) Cons.prems(1) r]
  obtain t where res: "reservations ?d = update_where (\<lambda>x. sr_id x = sr_id r)
      (\<lambda>x. x\<lparr>sr_status := s, sr_updatedAt := t\<rparr>) (reservations d)" using O(4) by blast
  have "set rs \<subseteq> set (reservations ?d)"
  proof
    fix x assume x: "x \<in> set rs"
    with Cons.prems(4) have "sr_id x \<noteq> sr_id r" by (auto simp: image_iff)
    with x Cons.prems(2) show "x \<in> set (reservations ?d)" by (auto simp: res set_update_where)
  qed
  from Cons.IH [OF O(1) this] Cons.prems(3,4)
  have IH: "stock_ok (fold (with_item step) rs ?d)"
    "reservedAt w i (fold (with_item step) rs ?d) = reservedAt w i ?d - reserved_for w i rs"
    "onHandAt w i (fold (with_item step) rs ?d) = foldl h (onHandAt w i ?d)
       (map sr_quantity (filter (\<lambda>r. sr_warehouseId r = w \<and> sr_ingredientId r = i) rs))"
    "settled s (sr_id ` set rs) (reservations ?d) (reservations (fold (with_item step) rs ?d))"
    by auto
  have "settled s ({sr_id r} \<union> sr_id ` set rs) (reservations d) (reservations (fold (with_item step) rs ?d))"
    using settled_trans [OF _ IH(4)] settled_update res by metis
  with IH O(2,3) [of w i] show ?case by simp
qed

section \<open>The reservations of one order\<close>

lemma order_reservations_props:
  assumes "stock_ok d"
  shows "set (order_reservations t oid d) \<subseteq> set (reservations d)"
    and "r \<in> set (order_reservations t oid d) \<Longrightarrow> sr_status r = ResActive"
    and "distinct (map sr_id (order_reservations t oid d))"
  using stock_okD(3) [OF assms] by (auto simp: order_reservations_def distinct_map_filter)

lemma filter_list_all2:
  "list_all2 R xs ys \<Longrightarrow> (\<And>x y. x \<in> set xs \<Longrightarrow> R x y \<Longrightarrow> Q y \<longleftrightarrow> P x \<and> B x) \<Longrightarrow>
     (\<And>x y. x \<in> set xs \<Longrightarrow> R x y \<Longrightarrow> P x \<Longrightarrow> B x \<Longrightarrow> y = x) \<Longrightarrow>
     filter Q ys = filter (\<lambda>x. P x \<and> B x) xs"
  by (induction rule: list_all2_induct) auto

lemma order_reservations_settled:
  assumes ok: "stock_ok d" and s: "s \<noteq> ResActive"
    and st: "settled s (sr_id ` set (order_reservations t oid d)) (reservations d) (reservations d')"
  shows "order_reservations t' o' d' =
    (if t' = t \<and> o' = oid then [] else order_reservations t' o' d)"
proof -
  define S where "S = sr_id ` set (order_reservations t oid d)"
  have mem: "sr_id r \<in> S \<longleftrightarrow> sr_tenantId r = t \<and> sr_sourceType r = ''order'' \<and> sr_sourceId r = oid \<and>
      sr_status r = ResActive" if "r \<in> set (reservations d)" for r
  proof -
    have "sr_id r \<in> S \<longleftrightarrow> r \<in> set (order_reservations t oid d)"
    proof
      assume "sr_id r \<in> S"
      then obtain q where "q \<in> set (order_reservations t oid d)" "sr_id q = sr_id r"
        by (auto simp: S_def)
      with that show "r \<in> set (order_reservations t oid d)"
        using order_reservations_props(1) [OF ok] distinct_key_eq [OF stock_okD(3) [OF ok], of q r] by blast
    qed (simp add: S_def)
    with that show ?thesis by (auto simp: order_reservations_def)
  qed
  have "order_reservations t' o' d' = filter (\<lambda>r. (sr_tenantId r = t' \<and> sr_sourceType r = ''order'' \<and>
      sr_sourceId r = o' \<and> sr_status r = ResActive) \<and> \<not> (t' = t \<and> o' = oid)) (reservations d)"
    unfolding order_reservations_def
    by (rule filter_list_all2 [OF st [folded S_def, unfolded settled_def]])
      (auto simp: s mem split: if_splits)
  then show ?thesis by (simp add: order_reservations_def)
qed

lemma foldl_taken:
  "(\<And>q. q \<in> set qs \<Longrightarrow> 0 \<le> q) \<Longrightarrow> sum_list qs \<le> h \<Longrightarrow> foldl taken h qs = h - sum_list qs"
proof (induction qs arbitrary: h)
  case (Cons q qs)
  then have "0 \<le> sum_list qs" by (intro sum_list_nonneg) auto
  with Cons.prems(2) have "taken h q = h - q" by (simp add: taken_def)
  with Cons show ?case by (simp add: algebra_simps)
qed simp

lemma foldl_const: "foldl (\<lambda>h q. h) h qs = h"
  by (induction qs) simp_all

lemma held_sum:
  assumes "\<And>r. r \<in> set rs \<Longrightarrow> sr_status r = ResActive"
  shows "sum_list (map sr_quantity (filter (\<lambda>r. sr_warehouseId r = w \<and> sr_ingredientId r = i) rs)) =
    reserved_for w i rs"
  using assms by (induction rs) (auto simp: contrib_def)

text \<open>What both passes over the reservations of an order establish.\<close>

lemma order_pass:
  assumes st: "settles s h step" and ok: "stock_ok d"
    and d': "d' = fold (with_item step) (order_reservations t oid d) d"
  shows "stock_ok d'"
    and "reservedAt w i d' = reservedAt w i d - heldBy t oid w i d"
    and "onHandAt w i d' = foldl h (onHandAt w i d) (map sr_quantity (filter
      (\<lambda>r. sr_warehouseId r = w \<and> sr_ingredientId r = i) (order_reservations t oid d)))"
    and "order_reservations t' o' d' = (if t' = t \<and> o' = oid then [] else order_reservations t' o' d)"
    and "heldBy t' o' w i d' = (if t' = t \<and> o' = oid then 0 else heldBy t' o' w i d)"
proof -
  note P = order_reservations_props [OF ok, where t = t and oid = oid]
  note S = settle_pass [OF st ok P(1) P(2) P(3), folded d']
  show "stock_ok d'" "reservedAt w i d' = reservedAt w i d - heldBy t oid w i d"
    "onHandAt w i d' = foldl h (onHandAt w i d) (map sr_quantity (filter
      (\<lambda>r. sr_warehouseId r = w \<and> sr_ingredientId r = i) (order_reservations t oid d)))"
    using S [of w i] by (simp_all add: heldBy_def)
  have "s \<noteq> ResActive" using st by (simp add: settles_def)
  then show O: "order_reservations t' o' d' = (if t' = t \<and> o' = oid then [] else order_reservations t' o' d)"
    using order_reservations_settled [OF ok] S by blast
  show "heldBy t' o' w i d' = (if t' = t \<and> o' = oid then 0 else heldBy t' o' w i d)"
    by (simp add: heldBy_def O)
qed

section \<open>The interface the order service uses\<close>

locale stock_port =
  fixes ok :: "'d \<Rightarrow> bool"
    and reserved :: "uuid \<Rightarrow> uuid \<Rightarrow> 'd \<Rightarrow> quantity"
    and onHand :: "uuid \<Rightarrow> uuid \<Rightarrow> 'd \<Rightarrow> quantity"
    and held :: "uuid \<Rightarrow> uuid \<Rightarrow> uuid \<Rightarrow> uuid \<Rightarrow> 'd \<Rightarrow> quantity"
    and reserve :: "uuid \<Rightarrow> uuid \<Rightarrow> InventoryReservationPlanEntry list \<Rightarrow> 'd \<Rightarrow> 'd result"
    and release :: "uuid \<Rightarrow> uuid \<Rightarrow> 'd \<Rightarrow> nat \<times> 'd"
    and consume :: "uuid \<Rightarrow> uuid \<Rightarrow> 'd \<Rightarrow> nat \<times> 'd"
  assumes reserve_law: "ok d \<Longrightarrow> (\<And>e. e \<in> set plan \<Longrightarrow> 0 \<le> rpe_quantity e) \<Longrightarrow>
      reserve t oid plan d = Inr d' \<Longrightarrow> ok d' \<and> reserved w i d' = reserved w i d + planned w i plan \<and>
        onHand w i d' = onHand w i d \<and>
        held t' o' w i d' = held t' o' w i d + (if t' = t \<and> o' = oid then planned w i plan else 0)"
    and release_law: "ok d \<Longrightarrow> release t oid d = (n, d') \<Longrightarrow> ok d' \<and>
        reserved w i d' = reserved w i d - held t oid w i d \<and> onHand w i d' = onHand w i d \<and>
        held t' o' w i d' = (if t' = t \<and> o' = oid then 0 else held t' o' w i d)"
    and consume_law: "ok d \<Longrightarrow> consume t oid d = (n, d') \<Longrightarrow> ok d' \<and>
        reserved w i d' = reserved w i d - held t oid w i d \<and>
        (held t oid w i d \<le> onHand w i d \<longrightarrow> onHand w i d' = onHand w i d - held t oid w i d) \<and>
        held t' o' w i d' = (if t' = t \<and> o' = oid then 0 else held t' o' w i d)"
begin

text \<open>A cancelled order leaves the stock as its placement found it.\<close>

lemma reserve_release:
  assumes "ok d" and "\<And>e. e \<in> set plan \<Longrightarrow> 0 \<le> rpe_quantity e" and "held t oid w i d = 0"
    and "reserve t oid plan d = Inr d1" and "release t oid d1 = (n, d2)"
  shows "reserved w i d2 = reserved w i d \<and> onHand w i d2 = onHand w i d \<and> held t oid w i d2 = 0"
  using reserve_law [OF assms(1,2,4), of w i t oid] release_law [OF _ assms(5), of w i t oid] assms(3)
  by auto

text \<open>A completed one takes what its placement planned.\<close>

lemma reserve_consume:
  assumes "ok d" and "\<And>e. e \<in> set plan \<Longrightarrow> 0 \<le> rpe_quantity e" and "held t oid w i d = 0"
    and "planned w i plan \<le> onHand w i d"
    and "reserve t oid plan d = Inr d1" and "consume t oid d1 = (n, d2)"
  shows "reserved w i d2 = reserved w i d \<and> onHand w i d2 = onHand w i d - planned w i plan"
  using reserve_law [OF assms(1,2,5), of w i t oid] consume_law [OF _ assms(6), of w i t oid] assms(3,4)
  by auto

lemma release_again:
  assumes "ok d" and "release t oid d = (n, d1)" and "release t oid d1 = (m, d2)"
  shows "reserved w i d2 = reserved w i d1 \<and> onHand w i d2 = onHand w i d1"
  using release_law [OF assms(1,2), of w i t oid] release_law [OF _ assms(3), of w i t oid] by auto

lemma release_other:
  assumes "ok d" and "release t oid d = (n, d1)" and "o' \<noteq> oid"
  shows "held t o' w i d1 = held t o' w i d"
  using release_law [OF assms(1,2), of w i t o'] assms(3) by auto

end

interpretation sp: stock_port stock_ok reservedAt onHandAt heldBy
  "reserveOrderInventoryTx now" "releaseOrderInventoryReservationsTx now"
  "consumeOrderInventoryReservationsTx now"
  for now
proof unfold_locales
  fix d t oid n d' w i t' o'
  assume ok: "stock_ok d"
  show "releaseOrderInventoryReservationsTx now t oid d = (n, d') \<Longrightarrow> stock_ok d' \<and>
      reservedAt w i d' = reservedAt w i d - heldBy t oid w i d \<and> onHandAt w i d' = onHandAt w i d \<and>
      heldBy t' o' w i d' = (if t' = t \<and> o' = oid then 0 else heldBy t' o' w i d)"
    using order_pass [OF settles_release ok, of d' now t oid]
    by (auto simp: releaseOrderInventoryReservationsTx_def Let_def foldl_const)
  show "consumeOrderInventoryReservationsTx now t oid d = (n, d') \<Longrightarrow> stock_ok d' \<and>
      reservedAt w i d' = reservedAt w i d - heldBy t oid w i d \<and>
      (heldBy t oid w i d \<le> onHandAt w i d \<longrightarrow>
        onHandAt w i d' = onHandAt w i d - heldBy t oid w i d) \<and>
      heldBy t' o' w i d' = (if t' = t \<and> o' = oid then 0 else heldBy t' o' w i d)"
  proof -
    assume c: "consumeOrderInventoryReservationsTx now t oid d = (n, d')"
    then have d': "d' = fold (with_item (\<lambda>item r. consume_one now t
        (JObj [(''orderId'', JStr oid), (''reservationId'', JStr (sr_id r))]) item r))
        (order_reservations t oid d) d"
      by (simp add: consumeOrderInventoryReservationsTx_def Let_def)
    note P = order_pass [OF settles_consume ok d']
    have pos: "0 \<le> q" if "q \<in> set (map sr_quantity (filter (\<lambda>r. sr_warehouseId r = w \<and>
        sr_ingredientId r = i) (order_reservations t oid d)))" for q
      using that order_reservations_props(1) [OF ok] stock_okD(6) [OF ok] by auto
    have held: "sum_list (map sr_quantity (filter (\<lambda>r. sr_warehouseId r = w \<and>
        sr_ingredientId r = i) (order_reservations t oid d))) = heldBy t oid w i d"
      unfolding heldBy_def by (rule held_sum) (rule order_reservations_props(2) [OF ok])
    have "foldl taken (onHandAt w i d) (map sr_quantity (filter (\<lambda>r. sr_warehouseId r = w \<and>
        sr_ingredientId r = i) (order_reservations t oid d))) = onHandAt w i d - heldBy t oid w i d"
      if "heldBy t oid w i d \<le> onHandAt w i d"
      using that unfolding held [symmetric] by (intro foldl_taken pos)
    with P(1) P(2,3,5) [where w = w and i = i] show ?thesis by auto
  qed
qed (use reserveOrderInventoryTx_Inr in blast)+

end
