(* ===== verification/Inventory.thy ===== *)
theory Inventory
  imports StockLaws
begin

text \<open>
  The rest of the core of \<open>inventory/inventory.service.ts\<close>: warehouses, ingredients, items,
  recipes, receiving, adjustments, stop-list rules, availability of a product, the reservation
  plan of an order and the replenishment report. A field a request may leave out is an option;
  one that may also be null is an option of an option.
\<close>

section \<open>Transfer objects\<close>

definition jnum :: "rat \<Rightarrow> json" where
  "jnum q = JNum q"

definition mapWarehouse :: "Warehouse \<Rightarrow> json" where
  "mapWarehouse model = JObj
     [(''id'', JStr (wh_id model)), (''tenantId'', JStr (wh_tenantId model)),
      (''storeId'', jopt (wh_storeId model)), (''code'', JStr (wh_code model)),
      (''name'', JStr (wh_name model)), (''kind'', JStr (wh_kind model)),
      (''notes'', jopt (wh_notes model)), (''isActive'', JBool (wh_isActive model)),
      (''metadata'', asRecord (wh_metadata model)),
      (''createdAt'', jtime (wh_createdAt model)), (''updatedAt'', jtime (wh_updatedAt model))]"

definition mapIngredient :: "Ingredient \<Rightarrow> json" where
  "mapIngredient model = JObj
     [(''id'', JStr (ing_id model)), (''tenantId'', JStr (ing_tenantId model)),
      (''code'', JStr (ing_code model)), (''name'', JStr (ing_name model)),
      (''unit'', JStr (ing_unit model)), (''lowStockThreshold'', jnum (ing_lowStockThreshold model)),
      (''metadata'', asRecord (ing_metadata model)),
      (''createdAt'', jtime (ing_createdAt model)), (''updatedAt'', jtime (ing_updatedAt model))]"

definition mapItem :: "InventoryItem \<Rightarrow> json" where
  "mapItem model = JObj
     [(''id'', JStr (ii_id model)), (''tenantId'', JStr (ii_tenantId model)),
      (''warehouseId'', JStr (ii_warehouseId model)), (''ingredientId'', JStr (ii_ingredientId model)),
      (''sku'', jopt (ii_sku model)), (''onHand'', jnum (ii_onHand model)),
      (''reserved'', jnum (ii_reserved model)), (''reorderPoint'', jnum (ii_reorderPoint model)),
      (''available'', jnum (available model)), (''metadata'', asRecord (ii_metadata model)),
      (''createdAt'', jtime (ii_createdAt model)), (''updatedAt'', jtime (ii_updatedAt model))]"

definition mapBom :: "RecipeBom \<Rightarrow> json" where
  "mapBom model = JObj
     [(''id'', JStr (rb_id model)), (''tenantId'', JStr (rb_tenantId model)),
      (''productId'', JStr (rb_productId model)), (''variantId'', jopt (rb_variantId model)),
      (''ingredientId'', JStr (rb_ingredientId model)), (''quantity'', jnum (rb_quantity model)),
      (''metadata'', asRecord (rb_metadata model)),
      (''createdAt'', jtime (rb_createdAt model)), (''updatedAt'', jtime (rb_updatedAt model))]"

text \<open>\<open>Decimal.toString\<close> of a column with two decimals drops trailing zeros.\<close>

definition decimal_text :: "int \<Rightarrow> string" where
  "decimal_text c =
     (if c mod 100 = 0 then show_int (c div 100)
      else if c mod 10 = 0 then butlast (formatCents c) else formatCents c)"

definition mapReceivingLine :: "ReceivingLine \<Rightarrow> json" where
  "mapReceivingLine model = JObj
     [(''ingredientId'', JStr (rl_ingredientId model)), (''quantity'', jnum (rl_quantity model)),
      (''unitCost'', jopt (map_option decimal_text (rl_unitCost model))),
      (''metadata'', asRecord (rl_metadata model))]"

definition mapReceivingRecord :: "ReceivingRecord \<Rightarrow> json" where
  "mapReceivingRecord model = JObj
     [(''id'', JStr (rr_id model)), (''tenantId'', JStr (rr_tenantId model)),
      (''warehouseId'', JStr (rr_warehouseId model)), (''reference'', JStr (rr_reference model)),
      (''status'', JStr (rr_status model)), (''receivedBy'', jopt (rr_receivedBy model)),
      (''completedAt'', jdate (rr_completedAt model)), (''metadata'', asRecord (rr_metadata model)),
      (''lines'', JArr (map mapReceivingLine (rr_lines model))),
      (''createdAt'', jtime (rr_createdAt model)), (''updatedAt'', jtime (rr_updatedAt model))]"

definition mapAdjustment :: "InventoryAdjustment \<Rightarrow> json" where
  "mapAdjustment model = JObj
     [(''id'', JStr (ia_id model)), (''tenantId'', JStr (ia_tenantId model)),
      (''warehouseId'', JStr (ia_warehouseId model)), (''ingredientId'', JStr (ia_ingredientId model)),
      (''adjustmentType'', JStr (ia_adjustmentType model)), (''quantity'', jnum (ia_quantity model)),
      (''reason'', jopt (ia_reason model)), (''metadata'', asRecord (ia_metadata model)),
      (''createdAt'', jtime (ia_createdAt model))]"

definition mapLedger :: "StockLedgerEntry \<Rightarrow> json" where
  "mapLedger model = JObj
     [(''id'', JStr (sle_id model)), (''tenantId'', JStr (sle_tenantId model)),
      (''warehouseId'', JStr (sle_warehouseId model)), (''ingredientId'', JStr (sle_ingredientId model)),
      (''entryType'', JStr (sle_entryType model)), (''quantity'', jnum (sle_quantity model)),
      (''balanceAfter'', jnum (sle_balanceAfter model)), (''sourceType'', JStr (sle_sourceType model)),
      (''sourceId'', JStr (sle_sourceId model)), (''metadata'', asRecord (sle_metadata model)),
      (''createdAt'', jtime (sle_createdAt model))]"

definition mapStopRule :: "StopListRule \<Rightarrow> json" where
  "mapStopRule model = JObj
     [(''id'', JStr (slr_id model)), (''tenantId'', JStr (slr_tenantId model)),
      (''storeId'', jopt (slr_storeId model)), (''warehouseId'', jopt (slr_warehouseId model)),
      (''ingredientId'', jopt (slr_ingredientId model)), (''sku'', jopt (slr_sku model)),
      (''ruleType'', JStr (slr_ruleType model)), (''threshold'', jnum (slr_threshold model)),
      (''isActive'', JBool (slr_isActive model)), (''metadata'', asRecord (slr_metadata model)),
      (''createdAt'', jtime (slr_createdAt model)), (''updatedAt'', jtime (slr_updatedAt model))]"

section \<open>Lists\<close>

text \<open>\<open>tenantWhere\<close>: the empty tenant of an administrator restricts nothing.\<close>

definition inv_tenantWhere :: "uuid \<Rightarrow> uuid \<Rightarrow> bool" where
  "inv_tenantWhere tenantId t \<longleftrightarrow> tenantId = '''' \<or> t = tenantId"

definition list_rows ::
  "RequestContext \<Rightarrow> uuid option \<Rightarrow> ('r \<Rightarrow> uuid) \<Rightarrow> ('r \<Rightarrow> json) \<Rightarrow> 'r list \<Rightarrow> json list result" where
  "list_rows context tenantId tenant view rows =
     bnd (inv_resolveTenantId context tenantId) (\<lambda>t.
     Inr (map view (rev (filter (\<lambda>r. inv_tenantWhere t (tenant r)) rows))))"

definition listWarehouses :: "RequestContext \<Rightarrow> uuid option \<Rightarrow> db \<Rightarrow> json list result" where
  "listWarehouses context tenantId d =
     list_rows context tenantId wh_tenantId mapWarehouse (warehouses d)"

definition listIngredients :: "RequestContext \<Rightarrow> uuid option \<Rightarrow> db \<Rightarrow> json list result" where
  "listIngredients context tenantId d =
     list_rows context tenantId ing_tenantId mapIngredient (ingredients d)"

definition listItems :: "RequestContext \<Rightarrow> uuid option \<Rightarrow> db \<Rightarrow> json list result" where
  "listItems context tenantId d = list_rows context tenantId ii_tenantId mapItem (invItems d)"

definition listRecipeBoms :: "RequestContext \<Rightarrow> uuid option \<Rightarrow> db \<Rightarrow> json list result" where
  "listRecipeBoms context tenantId d = list_rows context tenantId rb_tenantId mapBom (recipeBoms d)"

definition listReservations :: "RequestContext \<Rightarrow> uuid option \<Rightarrow> db \<Rightarrow> json list result" where
  "listReservations context tenantId d =
     list_rows context tenantId sr_tenantId mapReservation (reservations d)"

definition listLedgerEntries :: "RequestContext \<Rightarrow> uuid option \<Rightarrow> db \<Rightarrow> json list result" where
  "listLedgerEntries context tenantId d =
     bnd (list_rows context tenantId sle_tenantId mapLedger (ledger d)) (\<lambda>rows. Inr (take 100 rows))"

definition listStopListRules :: "RequestContext \<Rightarrow> uuid option \<Rightarrow> db \<Rightarrow> json list result" where
  "listStopListRules context tenantId d =
     list_rows context tenantId slr_tenantId mapStopRule (stopRules d)"

section \<open>Warehouses\<close>

record CreateWarehouseDto =
  cw_tenantId :: "uuid option"
  cw_storeId :: "uuid option"
  cw_code :: string
  cw_name :: string
  cw_kind :: "string option"
  cw_notes :: "string option"
  cw_isActive :: "bool option"
  cw_metadata :: "json option"

record UpdateWarehouseDto =
  uw_storeId :: "uuid option option"
  uw_code :: "string option"
  uw_name :: "string option"
  uw_kind :: "string option"
  uw_notes :: "string option option"
  uw_isActive :: "bool option"
  uw_metadata :: "json option option"

text \<open>\<open>...(x !== undefined ? {...} : {})\<close>.\<close>

definition given :: "'v option \<Rightarrow> ('v \<Rightarrow> 'r \<Rightarrow> 'r) \<Rightarrow> 'r \<Rightarrow> 'r" where
  "given m f r = (case m of None \<Rightarrow> r | Some v \<Rightarrow> f v r)"

definition getWarehouseByIdTx :: "uuid \<Rightarrow> db \<Rightarrow> Warehouse result" where
  "getWarehouseByIdTx i d =
     orThrow (find (\<lambda>w. wh_id w = i) (warehouses d)) (NotFoundException ''Warehouse not found.'')"

text \<open>The unique constraint on the codes of a tenant, for a row with this id.\<close>

definition code_free :: "('r \<Rightarrow> uuid) \<Rightarrow> ('r \<Rightarrow> uuid \<times> string) \<Rightarrow> uuid \<Rightarrow> uuid \<times> string \<Rightarrow> 'r list \<Rightarrow> bool" where
  "code_free key ucode i c rows \<longleftrightarrow> (\<forall>r \<in> set rows. ucode r = c \<longrightarrow> key r = i)"

definition warehouse_code :: "Warehouse \<Rightarrow> uuid \<times> string" where
  "warehouse_code w = (wh_tenantId w, wh_code w)"

definition createWarehouse ::
  "RequestContext \<Rightarrow> instant \<Rightarrow> CreateWarehouseDto \<Rightarrow> db \<Rightarrow> (json \<times> db) result" where
  "createWarehouse context now dto d =
     bnd (inv_resolveTenantId context (cw_tenantId dto)) (\<lambda>tenantId.
     let warehouse = \<lparr>wh_id = nextId d, wh_tenantId = tenantId, wh_storeId = cw_storeId dto,
           wh_code = trim (cw_code dto), wh_name = trim (cw_name dto),
           wh_kind = nullish (cw_kind dto) ''GENERAL'', wh_notes = cw_notes dto,
           wh_isActive = nullish (cw_isActive dto) True,
           wh_metadata = nullish (cw_metadata dto) (JObj []),
           wh_createdAt = now, wh_updatedAt = now\<rparr> in
     bnd (ensure (code_free wh_id warehouse_code (wh_id warehouse) (warehouse_code warehouse) (warehouses d))
            (UniqueViolation ''Warehouse'')) (\<lambda>_.
     Inr (mapWarehouse warehouse, (bump d)\<lparr>warehouses := warehouses d @ [warehouse]\<rparr>)))"

definition updateWarehouse ::
  "RequestContext \<Rightarrow> instant \<Rightarrow> uuid \<Rightarrow> UpdateWarehouseDto \<Rightarrow> db \<Rightarrow> (json \<times> db) result" where
  "updateWarehouse context now i dto d =
     bnd (getWarehouseByIdTx i d) (\<lambda>current.
     bnd (inv_resolveTenantId context (Some (wh_tenantId current))) (\<lambda>_.
     let change = (\<lambda>w. (given (uw_storeId dto) (\<lambda>v r. r\<lparr>wh_storeId := v\<rparr>)
           (given (uw_code dto) (\<lambda>v r. r\<lparr>wh_code := trim v\<rparr>)
           (given (uw_name dto) (\<lambda>v r. r\<lparr>wh_name := trim v\<rparr>)
           (given (uw_kind dto) (\<lambda>v r. r\<lparr>wh_kind := trim v\<rparr>)
           (given (uw_notes dto) (\<lambda>v r. r\<lparr>wh_notes := v\<rparr>)
           (given (uw_isActive dto) (\<lambda>v r. r\<lparr>wh_isActive := v\<rparr>)
           (given (uw_metadata dto) (\<lambda>v r. r\<lparr>wh_metadata := nullish v (JObj [])\<rparr>) w)))))))
           \<lparr>wh_updatedAt := now\<rparr>) in
     bnd (ensure (code_free wh_id warehouse_code i (warehouse_code (change current)) (warehouses d))
            (UniqueViolation ''Warehouse'')) (\<lambda>_.
     Inr (mapWarehouse (change current),
          d\<lparr>warehouses := update_where (\<lambda>w. wh_id w = i) change (warehouses d)\<rparr>))))"

section \<open>Ingredients\<close>

record CreateIngredientDto =
  cg_tenantId :: "uuid option"
  cg_code :: string
  cg_name :: string
  cg_unit :: "string option"
  cg_lowStockThreshold :: "quantity option"
  cg_metadata :: "json option"

record UpdateIngredientDto =
  ug_code :: "string option"
  ug_name :: "string option"
  ug_unit :: "string option"
  ug_lowStockThreshold :: "quantity option"
  ug_metadata :: "json option option"

definition getIngredientByIdTx :: "uuid \<Rightarrow> db \<Rightarrow> Ingredient result" where
  "getIngredientByIdTx i d =
     orThrow (find (\<lambda>g. ing_id g = i) (ingredients d)) (NotFoundException ''Ingredient not found.'')"

definition ingredient_code :: "Ingredient \<Rightarrow> uuid \<times> string" where
  "ingredient_code g = (ing_tenantId g, ing_code g)"

definition createIngredient ::
  "RequestContext \<Rightarrow> instant \<Rightarrow> CreateIngredientDto \<Rightarrow> db \<Rightarrow> (json \<times> db) result" where
  "createIngredient context now dto d =
     bnd (inv_resolveTenantId context (cg_tenantId dto)) (\<lambda>tenantId.
     let ingredient = \<lparr>ing_id = nextId d, ing_tenantId = tenantId, ing_code = trim (cg_code dto),
           ing_name = trim (cg_name dto), ing_unit = nullish (cg_unit dto) ''UNIT'',
           ing_lowStockThreshold = nullish (cg_lowStockThreshold dto) 0,
           ing_metadata = nullish (cg_metadata dto) (JObj []),
           ing_createdAt = now, ing_updatedAt = now\<rparr> in
     bnd (ensure (code_free ing_id ingredient_code (ing_id ingredient) (ingredient_code ingredient)
                    (ingredients d))
            (UniqueViolation ''Ingredient'')) (\<lambda>_.
     Inr (mapIngredient ingredient, (bump d)\<lparr>ingredients := ingredients d @ [ingredient]\<rparr>)))"

definition updateIngredient ::
  "RequestContext \<Rightarrow> instant \<Rightarrow> uuid \<Rightarrow> UpdateIngredientDto \<Rightarrow> db \<Rightarrow> (json \<times> db) result" where
  "updateIngredient context now i dto d =
     bnd (getIngredientByIdTx i d) (\<lambda>current.
     bnd (inv_resolveTenantId context (Some (ing_tenantId current))) (\<lambda>_.
     let change = (\<lambda>g. (given (ug_code dto) (\<lambda>v r. r\<lparr>ing_code := trim v\<rparr>)
           (given (ug_name dto) (\<lambda>v r. r\<lparr>ing_name := trim v\<rparr>)
           (given (ug_unit dto) (\<lambda>v r. r\<lparr>ing_unit := trim v\<rparr>)
           (given (ug_lowStockThreshold dto) (\<lambda>v r. r\<lparr>ing_lowStockThreshold := v\<rparr>)
           (given (ug_metadata dto) (\<lambda>v r. r\<lparr>ing_metadata := nullish v (JObj [])\<rparr>) g)))))
           \<lparr>ing_updatedAt := now\<rparr>) in
     bnd (ensure (code_free ing_id ingredient_code i (ingredient_code (change current)) (ingredients d))
            (UniqueViolation ''Ingredient'')) (\<lambda>_.
     Inr (mapIngredient (change current),
          d\<lparr>ingredients := update_where (\<lambda>g. ing_id g = i) change (ingredients d)\<rparr>))))"

section \<open>Items and recipes\<close>

record CreateInventoryItemDto =
  cit_tenantId :: "uuid option"
  cit_warehouseId :: uuid
  cit_ingredientId :: uuid
  cit_sku :: "string option"
  cit_onHand :: "quantity option"
  cit_reserved :: "quantity option"
  cit_reorderPoint :: "quantity option"
  cit_metadata :: "json option"

record UpdateInventoryItemDto =
  uit_sku :: "string option option"
  uit_onHand :: "quantity option"
  uit_reserved :: "quantity option"
  uit_reorderPoint :: "quantity option"
  uit_metadata :: "json option option"

definition getItemByIdTx :: "uuid \<Rightarrow> db \<Rightarrow> InventoryItem result" where
  "getItemByIdTx i d =
     orThrow (find (\<lambda>x. ii_id x = i) (invItems d)) (NotFoundException ''Inventory item not found.'')"

definition createItem ::
  "RequestContext \<Rightarrow> instant \<Rightarrow> CreateInventoryItemDto \<Rightarrow> db \<Rightarrow> (json \<times> db) result" where
  "createItem context now dto d =
     bnd (inv_resolveTenantId context (cit_tenantId dto)) (\<lambda>tenantId.
     bnd (getWarehouseByIdTx (cit_warehouseId dto) d) (\<lambda>warehouse.
     bnd (ensure (wh_tenantId warehouse = tenantId) (BadRequestException ''Warehouse tenant mismatch.''))
       (\<lambda>_.
     let item = \<lparr>ii_id = nextId d, ii_tenantId = tenantId, ii_warehouseId = cit_warehouseId dto,
           ii_ingredientId = cit_ingredientId dto, ii_sku = cit_sku dto,
           ii_onHand = nullish (cit_onHand dto) 0, ii_reserved = nullish (cit_reserved dto) 0,
           ii_reorderPoint = nullish (cit_reorderPoint dto) 0,
           ii_metadata = nullish (cit_metadata dto) (JObj []),
           ii_createdAt = now, ii_updatedAt = now\<rparr> in
     bnd (inventoryItem_create item (bump d)) (\<lambda>d'. Inr (mapItem item, d')))))"

definition updateItem_inv ::
  "RequestContext \<Rightarrow> instant \<Rightarrow> uuid \<Rightarrow> UpdateInventoryItemDto \<Rightarrow> db \<Rightarrow> (json \<times> db) result" where
  "updateItem_inv context now i dto d =
     bnd (getItemByIdTx i d) (\<lambda>current.
     bnd (inv_resolveTenantId context (Some (ii_tenantId current))) (\<lambda>_.
     let change = (\<lambda>x. given (uit_sku dto) (\<lambda>v r. r\<lparr>ii_sku := v\<rparr>)
           (given (uit_onHand dto) (\<lambda>v r. r\<lparr>ii_onHand := v\<rparr>)
           (given (uit_reserved dto) (\<lambda>v r. r\<lparr>ii_reserved := v\<rparr>)
           (given (uit_reorderPoint dto) (\<lambda>v r. r\<lparr>ii_reorderPoint := v\<rparr>)
           (given (uit_metadata dto) (\<lambda>v r. r\<lparr>ii_metadata := nullish v (JObj [])\<rparr>) x))))) in
     Inr (mapItem ((change current)\<lparr>ii_updatedAt := now\<rparr>), inventoryItem_update now i change d)))"

record CreateRecipeBomDto =
  cb_tenantId :: "uuid option"
  cb_productId :: uuid
  cb_variantId :: "uuid option"
  cb_ingredientId :: uuid
  cb_quantity :: quantity
  cb_metadata :: "json option"

text \<open>The unique constraint compares a null variant with nothing.\<close>

definition createRecipeBom ::
  "RequestContext \<Rightarrow> instant \<Rightarrow> CreateRecipeBomDto \<Rightarrow> db \<Rightarrow> (json \<times> db) result" where
  "createRecipeBom context now dto d =
     bnd (inv_resolveTenantId context (cb_tenantId dto)) (\<lambda>tenantId.
     let bom = \<lparr>rb_id = nextId d, rb_tenantId = tenantId, rb_productId = cb_productId dto,
           rb_variantId = cb_variantId dto, rb_ingredientId = cb_ingredientId dto,
           rb_quantity = cb_quantity dto, rb_metadata = nullish (cb_metadata dto) (JObj []),
           rb_createdAt = now, rb_updatedAt = now\<rparr> in
     bnd (ensure (\<not> (\<exists>b \<in> set (recipeBoms d). rb_variantId bom \<noteq> None \<and>
              rb_productId b = rb_productId bom \<and> rb_variantId b = rb_variantId bom \<and>
              rb_ingredientId b = rb_ingredientId bom))
            (UniqueViolation ''RecipeBom'')) (\<lambda>_.
     Inr (mapBom bom, (bump d)\<lparr>recipeBoms := recipeBoms d @ [bom]\<rparr>)))"

section \<open>Receiving\<close>

record CreateReceivingLineDto =
  crl_ingredientId :: uuid
  crl_quantity :: quantity
  crl_unitCost :: "int option"
  crl_metadata :: "json option"

record CreateReceivingDto =
  crr_tenantId :: "uuid option"
  crr_warehouseId :: uuid
  crr_reference :: string
  crr_receivedBy :: "string option"
  crr_lines :: "CreateReceivingLineDto list option"
  crr_metadata :: "json option"

definition getReceivingRecordTx :: "uuid \<Rightarrow> db \<Rightarrow> ReceivingRecord result" where
  "getReceivingRecordTx i d =
     orThrow (find (\<lambda>r. rr_id r = i) (receivings d)) (NotFoundException ''Receiving record not found.'')"

definition receiving_update :: "instant \<Rightarrow> uuid \<Rightarrow> (ReceivingRecord \<Rightarrow> ReceivingRecord) \<Rightarrow> db \<Rightarrow> db" where
  "receiving_update now i f d =
     d\<lparr>receivings := update_where (\<lambda>r. rr_id r = i) (\<lambda>r. (f r)\<lparr>rr_updatedAt := now\<rparr>) (receivings d)\<rparr>"

definition receivingLine_create :: "uuid \<Rightarrow> CreateReceivingLineDto \<Rightarrow> db \<Rightarrow> db" where
  "receivingLine_create recordId line d =
     bump (d\<lparr>receivings := update_where (\<lambda>r. rr_id r = recordId)
       (\<lambda>r. r\<lparr>rr_lines := rr_lines r @
          [\<lparr>rl_id = nextId d, rl_ingredientId = crl_ingredientId line, rl_quantity = crl_quantity line,
            rl_unitCost = crl_unitCost line,
            rl_metadata = nullish (crl_metadata line) (JObj [])\<rparr>]\<rparr>) (receivings d)\<rparr>)"

definition createReceivingRecord ::
  "RequestContext \<Rightarrow> instant \<Rightarrow> CreateReceivingDto \<Rightarrow> db \<Rightarrow> (json \<times> db) result" where
  "createReceivingRecord context now dto d =
     bnd (inv_resolveTenantId context (crr_tenantId dto)) (\<lambda>tenantId.
     let receiving = \<lparr>rr_id = nextId d, rr_tenantId = tenantId, rr_warehouseId = crr_warehouseId dto,
           rr_reference = trim (crr_reference dto), rr_status = ''OPEN'',
           rr_receivedBy = crr_receivedBy dto, rr_completedAt = None,
           rr_metadata = nullish (crr_metadata dto) (JObj []),
           rr_createdAt = now, rr_updatedAt = now, rr_lines = []\<rparr>;
         d1 = (bump d)\<lparr>receivings := receivings d @ [receiving]\<rparr>;
         d2 = fold (receivingLine_create (rr_id receiving)) (nullish (crr_lines dto) []) d1 in
     bnd (getReceivingRecordTx (rr_id receiving) d2) (\<lambda>r. Inr (mapReceivingRecord r, d2)))"

definition receive_line ::
  "instant \<Rightarrow> ReceivingRecord \<Rightarrow> string option \<Rightarrow> ReceivingLine \<Rightarrow> db \<Rightarrow> db result" where
  "receive_line now receiving receivedBy line d =
     applyStockDeltaTx now
       \<lparr>sd_tenantId = rr_tenantId receiving, sd_warehouseId = rr_warehouseId receiving,
        sd_ingredientId = rl_ingredientId line, sd_delta = rl_quantity line,
        sd_entryType = ''RECEIVING'', sd_sourceType = ''receiving'', sd_sourceId = rr_id receiving,
        sd_metadata = JObj [(''receivingRecordId'', JStr (rr_id receiving)),
                            (''receivedBy'', jopt receivedBy)]\<rparr> d"

definition completeReceivingRecordTx ::
  "instant \<Rightarrow> uuid \<Rightarrow> string option \<Rightarrow> db \<Rightarrow> (ReceivingRecord \<times> db) result" where
  "completeReceivingRecordTx now i receivedByOverride d =
     bnd (getReceivingRecordTx i d) (\<lambda>receiving.
     if rr_status receiving = ''COMPLETED'' then Inr (receiving, d)
     else
       let receivedBy = orElse receivedByOverride (rr_receivedBy receiving) in
       bnd (foldE (receive_line now receiving receivedBy) (rr_lines receiving) d) (\<lambda>d1.
       let d2 = receiving_update now i (\<lambda>r. r\<lparr>rr_status := ''COMPLETED'', rr_receivedBy := receivedBy,
                  rr_completedAt := Some now\<rparr>) d1 in
       bnd (getReceivingRecordTx i d2) (\<lambda>r. Inr (r, d2))))"

definition completeReceivingRecord ::
  "RequestContext \<Rightarrow> instant \<Rightarrow> uuid \<Rightarrow> string option \<Rightarrow> db \<Rightarrow> (json \<times> db) result" where
  "completeReceivingRecord context now i receivedBy d =
     bnd (getReceivingRecordTx i d) (\<lambda>receiving.
     bnd (inv_resolveTenantId context (Some (rr_tenantId receiving))) (\<lambda>_.
     bnd (completeReceivingRecordTx now i receivedBy d) (\<lambda>(r, d').
     Inr (mapReceivingRecord r, d'))))"

section \<open>Adjustments\<close>

record CreateInventoryAdjustmentDto =
  ca_tenantId :: "uuid option"
  ca_warehouseId :: uuid
  ca_ingredientId :: uuid
  ca_adjustmentType :: string
  ca_quantity :: quantity
  ca_reason :: "string option"
  ca_metadata :: "json option"

definition adjustment_delta :: "string \<Rightarrow> quantity \<Rightarrow> quantity \<Rightarrow> quantity" where
  "adjustment_delta adjustmentType q onHand =
     (if adjustmentType = ''SET'' then q - onHand
      else if adjustmentType = ''REMOVE'' then - \<bar>q\<bar> else \<bar>q\<bar>)"

definition createAdjustment ::
  "RequestContext \<Rightarrow> instant \<Rightarrow> CreateInventoryAdjustmentDto \<Rightarrow> db \<Rightarrow> (json \<times> db) result" where
  "createAdjustment context now dto d =
     bnd (inv_resolveTenantId context (ca_tenantId dto)) (\<lambda>tenantId.
     bnd (getOrCreateItemTx now tenantId (ca_warehouseId dto) (ca_ingredientId dto) d) (\<lambda>(current, d1).
     let delta = adjustment_delta (ca_adjustmentType dto) (ca_quantity dto) (ii_onHand current) in
     bnd (applyStockDeltaTx now
            \<lparr>sd_tenantId = tenantId, sd_warehouseId = ca_warehouseId dto,
             sd_ingredientId = ca_ingredientId dto, sd_delta = delta, sd_entryType = ''ADJUSTMENT'',
             sd_sourceType = ''manual_adjustment'', sd_sourceId = nextId d1,
             sd_metadata = JObj [(''adjustmentType'', JStr (ca_adjustmentType dto)),
                                 (''reason'', jopt (ca_reason dto)),
                                 (''payload'', nullish (ca_metadata dto) (JObj []))]\<rparr> (bump d1)) (\<lambda>d2.
     let adjustment = \<lparr>ia_id = nextId d2, ia_tenantId = tenantId,
           ia_warehouseId = ca_warehouseId dto, ia_ingredientId = ca_ingredientId dto,
           ia_adjustmentType = ca_adjustmentType dto, ia_quantity = ca_quantity dto,
           ia_reason = ca_reason dto, ia_metadata = nullish (ca_metadata dto) (JObj []),
           ia_createdAt = now\<rparr> in
     Inr (mapAdjustment adjustment, (bump d2)\<lparr>adjustments := adjustments d2 @ [adjustment]\<rparr>))))"

section \<open>Stop-list rules\<close>

record CreateStopListRuleDto =
  cs_tenantId :: "uuid option"
  cs_storeId :: "uuid option"
  cs_warehouseId :: "uuid option"
  cs_ingredientId :: "uuid option"
  cs_sku :: "string option"
  cs_ruleType :: string
  cs_threshold :: "quantity option"
  cs_isActive :: "bool option"
  cs_metadata :: "json option"

record UpdateStopListRuleDto =
  us_sku :: "string option option"
  us_ruleType :: "string option"
  us_threshold :: "quantity option"
  us_isActive :: "bool option"
  us_metadata :: "json option option"

definition getStopRuleTx :: "uuid \<Rightarrow> db \<Rightarrow> StopListRule result" where
  "getStopRuleTx i d =
     orThrow (find (\<lambda>r. slr_id r = i) (stopRules d)) (NotFoundException ''Stop-list rule not found.'')"

definition createStopListRule ::
  "RequestContext \<Rightarrow> instant \<Rightarrow> CreateStopListRuleDto \<Rightarrow> db \<Rightarrow> (json \<times> db) result" where
  "createStopListRule context now dto d =
     bnd (inv_resolveTenantId context (cs_tenantId dto)) (\<lambda>tenantId.
     let rule = \<lparr>slr_id = nextId d, slr_tenantId = tenantId, slr_storeId = cs_storeId dto,
           slr_warehouseId = cs_warehouseId dto, slr_ingredientId = cs_ingredientId dto,
           slr_sku = cs_sku dto, slr_ruleType = cs_ruleType dto,
           slr_threshold = nullish (cs_threshold dto) 0, slr_isActive = nullish (cs_isActive dto) True,
           slr_metadata = nullish (cs_metadata dto) (JObj []),
           slr_createdAt = now, slr_updatedAt = now\<rparr> in
     Inr (mapStopRule rule, (bump d)\<lparr>stopRules := stopRules d @ [rule]\<rparr>))"

definition updateStopListRule ::
  "RequestContext \<Rightarrow> instant \<Rightarrow> uuid \<Rightarrow> UpdateStopListRuleDto \<Rightarrow> db \<Rightarrow> (json \<times> db) result" where
  "updateStopListRule context now i dto d =
     bnd (getStopRuleTx i d) (\<lambda>current.
     bnd (inv_resolveTenantId context (Some (slr_tenantId current))) (\<lambda>_.
     let change = (\<lambda>x. (given (us_sku dto) (\<lambda>v r. r\<lparr>slr_sku := v\<rparr>)
           (given (us_ruleType dto) (\<lambda>v r. r\<lparr>slr_ruleType := v\<rparr>)
           (given (us_threshold dto) (\<lambda>v r. r\<lparr>slr_threshold := v\<rparr>)
           (given (us_isActive dto) (\<lambda>v r. r\<lparr>slr_isActive := v\<rparr>)
           (given (us_metadata dto) (\<lambda>v r. r\<lparr>slr_metadata := nullish v (JObj [])\<rparr>) x)))))
           \<lparr>slr_updatedAt := now\<rparr>) in
     Inr (mapStopRule (change current),
          d\<lparr>stopRules := update_where (\<lambda>r. slr_id r = i) change (stopRules d)\<rparr>)))"

end
