(* ===== verification/Planning.thy ===== *)
theory Planning
  imports Inventory
begin

text \<open>
  Stock against recipes: the reservation plan of an order, the availability of a product and the
  replenishment report of \<open>inventory/inventory.service.ts\<close>, all reads.
\<close>

section \<open>Totals by ingredient\<close>

text \<open>A \<open>Map\<close> from ingredient to quantity, in insertion order.\<close>

fun add_total :: "uuid \<Rightarrow> quantity \<Rightarrow> (uuid \<times> quantity) list \<Rightarrow> (uuid \<times> quantity) list" where
  "add_total k q [] = [(k, q)]"
| "add_total k q ((k', q') # m) =
     (if k' = k then (k', q' + q) # m else (k', q') # add_total k q m)"

definition total_of :: "uuid \<Rightarrow> (uuid \<times> quantity) list \<Rightarrow> quantity" where
  "total_of k m = (\<Sum>(k', q)\<leftarrow>m. if k' = k then q else 0)"

lemma total_of_simps [simp]:
  "total_of k [] = 0" "total_of k ((k', q) # m) = (if k' = k then q else 0) + total_of k m"
  by (simp_all add: total_of_def)

lemma total_of_add [simp]: "total_of k (add_total k' q m) = total_of k m + (if k' = k then q else 0)"
  by (induction k' q m rule: add_total.induct) auto

lemma add_total_keys: "fst ` set (add_total k q m) = insert k (fst ` set m)"
  by (induction k q m rule: add_total.induct) auto

lemma add_total_distinct: "distinct (map fst m) \<Longrightarrow> distinct (map fst (add_total k q m))"
proof (induction k q m rule: add_total.induct)
  case (2 k q k' q' m)
  have "k' \<noteq> k \<Longrightarrow> k' \<in> set (map fst (add_total k q m)) \<longleftrightarrow> k' \<in> set (map fst m)"
    using add_total_keys [of k q m] by (auto simp: image_iff)
  with 2 show ?case by auto
qed simp

lemma add_total_positive:
  "\<forall>x \<in> set m. 0 < snd x \<Longrightarrow> 0 < q \<Longrightarrow> \<forall>x \<in> set (add_total k q m). 0 < snd x"
  by (induction k q m rule: add_total.induct) (auto simp: add_pos_pos)

lemma total_of_distinct: "distinct (map fst m) \<Longrightarrow> (k, q) \<in> set m \<Longrightarrow> total_of k m = q"
proof (induction m)
  case (Cons a m)
  have "k \<notin> fst ` set m \<Longrightarrow> total_of k m = 0"
    by (induction m) auto
  with Cons show ?case by (cases a) (auto simp: image_iff)
qed simp

section \<open>The reservation plan\<close>

record PlanItem =
  pit_productId :: uuid
  pit_variantId :: "uuid option"
  pit_quantity :: int

text \<open>The warehouse an order takes from: active, of the store or of no store, the store's first.\<close>

definition plan_warehouse :: "uuid \<Rightarrow> uuid \<Rightarrow> db \<Rightarrow> Warehouse option" where
  "plan_warehouse tenantId storeId d =
     (let ws = filter (\<lambda>w. wh_tenantId w = tenantId \<and> wh_isActive w \<and>
                 (wh_storeId w = Some storeId \<or> wh_storeId w = None)) (warehouses d)
      in case sort_key (\<lambda>w. if wh_storeId w = Some storeId then 0 else (1::nat)) ws of
           [] \<Rightarrow> None | w # _ \<Rightarrow> Some w)"

definition plan_rows :: "uuid \<Rightarrow> PlanItem \<Rightarrow> db \<Rightarrow> RecipeBom list" where
  "plan_rows tenantId item d =
     (let bomRows = filter (\<lambda>b. rb_tenantId b = tenantId \<and> rb_productId b = pit_productId item)
            (recipeBoms d);
          variantRows = (if truthy (pit_variantId item)
            then filter (\<lambda>b. rb_variantId b = pit_variantId item) bomRows else []);
          fallbackRows = filter (\<lambda>b. rb_variantId b = None) bomRows
      in if length variantRows > 0 then variantRows else fallbackRows)"

definition add_required :: "int \<Rightarrow> RecipeBom \<Rightarrow> (uuid \<times> quantity) list \<Rightarrow> (uuid \<times> quantity) list" where
  "add_required n row m =
     (let requiredQuantity = rb_quantity row * of_int n
      in if requiredQuantity \<le> 0 then m else add_total (rb_ingredientId row) requiredQuantity m)"

definition ingredientTotals :: "uuid \<Rightarrow> PlanItem list \<Rightarrow> db \<Rightarrow> (uuid \<times> quantity) list" where
  "ingredientTotals tenantId items d =
     fold (\<lambda>item. fold (add_required (pit_quantity item)) (plan_rows tenantId item d)) items []"

definition rule_applies :: "StopListRule \<Rightarrow> uuid \<Rightarrow> uuid \<Rightarrow> uuid \<Rightarrow> bool" where
  "rule_applies rule storeId warehouseId ingredientId \<longleftrightarrow>
     (slr_storeId rule = None \<or> slr_storeId rule = Some storeId) \<and>
     (slr_warehouseId rule = None \<or> slr_warehouseId rule = Some warehouseId) \<and>
     (slr_ingredientId rule = None \<or> slr_ingredientId rule = Some ingredientId)"

definition stopThreshold :: "StopListRule list \<Rightarrow> uuid \<Rightarrow> uuid \<Rightarrow> uuid \<Rightarrow> quantity" where
  "stopThreshold rules storeId warehouseId ingredientId =
     foldl (\<lambda>highest rule. if \<not> rule_applies rule storeId warehouseId ingredientId then highest
        else max highest (slr_threshold rule)) 0 rules"

definition available_at :: "uuid \<Rightarrow> uuid \<Rightarrow> db \<Rightarrow> quantity" where
  "available_at warehouseId ingredientId d =
     (case getItemByWarehouseIngredientTx warehouseId ingredientId d of
        None \<Rightarrow> 0 | Some item \<Rightarrow> ii_onHand item - ii_reserved item)"

definition plan_entry ::
  "uuid \<Rightarrow> Warehouse \<Rightarrow> StopListRule list \<Rightarrow> db \<Rightarrow> uuid \<times> quantity \<Rightarrow>
   InventoryReservationPlanEntry result" where
  "plan_entry storeId warehouse rules d = (\<lambda>(ingredientId, quantity).
     let avail = available_at (wh_id warehouse) ingredientId d in
     bnd (ensure (\<not> (avail < quantity \<or>
            avail \<le> stopThreshold rules storeId (wh_id warehouse) ingredientId))
          (BadRequestException ''Order cannot be placed because stock is unavailable.'')) (\<lambda>_.
     Inr \<lparr>rpe_warehouseId = wh_id warehouse, rpe_ingredientId = ingredientId,
          rpe_quantity = quantity\<rparr>))"

definition low_stock_rules :: "uuid \<Rightarrow> db \<Rightarrow> StopListRule list" where
  "low_stock_rules tenantId d =
     filter (\<lambda>r. slr_tenantId r = tenantId \<and> slr_isActive r \<and> slr_ruleType r = ''LOW_STOCK'')
       (stopRules d)"

definition buildReservationPlanTx ::
  "uuid \<Rightarrow> uuid \<Rightarrow> PlanItem list \<Rightarrow> db \<Rightarrow> InventoryReservationPlanEntry list result" where
  "buildReservationPlanTx tenantId storeId items d =
     (if items = [] then Inr []
      else case plan_warehouse tenantId storeId d of
             None \<Rightarrow> Inr []
           | Some warehouse \<Rightarrow>
               mapE (plan_entry storeId warehouse (low_stock_rules tenantId d) d)
                 (ingredientTotals tenantId items d))"

text \<open>The quantity of an ingredient the items of an order need, by their recipes.\<close>

definition required_for :: "uuid \<Rightarrow> PlanItem list \<Rightarrow> db \<Rightarrow> uuid \<Rightarrow> quantity" where
  "required_for tenantId items d i =
     (\<Sum>item\<leftarrow>items. \<Sum>row\<leftarrow>plan_rows tenantId item d.
        if rb_ingredientId row = i then max 0 (rb_quantity row * of_int (pit_quantity item)) else 0)"

lemma total_of_required:
  "total_of i (fold (add_required n) rows m) = total_of i m +
     (\<Sum>row\<leftarrow>rows. if rb_ingredientId row = i then max 0 (rb_quantity row * of_int n) else 0)"
  by (induction rows arbitrary: m) (auto simp: add_required_def Let_def max_def)

lemma ingredientTotals_required:
  "total_of i (ingredientTotals tenantId items d) = required_for tenantId items d i"
proof -
  have "total_of i (fold (\<lambda>item. fold (add_required (pit_quantity item)) (plan_rows tenantId item d)) items m)
      = total_of i m + required_for tenantId items d i" for m
    by (induction items arbitrary: m) (simp_all add: required_for_def total_of_required add.assoc)
  then show ?thesis by (simp add: ingredientTotals_def)
qed

lemma fold_preserves: "(\<And>x s. Q s \<Longrightarrow> Q (f x s)) \<Longrightarrow> Q s \<Longrightarrow> Q (fold f xs s)"
  by (induction xs arbitrary: s) auto

lemma add_required_wf:
  assumes "distinct (map fst m) \<and> (\<forall>x \<in> set m. 0 < snd x)"
  shows "distinct (map fst (add_required n row m)) \<and> (\<forall>x \<in> set (add_required n row m). 0 < snd x)"
proof (cases "rb_quantity row * of_int n \<le> 0")
  case True
  with assms show ?thesis by (simp add: add_required_def)
next
  case False
  then have "0 < rb_quantity row * of_int n" by simp
  with assms add_total_positive [of m _ "rb_ingredientId row"] add_total_distinct [of m] False
  show ?thesis by (simp add: add_required_def)
qed

lemma ingredientTotals_wf:
  "distinct (map fst (ingredientTotals tenantId items d)) \<and>
   (\<forall>x \<in> set (ingredientTotals tenantId items d). 0 < snd x)"
  unfolding ingredientTotals_def
  by (intro fold_preserves [where Q = "\<lambda>m. distinct (map fst m) \<and> (\<forall>x \<in> set m. 0 < snd x)"]
      add_required_wf) simp_all

lemma stopThreshold_nonneg: "0 \<le> stopThreshold rules storeId w i"
proof -
  have "0 \<le> h \<Longrightarrow> 0 \<le> foldl (\<lambda>highest rule. if \<not> rule_applies rule storeId w i then highest
        else max highest (slr_threshold rule)) h rules" for h
    by (induction rules arbitrary: h) auto
  then show ?thesis by (simp add: stopThreshold_def)
qed

lemma stopThreshold_ge:
  "r \<in> set rules \<Longrightarrow> rule_applies r storeId w i \<Longrightarrow> slr_threshold r \<le> stopThreshold rules storeId w i"
proof -
  have mono: "h \<le> foldl (\<lambda>highest rule. if \<not> rule_applies rule storeId w i then highest
        else max highest (slr_threshold rule)) h rules" for h rules
    by (induction rules arbitrary: h) (auto intro: order_trans [OF max.cobounded1])
  have "r \<in> set rules \<Longrightarrow> rule_applies r storeId w i \<Longrightarrow> slr_threshold r \<le>
      foldl (\<lambda>highest rule. if \<not> rule_applies rule storeId w i then highest
        else max highest (slr_threshold rule)) h rules" for h
    by (induction rules arbitrary: h) (auto intro: order_trans [OF max.cobounded2 mono])
  then show "r \<in> set rules \<Longrightarrow> rule_applies r storeId w i \<Longrightarrow>
      slr_threshold r \<le> stopThreshold rules storeId w i"
    by (simp add: stopThreshold_def)
qed

lemma first_in_set: "(case xs of [] \<Rightarrow> None | x # _ \<Rightarrow> Some x) = Some y \<Longrightarrow> y \<in> set xs"
  by (cases xs) simp_all

lemma plan_warehouse_Some:
  assumes "plan_warehouse tenantId storeId d = Some w"
  shows "w \<in> set (warehouses d)" "wh_tenantId w = tenantId" "wh_isActive w"
    "wh_storeId w = Some storeId \<or> wh_storeId w = None"
proof -
  let ?ws = "filter (\<lambda>w. wh_tenantId w = tenantId \<and> wh_isActive w \<and>
      (wh_storeId w = Some storeId \<or> wh_storeId w = None)) (warehouses d)"
  have "w \<in> set ?ws"
    using first_in_set [OF assms [unfolded plan_warehouse_def Let_def]] by (simp only: set_sort)
  then show "w \<in> set (warehouses d)" "wh_tenantId w = tenantId" "wh_isActive w"
    "wh_storeId w = Some storeId \<or> wh_storeId w = None" by auto
qed

text \<open>A plan that was built covers exactly what the recipes need, from one warehouse.\<close>

lemma mapE_Inr_map: "mapE f xs = Inr ys \<longleftrightarrow> map f xs = map Inr ys"
  by (induction xs arbitrary: ys) (auto simp: Cons_eq_map_conv)

lemma mapE_entries:
  assumes "mapE (plan_entry storeId w rules d) ts = Inr plan"
  shows "plan = map (\<lambda>(i, q). \<lparr>rpe_warehouseId = wh_id w, rpe_ingredientId = i, rpe_quantity = q\<rparr>) ts"
    and "(i, q) \<in> set ts \<Longrightarrow> q \<le> available_at (wh_id w) i d \<and>
      stopThreshold rules storeId (wh_id w) i < available_at (wh_id w) i d"
  using assms
proof (induction ts arbitrary: plan)
  case (Cons t ts)
  { case 1 with Cons.IH(1) show ?case by (cases t) (auto simp: plan_entry_def Let_def) }
  { case 2 with Cons.IH(2) show ?case by (cases t) (auto simp: plan_entry_def Let_def not_less not_le) }
qed simp_all

lemma planned_entries:
  "planned w' i (map (\<lambda>(i, q). \<lparr>rpe_warehouseId = w, rpe_ingredientId = i, rpe_quantity = q\<rparr>) ts) =
     (if w' = w then total_of i ts else 0)"
  by (induction ts) (auto simp: planned_def)

lemma buildReservationPlanTx_Inr:
  assumes plan: "buildReservationPlanTx tenantId storeId items d = Inr plan"
    and w: "plan_warehouse tenantId storeId d = Some w"
  shows "planned (wh_id w) i plan = required_for tenantId items d i"
    and "e \<in> set plan \<Longrightarrow> rpe_warehouseId e = wh_id w \<and> 0 < rpe_quantity e \<and>
      rpe_quantity e = required_for tenantId items d (rpe_ingredientId e) \<and>
      rpe_quantity e \<le> available_at (wh_id w) (rpe_ingredientId e) d \<and>
      stopThreshold (low_stock_rules tenantId d) storeId (wh_id w) (rpe_ingredientId e)
        < available_at (wh_id w) (rpe_ingredientId e) d"
    and "distinct (map rpe_ingredientId plan)"
proof -
  let ?ts = "ingredientTotals tenantId items d"
  have none: "items = [] \<Longrightarrow> ?ts = [] \<and> plan = []"
    using plan by (simp add: buildReservationPlanTx_def ingredientTotals_def)
  have m: "mapE (plan_entry storeId w (low_stock_rules tenantId d) d) ?ts = Inr plan"
    using plan w none by (cases "items = []") (simp_all add: buildReservationPlanTx_def)
  note P = mapE_entries(1) [OF m] and A = mapE_entries(2) [OF m]
  show "planned (wh_id w) i plan = required_for tenantId items d i"
    unfolding P by (simp add: planned_entries ingredientTotals_required)
  show "e \<in> set plan \<Longrightarrow> rpe_warehouseId e = wh_id w \<and> 0 < rpe_quantity e \<and>
      rpe_quantity e = required_for tenantId items d (rpe_ingredientId e) \<and>
      rpe_quantity e \<le> available_at (wh_id w) (rpe_ingredientId e) d \<and>
      stopThreshold (low_stock_rules tenantId d) storeId (wh_id w) (rpe_ingredientId e)
        < available_at (wh_id w) (rpe_ingredientId e) d"
    using A ingredientTotals_wf [of tenantId items d] total_of_distinct [of ?ts]
    unfolding P by (auto simp: ingredientTotals_required)
  show "distinct (map rpe_ingredientId plan)"
    using ingredientTotals_wf [of tenantId items d] unfolding P by (simp add: o_def case_prod_unfold)
qed

lemma buildReservationPlanTx_nonneg:
  assumes "buildReservationPlanTx tenantId storeId items d = Inr plan" and "e \<in> set plan"
  shows "0 < rpe_quantity e"
proof (cases "plan_warehouse tenantId storeId d")
  case None
  with assms show ?thesis by (simp add: buildReservationPlanTx_def split: if_splits)
next
  case (Some w)
  then show ?thesis using buildReservationPlanTx_Inr(2) [OF assms(1) Some assms(2)] by simp
qed

section \<open>Availability of a product\<close>

text \<open>The numbers of JavaScript that a division can produce.\<close>

datatype js_num = Fin rat | PosInf | NegInf | NaN

definition js_div :: "rat \<Rightarrow> rat \<Rightarrow> js_num" where
  "js_div a b = (if b \<noteq> 0 then Fin (a / b) else if 0 < a then PosInf else if a < 0 then NegInf else NaN)"

definition js_floor :: "js_num \<Rightarrow> js_num" where
  "js_floor x = (case x of Fin q \<Rightarrow> Fin (of_int \<lfloor>q\<rfloor>) | y \<Rightarrow> y)"

definition js_min :: "js_num \<Rightarrow> js_num \<Rightarrow> js_num" where
  "js_min x y = (if x = NaN \<or> y = NaN then NaN
     else if x = NegInf \<or> y = NegInf then NegInf
     else case (x, y) of (PosInf, z) \<Rightarrow> z | (z, PosInf) \<Rightarrow> z | (Fin a, Fin b) \<Rightarrow> Fin (min a b) | _ \<Rightarrow> NaN)"

record IngredientBreakdown =
  ib_ingredientId :: uuid
  ib_ingredientCode :: string
  ib_requiredQuantity :: quantity
  ib_onHand :: quantity
  ib_reserved :: quantity
  ib_available :: quantity

record InventoryAvailability =
  ia_productId :: uuid
  ia_variantId :: "uuid option"
  ia_warehouse :: uuid
  ia_breakdown :: "IngredientBreakdown list"
  ia_availableUnits :: rat

definition breakdown_of :: "uuid \<Rightarrow> db \<Rightarrow> uuid \<times> quantity \<Rightarrow> IngredientBreakdown" where
  "breakdown_of warehouseId d = (\<lambda>(ingredientId, quantity).
     let item = getItemByWarehouseIngredientTx warehouseId ingredientId d;
         onHand = (case item of None \<Rightarrow> 0 | Some x \<Rightarrow> ii_onHand x);
         reserved = (case item of None \<Rightarrow> 0 | Some x \<Rightarrow> ii_reserved x)
     in \<lparr>ib_ingredientId = ingredientId,
         ib_ingredientCode = (case find (\<lambda>g. ing_id g = ingredientId) (ingredients d) of
            None \<Rightarrow> ingredientId | Some g \<Rightarrow> ing_code g),
         ib_requiredQuantity = quantity, ib_onHand = onHand, ib_reserved = reserved,
         ib_available = onHand - reserved\<rparr>)"

definition availability_rows :: "uuid \<Rightarrow> uuid \<Rightarrow> uuid option \<Rightarrow> db \<Rightarrow> RecipeBom list" where
  "availability_rows tenantId productId variantId d =
     (let allRows = rev (filter (\<lambda>b. inv_tenantWhere tenantId (rb_tenantId b) \<and> rb_productId b = productId)
            (recipeBoms d));
          fallbackRows = (if truthy variantId then filter (\<lambda>b. rb_variantId b = variantId) allRows
            else filter (\<lambda>b. rb_variantId b = None) allRows)
      in if length fallbackRows > 0 then fallbackRows
         else filter (\<lambda>b. rb_variantId b = None) allRows)"

definition available_units :: "IngredientBreakdown list \<Rightarrow> rat" where
  "available_units breakdown =
     (case foldl (\<lambda>n e. js_min n (js_floor (js_div (ib_available e) (ib_requiredQuantity e))))
             (if breakdown \<noteq> [] then PosInf else Fin 0) breakdown of
        Fin n \<Rightarrow> n | _ \<Rightarrow> 0)"

definition getAvailability ::
  "RequestContext \<Rightarrow> uuid option \<Rightarrow> uuid \<Rightarrow> uuid option \<Rightarrow> uuid \<Rightarrow> db \<Rightarrow> InventoryAvailability result" where
  "getAvailability context tenantId0 productId variantId warehouseId d =
     bnd (inv_resolveTenantId context tenantId0) (\<lambda>tenantId.
     let grouped = fold (\<lambda>row. add_total (rb_ingredientId row) (rb_quantity row))
           (availability_rows tenantId productId variantId d) [];
         breakdown = map (breakdown_of warehouseId d) grouped in
     Inr \<lparr>ia_productId = productId, ia_variantId = variantId, ia_warehouse = warehouseId,
          ia_breakdown = breakdown, ia_availableUnits = available_units breakdown\<rparr>)"

text \<open>
  With positive recipe quantities the answer is the largest number of units every ingredient
  has stock for.
\<close>

lemma foldl_js_min:
  assumes "\<And>e. e \<in> set es \<Longrightarrow> 0 < ib_requiredQuantity e" and "es \<noteq> []"
  shows "\<exists>n. foldl (\<lambda>n e. js_min n (js_floor (js_div (ib_available e) (ib_requiredQuantity e)))) PosInf es
      = Fin (of_int n) \<and> (\<forall>k::int. k \<le> n \<longleftrightarrow> (\<forall>e \<in> set es. of_int k * ib_requiredQuantity e \<le> ib_available e))"
  using assms
proof (induction es rule: rev_induct)
  case (snoc e es)
  let ?f = "\<lambda>n e. js_min n (js_floor (js_div (ib_available e) (ib_requiredQuantity e)))"
  have q: "0 < ib_requiredQuantity e" using snoc.prems by simp
  then have k: "k \<le> \<lfloor>ib_available e / ib_requiredQuantity e\<rfloor> \<longleftrightarrow>
      of_int k * ib_requiredQuantity e \<le> ib_available e" for k :: int
    by (simp add: le_floor_iff pos_le_divide_eq)
  show ?case
  proof (cases "es = []")
    case True
    with q k show ?thesis by (simp add: js_min_def js_div_def js_floor_def)
  next
    case False
    with snoc obtain n where n: "foldl ?f PosInf es = Fin (of_int n)"
      "\<forall>k::int. k \<le> n \<longleftrightarrow> (\<forall>e \<in> set es. of_int k * ib_requiredQuantity e \<le> ib_available e)" by auto
    have "foldl ?f PosInf (es @ [e]) = js_min (Fin (of_int n))
        (js_floor (js_div (ib_available e) (ib_requiredQuantity e)))"
      by (simp add: n(1))
    also have "\<dots> = Fin (of_int (min n \<lfloor>ib_available e / ib_requiredQuantity e\<rfloor>))"
      using q by (simp add: js_min_def js_div_def js_floor_def min_def)
    finally have "foldl ?f PosInf (es @ [e]) =
        Fin (of_int (min n \<lfloor>ib_available e / ib_requiredQuantity e\<rfloor>))" .
    with n(2) k show ?thesis
      by (intro exI [of _ "min n \<lfloor>ib_available e / ib_requiredQuantity e\<rfloor>"]) auto
  qed
qed simp

lemma available_units_greatest:
  assumes "\<And>e. e \<in> set es \<Longrightarrow> 0 < ib_requiredQuantity e" and "es \<noteq> []"
  shows "\<exists>n. available_units es = of_int n \<and>
    (\<forall>k::int. k \<le> n \<longleftrightarrow> (\<forall>e \<in> set es. of_int k * ib_requiredQuantity e \<le> ib_available e))"
  using foldl_js_min [OF assms] assms(2) by (auto simp: available_units_def)

section \<open>Replenishment\<close>

record Recommendation =
  rec_warehouse :: Warehouse
  rec_ingredient :: Ingredient
  rec_item :: InventoryItem
  rec_targetQuantity :: quantity
  rec_recommendedOrderQuantity :: quantity
  rec_activeStopListRuleCount :: nat
  rec_lastCompletedReceivingAt :: "instant option"
  rec_lastUnitCost :: "string option"

record ReplenishmentReport =
  rep_tenantId :: uuid
  rep_storeId :: "uuid option"
  rep_warehouseId :: "uuid option"
  rep_generatedAt :: instant
  rep_recommendationCount :: nat
  rep_totalRecommendedOrderQuantity :: quantity
  rep_blockedByStopListCount :: nat
  rep_recommendations :: "Recommendation list"

text \<open>\<open>!rule.x || rule.x === y\<close>.\<close>

definition unset_or :: "string option \<Rightarrow> string option \<Rightarrow> bool" where
  "unset_or m y \<longleftrightarrow> \<not> truthy m \<or> m = y"

definition last_receiving :: "uuid \<Rightarrow> InventoryItem \<Rightarrow> db \<Rightarrow> (ReceivingRecord \<times> ReceivingLine) option" where
  "last_receiving tenantId item d =
     find (\<lambda>(r, l). inv_tenantWhere tenantId (rr_tenantId r) \<and> rr_status r = ''COMPLETED'' \<and>
             rl_ingredientId l = ii_ingredientId item \<and> rr_warehouseId r = ii_warehouseId item)
       (rev (concat (map (\<lambda>r. map (Pair r) (rr_lines r)) (receivings d))))"

definition recommend ::
  "uuid \<Rightarrow> StopListRule list \<Rightarrow> db \<Rightarrow> InventoryItem \<Rightarrow> Recommendation option" where
  "recommend tenantId rules d item =
     (case (find (\<lambda>g. ing_id g = ii_ingredientId item \<and> inv_tenantWhere tenantId (ing_tenantId g)) (ingredients d),
            find (\<lambda>w. wh_id w = ii_warehouseId item \<and> inv_tenantWhere tenantId (wh_tenantId w)) (warehouses d)) of
        (Some ingredient, Some warehouse) \<Rightarrow>
          let targetQuantity = max (ii_reorderPoint item) (ing_lowStockThreshold ingredient);
              recommended = max (targetQuantity - available item) 0;
              applicable = filter (\<lambda>rule. unset_or (slr_warehouseId rule) (Some (ii_warehouseId item)) \<and>
                unset_or (slr_ingredientId rule) (Some (ii_ingredientId item)) \<and>
                unset_or (slr_sku rule) (ii_sku item)) rules;
              lastLine = last_receiving tenantId item d
          in if recommended \<le> 0 then None
             else Some \<lparr>rec_warehouse = warehouse, rec_ingredient = ingredient, rec_item = item,
                    rec_targetQuantity = targetQuantity, rec_recommendedOrderQuantity = recommended,
                    rec_activeStopListRuleCount = length applicable,
                    rec_lastCompletedReceivingAt = Option.bind lastLine (\<lambda>(r, l). rr_completedAt r),
                    rec_lastUnitCost =
                      Option.bind lastLine (\<lambda>(r, l). map_option decimal_text (rl_unitCost l))\<rparr>
      | _ \<Rightarrow> None)"

definition computeReplenishmentReportTx ::
  "RequestContext \<Rightarrow> instant \<Rightarrow> uuid option \<Rightarrow> uuid option \<Rightarrow> uuid option \<Rightarrow> db \<Rightarrow>
   ReplenishmentReport result" where
  "computeReplenishmentReportTx context now tenantId0 storeId warehouseId d =
     bnd (inv_resolveTenantId context tenantId0) (\<lambda>tenantId.
     let items = rev (filter (\<lambda>x. inv_tenantWhere tenantId (ii_tenantId x) \<and>
           unset_or warehouseId (Some (ii_warehouseId x))) (invItems d));
         rules = filter (\<lambda>r. inv_tenantWhere tenantId (slr_tenantId r) \<and> slr_isActive r \<and>
           (truthy storeId \<longrightarrow> slr_storeId r = storeId)) (stopRules d);
         recommendations = sort_key (\<lambda>r. - rec_recommendedOrderQuantity r)
           (List.map_filter (recommend tenantId rules d) items) in
     Inr \<lparr>rep_tenantId = tenantId, rep_storeId = storeId, rep_warehouseId = warehouseId,
          rep_generatedAt = now,
          rep_recommendationCount = length recommendations,
          rep_totalRecommendedOrderQuantity =
            foldl (\<lambda>n r. n + rec_recommendedOrderQuantity r) 0 recommendations,
          rep_blockedByStopListCount =
            length (filter (\<lambda>r. rec_activeStopListRuleCount r > 0) recommendations),
          rep_recommendations = recommendations\<rparr>)"

end
