(* ===== verification/InventoryLaws.thy ===== *)
theory InventoryLaws
  imports Planning
begin

text \<open>
  What the handlers of the inventory service do to the levels: every one keeps the stock
  invariant, reservations only move \<open>reserved\<close>, receiving and adjustments only move \<open>onHand\<close>.
\<close>

section \<open>Reservations\<close>

lemma createReservation_Inr:
  assumes ok: "stock_ok d" and q: "0 \<le> csr_quantity dto"
    and run: "createReservation context now dto d = Inr (j, d')"
  shows "stock_ok d'"
    and "reservedAt w i d' = reservedAt w i d + (if w = csr_warehouseId dto \<and> i = csr_ingredientId dto
       then csr_quantity dto else 0)"
    and "onHandAt w i d' = onHandAt w i d"
    and "reservedAt (csr_warehouseId dto) (csr_ingredientId dto) d'
       \<le> onHandAt (csr_warehouseId dto) (csr_ingredientId dto) d'"
proof -
  let ?w = "csr_warehouseId dto" and ?i = "csr_ingredientId dto" and ?q = "csr_quantity dto"
  from run obtain tenantId item r where
    item: "getItemByWarehouseIngredientTx ?w ?i d = Some item"
    and enough: "?q \<le> available item"
    and r: "r = \<lparr>sr_id = nextId d, sr_tenantId = tenantId, sr_warehouseId = ?w, sr_ingredientId = ?i,
        sr_sourceType = csr_sourceType dto, sr_sourceId = csr_sourceId dto, sr_quantity = ?q,
        sr_status = ResActive, sr_expiresAt = csr_expiresAt dto,
        sr_metadata = nullish (csr_metadata dto) (JObj []), sr_createdAt = now, sr_updatedAt = now\<rparr>"
    and d': "d' = inventoryItem_update now (ii_id item) (\<lambda>x. x\<lparr>ii_reserved := ii_reserved item + ?q\<rparr>)
        (bump d\<lparr>reservations := reservations d @ [r]\<rparr>)"
    unfolding createReservation_def by (auto simp: stockReservation_create_def Let_def not_less)
  have S: "stock_ok d'" "getItemByWarehouseIngredientTx w i d' = (if w = ?w \<and> i = ?i
       then Some (item\<lparr>ii_reserved := ii_reserved item + ?q, ii_updatedAt := now\<rparr>)
       else getItemByWarehouseIngredientTx w i d)" for w i
    using reserve_step [OF ok, of r item d' "\<lambda>x. x\<lparr>ii_reserved := ii_reserved item + ?q, ii_updatedAt := now\<rparr>"]
      item q by (auto simp: r d' inventoryItem_update_def item_key_def)
  show "stock_ok d'" by (rule S(1))
  show "reservedAt w i d' = reservedAt w i d + (if w = ?w \<and> i = ?i then ?q else 0)"
    "onHandAt w i d' = onHandAt w i d"
    using item S(2) by (auto simp: level_defs)
  show "reservedAt ?w ?i d' \<le> onHandAt ?w ?i d'"
    using S(2) [of ?w ?i] enough by (simp add: level_defs available_def)
qed

lemma find_reservation: "getReservationTx i d = Inr r \<Longrightarrow> r \<in> set (reservations d) \<and> sr_id r = i"
  by (auto simp: getReservationTx_def dest: find_SomeD)

lemma releaseReservation_Inr:
  assumes ok: "stock_ok d" and run: "releaseReservation context now rid d = Inr (j, d')"
    and r: "getReservationTx rid d = Inr r"
  shows "stock_ok d'" "onHandAt w i d' = onHandAt w i d"
    "reservedAt w i d' = reservedAt w i d - contrib w i r"
    "\<exists>r'. getReservationTx rid d' = Inr r' \<and> sr_status r' \<noteq> ResActive"
proof -
  have mem: "r \<in> set (reservations d)" "sr_id r = rid" using find_reservation [OF r] by auto
  have "stock_ok d' \<and> onHandAt w i d' = onHandAt w i d \<and>
      reservedAt w i d' = reservedAt w i d - contrib w i r \<and>
      (\<exists>r'. getReservationTx rid d' = Inr r' \<and> sr_status r' \<noteq> ResActive)"
  proof (cases "sr_status r = ResActive")
    case False
    with run r ok show ?thesis by (auto simp: releaseReservation_def contrib_def)
  next
    case True
    then obtain item where item:
      "getItemByWarehouseIngredientTx (sr_warehouseId r) (sr_ingredientId r) d = Some item"
      using stock_okD(7) [OF ok mem(1)] by blast
    with run r True have d': "d' = with_item (release_one now) r d"
      by (auto simp: releaseReservation_def Let_def with_item_def)
    note S = settle_one [OF settles_release [of now] ok mem(1) True, folded d']
    obtain r' where "getReservationTx rid d' = Inr r'"
      using run item r True by (auto simp: releaseReservation_def Let_def)
    moreover from this have "sr_status r' \<noteq> ResActive"
      using find_reservation [of rid d' r'] S(4) mem by (auto simp: set_update_where)
    ultimately show ?thesis using S(1) S(2,3) [of w i] by auto
  qed
  then show "stock_ok d'" "onHandAt w i d' = onHandAt w i d"
    "reservedAt w i d' = reservedAt w i d - contrib w i r"
    "\<exists>r'. getReservationTx rid d' = Inr r' \<and> sr_status r' \<noteq> ResActive" by auto
qed

text \<open>Consumed stock leaves both columns, the ledger records it, and the clamp at zero shows.\<close>

lemma consumeReservation_Inr:
  assumes ok: "stock_ok d" and run: "consumeReservation context now rid d = Inr (j, d')"
    and r: "getReservationTx rid d = Inr r" and act: "sr_status r = ResActive"
  shows "stock_ok d'" "reservedAt w i d' = reservedAt w i d - contrib w i r"
    "onHandAt (sr_warehouseId r) (sr_ingredientId r) d' =
       max (onHandAt (sr_warehouseId r) (sr_ingredientId r) d - sr_quantity r) 0"
    "\<exists>e. ledger d' = ledger d @ [e] \<and> sle_quantity e = - sr_quantity r \<and>
       sle_sourceId e = rid \<and> sle_balanceAfter e = onHandAt (sr_warehouseId r) (sr_ingredientId r) d'"
proof -
  have mem: "r \<in> set (reservations d)" "sr_id r = rid" using find_reservation [OF r] by auto
  obtain item where item:
    "getItemByWarehouseIngredientTx (sr_warehouseId r) (sr_ingredientId r) d = Some item"
    using stock_okD(7) [OF ok mem(1) act] by blast
  let ?m = "\<lambda>r::StockReservation. JObj [(''reservationId'', JStr rid)]"
  from item run r act have d1: "d' = consume_one now (sr_tenantId r) (?m r) item r d"
    by (auto simp: consumeReservation_def Let_def)
  with item have d': "d' = with_item (\<lambda>item r'. consume_one now (sr_tenantId r) (?m r') item r') r d"
    by (simp add: with_item_def)
  note S = settle_one [OF settles_consume [of now "sr_tenantId r" ?m] ok mem(1) act, folded d']
  show "stock_ok d'" by (rule S(1))
  show "reservedAt w i d' = reservedAt w i d - contrib w i r" by (rule S(2))
  show oh: "onHandAt (sr_warehouseId r) (sr_ingredientId r) d' =
      max (onHandAt (sr_warehouseId r) (sr_ingredientId r) d - sr_quantity r) 0"
    using S(3) [of "sr_warehouseId r" "sr_ingredientId r"] by (simp add: taken_def)
  have "onHandAt (sr_warehouseId r) (sr_ingredientId r) d = ii_onHand item"
    by (simp add: onHandAt_def item)
  with oh mem(2) show "\<exists>e. ledger d' = ledger d @ [e] \<and> sle_quantity e = - sr_quantity r \<and>
       sle_sourceId e = rid \<and> sle_balanceAfter e = onHandAt (sr_warehouseId r) (sr_ingredientId r) d'"
    unfolding d1 by (simp add: consume_one_def stockLedgerEntry_create_def Let_def
        stockReservation_update_def inventoryItem_update_def)
qed

section \<open>Stock deltas\<close>

lemma stock_ok_onHand:
  assumes ok: "stock_ok d" and item: "getItemByWarehouseIngredientTx w0 i0 d = Some item"
    and items': "invItems d' = update_where (\<lambda>x. ii_id x = ii_id item) g (invItems d)"
    and g: "\<And>x. ii_id (g x) = ii_id x" "\<And>x. item_key (g x) = item_key x"
      "\<And>x. ii_reserved (g x) = ii_reserved x"
    and res': "reservations d' = reservations d" and seq: "db_seq d \<le> db_seq d'"
  shows "stock_ok d'" "getItemByWarehouseIngredientTx w i d' = (if w = w0 \<and> i = i0 then Some (g item)
       else getItemByWarehouseIngredientTx w i d)"
proof -
  note D = stock_okD [OF ok]
  show look: "getItemByWarehouseIngredientTx w i d' = (if w = w0 \<and> i = i0 then Some (g item)
       else getItemByWarehouseIngredientTx w i d)" for w i
    by (rule getItem_update [OF D(1) item g(2) items'])
  have ids: "map ii_id (invItems d') = map ii_id (invItems d)"
    "map item_key (invItems d') = map item_key (invItems d)"
    unfolding items' using g by (auto intro!: map_update_where_key)
  have "ii_warehouseId (g x) = ii_warehouseId x" "ii_ingredientId (g x) = ii_ingredientId x" for x
    using g(2) [of x] by (auto simp: item_key_def)
  then have "ii_reserved x = reserved_for (ii_warehouseId x) (ii_ingredientId x) (reservations d')"
    if "x \<in> set (invItems d')" for x
    using that D(8) g(3) by (auto simp: items' res' set_update_where)
  then show "stock_ok d'"
    using D ids seq unfolding stock_ok_def look res' by (auto simp: fresh_from_mono)
qed

lemma applyStockDeltaTx_Inr:
  assumes ok: "stock_ok d" and run: "applyStockDeltaTx now input d = Inr d'"
  shows "stock_ok d'" "reservedAt w i d' = reservedAt w i d"
    "onHandAt w i d' = onHandAt w i d +
       (if w = sd_warehouseId input \<and> i = sd_ingredientId input then sd_delta input else 0)"
    "\<exists>e. ledger d' = ledger d @ [e] \<and> sle_quantity e = sd_delta input \<and>
       sle_warehouseId e = sd_warehouseId input \<and> sle_ingredientId e = sd_ingredientId input \<and>
       sle_balanceAfter e = onHandAt (sd_warehouseId input) (sd_ingredientId input) d'"
    "receivings d' = receivings d"
proof -
  let ?w = "sd_warehouseId input" and ?i = "sd_ingredientId input"
  from run obtain item d1 where get: "getOrCreateItemTx now (sd_tenantId input) ?w ?i d = Inr (item, d1)"
    and d': "d' = stockLedgerEntry_create now (sd_tenantId input) ?w ?i (sd_entryType input)
        (sd_delta input) (ii_onHand item + sd_delta input) (sd_sourceType input) (sd_sourceId input)
        (sd_metadata input) (inventoryItem_update now (ii_id item)
          (\<lambda>x. x\<lparr>ii_onHand := ii_onHand item + sd_delta input\<rparr>) d1)"
    by (auto simp: applyStockDeltaTx_def Let_def)
  note G = getOrCreateItemTx_Inr [OF ok get]
  have S: "stock_ok d'" "getItemByWarehouseIngredientTx w i d' = (if w = ?w \<and> i = ?i
       then Some (item\<lparr>ii_onHand := ii_onHand item + sd_delta input, ii_updatedAt := now\<rparr>)
       else getItemByWarehouseIngredientTx w i d1)" for w i
    using stock_ok_onHand [OF G(1,2), of d' "\<lambda>x. x\<lparr>ii_onHand := ii_onHand item + sd_delta input,
        ii_updatedAt := now\<rparr>"]
    by (auto simp: d' stockLedgerEntry_create_def inventoryItem_update_def item_key_def)
  show "stock_ok d'" by (rule S(1))
  show "reservedAt w i d' = reservedAt w i d"
    "onHandAt w i d' = onHandAt w i d + (if w = ?w \<and> i = ?i then sd_delta input else 0)"
    using S(2) G(2) G(4,5) [of w i] by (auto simp: level_defs)
  have "ledger d1 = ledger d" "receivings d1 = receivings d"
    using get by (auto simp: getOrCreateItemTx_def inventoryItem_create_def Let_def split: option.splits)
  then show "\<exists>e. ledger d' = ledger d @ [e] \<and> sle_quantity e = sd_delta input \<and>
       sle_warehouseId e = ?w \<and> sle_ingredientId e = ?i \<and> sle_balanceAfter e = onHandAt ?w ?i d'"
    "receivings d' = receivings d"
    using S(2) [of ?w ?i] by (simp_all add: d' stockLedgerEntry_create_def inventoryItem_update_def onHandAt_def)
qed

lemma createAdjustment_Inr:
  assumes ok: "stock_ok d" and run: "createAdjustment context now dto d = Inr (j, d')"
  shows "stock_ok d'" "reservedAt w i d' = reservedAt w i d"
    "onHandAt w i d' = onHandAt w i d + (if w = ca_warehouseId dto \<and> i = ca_ingredientId dto
       then adjustment_delta (ca_adjustmentType dto) (ca_quantity dto)
              (onHandAt (ca_warehouseId dto) (ca_ingredientId dto) d) else 0)"
    "\<exists>e. ledger d' = ledger d @ [e] \<and>
       sle_balanceAfter e = onHandAt (ca_warehouseId dto) (ca_ingredientId dto) d'"
proof -
  let ?w = "ca_warehouseId dto" and ?i = "ca_ingredientId dto"
  from run obtain t item d1 input d2 a where get: "getOrCreateItemTx now t ?w ?i d = Inr (item, d1)"
    and del: "applyStockDeltaTx now input (bump d1) = Inr d2"
    and input: "sd_warehouseId input = ?w" "sd_ingredientId input = ?i"
      "sd_delta input = adjustment_delta (ca_adjustmentType dto) (ca_quantity dto) (ii_onHand item)"
    and d': "d' = (bump d2)\<lparr>adjustments := adjustments d2 @ [a]\<rparr>"
    by (fastforce simp: createAdjustment_def Let_def)
  note G = getOrCreateItemTx_Inr [OF ok get]
  have b: "stock_ok (bump d1)" by (rule stock_ok_cong [OF _ _ _ G(1)]) simp_all
  note A = applyStockDeltaTx_Inr [OF b del]
  have lv: "reservedAt w i d' = reservedAt w i d2" "onHandAt w i d' = onHandAt w i d2"
    "reservedAt w i (d1\<lparr>db_seq := Suc (db_seq d1)\<rparr>) = reservedAt w i d1"
    "onHandAt w i (d1\<lparr>db_seq := Suc (db_seq d1)\<rparr>) = onHandAt w i d1" for w i
    by (simp_all add: level_defs d' getItemByWarehouseIngredientTx_def)
  show "stock_ok d'" by (rule stock_ok_cong [OF _ _ _ A(1)]) (simp_all add: d')
  show "reservedAt w i d' = reservedAt w i d" using A(2) G(4) by (simp add: lv)
  have "ii_onHand item = onHandAt ?w ?i d1" using G(2) by (simp add: onHandAt_def)
  then show "onHandAt w i d' = onHandAt w i d + (if w = ?w \<and> i = ?i
       then adjustment_delta (ca_adjustmentType dto) (ca_quantity dto) (onHandAt ?w ?i d) else 0)"
    using A(3) [of w i] G(5) by (simp add: lv input)
  have "ledger d1 = ledger d"
    using get by (auto simp: getOrCreateItemTx_def inventoryItem_create_def Let_def split: option.splits)
  moreover have "ledger d' = ledger d2" by (simp add: d')
  ultimately show "\<exists>e. ledger d' = ledger d @ [e] \<and> sle_balanceAfter e = onHandAt ?w ?i d'"
    using A(4) by (auto simp: lv input)
qed

section \<open>Receiving\<close>

lemma receive_lines:
  assumes "stock_ok d" and "foldE (receive_line now rec who) ls d = Inr d'"
  shows "stock_ok d' \<and> reservedAt w i d' = reservedAt w i d \<and> receivings d' = receivings d \<and>
    onHandAt w i d' = onHandAt w i d +
      (\<Sum>l\<leftarrow>ls. if w = rr_warehouseId rec \<and> i = rl_ingredientId l then rl_quantity l else 0)"
  using assms
proof (induction ls arbitrary: d)
  case (Cons l ls)
  then obtain d1 where l: "receive_line now rec who l d = Inr d1"
    and ls: "foldE (receive_line now rec who) ls d1 = Inr d'" by auto
  note A = applyStockDeltaTx_Inr [OF Cons.prems(1) l [unfolded receive_line_def]]
  from Cons.IH [OF A(1) ls] A(2,3) [of w i] A(5) show ?case by (simp add: add.assoc)
qed simp

text \<open>
  Completing a record puts its lines on hand once: the second completion returns the record and
  leaves the database as it is.
\<close>

lemma completeReceivingRecordTx_Inr:
  assumes ok: "stock_ok d" and run: "completeReceivingRecordTx now rid who d = Inr (r', d')"
    and r: "getReceivingRecordTx rid d = Inr r" and op: "rr_status r \<noteq> ''COMPLETED''"
  shows "stock_ok d'" "reservedAt w i d' = reservedAt w i d" "rr_status r' = ''COMPLETED''"
    "onHandAt w i d' = onHandAt w i d +
      (\<Sum>l\<leftarrow>rr_lines r. if w = rr_warehouseId r \<and> i = rl_ingredientId l then rl_quantity l else 0)"
    "completeReceivingRecordTx now' rid who' d' = Inr (r', d')"
proof -
  let ?who = "orElse who (rr_receivedBy r)"
  from run r op obtain d1 where lines: "foldE (receive_line now r ?who) (rr_lines r) d = Inr d1"
    and d': "d' = receiving_update now rid (\<lambda>r. r\<lparr>rr_status := ''COMPLETED'', rr_receivedBy := ?who,
        rr_completedAt := Some now\<rparr>) d1"
    and r': "getReceivingRecordTx rid d' = Inr r'"
    by (auto simp: completeReceivingRecordTx_def Let_def)
  note L = receive_lines [OF ok lines]
  show "stock_ok d'"
    by (rule stock_ok_cong [of d' d1]) (use L in \<open>auto simp: d' receiving_update_def\<close>)
  show "reservedAt w i d' = reservedAt w i d"
    "onHandAt w i d' = onHandAt w i d +
      (\<Sum>l\<leftarrow>rr_lines r. if w = rr_warehouseId r \<and> i = rl_ingredientId l then rl_quantity l else 0)"
    using L [of w i] by (simp_all add: level_defs d' receiving_update_def getItemByWarehouseIngredientTx_def)
  have mem: "r' \<in> set (receivings d')" "rr_id r' = rid"
    using r' by (auto simp: getReceivingRecordTx_def dest: find_SomeD)
  from mem(1) obtain x where "r' = (if rr_id x = rid then x\<lparr>rr_status := ''COMPLETED'',
      rr_receivedBy := ?who, rr_completedAt := Some now, rr_updatedAt := now\<rparr> else x)"
    unfolding d' receiving_update_def update_where_def by fastforce
  with mem(2) show c: "rr_status r' = ''COMPLETED''" by (cases "rr_id x = rid") simp_all
  show "completeReceivingRecordTx now' rid who' d' = Inr (r', d')"
    using r' c by (simp add: completeReceivingRecordTx_def)
qed

end
