(* ===== verification/Orders.thy ===== *)
theory Orders
  imports CartOps Planning
begin

text \<open>
  The order half of \<open>orders/orders.module.ts\<close>: checkout turns an open cart into an order and
  reserves its stock, a transition moves the order along its lifecycle, hands it to the kitchen
  when it is confirmed, gives the stock back when it is cancelled and takes it when it is
  completed.
\<close>

section \<open>Rows\<close>

definition order_get :: "uuid \<Rightarrow> db \<Rightarrow> Order option" where
  "order_get i d = find (\<lambda>r. ord_id r = i) (orders d)"

definition order_update :: "uuid \<Rightarrow> (Order \<Rightarrow> Order) \<Rightarrow> db \<Rightarrow> db" where
  "order_update i f d = d\<lparr>orders := update_where (\<lambda>r. ord_id r = i) f (orders d)\<rparr>"

definition order_create :: "Order \<Rightarrow> db \<Rightarrow> db" where
  "order_create r d = d\<lparr>orders := orders d @ [r]\<rparr>"

definition ticket_get :: "uuid \<Rightarrow> db \<Rightarrow> KitchenTicket option" where
  "ticket_get i d = find (\<lambda>r. tk_id r = i) (tickets d)"

definition ticket_update :: "uuid \<Rightarrow> (KitchenTicket \<Rightarrow> KitchenTicket) \<Rightarrow> db \<Rightarrow> db" where
  "ticket_update i f d = d\<lparr>tickets := update_where (\<lambda>r. tk_id r = i) f (tickets d)\<rparr>"

definition ticket_create :: "KitchenTicket \<Rightarrow> db \<Rightarrow> db" where
  "ticket_create r d = d\<lparr>tickets := tickets d @ [r]\<rparr>"

definition order_tickets :: "uuid \<Rightarrow> db \<Rightarrow> KitchenTicket list" where
  "order_tickets i d = filter (\<lambda>t. tk_orderId t = i) (tickets d)"

definition loadOrder :: "uuid \<Rightarrow> db \<Rightarrow> Order result" where
  "loadOrder i d = orThrow (order_get i d) (RecordNotFound ''Order'')"

interpretation order_rows: row_store ord_id "\<lambda>d. map ord_id (orders d)" order_get order_update order_create
  by (rule row_store_list) (simp_all add: order_get_def order_update_def order_create_def)

interpretation ticket_rows: row_store tk_id "\<lambda>d. map tk_id (tickets d)" ticket_get ticket_update ticket_create
  by (rule row_store_list) (simp_all add: ticket_get_def ticket_update_def ticket_create_def)

section \<open>Notifications\<close>

text \<open>What \<open>enqueueStorefrontCustomerUpdates\<close> writes for a delivery order.\<close>

definition order_event_and_outbox :: "instant \<Rightarrow> Order \<Rightarrow> string \<Rightarrow> json \<Rightarrow> db \<Rightarrow> db" where
  "order_event_and_outbox now order type payload d =
     domainEvents_record \<lparr>ob_tenantId = Some (ord_tenantId order), ob_eventName = type,
         ob_aggregate = ''order'', ob_aggregateId = ord_id order, ob_payload = payload\<rparr>
       (recordOrderEvent now (ord_id order) (ord_tenantId order) (ord_storeId order) type payload d)"

definition enqueueStorefrontCustomerUpdates ::
  "instant \<Rightarrow> Order \<Rightarrow> string \<Rightarrow> string option \<Rightarrow> db \<Rightarrow> db" where
  "enqueueStorefrontCustomerUpdates now order trigger templateKey d =
     (if ord_channel order \<noteq> DELIVERY then d
      else let base = [(''orderId'', JStr (ord_id order)),
                       (''status'', JStr (show_order_status (ord_status order))),
                       (''trigger'', JStr trigger), (''customerPhone'', jopt (ord_customerPhone order))];
               d1 = order_event_and_outbox now order ''storefront.status_hook_emitted'' (JObj base) d
           in if \<not> truthy (map_option trim (ord_customerPhone order)) \<or> \<not> truthy templateKey then d1
              else order_event_and_outbox now order ''storefront.notification_queued''
                (JObj (base @ [(''templateKey'', jopt templateKey),
                               (''deliveryPath'', JStr ''async_event'')])) d1)"

definition order_log ::
  "RequestContext \<Rightarrow> instant \<Rightarrow> Order \<Rightarrow> string \<Rightarrow> json \<Rightarrow> json \<Rightarrow> json \<Rightarrow> db \<Rightarrow> db" where
  "order_log context now order name eventPayload auditPayload outboxPayload d =
     domainEvents_record \<lparr>ob_tenantId = Some (ord_tenantId order), ob_eventName = name,
         ob_aggregate = ''order'', ob_aggregateId = ord_id order, ob_payload = outboxPayload\<rparr>
       (recordTx \<lparr>al_tenantId = Some (ord_tenantId order), al_storeId = Some (ord_storeId order),
           al_actorType = resolveActorType context, al_actorId = resolveActorId context,
           al_action = name, al_entityType = ''order'', al_entityId = ord_id order,
           al_payload = Some auditPayload\<rparr>
         (recordOrderEvent now (ord_id order) (ord_tenantId order) (ord_storeId order) name eventPayload d))"

section \<open>Checkout\<close>

record CheckoutCartDto =
  co_customerName :: "string option"
  co_customerPhone :: "string option"
  co_note :: "string option"

definition generateOrderNumber :: "instant \<Rightarrow> uuid \<Rightarrow> string" where
  "generateOrderNumber now uuid =
     ''ORD-'' @ filter (\<lambda>c. c \<noteq> CHR ''-'') (take 10 (toISOString now)) @ ''-'' @
     toUpperCase (take 8 uuid)"

definition copy_modifier :: "nat \<Rightarrow> ItemModifier \<Rightarrow> ItemModifier \<times> nat" where
  "copy_modifier n m = (m\<lparr>im_id := newId n\<rparr>, Suc n)"

definition order_item :: "instant \<Rightarrow> uuid \<Rightarrow> nat \<Rightarrow> CartItem \<Rightarrow> OrderItem \<times> nat" where
  "order_item now orderId n item =
     (let (modifiers, n') = create_rows copy_modifier (ci_modifiers item) (Suc n)
      in (\<lparr>oi_id = newId n, oi_orderId = orderId, oi_productId = ci_productId item,
           oi_variantId = ci_variantId item, oi_quantity = ci_quantity item,
           oi_unitBasePrice = ci_unitBasePrice item, oi_modifierTotal = ci_modifierTotal item,
           oi_lineTotal = ci_lineTotal item, oi_snapshot = ci_snapshot item,
           oi_createdAt = now, oi_modifiers = modifiers\<rparr>, n'))"

definition new_order ::
  "instant \<Rightarrow> uuid \<Rightarrow> string \<Rightarrow> Cart \<Rightarrow> CheckoutCartDto \<Rightarrow> OrderItem list \<Rightarrow> Order" where
  "new_order now orderId number cart dto items =
     \<lparr>ord_id = orderId, ord_tenantId = cart_tenantId cart, ord_storeId = cart_storeId cart,
      ord_cartId = Some (cart_id cart), ord_customerProfileId = cart_customerProfileId cart,
      ord_number = number, ord_channel = cart_channel cart, ord_status = PLACED,
      ord_refundStatus = NONE,
      ord_customerName = orElse (co_customerName dto) (cart_customerName cart),
      ord_customerPhone = orElse (co_customerPhone dto) (cart_customerPhone cart),
      ord_note = orElse (co_note dto) (cart_note cart),
      ord_subtotal = cart_subtotal cart, ord_modifierTotal = cart_modifierTotal cart,
      ord_fulfillmentFee = cart_fulfillmentFee cart, ord_discountTotal = cart_discountTotal cart,
      ord_total = cart_total cart, ord_promotionCode = cart_promotionCode cart,
      ord_promotionSnapshot = cart_promotionSnapshot cart,
      ord_fulfillmentMode = cart_fulfillmentMode cart,
      ord_fulfillmentStatus = cart_fulfillmentStatus cart,
      ord_fulfillmentPayload = cart_fulfillmentPayload cart,
      ord_promisedAt = cart_promisedAt cart, ord_etaAt = cart_etaAt cart, ord_placedAt = now,
      ord_confirmedAt = None, ord_readyAt = None, ord_completedAt = None, ord_cancelledAt = None,
      ord_cancelReason = None, ord_deviceId = cart_deviceId cart,
      ord_createdByUserId = cart_createdByUserId cart, ord_createdAt = now, ord_updatedAt = now,
      ord_items = items\<rparr>"

definition plan_items :: "CartItem list \<Rightarrow> PlanItem list" where
  "plan_items items = map (\<lambda>item. \<lparr>pit_productId = ci_productId item,
     pit_variantId = ci_variantId item, pit_quantity = ci_quantity item\<rparr>) items"

definition converted :: "instant \<Rightarrow> Order \<Rightarrow> Cart \<Rightarrow> Cart" where
  "converted now order c = c\<lparr>cart_status := CONVERTED,
     cart_customerProfileId := ord_customerProfileId order,
     cart_customerName := ord_customerName order, cart_customerPhone := ord_customerPhone order,
     cart_note := ord_note order, cart_fulfillmentStatus := ord_fulfillmentStatus order,
     cart_updatedAt := now\<rparr>"

definition placed_payload :: "Order \<Rightarrow> uuid \<Rightarrow> (string \<times> json) list" where
  "placed_payload order cartId =
     [(''orderId'', JStr (ord_id order)), (''cartId'', JStr cartId),
      (''status'', JStr (show_order_status (ord_status order))),
      (''total'', jmoney (ord_total order)),
      (''fulfillmentMode'', jopt (ord_fulfillmentMode order)),
      (''fulfillmentStatus'', jopt (ord_fulfillmentStatus order))]"

definition placed_log :: "RequestContext \<Rightarrow> instant \<Rightarrow> Order \<Rightarrow> uuid \<Rightarrow> db \<Rightarrow> db" where
  "placed_log context now order cartId d =
     order_log context now order ''order.placed''
       (JObj (placed_payload order cartId @
              [(''promisedAt'', jdate (ord_promisedAt order)), (''etaAt'', jdate (ord_etaAt order))]))
       (JObj [(''cartId'', JStr cartId), (''number'', JStr (ord_number order)),
              (''total'', jmoney (ord_total order)),
              (''fulfillmentMode'', jopt (ord_fulfillmentMode order)),
              (''fulfillmentStatus'', jopt (ord_fulfillmentStatus order))])
       (JObj (placed_payload order cartId)) d"

definition checkout ::
  "RequestContext \<Rightarrow> instant \<Rightarrow> uuid \<Rightarrow> CheckoutCartDto \<Rightarrow> db \<Rightarrow> (json \<times> db) result" where
  "checkout context now cartId dto d =
     bnd (loadCart cartId d) (\<lambda>(cart, items).
     bnd (ensureCartOpen cart) (\<lambda>_.
     bnd (checkAccess context (cart_tenantId cart) (cart_storeId cart)) (\<lambda>_.
     bnd (ensure (length items \<noteq> 0)
            (BadRequestException ''Cart must have at least one item before checkout.'')) (\<lambda>_.
     bnd (buildReservationPlanTx (cart_tenantId cart) (cart_storeId cart) (plan_items items) d)
       (\<lambda>inventoryReservationPlan.
     let orderId = nextId d;
         number = generateOrderNumber now (newId (Suc (db_seq d)));
         (orderItems, n) = create_rows (order_item now orderId) items (Suc (Suc (db_seq d)));
         order = new_order now orderId number cart dto orderItems in
     bnd (ensure (Some (cart_id cart) \<notin> set (map ord_cartId (orders d)) \<and>
                  number \<notin> set (map ord_number (orders d))) (UniqueViolation ''Order'')) (\<lambda>_.
     bnd (reserveOrderInventoryTx now (ord_tenantId order) (ord_id order) inventoryReservationPlan
            (order_create order (d\<lparr>db_seq := n\<rparr>))) (\<lambda>d1.
     let d2 = cart_update (cart_id cart) (converted now order) d1;
         d3 = placed_log context now order (cart_id cart) d2;
         d4 = enqueueStorefrontCustomerUpdates now order ''order.placed''
                (Some ''storefront-order-placed'') d3 in
     Inr (mapOrder order, d4))))))))"

section \<open>Reads\<close>

record OrdersQuery =
  oq_tenantId :: "uuid option"
  oq_storeId :: "uuid option"
  oq_status :: "OrderStatus option"
  oq_channel :: "OrderChannel option"

definition listed :: "'v option \<Rightarrow> 'v \<Rightarrow> bool" where
  "listed m v \<longleftrightarrow> (case m of None \<Rightarrow> True | Some x \<Rightarrow> v = x)"

definition listOrders :: "RequestContext \<Rightarrow> OrdersQuery \<Rightarrow> db \<Rightarrow> json result" where
  "listOrders context query d =
     bnd (checkStoreQuery context (oq_storeId query)) (\<lambda>_.
     bnd (tenantWhere context (oq_tenantId query)) (\<lambda>tw.
     Inr (jlist (map mapOrder (rev (filter (\<lambda>r.
       in_scope context tw (oq_storeId query) (ord_tenantId r) (ord_storeId r) \<and>
       listed (oq_status query) (ord_status r) \<and> listed (oq_channel query) (ord_channel r))
       (orders d)))))))"

definition getOrder :: "RequestContext \<Rightarrow> uuid \<Rightarrow> db \<Rightarrow> json result" where
  "getOrder context orderId d =
     bnd (loadOrder orderId d) (\<lambda>order.
     bnd (checkAccess context (ord_tenantId order) (ord_storeId order)) (\<lambda>_.
     Inr (mapOrder order)))"

definition listOrderEvents :: "RequestContext \<Rightarrow> uuid \<Rightarrow> db \<Rightarrow> json result" where
  "listOrderEvents context orderId d =
     bnd (loadOrder orderId d) (\<lambda>order.
     bnd (checkAccess context (ord_tenantId order) (ord_storeId order)) (\<lambda>_.
     Inr (jlist (map mapOrderEvent (filter (\<lambda>e. oe_orderId e = orderId) (orderEvents d))))))"

section \<open>Kitchen tickets of an order\<close>

text \<open>A \<open>Map\<close> from station to the items routed to it, in insertion order.\<close>

fun group_item :: "string \<Rightarrow> 'i \<Rightarrow> (string \<times> 'i list) list \<Rightarrow> (string \<times> 'i list) list" where
  "group_item k x [] = [(k, [x])]"
| "group_item k x ((k', xs) # m) =
     (if k' = k then (k', xs @ [x]) # m else (k', xs) # group_item k x m)"

definition setting_value :: "uuid \<Rightarrow> Setting list \<Rightarrow> json option" where
  "setting_value owner settings =
     (case find (\<lambda>s. set_ownerId s = owner \<and> set_key s = ''kitchen.routing'') settings of
        None \<Rightarrow> None | Some s \<Rightarrow> if set_value s = JNull then None else Some (set_value s))"

definition order_routing :: "Order \<Rightarrow> db \<Rightarrow> KitchenRoutingConfig" where
  "order_routing order d =
     resolveKitchenRoutingConfig (orElse (setting_value (ord_storeId order) (storeSettings d))
       (setting_value (ord_tenantId order) (tenantSettings d)))"

definition category_code :: "Category list \<Rightarrow> Product \<Rightarrow> string option" where
  "category_code cs product = Option.bind (pr_categoryId product)
     (\<lambda>i. map_option cat_code (find (\<lambda>c. cat_id c = i) cs))"

definition route_item ::
  "KitchenRoutingConfig \<Rightarrow> Category list \<Rightarrow> Product list \<Rightarrow> OrderItem \<Rightarrow> (string \<times> OrderItem list) list \<Rightarrow>
   (string \<times> OrderItem list) list" where
  "route_item routing cs ps item groups =
     (case find (\<lambda>p. pr_id p = oi_productId item) ps of
        None \<Rightarrow> groups
      | Some product \<Rightarrow>
          group_item (resolveKitchenStationKey routing (pr_code product) (category_code cs product))
            item groups)"

definition groupedItems :: "Order \<Rightarrow> db \<Rightarrow> (string \<times> OrderItem list) list" where
  "groupedItems order d = fold (route_item (order_routing order d) (categories d) (products d)) (ord_items order) []"

definition ticket_item :: "instant \<Rightarrow> uuid \<Rightarrow> nat \<Rightarrow> OrderItem \<Rightarrow> KitchenTicketItem \<times> nat" where
  "ticket_item now ticketId n item =
     (\<lparr>kti_id = newId n, kti_ticketId = ticketId, kti_orderItemId = oi_id item,
       kti_productId = oi_productId item, kti_variantId = oi_variantId item,
       kti_quantity = oi_quantity item, kti_lineTotal = oi_lineTotal item,
       kti_snapshot = oi_snapshot item, kti_createdAt = now\<rparr>, Suc n)"

definition new_ticket ::
  "instant \<Rightarrow> Order \<Rightarrow> uuid \<Rightarrow> string \<Rightarrow> OrderItem list \<Rightarrow> KitchenTicketItem list \<Rightarrow> KitchenTicket" where
  "new_ticket now order ticketId stationKey items rows =
     \<lparr>tk_id = ticketId, tk_orderId = ord_id order, tk_tenantId = ord_tenantId order,
      tk_storeId = ord_storeId order, tk_stationKey = stationKey, tk_status = TkNew,
      tk_sourceChannel = ord_channel order, tk_displayNumber = ord_number order,
      tk_note = ord_note order, tk_itemCount = foldl (\<lambda>n item. n + oi_quantity item) 0 items,
      tk_startedAt = None, tk_readyAt = None, tk_completedAt = None, tk_cancelledAt = None,
      tk_createdAt = now, tk_updatedAt = now, tk_items = rows\<rparr>"

definition ticket_log :: "RequestContext \<Rightarrow> instant \<Rightarrow> Order \<Rightarrow> KitchenTicket \<Rightarrow> db \<Rightarrow> db" where
  "ticket_log context now order ticket d =
     (let eventPayload = JObj [(''orderId'', JStr (ord_id order)), (''ticketId'', JStr (tk_id ticket)),
            (''stationKey'', JStr (tk_stationKey ticket)), (''itemCount'', jint (tk_itemCount ticket))]
      in domainEvents_record \<lparr>ob_tenantId = Some (ord_tenantId order),
             ob_eventName = ''kitchen.ticket_created'', ob_aggregate = ''kitchen_ticket'',
             ob_aggregateId = tk_id ticket, ob_payload = eventPayload\<rparr>
           (recordTx \<lparr>al_tenantId = Some (ord_tenantId order), al_storeId = Some (ord_storeId order),
               al_actorType = resolveActorType context, al_actorId = resolveActorId context,
               al_action = ''kitchen.ticket_created'', al_entityType = ''kitchen_ticket'',
               al_entityId = tk_id ticket, al_payload = Some eventPayload\<rparr>
             (recordOrderEvent now (ord_id order) (ord_tenantId order) (ord_storeId order)
                ''kitchen.ticket_created'' eventPayload d)))"

definition create_ticket ::
  "RequestContext \<Rightarrow> instant \<Rightarrow> Order \<Rightarrow> string \<times> OrderItem list \<Rightarrow> db \<times> KitchenTicket list \<Rightarrow>
   (db \<times> KitchenTicket list) result" where
  "create_ticket context now order = (\<lambda>(stationKey, items) (d, created).
     let (rows, n) = create_rows (ticket_item now (nextId d)) items (Suc (db_seq d));
         ticket = new_ticket now order (nextId d) stationKey items rows in
     bnd (ensure ((ord_id order, stationKey) \<notin>
                    set (map (\<lambda>t. (tk_orderId t, tk_stationKey t)) (tickets d)))
            (UniqueViolation ''KitchenTicket'')) (\<lambda>_.
     Inr (ticket_log context now order ticket (ticket_create ticket (d\<lparr>db_seq := n\<rparr>)),
          created @ [ticket])))"

definition createKitchenTicketsForOrder ::
  "RequestContext \<Rightarrow> instant \<Rightarrow> Order \<Rightarrow> db \<Rightarrow> (db \<times> KitchenTicket list) result" where
  "createKitchenTicketsForOrder context now order d =
     (let existingTickets = length (order_tickets (ord_id order) d)
      in if existingTickets > 0 then Inr (d, [])
         else foldE (create_ticket context now order) (groupedItems order d) (d, []))"

definition open_ticket :: "KitchenTicketStatus \<Rightarrow> bool" where
  "open_ticket s \<longleftrightarrow> s \<in> {TkNew, TkInProgress, TkReady}"

definition cancelKitchenTicketsForOrder :: "instant \<Rightarrow> uuid \<Rightarrow> db \<Rightarrow> nat \<times> db" where
  "cancelKitchenTicketsForOrder now orderId d =
     (length (filter (\<lambda>t. tk_orderId t = orderId \<and> open_ticket (tk_status t)) (tickets d)),
      d\<lparr>tickets := update_where (\<lambda>t. tk_orderId t = orderId \<and> open_ticket (tk_status t))
         (\<lambda>t. t\<lparr>tk_status := TkCancelled, tk_cancelledAt := Some now, tk_updatedAt := now\<rparr>)
         (tickets d)\<rparr>)"

section \<open>Transitions\<close>

record TransitionOrderDto =
  tr_toStatus :: OrderStatus
  tr_reason :: "string option"
  tr_hasExternalPayment :: "bool option"

definition moved :: "instant \<Rightarrow> TransitionOrderDto \<Rightarrow> Order \<Rightarrow> Order" where
  "moved now dto order =
     (let to = tr_toStatus dto in
      order\<lparr>ord_status := to,
        ord_confirmedAt := (if to = CONFIRMED then Some now else ord_confirmedAt order),
        ord_readyAt := (if to = READY then Some now else ord_readyAt order),
        ord_completedAt := (if to = COMPLETED then Some now else ord_completedAt order),
        ord_cancelledAt := (if to = CANCELLED then Some now else ord_cancelledAt order),
        ord_cancelReason := (if to = CANCELLED then tr_reason dto else ord_cancelReason order),
        ord_refundStatus := (if to = CANCELLED then resolveRefundStatusOnCancel (tr_hasExternalPayment dto)
          else ord_refundStatus order),
        ord_updatedAt := now\<rparr>)"

definition transition_template :: "OrderStatus \<Rightarrow> string option" where
  "transition_template to =
     (if to = CONFIRMED then Some ''storefront-order-confirmed''
      else if to = READY then Some ''storefront-order-ready''
      else if to = COMPLETED then Some ''storefront-order-completed''
      else if to = CANCELLED then Some ''storefront-order-cancelled'' else None)"

definition transition_log ::
  "RequestContext \<Rightarrow> instant \<Rightarrow> Order \<Rightarrow> OrderStatus \<Rightarrow> TransitionOrderDto \<Rightarrow> db \<Rightarrow> db" where
  "transition_log context now order fromStatus dto d =
     (let eventName = (if tr_toStatus dto = CANCELLED then ''order.cancelled'' else ''order.status_changed'');
          eventPayload = JObj [(''orderId'', JStr (ord_id order)),
            (''fromStatus'', JStr (show_order_status fromStatus)),
            (''toStatus'', JStr (show_order_status (ord_status order))),
            (''reason'', jopt (tr_reason dto)),
            (''refundStatus'', JStr (show_refund_status (ord_refundStatus order)))]
      in enqueueStorefrontCustomerUpdates now order eventName (transition_template (tr_toStatus dto))
           (order_log context now order eventName eventPayload eventPayload eventPayload d))"

definition confirm_step ::
  "RequestContext \<Rightarrow> instant \<Rightarrow> Order \<Rightarrow> db \<Rightarrow> (db \<times> KitchenTicket list) result" where
  "confirm_step context now order d =
     (let kitchenPayload = JObj [(''orderId'', JStr (ord_id order)),
            (''storeId'', JStr (ord_storeId order)),
            (''channel'', JStr (show_channel (ord_channel order))),
            (''itemCount'', jint (int (length (ord_items order))))]
      in createKitchenTicketsForOrder context now order
           (order_log context now order ''order.kitchen_handoff_requested''
              kitchenPayload kitchenPayload kitchenPayload d))"

definition count_event :: "instant \<Rightarrow> Order \<Rightarrow> string \<Rightarrow> string \<Rightarrow> nat \<Rightarrow> db \<Rightarrow> db" where
  "count_event now order type counter n d =
     (if n > 0 then recordOrderEvent now (ord_id order) (ord_tenantId order) (ord_storeId order) type
        (JObj [(''orderId'', JStr (ord_id order)), (counter, jint (int n))]) d else d)"

definition cancel_step :: "instant \<Rightarrow> Order \<Rightarrow> db \<Rightarrow> db" where
  "cancel_step now order d =
     (let (releasedReservationCount, d1) =
            releaseOrderInventoryReservationsTx now (ord_tenantId order) (ord_id order) d;
          (cancelledCount, d2) = cancelKitchenTicketsForOrder now (ord_id order) d1
      in count_event now order ''kitchen.ticket_cancelled'' ''cancelledTicketCount'' cancelledCount
           (count_event now order ''inventory.reservations_released'' ''reservationCount''
              releasedReservationCount d2))"

definition complete_step :: "instant \<Rightarrow> Order \<Rightarrow> db \<Rightarrow> db" where
  "complete_step now order d =
     (let (consumedReservationCount, d1) =
            consumeOrderInventoryReservationsTx now (ord_tenantId order) (ord_id order) d
      in count_event now order ''inventory.reservations_consumed'' ''reservationCount''
           consumedReservationCount d1)"

definition emit_tickets :: "instant \<Rightarrow> KitchenTicket list \<Rightarrow> db \<Rightarrow> db" where
  "emit_tickets now created d =
     fold (\<lambda>t. emitToStore now (tk_tenantId t) (tk_storeId t) ''kitchen.ticket.created''
       (JObj [(''orderId'', JStr (tk_orderId t)), (''ticketId'', JStr (tk_id t)),
              (''stationKey'', JStr (tk_stationKey t))])) created d"

definition transition_message :: "OrderStatus \<Rightarrow> OrderStatus \<Rightarrow> string" where
  "transition_message a b =
     ''Order transition '' @ show_order_status a @ '' -> '' @ show_order_status b @ '' is not allowed.''"

definition transitionOrder ::
  "RequestContext \<Rightarrow> instant \<Rightarrow> uuid \<Rightarrow> TransitionOrderDto \<Rightarrow> db \<Rightarrow> (json \<times> db) result" where
  "transitionOrder context now orderId dto d =
     bnd (loadOrder orderId d) (\<lambda>current.
     bnd (checkAccess context (ord_tenantId current) (ord_storeId current)) (\<lambda>_.
     bnd (ensure (canTransitionOrder (ord_status current) (tr_toStatus dto))
            (BadRequestException (transition_message (ord_status current) (tr_toStatus dto)))) (\<lambda>_.
     let order = moved now dto current;
         d1 = order_update (ord_id current) (moved now dto) d;
         d2 = transition_log context now order (ord_status current) dto d1 in
     bnd (if tr_toStatus dto = CONFIRMED then confirm_step context now order d2 else Inr (d2, []))
       (\<lambda>(d3, createdKitchenTickets).
     let d4 = (if tr_toStatus dto = CANCELLED then cancel_step now order d3 else d3);
         d5 = (if tr_toStatus dto = COMPLETED then complete_step now order d4 else d4);
         d6 = emit_tickets now createdKitchenTickets d5;
         d7 = (if createdKitchenTickets \<noteq> [] \<or> tr_toStatus dto = CANCELLED
               then emitToStore now (ord_tenantId order) (ord_storeId order) ''board.order.updated''
                      (JObj [(''orderId'', JStr (ord_id order))]) d6 else d6) in
     Inr (mapOrder order, d7)))))"

end
