(* ===== verification/Kitchen.thy ===== *)
theory Kitchen
  imports Orders
begin

text \<open>
  The kitchen service of \<open>kitchen/kitchen.module.ts\<close>: tickets move along their own lifecycle, the
  order follows its tickets, and the board shows what the tickets say.
\<close>

definition loadTicket :: "uuid \<Rightarrow> db \<Rightarrow> KitchenTicket result" where
  "loadTicket i d = orThrow (ticket_get i d) (RecordNotFound ''KitchenTicket'')"

section \<open>Reads\<close>

record KitchenTicketsQuery =
  kq_tenantId :: "uuid option"
  kq_storeId :: "uuid option"
  kq_status :: "KitchenTicketStatus option"
  kq_stationKey :: "string option"

definition listTickets :: "RequestContext \<Rightarrow> KitchenTicketsQuery \<Rightarrow> db \<Rightarrow> json result" where
  "listTickets context query d =
     bnd (checkStoreQuery context (kq_storeId query)) (\<lambda>_.
     bnd (tenantWhere context (kq_tenantId query)) (\<lambda>tw.
     Inr (jlist (map mapKitchenTicket (rev (filter (\<lambda>t.
       in_scope context tw (kq_storeId query) (tk_tenantId t) (tk_storeId t) \<and>
       listed (kq_status query) (tk_status t) \<and>
       (truthy (kq_stationKey query) \<longrightarrow> kq_stationKey query = Some (tk_stationKey t)))
       (tickets d)))))))"

definition getTicket :: "RequestContext \<Rightarrow> uuid \<Rightarrow> db \<Rightarrow> json result" where
  "getTicket context ticketId d =
     bnd (loadTicket ticketId d) (\<lambda>ticket.
     bnd (checkAccess context (tk_tenantId ticket) (tk_storeId ticket)) (\<lambda>_.
     Inr (mapKitchenTicket ticket)))"

record BoardOrdersQuery =
  bq_tenantId :: "uuid option"
  bq_storeId :: "uuid option"
  bq_boardStatus :: "KitchenBoardStatus option"

definition listBoardEntries :: "RequestContext \<Rightarrow> BoardOrdersQuery \<Rightarrow> db \<Rightarrow> json result" where
  "listBoardEntries context query d =
     bnd (checkStoreQuery context (bq_storeId query)) (\<lambda>_.
     bnd (tenantWhere context (bq_tenantId query)) (\<lambda>tw.
     let rows = rev (filter (\<lambda>r.
           in_scope context tw (bq_storeId query) (ord_tenantId r) (ord_storeId r) \<and>
           order_tickets (ord_id r) d \<noteq> []) (orders d));
         shown = filter (\<lambda>r. listed (bq_boardStatus query)
                    (board_status_of r (order_tickets (ord_id r) d))) rows in
     Inr (jlist (map (\<lambda>r. mapBoardEntry r (order_tickets (ord_id r) d)) shown))))"

section \<open>The order follows its tickets\<close>

text \<open>The status the tickets give the order, if they give it one.\<close>

definition synced_status :: "OrderStatus \<Rightarrow> KitchenTicketStatus list \<Rightarrow> OrderStatus option" where
  "synced_status status ticketStatuses =
     (if list_ex (\<lambda>s. s = TkInProgress) ticketStatuses \<and> status = CONFIRMED then Some IN_PREPARATION
      else if length ticketStatuses > 0 \<and>
              list_all (\<lambda>s. s = TkReady \<or> s = TkCompleted) ticketStatuses \<and>
              status \<notin> set [READY, COMPLETED, CANCELLED] then Some READY
      else if length ticketStatuses > 0 \<and>
              list_all (\<lambda>s. s = TkCompleted \<or> s = TkCancelled) ticketStatuses \<and>
              status \<notin> set [COMPLETED, CANCELLED] then Some COMPLETED
      else None)"

definition synced :: "instant \<Rightarrow> OrderStatus \<Rightarrow> Order \<Rightarrow> Order" where
  "synced now nextStatus order = order\<lparr>ord_status := nextStatus,
     ord_readyAt := (if nextStatus = READY then Some (nullish (ord_readyAt order) now)
       else ord_readyAt order),
     ord_completedAt := (if nextStatus = COMPLETED then Some (nullish (ord_completedAt order) now)
       else ord_completedAt order),
     ord_updatedAt := now\<rparr>"

definition sync_log ::
  "RequestContext \<Rightarrow> instant \<Rightarrow> Order \<Rightarrow> OrderStatus \<Rightarrow> OrderStatus \<Rightarrow> db \<Rightarrow> db" where
  "sync_log context now syncedOrder fromStatus nextStatus d =
     (let eventPayload = JObj [(''orderId'', JStr (ord_id syncedOrder)),
            (''fromStatus'', JStr (show_order_status fromStatus)),
            (''toStatus'', JStr (show_order_status nextStatus)), (''reason'', JStr ''kitchen_runtime'')]
      in domainEvents_record \<lparr>ob_tenantId = Some (ord_tenantId syncedOrder),
             ob_eventName = ''order.status_changed'', ob_aggregate = ''order'',
             ob_aggregateId = ord_id syncedOrder, ob_payload = eventPayload\<rparr>
           (recordTx \<lparr>al_tenantId = Some (ord_tenantId syncedOrder),
               al_storeId = Some (ord_storeId syncedOrder), al_actorType = ''USER'',
               al_actorId = ctx_userId context, al_action = ''order.status_changed'',
               al_entityType = ''order'', al_entityId = ord_id syncedOrder,
               al_payload = Some eventPayload\<rparr>
             (recordOrderEvent now (ord_id syncedOrder) (ord_tenantId syncedOrder)
                (ord_storeId syncedOrder) ''order.status_changed'' eventPayload d)))"

definition syncOrderStatusFromTickets ::
  "RequestContext \<Rightarrow> instant \<Rightarrow> uuid \<Rightarrow> db \<Rightarrow> (json \<times> db) result" where
  "syncOrderStatusFromTickets context now orderId d =
     bnd (loadOrder orderId d) (\<lambda>order.
     let kitchenTickets = order_tickets orderId d in
     case synced_status (ord_status order) (map tk_status kitchenTickets) of
       None \<Rightarrow> Inr (mapBoardEntry order kitchenTickets, d)
     | Some nextStatus \<Rightarrow>
         let syncedOrder = synced now nextStatus order;
             d1 = order_update (ord_id order) (synced now nextStatus) d
         in Inr (mapBoardEntry syncedOrder kitchenTickets,
                 sync_log context now syncedOrder (ord_status order) nextStatus d1))"

section \<open>A ticket moves\<close>

record TransitionKitchenTicketDto =
  tkt_toStatus :: KitchenTicketStatus
  tkt_reason :: "string option"

definition ticket_moved :: "instant \<Rightarrow> KitchenTicketStatus \<Rightarrow> KitchenTicket \<Rightarrow> KitchenTicket" where
  "ticket_moved now to t = t\<lparr>tk_status := to,
     tk_startedAt := (if to = TkInProgress then Some now else tk_startedAt t),
     tk_readyAt := (if to = TkReady then Some now else tk_readyAt t),
     tk_completedAt := (if to = TkCompleted then Some now else tk_completedAt t),
     tk_cancelledAt := (if to = TkCancelled then Some now else tk_cancelledAt t),
     tk_updatedAt := now\<rparr>"

definition ticket_message :: "KitchenTicketStatus \<Rightarrow> KitchenTicketStatus \<Rightarrow> string" where
  "ticket_message a b =
     ''Kitchen ticket transition '' @ show_ticket_status a @ '' -> '' @ show_ticket_status b @
     '' is not allowed.''"

definition ticket_transition_log ::
  "RequestContext \<Rightarrow> KitchenTicket \<Rightarrow> KitchenTicketStatus \<Rightarrow> string option \<Rightarrow> db \<Rightarrow> db" where
  "ticket_transition_log context ticket fromStatus reason d =
     (let eventPayload = JObj [(''ticketId'', JStr (tk_id ticket)), (''orderId'', JStr (tk_orderId ticket)),
            (''stationKey'', JStr (tk_stationKey ticket)),
            (''fromStatus'', JStr (show_ticket_status fromStatus)),
            (''toStatus'', JStr (show_ticket_status (tk_status ticket))), (''reason'', jopt reason)]
      in domainEvents_record \<lparr>ob_tenantId = Some (tk_tenantId ticket),
             ob_eventName = ''kitchen.ticket_status_changed'', ob_aggregate = ''kitchen_ticket'',
             ob_aggregateId = tk_id ticket, ob_payload = eventPayload\<rparr>
           (recordTx \<lparr>al_tenantId = Some (tk_tenantId ticket), al_storeId = Some (tk_storeId ticket),
               al_actorType = ''USER'', al_actorId = ctx_userId context,
               al_action = ''kitchen.ticket_status_changed'', al_entityType = ''kitchen_ticket'',
               al_entityId = tk_id ticket, al_payload = Some eventPayload\<rparr> d))"

definition transitionTicket ::
  "RequestContext \<Rightarrow> instant \<Rightarrow> uuid \<Rightarrow> TransitionKitchenTicketDto \<Rightarrow> db \<Rightarrow> (json \<times> db) result" where
  "transitionTicket context now ticketId dto d =
     bnd (loadTicket ticketId d) (\<lambda>current.
     bnd (checkAccess context (tk_tenantId current) (tk_storeId current)) (\<lambda>_.
     bnd (ensure (canTransitionKitchenTicket (tk_status current) (tkt_toStatus dto))
            (BadRequestException (ticket_message (tk_status current) (tkt_toStatus dto)))) (\<lambda>_.
     let ticket = ticket_moved now (tkt_toStatus dto) current;
         d1 = ticket_update (tk_id current) (ticket_moved now (tkt_toStatus dto)) d;
         d2 = ticket_transition_log context ticket (tk_status current) (tkt_reason dto) d1 in
     bnd (syncOrderStatusFromTickets context now (tk_orderId ticket) d2) (\<lambda>(boardEntry, d3).
     let d4 = emitToStore now (tk_tenantId ticket) (tk_storeId ticket) ''kitchen.ticket.updated''
                (JObj [(''ticket'', mapKitchenTicket ticket)]) d3;
         d5 = emitToStore now (tk_tenantId ticket) (tk_storeId ticket) ''board.order.updated''
                (JObj [(''entry'', boardEntry)]) d4 in
     Inr (mapKitchenTicket ticket, d5)))))"

end
