(* ===== verification/OrderLaws.thy ===== *)
theory OrderLaws
  imports CartLaws InventoryLaws Kitchen
begin

text \<open>
  What checkout, the order transitions and the kitchen guarantee. \<open>logged\<close> and \<open>stock_moved\<close> say
  which tables a step may touch; \<open>orders_ok\<close> is the invariant of orders and tickets: an order's
  amounts are the totals of its own lines, it stands for exactly one converted cart, and no
  cancelled order has an open ticket.
\<close>

section \<open>What a step may touch\<close>

definition logged :: "db \<Rightarrow> db \<Rightarrow> bool" where
  "logged d d' \<longleftrightarrow> (\<exists>n e a ob r. db_seq d \<le> n \<and>
     d' = d\<lparr>db_seq := n, orderEvents := e, auditLogs := a, outbox := ob, realtime := r\<rparr>)"

definition stock_moved :: "db \<Rightarrow> db \<Rightarrow> bool" where
  "stock_moved d d' \<longleftrightarrow> (\<exists>n i s l. db_seq d \<le> n \<and>
     d' = d\<lparr>db_seq := n, invItems := i, reservations := s, ledger := l\<rparr>)"

lemma logged_refl [simp, intro]: "logged d d"
  unfolding logged_def by (rule exI [of _ "db_seq d"]) (cases d, auto)

lemma logged_trans [trans]:
  assumes "logged d d1" and "logged d1 d2"
  shows "logged d d2"
proof -
  from assms(2) obtain n e a ob r where d2: "db_seq d1 \<le> n"
    "d2 = d1\<lparr>db_seq := n, orderEvents := e, auditLogs := a, outbox := ob, realtime := r\<rparr>"
    by (auto simp: logged_def)
  have "db_seq d \<le> n \<and>
      d2 = d\<lparr>db_seq := n, orderEvents := e, auditLogs := a, outbox := ob, realtime := r\<rparr>"
    using assms(1) d2 by (auto simp: logged_def)
  then show ?thesis unfolding logged_def by blast
qed

lemma stock_moved_refl [simp, intro]: "stock_moved d d"
  unfolding stock_moved_def by (rule exI [of _ "db_seq d"]) (cases d, auto)

lemma stock_moved_trans [trans]:
  assumes "stock_moved d d1" and "stock_moved d1 d2"
  shows "stock_moved d d2"
proof -
  from assms(2) obtain n i s l where
    d2: "db_seq d1 \<le> n" "d2 = d1\<lparr>db_seq := n, invItems := i, reservations := s, ledger := l\<rparr>"
    by (auto simp: stock_moved_def)
  have "db_seq d \<le> n \<and> d2 = d\<lparr>db_seq := n, invItems := i, reservations := s, ledger := l\<rparr>"
    using assms(1) d2 by (auto simp: stock_moved_def)
  then show ?thesis unfolding stock_moved_def by blast
qed

lemma loggedD:
  assumes "logged d d'"
  shows "carts d' = carts d" "cartItems d' = cartItems d" "modifierOptions d' = modifierOptions d"
    "orders d' = orders d" "tickets d' = tickets d" "invItems d' = invItems d"
    "reservations d' = reservations d" "ledger d' = ledger d" "db_seq d \<le> db_seq d'"
    "products d' = products d" "storeSettings d' = storeSettings d" "tenantSettings d' = tenantSettings d"
    "categories d' = categories d"
  using assms by (auto simp: logged_def)

lemma stock_movedD:
  assumes "stock_moved d d'"
  shows "carts d' = carts d" "cartItems d' = cartItems d" "modifierOptions d' = modifierOptions d"
    "orders d' = orders d" "tickets d' = tickets d" "db_seq d \<le> db_seq d'"
  using assms by (auto simp: stock_moved_def)

lemma logged_stock:
  assumes "logged d d'"
  shows "stock_ok d \<Longrightarrow> stock_ok d'" "reservedAt w i d' = reservedAt w i d"
    "onHandAt w i d' = onHandAt w i d" "heldBy t oid w i d' = heldBy t oid w i d"
  using loggedD [OF assms] stock_ok_cong [of d' d]
  by (auto simp: level_defs getItemByWarehouseIngredientTx_def heldBy_def order_reservations_def)

lemma order_log_logged: "logged d (order_log context now order name a b c d)"
  unfolding logged_def order_log_def by (cases d) auto

lemma order_event_logged: "logged d (order_event_and_outbox now order name payload d)"
  unfolding logged_def order_event_and_outbox_def by (cases d) auto

lemma enqueue_logged: "logged d (enqueueStorefrontCustomerUpdates now order trigger template d)"
  using logged_trans [OF order_event_logged order_event_logged]
  by (simp add: enqueueStorefrontCustomerUpdates_def Let_def order_event_logged)

lemma placed_logged: "logged d (placed_log context now order cartId d)"
  by (simp add: placed_log_def order_log_logged)

lemma transition_logged: "logged d (transition_log context now order st dto d)"
  unfolding transition_log_def Let_def by (rule logged_trans [OF order_log_logged enqueue_logged])

lemma count_event_logged: "logged d (count_event now order type counter n d)"
  unfolding logged_def count_event_def by (cases d) auto

lemma ticket_log_logged: "logged d (ticket_log context now order ticket d)"
  unfolding logged_def ticket_log_def Let_def by (cases d) auto

lemma emit_logged: "logged d (emitToStore now t s type payload d)"
  unfolding logged_def by (cases d) auto

lemma emit_tickets_logged: "logged d (emit_tickets now ts d)"
  unfolding emit_tickets_def
  by (rule fold_preserves [where Q = "logged d"]) (use emit_logged logged_trans in blast)+

lemma sync_log_logged: "logged d (sync_log context now order a b d)"
  unfolding logged_def sync_log_def Let_def by (cases d) auto

lemma ticket_transition_logged: "logged d (ticket_transition_log context ticket a reason d)"
  unfolding logged_def ticket_transition_log_def Let_def by (cases d) auto

lemma reserve_entry_moved: "reserve_entry now t oid e d = Inr d' \<Longrightarrow> stock_moved d d'"
  unfolding stock_moved_def
  by (cases d)
    (auto simp: reserve_entry_def getOrCreateItemTx_def inventoryItem_create_def Let_def
      stockReservation_create_def inventoryItem_update_def split: option.splits)

lemma reserve_moved: "reserveOrderInventoryTx now t oid plan d = Inr d' \<Longrightarrow> stock_moved d d'"
  unfolding reserveOrderInventoryTx_def
  by (erule foldE_invariant [where P = "stock_moved d", rotated])
    (auto intro: stock_moved_trans reserve_entry_moved)

lemma with_item_moved:
  assumes "\<And>item. stock_moved d (step item r d)"
  shows "stock_moved d (with_item step r d)"
  using assms by (auto simp: with_item_def split: option.split)

lemma release_one_moved: "stock_moved d (release_one now item r d)"
  unfolding stock_moved_def release_one_def stockReservation_update_def inventoryItem_update_def
  by (cases d) auto

lemma consume_one_moved: "stock_moved d (consume_one now t m item r d)"
  unfolding stock_moved_def consume_one_def stockReservation_update_def inventoryItem_update_def
    stockLedgerEntry_create_def Let_def
  by (cases d) auto

lemma fold_moved:
  assumes "\<And>item r d. stock_moved d (step item r d)"
  shows "stock_moved d (fold (with_item step) rs d)"
  by (rule fold_preserves [where Q = "stock_moved d"])
    (use assms with_item_moved stock_moved_trans in blast)+

lemma release_moved: "releaseOrderInventoryReservationsTx now t oid d = (n, d') \<Longrightarrow> stock_moved d d'"
  using fold_moved [of "release_one now", OF release_one_moved]
  by (auto simp: releaseOrderInventoryReservationsTx_def Let_def)

lemma consume_moved: "consumeOrderInventoryReservationsTx now t oid d = (n, d') \<Longrightarrow> stock_moved d d'"
  using fold_moved [OF consume_one_moved]
  by (auto simp: consumeOrderInventoryReservationsTx_def Let_def)

section \<open>The invariant of orders and tickets\<close>

definition order_item_cents :: "OrderItem \<Rightarrow> int \<times> int option \<times> int" where
  "order_item_cents item = (oi_quantity item, oi_unitBasePrice item, oi_modifierTotal item)"

definition order_consistent :: "Order \<Rightarrow> bool" where
  "order_consistent r \<longleftrightarrow>
     (let t = cents_cart_totals (map order_item_cents (ord_items r)) (ord_fulfillmentFee r)
                (ord_discountTotal r)
      in ord_subtotal r = c_subtotal t \<and> ord_modifierTotal r = c_modifierTotal t \<and>
         recorded_discount (c_discountTotal t) (ord_discountTotal r) \<and> ord_total r = c_total t)"

text \<open>Every ticket belongs to an order the kitchen was handed, and an open one to no cancelled order.\<close>

definition ticket_allowed :: "OrderStatus \<Rightarrow> KitchenTicketStatus \<Rightarrow> bool" where
  "ticket_allowed s t \<longleftrightarrow> s \<noteq> PLACED \<and> (open_ticket t \<longrightarrow> s \<noteq> CANCELLED)"

definition orders_ok :: "db \<Rightarrow> bool" where
  "orders_ok d \<longleftrightarrow> distinct (map ord_id (orders d)) \<and> distinct (map tk_id (tickets d)) \<and>
     fresh_from (db_seq d) (map ord_id (orders d)) \<and> fresh_from (db_seq d) (map tk_id (tickets d)) \<and>
     distinct (map ord_cartId (orders d)) \<and>
     distinct (map (\<lambda>t. (tk_orderId t, tk_stationKey t)) (tickets d)) \<and>
     (\<forall>r \<in> set (orders d). order_consistent r) \<and>
     (\<forall>r \<in> set (orders d). \<exists>c \<in> set (carts d). ord_cartId r = Some (cart_id c) \<and> cart_status c = CONVERTED) \<and>
     (\<forall>t \<in> set (tickets d). \<exists>r \<in> set (orders d). ord_id r = tk_orderId t \<and>
        ticket_allowed (ord_status r) (tk_status t))"

lemma orders_okD:
  assumes "orders_ok d"
  shows "distinct (map ord_id (orders d))" "distinct (map tk_id (tickets d))"
    "fresh_from (db_seq d) (map ord_id (orders d))" "fresh_from (db_seq d) (map tk_id (tickets d))"
    "distinct (map ord_cartId (orders d))"
    "distinct (map (\<lambda>t. (tk_orderId t, tk_stationKey t)) (tickets d))"
    "r \<in> set (orders d) \<Longrightarrow> order_consistent r"
    "r \<in> set (orders d) \<Longrightarrow> \<exists>c \<in> set (carts d). ord_cartId r = Some (cart_id c) \<and> cart_status c = CONVERTED"
    "t \<in> set (tickets d) \<Longrightarrow> \<exists>r \<in> set (orders d). ord_id r = tk_orderId t \<and>
       ticket_allowed (ord_status r) (tk_status t)"
  using assms by (auto simp: orders_ok_def)

lemma orders_ok_cong:
  assumes "orders_ok d" and "orders d' = orders d" "tickets d' = tickets d" "db_seq d \<le> db_seq d'"
    and "\<And>c. c \<in> set (carts d) \<Longrightarrow> cart_status c = CONVERTED \<Longrightarrow>
      \<exists>c' \<in> set (carts d'). cart_id c' = cart_id c \<and> cart_status c' = CONVERTED"
  shows "orders_ok d'"
proof -
  have "\<exists>c \<in> set (carts d'). ord_cartId r = Some (cart_id c) \<and> cart_status c = CONVERTED"
    if r: "r \<in> set (orders d)" for r
  proof -
    obtain c where c: "c \<in> set (carts d)" "ord_cartId r = Some (cart_id c)" "cart_status c = CONVERTED"
      using orders_okD(8) [OF assms(1) r] by blast
    from assms(5) [OF c(1,3)] obtain c' where "c' \<in> set (carts d')" "cart_id c' = cart_id c"
      "cart_status c' = CONVERTED" by blast
    with c(2) show ?thesis by (intro bexI [of _ c']) simp_all
  qed
  with assms(1-4) show ?thesis
    by (simp add: orders_ok_def fresh_from_mono [OF _ assms(4)])
qed

lemma orders_ok_logged: "logged d d' \<Longrightarrow> orders_ok d \<Longrightarrow> orders_ok d'"
  by (erule orders_ok_cong) (auto simp: loggedD)

lemma orders_ok_moved: "stock_moved d d' \<Longrightarrow> orders_ok d \<Longrightarrow> orders_ok d'"
  by (erule orders_ok_cong) (auto simp: stock_movedD)

lemma order_getD: "order_get i d = Some r \<Longrightarrow> r \<in> set (orders d) \<and> ord_id r = i"
  by (auto simp: order_get_def dest: find_SomeD)

lemma order_get_in: "orders_ok d \<Longrightarrow> r \<in> set (orders d) \<Longrightarrow> order_get (ord_id r) d = Some r"
  unfolding order_get_def by (rule find_key_unique) (auto dest: orders_okD)

lemma ticket_getD: "ticket_get i d = Some t \<Longrightarrow> t \<in> set (tickets d) \<and> tk_id t = i"
  by (auto simp: ticket_get_def dest: find_SomeD)

lemma loadOrder_Inr: "loadOrder i d = Inr r \<longleftrightarrow> order_get i d = Some r"
  by (simp add: loadOrder_def)

lemma loadTicket_Inr: "loadTicket i d = Inr t \<longleftrightarrow> ticket_get i d = Some t"
  by (simp add: loadTicket_def)

section \<open>Checkout\<close>

lemma order_items_cents:
  "map order_item_cents (fst (create_rows (order_item now oid) items n)) = map item_cents (items :: CartItem list)"
  by (rule create_rows_map [where g = "\<lambda>n x. fst (order_item now oid n x)"])
    (simp_all add: order_item_def order_item_cents_def item_cents_def split: prod.split)

lemma order_items_products:
  "map (\<lambda>x. (oi_productId x, oi_variantId x, oi_quantity x, oi_lineTotal x, oi_snapshot x))
     (fst (create_rows (order_item now oid) items n)) =
   map (\<lambda>x. (ci_productId x, ci_variantId x, ci_quantity x, ci_lineTotal x, ci_snapshot x)) (items :: CartItem list)"
  by (rule create_rows_map [where g = "\<lambda>n x. fst (order_item now oid n x)"])
    (simp_all add: order_item_def split: prod.split)

lemma order_items_counter: "n \<le> snd (create_rows (order_item now oid) items n)"
proof (rule create_rows_counter)
  fix n and x :: CartItem
  have "Suc n \<le> snd (create_rows copy_modifier (ci_modifiers x) (Suc n))"
    by (rule create_rows_counter) (simp add: copy_modifier_def)
  then show "n \<le> snd (order_item now oid n x)" by (simp add: order_item_def case_prod_unfold Let_def)
qed

definition placed_items :: "instant \<Rightarrow> uuid \<Rightarrow> db \<Rightarrow> OrderItem list" where
  "placed_items now cartId d =
     fst (create_rows (order_item now (newId (db_seq d))) (cart_items cartId d) (Suc (Suc (db_seq d))))"

text \<open>The order a checkout places.\<close>

definition placed_order :: "instant \<Rightarrow> Cart \<Rightarrow> CheckoutCartDto \<Rightarrow> db \<Rightarrow> Order" where
  "placed_order now cart dto d =
     new_order now (newId (db_seq d)) (generateOrderNumber now (newId (Suc (db_seq d)))) cart dto
       (placed_items now (cart_id cart) d)"

lemma placed_order_simps [simp]:
  "ord_id (placed_order now c dto d) = newId (db_seq d)"
  "ord_tenantId (placed_order now c dto d) = cart_tenantId c"
  "ord_storeId (placed_order now c dto d) = cart_storeId c"
  "ord_cartId (placed_order now c dto d) = Some (cart_id c)"
  "ord_status (placed_order now c dto d) = PLACED"
  "ord_total (placed_order now c dto d) = cart_total c"
  "ord_subtotal (placed_order now c dto d) = cart_subtotal c"
  "ord_modifierTotal (placed_order now c dto d) = cart_modifierTotal c"
  "ord_fulfillmentFee (placed_order now c dto d) = cart_fulfillmentFee c"
  "ord_discountTotal (placed_order now c dto d) = cart_discountTotal c"
  "ord_items (placed_order now c dto d) = placed_items now (cart_id c) d"
  by (simp_all add: placed_order_def new_order_def)

lemma checkout_Inr:
  assumes "checkout context now cartId dto d = Inr (v, d')"
  shows "\<exists>c plan n d1. cart_get cartId d = Some c \<and> cart_status c = OPEN \<and>
    checkAccess context (cart_tenantId c) (cart_storeId c) = Inr () \<and> cart_items cartId d \<noteq> [] \<and>
    buildReservationPlanTx (cart_tenantId c) (cart_storeId c) (plan_items (cart_items cartId d)) d = Inr plan \<and>
    Some cartId \<notin> set (map ord_cartId (orders d)) \<and> db_seq d < n \<and>
    reserveOrderInventoryTx now (cart_tenantId c) (newId (db_seq d)) plan
      (order_create (placed_order now c dto d) (d\<lparr>db_seq := n\<rparr>)) = Inr d1 \<and>
    logged (cart_update cartId (converted now (placed_order now c dto d)) d1) d' \<and>
    v = mapOrder (placed_order now c dto d)"
  using assms unfolding checkout_def
  apply (clarsimp simp: loadCart_Inr ensureCartOpen_def Let_def case_prod_Inr)
  subgoal premises p for c plan items n d1
  proof -
    have i: "cart_id c = cartId" using cart_getD p by blast
    have items: "items = placed_items now cartId d" and n: "Suc (Suc (db_seq d)) \<le> n"
      using p order_items_counter [of "Suc (Suc (db_seq d))" now "newId (db_seq d)" "cart_items cartId d"]
      by (simp_all add: placed_items_def)
    have order: "new_order now (newId (db_seq d)) (generateOrderNumber now (newId (Suc (db_seq d)))) c dto items
        = placed_order now c dto d"
      by (simp add: placed_order_def items i)
    show ?thesis
      using p i n logged_trans [OF placed_logged enqueue_logged]
      unfolding order by - (intro conjI exI [of _ n] exI [of _ d1], auto)
  qed
  done

lemma levels_cong:
  assumes "invItems d' = invItems d" and "reservations d' = reservations d"
  shows "reservedAt w i d' = reservedAt w i d" "onHandAt w i d' = onHandAt w i d"
    "heldBy t oid w i d' = heldBy t oid w i d"
  using assms by (simp_all add: level_defs getItemByWarehouseIngredientTx_def heldBy_def order_reservations_def)

lemma in_update_where: "x \<in> set rows \<Longrightarrow> (if P x then f x else x) \<in> set (update_where P f rows)"
  by (auto simp: set_update_where)

lemma row_update_levels [simp]:
  "reservedAt w i (cart_update j f d) = reservedAt w i d"
  "onHandAt w i (cart_update j f d) = onHandAt w i d"
  "heldBy t oid w i (cart_update j f d) = heldBy t oid w i d"
  "reservedAt w i (order_update j g d) = reservedAt w i d"
  "onHandAt w i (order_update j g d) = onHandAt w i d"
  "heldBy t oid w i (order_update j g d) = heldBy t oid w i d"
  by (rule levels_cong; simp add: cart_update_def order_update_def)+

lemma row_update_stock: "stock_ok d \<Longrightarrow> stock_ok (cart_update j f d)"
    "stock_ok d \<Longrightarrow> stock_ok (order_update j g d)"
  by (auto elim!: stock_ok_cong [rotated 3] simp: cart_update_def order_update_def)

lemma checkout_effect:
  assumes ok: "stock_ok d" and run: "checkout context now cartId dto d = Inr (v, d')"
  obtains c plan where "cart_get cartId d = Some c" "cart_status c = OPEN"
    "checkAccess context (cart_tenantId c) (cart_storeId c) = Inr ()" "cart_items cartId d \<noteq> []"
    "buildReservationPlanTx (cart_tenantId c) (cart_storeId c) (plan_items (cart_items cartId d)) d = Inr plan"
    "Some cartId \<notin> set (map ord_cartId (orders d))"
    "orders d' = orders d @ [placed_order now c dto d]"
    "carts d' = update_where (\<lambda>x. cart_id x = cartId) (converted now (placed_order now c dto d)) (carts d)"
    "cartItems d' = cartItems d" "modifierOptions d' = modifierOptions d" "tickets d' = tickets d"
    "db_seq d < db_seq d'" "stock_ok d'"
    "\<And>w i. reservedAt w i d' = reservedAt w i d + planned w i plan"
    "\<And>w i. onHandAt w i d' = onHandAt w i d"
    "\<And>t oid w i. heldBy t oid w i d' = heldBy t oid w i d +
      (if t = cart_tenantId c \<and> oid = newId (db_seq d) then planned w i plan else 0)"
    "v = mapOrder (placed_order now c dto d)"
proof -
  from checkout_Inr [OF run] obtain c plan n d1 where
    c: "cart_get cartId d = Some c" "cart_status c = OPEN"
      "checkAccess context (cart_tenantId c) (cart_storeId c) = Inr ()" "cart_items cartId d \<noteq> []"
    and plan: "buildReservationPlanTx (cart_tenantId c) (cart_storeId c) (plan_items (cart_items cartId d)) d
        = Inr plan"
    and fresh: "Some cartId \<notin> set (map ord_cartId (orders d))" and n: "db_seq d < n"
    and res: "reserveOrderInventoryTx now (cart_tenantId c) (newId (db_seq d)) plan
      (order_create (placed_order now c dto d) (d\<lparr>db_seq := n\<rparr>)) = Inr d1"
    and log: "logged (cart_update cartId (converted now (placed_order now c dto d)) d1) d'"
    and v: "v = mapOrder (placed_order now c dto d)" by blast
  let ?d0 = "order_create (placed_order now c dto d) (d\<lparr>db_seq := n\<rparr>)"
  have d0: "invItems ?d0 = invItems d" "reservations ?d0 = reservations d" "db_seq ?d0 = n"
    by (simp_all add: order_create_def)
  have "stock_ok ?d0" using d0 n by (intro stock_ok_cong [OF _ _ _ ok]) simp_all
  note R = sp.reserve_law [OF this _ res] and B = buildReservationPlanTx_nonneg [OF plan]
  have R': "stock_ok d1 \<and> reservedAt w i d1 = reservedAt w i d + planned w i plan \<and>
      onHandAt w i d1 = onHandAt w i d \<and> heldBy t oid w i d1 = heldBy t oid w i d +
      (if t = cart_tenantId c \<and> oid = newId (db_seq d) then planned w i plan else 0)" for w i t oid
    using R [of w i t oid] B less_imp_le unfolding levels_cong [OF d0(1,2)] by blast
  note M = stock_movedD [OF reserve_moved [OF res]] and L = loggedD [OF log]
  show thesis
    by (rule that [OF c plan fresh])
      (use M L n R' v in \<open>simp_all add: logged_stock [OF log] row_update_stock,
        simp_all add: cart_update_def order_create_def\<close>)
qed

lemma placed_consistent:
  assumes "cart_consistent c (cart_items (cart_id c) d)"
  shows "order_consistent (placed_order now c dto d)"
  using assms unfolding order_consistent_def cart_consistent_def
  by (simp add: placed_items_def order_items_cents)

lemma checkout_ok:
  assumes s: "stock_ok d" and c: "carts_ok d" and ok: "orders_ok d"
    and run: "checkout context now cartId dto d = Inr (v, d')"
  shows "stock_ok d'" "carts_ok d'" "orders_ok d'"
proof -
  from checkout_effect [OF s run] obtain cart where
    cart: "cart_get cartId d = Some cart" and fresh: "Some cartId \<notin> set (map ord_cartId (orders d))"
    and os: "orders d' = orders d @ [placed_order now cart dto d]"
    and cs: "carts d' = update_where (\<lambda>x. cart_id x = cartId)
      (converted now (placed_order now cart dto d)) (carts d)"
    and same: "cartItems d' = cartItems d" "modifierOptions d' = modifierOptions d" "tickets d' = tickets d"
    and seq: "db_seq d < db_seq d'" and s': "stock_ok d'" by metis
  let ?f = "converted now (placed_order now cart dto d)"
  show "stock_ok d'" by (rule s')
  have cart': "cart \<in> set (carts d)" "cart_id cart = cartId" using cart_getD [OF cart] by auto
  have cons: "cart_consistent cart (cart_items cartId d)" using c cart' by (auto simp: carts_ok_def)
  show "carts_ok d'"
    by (rule carts_ok_update [OF c cart cs same(1,2)])
      (use seq cons in \<open>simp_all add: converted_def cart_consistent_def\<close>)
  have conv: "\<exists>c' \<in> set (carts d'). cart_id c' = cart_id x \<and> cart_status c' = CONVERTED"
    if "x \<in> set (carts d)" "cart_status x = CONVERTED \<or> cart_id x = cartId" for x
    using that in_update_where [of x "carts d" "\<lambda>x. cart_id x = cartId"]
    unfolding cs by (intro bexI [of _ "if cart_id x = cartId then ?f x else x"]) (auto simp: converted_def)
  have "newId (db_seq d) \<notin> set (map ord_id (orders d))"
    using orders_okD(3) [OF ok] by (rule fresh_fromD) simp
  moreover have "\<exists>c' \<in> set (carts d'). Some cartId = Some (cart_id c') \<and> cart_status c' = CONVERTED"
    using conv [OF cart'(1)] cart'(2) by metis
  moreover have "\<exists>c' \<in> set (carts d'). ord_cartId r = Some (cart_id c') \<and> cart_status c' = CONVERTED"
    if "r \<in> set (orders d)" for r
    using orders_okD(8) [OF ok that] conv by metis
  moreover have "order_consistent (placed_order now cart dto d)"
    using cons cart' by (intro placed_consistent) simp
  ultimately show "orders_ok d'"
    using ok fresh cart' seq less_imp_le [OF seq] unfolding orders_ok_def os same
    by (auto simp: fresh_from_mono)
qed

end
