(* ===== verification/KitchenLaws.thy ===== *)
theory KitchenLaws
  imports OrderLaws
begin

text \<open>
  What a transition of an order or of a kitchen ticket does, and that both keep \<open>orders_ok\<close>. The
  tickets of a confirmed order partition its items by station.
\<close>

section \<open>Items by station\<close>

definition station_of :: "Order \<Rightarrow> db \<Rightarrow> OrderItem \<Rightarrow> string option" where
  "station_of order d item =
     map_option (\<lambda>p. resolveKitchenStationKey (order_routing order d) (pr_code p) (category_code (categories d) p))
       (find (\<lambda>p. pr_id p = oi_productId item) (products d))"

definition grouping :: "('i \<Rightarrow> string option) \<Rightarrow> 'i list \<Rightarrow> (string \<times> 'i list) list \<Rightarrow> bool" where
  "grouping st items gs \<longleftrightarrow> distinct (map fst gs) \<and>
     (\<forall>k xs. (k, xs) \<in> set gs \<longleftrightarrow> xs = filter (\<lambda>x. st x = Some k) items \<and> xs \<noteq> [])"

lemma group_item_keys: "fst ` set (group_item k x m) = insert k (fst ` set m)"
  by (induction k x m rule: group_item.induct) auto

lemma group_item_distinct: "distinct (map fst m) \<Longrightarrow> distinct (map fst (group_item k x m))"
proof (induction k x m rule: group_item.induct)
  case (2 k x k' xs m)
  have "k' \<noteq> k \<Longrightarrow> k' \<in> fst ` set (group_item k x m) \<longleftrightarrow> k' \<in> fst ` set m"
    using group_item_keys [of k x m] by auto
  with 2 show ?case by auto
qed simp

lemma group_item_set:
  "distinct (map fst m) \<Longrightarrow> (k, xs) \<in> set (group_item k' x m) \<longleftrightarrow>
     (if k = k' then xs = (case map_of m k of None \<Rightarrow> [] | Some ys \<Rightarrow> ys) @ [x] else (k, xs) \<in> set m)"
proof (induction k' x m rule: group_item.induct)
  case (2 k' x k1 ys m)
  have "map_of m k1 = None" using 2(2) by (simp add: map_of_eq_None_iff)
  with 2 show ?case by (cases "k1 = k'") (auto simp: image_iff)
qed auto

lemma grouping_snoc:
  assumes g: "grouping st items gs" and k: "st x = Some k"
  shows "grouping st (items @ [x]) (group_item k x gs)"
proof -
  have d: "distinct (map fst gs)" and m: "\<And>k xs. (k, xs) \<in> set gs \<longleftrightarrow>
      xs = filter (\<lambda>x. st x = Some k) items \<and> xs \<noteq> []"
    using g by (auto simp: grouping_def)
  have "(case map_of gs k of None \<Rightarrow> [] | Some ys \<Rightarrow> ys) = filter (\<lambda>x. st x = Some k) items"
  proof (cases "map_of gs k")
    case None
    then have "\<forall>xs. (k, xs) \<notin> set gs" by (auto simp: map_of_eq_None_iff image_iff)
    with m [of k "filter (\<lambda>x. st x = Some k) items"] None show ?thesis by auto
  next
    case (Some ys)
    then have "(k, ys) \<in> set gs" by (rule map_of_SomeD)
    with m Some show ?thesis by simp
  qed
  with d m k show ?thesis
    unfolding grouping_def by (auto simp: group_item_distinct group_item_set)
qed

lemma grouping_skip: "grouping st items gs \<Longrightarrow> st x = None \<Longrightarrow> grouping st (items @ [x]) gs"
  by (simp add: grouping_def)

lemma groupedItems_grouping: "grouping (station_of order d) (ord_items order) (groupedItems order d)"
proof -
  have "grouping (station_of order d) items
      (fold (route_item (order_routing order d) (categories d) (products d)) items [])" for items
  proof (induction items rule: rev_induct)
    case Nil
    then show ?case by (simp add: grouping_def)
  next
    case (snoc x items)
    then show ?case
      by (cases "find (\<lambda>p. pr_id p = oi_productId x) (products d)")
        (auto simp: route_item_def station_of_def intro: grouping_snoc grouping_skip)
  qed
  then show ?thesis by (simp add: groupedItems_def)
qed

section \<open>The tickets of a confirmed order\<close>

definition ticket_for :: "Order \<Rightarrow> string \<times> OrderItem list \<Rightarrow> KitchenTicket \<Rightarrow> bool" where
  "ticket_for order = (\<lambda>(stationKey, items) t.
     tk_orderId t = ord_id order \<and> tk_tenantId t = ord_tenantId order \<and>
     tk_storeId t = ord_storeId order \<and> tk_stationKey t = stationKey \<and> tk_status t = TkNew \<and>
     map kti_orderItemId (tk_items t) = map oi_id items \<and>
     tk_itemCount t = sum_list (map oi_quantity items))"

lemma foldl_quantity: "foldl (\<lambda>n item. n + oi_quantity item) k items = k + sum_list (map oi_quantity items)"
  by (induction items arbitrary: k) simp_all

lemma ticket_items:
  "map kti_orderItemId (fst (create_rows (ticket_item now t) items n)) = map oi_id items"
  "n \<le> snd (create_rows (ticket_item now t) items n)"
  by (rule create_rows_map [where g = "\<lambda>n x. fst (ticket_item now t n x)"] create_rows_counter;
      simp add: ticket_item_def)+

text \<open>The ids of the rows a step created.\<close>

definition new_ids :: "nat \<Rightarrow> nat \<Rightarrow> KitchenTicket list \<Rightarrow> bool" where
  "new_ids lo hi ts \<longleftrightarrow> distinct (map tk_id ts) \<and>
     (\<forall>t \<in> set ts. \<exists>k. lo \<le> k \<and> k < hi \<and> tk_id t = newId k)"

lemma new_ids_Nil [simp]: "new_ids lo hi []"
  by (simp add: new_ids_def)

lemma new_ids_mono: "new_ids lo hi ts \<Longrightarrow> lo' \<le> lo \<Longrightarrow> hi \<le> hi' \<Longrightarrow> new_ids lo' hi' ts"
  unfolding new_ids_def by (meson le_trans less_le_trans)

lemma new_ids_Cons:
  assumes "tk_id t = newId lo" and "lo < mid" and "mid \<le> hi" and "new_ids mid hi ts"
  shows "new_ids lo hi (t # ts)"
proof -
  have "new_ids lo hi ts" using assms(2,4) by (intro new_ids_mono [OF assms(4)]) simp_all
  moreover have "tk_id t \<notin> set (map tk_id ts)" using assms(1,2,4) by (fastforce simp: new_ids_def)
  ultimately show ?thesis using assms(1-3) by (auto simp: new_ids_def)
qed

lemma new_ids_fresh:
  assumes "new_ids lo hi ts" and "fresh_from lo ids"
  shows "set (map tk_id ts) \<inter> set ids = {}" "lo \<le> hi \<Longrightarrow> fresh_from hi (ids @ map tk_id ts)"
  using assms by (fastforce simp: new_ids_def fresh_from_def)+

lemma logged_seq: "db_seq d \<le> n \<Longrightarrow> logged d (d\<lparr>db_seq := n\<rparr>)"
  unfolding logged_def
  by (rule exI [of _ n], rule exI [of _ "orderEvents d"], rule exI [of _ "auditLogs d"],
      rule exI [of _ "outbox d"], rule exI [of _ "realtime d"]) simp

lemma create_ticket_Inr:
  assumes "(ord_id order, fst g) \<notin> set (map (\<lambda>t. (tk_orderId t, tk_stationKey t)) (tickets d))"
  shows "\<exists>t d'. create_ticket context now order g (d, created) = Inr (d', created @ [t]) \<and>
    ticket_for order g t \<and> tk_id t = newId (db_seq d) \<and> db_seq d < db_seq d' \<and>
    logged (d\<lparr>tickets := tickets d @ [t]\<rparr>) d'"
proof -
  obtain k items where g: "g = (k, items)" by (cases g)
  obtain rows n where rows: "create_rows (ticket_item now (newId (db_seq d))) items (Suc (db_seq d)) = (rows, n)"
    by force
  define t where "t = new_ticket now order (newId (db_seq d)) k items rows"
  have n: "Suc (db_seq d) \<le> n" and ids: "map kti_orderItemId rows = map oi_id items"
    using ticket_items [where now = now and t = "newId (db_seq d)" and items = items and n = "Suc (db_seq d)"]
      rows by auto
  let ?d1 = "ticket_create t (d\<lparr>db_seq := n\<rparr>)"
  have run: "create_ticket context now order g (d, created) =
      Inr (ticket_log context now order t ?d1, created @ [t])"
    using assms rows by (simp add: create_ticket_def g Let_def t_def)
  have "?d1 = (d\<lparr>tickets := tickets d @ [t]\<rparr>)\<lparr>db_seq := n\<rparr>" by (simp add: ticket_create_def)
  then have "logged (d\<lparr>tickets := tickets d @ [t]\<rparr>) ?d1"
    using logged_seq [of "d\<lparr>tickets := tickets d @ [t]\<rparr>" n] n by simp
  then have "logged (d\<lparr>tickets := tickets d @ [t]\<rparr>) (ticket_log context now order t ?d1)"
    by (rule logged_trans) (rule ticket_log_logged)
  moreover have "n \<le> db_seq (ticket_log context now order t ?d1)"
    using loggedD(9) [OF ticket_log_logged, of ?d1 "context" now order t] by (simp add: ticket_create_def)
  moreover have "ticket_for order g t"
    by (simp add: ticket_for_def g t_def new_ticket_def ids foldl_quantity)
  moreover have "tk_id t = newId (db_seq d)" by (simp add: t_def new_ticket_def)
  ultimately show ?thesis
    using run n by (intro exI [of _ t] exI [of _ "ticket_log context now order t ?d1"]) simp
qed

lemma logged_tickets:
  assumes "logged d d'"
  shows "logged (d\<lparr>tickets := ts\<rparr>) (d'\<lparr>tickets := ts\<rparr>)"
proof -
  from assms obtain n e a ob r where "db_seq d \<le> n"
    "d' = d\<lparr>db_seq := n, orderEvents := e, auditLogs := a, outbox := ob, realtime := r\<rparr>"
    by (auto simp: logged_def)
  then have "db_seq (d\<lparr>tickets := ts\<rparr>) \<le> n \<and> d'\<lparr>tickets := ts\<rparr> = (d\<lparr>tickets := ts\<rparr>)
      \<lparr>db_seq := n, orderEvents := e, auditLogs := a, outbox := ob, realtime := r\<rparr>" by simp
  then show ?thesis unfolding logged_def by blast
qed

lemma create_tickets_Inr:
  assumes "distinct (map fst gs)"
    and "\<And>k. k \<in> fst ` set gs \<Longrightarrow>
      (ord_id order, k) \<notin> set (map (\<lambda>t. (tk_orderId t, tk_stationKey t)) (tickets d))"
  shows "\<exists>new d'. foldE (create_ticket context now order) gs (d, created) = Inr (d', created @ new) \<and>
    list_all2 (ticket_for order) gs new \<and> new_ids (db_seq d) (db_seq d') new \<and>
    logged (d\<lparr>tickets := tickets d @ new\<rparr>) d'"
  using assms
proof (induction gs arbitrary: d created)
  case Nil
  then show ?case by (intro exI [of _ "[]"] exI [of _ d]) simp
next
  case (Cons g gs)
  from create_ticket_Inr [of order g d "context" now created] Cons.prems obtain t d1 where
    one: "create_ticket context now order g (d, created) = Inr (d1, created @ [t])"
    and t: "ticket_for order g t" "tk_id t = newId (db_seq d)" "db_seq d < db_seq d1"
    and l1: "logged (d\<lparr>tickets := tickets d @ [t]\<rparr>) d1" by auto
  have "tk_stationKey t = fst g" using t(1) by (cases g) (simp add: ticket_for_def)
  then have "(ord_id order, k) \<notin> set (map (\<lambda>t. (tk_orderId t, tk_stationKey t)) (tickets d1))"
    if "k \<in> fst ` set gs" for k
    using Cons.prems that loggedD(5) [OF l1] by (auto simp: image_iff)
  with Cons.IH [of d1 "created @ [t]"] Cons.prems(1) obtain new d' where
    rest: "foldE (create_ticket context now order) gs (d1, created @ [t]) = Inr (d', created @ t # new)"
    and new: "list_all2 (ticket_for order) gs new" "new_ids (db_seq d1) (db_seq d') new"
    and l2: "logged (d1\<lparr>tickets := tickets d1 @ new\<rparr>) d'" by auto
  have "logged (d\<lparr>tickets := tickets d @ t # new\<rparr>) (d1\<lparr>tickets := tickets d1 @ new\<rparr>)"
    using logged_tickets [OF l1, of "tickets d @ t # new"] loggedD(5) [OF l1] by simp
  then have log: "logged (d\<lparr>tickets := tickets d @ t # new\<rparr>) d'" using l2 by (rule logged_trans)
  have seq: "db_seq d1 \<le> db_seq d'" using loggedD(9) [OF l2] by simp
  have "new_ids (db_seq d) (db_seq d') (t # new)" by (rule new_ids_Cons [OF t(2,3) seq new(2)])
  then show ?case
    using one rest new t log by (intro exI [of _ "t # new"] exI [of _ d']) auto
qed

section \<open>A transition of an order, step by step\<close>

lemma moved_keeps [simp]:
  "ord_id (moved now dto r) = ord_id r" "ord_tenantId (moved now dto r) = ord_tenantId r"
  "ord_storeId (moved now dto r) = ord_storeId r" "ord_items (moved now dto r) = ord_items r"
  "ord_cartId (moved now dto r) = ord_cartId r" "ord_status (moved now dto r) = tr_toStatus dto"
  "ord_total (moved now dto r) = ord_total r"
  "order_consistent (moved now dto r) = order_consistent r"
  by (simp_all add: moved_def Let_def order_consistent_def)

lemma grouped_logged:
  assumes "products d' = products d" "categories d' = categories d" "storeSettings d' = storeSettings d" "tenantSettings d' = tenantSettings d"
  shows "groupedItems (moved now dto r) d' = groupedItems r d"
  using assms by (simp add: groupedItems_def order_routing_def)

lemma ticket_for_moved [simp]: "ticket_for (moved now dto r) = ticket_for r"
  by (simp add: ticket_for_def fun_eq_iff)

lemma confirm_step_Inr:
  assumes none: "order_tickets (ord_id r) d = []"
  shows "\<exists>d' new. confirm_step context now r d = Inr (d', new) \<and>
    list_all2 (ticket_for r) (groupedItems r d) new \<and> new_ids (db_seq d) (db_seq d') new \<and>
    logged (d\<lparr>tickets := tickets d @ new\<rparr>) d'"
proof -
  define d0 where "d0 = order_log context now r ''order.kitchen_handoff_requested''
    (JObj [(''orderId'', JStr (ord_id r)), (''storeId'', JStr (ord_storeId r)),
           (''channel'', JStr (show_channel (ord_channel r))),
           (''itemCount'', jint (int (length (ord_items r))))])
    (JObj [(''orderId'', JStr (ord_id r)), (''storeId'', JStr (ord_storeId r)),
           (''channel'', JStr (show_channel (ord_channel r))),
           (''itemCount'', jint (int (length (ord_items r))))])
    (JObj [(''orderId'', JStr (ord_id r)), (''storeId'', JStr (ord_storeId r)),
           (''channel'', JStr (show_channel (ord_channel r))),
           (''itemCount'', jint (int (length (ord_items r))))]) d"
  have log: "logged d d0" unfolding d0_def by (rule order_log_logged)
  note L = loggedD [OF log]
  have none0: "order_tickets (ord_id r) d0 = []" using none L by (simp add: order_tickets_def)
  have groups: "groupedItems r d0 = groupedItems r d"
    using L by (simp add: groupedItems_def order_routing_def)
  have "distinct (map fst (groupedItems r d))" using groupedItems_grouping by (auto simp: grouping_def)
  moreover have "(ord_id r, k) \<notin> set (map (\<lambda>t. (tk_orderId t, tk_stationKey t)) (tickets d0))" for k
    using none0 by (auto simp: order_tickets_def filter_empty_conv)
  ultimately obtain new d' where
    run: "foldE (create_ticket context now r) (groupedItems r d) (d0, []) = Inr (d', [] @ new)"
    and new: "list_all2 (ticket_for r) (groupedItems r d) new" "new_ids (db_seq d0) (db_seq d') new"
    and l: "logged (d0\<lparr>tickets := tickets d0 @ new\<rparr>) d'"
    using create_tickets_Inr [of "groupedItems r d" r d0 "context" now "[]"] by blast
  have "confirm_step context now r d = Inr (d', new)"
    using run none0 by (simp add: confirm_step_def createKitchenTicketsForOrder_def Let_def groups
        d0_def [symmetric])
  moreover have "logged (d\<lparr>tickets := tickets d @ new\<rparr>) d'"
    using logged_trans [OF logged_tickets [OF log] l [unfolded L(5)]] .
  ultimately show ?thesis
    using new(1) new_ids_mono [OF new(2) L(9)] by (intro exI [of _ d'] exI [of _ new]) simp
qed

definition closed_tickets :: "instant \<Rightarrow> uuid \<Rightarrow> KitchenTicket list \<Rightarrow> KitchenTicket list" where
  "closed_tickets now i ts = update_where (\<lambda>t. tk_orderId t = i \<and> open_ticket (tk_status t))
     (\<lambda>t. t\<lparr>tk_status := TkCancelled, tk_cancelledAt := Some now, tk_updatedAt := now\<rparr>) ts"

lemma cancel_step_effect:
  obtains n d1 where "releaseOrderInventoryReservationsTx now (ord_tenantId r) (ord_id r) d = (n, d1)"
    "logged (d1\<lparr>tickets := closed_tickets now (ord_id r) (tickets d)\<rparr>) (cancel_step now r d)"
proof -
  obtain n d1 where rel: "releaseOrderInventoryReservationsTx now (ord_tenantId r) (ord_id r) d = (n, d1)"
    by (cases "releaseOrderInventoryReservationsTx now (ord_tenantId r) (ord_id r) d")
  have t: "tickets d1 = tickets d" using stock_movedD [OF release_moved [OF rel]] by simp
  show thesis
    by (rule that [OF rel])
      (simp add: cancel_step_def rel Let_def cancelKitchenTicketsForOrder_def closed_tickets_def t
        logged_trans [OF count_event_logged count_event_logged])
qed

lemma complete_step_effect:
  obtains n d1 where "consumeOrderInventoryReservationsTx now (ord_tenantId r) (ord_id r) d = (n, d1)"
    "logged d1 (complete_step now r d)"
proof -
  obtain n d1 where con: "consumeOrderInventoryReservationsTx now (ord_tenantId r) (ord_id r) d = (n, d1)"
    by (cases "consumeOrderInventoryReservationsTx now (ord_tenantId r) (ord_id r) d")
  show thesis
    by (rule that [OF con]) (simp add: complete_step_def con Let_def count_event_logged)
qed

lemma transitionOrder_run:
  assumes r: "order_get i d = Some r" and acc: "checkAccess context (ord_tenantId r) (ord_storeId r) = Inr ()"
    and can: "canTransitionOrder (ord_status r) (tr_toStatus dto)"
    and d2: "d2 = transition_log context now (moved now dto r) (ord_status r) dto
      (order_update i (moved now dto) d)"
    and d3: "(if tr_toStatus dto = CONFIRMED then confirm_step context now (moved now dto r) d2
      else Inr (d2, [])) = Inr (d3, new)"
  obtains d' where "transitionOrder context now i dto d = Inr (mapOrder (moved now dto r), d')"
    "logged (if tr_toStatus dto = CANCELLED then cancel_step now (moved now dto r) d3
       else if tr_toStatus dto = COMPLETED then complete_step now (moved now dto r) d3 else d3) d'"
proof -
  have i: "ord_id r = i" using order_getD [OF r] by simp
  define d4 where "d4 = (if tr_toStatus dto = CANCELLED then cancel_step now (moved now dto r) d3 else d3)"
  define d5 where "d5 = (if tr_toStatus dto = COMPLETED then complete_step now (moved now dto r) d4 else d4)"
  define d6 where "d6 = emit_tickets now new d5"
  define d7 where "d7 = (if new \<noteq> [] \<or> tr_toStatus dto = CANCELLED
     then emitToStore now (ord_tenantId (moved now dto r)) (ord_storeId (moved now dto r))
       ''board.order.updated'' (JObj [(''orderId'', JStr (ord_id (moved now dto r)))]) d6 else d6)"
  note d3' = d3 [unfolded d2, folded i]
  have "transitionOrder context now i dto d = Inr (mapOrder (moved now dto r), d7)"
    using r acc can
    by (simp add: transitionOrder_def loadOrder_def Let_def d3' d7_def
        split del: if_split del: emitToStore_def)
      (unfold d6_def d5_def d4_def, rule refl)
  moreover have "logged d6 d7" unfolding d7_def using emit_logged by auto
  then have "logged d5 d7" unfolding d6_def by (rule logged_trans [OF emit_tickets_logged])
  moreover have "d5 = (if tr_toStatus dto = CANCELLED then cancel_step now (moved now dto r) d3
       else if tr_toStatus dto = COMPLETED then complete_step now (moved now dto r) d3 else d3)"
    by (simp add: d4_def d5_def)
  ultimately show thesis using that by simp
qed

lemma tickets_of_placed:
  assumes ok: "orders_ok d" and r: "order_get i d = Some r" "ord_status r = PLACED"
  shows "order_tickets i d = []"
proof -
  have "tk_orderId t \<noteq> i" if t: "t \<in> set (tickets d)" for t
  proof
    assume "tk_orderId t = i"
    with orders_okD(9) [OF ok t] obtain r' where r': "r' \<in> set (orders d)" "ord_id r' = i"
      "ticket_allowed (ord_status r') (tk_status t)" by auto
    with r order_get_in [OF ok r'(1)] show False by (simp add: ticket_allowed_def)
  qed
  then show ?thesis by (simp add: order_tickets_def filter_empty_conv)
qed

text \<open>What a transition that its guards let through leaves behind.\<close>

definition order_stock_step :: "OrderStatus \<Rightarrow> uuid \<Rightarrow> uuid \<Rightarrow> db \<Rightarrow> db \<Rightarrow> bool" where
  "order_stock_step to t oid d d' \<longleftrightarrow> stock_ok d' \<and>
     (\<forall>w i. reservedAt w i d' =
        (if to \<in> {CANCELLED, COMPLETED} then reservedAt w i d - heldBy t oid w i d else reservedAt w i d)) \<and>
     (\<forall>w i. to \<noteq> COMPLETED \<longrightarrow> onHandAt w i d' = onHandAt w i d) \<and>
     (\<forall>w i. to = COMPLETED \<longrightarrow> heldBy t oid w i d \<le> onHandAt w i d \<longrightarrow>
        onHandAt w i d' = onHandAt w i d - heldBy t oid w i d) \<and>
     (\<forall>t' o' w i. heldBy t' o' w i d' =
        (if to \<in> {CANCELLED, COMPLETED} \<and> t' = t \<and> o' = oid then 0 else heldBy t' o' w i d))"

lemma stock_step_cong:
  assumes "order_stock_step to t oid d d1" and "logged d1 d2"
  shows "order_stock_step to t oid d d2"
  using assms(1) unfolding order_stock_step_def by (simp add: logged_stock [OF assms(2)])

lemma stock_step_from:
  assumes "order_stock_step to t oid d d2" and "\<And>w i. reservedAt w i d = reservedAt w i d0"
    "\<And>w i. onHandAt w i d = onHandAt w i d0" "\<And>t o' w i. heldBy t o' w i d = heldBy t o' w i d0"
  shows "order_stock_step to t oid d0 d2"
  using assms by (simp add: order_stock_step_def)

lemma stock_step_none: "stock_ok d \<Longrightarrow> to \<notin> {CANCELLED, COMPLETED} \<Longrightarrow> order_stock_step to t oid d d"
  by (simp add: order_stock_step_def)

lemma tickets_levels [simp]:
  "reservedAt w i (d\<lparr>tickets := ts\<rparr>) = reservedAt w i d" "onHandAt w i (d\<lparr>tickets := ts\<rparr>) = onHandAt w i d"
  "heldBy t oid w i (d\<lparr>tickets := ts\<rparr>) = heldBy t oid w i d"
  by (rule levels_cong; simp)+

lemma tickets_stock: "stock_ok d \<Longrightarrow> stock_ok (d\<lparr>tickets := ts\<rparr>)"
  by (erule stock_ok_cong [rotated 3]) simp_all

lemma tickets_stock_step:
  "order_stock_step to t oid d d1 \<Longrightarrow> order_stock_step to t oid d (d1\<lparr>tickets := ts\<rparr>)"
  by (simp add: order_stock_step_def tickets_stock)

lemma cancel_stock_step:
  assumes "stock_ok d"
  shows "order_stock_step CANCELLED (ord_tenantId r) (ord_id r) d (cancel_step now r d)"
proof -
  obtain n d1 where rel: "releaseOrderInventoryReservationsTx now (ord_tenantId r) (ord_id r) d = (n, d1)"
    and l: "logged (d1\<lparr>tickets := closed_tickets now (ord_id r) (tickets d)\<rparr>) (cancel_step now r d)"
    by (rule cancel_step_effect)
  have "order_stock_step CANCELLED (ord_tenantId r) (ord_id r) d d1"
    using sp.release_law [OF assms rel] unfolding order_stock_step_def by auto
  then show ?thesis by (rule stock_step_cong [OF tickets_stock_step l])
qed

lemma complete_stock_step:
  assumes "stock_ok d"
  shows "order_stock_step COMPLETED (ord_tenantId r) (ord_id r) d (complete_step now r d)"
proof -
  obtain n d1 where con: "consumeOrderInventoryReservationsTx now (ord_tenantId r) (ord_id r) d = (n, d1)"
    and l: "logged d1 (complete_step now r d)" by (rule complete_step_effect)
  have "order_stock_step COMPLETED (ord_tenantId r) (ord_id r) d d1"
    using sp.consume_law [OF assms con] unfolding order_stock_step_def by auto
  then show ?thesis by (rule stock_step_cong [OF _ l])
qed

lemma cancel_step_frame:
  "tickets (cancel_step now r d) = closed_tickets now (ord_id r) (tickets d)"
  "orders (cancel_step now r d) = orders d" "carts (cancel_step now r d) = carts d"
  "cartItems (cancel_step now r d) = cartItems d" "modifierOptions (cancel_step now r d) = modifierOptions d"
  "db_seq d \<le> db_seq (cancel_step now r d)"
proof -
  obtain n d1 where rel: "releaseOrderInventoryReservationsTx now (ord_tenantId r) (ord_id r) d = (n, d1)"
    and l: "logged (d1\<lparr>tickets := closed_tickets now (ord_id r) (tickets d)\<rparr>) (cancel_step now r d)"
    by (rule cancel_step_effect)
  note M = stock_movedD [OF release_moved [OF rel]] and L = loggedD [OF l, simplified]
  show "tickets (cancel_step now r d) = closed_tickets now (ord_id r) (tickets d)"
    "orders (cancel_step now r d) = orders d" "carts (cancel_step now r d) = carts d"
    "cartItems (cancel_step now r d) = cartItems d" "modifierOptions (cancel_step now r d) = modifierOptions d"
    "db_seq d \<le> db_seq (cancel_step now r d)"
    using M L by simp_all
qed

lemma complete_step_frame:
  "tickets (complete_step now r d) = tickets d"
  "orders (complete_step now r d) = orders d" "carts (complete_step now r d) = carts d"
  "cartItems (complete_step now r d) = cartItems d" "modifierOptions (complete_step now r d) = modifierOptions d"
  "db_seq d \<le> db_seq (complete_step now r d)"
proof -
  obtain n d1 where con: "consumeOrderInventoryReservationsTx now (ord_tenantId r) (ord_id r) d = (n, d1)"
    and l: "logged d1 (complete_step now r d)" by (rule complete_step_effect)
  note M = stock_movedD [OF consume_moved [OF con]] and L = loggedD [OF l]
  show "tickets (complete_step now r d) = tickets d"
    "orders (complete_step now r d) = orders d" "carts (complete_step now r d) = carts d"
    "cartItems (complete_step now r d) = cartItems d" "modifierOptions (complete_step now r d) = modifierOptions d"
    "db_seq d \<le> db_seq (complete_step now r d)"
    using M L by simp_all
qed

text \<open>A transition its guards let through always succeeds, and this is all it does.\<close>

definition order_moved ::
  "instant \<Rightarrow> uuid \<Rightarrow> TransitionOrderDto \<Rightarrow> Order \<Rightarrow> KitchenTicket list \<Rightarrow> db \<Rightarrow> db \<Rightarrow> bool" where
  "order_moved now i dto r new d d' \<longleftrightarrow>
     orders d' = update_where (\<lambda>x. ord_id x = i) (moved now dto) (orders d) \<and>
     carts d' = carts d \<and> cartItems d' = cartItems d \<and> modifierOptions d' = modifierOptions d \<and>
     db_seq d \<le> db_seq d' \<and>
     tickets d' = (if tr_toStatus dto = CANCELLED then closed_tickets now i (tickets d) else tickets d @ new) \<and>
     (if tr_toStatus dto = CONFIRMED
      then order_tickets i d = [] \<and> list_all2 (ticket_for r) (groupedItems r d) new else new = []) \<and>
     new_ids (db_seq d) (db_seq d') new \<and>
     order_stock_step (tr_toStatus dto) (ord_tenantId r) i d d'"

lemma order_moved_logged: "order_moved now i dto r new d d1 \<Longrightarrow> logged d1 d2 \<Longrightarrow> order_moved now i dto r new d d2"
  unfolding order_moved_def
  by (simp add: loggedD)
    (metis stock_step_cong new_ids_mono loggedD(9) order_trans order_refl)

lemma transitionOrder_effect:
  assumes ok: "orders_ok d" and s: "stock_ok d" and r: "order_get i d = Some r"
    and acc: "checkAccess context (ord_tenantId r) (ord_storeId r) = Inr ()"
    and can: "canTransitionOrder (ord_status r) (tr_toStatus dto)"
  shows "\<exists>d' new. transitionOrder context now i dto d = Inr (mapOrder (moved now dto r), d') \<and>
    order_moved now i dto r new d d'"
proof -
  let ?to = "tr_toStatus dto"
  define d1 where "d1 = order_update i (moved now dto) d"
  define d2 where "d2 = transition_log context now (moved now dto r) (ord_status r) dto d1"
  have i: "ord_id r = i" using order_getD [OF r] by simp
  have l2: "logged d1 d2" unfolding d2_def by (rule transition_logged)
  note L = loggedD [OF l2]
  have one: "orders d1 = update_where (\<lambda>x. ord_id x = i) (moved now dto) (orders d)" "tickets d1 = tickets d"
    "carts d1 = carts d" "cartItems d1 = cartItems d" "modifierOptions d1 = modifierOptions d"
    "db_seq d1 = db_seq d" "products d1 = products d" "categories d1 = categories d" "storeSettings d1 = storeSettings d"
    "tenantSettings d1 = tenantSettings d"
    by (simp_all add: d1_def order_update_def)
  have lev: "stock_ok d2" "\<And>w x. reservedAt w x d2 = reservedAt w x d" "\<And>w x. onHandAt w x d2 = onHandAt w x d"
    "\<And>t o' w x. heldBy t o' w x d2 = heldBy t o' w x d"
    using s by (simp_all add: logged_stock [OF l2] d1_def row_update_stock)
  have from2: "order_stock_step to t oid d2 d' \<Longrightarrow> order_stock_step to t oid d d'" for to t oid d'
    using lev by (auto intro: stock_step_from)
  have placed: "?to = CONFIRMED \<Longrightarrow> order_tickets i d = []"
    using can tickets_of_placed [OF ok r] by (auto simp: canTransitionOrder_iff)
  obtain d3 new where d3: "(if ?to = CONFIRMED then confirm_step context now (moved now dto r) d2
      else Inr (d2, [])) = Inr (d3, new)"
    and dm: "order_moved now i dto r new d (if ?to = CANCELLED then cancel_step now (moved now dto r) d3
       else if ?to = COMPLETED then complete_step now (moved now dto r) d3 else d3)"
  proof (cases "?to = CONFIRMED")
    case True
    have "order_tickets (ord_id (moved now dto r)) d2 = []"
      using placed [OF True] i L one by (simp add: order_tickets_def)
    from confirm_step_Inr [OF this, of "context" now] obtain d3 new where
      c: "confirm_step context now (moved now dto r) d2 = Inr (d3, new)"
      "list_all2 (ticket_for r) (groupedItems r d) new" "new_ids (db_seq d2) (db_seq d3) new"
      and l3: "logged (d2\<lparr>tickets := tickets d2 @ new\<rparr>) d3"
      using L one grouped_logged [of d2 d now dto r] by auto
    note L3 = loggedD [OF l3, simplified]
    have "order_stock_step ?to (ord_tenantId r) i d2 d3"
      using True lev(1) by (intro stock_step_cong [OF tickets_stock_step l3] stock_step_none) simp_all
    then have "order_moved now i dto r new d d3"
      unfolding order_moved_def
      using c(2) L L3 one placed True from2 new_ids_mono [OF c(3), of "db_seq d" "db_seq d3"] by simp
    then show thesis using that c True by simp
  next
    case False
    consider "?to = CANCELLED" | "?to = COMPLETED" | "?to \<notin> {CANCELLED, COMPLETED}" by auto
    then have "order_moved now i dto r [] d (if ?to = CANCELLED then cancel_step now (moved now dto r) d2
       else if ?to = COMPLETED then complete_step now (moved now dto r) d2 else d2)"
    proof cases
      case 1
      have "order_stock_step CANCELLED (ord_tenantId r) i d2 (cancel_step now (moved now dto r) d2)"
        using cancel_stock_step [OF lev(1), of "moved now dto r"] i by simp
      with 1 show ?thesis
        using L one i cancel_step_frame [where now = now and r = "moved now dto r" and d = d2] from2
        by (simp add: order_moved_def)
    next
      case 2
      have "order_stock_step COMPLETED (ord_tenantId r) i d2 (complete_step now (moved now dto r) d2)"
        using complete_stock_step [OF lev(1), of "moved now dto r"] i by simp
      with 2 show ?thesis
        using L one i complete_step_frame [where now = now and r = "moved now dto r" and d = d2] from2
        by (simp add: order_moved_def)
    next
      case 3
      with False show ?thesis
        using L one from2 [OF stock_step_none [OF lev(1)]] by (simp add: order_moved_def)
    qed
    then show thesis using that False by simp
  qed
  from transitionOrder_run [OF r acc can d2_def [unfolded d1_def] d3] obtain d' where
    "transitionOrder context now i dto d = Inr (mapOrder (moved now dto r), d')"
    "logged (if ?to = CANCELLED then cancel_step now (moved now dto r) d3
       else if ?to = COMPLETED then complete_step now (moved now dto r) d3 else d3) d'" .
  with order_moved_logged [OF dm] show ?thesis by blast
qed

lemma transitionOrder_guards:
  assumes "transitionOrder context now i dto d = Inr (v, d')"
  shows "\<exists>r. order_get i d = Some r \<and> checkAccess context (ord_tenantId r) (ord_storeId r) = Inr () \<and>
    canTransitionOrder (ord_status r) (tr_toStatus dto)"
  using assms unfolding transitionOrder_def by (auto simp: loadOrder_def)

lemma transitionOrder_Inr:
  assumes ok: "orders_ok d" and s: "stock_ok d" and run: "transitionOrder context now i dto d = Inr (v, d')"
  obtains r new where "order_get i d = Some r"
    "checkAccess context (ord_tenantId r) (ord_storeId r) = Inr ()"
    "canTransitionOrder (ord_status r) (tr_toStatus dto)" "v = mapOrder (moved now dto r)"
    "order_moved now i dto r new d d'"
proof -
  from transitionOrder_guards [OF run] obtain r where r: "order_get i d = Some r"
    "checkAccess context (ord_tenantId r) (ord_storeId r) = Inr ()"
    "canTransitionOrder (ord_status r) (tr_toStatus dto)" by blast
  obtain d1 new where "transitionOrder context now i dto d = Inr (mapOrder (moved now dto r), d1)"
    "order_moved now i dto r new d d1"
    using transitionOrder_effect [OF ok s r] by blast
  with run show thesis by (intro that [OF r, of new]) simp_all
qed

section \<open>Both kinds of transition keep the invariant\<close>

lemma update_order_allowed:
  assumes os: "orders d' = update_where (\<lambda>x. ord_id x = i) f (orders d)" and f: "\<And>x. ord_id (f x) = ord_id x"
    and r: "r \<in> set (orders d)" "ord_id r = oid"
  shows "\<exists>r' \<in> set (orders d'). ord_id r' = oid \<and> r' = (if oid = i then f r else r)"
  using in_update_where [OF r(1), of "\<lambda>x. ord_id x = i" f] r(2) f unfolding os
  by (intro bexI [of _ "if oid = i then f r else r"]) auto

lemma orders_ok_update:
  assumes ok: "orders_ok d" and os: "orders d' = update_where (\<lambda>x. ord_id x = i) f (orders d)"
    and f: "\<And>x. ord_id (f x) = ord_id x" "\<And>x. ord_cartId (f x) = ord_cartId x"
      "\<And>x. order_consistent (f x) = order_consistent x"
    and cs: "carts d' = carts d" and seq: "db_seq d \<le> db_seq d'"
    and ts: "distinct (map tk_id (tickets d'))" "fresh_from (db_seq d') (map tk_id (tickets d'))"
      "distinct (map (\<lambda>t. (tk_orderId t, tk_stationKey t)) (tickets d'))"
    and allowed: "\<And>t. t \<in> set (tickets d') \<Longrightarrow> \<exists>r \<in> set (orders d'). ord_id r = tk_orderId t \<and>
      ticket_allowed (ord_status r) (tk_status t)"
  shows "orders_ok d'"
proof -
  have keys: "map ord_id (orders d') = map ord_id (orders d)" "map ord_cartId (orders d') = map ord_cartId (orders d)"
    unfolding os using f by (simp_all add: map_update_where_key)
  have old: "\<exists>x \<in> set (orders d). ord_cartId r = ord_cartId x \<and> order_consistent r = order_consistent x"
    if "r \<in> set (orders d')" for r
    using that f unfolding os set_update_where by auto
  have "order_consistent r \<and> (\<exists>c \<in> set (carts d'). ord_cartId r = Some (cart_id c) \<and> cart_status c = CONVERTED)"
    if "r \<in> set (orders d')" for r
    using old [OF that] orders_okD(7,8) [OF ok] cs by metis
  then show ?thesis
    using orders_okD(1,3,5) [OF ok] ts allowed fresh_from_mono [OF _ seq]
    unfolding orders_ok_def keys by simp
qed

lemma list_all2_keys:
  assumes "list_all2 (ticket_for r) gs new"
  shows "map tk_stationKey new = map fst gs" "t \<in> set new \<Longrightarrow> tk_orderId t = ord_id r \<and> tk_status t = TkNew"
  using assms by (induction rule: list_all2_induct) (auto simp: ticket_for_def)

lemma order_moved_ok:
  assumes ok: "orders_ok d" and r: "order_get i d = Some r"
    and can: "canTransitionOrder (ord_status r) (tr_toStatus dto)" and mv: "order_moved now i dto r new d d'"
  shows "orders_ok d'"
proof -
  note D = orders_okD [OF ok] and M = mv [unfolded order_moved_def]
  have os: "orders d' = update_where (\<lambda>x. ord_id x = i) (moved now dto) (orders d)" using M by simp
  have rr: "r \<in> set (orders d)" "ord_id r = i" using order_getD [OF r] by auto
  have only: "x = r" if "x \<in> set (orders d)" "ord_id x = i" for x
    using distinct_key_eq [OF D(1)] rr that by metis
  have to: "tr_toStatus dto \<noteq> PLACED" using can by (auto simp: canTransitionOrder_iff)
  note up = update_order_allowed [OF os moved_keeps(1)]
  have closed: "\<exists>x \<in> set (orders d'). ord_id x = tk_orderId t \<and> ticket_allowed (ord_status x) (tk_status t)"
    if "t0 \<in> set (tickets d)" "tk_orderId t = tk_orderId t0" "tk_status t = tk_status t0 \<or> \<not> open_ticket (tk_status t)"
      "tr_toStatus dto = CANCELLED \<longrightarrow> tk_orderId t = i \<longrightarrow> \<not> open_ticket (tk_status t)" for t t0
  proof -
    from D(9) [OF that(1)] obtain x where x: "x \<in> set (orders d)" "ord_id x = tk_orderId t0"
      "ticket_allowed (ord_status x) (tk_status t0)" by blast
    from up [OF x(1,2)] obtain x' where "x' \<in> set (orders d')" "ord_id x' = tk_orderId t0"
      "x' = (if tk_orderId t0 = i then moved now dto x else x)" by blast
    then show ?thesis using that(2-4) x to by (intro bexI [of _ x']) (auto simp: ticket_allowed_def)
  qed
  show ?thesis
  proof (cases "tr_toStatus dto = CANCELLED")
    case True
    then have ts: "tickets d' = closed_tickets now i (tickets d)" using M by simp
    have keys: "map tk_id (tickets d') = map tk_id (tickets d)"
      "map (\<lambda>t. (tk_orderId t, tk_stationKey t)) (tickets d') = map (\<lambda>t. (tk_orderId t, tk_stationKey t)) (tickets d)"
      unfolding ts closed_tickets_def by (rule map_update_where_key; simp)+
    have "\<exists>t0 \<in> set (tickets d). tk_orderId t = tk_orderId t0 \<and>
        (tk_status t = tk_status t0 \<or> \<not> open_ticket (tk_status t)) \<and>
        (tk_orderId t = i \<longrightarrow> \<not> open_ticket (tk_status t))" if "t \<in> set (tickets d')" for t
      using that unfolding ts closed_tickets_def set_update_where by (auto simp: open_ticket_def)
    with closed have allowed: "\<exists>x \<in> set (orders d'). ord_id x = tk_orderId t \<and>
        ticket_allowed (ord_status x) (tk_status t)" if "t \<in> set (tickets d')" for t
      using that by meson
    show ?thesis
      by (rule orders_ok_update [OF ok os]) (use M D keys allowed fresh_from_mono in simp_all)
  next
    case False
    then have ts: "tickets d' = tickets d @ new" using M by simp
    have new: "list_all2 (ticket_for r) (groupedItems r d) new \<and> order_tickets i d = [] \<and>
      tr_toStatus dto = CONFIRMED \<or> new = []" using M by (auto split: if_splits)
    have ids: "distinct (map tk_id (tickets d'))" "fresh_from (db_seq d') (map tk_id (tickets d'))"
      using M D(2,4) new_ids_fresh [of "db_seq d" "db_seq d'" new "map tk_id (tickets d)"]
      unfolding ts by (auto simp: new_ids_def)
    have st: "distinct (map (\<lambda>t. (tk_orderId t, tk_stationKey t)) (tickets d'))"
      using new
    proof
      assume n: "list_all2 (ticket_for r) (groupedItems r d) new \<and> order_tickets i d = [] \<and>
        tr_toStatus dto = CONFIRMED"
      have "distinct (map tk_stationKey new)"
        using groupedItems_grouping [of r d] list_all2_keys(1) n by (metis grouping_def)
      then have "distinct (map (\<lambda>t. (tk_orderId t, tk_stationKey t)) new)"
        by (auto simp: distinct_map inj_on_def)
      moreover have "tk_orderId t \<noteq> i" if "t \<in> set (tickets d)" for t
        using n that by (auto simp: order_tickets_def filter_empty_conv)
      moreover have "tk_orderId t = i" if "t \<in> set new" for t
        using n that list_all2_keys(2) rr(2) by metis
      ultimately show ?thesis using D(6) unfolding ts by auto
    next
      assume "new = []"
      with D(6) show ?thesis unfolding ts by simp
    qed
    have "\<exists>x \<in> set (orders d'). ord_id x = tk_orderId t \<and> ticket_allowed (ord_status x) (tk_status t)"
      if t: "t \<in> set (tickets d')" for t
    proof (cases "t \<in> set (tickets d)")
      case True
      then show ?thesis using closed [of t t] False by blast
    next
      case nt: False
      with t new have n: "list_all2 (ticket_for r) (groupedItems r d) new" "tr_toStatus dto = CONFIRMED" "t \<in> set new"
        unfolding ts by auto
      from up [OF rr] have "moved now dto r \<in> set (orders d')" by auto
      then show ?thesis using list_all2_keys(2) [OF n(1,3)] n(2)
        by (intro bexI [of _ "moved now dto r"]) (auto simp: ticket_allowed_def)
    qed
    then show ?thesis
      by (intro orders_ok_update [OF ok os]) (use M ids st in simp_all)
  qed
qed

section \<open>A transition of a kitchen ticket\<close>

lemma synced_status_cases:
  assumes "synced_status st ts = Some s"
  shows "s \<in> {IN_PREPARATION, READY, COMPLETED} \<and> st \<noteq> CANCELLED \<and> st \<noteq> COMPLETED \<and> st \<noteq> s"
  using assms by (auto simp: synced_status_def split: if_splits)

lemma synced_keeps [simp]:
  "ord_id (synced now s r) = ord_id r" "ord_cartId (synced now s r) = ord_cartId r"
  "ord_status (synced now s r) = s" "ord_total (synced now s r) = ord_total r"
  "order_consistent (synced now s r) = order_consistent r"
  by (simp_all add: synced_def order_consistent_def)

lemma ticket_moved_keeps [simp]:
  "tk_id (ticket_moved now s t) = tk_id t" "tk_orderId (ticket_moved now s t) = tk_orderId t"
  "tk_stationKey (ticket_moved now s t) = tk_stationKey t" "tk_status (ticket_moved now s t) = s"
  by (simp_all add: ticket_moved_def)

text \<open>The statuses of an order's tickets after one of them moved.\<close>

definition statuses_after :: "uuid \<Rightarrow> uuid \<Rightarrow> KitchenTicketStatus \<Rightarrow> db \<Rightarrow> KitchenTicketStatus list" where
  "statuses_after oid i s d = map (\<lambda>t. if tk_id t = i then s else tk_status t) (order_tickets oid d)"

lemma statuses_after_update:
  "map tk_status (order_tickets oid (ticket_update i (ticket_moved now s) d)) = statuses_after oid i s d"
proof -
  have "map tk_status (filter (\<lambda>t. tk_orderId t = oid) (update_where (\<lambda>t. tk_id t = i) (ticket_moved now s) ts)) =
      map (\<lambda>t. if tk_id t = i then s else tk_status t) (filter (\<lambda>t. tk_orderId t = oid) ts)" for ts
    by (induction ts) (auto simp: update_where_Cons)
  then show ?thesis by (simp add: order_tickets_def ticket_update_def statuses_after_def)
qed

definition ticket_step :: "instant \<Rightarrow> uuid \<Rightarrow> KitchenTicketStatus \<Rightarrow> KitchenTicket \<Rightarrow> Order \<Rightarrow> db \<Rightarrow> db \<Rightarrow> bool" where
  "ticket_step now i s t r d d' \<longleftrightarrow>
     tickets d' = update_where (\<lambda>x. tk_id x = i) (ticket_moved now s) (tickets d) \<and>
     orders d' = (case synced_status (ord_status r) (statuses_after (ord_id r) i s d) of
        None \<Rightarrow> orders d
      | Some next \<Rightarrow> update_where (\<lambda>x. ord_id x = ord_id r) (synced now next) (orders d)) \<and>
     carts d' = carts d \<and> cartItems d' = cartItems d \<and> modifierOptions d' = modifierOptions d \<and>
     invItems d' = invItems d \<and> reservations d' = reservations d \<and> ledger d' = ledger d \<and>
     db_seq d \<le> db_seq d'"

lemma sync_Inr:
  assumes r: "order_get oid d = Some r"
  shows "\<exists>v d'. syncOrderStatusFromTickets context now oid d = Inr (v, d') \<and>
    logged (case synced_status (ord_status r) (map tk_status (order_tickets oid d)) of
        None \<Rightarrow> d | Some next \<Rightarrow> order_update oid (synced now next) d) d'"
  using r order_getD [OF r] sync_log_logged
  by (auto simp: syncOrderStatusFromTickets_def loadOrder_def Let_def split: option.split)

lemma transitionTicket_effect:
  assumes ok: "orders_ok d" and t: "ticket_get i d = Some t"
    and acc: "checkAccess context (tk_tenantId t) (tk_storeId t) = Inr ()"
    and can: "canTransitionKitchenTicket (tk_status t) (tkt_toStatus dto)"
  shows "\<exists>r d'. order_get (tk_orderId t) d = Some r \<and>
    transitionTicket context now i dto d = Inr (mapKitchenTicket (ticket_moved now (tkt_toStatus dto) t), d') \<and>
    ticket_step now i (tkt_toStatus dto) t r d d'"
proof -
  let ?s = "tkt_toStatus dto"
  have tt: "t \<in> set (tickets d)" "tk_id t = i" using ticket_getD [OF t] by auto
  obtain r where r: "r \<in> set (orders d)" "ord_id r = tk_orderId t" using orders_okD(9) [OF ok tt(1)] by blast
  have get: "order_get (tk_orderId t) d = Some r" using order_get_in [OF ok r(1)] r(2) by simp
  define d1 where "d1 = ticket_update i (ticket_moved now ?s) d"
  define d2 where "d2 = ticket_transition_log context (ticket_moved now ?s t) (tk_status t) (tkt_reason dto) d1"
  have l2: "logged d1 d2" unfolding d2_def by (rule ticket_transition_logged)
  note L2 = loggedD [OF l2]
  have get2: "order_get (tk_orderId t) d2 = Some r"
    using get L2 by (simp add: order_get_def d1_def ticket_update_def)
  have st: "map tk_status (order_tickets (tk_orderId t) d2) = statuses_after (tk_orderId t) i ?s d"
    using L2(5) statuses_after_update [of "tk_orderId t" i now ?s d] by (simp add: order_tickets_def d1_def)
  from sync_Inr [OF get2, of "context" now, unfolded st] obtain b d3 where
    sync: "syncOrderStatusFromTickets context now (tk_orderId t) d2 = Inr (b, d3)"
    and l3: "logged (case synced_status (ord_status r) (statuses_after (tk_orderId t) i ?s d) of
        None \<Rightarrow> d2 | Some next \<Rightarrow> order_update (tk_orderId t) (synced now next) d2) d3" by blast
  define d4 where "d4 = emitToStore now (tk_tenantId (ticket_moved now ?s t)) (tk_storeId (ticket_moved now ?s t))
    ''board.order.updated'' (JObj [(''entry'', b)])
    (emitToStore now (tk_tenantId (ticket_moved now ?s t)) (tk_storeId (ticket_moved now ?s t))
      ''kitchen.ticket.updated'' (JObj [(''ticket'', mapKitchenTicket (ticket_moved now ?s t))]) d3)"
  have l4: "logged d3 d4" unfolding d4_def by (rule logged_trans [OF emit_logged emit_logged])
  have run: "transitionTicket context now i dto d = Inr (mapKitchenTicket (ticket_moved now ?s t), d4)"
    using t acc can tt(2) sync
    by (simp add: transitionTicket_def loadTicket_def Let_def d4_def d2_def d1_def del: emitToStore_def)
  note L = loggedD [OF logged_trans [OF l3 l4]]
  have "ticket_step now i ?s t r d d4"
    unfolding ticket_step_def using L L2 r(2)
    by (cases "synced_status (ord_status r) (statuses_after (tk_orderId t) i ?s d)")
      (simp_all add: d1_def ticket_update_def order_update_def)
  with get run show ?thesis by blast
qed

lemma transitionTicket_Inr:
  assumes ok: "orders_ok d" and run: "transitionTicket context now i dto d = Inr (v, d')"
  obtains t r where "ticket_get i d = Some t" "order_get (tk_orderId t) d = Some r"
    "checkAccess context (tk_tenantId t) (tk_storeId t) = Inr ()"
    "canTransitionKitchenTicket (tk_status t) (tkt_toStatus dto)"
    "v = mapKitchenTicket (ticket_moved now (tkt_toStatus dto) t)"
    "ticket_step now i (tkt_toStatus dto) t r d d'"
proof -
  from run obtain t where t: "ticket_get i d = Some t"
    "checkAccess context (tk_tenantId t) (tk_storeId t) = Inr ()"
    "canTransitionKitchenTicket (tk_status t) (tkt_toStatus dto)"
    unfolding transitionTicket_def by (auto simp: loadTicket_def)
  obtain r d1 where "order_get (tk_orderId t) d = Some r"
    "transitionTicket context now i dto d = Inr (mapKitchenTicket (ticket_moved now (tkt_toStatus dto) t), d1)"
    "ticket_step now i (tkt_toStatus dto) t r d d1"
    using transitionTicket_effect [OF ok t] by blast
  with run t show thesis by (intro that [of t r]) simp_all
qed

lemma ticket_step_ok:
  assumes ok: "orders_ok d" and t: "ticket_get i d = Some t" and r: "order_get (tk_orderId t) d = Some r"
    and can: "canTransitionKitchenTicket (tk_status t) s" and st: "ticket_step now i s t r d d'"
  shows "orders_ok d'"
proof -
  note D = orders_okD [OF ok] and S = st [unfolded ticket_step_def]
  define f where "f = (case synced_status (ord_status r) (statuses_after (ord_id r) i s d) of
    None \<Rightarrow> (\<lambda>x. x) | Some next \<Rightarrow> synced now next)"
  have tt: "t \<in> set (tickets d)" "tk_id t = i" using ticket_getD [OF t] by auto
  have rr: "r \<in> set (orders d)" "ord_id r = tk_orderId t" using order_getD [OF r] by auto
  have os: "orders d' = update_where (\<lambda>x. ord_id x = ord_id r) f (orders d)"
    using S by (auto simp: f_def update_where_def split: option.splits)
  have f: "ord_id (f x) = ord_id x" "ord_cartId (f x) = ord_cartId x" "order_consistent (f x) = order_consistent x" for x
    by (simp_all add: f_def split: option.split)
  have only: "x = r" if "x \<in> set (orders d)" "ord_id x = ord_id r" for x
    using distinct_key_eq [OF D(1)] rr that by metis
  have "ticket_allowed (ord_status r) (tk_status t)"
    using D(9) [OF tt(1)] only rr(2) by metis
  moreover have "open_ticket (tk_status t)"
    using can by (auto simp: canTransitionKitchenTicket_iff open_ticket_def)
  ultimately have live: "ord_status r \<noteq> PLACED" "ord_status r \<noteq> CANCELLED"
    by (auto simp: ticket_allowed_def)
  have fr: "ord_status (f r) \<noteq> PLACED" "ord_status (f r) \<noteq> CANCELLED"
    using live synced_status_cases [of "ord_status r"] by (auto simp: f_def split: option.split)
  have keys: "map tk_id (tickets d') = map tk_id (tickets d)"
    "map (\<lambda>t. (tk_orderId t, tk_stationKey t)) (tickets d') = map (\<lambda>t. (tk_orderId t, tk_stationKey t)) (tickets d)"
    using S by (auto intro!: map_update_where_key)
  have "\<exists>x \<in> set (orders d'). ord_id x = tk_orderId u \<and> ticket_allowed (ord_status x) (tk_status u)"
    if u: "u \<in> set (tickets d')" for u
  proof -
    from u S obtain u0 where u0: "u0 \<in> set (tickets d)" "tk_orderId u = tk_orderId u0"
      "tk_status u = tk_status u0 \<or> u0 = t"
      using distinct_key_eq [OF D(2)] tt by (auto simp: set_update_where)
    from D(9) [OF u0(1)] obtain x where x: "x \<in> set (orders d)" "ord_id x = tk_orderId u0"
      "ticket_allowed (ord_status x) (tk_status u0)" by blast
    from update_order_allowed [OF os f(1) x(1,2)] obtain x' where x': "x' \<in> set (orders d')"
      "ord_id x' = tk_orderId u0" "x' = (if tk_orderId u0 = ord_id r then f x else x)" by blast
    show ?thesis
    proof (cases "tk_orderId u0 = ord_id r")
      case True
      then have "x = r" using x by (intro only) simp_all
      with True x' have "x' = f r" by simp
      with x' u0 fr show ?thesis by (intro bexI [of _ x']) (auto simp: ticket_allowed_def)
    next
      case False
      then have "u0 \<noteq> t" using rr by auto
      with False x' x u0 show ?thesis by (intro bexI [of _ x']) auto
    qed
  qed
  then show ?thesis
    by (intro orders_ok_update [OF ok os f]) (use S D keys fresh_from_mono in auto)
qed

end
