(* ===== verification/Invariants.thy ===== *)
theory Invariants
  imports KitchenLaws
begin

text \<open>
  What holds of the whole database between two requests, and what a handler may do to it:
  \<open>api_ok\<close> is the conjunction of the invariants of carts, stock, orders and tickets,
  \<open>order_grows\<close> what no request undoes of an order, and \<open>core_step\<close> the promise every handler
  makes of both. The shapes most handlers have (only logs, only carts, only stock, a change of an
  order's own fields) keep the promise once and for all.
\<close>

definition api_ok :: "db \<Rightarrow> bool" where
  "api_ok d \<longleftrightarrow> stock_ok d \<and> carts_ok d \<and> orders_ok d"

lemma api_okD: "api_ok d \<Longrightarrow> stock_ok d" "api_ok d \<Longrightarrow> carts_ok d" "api_ok d \<Longrightarrow> orders_ok d"
  by (auto simp: api_ok_def)

section \<open>What the services leave alone of each other\<close>

definition outside_carts :: "db \<Rightarrow> db \<Rightarrow> bool" where
  "outside_carts d d' \<longleftrightarrow> orders d' = orders d \<and> tickets d' = tickets d \<and> invItems d' = invItems d \<and>
     reservations d' = reservations d \<and> db_seq d \<le> db_seq d' \<and>
     (\<forall>c \<in> set (carts d). \<exists>c' \<in> set (carts d'). cart_id c' = cart_id c \<and> cart_status c' = cart_status c)"

definition outside_stock :: "db \<Rightarrow> db \<Rightarrow> bool" where
  "outside_stock d d' \<longleftrightarrow> orders d' = orders d \<and> tickets d' = tickets d \<and> carts d' = carts d \<and>
     cartItems d' = cartItems d \<and> modifierOptions d' = modifierOptions d \<and> db_seq d \<le> db_seq d'"

lemma outside_carts_ok:
  assumes "outside_carts d d'" and "stock_ok d" and "orders_ok d"
  shows "stock_ok d' \<and> orders_ok d'"
proof
  show "stock_ok d'" using assms(1,2) by (auto simp: outside_carts_def intro: stock_ok_cong)
  show "orders_ok d'"
    by (rule orders_ok_cong [OF assms(3)]) (use assms(1) in \<open>simp_all add: outside_carts_def, metis\<close>)
qed

lemma outside_stock_ok:
  assumes "outside_stock d d'" and "carts_ok d" and "orders_ok d"
  shows "carts_ok d' \<and> orders_ok d'"
proof
  show "carts_ok d'" using assms(1,2) by (auto simp: outside_stock_def intro: carts_ok_cong)
  show "orders_ok d'"
    by (rule orders_ok_cong [OF assms(3)]) (use assms(1) in \<open>auto simp: outside_stock_def\<close>)
qed

lemma kept_carts:
  assumes "\<And>x. cart_id (f x) = cart_id x" "\<And>x. cart_status (f x) = cart_status x"
  shows "\<forall>c \<in> set cs. \<exists>c' \<in> set (update_where P f cs). cart_id c' = cart_id c \<and> cart_status c' = cart_status c"
proof
  fix c assume "c \<in> set cs"
  then show "\<exists>c' \<in> set (update_where P f cs). cart_id c' = cart_id c \<and> cart_status c' = cart_status c"
    using in_update_where [of c cs P f] assms by (intro bexI [of _ "if P c then f c else c"]) auto
qed

section \<open>The history of an order\<close>

definition same_place :: "Order \<Rightarrow> Order \<Rightarrow> bool" where
  "same_place r r' \<longleftrightarrow> ord_tenantId r' = ord_tenantId r \<and> ord_storeId r' = ord_storeId r \<and>
     ord_channel r' = ord_channel r"

definition order_grows :: "db \<Rightarrow> db \<Rightarrow> bool" where
  "order_grows d d' \<longleftrightarrow> db_seq d \<le> db_seq d' \<and> (\<forall>r \<in> set (orders d). \<exists>r' \<in> set (orders d'). ord_id r' = ord_id r \<and>
     ord_items r' = ord_items r \<and> ord_total r' = ord_total r \<and> ord_cartId r' = ord_cartId r \<and>
     same_place r r' \<and> order_rank (ord_status r) \<le> order_rank (ord_status r') \<and>
     (order_terminal (ord_status r) \<longrightarrow> ord_status r' = ord_status r))"

lemma order_grows_refl: "orders d' = orders d \<Longrightarrow> db_seq d \<le> db_seq d' \<Longrightarrow> order_grows d d'"
  by (force simp: order_grows_def same_place_def)

lemma order_grows_trans:
  assumes "order_grows d d1" and "order_grows d1 d2"
  shows "order_grows d d2"
  unfolding order_grows_def
proof (intro conjI ballI)
  show "db_seq d \<le> db_seq d2" using assms by (auto simp: order_grows_def)
next
  fix r assume "r \<in> set (orders d)"
  with assms(1) obtain r1 where 1: "r1 \<in> set (orders d1)" "ord_id r1 = ord_id r" "ord_items r1 = ord_items r"
    "ord_total r1 = ord_total r" "ord_cartId r1 = ord_cartId r" "same_place r r1"
    "order_rank (ord_status r) \<le> order_rank (ord_status r1)"
    "order_terminal (ord_status r) \<longrightarrow> ord_status r1 = ord_status r" unfolding order_grows_def by blast
  with assms(2) obtain r2 where "r2 \<in> set (orders d2)" "ord_id r2 = ord_id r1" "ord_items r2 = ord_items r1"
    "ord_total r2 = ord_total r1" "ord_cartId r2 = ord_cartId r1" "same_place r1 r2"
    "order_rank (ord_status r1) \<le> order_rank (ord_status r2)"
    "order_terminal (ord_status r1) \<longrightarrow> ord_status r2 = ord_status r1" unfolding order_grows_def by blast
  with 1 show "\<exists>r' \<in> set (orders d2). ord_id r' = ord_id r \<and>
     ord_items r' = ord_items r \<and> ord_total r' = ord_total r \<and> ord_cartId r' = ord_cartId r \<and>
     same_place r r' \<and> order_rank (ord_status r) \<le> order_rank (ord_status r') \<and>
     (order_terminal (ord_status r) \<longrightarrow> ord_status r' = ord_status r)"
    by (intro bexI [of _ r2]) (auto simp: same_place_def)
qed

lemma order_grows_update:
  assumes os: "orders d' = update_where (\<lambda>x. ord_id x = i) f (orders d)"
    and f: "\<And>x. ord_id (f x) = ord_id x \<and> ord_items (f x) = ord_items x \<and> ord_total (f x) = ord_total x \<and>
      ord_cartId (f x) = ord_cartId x \<and> same_place x (f x)"
    and seq: "db_seq d \<le> db_seq d'"
    and climb: "\<And>x. x \<in> set (orders d) \<Longrightarrow> ord_id x = i \<Longrightarrow>
      order_rank (ord_status x) < order_rank (ord_status (f x)) \<and> \<not> order_terminal (ord_status x)"
  shows "order_grows d d'"
  unfolding order_grows_def
proof (intro conjI ballI)
  show "db_seq d \<le> db_seq d'" by (rule seq)
next
  fix r assume r: "r \<in> set (orders d)"
  from in_update_where [OF r, of "\<lambda>x. ord_id x = i" f]
  show "\<exists>r' \<in> set (orders d'). ord_id r' = ord_id r \<and>
     ord_items r' = ord_items r \<and> ord_total r' = ord_total r \<and> ord_cartId r' = ord_cartId r \<and>
     same_place r r' \<and> order_rank (ord_status r) \<le> order_rank (ord_status r') \<and>
     (order_terminal (ord_status r) \<longrightarrow> ord_status r' = ord_status r)"
    using f climb [OF r] unfolding os
    by (intro bexI [of _ "if ord_id r = i then f r else r"]) (auto simp: same_place_def)
qed

section \<open>What a handler may do to the core\<close>

text \<open>Logs, and the refund status of an order.\<close>

definition core_step :: "db \<Rightarrow> db \<Rightarrow> bool" where
  "core_step d d' \<longleftrightarrow> (api_ok d \<longrightarrow> api_ok d' \<and> order_grows d d')"

lemma core_step_refl [simp, intro]: "core_step d d"
  by (simp add: core_step_def order_grows_refl)

lemma core_step_trans [trans]: "core_step d d1 \<Longrightarrow> core_step d1 d2 \<Longrightarrow> core_step d d2"
  unfolding core_step_def using order_grows_trans by blast

lemma core_step_logged:
  assumes "logged d d'"
  shows "core_step d d'"
  using loggedD [OF assms] orders_ok_logged [OF assms] logged_stock(1) [OF assms] carts_ok_cong [of d' d]
  by (auto simp: core_step_def api_ok_def order_grows_refl)

lemma bump_logged: "logged d (bump d)"
  unfolding logged_def by (cases d) auto

lemma seq_logged: "db_seq d \<le> n \<Longrightarrow> logged d (d\<lparr>db_seq := n\<rparr>)"
  unfolding logged_def by (cases d) auto

text \<open>A change of one order that leaves its amounts, its lines, its place and its status alone.\<close>

definition own_change :: "(Order \<Rightarrow> Order) \<Rightarrow> bool" where
  "own_change f \<longleftrightarrow> (\<forall>x. ord_id (f x) = ord_id x \<and> ord_items (f x) = ord_items x \<and>
     ord_total (f x) = ord_total x \<and> ord_cartId (f x) = ord_cartId x \<and> same_place x (f x) \<and>
     ord_status (f x) = ord_status x \<and> order_consistent (f x) = order_consistent x)"

lemma core_step_order:
  assumes f: "own_change f"
  shows "core_step d (order_update i f d)"
proof -
  let ?d = "order_update i f d"
  have k: "ord_id (f x) = ord_id x" "ord_items (f x) = ord_items x" "ord_total (f x) = ord_total x"
    "ord_cartId (f x) = ord_cartId x" "same_place x (f x)" "ord_status (f x) = ord_status x"
    "order_consistent (f x) = order_consistent x" for x
    using f unfolding own_change_def by blast+
  have ks: "map g (orders ?d) = map g (orders d)" if "\<And>x. g (f x) = g x" for g :: "Order \<Rightarrow> 'b"
    using that by (simp add: order_update_def map_update_where_key)
  have keep: "(\<exists>y \<in> set (orders ?d). Q y) \<longleftrightarrow> (\<exists>y \<in> set (orders d). Q y)"
    "(\<forall>y \<in> set (orders ?d). Q y) \<longleftrightarrow> (\<forall>y \<in> set (orders d). Q y)"
    if "\<And>x. Q (f x) = Q x" for Q
    using bex_update_where [of Q, OF that] ball_update_where [of Q, OF that] by (simp_all add: order_update_def)
  have "orders_ok d \<Longrightarrow> orders_ok ?d"
    unfolding orders_ok_def
    by (simp add: ks keep k) (simp add: order_update_def ball_update_where [of order_consistent, OF k(7)])
  moreover have "stock_ok d \<Longrightarrow> stock_ok ?d" by (rule stock_ok_cong) (simp_all add: order_update_def)
  moreover have "carts_ok d \<Longrightarrow> carts_ok ?d" by (rule carts_ok_cong) (simp_all add: order_update_def)
  moreover have "order_grows d ?d"
    unfolding order_grows_def
  proof (intro conjI ballI)
    show "db_seq d \<le> db_seq ?d" by (simp add: order_update_def)
    fix r assume "r \<in> set (orders d)"
    from in_update_where [OF this, of "\<lambda>x. ord_id x = i" f]
    show "\<exists>r' \<in> set (orders ?d). ord_id r' = ord_id r \<and> ord_items r' = ord_items r \<and>
       ord_total r' = ord_total r \<and> ord_cartId r' = ord_cartId r \<and> same_place r r' \<and>
       order_rank (ord_status r) \<le> order_rank (ord_status r') \<and>
       (order_terminal (ord_status r) \<longrightarrow> ord_status r' = ord_status r)"
      unfolding order_update_def
      by (intro bexI [of _ "if ord_id r = i then f r else r"]) (use k(5) in \<open>auto simp: k same_place_def\<close>)
  qed
  ultimately show ?thesis by (simp add: core_step_def api_ok_def)
qed

lemma core_step_carts:
  assumes "api_ok d \<Longrightarrow> outside_carts d d'" and "api_ok d \<Longrightarrow> carts_ok d'"
  shows "core_step d d'"
  using outside_carts_ok assms by (auto simp: core_step_def api_ok_def outside_carts_def order_grows_refl)

lemma core_step_stock:
  assumes "api_ok d \<Longrightarrow> outside_stock d d'" and "api_ok d \<Longrightarrow> stock_ok d'"
  shows "core_step d d'"
  using outside_stock_ok assms by (auto simp: core_step_def api_ok_def outside_stock_def order_grows_refl)

text \<open>A change of one cart that leaves its key and its status alone and is consistent again.\<close>

lemma core_step_cart_update:
  assumes c: "cart_get i d = Some c"
    and g: "\<And>x. cart_id (g x) = cart_id x" "\<And>x. cart_status (g x) = cart_status x"
    and cons: "cart_consistent c (cart_items i d) \<Longrightarrow> cart_consistent (g c) (cart_items i d)"
  shows "core_step d (cart_update i g d)"
proof (rule core_step_carts)
  show "outside_carts d (cart_update i g d)"
    using kept_carts [of g, OF g, of "carts d" "\<lambda>c. cart_id c = i"]
    unfolding outside_carts_def by (simp add: cart_update_def)
  assume "api_ok d"
  then have ok: "carts_ok d" by (rule api_okD)
  then have "cart_consistent c (cart_items i d)" using cart_getD [OF c] by (auto simp: carts_ok_def)
  then show "carts_ok (cart_update i g d)"
    using cons g by (intro carts_ok_update [OF ok c, where g = g]) (simp_all add: cart_update_def)
qed

end
