(* ===== verification/Handlers.thy ===== *)
theory Handlers
  imports Invariants
begin

text \<open>
  Every handler of carts, orders, the kitchen and the stock makes the promise \<open>core_step\<close>,
  although each writes tables the others rely on.
\<close>

section \<open>Handlers that only touch carts or stock\<close>

lemma item_change_outside:
  assumes ch: "item_change context now i d d1 d'" and d1: "carts d1 = carts d" "orders d1 = orders d"
    "tickets d1 = tickets d" "invItems d1 = invItems d" "reservations d1 = reservations d" "db_seq d \<le> db_seq d1"
  shows "outside_carts d d'"
proof -
  from ch obtain l1 l2 where
    d': "d' = (cart_update i (settle_cart now (cart_items i d1)) d1)\<lparr>auditLogs := l1, outbox := l2\<rparr>"
    by (auto simp: item_change_def)
  show ?thesis
    using d1 kept_carts [of "settle_cart now (cart_items i d1)"]
    unfolding outside_carts_def d' by (simp add: cart_update_def)
qed

lemma createCart_outside: "createCart context now dto d = Inr (v, d') \<Longrightarrow> outside_carts d d'"
  by (drule createCart_Inr) (auto simp: outside_carts_def cart_create_def)

lemma updateCart_outside:
  assumes "carts_ok d" and "updateCart context now i dto d = Inr (v, d')"
  shows "outside_carts d d'"
proof -
  from updateCart_Inr [OF assms] obtain g l1 l2 where
    g: "\<forall>x. cart_id (g x) = cart_id x \<and> cart_status (g x) = cart_status x"
    and d': "d' = (cart_update i g d)\<lparr>auditLogs := l1, outbox := l2\<rparr>" by blast
  from g have g': "cart_id (g x) = cart_id x" "cart_status (g x) = cart_status x" for x by blast+
  show ?thesis
    using kept_carts [of g, OF g', of "carts d" "\<lambda>c. cart_id c = i"]
    unfolding outside_carts_def d' by (simp add: cart_update_def)
qed

lemma item_handlers_outside:
  assumes "carts_ok d"
  shows "addItem context now i adto d = Inr (v, d') \<Longrightarrow> outside_carts d d'"
    and "updateItem context now i j udto d = Inr (v, d') \<Longrightarrow> outside_carts d d'"
    and "deleteItem context now i j d = Inr (v, d') \<Longrightarrow> outside_carts d d'"
proof -
  show "addItem context now i adto d = Inr (v, d') \<Longrightarrow> outside_carts d d'"
    by (drule addItem_Inr [OF assms]) (auto elim!: item_change_outside)
  show "updateItem context now i j udto d = Inr (v, d') \<Longrightarrow> outside_carts d d'"
    by (drule updateItem_Inr [OF assms]) (auto elim!: item_change_outside simp: cartItem_update_def)
  show "deleteItem context now i j d = Inr (v, d') \<Longrightarrow> outside_carts d d'"
    by (drule deleteItem_Inr [OF assms]) (auto elim!: item_change_outside simp: cartItem_delete_def)
qed

lemma getOrCreate_outside:
  "getOrCreateItemTx now t w i d = Inr (x, d') \<Longrightarrow> outside_stock d d'"
  by (auto simp: getOrCreateItemTx_def inventoryItem_create_def outside_stock_def Let_def split: option.splits)

lemma outside_stock_trans: "outside_stock d d1 \<Longrightarrow> outside_stock d1 d2 \<Longrightarrow> outside_stock d d2"
  by (simp add: outside_stock_def)

lemma createReservation_outside: "createReservation context now dto d = Inr (v, d') \<Longrightarrow> outside_stock d d'"
  by (auto simp: createReservation_def stockReservation_create_def inventoryItem_update_def
      outside_stock_def Let_def)

lemma moved_outside: "stock_moved d d' \<Longrightarrow> outside_stock d d'"
  by (auto simp: outside_stock_def stock_movedD)

lemma releaseReservation_outside: "releaseReservation context now i d = Inr (v, d') \<Longrightarrow> outside_stock d d'"
  unfolding releaseReservation_def
  by (auto simp: Let_def intro!: moved_outside release_one_moved split: if_splits)

lemma consumeReservation_outside: "consumeReservation context now i d = Inr (v, d') \<Longrightarrow> outside_stock d d'"
  unfolding consumeReservation_def
  by (auto simp: Let_def intro!: moved_outside consume_one_moved split: if_splits)

lemma applyStockDelta_outside: "applyStockDeltaTx now input d = Inr d' \<Longrightarrow> outside_stock d d'"
  unfolding applyStockDeltaTx_def
  by (auto simp: Let_def case_prod_Inr dest!: getOrCreate_outside)
    (auto simp: outside_stock_def inventoryItem_update_def stockLedgerEntry_create_def)

lemma createAdjustment_outside: "createAdjustment context now dto d = Inr (v, d') \<Longrightarrow> outside_stock d d'"
  unfolding createAdjustment_def
  by (auto simp: Let_def case_prod_Inr dest!: getOrCreate_outside applyStockDelta_outside)
    (auto simp: outside_stock_def)

lemma receive_outside:
  assumes "completeReceivingRecord context now i who d = Inr (v, d')"
  shows "outside_stock d d'"
proof -
  from assms obtain r where "completeReceivingRecordTx now i who d = Inr (r, d')"
    unfolding completeReceivingRecord_def by auto
  then obtain d1 rec who' where "d' = d \<or>
      (foldE (receive_line now rec who') (rr_lines rec) d = Inr d1 \<and>
       d' = receiving_update now i (\<lambda>r. r\<lparr>rr_status := ''COMPLETED'', rr_receivedBy := who',
                  rr_completedAt := Some now\<rparr>) d1)"
    unfolding completeReceivingRecordTx_def by (auto simp: Let_def split: if_splits)
  moreover have "outside_stock d d1" if "foldE (receive_line now rec who') ls d = Inr d1" for ls
    by (rule foldE_invariant [OF _ that]) (auto simp: receive_line_def outside_stock_def
        dest!: applyStockDelta_outside)
  ultimately show ?thesis by (auto simp: outside_stock_def receiving_update_def)
qed

section \<open>Every step keeps the invariants\<close>

lemma order_moved_cart:
  assumes "order_moved now i dto r new d d'"
  shows "carts_ok d \<Longrightarrow> carts_ok d'" "stock_ok d'"
  using assms by (auto simp: order_moved_def order_stock_step_def intro: carts_ok_cong)

lemma ticket_step_cart:
  assumes "ticket_step now i s t r d d'"
  shows "carts_ok d \<Longrightarrow> carts_ok d'" "stock_ok d \<Longrightarrow> stock_ok d'"
  using assms by (auto simp: ticket_step_def intro: carts_ok_cong stock_ok_cong)

lemma stock_handlers_ok:
  assumes "stock_ok d"
  shows "releaseReservation context now i d = Inr (v, d') \<Longrightarrow> stock_ok d'"
    and "consumeReservation context now i d = Inr (v, d') \<Longrightarrow> stock_ok d'"
    and "completeReceivingRecord context now i who d = Inr (v, d') \<Longrightarrow> stock_ok d'"
proof -
  show "releaseReservation context now i d = Inr (v, d') \<Longrightarrow> stock_ok d'"
  proof -
    assume run: "releaseReservation context now i d = Inr (v, d')"
    then obtain r where "getReservationTx i d = Inr r" by (auto simp: releaseReservation_def)
    then show ?thesis by (rule releaseReservation_Inr(1) [OF assms run])
  qed
  show "consumeReservation context now i d = Inr (v, d') \<Longrightarrow> stock_ok d'"
  proof -
    assume run: "consumeReservation context now i d = Inr (v, d')"
    then obtain r where r: "getReservationTx i d = Inr r" by (auto simp: consumeReservation_def)
    show ?thesis
    proof (cases "sr_status r = ResActive")
      case True
      then show ?thesis by (rule consumeReservation_Inr(1) [OF assms run r])
    next
      case False
      with run r assms show ?thesis by (auto simp: consumeReservation_def)
    qed
  qed
  show "completeReceivingRecord context now i who d = Inr (v, d') \<Longrightarrow> stock_ok d'"
  proof -
    assume "completeReceivingRecord context now i who d = Inr (v, d')"
    then obtain r r' where run: "completeReceivingRecordTx now i who d = Inr (r', d')"
      and r: "getReceivingRecordTx i d = Inr r" by (auto simp: completeReceivingRecord_def)
    show ?thesis
    proof (cases "rr_status r = ''COMPLETED''")
      case True
      with run r assms show ?thesis by (auto simp: completeReceivingRecordTx_def)
    next
      case False
      then show ?thesis by (rule completeReceivingRecordTx_Inr(1) [OF assms run r])
    qed
  qed
qed

lemma synced_rank: "synced_status st ts = Some s \<Longrightarrow> order_rank st < order_rank s \<and> \<not> order_terminal st"
  by (cases st) (auto simp: synced_status_def order_rank_def order_terminal_def split: if_splits)

section \<open>Every handler keeps the promise\<close>

lemma checkout_step:
  assumes ok: "api_ok d" and run: "checkout context now i dto d = Inr (v, d')"
  shows "api_ok d' \<and> order_grows d d'"
proof
  show "api_ok d'" using checkout_ok [OF api_okD [OF ok] run] by (simp add: api_ok_def)
  obtain c where "orders d' = orders d @ [placed_order now c dto d]" "db_seq d < db_seq d'"
    by (rule checkout_effect [OF api_okD(1) [OF ok] run])
  then show "order_grows d d'" by (force simp: order_grows_def same_place_def)
qed

lemma transitionOrder_step:
  assumes ok: "api_ok d" and run: "transitionOrder context now i dto d = Inr (v, d')"
  shows "api_ok d' \<and> order_grows d d'"
proof
  note D = api_okD [OF ok]
  obtain r new where r: "order_get i d = Some r" "canTransitionOrder (ord_status r) (tr_toStatus dto)"
    and mv: "order_moved now i dto r new d d'" by (rule transitionOrder_Inr [OF D(3,1) run])
  show "api_ok d'"
    using order_moved_ok [OF D(3) r mv] order_moved_cart [OF mv] D(2) by (simp add: api_ok_def)
  have "x = r" if "x \<in> set (orders d)" "ord_id x = i" for x
    using distinct_key_eq [OF orders_okD(1) [OF D(3)]] order_getD [OF r(1)] that by metis
  with r mv show "order_grows d d'"
    by (intro order_grows_update [of d' i "moved now dto"])
      (auto simp: order_moved_def order_terminal_def canTransitionOrder_iff order_rank_def same_place_def moved_def)
qed

lemma transitionTicket_step:
  assumes ok: "api_ok d" and run: "transitionTicket context now i dto d = Inr (v, d')"
  shows "api_ok d' \<and> order_grows d d'"
proof
  note D = api_okD [OF ok]
  obtain t r where t: "ticket_get i d = Some t" "order_get (tk_orderId t) d = Some r"
      "canTransitionKitchenTicket (tk_status t) (tkt_toStatus dto)"
    and st: "ticket_step now i (tkt_toStatus dto) t r d d'" by (rule transitionTicket_Inr [OF D(3) run])
  show "api_ok d'"
    using ticket_step_ok [OF D(3) t st] ticket_step_cart [OF st] D by (simp add: api_ok_def)
  have only: "x = r" if "x \<in> set (orders d)" "ord_id x = ord_id r" for x
    using distinct_key_eq [OF orders_okD(1) [OF D(3)]] order_getD [OF t(2)] that by metis
  show "order_grows d d'"
  proof (cases "synced_status (ord_status r) (statuses_after (ord_id r) i (tkt_toStatus dto) d)")
    case None
    with st show ?thesis by (intro order_grows_refl) (simp_all add: ticket_step_def)
  next
    case (Some s)
    with st only synced_rank [OF Some] show ?thesis
      by (intro order_grows_update [of d' "ord_id r" "synced now s"]) (auto simp: ticket_step_def synced_def same_place_def)
  qed
qed

text \<open>Every handler of carts, orders, kitchen and stock is a step of the core.\<close>

lemma cart_handlers_core:
  "createCart context now cdto d = Inr (v, d') \<Longrightarrow> core_step d d'"
  "updateCart context now i udto d = Inr (v, d') \<Longrightarrow> core_step d d'"
  "addItem context now i adto d = Inr (v, d') \<Longrightarrow> core_step d d'"
  "updateItem context now i j idto d = Inr (v, d') \<Longrightarrow> core_step d d'"
  "deleteItem context now i j d = Inr (v, d') \<Longrightarrow> core_step d d'"
  by (rule core_step_carts, blast dest: api_okD createCart_outside updateCart_outside item_handlers_outside,
      blast dest: api_okD createCart_ok updateCart_ok addItem_ok updateItem_ok deleteItem_ok)+

lemma order_handlers_core:
  "checkout context now i odto d = Inr (v, d') \<Longrightarrow> core_step d d'"
  "transitionOrder context now i tdto d = Inr (v, d') \<Longrightarrow> core_step d d'"
  "transitionTicket context now i kdto d = Inr (v, d') \<Longrightarrow> core_step d d'"
  unfolding core_step_def by (blast dest: checkout_step transitionOrder_step transitionTicket_step)+

lemma stock_handlers_core:
  "createReservation context now rdto d = Inr (v, d') \<Longrightarrow> 0 \<le> csr_quantity rdto \<Longrightarrow> core_step d d'"
  "releaseReservation context now i d = Inr (v, d') \<Longrightarrow> core_step d d'"
  "consumeReservation context now i d = Inr (v, d') \<Longrightarrow> core_step d d'"
  "createAdjustment context now jdto d = Inr (v, d') \<Longrightarrow> core_step d d'"
  "completeReceivingRecord context now i who d = Inr (v, d') \<Longrightarrow> core_step d d'"
  by (rule core_step_stock,
      blast dest: createReservation_outside releaseReservation_outside consumeReservation_outside
        createAdjustment_outside receive_outside,
      blast dest: api_okD createReservation_Inr(1) stock_handlers_ok createAdjustment_Inr(1))+

end
