(* ===== verification/FulfillmentOps.thy ===== *)
theory FulfillmentOps
  imports Orders
begin

text \<open>
  The handlers of \<open>fulfillment/fulfillment.module.ts\<close>: the fulfilment configuration of a store,
  the choice of a fulfilment for a cart, the dispatch board, and the courier, the promised times
  and the fulfilment status of an order.
\<close>

section \<open>Configuration\<close>

definition fulfillment_config_key :: string where
  "fulfillment_config_key = ''fulfillment.config''"

definition loadConfigValue :: "uuid \<Rightarrow> db \<Rightarrow> json option" where
  "loadConfigValue storeId d =
     map_option set_value (find_setting storeId fulfillment_config_key (storeSettings d))"

definition modes_json :: "FulfillmentMode list \<Rightarrow> json" where
  "modes_json modes = JArr (map (\<lambda>m. JStr (show_fulfillment_mode m)) modes)"

definition zone_json :: "DeliveryZone \<Rightarrow> json" where
  "zone_json z = JObj
     [(''code'', JStr (dz_code z)), (''name'', JStr (dz_name z)),
      (''postalCodes'', JArr (map JStr (dz_postalCodes z))), (''fee'', JStr (dz_fee z)),
      (''etaMinMinutes'', JNum (dz_etaMinMinutes z)), (''etaMaxMinutes'', JNum (dz_etaMaxMinutes z)),
      (''slaMinutes'', JNum (dz_slaMinutes z)), (''isActive'', JBool (dz_isActive z))]"

definition pickup_json :: "PickupConfig \<Rightarrow> json" where
  "pickup_json p = JObj
     [(''enabled'', JBool (pk_enabled p)), (''leadTimeMinutes'', JNum (pk_leadTimeMinutes p)),
      (''promisedWindowMinutes'', JNum (pk_promisedWindowMinutes p)),
      (''instructions'', jopt (pk_instructions p))]"

definition table_json :: "DineInTable \<Rightarrow> json" where
  "table_json t = JObj
     [(''code'', JStr (dt_code t)), (''label'', JStr (dt_label t)), (''capacity'', JNum (dt_capacity t)),
      (''isActive'', JBool (dt_isActive t))]"

definition dine_in_json :: "DineInConfig \<Rightarrow> json" where
  "dine_in_json c = JObj
     [(''enabled'', JBool (di_enabled c)), (''leadTimeMinutes'', JNum (di_leadTimeMinutes c)),
      (''tables'', JArr (map table_json (di_tables c)))]"

definition provider_json :: "FulfillmentProvider \<Rightarrow> json" where
  "provider_json p = JObj
     [(''providerKey'', JStr (fp_providerKey p)), (''providerType'', JStr (fp_providerType p)),
      (''enabled'', JBool (fp_enabled p))]"

definition config_fields :: "StoreFulfillmentConfig \<Rightarrow> (string \<times> json) list" where
  "config_fields c =
     [(''storeId'', JStr (fc_storeId c)),
      (''enabledModes'', modes_json (fc_enabledModes c)),
      (''defaultMode'', JStr (show_fulfillment_mode (fc_defaultMode c))),
      (''deliveryZones'', JArr (map zone_json (fc_deliveryZones c))),
      (''pickup'', pickup_json (fc_pickup c)),
      (''dineIn'', dine_in_json (fc_dineIn c)),
      (''providers'', JArr (map provider_json (fc_providers c)))]"

definition config_json :: "StoreFulfillmentConfig \<Rightarrow> json" where
  "config_json c = JObj (config_fields c)"

definition getStoreConfig :: "RequestContext \<Rightarrow> uuid \<Rightarrow> db \<Rightarrow> StoreFulfillmentConfig result" where
  "getStoreConfig context storeId d =
     bnd (enforceStoreAccess context storeId) (\<lambda>_.
     bnd (orThrow (find (\<lambda>s. st_id s = storeId) (stores d)) (RecordNotFound ''Store'')) (\<lambda>store.
     bnd (resolveTenantId context (Some (st_tenantId store)) True) (\<lambda>_.
     resolveStoreFulfillmentConfig storeId (loadConfigValue storeId d))))"

definition getPublicStoreConfig :: "uuid \<Rightarrow> db \<Rightarrow> StoreFulfillmentConfig result" where
  "getPublicStoreConfig storeId d = resolveStoreFulfillmentConfig storeId (loadConfigValue storeId d)"

text \<open>
  The fields of a request are the own properties of its object: one that is set to \<open>undefined\<close>
  is a property without a value, and a spread copies it like any other.
\<close>

type_synonym own_fields = "(string \<times> json option) list"

definition spread :: "(string \<times> json) list \<Rightarrow> own_fields \<Rightarrow> json" where
  "spread current dto =
     JObj (filter (\<lambda>(k, v). k \<notin> set (map fst dto)) current @
       List.map_filter (\<lambda>(k, m). map_option (Pair k) m) dto)"

definition upsertStoreConfig ::
  "RequestContext \<Rightarrow> instant \<Rightarrow> uuid \<Rightarrow> own_fields \<Rightarrow> db \<Rightarrow> (StoreFulfillmentConfig \<times> db) result" where
  "upsertStoreConfig context now storeId dto d =
     bnd (enforceStoreAccess context storeId) (\<lambda>_.
     bnd (orThrow (find (\<lambda>s. st_id s = storeId) (stores d)) (RecordNotFound ''Store'')) (\<lambda>store.
     bnd (resolveTenantId context (Some (st_tenantId store)) True) (\<lambda>_.
     bnd (resolveStoreFulfillmentConfig storeId (loadConfigValue storeId d)) (\<lambda>current.
     bnd (resolveStoreFulfillmentConfig storeId (Some (spread (config_fields current) dto))) (\<lambda>next.
     let (setting, d1) = upsert_setting now (st_tenantId store) storeId fulfillment_config_key
           (config_json next) d in
     Inr (next, recordTx
       \<lparr>al_tenantId = Some (st_tenantId store), al_storeId = Some (st_id store),
        al_actorType = resolveActorType context, al_actorId = resolveActorId context,
        al_action = ''fulfillment.config_upserted'', al_entityType = ''store_setting'',
        al_entityId = set_id setting,
        al_payload = Some (JObj [(''key'', JStr fulfillment_config_key),
          (''enabledModes'', modes_json (fc_enabledModes next)),
          (''defaultMode'', JStr (show_fulfillment_mode (fc_defaultMode next)))])\<rparr> d1))))))"

section \<open>The fulfilment of a cart\<close>

text \<open>\<open>error.message\<close>, for the errors a quote can throw.\<close>

definition error_message :: "error \<Rightarrow> string" where
  "error_message e = (case e of BadRequestException m \<Rightarrow> m | ForbiddenException m \<Rightarrow> m
     | NotFoundException m \<Rightarrow> m | RecordNotFound m \<Rightarrow> m | UniqueViolation m \<Rightarrow> m
     | ForeignKeyViolation m \<Rightarrow> m
     | InternalServerErrorException m \<Rightarrow> m | JsError m \<Rightarrow> m)"

definition catch_quote :: "error + 'a \<Rightarrow> error + 'a" where
  "catch_quote m = (case m of Inl e \<Rightarrow> Inl (BadRequestException (error_message e)) | Inr q \<Rightarrow> Inr q)"

text \<open>The totals of a cart's items for a fee and a discount.\<close>

definition totals_of :: "CartItem list \<Rightarrow> string option \<Rightarrow> string option \<Rightarrow> error + CalculatedCartTotals" where
  "totals_of items fee discount =
     calculateCartTotals (map (\<lambda>item. \<lparr>ti_quantity = ci_quantity item,
       ti_unitBasePrice = map_option formatCents (ci_unitBasePrice item),
       ti_modifierTotal = formatCents (ci_modifierTotal item)\<rparr>) items) fee discount"

text \<open>A money column stores the cents of the amount it is given, an invalid one is refused.\<close>

definition fulfilled_cart ::
  "instant \<Rightarrow> FulfillmentQuote \<Rightarrow> int \<Rightarrow> int \<Rightarrow> int \<Rightarrow> int \<Rightarrow> instant \<Rightarrow> instant \<Rightarrow> Cart \<Rightarrow> Cart" where
  "fulfilled_cart now quote fee subtotal modifierTotal grand promisedAt etaAt c = c\<lparr>
     cart_fulfillmentMode := Some (show_fulfillment_mode (fs_mode (fq_selection quote))),
     cart_fulfillmentStatus := Some (show_fulfillment_status (fq_status quote)),
     cart_fulfillmentFee := fee, cart_discountTotal := 0, cart_promotionCode := None,
     cart_promotionSnapshot := None,
     cart_fulfillmentPayload := Some (selection_json (Some (fq_selection quote))),
     cart_promisedAt := Some promisedAt, cart_etaAt := Some etaAt,
     cart_subtotal := subtotal, cart_modifierTotal := modifierTotal, cart_total := grand,
     cart_updatedAt := now\<rparr>"

definition fulfilment_audit :: "RequestContext \<Rightarrow> Cart \<Rightarrow> FulfillmentQuote \<Rightarrow> AuditLog" where
  "fulfilment_audit context cart quote =
     \<lparr>al_tenantId = Some (cart_tenantId cart), al_storeId = Some (cart_storeId cart),
      al_actorType = resolveActorType context, al_actorId = resolveActorId context,
      al_action = ''cart.fulfillment_updated'', al_entityType = ''cart'', al_entityId = cart_id cart,
      al_payload = Some (JObj
        [(''fulfillmentMode'', JStr (show_fulfillment_mode (fs_mode (fq_selection quote)))),
         (''fulfillmentStatus'', JStr (show_fulfillment_status (fq_status quote))),
         (''fulfillmentFee'', JStr (fq_fee quote)), (''promisedAt'', JStr (fq_promisedAt quote)),
         (''etaAt'', JStr (fq_etaAt quote))])\<rparr>"

definition applyCartFulfillment ::
  "RequestContext \<Rightarrow> instant \<Rightarrow> uuid \<Rightarrow> json \<Rightarrow> db \<Rightarrow> db result" where
  "applyCartFulfillment context now cartId selectionInput d =
     bnd (loadCart cartId d) (\<lambda>(cart, items).
     bnd (checkAccess context (cart_tenantId cart) (cart_storeId cart)) (\<lambda>_.
     bnd (ensure (cart_status cart = OPEN)
            (BadRequestException ''Only open carts can update fulfillment.'')) (\<lambda>_.
     bnd (orThrow (normalizeFulfillmentSelection (Some selectionInput))
            (BadRequestException ''Fulfillment selection is invalid.'')) (\<lambda>selection.
     bnd (resolveStoreFulfillmentConfig (cart_storeId cart) (loadConfigValue (cart_storeId cart) d))
       (\<lambda>config.
     bnd (catch_quote (quoteFulfillment config selection now)) (\<lambda>quote.
     bnd (totals_of items (Some (fq_fee quote)) (Some ''0.00'')) (\<lambda>totals.
     bnd (decimal_of (fq_fee quote)) (\<lambda>fee.
     bnd (decimal_of (ct_subtotal totals)) (\<lambda>subtotal.
     bnd (decimal_of (ct_modifierTotal totals)) (\<lambda>modifierTotal.
     bnd (decimal_of (ct_total totals)) (\<lambda>total.
     bnd (orThrow (parse_iso (fq_promisedAt quote)) (JsError ''Invalid Date'')) (\<lambda>promisedAt.
     bnd (orThrow (parse_iso (fq_etaAt quote)) (JsError ''Invalid Date'')) (\<lambda>etaAt.
     Inr (recordTx (fulfilment_audit context cart quote)
       (cart_update cartId
         (fulfilled_cart now quote fee subtotal modifierTotal total promisedAt etaAt) d)))))))))))))))"

section \<open>The fulfilment of an order\<close>

definition getOrderProjection :: "RequestContext \<Rightarrow> uuid \<Rightarrow> db \<Rightarrow> json result" where
  "getOrderProjection context orderId d =
     bnd (getOrder context orderId d) (\<lambda>order.
     bnd (listOrderEvents context orderId d) (\<lambda>events.
     Inr (JObj [(''order'', order), (''fulfillment'', nullish (jfield order ''fulfillment'') JNull),
                (''events'', nullish (jfield events ''items'') JNull)])))"

text \<open>\<open>ORDER BY promisedAt ASC, placedAt ASC\<close>: the orders without a promise come last.\<close>

definition due_le :: "Order \<Rightarrow> Order \<Rightarrow> bool" where
  "due_le a b =
     (case (ord_promisedAt a, ord_promisedAt b) of
        (None, None) \<Rightarrow> ord_placedAt a \<le> ord_placedAt b
      | (None, Some _) \<Rightarrow> False
      | (Some _, None) \<Rightarrow> True
      | (Some s, Some t) \<Rightarrow> s < t \<or> (s = t \<and> ord_placedAt a \<le> ord_placedAt b))"

definition on_dispatch_board :: "uuid \<Rightarrow> uuid \<Rightarrow> Order \<Rightarrow> bool" where
  "on_dispatch_board tenantId storeId order \<longleftrightarrow>
     ord_tenantId order = tenantId \<and> ord_storeId order = storeId \<and>
     ord_fulfillmentMode order \<noteq> None \<and> ord_status order \<notin> {COMPLETED, CANCELLED}"

definition dispatch_item :: "Order \<Rightarrow> json" where
  "dispatch_item order = JObj
     [(''orderId'', JStr (ord_id order)), (''number'', JStr (ord_number order)),
      (''storeId'', JStr (ord_storeId order)), (''customerName'', jopt (ord_customerName order)),
      (''customerPhone'', jopt (ord_customerPhone order)),
      (''orderStatus'', JStr (show_order_status (ord_status order))),
      (''fulfillment'', mapFulfillmentSnapshot (ord_fulfillmentMode order) (ord_fulfillmentStatus order)
         (Some (ord_fulfillmentFee order)) (ord_promisedAt order) (ord_etaAt order)
         (ord_fulfillmentPayload order)),
      (''total'', jmoney (ord_total order)), (''placedAt'', jtime (ord_placedAt order))]"

definition dispatch_orders :: "uuid \<Rightarrow> uuid \<Rightarrow> db \<Rightarrow> Order list" where
  "dispatch_orders tenantId storeId d = sort_by due_le (filter (on_dispatch_board tenantId storeId) (orders d))"

definition listDispatchBoard :: "RequestContext \<Rightarrow> uuid \<Rightarrow> db \<Rightarrow> json result" where
  "listDispatchBoard context storeId d =
     bnd (enforceStoreAccess context storeId) (\<lambda>_.
     bnd (orThrow (find (\<lambda>s. st_id s = storeId) (stores d)) (RecordNotFound ''Store'')) (\<lambda>store.
     bnd (resolveTenantId context (Some (st_tenantId store)) True) (\<lambda>_.
     Inr (jlist (map dispatch_item (dispatch_orders (st_tenantId store) storeId d))))))"

definition recordFulfillmentEvent ::
  "RequestContext \<Rightarrow> instant \<Rightarrow> uuid \<Rightarrow> uuid \<Rightarrow> uuid \<Rightarrow> string \<Rightarrow> json \<Rightarrow> db \<Rightarrow> db" where
  "recordFulfillmentEvent context now orderId tenantId storeId type payload d =
     domainEvents_record \<lparr>ob_tenantId = Some tenantId, ob_eventName = type, ob_aggregate = ''order'',
         ob_aggregateId = orderId, ob_payload = payload\<rparr>
       (recordTx \<lparr>al_tenantId = Some tenantId, al_storeId = Some storeId,
           al_actorType = resolveActorType context, al_actorId = resolveActorId context,
           al_action = type, al_entityType = ''order'', al_entityId = orderId,
           al_payload = Some payload\<rparr>
         (recordOrderEvent now orderId tenantId storeId type payload d))"

record AssignFulfillmentCourierDto =
  afc_courierName :: string
  afc_courierPhone :: "string option"
  afc_courierExternalId :: "string option"

definition courier_fields :: "AssignFulfillmentCourierDto \<Rightarrow> (string \<times> json) list" where
  "courier_fields dto =
     [(''courierName'', JStr (afc_courierName dto)), (''courierPhone'', jopt (afc_courierPhone dto)),
      (''courierExternalId'', jopt (afc_courierExternalId dto))]"

definition with_courier :: "AssignFulfillmentCourierDto \<Rightarrow> json option \<Rightarrow> json" where
  "with_courier dto payload =
     spread (case payload of Some (JObj kvs) \<Rightarrow> kvs | _ \<Rightarrow> [])
       [(''courier'', Some (JObj (courier_fields dto)))]"

definition assignCourier_tx ::
  "RequestContext \<Rightarrow> instant \<Rightarrow> uuid \<Rightarrow> AssignFulfillmentCourierDto \<Rightarrow> db \<Rightarrow> (unit \<times> db) result" where
  "assignCourier_tx context now orderId dto d =
     bnd (loadOrder orderId d) (\<lambda>order.
     bnd (checkAccess context (ord_tenantId order) (ord_storeId order)) (\<lambda>_.
     let d1 = order_update orderId (\<lambda>x. x\<lparr>ord_fulfillmentPayload :=
                  Some (with_courier dto (ord_fulfillmentPayload order)), ord_updatedAt := now\<rparr>) d in
     Inr ((), recordFulfillmentEvent context now orderId (ord_tenantId order) (ord_storeId order)
       ''fulfillment.assignment_updated'' (JObj ((''orderId'', JStr orderId) # courier_fields dto)) d1)))"

definition assignCourier ::
  "RequestContext \<Rightarrow> instant \<Rightarrow> uuid \<Rightarrow> AssignFulfillmentCourierDto \<Rightarrow> db \<Rightarrow> json outcome" where
  "assignCourier context now orderId dto d =
     and_then (committed (assignCourier_tx context now orderId dto d) d) (\<lambda>_ d1.
     viewed (getOrderProjection context orderId d1) d1)"

text \<open>A date of a request is its text and the instant \<open>new Date\<close> reads from it.\<close>

record UpdateFulfillmentEtaDto =
  ufe_etaAt :: "(string \<times> instant) option"
  ufe_promisedAt :: "(string \<times> instant) option"

definition updateEta_tx ::
  "RequestContext \<Rightarrow> instant \<Rightarrow> uuid \<Rightarrow> UpdateFulfillmentEtaDto \<Rightarrow> db \<Rightarrow> (unit \<times> db) result" where
  "updateEta_tx context now orderId dto d =
     bnd (loadOrder orderId d) (\<lambda>order.
     bnd (checkAccess context (ord_tenantId order) (ord_storeId order)) (\<lambda>_.
     let d1 = order_update orderId (\<lambda>x. x\<lparr>ord_etaAt := map_option snd (ufe_etaAt dto),
                  ord_promisedAt := orElse (map_option snd (ufe_promisedAt dto)) (ord_promisedAt order),
                  ord_updatedAt := now\<rparr>) d in
     Inr ((), recordFulfillmentEvent context now orderId (ord_tenantId order) (ord_storeId order)
       ''fulfillment.eta_updated''
       (JObj [(''orderId'', JStr orderId), (''etaAt'', jopt (map_option fst (ufe_etaAt dto))),
              (''promisedAt'', jopt (orElse (map_option fst (ufe_promisedAt dto))
                 (map_option toISOString (ord_promisedAt order))))]) d1)))"

definition updateEta ::
  "RequestContext \<Rightarrow> instant \<Rightarrow> uuid \<Rightarrow> UpdateFulfillmentEtaDto \<Rightarrow> db \<Rightarrow> json outcome" where
  "updateEta context now orderId dto d =
     and_then (committed (updateEta_tx context now orderId dto d) d) (\<lambda>_ d1.
     viewed (getOrderProjection context orderId d1) d1)"

definition statusNotificationTemplate :: "FulfillmentStatus \<Rightarrow> string option" where
  "statusNotificationTemplate status =
     (case status of
        FsReadyForPickup \<Rightarrow> Some ''storefront-pickup-ready''
      | FsOutForDelivery \<Rightarrow> Some ''storefront-out-for-delivery''
      | FsDelivered \<Rightarrow> Some ''storefront-delivered''
      | FsPickedUp \<Rightarrow> Some ''storefront-picked-up''
      | FsServed \<Rightarrow> Some ''storefront-served''
      | _ \<Rightarrow> None)"

record UpdateFulfillmentStatusDto =
  ufs_status :: FulfillmentStatus
  ufs_note :: "string option"

definition updateStatus_tx ::
  "RequestContext \<Rightarrow> instant \<Rightarrow> uuid \<Rightarrow> UpdateFulfillmentStatusDto \<Rightarrow> db \<Rightarrow> (unit \<times> db) result" where
  "updateStatus_tx context now orderId dto d =
     bnd (loadOrder orderId d) (\<lambda>order.
     bnd (checkAccess context (ord_tenantId order) (ord_storeId order)) (\<lambda>_.
     let d1 = order_update orderId (\<lambda>x. x\<lparr>ord_fulfillmentStatus :=
                  Some (show_fulfillment_status (ufs_status dto)), ord_updatedAt := now\<rparr>) d;
         d2 = recordFulfillmentEvent context now orderId (ord_tenantId order) (ord_storeId order)
           ''fulfillment.status_updated''
           (JObj [(''orderId'', JStr orderId),
                  (''status'', JStr (show_fulfillment_status (ufs_status dto))),
                  (''note'', jopt (ufs_note dto))]) d1;
         templateKey = statusNotificationTemplate (ufs_status dto) in
     Inr ((), if truthy (ord_customerPhone order) \<and> templateKey \<noteq> None
       then recordFulfillmentEvent context now orderId (ord_tenantId order) (ord_storeId order)
         ''storefront.notification_queued''
         (JObj [(''orderId'', JStr orderId), (''trigger'', JStr ''fulfillment.status_updated''),
                (''templateKey'', jopt templateKey),
                (''customerPhone'', jopt (ord_customerPhone order)),
                (''deliveryPath'', JStr ''async_event'')]) d2
       else d2)))"

definition updateStatus ::
  "RequestContext \<Rightarrow> instant \<Rightarrow> uuid \<Rightarrow> UpdateFulfillmentStatusDto \<Rightarrow> db \<Rightarrow> json outcome" where
  "updateStatus context now orderId dto d =
     and_then (committed (updateStatus_tx context now orderId dto d) d) (\<lambda>_ d1.
     viewed (getOrderProjection context orderId d1) d1)"

end
