(* ===== verification/FulfillmentLaws.thy ===== *)
theory FulfillmentLaws
  imports Invariants FulfillmentOps
begin

text \<open>
  What the fulfilment handlers keep of the rest of the database, and what a fulfilment chosen for
  a cart guarantees.
\<close>

section \<open>Logs and orders\<close>

lemma recordFulfillmentEvent_logged:
  "logged d (recordFulfillmentEvent context now i t s type payload d)"
  unfolding logged_def recordFulfillmentEvent_def by (cases d) auto

lemma fulfilment_order_core:
  assumes "own_change f"
  shows "core_step d (recordFulfillmentEvent context now i t s type payload (order_update i f d))"
  using core_step_order [OF assms] core_step_logged [OF recordFulfillmentEvent_logged] core_step_trans by blast

lemma assignCourier_core: "assignCourier context now i dto d = (r, d') \<Longrightarrow> core_step d d'"
  by (auto simp: assignCourier_def assignCourier_tx_def committed_def and_then_def Let_def own_change_def
      same_place_def order_consistent_def split: sum.splits intro!: fulfilment_order_core)

lemma updateEta_core: "updateEta context now i dto d = (r, d') \<Longrightarrow> core_step d d'"
  by (auto simp: updateEta_def updateEta_tx_def committed_def and_then_def Let_def own_change_def
      same_place_def order_consistent_def split: sum.splits intro!: fulfilment_order_core)

lemma updateStatus_core: "updateStatus context now i dto d = (r, d') \<Longrightarrow> core_step d d'"
  by (auto simp: updateStatus_def updateStatus_tx_def committed_def and_then_def Let_def own_change_def
      same_place_def order_consistent_def split: sum.splits if_splits
      intro!: fulfilment_order_core core_step_trans [OF fulfilment_order_core
        core_step_logged [OF recordFulfillmentEvent_logged]])

section \<open>Totals from amounts as text\<close>

lemma totals_of_cents:
  assumes "parseMoneyToCents (Some fee) = Inr (Some f)" and "parseMoneyToCents (Some disc) = Inr (Some g)"
  shows "totals_of items (Some fee) (Some disc) = Inr (format_totals (cents_cart_totals (map item_cents items) f g))"
proof -
  have m: "map (\<lambda>item. \<lparr>ti_quantity = ci_quantity item,
      ti_unitBasePrice = map_option formatCents (ci_unitBasePrice item),
      ti_modifierTotal = formatCents (ci_modifierTotal item)\<rparr>) items = map totals_item (map item_cents items)"
    by (simp add: totals_item_def item_cents_def)
  have "totals_of items (Some fee) (Some disc) =
      calculateCartTotals (map totals_item (map item_cents items)) (Some (formatCents f)) (Some (formatCents g))"
    unfolding totals_of_def m by (simp add: calculateCartTotals_def assms del: map_map)
  then show ?thesis by (simp only: calculateCartTotals_cents)
qed

lemma decimal_of_Inr [simp]: "decimal_of s = Inr c \<longleftrightarrow> parseMoneyToCents (Some s) = Inr (Some c)"
  by (simp add: decimal_of_def)

lemma format_totals_simps [simp]:
  "ct_subtotal (format_totals t) = formatCents (c_subtotal t)"
  "ct_modifierTotal (format_totals t) = formatCents (c_modifierTotal t)"
  "ct_discountTotal (format_totals t) = formatCents (c_discountTotal t)"
  "ct_total (format_totals t) = formatCents (c_total t)"
  by (simp_all add: format_totals_def)

section \<open>The times of a quote\<close>

definition due :: "instant \<Rightarrow> rat \<Rightarrow> instant" where
  "due now minutes = truncate_rat (of_int now + minutes * 60 * 1000)"

lemma truncate_rat_bounds: "\<bar>x\<bar> \<le> of_int n \<Longrightarrow> \<bar>truncate_rat x\<bar> \<le> n"
  unfolding truncate_rat_def abs_le_iff
  by (auto simp: ceiling_le_iff le_floor_iff floor_le_iff le_ceiling_iff neg_le_iff_le minus_le_iff)

lemma shiftIso_parse: "shiftIso now m = Inr s \<Longrightarrow> parse_iso s = Some (due now m)"
proof -
  assume "shiftIso now m = Inr s"
  then have b: "\<bar>of_int now + m * 60 * 1000\<bar> \<le> (8640000000000000 :: rat)"
    and s: "s = toISOString (due now m)" by (auto simp: shiftIso_def due_def Let_def)
  have "\<bar>due now m\<bar> \<le> 8640000000000000" unfolding due_def
    by (rule truncate_rat_bounds) (use b in simp)
  then show ?thesis unfolding s by (intro parse_iso_toISOString) (simp add: valid_instant_def)
qed

text \<open>What a quote promises, by mode.\<close>

definition quote_terms :: "StoreFulfillmentConfig \<Rightarrow> FulfillmentSelection \<Rightarrow> instant \<Rightarrow> string \<Rightarrow> instant \<Rightarrow> instant \<Rightarrow> bool" where
  "quote_terms config sel now fee p e \<longleftrightarrow>
     (case fs_mode sel of
        FmDelivery \<Rightarrow> (\<exists>z \<in> set (fc_deliveryZones config). dz_isActive z \<and> fee = dz_fee z \<and>
          p = due now (dz_slaMinutes z) \<and> e = due now (dz_etaMaxMinutes z))
      | FmPickup \<Rightarrow> pk_enabled (fc_pickup config) \<and> fee = ''0.00'' \<and>
          p = due now (pk_leadTimeMinutes (fc_pickup config)) \<and> e = p
      | FmDineIn \<Rightarrow> di_enabled (fc_dineIn config) \<and> fee = ''0.00'' \<and>
          p = due now (di_leadTimeMinutes (fc_dineIn config)) \<and> e = p)"

lemma quote_terms_hold:
  assumes "quoteFulfillment config sel now = Inr q"
  obtains p e where "parse_iso (fq_promisedAt q) = Some p" "parse_iso (fq_etaAt q) = Some e"
    "quote_terms config sel now (fq_fee q) p e"
proof (cases "fs_mode sel")
  case FmDelivery
  with assms obtain z p e where z: "select_zone (fc_deliveryZones config) sel = Some z"
    "shiftIso now (dz_slaMinutes z) = Inr p" "shiftIso now (dz_etaMaxMinutes z) = Inr e"
    "q = \<lparr>fq_status = FsPending, fq_fee = dz_fee z, fq_promisedAt = p, fq_etaAt = e,
          fq_selection = sel\<lparr>fs_zoneCode := Some (dz_code z)\<rparr>\<rparr>"
    by (auto simp: quoteFulfillment_def split: if_splits)
  show ?thesis
    using select_zone_active [OF z(1)] FmDelivery
    by (intro that [of "due now (dz_slaMinutes z)" "due now (dz_etaMaxMinutes z)"])
      (auto simp: z(4) shiftIso_parse [OF z(2)] shiftIso_parse [OF z(3)] quote_terms_def)
next
  case FmPickup
  with assms show ?thesis
    by (intro that [of "due now (pk_leadTimeMinutes (fc_pickup config))"
          "due now (pk_leadTimeMinutes (fc_pickup config))"])
      (auto simp: quoteFulfillment_def quote_terms_def shiftIso_parse split: if_splits)
next
  case FmDineIn
  with assms show ?thesis
    by (intro that [of "due now (di_leadTimeMinutes (fc_dineIn config))"
          "due now (di_leadTimeMinutes (fc_dineIn config))"])
      (auto simp: quoteFulfillment_def quote_terms_def shiftIso_parse split: if_splits)
qed

section \<open>The fulfilment of a cart\<close>

lemma applyCartFulfillment_Inr:
  assumes "applyCartFulfillment context now i input d = Inr d'"
  obtains c sel config quote fee p e l where
    "cart_get i d = Some c" "cart_status c = OPEN"
    "checkAccess context (cart_tenantId c) (cart_storeId c) = Inr ()"
    "normalizeFulfillmentSelection (Some input) = Some sel"
    "getPublicStoreConfig (cart_storeId c) d = Inr config"
    "quoteFulfillment config sel now = Inr quote" "parseMoneyToCents (Some (fq_fee quote)) = Inr (Some fee)"
    "quote_terms config sel now (fq_fee quote) p e"
    "d' = (cart_update i (\<lambda>c. let t = cents_cart_totals (map item_cents (cart_items i d)) fee 0 in
        fulfilled_cart now quote fee (c_subtotal t) (c_modifierTotal t) (c_total t) p e c) d)\<lparr>auditLogs := l\<rparr>"
proof -
  from assms obtain c sel config quote totals fee st mt grand p e where
    h: "cart_get i d = Some c" "checkAccess context (cart_tenantId c) (cart_storeId c) = Inr ()"
      "cart_status c = OPEN" "normalizeFulfillmentSelection (Some input) = Some sel"
      "getPublicStoreConfig (cart_storeId c) d = Inr config"
    and q: "catch_quote (quoteFulfillment config sel now) = Inr quote"
    and tot: "totals_of (cart_items i d) (Some (fq_fee quote)) (Some ''0.00'') = Inr totals"
    and fee: "parseMoneyToCents (Some (fq_fee quote)) = Inr (Some fee)"
    and amounts: "decimal_of (ct_subtotal totals) = Inr st" "decimal_of (ct_modifierTotal totals) = Inr mt"
      "decimal_of (ct_total totals) = Inr grand"
    and pe: "parse_iso (fq_promisedAt quote) = Some p" "parse_iso (fq_etaAt quote) = Some e"
    and d': "d' = recordTx (fulfilment_audit context c quote)
        (cart_update i (fulfilled_cart now quote fee st mt grand p e) d)"
    unfolding applyCartFulfillment_def loadCart_def getPublicStoreConfig_def
    by (auto simp del: recordTx_def)
  have quote: "quoteFulfillment config sel now = Inr quote"
    using q by (auto simp: catch_quote_def split: sum.splits)
  obtain p' e' where "parse_iso (fq_promisedAt quote) = Some p'" "parse_iso (fq_etaAt quote) = Some e'"
    "quote_terms config sel now (fq_fee quote) p' e'" by (rule quote_terms_hold [OF quote])
  then have terms: "quote_terms config sel now (fq_fee quote) p e" using pe by simp
  have "totals = format_totals (cents_cart_totals (map item_cents (cart_items i d)) fee 0)"
    using tot by (simp add: totals_of_cents [OF fee parse_zero])
  then have g: "fulfilled_cart now quote fee st mt grand p e = (\<lambda>c.
      let t = cents_cart_totals (map item_cents (cart_items i d)) fee 0 in
        fulfilled_cart now quote fee (c_subtotal t) (c_modifierTotal t) (c_total t) p e c)"
    using amounts by (simp add: Let_def)
  show thesis
    by (rule that [OF h(1,3,2,4,5) quote fee terms]) (simp only: d' g recordTx_def)
qed

lemma applyCartFulfillment_core:
  assumes "applyCartFulfillment context now i input d = Inr d'"
  shows "core_step d d'"
proof -
  obtain c sel config quote fee p e l where c: "cart_get i d = Some c"
    and d': "d' = (cart_update i (\<lambda>c. let t = cents_cart_totals (map item_cents (cart_items i d)) fee 0 in
        fulfilled_cart now quote fee (c_subtotal t) (c_modifierTotal t) (c_total t) p e c) d)\<lparr>auditLogs := l\<rparr>"
    by (rule applyCartFulfillment_Inr [OF assms])
  let ?g = "\<lambda>c. let t = cents_cart_totals (map item_cents (cart_items i d)) fee 0 in
        fulfilled_cart now quote fee (c_subtotal t) (c_modifierTotal t) (c_total t) p e c"
  have "core_step d (cart_update i ?g d)"
    by (rule core_step_cart_update [OF c])
      (auto simp: Let_def fulfilled_cart_def cart_consistent_def recorded_discount_def cents_cart_totals_def)
  moreover have "logged (cart_update i ?g d) d'" unfolding d' logged_def by (cases d) (auto simp: cart_update_def)
  ultimately show ?thesis using core_step_trans core_step_logged by blast
qed

section \<open>The configuration and its normal form\<close>

lemma trim_Cons: "\<not> js_space c \<Longrightarrow> trim (c # s) \<noteq> ''''"
  by (simp add: trim_def dropWhile_append3 dropWhile_eq_Nil_conv)

lemma trim_numbered: "trim (numbered (c # s) k) \<noteq> ''''" if "\<not> js_space c"
  using trim_Cons [OF that] by (simp add: numbered_def)

lemma text_or_stable: "trim fb \<noteq> '''' \<Longrightarrow> text_or (Some (JStr (text_or v fb))) fb' = text_or v fb"
  by (auto simp: text_or_def jstring_def split: option.splits)

lemma text_opt_stable: "text_opt (Some (jopt (text_opt v))) = text_opt v"
  by (auto simp: text_opt_def jstring_def jopt_def split: option.splits)

lemma asFulfillmentMode_show [simp]: "asFulfillmentMode (Some (JStr (show_fulfillment_mode m))) = Some m"
  by (cases m) (simp_all add: asFulfillmentMode_def jstring_def show_fulfillment_mode_def)

lemma toNumberOr_num [simp]: "toNumberOr (Some (JNum n)) d = n"
  by (simp add: toNumberOr_def jnumber_def)

lemma not_false_bool [simp]: "not_false (Some (JBool b)) = b" "is_true (Some (JBool b)) = b"
  by (simp_all add: not_false_def is_true_def)

lemma asStringArray_strings [simp]: "asStringArray (Some (JArr (map JStr xs))) = xs"
  by (induction xs) (simp_all add: asStringArray_def map_filter_simps jstring_def)

lemma mapE_enumerate:
  assumes "\<And>z i. z \<in> set zs \<Longrightarrow> f (i, g z) = Inr z"
  shows "mapE f (List.enumerate n (map g zs)) = Inr zs"
  using assms by (induction zs arbitrary: n) auto

lemma map_enumerate:
  assumes "\<And>z i. z \<in> set zs \<Longrightarrow> f (i, g z) = z"
  shows "map f (List.enumerate n (map g zs)) = zs"
  using assms by (induction zs arbitrary: n) auto

lemma asRecords_objects:
  assumes "\<And>z. jrecord (g z)"
  shows "asRecords (Some (JArr (map g zs))) = map g zs"
  using assms by (induction zs) (simp_all add: asRecords_def)

lemma enumerate_pair: "(i, x) \<in> set (List.enumerate n xs) \<Longrightarrow> x \<in> set xs"
  by (induction xs arbitrary: n) auto

lemma js_space_letters: "\<not> js_space (CHR ''z'')" "\<not> js_space (CHR ''Z'')" "\<not> js_space (CHR ''t'')"
    "\<not> js_space (CHR ''T'')" "\<not> js_space (CHR ''m'')"
  by (simp_all add: js_space_def code_def)

lemma zones_stable:
  assumes "normalizeDeliveryZones v = Inr zones"
  shows "normalizeDeliveryZones (Some (JArr (map zone_json zones))) = Inr zones"
proof -
  have "toMoney (Some (JStr (dz_fee z))) ''0.00'' = Inr (dz_fee z) \<and>
      text_or (Some (JStr (dz_code z))) fb = dz_code z \<and> text_or (Some (JStr (dz_name z))) fb = dz_name z"
    if z: "z \<in> set zones" for z fb
  proof -
    from mapE_set [OF assms [unfolded normalizeDeliveryZones_def] z] obtain i entry where
      "dz_code z = text_or (jfield entry ''code'') (numbered ''zone-'' i)"
      "dz_name z = text_or (jfield entry ''name'') (numbered ''Zone '' i)" by auto
    moreover obtain c where "parseMoneyToCents (Some (dz_fee z)) = Inr (Some c)"
      using normalizeDeliveryZones_fee [OF assms z] by blast
    ultimately show ?thesis
      by (simp add: text_or_stable trim_numbered js_space_letters toMoney_def jstring_def)
  qed
  then show ?thesis
    unfolding normalizeDeliveryZones_def
    by (subst asRecords_objects) (auto simp: zone_json_def jrecord_def jfield_def intro!: mapE_enumerate)
qed

lemma tables_stable: "normalizeTables (Some (JArr (map table_json (normalizeTables v)))) = normalizeTables v"
proof -
  have "text_or (Some (JStr (dt_code t))) fb = dt_code t \<and> text_or (Some (JStr (dt_label t))) fb = dt_label t"
    if "t \<in> set (normalizeTables v)" for t fb
    using that by (auto simp: normalizeTables_def text_or_stable trim_numbered js_space_letters)
  then show ?thesis
    by (subst normalizeTables_def, subst asRecords_objects)
      (auto simp: table_json_def jrecord_def jfield_def intro!: map_enumerate)
qed

lemma providers_stable:
  "normalizeProviders (Some (JArr (map provider_json (normalizeProviders v)))) = normalizeProviders v"
proof -
  have "text_or (Some (JStr (fp_providerKey p))) fb = fp_providerKey p \<and>
      fp_providerType p \<in> {''EXTERNAL_PLACEHOLDER'', ''MANUAL''}"
    if "p \<in> set (normalizeProviders v)" for p fb
    using that by (auto simp: normalizeProviders_def text_or_stable trim_numbered js_space_letters split: if_split_asm)
  then show ?thesis
    by (subst normalizeProviders_def, subst asRecords_objects)
      (fastforce simp: provider_json_def jrecord_def jfield_def intro!: map_enumerate)+
qed

lemma modes_stable: "distinct ms \<Longrightarrow>
    unique (List.map_filter (\<lambda>m. asFulfillmentMode (Some m)) (map (\<lambda>m. JStr (show_fulfillment_mode m)) ms)) = ms"
proof -
  have "List.map_filter (\<lambda>m. asFulfillmentMode (Some m)) (map (\<lambda>m. JStr (show_fulfillment_mode m)) ms) = ms"
    by (induction ms) (simp_all add: map_filter_simps)
  then show "distinct ms \<Longrightarrow> ?thesis" by (simp add: unique_def distinct_remdups_id)
qed

text \<open>Normalising a configuration that is already normal changes nothing.\<close>

lemma config_stable:
  assumes "resolveStoreFulfillmentConfig sid raw = Inr c"
  shows "resolveStoreFulfillmentConfig sid (Some (config_json c)) = Inr c"
proof -
  note C = resolved_config [OF assms]
  from assms obtain zones where z: "normalizeDeliveryZones (field raw ''deliveryZones'') = Inr zones"
    and c: "fc_storeId c = sid" "fc_deliveryZones c = zones" "fc_pickup c = normalizePickup (field raw ''pickup'')"
      "fc_dineIn c = normalizeDineIn (field raw ''dineIn'')" "fc_providers c = normalizeProviders (field raw ''providers'')"
    by (auto simp: resolveStoreFulfillmentConfig_def Let_def)
  have pick: "normalizePickup (Some (pickup_json (normalizePickup v))) = normalizePickup v" for v
    by (simp add: normalizePickup_def pickup_json_def field_def jfield_def text_opt_stable)
  have dine: "normalizeDineIn (Some (dine_in_json (normalizeDineIn v))) = normalizeDineIn v" for v
    by (simp add: normalizeDineIn_def dine_in_json_def field_def jfield_def tables_stable)
  have fields: "field (Some (config_json c)) ''enabledModes'' = Some (modes_json (fc_enabledModes c))"
    "field (Some (config_json c)) ''defaultMode'' = Some (JStr (show_fulfillment_mode (fc_defaultMode c)))"
    "field (Some (config_json c)) ''deliveryZones'' = Some (JArr (map zone_json (fc_deliveryZones c)))"
    "field (Some (config_json c)) ''pickup'' = Some (pickup_json (fc_pickup c))"
    "field (Some (config_json c)) ''dineIn'' = Some (dine_in_json (fc_dineIn c))"
    "field (Some (config_json c)) ''providers'' = Some (JArr (map provider_json (fc_providers c)))"
    by (simp_all add: config_json_def config_fields_def field_def jfield_def)
  show ?thesis
    unfolding resolveStoreFulfillmentConfig_def fields Let_def
    using C(1,2) by (simp add: modes_json_def modes_stable c zones_stable [OF z] pick dine providers_stable)
qed

lemma map_of_filter_keys: "map_of (filter (\<lambda>(k, v). k \<notin> K) xs) k = (if k \<in> K then None else map_of xs k)"
  by (induction xs) auto

lemma map_of_given: "distinct (map fst dto) \<Longrightarrow>
    map_of (List.map_filter (\<lambda>(k, m). map_option (Pair k) m) dto) k = (case map_of dto k of None \<Rightarrow> None | Some m \<Rightarrow> m)"
proof (induction dto)
  case Nil
  then show ?case by (simp add: map_filter_simps)
next
  case (Cons x dto)
  obtain a m where x: "x = (a, m)" by (cases x)
  show ?case
  proof (cases m)
    case None
    with Cons x show ?thesis by (cases "a = k") (auto simp: map_filter_simps map_of_eq_None_iff [THEN iffD2])
  next
    case (Some v)
    with Cons x show ?thesis by (simp add: map_filter_simps)
  qed
qed

lemma spread_field:
  assumes "distinct (map fst dto)"
  shows "field (Some (spread current dto)) k = (case map_of dto k of None \<Rightarrow> map_of current k | Some m \<Rightarrow> m)"
proof -
  have n: "k \<in> set (map fst dto) \<longleftrightarrow> map_of dto k \<noteq> None" by (simp add: map_of_eq_None_iff)
  show ?thesis
    by (simp add: field_def jfield_def spread_def map_add_def map_of_filter_keys map_of_given [OF assms] n
        split: option.split del: set_map)
qed

lemma upsertStoreConfig_Inr:
  assumes "upsertStoreConfig context now sid dto d = Inr (next, d')"
  obtains store current i n ss l where
    "store \<in> set (stores d)" "st_id store = sid" "enforceStoreAccess context sid = Inr ()"
    "getPublicStoreConfig sid d = Inr current"
    "resolveStoreFulfillmentConfig sid (Some (spread (config_fields current) dto)) = Inr next"
    "getPublicStoreConfig sid d' = Inr next" "db_seq d \<le> n" "d' = d\<lparr>db_seq := n, storeSettings := ss, auditLogs := l\<rparr>"
proof -
  from assms obtain store current i d1 log where
    h: "enforceStoreAccess context sid = Inr ()" "find (\<lambda>s. st_id s = sid) (stores d) = Some store"
      "getPublicStoreConfig sid d = Inr current"
      "resolveStoreFulfillmentConfig sid (Some (spread (config_fields current) dto)) = Inr next"
    and up: "upsert_setting now (st_tenantId store) sid fulfillment_config_key (config_json next) d = (i, d1)"
    and d': "d' = recordTx log d1"
    unfolding upsertStoreConfig_def getPublicStoreConfig_def
    by (auto simp: Let_def case_prod_Inr simp del: recordTx_def)
  obtain n ss where d1: "db_seq d \<le> n" "d1 = d\<lparr>db_seq := n, storeSettings := ss\<rparr>" using upsert_logged [OF up] by blast
  have "loadConfigValue sid d' = Some (config_json next)"
    using store_settings.read_back [OF up] by (simp add: loadConfigValue_def d')
  then have "getPublicStoreConfig sid d' = Inr next"
    by (simp add: getPublicStoreConfig_def config_stable [OF h(4)])
  moreover have "d' = d\<lparr>db_seq := n, storeSettings := ss, auditLogs := auditLogs d @ [log]\<rparr>"
    by (simp add: d' d1(2))
  ultimately show thesis using find_SomeD [OF h(2)] h d1(1) by (intro that) auto
qed

lemma upsertStoreConfig_core: "upsertStoreConfig context now sid dto d = Inr (next, d') \<Longrightarrow> core_step d d'"
  by (erule upsertStoreConfig_Inr)
    (auto simp: core_step_def api_ok_def intro: order_grows_refl
      elim!: stock_ok_cong [rotated 3] carts_ok_cong [rotated 4] orders_ok_cong)

section \<open>The dispatch board\<close>

lemma due_le_trans: "due_le a b \<Longrightarrow> due_le b c \<Longrightarrow> due_le a c"
  by (auto simp: due_le_def split: option.splits)

lemma due_le_total: "due_le a b \<or> due_le b a"
  by (auto simp: due_le_def split: option.splits)

lemma dispatch_orders_sorted: "sorted_wrt due_le (dispatch_orders t s d)"
  unfolding dispatch_orders_def by (rule sort_by_sorted [OF due_le_trans due_le_total])

section \<open>The view after a committed change\<close>

text \<open>The transaction checked the access to the order, so the answer that follows cannot fail.\<close>

lemma own_change_view:
  assumes "loadOrder i d = Inr order" and "own_change f"
    and "checkAccess context (ord_tenantId order) (ord_storeId order) = Inr ()"
    and "logged (order_update i f d) d'"
  shows "\<exists>v. getOrderProjection context i d' = Inr v"
proof -
  have k: "ord_id (f x) = ord_id x" "ord_tenantId (f x) = ord_tenantId x" "ord_storeId (f x) = ord_storeId x" for x
    using assms(2) unfolding own_change_def same_place_def by blast+
  have "order_get i (order_update i f d) = Some (f order)"
    using assms(1) by (intro order_rows.get_upd_same k(1)) (simp add: loadOrder_Inr)
  then have "loadOrder i d' = Inr (f order)"
    using loggedD [OF assms(4)] by (simp add: loadOrder_Inr order_get_def)
  then show ?thesis
    using assms(3) by (simp add: getOrderProjection_def getOrder_def listOrderEvents_def k)
qed

end
