(* ===== verification/Doubles.thy ===== *)
theory Doubles
  imports Money "HOL-Library.Log_Nat"
begin

text \<open>
  Numbers of the source that are not whole are IEEE doubles. \<open>dbl\<close> is the double nearest to an
  exact value, ties to even, in the range of the normal doubles, where every amount of the program
  lies: \<open>a + b\<close> of the source is \<open>dbl (a + b)\<close>, \<open>Number("19.99")\<close> is \<open>dbl (1999 / 100)\<close>. The
  lemmas bound what the rounding can change.
\<close>

section \<open>Rounding\<close>

definition round_even :: "rat \<Rightarrow> int" where
  "round_even y =
     (let n = \<lfloor>y\<rfloor>; r = y - of_int n in
      if r < 1/2 then n else if r > 1/2 then n + 1 else if even n then n else n + 1)"

definition pow2 :: "int \<Rightarrow> rat" where
  "pow2 k = (if 0 \<le> k then 2 ^ nat k else 1 / 2 ^ nat (- k))"

text \<open>The exponent that scales a number to 53 bits.\<close>

definition scale_of :: "rat \<Rightarrow> int" where
  "scale_of x =
     (let (a, b) = quotient_of \<bar>x\<bar>; k = 52 - (bitlen a - bitlen b) in
      if \<bar>x\<bar> * pow2 k < 2 ^ 52 then k + 1 else k)"

definition dbl :: "rat \<Rightarrow> rat" where
  "dbl x = (if x = 0 then 0 else of_int (round_even (x * pow2 (scale_of x))) / pow2 (scale_of x))"

text \<open>\<open>x.toFixed(2)\<close> for a number that is not negative.\<close>

definition toFixed2 :: "rat \<Rightarrow> string" where
  "toFixed2 x = formatCents \<lfloor>100 * x + 1/2\<rfloor>"

lemma pow2_pos [simp]: "0 < pow2 k"
  by (simp add: pow2_def)

lemma pow2_Suc: "pow2 (k + 1) = 2 * pow2 k"
proof (cases "0 \<le> k")
  case True
  then have "nat (k + 1) = Suc (nat k)" by simp
  with True show ?thesis by (simp add: pow2_def)
next
  case False
  then have "nat (- k) = Suc (nat (- k - 1))" "- (k + 1) = - k - 1" by simp_all
  with False show ?thesis by (auto simp: pow2_def)
qed

lemma pow2_diff: "pow2 (52 - (m - n)) = 2 ^ 52 * 2 ^ nat n / 2 ^ nat m" if "0 \<le> m" "0 \<le> n"
proof (cases "m - n \<le> 52")
  case True
  then have "52 + nat n = nat (52 - (m - n)) + nat m" using that by simp
  then have "(2::rat) ^ 52 * 2 ^ nat n = 2 ^ nat (52 - (m - n)) * 2 ^ nat m" by (metis power_add)
  with True show ?thesis by (simp add: pow2_def field_simps)
next
  case False
  then have "52 + nat n + nat (- (52 - (m - n))) = nat m" using that by simp
  then have "(2::rat) ^ 52 * 2 ^ nat n * 2 ^ nat (- (52 - (m - n))) = 2 ^ nat m" by (metis power_add)
  with False show ?thesis by (simp add: pow2_def field_simps)
qed

lemma round_even_error: "\<bar>of_int (round_even y) - y\<bar> \<le> 1/2"
proof -
  define n where "n = \<lfloor>y\<rfloor>"
  have "of_int n \<le> y" "y < of_int n + 1" unfolding n_def by linarith+
  then show ?thesis
    unfolding round_even_def Let_def abs_le_iff n_def [symmetric] by (auto split: if_splits)
qed

lemma round_even_int [simp]: "round_even (of_int n) = n"
  by (simp add: round_even_def Let_def)

lemma bitlen_between:
  assumes "0 < a"
  shows "2 ^ nat (bitlen a) \<le> 2 * a" "a < 2 ^ nat (bitlen a)"
proof -
  have "0 < bitlen a" using assms bitlen_nonneg [of a] bitlen_eq_zero_iff [of a] by linarith
  then obtain n where n: "nat (bitlen a) = Suc n" "nat (bitlen a - 1) = n"
    by (metis Suc_nat_eq_nat_zadd1 add.commute diff_add_cancel zle_diff1_eq)
  from bitlen_bounds [OF assms] show "2 ^ nat (bitlen a) \<le> 2 * a" "a < 2 ^ nat (bitlen a)"
    unfolding n by simp_all
qed

text \<open>Scaled, a number has 53 bits.\<close>

lemma scale_bounds:
  assumes "x \<noteq> 0"
  shows "2 ^ 52 \<le> \<bar>x\<bar> * pow2 (scale_of x)"
proof -
  obtain a b where q: "quotient_of \<bar>x\<bar> = (a, b)" by (cases "quotient_of \<bar>x\<bar>")
  have b: "0 < b" and x: "\<bar>x\<bar> = of_int a / of_int b"
    using quotient_of_denom_pos [OF q] quotient_of_div [OF q] by simp_all
  have "0 < (of_int a :: rat)" using assms b x by (metis abs_0 abs_not_less_zero abs_of_nonneg
        divide_eq_0_iff linorder_neqE_linordered_idom of_int_0_less_iff of_int_pos zero_less_abs_iff
        divide_less_0_iff)
  then have a: "0 < a" by simp
  let ?k = "52 - (bitlen a - bitlen b)"
  have "2 ^ 51 \<le> \<bar>x\<bar> * pow2 ?k"
  proof -
    have "(2 ^ nat (bitlen a) :: rat) \<le> 2 * of_int a" "(of_int b :: rat) \<le> 2 ^ nat (bitlen b)"
      using bitlen_between(1) [OF a] bitlen_between(2) [OF b]
      by (metis of_int_le_iff of_int_mult of_int_numeral of_int_power, metis less_imp_le of_int_le_iff of_int_numeral of_int_power)
    then have "2 ^ nat (bitlen a) * of_int b \<le> (2 * of_int a * 2 ^ nat (bitlen b) :: rat)"
      using a b by (intro mult_mono) auto
    then show ?thesis
      unfolding x pow2_diff [OF bitlen_nonneg bitlen_nonneg] using b by (simp add: field_simps)
  qed
  then show ?thesis unfolding scale_of_def q Let_def prod.case
    using pow2_Suc [of ?k] by (auto simp: algebra_simps)
qed

lemma dbl_0 [simp]: "dbl 0 = 0"
  by (simp add: dbl_def)

text \<open>The relative error of one rounding.\<close>

definition eps :: rat where
  "eps = 1 / 2 ^ 53"

lemma eps_pos [simp]: "0 < eps"
  by (simp add: eps_def)

lemma dbl_error: "\<bar>dbl x - x\<bar> \<le> \<bar>x\<bar> * eps"
proof (cases "x = 0")
  case False
  let ?s = "pow2 (scale_of x)"
  have s: "0 < ?s" by simp
  have "\<bar>of_int (round_even (x * ?s)) - x * ?s\<bar> \<le> \<bar>x\<bar> * ?s * eps"
    using round_even_error [of "x * ?s"] scale_bounds [OF False] by (simp add: eps_def)
  then have "\<bar>(dbl x - x) * ?s\<bar> \<le> \<bar>x\<bar> * eps * ?s"
    using False s by (simp add: dbl_def algebra_simps)
  then show ?thesis using s by (simp add: abs_mult)
qed simp

text \<open>Whole numbers below \<open>2 ^ 53\<close> are doubles.\<close>

lemma dbl_of_int:
  assumes "\<bar>n\<bar> < 2 ^ 53"
  shows "dbl (of_int n) = of_int n"
proof (cases "n = 0")
  case False
  let ?x = "of_int n :: rat"
  have big: "2 ^ 52 \<le> \<bar>?x\<bar> * pow2 (scale_of ?x)" using False by (intro scale_bounds) simp
  have less: "\<bar>?x\<bar> < 2 ^ 53" using assms by (metis of_int_abs of_int_less_iff of_int_numeral of_int_power)
  have "0 \<le> scale_of ?x"
  proof (rule ccontr)
    assume neg: "\<not> 0 \<le> scale_of ?x"
    then obtain k where "nat (- scale_of ?x) = Suc k" by (cases "nat (- scale_of ?x)") auto
    with neg have "pow2 (scale_of ?x) \<le> 1 / 2" by (simp add: pow2_def field_simps)
    then have "\<bar>?x\<bar> * pow2 (scale_of ?x) \<le> \<bar>?x\<bar> * (1 / 2)" by (intro mult_left_mono) auto
    with big less show False by simp
  qed
  then have "pow2 (scale_of ?x) = of_int (2 ^ nat (scale_of ?x))" by (simp add: pow2_def)
  then have "?x * pow2 (scale_of ?x) = of_int (n * 2 ^ nat (scale_of ?x))" by simp
  then have "of_int (round_even (?x * pow2 (scale_of ?x))) = ?x * pow2 (scale_of ?x)"
    by (metis round_even_int)
  moreover have "pow2 (scale_of ?x) \<noteq> 0" using pow2_pos less_irrefl by metis
  ultimately show ?thesis using False by (simp add: dbl_def)
qed simp

lemma floor_near:
  fixes a b :: int and y :: rat
  assumes b: "0 < b" and near: "\<bar>y - of_int a / of_int b\<bar> * of_int b < 1" and odd: "a mod b \<noteq> 0"
  shows "\<lfloor>y\<rfloor> = a div b"
proof -
  let ?q = "a div b" and ?r = "a mod b"
  have r: "1 \<le> ?r" "?r \<le> b - 1" using b odd pos_mod_bound [of b a] pos_mod_sign [of b a] by linarith+
  have "of_int a = (of_int (b * ?q + ?r) :: rat)" by (simp only: mult_div_mod_eq)
  then have a': "of_int a = (of_int ?q * of_int b + of_int ?r :: rat)" by (simp only: of_int_add of_int_mult mult.commute)
  have a: "of_int a / of_int b * of_int b = (of_int ?q * of_int b + of_int ?r :: rat)"
    using b by (simp add: a')
  have "\<bar>(y - of_int a / of_int b) * of_int b\<bar> < 1" using near b by (simp add: abs_mult)
  then have "\<bar>y * of_int b - of_int a / of_int b * of_int b\<bar> < 1" by (simp only: left_diff_distrib)
  then have "y * of_int b < of_int ?q * of_int b + of_int ?r + 1" "of_int ?q * of_int b + of_int ?r - 1 < y * of_int b"
    unfolding a by linarith+
  moreover have "(of_int ?r + 1 :: rat) \<le> of_int b" "(0 :: rat) \<le> of_int ?r - 1"
    using r by (metis add.commute add_le_cancel_left diff_add_cancel of_int_1 of_int_add of_int_le_iff le_diff_eq,
      simp)
  ultimately have "y * of_int b < (of_int ?q + 1) * of_int b" "of_int ?q * of_int b < y * of_int b"
    unfolding distrib_right mult_1 by linarith+
  then have "y < of_int ?q + 1" "of_int ?q < y" using b by (simp_all add: mult_less_cancel_right)
  then show ?thesis by (intro floor_unique) simp_all
qed

text \<open>
  \<open>Math.floor(a / b)\<close> of whole numbers is the whole quotient: no rounding error reaches the next
  whole number.
\<close>

lemma floor_dbl_div:
  fixes a b :: int
  assumes b: "0 < b" and a: "0 \<le> a" "a < 2 ^ 53"
  shows "\<lfloor>dbl (of_int a / of_int b)\<rfloor> = a div b"
proof (cases "a mod b = 0")
  case True
  then have q: "of_int a / of_int b = (of_int (a div b) :: rat)"
    using b by (metis of_int_div mod_0_imp_dvd)
  have "0 \<le> a div b" "a div b \<le> a" using a b using zdiv_mono2 [of a 1 b] by (simp_all add: pos_imp_zdiv_nonneg_iff)
  then show ?thesis unfolding q using a by (subst dbl_of_int) auto
next
  case False
  have "\<bar>dbl (of_int a / of_int b) - of_int a / of_int b\<bar> \<le> of_int a / of_int b * eps"
    using dbl_error [of "of_int a / of_int b"] a b by simp
  then have "\<bar>dbl (of_int a / of_int b) - of_int a / of_int b\<bar> * of_int b \<le> of_int a / of_int b * eps * of_int b"
    using b by (intro mult_right_mono) auto
  also have "\<dots> = of_int a * eps" using b by simp
  also have "\<dots> < 1"
  proof -
    have "(of_int a :: rat) < 2 ^ 53" using a(2) by (metis of_int_less_iff of_int_numeral of_int_power)
    then show ?thesis by (simp add: eps_def)
  qed
  finally show ?thesis using False by (intro floor_near [OF b])
qed

text \<open>Two amounts of cents as doubles compare as the amounts do.\<close>

lemma dbl_cents_less:
  fixes a b :: int
  assumes a: "\<bar>a\<bar> \<le> 10 ^ 12" and b: "\<bar>b\<bar> \<le> 10 ^ 12"
  shows "dbl (of_int a / 100) < dbl (of_int b / 100) \<longleftrightarrow> a < b"
proof -
  have e: "\<bar>dbl (of_int x / 100) - of_int x / 100\<bar> < 1 / 1000" if "\<bar>x\<bar> \<le> 10 ^ 12" for x :: int
  proof -
    have "\<bar>of_int x\<bar> \<le> (10 ^ 12 :: rat)" using that
      by (metis of_int_abs of_int_le_iff of_int_numeral of_int_power)
    then have "\<bar>of_int x / 100\<bar> * eps \<le> 10 ^ 10 * eps" by (intro mult_right_mono) (auto simp: eps_def)
    also have "\<dots> < 1 / 1000" by (simp add: eps_def)
    finally show ?thesis using dbl_error [of "of_int x / 100"] by linarith
  qed
  note ea = e [OF a] and eb = e [OF b]
  show ?thesis
  proof
    assume "a < b"
    then have "of_int a + 1 \<le> (of_int b :: rat)" by (metis of_int_1 of_int_add of_int_le_iff zless_imp_add1_zle)
    with ea eb show "dbl (of_int a / 100) < dbl (of_int b / 100)" by linarith
  next
    assume l: "dbl (of_int a / 100) < dbl (of_int b / 100)"
    show "a < b"
    proof (rule ccontr)
      assume "\<not> a < b"
      with l have "b < a" by (cases "a = b") auto
      then have "of_int b + 1 \<le> (of_int a :: rat)" by (metis of_int_1 of_int_add of_int_le_iff zless_imp_add1_zle)
      with ea eb l show False by linarith
    qed
  qed
qed

end
