(* ===== verification/CustomerRuntime.thy ===== *)
theory CustomerRuntime
  imports Doubles Calendar
begin

text \<open>
  The arithmetic of customers and promotions: the functions of
  \<open>customers/customer-runtime.util.ts\<close>, with the discounts and the sums of money they compute in
  doubles.
\<close>

section \<open>Phones, segments and retention\<close>

definition normalizeCustomerPhone :: "string \<Rightarrow> string" where
  "normalizeCustomerPhone phone =
     (let digits = filter is_digit phone in if digits \<noteq> '''' then ''+'' @ digits else trim phone)"

definition day_ms :: int where
  "day_ms = 24 * 60 * 60 * 1000"

definition daysSinceLastOrder :: "instant \<Rightarrow> instant option \<Rightarrow> int option" where
  "daysSinceLastOrder now lastOrderAt = map_option (\<lambda>t. (now - t) div day_ms) lastOrderAt"

definition at_risk :: "instant \<Rightarrow> instant option \<Rightarrow> bool" where
  "at_risk now lastOrderAt = (case daysSinceLastOrder now lastOrderAt of None \<Rightarrow> False | Some n \<Rightarrow> 30 \<le> n)"

definition deriveCustomerSegments ::
  "instant \<Rightarrow> int \<Rightarrow> int \<Rightarrow> string \<Rightarrow> instant option \<Rightarrow> int \<Rightarrow> error + string list" where
  "deriveCustomerSegments now orderCount completedOrderCount totalSpent lastOrderAt pointsBalance =
     bnd (parseMoneyToCents (Some totalSpent)) (\<lambda>c.
     let totalSpentCents = nullish c 0;
         segments = (if orderCount \<le> 1 then [''NEW''] else []) @
           (if orderCount \<ge> 2 then [''REPEAT''] else []) @
           (if completedOrderCount \<ge> 3 \<or> totalSpentCents \<ge> 15000 then [''LOYAL''] else []) @
           (if totalSpentCents \<ge> 30000 \<or> pointsBalance \<ge> 300 then [''VIP''] else []) @
           (if at_risk now lastOrderAt then [''AT_RISK''] else []) in
     Inr (sort_by string_le segments))"

definition retention_json :: "instant \<Rightarrow> string \<Rightarrow> string \<Rightarrow> json" where
  "retention_json now action templateKey =
     JObj [(''action'', JStr action), (''templateKey'', JStr templateKey),
           (''recommendedAt'', JStr (toISOString now))]"

text \<open>Both branches of the source's test for \<open>LOYAL\<close> answer \<open>NURTURE\<close>.\<close>

definition deriveRetentionState :: "instant \<Rightarrow> int \<Rightarrow> string list \<Rightarrow> instant option \<Rightarrow> json" where
  "deriveRetentionState now orderCount segments lastOrderAt =
     (if at_risk now lastOrderAt then retention_json now ''WINBACK'' ''customer-winback-offer''
      else if orderCount \<le> 1 then retention_json now ''WELCOME'' ''customer-welcome-series''
      else retention_json now (if ''LOYAL'' \<in> set segments then ''NURTURE'' else ''NURTURE'')
        (if ''VIP'' \<in> set segments then ''customer-vip-reward'' else ''customer-repeat-nurture''))"

section \<open>Points and discounts\<close>

definition resolveEarnedLoyaltyPoints :: "string \<Rightarrow> error + int" where
  "resolveEarnedLoyaltyPoints orderTotal =
     bnd (parseMoneyToCents (Some orderTotal)) (\<lambda>c. Inr (max 0 (nullish c 0 div 100)))"

text \<open>\<open>Math.floor(orderTotalCents * (rawValueCents / 100 / 100))\<close>, in doubles.\<close>

definition percent_cents :: "int \<Rightarrow> int \<Rightarrow> int" where
  "percent_cents orderTotalCents rawValueCents =
     (let percentage = dbl (of_int rawValueCents / 100)
      in \<lfloor>dbl (of_int orderTotalCents * dbl (percentage / 100))\<rfloor>)"

definition promotion_cents :: "PromotionType \<Rightarrow> int \<Rightarrow> int \<Rightarrow> int option \<Rightarrow> int" where
  "promotion_cents type rawValueCents orderTotalCents maxDiscountCents =
     (let discountCents = (if type = PERCENTAGE then percent_cents orderTotalCents rawValueCents
            else rawValueCents);
          capped = (case maxDiscountCents of None \<Rightarrow> discountCents | Some m \<Rightarrow> min discountCents m)
      in min orderTotalCents capped)"

definition resolvePromotionDiscount ::
  "PromotionType \<Rightarrow> string \<Rightarrow> string \<Rightarrow> string option \<Rightarrow> error + string" where
  "resolvePromotionDiscount type value orderTotal maxDiscountAmount =
     bnd (parseMoneyToCents (Some orderTotal)) (\<lambda>t.
     bnd (parseMoneyToCents (Some value)) (\<lambda>v.
     bnd (case maxDiscountAmount of None \<Rightarrow> Inr None
            | Some m \<Rightarrow> bnd (parseMoneyToCents (Some m)) (\<lambda>c. Inr (Some (max 0 (nullish c 0))))) (\<lambda>maxDiscountCents.
     Inr (formatCents (promotion_cents type (max 0 (nullish v 0)) (max 0 (nullish t 0)) maxDiscountCents)))))"

section \<open>What a customer spent\<close>

text \<open>
  The loop over the orders of a customer: each total is read as a double, times one hundred, and
  added to the sum; the sum over one hundred is written with two digits.
\<close>

definition add_spent :: "int \<Rightarrow> rat \<Rightarrow> rat" where
  "add_spent totalCents acc = dbl (acc + max 0 (dbl (dbl (of_int totalCents / 100) * 100)))"

definition totalSpentCents :: "int list \<Rightarrow> rat" where
  "totalSpentCents totals = fold add_spent totals 0"

definition total_spent :: "int list \<Rightarrow> string" where
  "total_spent totals = toFixed2 (dbl (totalSpentCents totals / 100))"

section \<open>How far the doubles are from the exact amounts\<close>

lemma dbl_factor: obtains e where "dbl x = x * (1 + e)" "\<bar>e\<bar> \<le> eps"
proof (cases "x = 0")
  case True
  then show thesis by (intro that [of 0]) (simp_all add: less_imp_le)
next
  case False
  have "dbl x / x - 1 = (dbl x - x) / x" using False by (simp add: diff_divide_distrib)
  then have "\<bar>dbl x / x - 1\<bar> = \<bar>dbl x - x\<bar> / \<bar>x\<bar>" by (simp only: abs_divide)
  also have "\<dots> \<le> eps" using False dbl_error [of x] by (simp add: field_simps)
  finally show thesis using False by (intro that [of "dbl x / x - 1"]) simp_all
qed

lemma three_factors:
  assumes "\<bar>a\<bar> \<le> eps" "\<bar>b\<bar> \<le> eps" "\<bar>c\<bar> \<le> eps"
  shows "\<bar>(1 + a) * (1 + b) * (1 + c) - 1\<bar> \<le> 4 * eps"
proof -
  have m: "\<bar>x * y\<bar> \<le> eps * u" if "\<bar>x\<bar> \<le> eps" "\<bar>y\<bar> \<le> u" for x y u :: rat
    unfolding abs_mult using that by (intro mult_mono) (auto simp: eps_def)
  have bc: "\<bar>b * c\<bar> \<le> eps * eps" by (rule m [OF assms(2,3)])
  have "\<bar>a * b\<bar> \<le> eps * eps" "\<bar>a * c\<bar> \<le> eps * eps" "\<bar>a * (b * c)\<bar> \<le> eps * (eps * eps)"
    by (rule m [OF assms(1,2)], rule m [OF assms(1,3)], rule m [OF assms(1) bc])
  note bc this
  moreover have "(1 + a) * (1 + b) * (1 + c) - 1 = a + b + c + a * b + a * c + b * c + a * (b * c)"
    by (simp add: algebra_simps)
  moreover have "3 * (eps * eps) + eps * (eps * eps) \<le> eps" by (simp add: eps_def)
  ultimately show ?thesis using assms by linarith
qed

lemma percent_near:
  assumes "0 \<le> t" "0 \<le> v" "t * v < 2 ^ 51"
  shows "\<bar>dbl (of_int t * dbl (dbl (of_int v / 100) / 100)) - of_int (t * v) / of_int 10000\<bar> * of_int 10000 < 1"
proof -
  define x where "x = dbl (of_int v / 100)"
  define y where "y = dbl (x / 100)"
  define z where "z = dbl (of_int t * y)"
  obtain a where a: "x = of_int v / 100 * (1 + a)" "\<bar>a\<bar> \<le> eps" unfolding x_def by (rule dbl_factor)
  obtain b where b: "y = x / 100 * (1 + b)" "\<bar>b\<bar> \<le> eps" unfolding y_def by (rule dbl_factor)
  obtain c where c: "z = of_int t * y * (1 + c)" "\<bar>c\<bar> \<le> eps" unfolding z_def by (rule dbl_factor)
  let ?p = "of_int (t * v) :: rat"
  have "z = ?p / 10000 * ((1 + a) * (1 + b) * (1 + c))" unfolding c(1) b(1) a(1) by simp
  then have "(z - ?p / 10000) * 10000 = ?p * ((1 + a) * (1 + b) * (1 + c) - 1)" by (simp add: right_diff_distrib)
  then have "\<bar>z - ?p / 10000\<bar> * 10000 = \<bar>?p\<bar> * \<bar>(1 + a) * (1 + b) * (1 + c) - 1\<bar>"
    by (metis abs_mult abs_numeral)
  also have "\<dots> \<le> \<bar>?p\<bar> * (4 * eps)" by (intro mult_left_mono three_factors a b c) simp
  also have "\<dots> < 1"
  proof -
    have "0 \<le> ?p" "?p < 2 ^ 51" using assms
      by (metis mult_nonneg_nonneg of_int_0_le_iff, metis of_int_less_iff of_int_numeral of_int_power)
    then show ?thesis by (simp add: eps_def)
  qed
  finally show ?thesis by (simp add: z_def y_def x_def)
qed

text \<open>
  A percentage of an amount is exact unless it comes out at a whole number of cents, where it may be
  one cent less.
\<close>

lemma percent_cents_bounds:
  assumes "0 \<le> t" "0 \<le> v" "t * v < 2 ^ 51"
  shows "t * v mod 10000 \<noteq> 0 \<Longrightarrow> percent_cents t v = t * v div 10000"
    and "percent_cents t v = t * v div 10000 \<or> percent_cents t v = t * v div 10000 - 1"
proof -
  note N = percent_near [OF assms]
  show off: "t * v mod 10000 \<noteq> 0 \<Longrightarrow> percent_cents t v = t * v div 10000"
    unfolding percent_cents_def Let_def by (rule floor_near [OF _ N]) simp_all
  show "percent_cents t v = t * v div 10000 \<or> percent_cents t v = t * v div 10000 - 1"
  proof (cases "t * v mod 10000 = 0")
    case True
    then obtain k where k: "t * v = 10000 * k" by auto
    have "\<bar>dbl (of_int t * dbl (dbl (of_int v / 100) / 100)) - of_int k\<bar> < 1" using N unfolding k by simp
    then have "\<lfloor>dbl (of_int t * dbl (dbl (of_int v / 100) / 100))\<rfloor> = k \<or>
        \<lfloor>dbl (of_int t * dbl (dbl (of_int v / 100) / 100))\<rfloor> = k - 1" by linarith
    then show ?thesis unfolding percent_cents_def Let_def k by simp
  qed (simp add: off)
qed

lemma percent_cents_nonneg: "0 \<le> t \<Longrightarrow> 0 \<le> v \<Longrightarrow> 0 \<le> percent_cents t v"
proof -
  have n: "0 \<le> dbl x" if "0 \<le> x" for x
  proof -
    obtain e where "dbl x = x * (1 + e)" "\<bar>e\<bar> \<le> eps" by (rule dbl_factor)
    moreover have "eps \<le> 1" by (simp add: eps_def)
    ultimately show ?thesis using that by simp
  qed
  show "0 \<le> t \<Longrightarrow> 0 \<le> v \<Longrightarrow> ?thesis"
    unfolding percent_cents_def Let_def by (simp add: n)
qed

section \<open>What a customer spent, exactly\<close>

lemma spent_term:
  assumes "\<bar>t\<bar> \<le> 10 ^ 12"
  shows "\<bar>max 0 (dbl (dbl (of_int t / 100) * 100)) - of_int (max 0 t)\<bar> \<le> 3 * eps * of_int (max 0 t)"
proof -
  define x where "x = dbl (of_int t / 100)"
  define z where "z = dbl (x * 100)"
  obtain a where a: "x = of_int t / 100 * (1 + a)" "\<bar>a\<bar> \<le> eps" unfolding x_def by (rule dbl_factor)
  obtain b where b: "z = x * 100 * (1 + b)" "\<bar>b\<bar> \<le> eps" unfolding z_def by (rule dbl_factor)
  have y: "dbl (dbl (of_int t / 100) * 100) = of_int t * ((1 + a) * (1 + b))"
    unfolding x_def [symmetric] unfolding z_def [symmetric] unfolding b(1) unfolding a(1) by simp
  have e: "eps \<le> 1" "eps * eps \<le> eps" by (simp_all add: eps_def)
  have pos: "0 \<le> (1 + a) * (1 + b)" using a(2) b(2) e by (intro mult_nonneg_nonneg) linarith+
  have ab: "\<bar>a * b\<bar> \<le> eps * eps" unfolding abs_mult using a(2) b(2) by (intro mult_mono) (auto simp: eps_def)
  show ?thesis
  proof (cases "t \<le> 0")
    case True
    then have "of_int t * ((1 + a) * (1 + b)) \<le> 0" using pos by (simp add: mult_nonpos_nonneg)
    with True y show ?thesis by (simp add: max_def)
  next
    case False
    have "\<bar>of_int t * ((1 + a) * (1 + b)) - of_int t\<bar> = of_int t * \<bar>a + b + a * b\<bar>"
    proof -
      have "of_int t * ((1 + a) * (1 + b)) - of_int t = of_int t * (a + b + a * b)" by (simp add: algebra_simps)
      then show ?thesis using False by (simp add: abs_mult)
    qed
    also have "\<dots> \<le> of_int t * (3 * eps)"
      using False a(2) b(2) ab e by (intro mult_left_mono) linarith+
    finally have "\<bar>of_int t * ((1 + a) * (1 + b)) - of_int t\<bar> \<le> 3 * eps * of_int t" by (simp add: algebra_simps)
    moreover have "0 \<le> of_int t * ((1 + a) * (1 + b))" using pos False by simp
    ultimately show ?thesis using False y by (simp add: max_def)
  qed
qed

definition sum_spent :: "int list \<Rightarrow> int" where
  "sum_spent totals = (\<Sum>t\<leftarrow>totals. max 0 t)"

lemma sum_spent_nonneg: "0 \<le> sum_spent ts"
  by (induction ts) (simp_all add: sum_spent_def)

definition spent_error :: "nat \<Rightarrow> int \<Rightarrow> rat" where
  "spent_error k s = 3 * eps * of_int s + of_nat k * (2 * 10 ^ 12 * eps)"

lemma spent_error_small: "s \<le> 10 ^ 12 \<Longrightarrow> k \<le> 2000 \<Longrightarrow> spent_error k s < 9 / 20"
proof -
  assume s: "s \<le> 10 ^ 12" and k: "k \<le> 2000"
  have "(of_int s :: rat) \<le> 10 ^ 12" using s by (metis of_int_le_iff of_int_numeral of_int_power)
  then have "3 * eps * of_int s \<le> 3 * eps * 10 ^ 12" by (intro mult_left_mono) (auto simp: eps_def)
  moreover have "of_nat k * (2 * 10 ^ 12 * eps) \<le> 2000 * (2 * 10 ^ 12 * eps)"
    using k by (intro mult_right_mono) (auto simp: eps_def)
  moreover have "3 * eps * 10 ^ 12 + 2000 * (2 * 10 ^ 12 * eps) < 9 / 20" by (simp add: eps_def)
  ultimately show ?thesis unfolding spent_error_def by linarith
qed

lemma fold_spent_near:
  assumes "\<forall>t \<in> set ts. \<bar>t\<bar> \<le> 10 ^ 12" and "0 \<le> s" and "s + sum_spent ts \<le> 10 ^ 12" and "k + length ts \<le> 2000"
    and "\<bar>acc - of_int s\<bar> \<le> spent_error k s"
  shows "\<bar>fold add_spent ts acc - of_int (s + sum_spent ts)\<bar> \<le> spent_error (k + length ts) (s + sum_spent ts)"
  using assms
proof (induction ts arbitrary: s k acc)
  case Nil
  then show ?case by (simp add: sum_spent_def)
next
  case (Cons t ts)
  let ?a = "max 0 (dbl (dbl (of_int t / 100) * 100))" and ?s = "s + max 0 t"
  have S: "sum_spent (t # ts) = max 0 t + sum_spent ts" by (simp add: sum_spent_def)
  have le: "s \<le> 10 ^ 12" "?s \<le> 10 ^ 12" using Cons.prems(2,3) sum_spent_nonneg [of ts] unfolding S by linarith+
  have a: "\<bar>?a - of_int (max 0 t)\<bar> \<le> 3 * eps * of_int (max 0 t)"
    using Cons.prems(1) by (intro spent_term) simp
  have small: "3 * eps * of_int (max 0 t) \<le> 1"
  proof -
    have "max 0 t \<le> 10 ^ 12" using le(2) Cons.prems(2) by linarith
    then have "(of_int (max 0 t) :: rat) \<le> 10 ^ 12" by (metis of_int_le_iff of_int_numeral of_int_power)
    then have "3 * eps * of_int (max 0 t) \<le> 3 * eps * 10 ^ 12" by (intro mult_left_mono) (auto simp: eps_def)
    also have "\<dots> \<le> 1" by (simp add: eps_def)
    finally show ?thesis .
  qed
  have e: "spent_error k s < 9 / 20" using le(1) Cons.prems(4) by (intro spent_error_small) simp_all
  have sr: "(of_int ?s :: rat) \<le> 10 ^ 12" "(0 :: rat) \<le> of_int ?s"
    using le(2) Cons.prems(2) by (metis of_int_le_iff of_int_numeral of_int_power, simp)
  have near: "\<bar>acc + ?a - of_int ?s\<bar> \<le> spent_error k s + 3 * eps * of_int (max 0 t)"
    using Cons.prems(5) a by simp linarith
  have "(2 :: rat) \<le> 10 ^ 12" by simp
  then have "\<bar>acc + ?a\<bar> \<le> 2 * 10 ^ 12" using near e small sr by linarith
  then have "\<bar>acc + ?a\<bar> * eps \<le> 2 * 10 ^ 12 * eps" by (intro mult_right_mono) (auto simp: eps_def)
  then have "\<bar>add_spent t acc - (acc + ?a)\<bar> \<le> 2 * 10 ^ 12 * eps"
    unfolding add_spent_def using dbl_error [of "acc + ?a"] by linarith
  then have "\<bar>add_spent t acc - of_int ?s\<bar> \<le> spent_error k s + 3 * eps * of_int (max 0 t) + 2 * 10 ^ 12 * eps"
    using near by linarith
  also have "\<dots> = spent_error (Suc k) ?s" by (simp add: spent_error_def algebra_simps)
  finally have step: "\<bar>add_spent t acc - of_int ?s\<bar> \<le> spent_error (Suc k) ?s" .
  have "\<bar>fold add_spent ts (add_spent t acc) - of_int (?s + sum_spent ts)\<bar> \<le>
      spent_error (Suc k + length ts) (?s + sum_spent ts)"
    by (rule Cons.IH [OF _ _ _ _ step]) (use Cons.prems in \<open>simp_all add: S\<close>)
  then show ?case by (simp add: S add.assoc)
qed

lemma total_spent_exact:
  assumes "\<forall>t \<in> set ts. \<bar>t\<bar> \<le> 10 ^ 12" and "sum_spent ts \<le> 10 ^ 12" and "length ts \<le> 2000"
  shows "total_spent ts = formatCents (sum_spent ts)"
proof -
  let ?x = "totalSpentCents ts" and ?S = "sum_spent ts"
  have near: "\<bar>?x - of_int ?S\<bar> \<le> spent_error (length ts) ?S"
    using fold_spent_near [of ts 0 0 0] assms by (simp add: totalSpentCents_def spent_error_def)
  have e: "spent_error (length ts) ?S < 9 / 20" using assms by (intro spent_error_small)
  have "(of_int ?S :: rat) \<le> 10 ^ 12" using assms(2) by (metis of_int_le_iff of_int_numeral of_int_power)
  moreover have "(0 :: rat) \<le> of_int ?S" using sum_spent_nonneg [of ts] by simp
  ultimately have "\<bar>?x / 100\<bar> \<le> 2 * 10 ^ 12 / 100" using near e by simp
  then have "\<bar>?x / 100\<bar> * eps \<le> 2 * 10 ^ 12 / 100 * eps" by (intro mult_right_mono) (auto simp: eps_def)
  also have "\<dots> \<le> 1 / 10000" by (simp add: eps_def)
  finally have "\<bar>dbl (?x / 100) - ?x / 100\<bar> \<le> 1 / 10000" using dbl_error [of "?x / 100"] by linarith
  then have "\<bar>100 * dbl (?x / 100) - of_int ?S\<bar> < 1/2" using near e by linarith
  then have "\<lfloor>100 * dbl (?x / 100) + 1/2\<rfloor> = ?S" by linarith
  then show ?thesis by (simp add: total_spent_def toFixed2_def)
qed

end
