(* ===== verification/Customers.thy ===== *)
theory Customers
  imports FulfillmentOps CustomerRuntime
begin

text \<open>
  The handlers of \<open>customers/customers.module.ts\<close>: customer profiles, the loyalty ledger, the
  promotion campaigns, and what they do to carts and orders.
\<close>

section \<open>Rows\<close>

definition profile_get :: "uuid \<Rightarrow> db \<Rightarrow> CustomerProfile option" where
  "profile_get i d = find (\<lambda>r. cp_id r = i) (customerProfiles d)"

definition profile_update :: "uuid \<Rightarrow> (CustomerProfile \<Rightarrow> CustomerProfile) \<Rightarrow> db \<Rightarrow> db" where
  "profile_update i f d = d\<lparr>customerProfiles := update_where (\<lambda>r. cp_id r = i) f (customerProfiles d)\<rparr>"

definition profile_create :: "CustomerProfile \<Rightarrow> db \<Rightarrow> db" where
  "profile_create r d = d\<lparr>customerProfiles := customerProfiles d @ [r]\<rparr>"

definition account_get :: "uuid \<Rightarrow> db \<Rightarrow> LoyaltyAccount option" where
  "account_get i d = find (\<lambda>r. la_id r = i) (loyaltyAccounts d)"

definition account_of :: "uuid \<Rightarrow> db \<Rightarrow> LoyaltyAccount option" where
  "account_of profileId d = find (\<lambda>r. la_customerProfileId r = profileId) (loyaltyAccounts d)"

definition account_update :: "uuid \<Rightarrow> (LoyaltyAccount \<Rightarrow> LoyaltyAccount) \<Rightarrow> db \<Rightarrow> db" where
  "account_update i f d = d\<lparr>loyaltyAccounts := update_where (\<lambda>r. la_id r = i) f (loyaltyAccounts d)\<rparr>"

definition account_create :: "LoyaltyAccount \<Rightarrow> db \<Rightarrow> db" where
  "account_create r d = d\<lparr>loyaltyAccounts := loyaltyAccounts d @ [r]\<rparr>"

definition promotion_get :: "uuid \<Rightarrow> db \<Rightarrow> PromotionCampaign option" where
  "promotion_get i d = find (\<lambda>r. pc_id r = i) (promotions d)"

definition promotion_update :: "uuid \<Rightarrow> (PromotionCampaign \<Rightarrow> PromotionCampaign) \<Rightarrow> db \<Rightarrow> db" where
  "promotion_update i f d = d\<lparr>promotions := update_where (\<lambda>r. pc_id r = i) f (promotions d)\<rparr>"

definition promotion_create :: "PromotionCampaign \<Rightarrow> db \<Rightarrow> db" where
  "promotion_create r d = d\<lparr>promotions := promotions d @ [r]\<rparr>"

interpretation profile_rows: row_store cp_id "\<lambda>d. map cp_id (customerProfiles d)" profile_get
    profile_update profile_create
  by (rule row_store_list) (simp_all add: profile_get_def profile_update_def profile_create_def)

interpretation account_rows: row_store la_id "\<lambda>d. map la_id (loyaltyAccounts d)" account_get
    account_update account_create
  by (rule row_store_list) (simp_all add: account_get_def account_update_def account_create_def)

interpretation promotion_rows: row_store pc_id "\<lambda>d. map pc_id (promotions d)" promotion_get
    promotion_update promotion_create
  by (rule row_store_list) (simp_all add: promotion_get_def promotion_update_def promotion_create_def)

section \<open>Transfer objects\<close>

definition jnull :: "('a \<Rightarrow> json) \<Rightarrow> 'a option \<Rightarrow> json" where
  "jnull f m = (case m of None \<Rightarrow> JNull | Some x \<Rightarrow> f x)"

definition parseStringArray :: "json option \<Rightarrow> string list" where
  "parseStringArray value = asStringArray value"

definition object_json :: "json option \<Rightarrow> json" where
  "object_json value = (case value of Some (JObj kvs) \<Rightarrow> JObj kvs | _ \<Rightarrow> JNull)"

definition mapLoyaltyAccount :: "LoyaltyAccount option \<Rightarrow> json" where
  "mapLoyaltyAccount account =
     (case account of None \<Rightarrow> JNull
      | Some a \<Rightarrow> JObj
          [(''pointsBalance'', jint (la_pointsBalance a)),
           (''totalEarnedPoints'', jint (la_totalEarnedPoints a)),
           (''totalRedeemedPoints'', jint (la_totalRedeemedPoints a)),
           (''tierKey'', jopt (la_tierKey a)), (''updatedAt'', jtime (la_updatedAt a))])"

definition mapPromotionCampaign :: "PromotionCampaign \<Rightarrow> json" where
  "mapPromotionCampaign campaign = JObj
     [(''id'', JStr (pc_id campaign)),
      (''tenantId'', JStr (pc_tenantId campaign)),
      (''storeId'', jopt (pc_storeId campaign)),
      (''code'', JStr (pc_code campaign)),
      (''name'', JStr (pc_name campaign)),
      (''status'', JStr (show_promotion_status (pc_status campaign))),
      (''type'', JStr (show_promotion_type (pc_type campaign))),
      (''value'', jmoney (pc_value campaign)),
      (''minimumOrderTotal'', jmoney (pc_minimumOrderTotal campaign)),
      (''maxDiscountAmount'', jnull jmoney (pc_maxDiscountAmount campaign)),
      (''pointsCost'', jnull jint (pc_pointsCost campaign)),
      (''segmentKeys'', JArr (map JStr (pc_segmentKeys campaign))),
      (''usageLimit'', jnull jint (pc_usageLimit campaign)),
      (''usedCount'', jint (pc_usedCount campaign)),
      (''activeFrom'', jdate (pc_activeFrom campaign)),
      (''activeTo'', jdate (pc_activeTo campaign)),
      (''metadata'', object_json (pc_metadata campaign)),
      (''createdAt'', jtime (pc_createdAt campaign)),
      (''updatedAt'', jtime (pc_updatedAt campaign))]"

definition mapRetention :: "json option \<Rightarrow> json" where
  "mapRetention retentionState =
     (case (jstring (field retentionState ''action''), jstring (field retentionState ''templateKey''),
            jstring (field retentionState ''recommendedAt'')) of
        (Some action, Some templateKey, Some recommendedAt) \<Rightarrow>
          if action \<in> {''WELCOME'', ''NURTURE'', ''WINBACK''}
          then JObj [(''action'', JStr action), (''templateKey'', JStr templateKey),
                     (''recommendedAt'', JStr recommendedAt)]
          else JNull
      | _ \<Rightarrow> JNull)"

definition mapCustomerProfile :: "CustomerProfile \<Rightarrow> LoyaltyAccount option \<Rightarrow> json" where
  "mapCustomerProfile profile loyaltyAccount = JObj
     [(''id'', JStr (cp_id profile)),
      (''tenantId'', JStr (cp_tenantId profile)),
      (''preferredStoreId'', jopt (cp_preferredStoreId profile)),
      (''fullName'', jopt (cp_fullName profile)),
      (''phone'', JStr (cp_phone profile)),
      (''status'', JStr (cp_status profile)),
      (''orderCount'', jint (cp_orderCount profile)),
      (''completedOrderCount'', jint (cp_completedOrderCount profile)),
      (''totalSpent'', jmoney (cp_totalSpent profile)),
      (''lastOrderAt'', jdate (cp_lastOrderAt profile)),
      (''lastSeenAt'', jdate (cp_lastSeenAt profile)),
      (''segments'', JArr (map JStr (parseStringArray (cp_segments profile)))),
      (''loyalty'', mapLoyaltyAccount loyaltyAccount),
      (''retention'', mapRetention (cp_retentionState profile)),
      (''createdAt'', jtime (cp_createdAt profile)),
      (''updatedAt'', jtime (cp_updatedAt profile))]"

definition mapPublicCustomerProfile :: "json \<Rightarrow> json" where
  "mapPublicCustomerProfile profile =
     (let get = (\<lambda>k. nullish (jfield profile k) JNull) in JObj
        [(''id'', get ''id''), (''customerName'', get ''fullName''), (''customerPhone'', get ''phone''),
         (''orderCount'', get ''orderCount''), (''totalSpent'', get ''totalSpent''),
         (''lastOrderAt'', get ''lastOrderAt''), (''segments'', get ''segments''),
         (''loyalty'', get ''loyalty''), (''retention'', get ''retention'')])"

definition mapLoyaltyEntry :: "LoyaltyLedgerEntry \<Rightarrow> json" where
  "mapLoyaltyEntry entry = JObj
     [(''id'', JStr (lle_id entry)),
      (''tenantId'', JStr (lle_tenantId entry)),
      (''customerProfileId'', JStr (lle_customerProfileId entry)),
      (''loyaltyAccountId'', JStr (lle_loyaltyAccountId entry)),
      (''orderId'', jopt (lle_orderId entry)),
      (''entryKind'', JStr (show_entry_kind (lle_entryKind entry))),
      (''points'', jint (lle_points entry)),
      (''amount'', jnull jmoney (lle_amount entry)),
      (''description'', jopt (lle_description entry)),
      (''metadata'', object_json (lle_metadata entry)),
      (''createdAt'', jtime (lle_createdAt entry))]"

section \<open>Reads\<close>

record CustomerProfilesQuery =
  cpq_tenantId :: "uuid option"
  cpq_storeId :: "uuid option"
  cpq_phone :: "string option"
  cpq_status :: "string option"

text \<open>\<open>ORDER BY lastOrderAt DESC, createdAt DESC\<close>: profiles without an order come first.\<close>

definition last_order_ge :: "CustomerProfile \<Rightarrow> CustomerProfile \<Rightarrow> bool" where
  "last_order_ge a b =
     (case (cp_lastOrderAt a, cp_lastOrderAt b) of
        (None, _) \<Rightarrow> True
      | (Some s, None) \<Rightarrow> False
      | (Some s, Some t) \<Rightarrow> t \<le> s)"

definition with_phone :: "string option \<Rightarrow> string option" where
  "with_phone phone = (if truthy (map_option trim phone) then map_option normalizeCustomerPhone phone else None)"

definition listProfiles :: "RequestContext \<Rightarrow> CustomerProfilesQuery \<Rightarrow> db \<Rightarrow> json result" where
  "listProfiles context query d =
     bnd (checkStoreQuery context (cpq_storeId query)) (\<lambda>_.
     bnd (tenantWhere context (cpq_tenantId query)) (\<lambda>tw.
     let phoneNormalized = with_phone (cpq_phone query) in
     Inr (jlist (map (\<lambda>p. mapCustomerProfile p (account_of (cp_id p) d))
       (sort_by last_order_ge (rev (filter (\<lambda>p. of_tenant tw (cp_tenantId p) \<and>
          (truthy (cpq_storeId query) \<longrightarrow> cp_preferredStoreId p = cpq_storeId query) \<and>
          (truthy (cpq_status query) \<longrightarrow> Some (cp_status p) = cpq_status query) \<and>
          (case phoneNormalized of None \<Rightarrow> True | Some phone \<Rightarrow> cp_phoneNormalized p = phone))
          (customerProfiles d))))))))"

text \<open>The access to a profile: its tenant, and its preferred store when it has one.\<close>

definition loadProfile :: "RequestContext \<Rightarrow> uuid \<Rightarrow> db \<Rightarrow> CustomerProfile result" where
  "loadProfile context customerProfileId d =
     bnd (orThrow (profile_get customerProfileId d) (RecordNotFound ''CustomerProfile'')) (\<lambda>profile.
     bnd (resolveTenantId context (Some (cp_tenantId profile)) True) (\<lambda>_.
     bnd (checkStoreQuery context (cp_preferredStoreId profile)) (\<lambda>_.
     Inr profile)))"

definition getProfile :: "RequestContext \<Rightarrow> uuid \<Rightarrow> db \<Rightarrow> json result" where
  "getProfile context customerProfileId d =
     bnd (loadProfile context customerProfileId d) (\<lambda>profile.
     Inr (mapCustomerProfile profile (account_of (cp_id profile) d)))"

definition profile_entries :: "uuid \<Rightarrow> db \<Rightarrow> LoyaltyLedgerEntry list" where
  "profile_entries profileId d = filter (\<lambda>e. lle_customerProfileId e = profileId) (loyaltyEntries d)"

definition listLoyaltyEntries :: "RequestContext \<Rightarrow> uuid \<Rightarrow> db \<Rightarrow> json result" where
  "listLoyaltyEntries context customerProfileId d =
     bnd (loadProfile context customerProfileId d) (\<lambda>profile.
     Inr (jlist (map mapLoyaltyEntry (rev (profile_entries customerProfileId d)))))"

section \<open>Accounts and profiles\<close>

definition ensureLoyaltyAccountTx ::
  "instant \<Rightarrow> CustomerProfile \<Rightarrow> db \<Rightarrow> LoyaltyAccount \<times> db" where
  "ensureLoyaltyAccountTx now profile d =
     (case account_of (cp_id profile) d of
        Some current \<Rightarrow> (current, d)
      | None \<Rightarrow>
          let account = \<lparr>la_id = nextId d, la_tenantId = cp_tenantId profile,
                la_customerProfileId = cp_id profile, la_pointsBalance = 0, la_totalEarnedPoints = 0,
                la_totalRedeemedPoints = 0, la_tierKey = None, la_createdAt = now, la_updatedAt = now\<rparr>
          in (account, account_create account (bump d)))"

definition earned_points :: "LoyaltyLedgerEntry list \<Rightarrow> int" where
  "earned_points entries = (\<Sum>e\<leftarrow>filter (\<lambda>e. 0 < lle_points e) entries. lle_points e)"

definition redeemed_points :: "LoyaltyLedgerEntry list \<Rightarrow> int" where
  "redeemed_points entries = (\<Sum>e\<leftarrow>filter (\<lambda>e. lle_points e < 0) entries. \<bar>lle_points e\<bar>)"

definition tier_of :: "int \<Rightarrow> string" where
  "tier_of totalEarnedPoints =
     (if totalEarnedPoints \<ge> 300 then ''gold'' else if totalEarnedPoints \<ge> 100 then ''silver''
      else ''starter'')"

definition refreshed_account :: "instant \<Rightarrow> LoyaltyLedgerEntry list \<Rightarrow> LoyaltyAccount \<Rightarrow> LoyaltyAccount" where
  "refreshed_account now entries a = a\<lparr>la_pointsBalance := (\<Sum>e\<leftarrow>entries. lle_points e),
     la_totalEarnedPoints := earned_points entries, la_totalRedeemedPoints := redeemed_points entries,
     la_tierKey := Some (tier_of (earned_points entries)), la_updatedAt := now\<rparr>"

definition refreshLoyaltyAccountTx :: "instant \<Rightarrow> uuid \<Rightarrow> db \<Rightarrow> db result" where
  "refreshLoyaltyAccountTx now customerProfileId d =
     bnd (orThrow (account_of customerProfileId d) (RecordNotFound ''LoyaltyAccount'')) (\<lambda>account.
     Inr (account_update (la_id account) (refreshed_account now (profile_entries customerProfileId d)) d))"

text \<open>The orders of a customer, the newest first: by link or by phone, none of them cancelled.\<close>

definition placed_ge :: "Order \<Rightarrow> Order \<Rightarrow> bool" where
  "placed_ge a b = (ord_placedAt b \<le> ord_placedAt a)"

definition customer_orders :: "CustomerProfile \<Rightarrow> db \<Rightarrow> Order list" where
  "customer_orders profile d = sort_by placed_ge (rev (filter (\<lambda>r.
     ord_tenantId r = cp_tenantId profile \<and>
     (ord_customerProfileId r = Some (cp_id profile) \<or> ord_customerPhone r = Some (cp_phone profile)) \<and>
     ord_status r \<noteq> CANCELLED) (orders d)))"

definition first_of :: "('a \<Rightarrow> 'b) \<Rightarrow> 'a list \<Rightarrow> 'b option" where
  "first_of f xs = (case xs of [] \<Rightarrow> None | x # _ \<Rightarrow> Some (f x))"

definition refreshed_profile ::
  "instant \<Rightarrow> Order list \<Rightarrow> int \<Rightarrow> string list \<Rightarrow> CustomerProfile \<Rightarrow> CustomerProfile" where
  "refreshed_profile now rows spent segments p = p\<lparr>
     cp_preferredStoreId := orElse (first_of ord_storeId rows) (cp_preferredStoreId p),
     cp_orderCount := int (length rows),
     cp_completedOrderCount := int (length (filter (\<lambda>r. ord_status r = COMPLETED) rows)),
     cp_totalSpent := spent, cp_lastOrderAt := first_of ord_placedAt rows, cp_lastSeenAt := Some now,
     cp_segments := Some (JArr (map JStr segments)),
     cp_retentionState := Some (deriveRetentionState now (int (length rows)) segments
       (first_of ord_placedAt rows)), cp_updatedAt := now\<rparr>"

definition refreshCustomerProfileTx ::
  "instant \<Rightarrow> uuid \<Rightarrow> db \<Rightarrow> (CustomerProfile \<times> db) result" where
  "refreshCustomerProfileTx now customerProfileId d =
     bnd (orThrow (profile_get customerProfileId d) (RecordNotFound ''CustomerProfile'')) (\<lambda>profile.
     let rows = customer_orders profile d;
         (loyalty, d1) = ensureLoyaltyAccountTx now profile d;
         totalSpent = total_spent (map ord_total rows) in
     bnd (deriveCustomerSegments now (int (length rows))
            (int (length (filter (\<lambda>r. ord_status r = COMPLETED) rows))) totalSpent
            (first_of ord_placedAt rows) (la_pointsBalance loyalty)) (\<lambda>segments.
     bnd (decimal_of totalSpent) (\<lambda>spent.
     Inr (refreshed_profile now rows spent segments profile,
          profile_update (cp_id profile) (refreshed_profile now rows spent segments) d1))))"

definition seen_profile :: "instant \<Rightarrow> uuid \<Rightarrow> string option \<Rightarrow> string \<Rightarrow> CustomerProfile \<Rightarrow> CustomerProfile" where
  "seen_profile now storeId customerName phone p = p\<lparr>cp_preferredStoreId := Some storeId,
     cp_fullName := orElse customerName (cp_fullName p), cp_phone := phone,
     cp_lastSeenAt := Some now, cp_updatedAt := now\<rparr>"

definition new_profile :: "instant \<Rightarrow> uuid \<Rightarrow> uuid \<Rightarrow> uuid \<Rightarrow> string option \<Rightarrow> string \<Rightarrow> CustomerProfile" where
  "new_profile now i tenantId storeId customerName phone =
     \<lparr>cp_id = i, cp_tenantId = tenantId, cp_preferredStoreId = Some storeId, cp_fullName = customerName,
      cp_phone = phone, cp_phoneNormalized = phone, cp_status = ''ACTIVE'', cp_orderCount = 0,
      cp_completedOrderCount = 0, cp_totalSpent = 0, cp_lastOrderAt = None, cp_lastSeenAt = Some now,
      cp_segments = Some (JArr [JStr ''NEW'']), cp_retentionState = None, cp_createdAt = now,
      cp_updatedAt = now\<rparr>"

definition find_customer :: "uuid \<Rightarrow> string \<Rightarrow> db \<Rightarrow> CustomerProfile option" where
  "find_customer tenantId phone d =
     find (\<lambda>p. cp_tenantId p = tenantId \<and> cp_phoneNormalized p = phone) (customerProfiles d)"

definition resolveOrCreateCustomerProfileTx ::
  "instant \<Rightarrow> uuid \<Rightarrow> uuid \<Rightarrow> string option \<Rightarrow> string \<Rightarrow> db \<Rightarrow> CustomerProfile \<times> db" where
  "resolveOrCreateCustomerProfileTx now tenantId storeId customerName customerPhone d =
     (let normalizedPhone = normalizeCustomerPhone customerPhone in
      case find_customer tenantId normalizedPhone d of
        Some current \<Rightarrow>
          (seen_profile now storeId customerName normalizedPhone current,
           profile_update (cp_id current) (seen_profile now storeId customerName normalizedPhone) d)
      | None \<Rightarrow>
          let profile = new_profile now (nextId d) tenantId storeId customerName normalizedPhone
          in (profile, profile_create profile (bump d)))"

section \<open>Adjusting the points of a customer\<close>

record AdjustCustomerLoyaltyDto =
  acl_points :: int
  acl_description :: "string option"

definition new_entry ::
  "instant \<Rightarrow> uuid \<Rightarrow> uuid \<Rightarrow> uuid \<Rightarrow> uuid option \<Rightarrow> LoyaltyLedgerEntryKind \<Rightarrow> int \<Rightarrow> int option \<Rightarrow>
   string option \<Rightarrow> db \<Rightarrow> db" where
  "new_entry now tenantId profileId accountId orderId kind points amount description d =
     bump (d\<lparr>loyaltyEntries := loyaltyEntries d @
       [\<lparr>lle_id = nextId d, lle_tenantId = tenantId, lle_customerProfileId = profileId,
         lle_loyaltyAccountId = accountId, lle_orderId = orderId, lle_entryKind = kind,
         lle_points = points, lle_amount = amount, lle_description = description,
         lle_metadata = None, lle_createdAt = now\<rparr>]\<rparr>)"

definition adjustLoyalty ::
  "RequestContext \<Rightarrow> instant \<Rightarrow> uuid \<Rightarrow> AdjustCustomerLoyaltyDto \<Rightarrow> db \<Rightarrow> (json \<times> db) result" where
  "adjustLoyalty context now customerProfileId dto d =
     bnd (loadProfile context customerProfileId d) (\<lambda>profile.
     let (account, d1) = ensureLoyaltyAccountTx now profile d;
         d2 = new_entry now (cp_tenantId profile) (cp_id profile) (la_id account) None ADJUST
                (acl_points dto) None (acl_description dto) d1 in
     bnd (refreshLoyaltyAccountTx now (cp_id profile) d2) (\<lambda>d3.
     bnd (refreshCustomerProfileTx now (cp_id profile) d3) (\<lambda>(refreshedProfile, d4).
     let d5 = recordTx \<lparr>al_tenantId = Some (cp_tenantId profile),
                al_storeId = cp_preferredStoreId profile, al_actorType = resolveActorType context,
                al_actorId = resolveActorId context, al_action = ''customer.loyalty_adjusted'',
                al_entityType = ''customer_profile'', al_entityId = cp_id profile,
                al_payload = Some (JObj [(''points'', jint (acl_points dto)),
                  (''description'', jopt (acl_description dto))])\<rparr> d4;
         d6 = domainEvents_record \<lparr>ob_tenantId = Some (cp_tenantId profile),
                ob_eventName = ''customer.loyalty_adjusted'', ob_aggregate = ''customer_profile'',
                ob_aggregateId = cp_id profile,
                ob_payload = JObj [(''customerProfileId'', JStr (cp_id profile)),
                  (''points'', jint (acl_points dto))]\<rparr> d5 in
     Inr (mapCustomerProfile refreshedProfile (account_of (cp_id refreshedProfile) d6), d6))))"

section \<open>Promotion campaigns\<close>

record PromotionsQuery =
  prq_tenantId :: "uuid option"
  prq_storeId :: "uuid option"
  prq_status :: "PromotionStatus option"

definition promotion_rank :: "PromotionStatus \<Rightarrow> nat" where
  "promotion_rank s = (case s of PromoActive \<Rightarrow> 0 | PromoPaused \<Rightarrow> 1 | PromoArchived \<Rightarrow> 2)"

definition status_le :: "PromotionCampaign \<Rightarrow> PromotionCampaign \<Rightarrow> bool" where
  "status_le a b = (promotion_rank (pc_status a) \<le> promotion_rank (pc_status b))"

text \<open>A campaign of a store is offered there, one without a store everywhere.\<close>

definition for_store :: "uuid \<Rightarrow> PromotionCampaign \<Rightarrow> bool" where
  "for_store storeId p = (pc_storeId p = Some storeId \<or> pc_storeId p = None)"

definition listPromotions :: "RequestContext \<Rightarrow> PromotionsQuery \<Rightarrow> db \<Rightarrow> json result" where
  "listPromotions context query d =
     bnd (checkStoreQuery context (prq_storeId query)) (\<lambda>_.
     bnd (tenantWhere context (prq_tenantId query)) (\<lambda>tw.
     Inr (jlist (map mapPromotionCampaign (sort_by status_le (rev (filter (\<lambda>p.
       of_tenant tw (pc_tenantId p) \<and>
       (truthy (prq_storeId query) \<longrightarrow> for_store (nullish (prq_storeId query) '''') p) \<and>
       listed (prq_status query) (pc_status p)) (promotions d))))))))"

record CreatePromotionDto =
  cpd_tenantId :: uuid
  cpd_storeId :: "uuid option"
  cpd_code :: string
  cpd_name :: string
  cpd_status :: "PromotionStatus option"
  cpd_type :: PromotionType
  cpd_value :: string
  cpd_minimumOrderTotal :: "string option"
  cpd_maxDiscountAmount :: "string option"
  cpd_pointsCost :: "int option"
  cpd_segmentKeys :: "string list option"
  cpd_usageLimit :: "int option"
  cpd_activeFrom :: "instant option"
  cpd_activeTo :: "instant option"
  cpd_metadata :: "json option"

definition money_column :: "string option \<Rightarrow> int option result" where
  "money_column m = (case m of None \<Rightarrow> Inr None | Some s \<Rightarrow> bnd (decimal_of s) (\<lambda>c. Inr (Some c)))"

definition promotion_code :: "string \<Rightarrow> string" where
  "promotion_code s = toUpperCase (trim s)"

definition code_taken :: "uuid \<Rightarrow> string \<Rightarrow> db \<Rightarrow> bool" where
  "code_taken tenantId c d = ((tenantId, c) \<in> set (map (\<lambda>p. (pc_tenantId p, pc_code p)) (promotions d)))"

definition new_promotion ::
  "instant \<Rightarrow> uuid \<Rightarrow> uuid \<Rightarrow> CreatePromotionDto \<Rightarrow> int \<Rightarrow> int \<Rightarrow> int option \<Rightarrow> PromotionCampaign" where
  "new_promotion now i tenantId dto value minimumOrderTotal maxDiscountAmount =
     \<lparr>pc_id = i, pc_tenantId = tenantId, pc_storeId = cpd_storeId dto,
      pc_code = promotion_code (cpd_code dto), pc_name = trim (cpd_name dto),
      pc_status = nullish (cpd_status dto) PromoActive, pc_type = cpd_type dto, pc_value = value,
      pc_minimumOrderTotal = minimumOrderTotal, pc_maxDiscountAmount = maxDiscountAmount,
      pc_pointsCost = cpd_pointsCost dto, pc_segmentKeys = nullish (cpd_segmentKeys dto) [],
      pc_usageLimit = cpd_usageLimit dto, pc_usedCount = 0, pc_activeFrom = cpd_activeFrom dto,
      pc_activeTo = cpd_activeTo dto, pc_metadata = cpd_metadata dto, pc_createdAt = now,
      pc_updatedAt = now\<rparr>"

definition promotion_audit ::
  "RequestContext \<Rightarrow> string \<Rightarrow> PromotionCampaign \<Rightarrow> (string \<times> json) \<Rightarrow> AuditLog" where
  "promotion_audit context action p extra =
     \<lparr>al_tenantId = Some (pc_tenantId p), al_storeId = pc_storeId p,
      al_actorType = resolveActorType context, al_actorId = resolveActorId context,
      al_action = action, al_entityType = ''promotion_campaign'', al_entityId = pc_id p,
      al_payload = Some (JObj [(''code'', JStr (pc_code p)), extra])\<rparr>"

definition createPromotion ::
  "RequestContext \<Rightarrow> instant \<Rightarrow> CreatePromotionDto \<Rightarrow> db \<Rightarrow> (json \<times> db) result" where
  "createPromotion context now dto d =
     bnd (resolveTenantId context (Some (cpd_tenantId dto)) True) (\<lambda>tenantId.
     bnd (checkStoreQuery context (cpd_storeId dto)) (\<lambda>_.
     bnd (decimal_of (cpd_value dto)) (\<lambda>value.
     bnd (decimal_of (nullish (cpd_minimumOrderTotal dto) ''0.00'')) (\<lambda>minimumOrderTotal.
     bnd (money_column (cpd_maxDiscountAmount dto)) (\<lambda>maxDiscountAmount.
     let created = new_promotion now (nextId d) tenantId dto value minimumOrderTotal maxDiscountAmount in
     bnd (ensure (\<not> code_taken tenantId (pc_code created) d) (UniqueViolation ''PromotionCampaign'')) (\<lambda>_.
     Inr (mapPromotionCampaign created,
       recordTx (promotion_audit context ''promotion.created'' created
           (''type'', JStr (show_promotion_type (pc_type created))))
         (promotion_create created (bump d)))))))))"

record UpdatePromotionDto =
  upd_storeId :: "uuid option option"
  upd_code :: "string option"
  upd_name :: "string option"
  upd_status :: "PromotionStatus option"
  upd_type :: "PromotionType option"
  upd_value :: "string option"
  upd_minimumOrderTotal :: "string option"
  upd_maxDiscountAmount :: "string option option"
  upd_pointsCost :: "int option option"
  upd_segmentKeys :: "string list option"
  upd_usageLimit :: "int option option"
  upd_activeFrom :: "instant option option"
  upd_activeTo :: "instant option option"
  upd_metadata :: "json option option"

definition changed_promotion ::
  "instant \<Rightarrow> UpdatePromotionDto \<Rightarrow> int option \<Rightarrow> int option \<Rightarrow> int option option \<Rightarrow>
   PromotionCampaign \<Rightarrow> PromotionCampaign" where
  "changed_promotion now dto value minimumOrderTotal maxDiscountAmount p = p\<lparr>
     pc_storeId := field_of (upd_storeId dto) (pc_storeId p),
     pc_code := field_of (map_option promotion_code (upd_code dto)) (pc_code p),
     pc_name := field_of (map_option trim (upd_name dto)) (pc_name p),
     pc_status := field_of (upd_status dto) (pc_status p),
     pc_type := field_of (upd_type dto) (pc_type p),
     pc_value := field_of value (pc_value p),
     pc_minimumOrderTotal := field_of minimumOrderTotal (pc_minimumOrderTotal p),
     pc_maxDiscountAmount := field_of maxDiscountAmount (pc_maxDiscountAmount p),
     pc_pointsCost := field_of (upd_pointsCost dto) (pc_pointsCost p),
     pc_segmentKeys := field_of (upd_segmentKeys dto) (pc_segmentKeys p),
     pc_usageLimit := field_of (upd_usageLimit dto) (pc_usageLimit p),
     pc_activeFrom := field_of (upd_activeFrom dto) (pc_activeFrom p),
     pc_activeTo := field_of (upd_activeTo dto) (pc_activeTo p),
     pc_metadata := field_of (upd_metadata dto) (pc_metadata p), pc_updatedAt := now\<rparr>"

definition updatePromotion ::
  "RequestContext \<Rightarrow> instant \<Rightarrow> uuid \<Rightarrow> UpdatePromotionDto \<Rightarrow> db \<Rightarrow> (json \<times> db) result" where
  "updatePromotion context now promotionId dto d =
     bnd (orThrow (promotion_get promotionId d) (RecordNotFound ''PromotionCampaign'')) (\<lambda>current.
     bnd (resolveTenantId context (Some (pc_tenantId current)) True) (\<lambda>_.
     bnd (checkStoreQuery context (pc_storeId current)) (\<lambda>_.
     bnd (checkStoreQuery context (field_of (upd_storeId dto) None)) (\<lambda>_.
     bnd (money_column (upd_value dto)) (\<lambda>value.
     bnd (money_column (upd_minimumOrderTotal dto)) (\<lambda>minimumOrderTotal.
     bnd (case upd_maxDiscountAmount dto of None \<Rightarrow> Inr None
            | Some m \<Rightarrow> bnd (money_column m) (\<lambda>c. Inr (Some c))) (\<lambda>maxDiscountAmount.
     let change = changed_promotion now dto value minimumOrderTotal maxDiscountAmount;
         updated = change current in
     bnd (ensure (pc_code updated = pc_code current \<or> \<not> code_taken (pc_tenantId current) (pc_code updated) d)
            (UniqueViolation ''PromotionCampaign'')) (\<lambda>_.
     Inr (mapPromotionCampaign updated,
       recordTx (promotion_audit context ''promotion.updated'' updated
           (''status'', JStr (show_promotion_status (pc_status updated))))
         (promotion_update promotionId change d))))))))))"

definition buildPublicContext :: "uuid \<Rightarrow> uuid \<Rightarrow> RequestContext" where
  "buildPublicContext tenantId storeId =
     \<lparr>ctx_userId = storeId, ctx_tenantId = Some tenantId, ctx_scope = DeviceScope, ctx_roleIds = [],
      ctx_permissions = [], ctx_storeIds = [storeId], ctx_deviceId = Some storeId\<rparr>"

definition isPromotionActive :: "instant \<Rightarrow> PromotionCampaign \<Rightarrow> bool" where
  "isPromotionActive now promotion \<longleftrightarrow>
     pc_status promotion = PromoActive \<and>
     (case pc_activeFrom promotion of None \<Rightarrow> True | Some t \<Rightarrow> \<not> now < t) \<and>
     (case pc_activeTo promotion of None \<Rightarrow> True | Some t \<Rightarrow> \<not> t < now)"

definition getPublicCustomerProfile :: "uuid \<Rightarrow> uuid \<Rightarrow> string \<Rightarrow> db \<Rightarrow> json" where
  "getPublicCustomerProfile tenantId storeId customerPhone d =
     (case find_customer tenantId (normalizeCustomerPhone customerPhone) d of
        None \<Rightarrow> JNull
      | Some profile \<Rightarrow>
          mapPublicCustomerProfile (mapCustomerProfile profile (account_of (cp_id profile) d)))"

definition eligible :: "PromotionCampaign \<Rightarrow> string list \<Rightarrow> bool" where
  "eligible promotion segments \<longleftrightarrow>
     pc_segmentKeys promotion = [] \<or> list_ex (\<lambda>segment. segment \<in> set segments) (pc_segmentKeys promotion)"

definition listPublicAvailablePromotions ::
  "instant \<Rightarrow> uuid \<Rightarrow> uuid \<Rightarrow> string option \<Rightarrow> db \<Rightarrow> json list" where
  "listPublicAvailablePromotions now tenantId storeId customerPhone d =
     (let profile = (if truthy customerPhone
            then find_customer tenantId (normalizeCustomerPhone (nullish customerPhone '''')) d else None);
          segments = (case profile of None \<Rightarrow> [] | Some p \<Rightarrow> parseStringArray (cp_segments p))
      in map mapPromotionCampaign (filter (\<lambda>p. eligible p segments) (filter (isPromotionActive now)
           (rev (filter (\<lambda>p. pc_tenantId p = tenantId \<and> pc_status p = PromoActive \<and> for_store storeId p)
              (promotions d))))))"

section \<open>A promotion for a cart\<close>

record ApplyPromotionInput =
  api_cartId :: uuid
  api_code :: string
  api_customerName :: "string option"
  api_customerPhone :: "string option"

definition applied_phone :: "ApplyPromotionInput \<Rightarrow> Cart \<Rightarrow> string option" where
  "applied_phone input cart = orElse (with_phone (api_customerPhone input)) (with_phone (cart_customerPhone cart))"

definition applied_name :: "ApplyPromotionInput \<Rightarrow> Cart \<Rightarrow> string option" where
  "applied_name input cart =
     (if truthy (map_option trim (api_customerName input)) then map_option trim (api_customerName input)
      else if truthy (cart_customerName cart) then cart_customerName cart else None)"

definition find_promotion :: "uuid \<Rightarrow> uuid \<Rightarrow> string \<Rightarrow> db \<Rightarrow> PromotionCampaign option" where
  "find_promotion tenantId storeId c d =
     find (\<lambda>p. pc_tenantId p = tenantId \<and> pc_code p = c \<and> pc_status p = PromoActive \<and> for_store storeId p)
       (promotions d)"

text \<open>\<open>Number(a) < Number(b)\<close> for two amounts.\<close>

definition number_less :: "int \<Rightarrow> int \<Rightarrow> bool" where
  "number_less a b \<longleftrightarrow> dbl (of_int a / 100) < dbl (of_int b / 100)"

definition usage_exhausted :: "PromotionCampaign \<Rightarrow> bool" where
  "usage_exhausted p = (case pc_usageLimit p of None \<Rightarrow> False | Some n \<Rightarrow> n \<le> pc_usedCount p)"

definition checkRedemption :: "PromotionCampaign \<Rightarrow> LoyaltyAccount option \<Rightarrow> error + unit" where
  "checkRedemption promotion loyaltyAccount =
     (if pc_type promotion = LOYALTY_REDEEM
      then bnd (ensure (loyaltyAccount \<noteq> None \<and> 0 < nullish (pc_pointsCost promotion) 0)
                  (BadRequestException ''Loyalty redemption promotion is not available.'')) (\<lambda>_.
           ensure (case loyaltyAccount of None \<Rightarrow> False
                     | Some a \<Rightarrow> nullish (pc_pointsCost promotion) 0 \<le> la_pointsBalance a)
             (BadRequestException ''Customer does not have enough loyalty points.''))
      else Inr ())"

definition promotion_snapshot :: "PromotionCampaign \<Rightarrow> string \<Rightarrow> json" where
  "promotion_snapshot p discountTotal = JObj
     [(''promotionId'', JStr (pc_id p)), (''code'', JStr (pc_code p)), (''name'', JStr (pc_name p)),
      (''type'', JStr (show_promotion_type (pc_type p))), (''discountTotal'', JStr discountTotal),
      (''pointsCost'', jnull jint (pc_pointsCost p))]"

definition promoted_cart ::
  "instant \<Rightarrow> uuid option \<Rightarrow> string option \<Rightarrow> string option \<Rightarrow> PromotionCampaign \<Rightarrow> string \<Rightarrow> int \<Rightarrow> int \<Rightarrow>
   Cart \<Rightarrow> Cart" where
  "promoted_cart now profileId customerName customerPhone p discountText discount grand c = c\<lparr>
     cart_customerProfileId := orElse profileId (cart_customerProfileId c),
     cart_customerName := customerName,
     cart_customerPhone := orElse customerPhone (cart_customerPhone c),
     cart_discountTotal := discount, cart_total := grand, cart_promotionCode := Some (pc_code p),
     cart_promotionSnapshot := Some (promotion_snapshot p discountText), cart_updatedAt := now\<rparr>"

definition applied_profile ::
  "instant \<Rightarrow> Cart \<Rightarrow> ApplyPromotionInput \<Rightarrow> db \<Rightarrow> CustomerProfile option \<times> db" where
  "applied_profile now cart input d =
     (case applied_phone input cart of
        None \<Rightarrow> (None, d)
      | Some phone \<Rightarrow>
          let (p, d1) = resolveOrCreateCustomerProfileTx now (cart_tenantId cart) (cart_storeId cart)
                (applied_name input cart) phone d in (Some p, d1))"

definition applied_account :: "instant \<Rightarrow> CustomerProfile option \<Rightarrow> db \<Rightarrow> LoyaltyAccount option \<times> db" where
  "applied_account now profile d =
     (case profile of None \<Rightarrow> (None, d)
      | Some p \<Rightarrow> let (a, d1) = ensureLoyaltyAccountTx now p d in (Some a, d1))"

definition applyPromotion_tx ::
  "RequestContext \<Rightarrow> instant \<Rightarrow> ApplyPromotionInput \<Rightarrow> db \<Rightarrow> (unit \<times> db) result" where
  "applyPromotion_tx context now input d =
     bnd (loadCart (api_cartId input) d) (\<lambda>(cart, items).
     bnd (checkAccess context (cart_tenantId cart) (cart_storeId cart)) (\<lambda>_.
     bnd (ensure (cart_status cart = OPEN) (BadRequestException ''Only open carts can apply promotions.'')) (\<lambda>_.
     bnd (ensure (items \<noteq> []) (BadRequestException ''Cart must contain items before applying a promotion.'')) (\<lambda>_.
     let (profile, d1) = applied_profile now cart input d in
     bnd (orThrow (find_promotion (cart_tenantId cart) (cart_storeId cart) (promotion_code (api_code input)) d1)
            (BadRequestException ''Promotion code is invalid or inactive.'')) (\<lambda>promotion.
     bnd (ensure (isPromotionActive now promotion)
            (BadRequestException ''Promotion code is invalid or inactive.'')) (\<lambda>_.
     bnd (totals_of items (Some (formatCents (cart_fulfillmentFee cart))) None) (\<lambda>currentGross.
     bnd (decimal_of (ct_total currentGross)) (\<lambda>gross.
     bnd (ensure (\<not> number_less gross (pc_minimumOrderTotal promotion))
            (BadRequestException ''Cart does not satisfy the promotion minimum order total.'')) (\<lambda>_.
     bnd (ensure (eligible promotion (case profile of None \<Rightarrow> [] | Some p \<Rightarrow> parseStringArray (cp_segments p)))
            (BadRequestException ''Promotion is not eligible for this customer segment.'')) (\<lambda>_.
     bnd (ensure (\<not> usage_exhausted promotion)
            (BadRequestException ''Promotion usage limit has already been reached.'')) (\<lambda>_.
     let (loyaltyAccount, d2) = applied_account now profile d1 in
     bnd (checkRedemption promotion loyaltyAccount) (\<lambda>_.
     bnd (resolvePromotionDiscount (pc_type promotion) (formatCents (pc_value promotion))
            (ct_total currentGross) (map_option formatCents (pc_maxDiscountAmount promotion))) (\<lambda>discountTotal.
     bnd (totals_of items (Some (formatCents (cart_fulfillmentFee cart))) (Some discountTotal)) (\<lambda>totals.
     bnd (decimal_of (ct_discountTotal totals)) (\<lambda>discount.
     bnd (decimal_of (ct_total totals)) (\<lambda>grand.
     Inr ((), cart_update (cart_id cart)
       (promoted_cart now (map_option cp_id profile) (applied_name input cart) (applied_phone input cart)
          promotion (ct_discountTotal totals) discount grand) d2)))))))))))))))))"

definition applyPromotionToCart ::
  "RequestContext \<Rightarrow> instant \<Rightarrow> ApplyPromotionInput \<Rightarrow> db \<Rightarrow> json outcome" where
  "applyPromotionToCart context now input d =
     and_then (committed (applyPromotion_tx context now input d) d) (\<lambda>_ d1.
     viewed (getCart context (api_cartId input) d1) d1)"

section \<open>What an order earns\<close>

definition order_event_exists :: "uuid \<Rightarrow> string \<Rightarrow> db \<Rightarrow> bool" where
  "order_event_exists orderId type d =
     list_ex (\<lambda>e. oe_orderId e = orderId \<and> oe_type e = type) (orderEvents d)"

definition recordOrderEventTx :: "instant \<Rightarrow> Order \<Rightarrow> string \<Rightarrow> json \<Rightarrow> db \<Rightarrow> db" where
  "recordOrderEventTx now order type payload d =
     domainEvents_record \<lparr>ob_tenantId = Some (ord_tenantId order), ob_eventName = type,
         ob_aggregate = ''order'', ob_aggregateId = ord_id order, ob_payload = payload\<rparr>
       (recordOrderEvent now (ord_id order) (ord_tenantId order) (ord_storeId order) type payload d)"

definition record_once :: "instant \<Rightarrow> Order \<Rightarrow> string \<Rightarrow> json \<Rightarrow> db \<Rightarrow> db" where
  "record_once now order type payload d =
     (if order_event_exists (ord_id order) type d then d else recordOrderEventTx now order type payload d)"

definition entry_exists :: "uuid \<Rightarrow> LoyaltyLedgerEntryKind \<Rightarrow> db \<Rightarrow> bool" where
  "entry_exists orderId kind d =
     list_ex (\<lambda>e. lle_orderId e = Some orderId \<and> lle_entryKind e = kind) (loyaltyEntries d)"

definition linked_order :: "instant \<Rightarrow> CustomerProfile \<Rightarrow> Order \<Rightarrow> Order" where
  "linked_order now profile r = r\<lparr>ord_customerProfileId := Some (cp_id profile),
     ord_customerPhone := Some (cp_phone profile),
     ord_customerName := orElse (ord_customerName r) (cp_fullName profile), ord_updatedAt := now\<rparr>"

definition linked_cart :: "instant \<Rightarrow> CustomerProfile \<Rightarrow> Order \<Rightarrow> Cart \<Rightarrow> Cart" where
  "linked_cart now profile order c = c\<lparr>cart_customerProfileId := Some (cp_id profile),
     cart_customerPhone := Some (cp_phone profile),
     cart_customerName := orElse (ord_customerName order) (cp_fullName profile), cart_updatedAt := now\<rparr>"

definition link_customer :: "instant \<Rightarrow> CustomerProfile \<Rightarrow> Order \<Rightarrow> db \<Rightarrow> db result" where
  "link_customer now profile order d =
     (let d1 = order_update (ord_id order) (linked_order now profile) d in
      case ord_cartId order of
        None \<Rightarrow> Inr d1
      | Some cartId \<Rightarrow>
          bnd (orThrow (cart_get cartId d1) (RecordNotFound ''Cart'')) (\<lambda>_.
          Inr (cart_update cartId (linked_cart now profile order) d1)))"

definition earn :: "instant \<Rightarrow> Order \<Rightarrow> CustomerProfile \<Rightarrow> LoyaltyAccount \<Rightarrow> int \<Rightarrow> db \<Rightarrow> db" where
  "earn now order profile account pointsEarned d =
     (if \<not> entry_exists (ord_id order) EARN d \<and> 0 < pointsEarned \<and> ord_status order \<noteq> CANCELLED
      then new_entry now (ord_tenantId order) (cp_id profile) (la_id account) (Some (ord_id order)) EARN
             pointsEarned (Some (ord_total order)) (Some (''Earned from order '' @ ord_number order)) d
      else d)"

text \<open>The points column holds whole numbers.\<close>

definition redemption_cost :: "json option \<Rightarrow> rat option" where
  "redemption_cost appliedPromotion =
     (if field appliedPromotion ''type'' = Some (JStr ''LOYALTY_REDEEM'')
      then case jnumber (field appliedPromotion ''pointsCost'') of
             None \<Rightarrow> None | Some n \<Rightarrow> if 0 < n then Some n else None
      else None)"

definition redeem :: "instant \<Rightarrow> Order \<Rightarrow> CustomerProfile \<Rightarrow> LoyaltyAccount \<Rightarrow> db \<Rightarrow> db result" where
  "redeem now order profile account d =
     (case redemption_cost (ord_promotionSnapshot order) of
        None \<Rightarrow> Inr d
      | Some n \<Rightarrow>
          if entry_exists (ord_id order) REDEEM d then Inr d
          else bnd (ensure (of_int \<lfloor>n\<rfloor> = n) (JsError ''Invalid Int'')) (\<lambda>_.
            Inr (new_entry now (ord_tenantId order) (cp_id profile) (la_id account) (Some (ord_id order))
              REDEEM (- \<lfloor>n\<rfloor>) (Some (ord_discountTotal order))
              (Some (''Redeemed for promotion '' @ nullish (ord_promotionCode order) ''LOYALTY'')) d)))"

definition count_use :: "instant \<Rightarrow> Order \<Rightarrow> CustomerProfile \<Rightarrow> db \<Rightarrow> db result" where
  "count_use now order profile d =
     (case jstring (field (ord_promotionSnapshot order) ''promotionId'') of
        None \<Rightarrow> Inr d
      | Some promotionId \<Rightarrow>
          if order_event_exists (ord_id order) ''customer.promotion_redeemed'' d then Inr d
          else bnd (orThrow (promotion_get promotionId d) (RecordNotFound ''PromotionCampaign'')) (\<lambda>_.
            Inr (recordOrderEventTx now order ''customer.promotion_redeemed''
              (JObj [(''code'', jopt (ord_promotionCode order)),
                     (''discountTotal'', jmoney (ord_discountTotal order)),
                     (''customerProfileId'', JStr (cp_id profile))])
              (promotion_update promotionId
                 (\<lambda>p. p\<lparr>pc_usedCount := pc_usedCount p + 1, pc_updatedAt := now\<rparr>) d))))"

definition growth_events ::
  "instant \<Rightarrow> Order \<Rightarrow> CustomerProfile \<Rightarrow> CustomerProfile \<Rightarrow> int \<Rightarrow> db \<Rightarrow> db" where
  "growth_events now order profile refreshed pointsEarned d =
     (let previousSegments = parseStringArray (cp_segments profile);
          nextSegments = parseStringArray (cp_segments refreshed);
          d1 = (if 0 < pointsEarned then record_once now order ''customer.loyalty_earned''
                  (JObj [(''customerProfileId'', JStr (cp_id refreshed)), (''points'', jint pointsEarned)]) d
                else d);
          d2 = (if previousSegments \<noteq> nextSegments
                then recordOrderEventTx now order ''customer.segment_changed''
                  (JObj [(''customerProfileId'', JStr (cp_id refreshed)),
                         (''previousSegments'', JArr (map JStr previousSegments)),
                         (''nextSegments'', JArr (map JStr nextSegments))]) d1
                else d1)
      in record_once now order ''customer.retention_hook_queued''
           (JObj [(''customerProfileId'', JStr (cp_id refreshed)),
                  (''retention'', object_json (cp_retentionState refreshed))]) d2)"

definition finalizeOrderGrowth ::
  "RequestContext \<Rightarrow> instant \<Rightarrow> uuid \<Rightarrow> db \<Rightarrow> (json \<times> db) result" where
  "finalizeOrderGrowth context now orderId d =
     bnd (loadOrder orderId d) (\<lambda>order.
     bnd (checkAccess context (ord_tenantId order) (ord_storeId order)) (\<lambda>_.
     if \<not> truthy (map_option trim (ord_customerPhone order)) then Inr (JNull, d)
     else
     let (profile, d1) = resolveOrCreateCustomerProfileTx now (ord_tenantId order) (ord_storeId order)
           (ord_customerName order) (normalizeCustomerPhone (nullish (ord_customerPhone order) '''')) d;
         (account, d2) = ensureLoyaltyAccountTx now profile d1 in
     bnd (link_customer now profile order d2) (\<lambda>d3.
     bnd (resolveEarnedLoyaltyPoints (formatCents (ord_total order))) (\<lambda>pointsEarned.
     bnd (redeem now order profile account (earn now order profile account pointsEarned d3)) (\<lambda>d4.
     bnd (count_use now order profile d4) (\<lambda>d5.
     let d6 = record_once now order ''customer.profile_linked''
           (JObj [(''customerProfileId'', JStr (cp_id profile))]) d5 in
     bnd (refreshLoyaltyAccountTx now (cp_id profile) d6) (\<lambda>d7.
     bnd (refreshCustomerProfileTx now (cp_id profile) d7) (\<lambda>(refreshedProfile, d8).
     let d9 = growth_events now order profile refreshedProfile pointsEarned d8 in
     Inr (mapCustomerProfile refreshedProfile (account_of (cp_id refreshedProfile) d9), d9)))))))))"

section \<open>Ordering again\<close>

record RepeatOrderInput =
  roi_orderId :: uuid
  roi_customerPhone :: string
  roi_customerName :: "string option"

text \<open>The options of an item are read back from its snapshot.\<close>

definition snapshot_options :: "json \<Rightarrow> uuid list" where
  "snapshot_options snapshot =
     (case jfield snapshot ''modifiers'' of
        Some (JArr ms) \<Rightarrow> List.map_filter (\<lambda>m. jstring (jfield m ''optionId'')) (filter jrecord ms)
      | _ \<Rightarrow> [])"

definition repeat_dto :: "OrderItem \<Rightarrow> AddCartItemDto" where
  "repeat_dto item = \<lparr>ac_productId = oi_productId item, ac_variantId = oi_variantId item,
     ac_quantity = oi_quantity item, ac_priceListId = None,
     ac_modifierOptionIds = Some (snapshot_options (oi_snapshot item))\<rparr>"

fun repeat_items :: "RequestContext \<Rightarrow> instant \<Rightarrow> uuid \<Rightarrow> OrderItem list \<Rightarrow> db \<Rightarrow> unit outcome" where
  "repeat_items context now cartId [] d = (Inr (), d)"
| "repeat_items context now cartId (item # items) d =
     and_then (committed (addItem context now cartId (repeat_dto item) d) d) (\<lambda>_ d1.
     repeat_items context now cartId items d1)"

definition repeat_fulfilment ::
  "RequestContext \<Rightarrow> instant \<Rightarrow> uuid \<Rightarrow> json \<Rightarrow> db \<Rightarrow> unit outcome" where
  "repeat_fulfilment context now cartId fulfillment d =
     (case (jstring (jfield fulfillment ''mode''), jfield fulfillment ''details'') of
        (Some mode, Some (JObj details)) \<Rightarrow>
          committed (bnd (applyCartFulfillment context now cartId
            (spread details [(''mode'', Some (JStr mode))]) d) (\<lambda>d1. Inr ((), d1))) d
      | _ \<Rightarrow> (Inr (), d))"

definition repeat_cart :: "RepeatOrderInput \<Rightarrow> Order \<Rightarrow> CreateCartDto" where
  "repeat_cart input order = \<lparr>cc_tenantId = Some (ord_tenantId order), cc_storeId = ord_storeId order,
     cc_channel = Some DELIVERY, cc_customerName = orElse (roi_customerName input) (ord_customerName order),
     cc_customerPhone = Some (roi_customerPhone input), cc_note = ord_note order, cc_deviceId = None\<rparr>"

definition view_id :: "json \<Rightarrow> uuid" where
  "view_id view = nullish (jstring (jfield view ''id'')) ''''"

definition repeatCustomerOrder ::
  "RequestContext \<Rightarrow> instant \<Rightarrow> RepeatOrderInput \<Rightarrow> db \<Rightarrow> json outcome" where
  "repeatCustomerOrder context now input d =
     and_then (viewed (bnd (getOrder context (roi_orderId input) d) (\<lambda>view.
       bnd (loadOrder (roi_orderId input) d) (\<lambda>order.
       bnd (ensure (ord_customerPhone order = Some (roi_customerPhone input))
              (BadRequestException ''Repeat order is only available for the original customer.'')) (\<lambda>_.
       bnd (ensure (ord_channel order = DELIVERY)
              (BadRequestException ''Repeat order is only available for storefront orders.'')) (\<lambda>_.
       Inr (view, order)))))) d) (\<lambda>(view, order) d.
     and_then (committed (createCart context now (repeat_cart input order) d) d) (\<lambda>cart d1.
     and_then (repeat_items context now (view_id cart) (ord_items order) d1) (\<lambda>_ d2.
     and_then (repeat_fulfilment context now (view_id cart)
       (nullish (jfield view ''fulfillment'') JNull) d2) (\<lambda>_ d3.
     and_then (viewed (getCart context (view_id cart) d3) d3) (\<lambda>repeated d4.
     (Inr repeated, domainEvents_record
       \<lparr>ob_tenantId = Some (ord_tenantId order), ob_eventName = ''customer.repeat_order_created'',
        ob_aggregate = ''cart'', ob_aggregateId = view_id repeated,
        ob_payload = JObj [(''sourceOrderId'', JStr (ord_id order)),
                           (''cartId'', JStr (view_id repeated))]\<rparr> d4))))))"

end
