(* ===== verification/CustomerLaws.thy ===== *)
theory CustomerLaws
  imports Handlers FulfillmentLaws Customers
begin

text \<open>
  What the customer handlers keep of carts and orders, and the invariant of their own tables:
  \<open>customers_ok\<close> says that the balance of every account is the sum of its ledger entries and that
  an order earns and redeems at most once.
\<close>

section \<open>What a customer handler may touch\<close>

definition customer_rows :: "db \<Rightarrow> db \<Rightarrow> bool" where
  "customer_rows d d' \<longleftrightarrow> (\<exists>n ps la es pr e a ob. db_seq d \<le> n \<and>
     d' = d\<lparr>db_seq := n, orderEvents := e, customerProfiles := ps, loyaltyAccounts := la,
            loyaltyEntries := es, promotions := pr, auditLogs := a, outbox := ob\<rparr>)"

lemma customer_rows_refl [simp, intro]: "customer_rows d d"
  unfolding customer_rows_def by (rule exI [of _ "db_seq d"]) (cases d, auto)

lemma customer_rows_trans [trans]:
  assumes "customer_rows d d1" and "customer_rows d1 d2"
  shows "customer_rows d d2"
proof -
  from assms(2) obtain n ps la es pr e a ob where "db_seq d1 \<le> n"
    "d2 = d1\<lparr>db_seq := n, orderEvents := e, customerProfiles := ps, loyaltyAccounts := la,
            loyaltyEntries := es, promotions := pr, auditLogs := a, outbox := ob\<rparr>"
    by (auto simp: customer_rows_def)
  with assms(1) have "db_seq d \<le> n \<and> d2 = d\<lparr>db_seq := n, orderEvents := e, customerProfiles := ps,
      loyaltyAccounts := la, loyaltyEntries := es, promotions := pr, auditLogs := a, outbox := ob\<rparr>"
    by (auto simp: customer_rows_def)
  then show ?thesis unfolding customer_rows_def by blast
qed

lemma customer_rowsD:
  assumes "customer_rows d d'"
  shows "carts d' = carts d" "cartItems d' = cartItems d" "orders d' = orders d" "tickets d' = tickets d"
    "modifierOptions d' = modifierOptions d" "invItems d' = invItems d" "reservations d' = reservations d"
    "db_seq d \<le> db_seq d'"
  using assms by (auto simp: customer_rows_def)

lemma core_step_customer:
  assumes "customer_rows d d'"
  shows "core_step d d'"
  using customer_rowsD [OF assms] stock_ok_cong [of d' d] carts_ok_cong [of d' d]
    orders_ok_cong [of d d'] by (auto simp: core_step_def api_ok_def order_grows_refl)

lemma customer_rows_writes:
  "customer_rows d (profile_update i f d)" "customer_rows d (profile_create p d)"
  "customer_rows d (account_update i g d)" "customer_rows d (account_create ac d)"
  "customer_rows d (promotion_update i h d)" "customer_rows d (promotion_create pr d)"
  "customer_rows d (bump d)" "customer_rows d (new_entry now t pid aid oid k points amount desc d)"
  "customer_rows d (recordTx entry d)" "customer_rows d (domainEvents_record ev d)"
  "customer_rows d (recordOrderEventTx now order type payload d)"
  by (cases d; auto simp: customer_rows_def profile_update_def profile_create_def account_update_def
      account_create_def promotion_update_def promotion_create_def new_entry_def recordOrderEventTx_def)+

lemma customer_rows_tx:
  "ensureLoyaltyAccountTx now p d = (a, d') \<Longrightarrow> customer_rows d d'"
  "resolveOrCreateCustomerProfileTx now t s name phone d = (p, d') \<Longrightarrow> customer_rows d d'"
  "refreshLoyaltyAccountTx now i d = Inr d' \<Longrightarrow> customer_rows d d'"
  "record_once now order type payload d = d' \<Longrightarrow> customer_rows d d'"
  "growth_events now order p p' n d = d' \<Longrightarrow> customer_rows d d'"
  "earn now order p ac n d = d' \<Longrightarrow> customer_rows d d'"
  "redeem now order p ac d = Inr d' \<Longrightarrow> customer_rows d d'"
  "count_use now order p d = Inr d' \<Longrightarrow> customer_rows d d'"
proof -
  show "ensureLoyaltyAccountTx now p d = (a, d') \<Longrightarrow> customer_rows d d'"
    by (auto simp: ensureLoyaltyAccountTx_def Let_def split: option.splits
        intro: customer_rows_trans [OF customer_rows_writes(7) customer_rows_writes(4)] simp del: bump_def)
  show "resolveOrCreateCustomerProfileTx now t s name phone d = (p, d') \<Longrightarrow> customer_rows d d'"
    by (auto simp: resolveOrCreateCustomerProfileTx_def Let_def split: option.splits
        intro: customer_rows_writes customer_rows_trans [OF customer_rows_writes(7) customer_rows_writes(2)]
        simp del: bump_def)
  show "refreshLoyaltyAccountTx now i d = Inr d' \<Longrightarrow> customer_rows d d'"
    by (auto simp: refreshLoyaltyAccountTx_def intro: customer_rows_writes)
  show once: "record_once now order type payload d = d' \<Longrightarrow> customer_rows d d'" for now order type payload d d'
    by (auto simp: record_once_def intro: customer_rows_writes)
  show "growth_events now order p p' n d = d' \<Longrightarrow> customer_rows d d'"
    unfolding growth_events_def Let_def
    by (auto intro!: customer_rows_writes(11) customer_rows_trans [OF _ once [OF refl]]
        customer_rows_trans [OF _ customer_rows_writes(11)] once [OF refl])
  show "earn now order p ac n d = d' \<Longrightarrow> customer_rows d d'"
    by (auto simp: earn_def intro: customer_rows_writes)
  show "redeem now order p ac d = Inr d' \<Longrightarrow> customer_rows d d'"
    by (auto simp: redeem_def intro: customer_rows_writes split: option.splits if_splits)
  show "count_use now order p d = Inr d' \<Longrightarrow> customer_rows d d'"
    by (auto simp: count_use_def split: option.splits if_splits
        intro!: customer_rows_trans [OF customer_rows_writes(5) customer_rows_writes(11)])
qed

lemma refreshCustomerProfile_rows:
  "refreshCustomerProfileTx now i d = Inr (p, d') \<Longrightarrow> customer_rows d d'"
  by (auto simp: refreshCustomerProfileTx_def Let_def case_prod_Inr dest!: customer_rows_tx(1)
      elim!: customer_rows_trans intro!: customer_rows_writes)

section \<open>Profiles and promotions\<close>

lemma log_rows: "customer_rows d d1 \<Longrightarrow> customer_rows d (recordTx l d1)"
    "customer_rows d d1 \<Longrightarrow> customer_rows d (domainEvents_record ev d1)"
  by (rule customer_rows_trans, assumption, rule customer_rows_writes)+

lemma adjustLoyalty_rows:
  assumes "adjustLoyalty context now i dto d = Inr (v, d')"
  shows "customer_rows d d'"
proof -
  from assms obtain p ac d1 d3 p' d4 l ev where
    "ensureLoyaltyAccountTx now p d = (ac, d1)"
    "refreshLoyaltyAccountTx now (cp_id p) (new_entry now (cp_tenantId p) (cp_id p) (la_id ac) None ADJUST
       (acl_points dto) None (acl_description dto) d1) = Inr d3"
    "refreshCustomerProfileTx now (cp_id p) d3 = Inr (p', d4)"
    "d' = domainEvents_record ev (recordTx l d4)"
    unfolding adjustLoyalty_def
    by (clarsimp simp: Let_def case_prod_Inr simp del: recordTx_def domainEvents_record_def)
  then show ?thesis
    using customer_rows_tx(1,3) customer_rows_writes(8) refreshCustomerProfile_rows customer_rows_trans log_rows
    by metis
qed

lemma createPromotion_rows: "createPromotion context now dto d = Inr (v, d') \<Longrightarrow> customer_rows d d'"
  unfolding createPromotion_def
  by (clarsimp simp: Let_def simp del: recordTx_def bump_def)
    (rule log_rows, rule customer_rows_trans [OF customer_rows_writes(7) customer_rows_writes(6)])

lemma updatePromotion_rows: "updatePromotion context now i dto d = Inr (v, d') \<Longrightarrow> customer_rows d d'"
  unfolding updatePromotion_def
  by (clarsimp simp: Let_def simp del: recordTx_def) (rule log_rows, rule customer_rows_writes(5))

section \<open>Promotions and carts\<close>

lemma applied_rows:
  "applied_profile now cart input d = (p, d') \<Longrightarrow> customer_rows d d'"
  "applied_account now p d = (a, d') \<Longrightarrow> customer_rows d d'"
  by (auto simp: applied_profile_def applied_account_def case_prod_unfold Let_def split: option.splits
      intro: customer_rows_tx(1,2) [OF surjective_pairing])

lemma resolvePromotionDiscount_cents:
  assumes "parseMoneyToCents (Some t) = Inr (Some tc)"
  shows "resolvePromotionDiscount type (formatCents v) t (map_option formatCents m) =
    Inr (formatCents (promotion_cents type (max 0 v) (max 0 tc) (map_option (max 0) m)))"
  using assms by (cases m) (simp_all add: resolvePromotionDiscount_def)

text \<open>The totals before a promotion, and what a promotion takes off them.\<close>

definition gross_of :: "Cart \<Rightarrow> CartItem list \<Rightarrow> int" where
  "gross_of c items = c_total (cents_cart_totals (map item_cents items) (cart_fulfillmentFee c) 0)"

definition discount_of :: "PromotionCampaign \<Rightarrow> Cart \<Rightarrow> CartItem list \<Rightarrow> int" where
  "discount_of p c items = promotion_cents (pc_type p) (max 0 (pc_value p)) (max 0 (gross_of c items))
     (map_option (max 0) (pc_maxDiscountAmount p))"

lemma totals_of_none: "totals_of items fee None = totals_of items fee (Some ''0.00'')"
  by (simp add: totals_of_def calculateCartTotals_def parse_zero)

lemma applyPromotion_Inr:
  assumes "applyPromotion_tx context now input d = Inr (u, d')"
  obtains c items profile d1 p account d2 where
    "cart_get (api_cartId input) d = Some c" "cart_status c = OPEN" "items = cart_items (api_cartId input) d"
    "items \<noteq> []" "checkAccess context (cart_tenantId c) (cart_storeId c) = Inr ()"
    "applied_profile now c input d = (profile, d1)"
    "find_promotion (cart_tenantId c) (cart_storeId c) (promotion_code (api_code input)) d1 = Some p"
    "isPromotionActive now p" "\<not> number_less (gross_of c items) (pc_minimumOrderTotal p)"
    "eligible p (case profile of None \<Rightarrow> [] | Some q \<Rightarrow> parseStringArray (cp_segments q))"
    "\<not> usage_exhausted p" "applied_account now profile d1 = (account, d2)"
    "checkRedemption p account = Inr ()"
    "d' = cart_update (api_cartId input)
       (let t = cents_cart_totals (map item_cents items) (cart_fulfillmentFee c) (discount_of p c items)
        in promoted_cart now (map_option cp_id profile) (applied_name input c) (applied_phone input c) p
             (formatCents (c_discountTotal t)) (c_discountTotal t) (c_total t)) d2"
proof -
  from assms obtain c where c: "cart_get (api_cartId input) d = Some c"
    by (auto simp: applyPromotion_tx_def loadCart_def)
  then have cid: "cart_id c = api_cartId input" using cart_getD by blast
  let ?items = "cart_items (api_cartId input) d"
  let ?fee = "Some (formatCents (cart_fulfillmentFee c))"
  have gross: "totals_of ?items ?fee None =
      Inr (format_totals (cents_cart_totals (map item_cents ?items) (cart_fulfillmentFee c) 0))"
    by (simp add: totals_of_none totals_of_cents parse_zero)
  have disc: "resolvePromotionDiscount (pc_type p) (formatCents (pc_value p))
      (formatCents (gross_of c ?items))
      (map_option formatCents (pc_maxDiscountAmount p)) = Inr (formatCents (discount_of p c ?items))" for p
    by (simp add: resolvePromotionDiscount_cents discount_of_def gross_of_def)
  obtain profile d1 where pr: "applied_profile now c input d = (profile, d1)" by force
  obtain account d2 where ac: "applied_account now profile d1 = (account, d2)" by force
  show thesis
    using assms c pr ac
    unfolding applyPromotion_tx_def loadCart_def
    by (auto simp: gross disc totals_of_cents gross_of_def [symmetric] cid Let_def
        intro!: that [OF c _ refl _ _ pr _ _ _ _ _ ac])
qed

lemma applyPromotion_core:
  assumes "applyPromotion_tx context now input d = Inr (u, d')"
  shows "core_step d d'"
proof -
  obtain c items profile d1 p account d2 where
    c: "cart_get (api_cartId input) d = Some c" "items = cart_items (api_cartId input) d"
    and rows: "applied_profile now c input d = (profile, d1)" "applied_account now profile d1 = (account, d2)"
    and d': "d' = cart_update (api_cartId input)
       (let t = cents_cart_totals (map item_cents items) (cart_fulfillmentFee c) (discount_of p c items)
        in promoted_cart now (map_option cp_id profile) (applied_name input c) (applied_phone input c) p
             (formatCents (c_discountTotal t)) (c_discountTotal t) (c_total t)) d2"
    by (rule applyPromotion_Inr [OF assms])
  have r: "customer_rows d d2" using applied_rows rows customer_rows_trans by blast
  note D = customer_rowsD [OF r]
  have c2: "cart_get (api_cartId input) d2 = Some c" "cart_items (api_cartId input) d2 = items"
    using c D by (simp_all add: cart_get_def cart_items_def)
  have "core_step d2 d'" unfolding d'
    by (rule core_step_cart_update [OF c2(1)])
      (auto simp: Let_def promoted_cart_def cart_consistent_def c2(2) cents_totals_stable cents_cart_totals_def
        recorded_discount_def max_def min_def)
  then show ?thesis using core_step_customer [OF r] core_step_trans by blast
qed

lemma applyPromotionToCart_core: "applyPromotionToCart context now input d = (r, d') \<Longrightarrow> core_step d d'"
  by (auto simp: applyPromotionToCart_def committed_def and_then_def split: sum.splits
      dest: applyPromotion_core)

section \<open>What an order earns\<close>

lemma link_customer_core:
  assumes "link_customer now profile order d = Inr d'" and "order_get (ord_id order) d = Some order"
  shows "core_step d d'"
proof -
  let ?d = "order_update (ord_id order) (linked_order now profile) d"
  have o': "core_step d ?d"
    by (rule core_step_order) (simp add: own_change_def linked_order_def same_place_def order_consistent_def)
  show ?thesis
  proof (cases "ord_cartId order")
    case None
    with assms o' show ?thesis by (simp add: link_customer_def Let_def)
  next
    case (Some i)
    with assms obtain c where c: "cart_get i ?d = Some c" and d': "d' = cart_update i (linked_cart now profile order) ?d"
      by (auto simp: link_customer_def Let_def)
    have "core_step ?d d'" unfolding d'
      by (rule core_step_cart_update [OF c]) (simp_all add: linked_cart_def cart_consistent_def)
    with o' show ?thesis by (rule core_step_trans)
  qed
qed

lemma finalize_Inr:
  assumes "finalizeOrderGrowth context now i d = Inr (v, d')" and "d' \<noteq> d"
  obtains order profile d1 account d2 d3 n d4 d5 payload d7 profile' d8 where
    "order_get i d = Some order" "checkAccess context (ord_tenantId order) (ord_storeId order) = Inr ()"
    "resolveOrCreateCustomerProfileTx now (ord_tenantId order) (ord_storeId order)
           (ord_customerName order) (normalizeCustomerPhone (nullish (ord_customerPhone order) '''')) d = (profile, d1)"
    "ensureLoyaltyAccountTx now profile d1 = (account, d2)"
    "link_customer now profile order d2 = Inr d3" "n = max 0 (ord_total order div 100)"
    "redeem now order profile account (earn now order profile account n d3) = Inr d4"
    "count_use now order profile d4 = Inr d5"
    "refreshLoyaltyAccountTx now (cp_id profile) (record_once now order ''customer.profile_linked'' payload d5) = Inr d7"
    "refreshCustomerProfileTx now (cp_id profile) d7 = Inr (profile', d8)"
    "d' = growth_events now order profile profile' n d8"
  using assms unfolding finalizeOrderGrowth_def
  by (auto simp: Let_def case_prod_Inr loadOrder_Inr resolveEarnedLoyaltyPoints_def split: if_splits)

lemma finalizeOrderGrowth_core:
  assumes "finalizeOrderGrowth context now i d = Inr (v, d')"
  shows "core_step d d'"
proof (cases "d' = d")
  case False
  obtain order profile d1 account d2 d3 n d4 d5 payload d7 profile' d8 where
    h: "order_get i d = Some order"
    "resolveOrCreateCustomerProfileTx now (ord_tenantId order) (ord_storeId order)
           (ord_customerName order) (normalizeCustomerPhone (nullish (ord_customerPhone order) '''')) d = (profile, d1)"
    "ensureLoyaltyAccountTx now profile d1 = (account, d2)"
    "link_customer now profile order d2 = Inr d3"
    "redeem now order profile account (earn now order profile account n d3) = Inr d4"
    "count_use now order profile d4 = Inr d5"
    "refreshLoyaltyAccountTx now (cp_id profile) (record_once now order ''customer.profile_linked'' payload d5) = Inr d7"
    "refreshCustomerProfileTx now (cp_id profile) d7 = Inr (profile', d8)"
    "d' = growth_events now order profile profile' n d8"
    by (rule finalize_Inr [OF assms False])
  have "customer_rows d d2"
    using customer_rows_tx(2) [OF h(2)] customer_rows_tx(1) [OF h(3)] by (rule customer_rows_trans)
  note c1 = core_step_customer [OF this] and o2 = customer_rowsD(3) [OF this]
  have "ord_id order = i" using order_getD [OF h(1)] by simp
  then have c2: "core_step d2 d3"
    by (intro link_customer_core [OF h(4)]) (use h(1) o2 in \<open>simp add: order_get_def\<close>)
  have "customer_rows d3 d8"
    by (rule customer_rows_trans [OF customer_rows_tx(6) [OF refl] customer_rows_trans [OF customer_rows_tx(7) [OF h(5)]
        customer_rows_trans [OF customer_rows_tx(8) [OF h(6)] customer_rows_trans [OF customer_rows_tx(4) [OF refl]
        customer_rows_trans [OF customer_rows_tx(3) [OF h(7)] refreshCustomerProfile_rows [OF h(8)]]]]]])
  then have "customer_rows d3 d'" using customer_rows_tx(5) [OF h(9) [symmetric]] by (rule customer_rows_trans)
  then have c3: "core_step d3 d'" by (rule core_step_customer)
  show ?thesis by (rule core_step_trans [OF c1 core_step_trans [OF c2 c3]])
qed simp

section \<open>Ordering again\<close>

lemma repeat_items_core: "repeat_items context now i items d = (r, d') \<Longrightarrow> core_step d d'"
proof (induction items arbitrary: d)
  case Nil
  then show ?case by simp
next
  case (Cons x items)
  then show ?case
    by (auto simp: committed_def and_then_def split: sum.splits prod.splits
        dest!: cart_handlers_core(3) intro: core_step_trans)
qed

lemma repeatCustomerOrder_core:
  assumes "repeatCustomerOrder context now input d = (r, d')"
  shows "core_step d d'"
proof -
  have fin: "core_step d (domainEvents_record ev d)" for ev d
    by (rule core_step_customer [OF customer_rows_writes(10)])
  have ful: "core_step d d'" if "repeat_fulfilment context now i f d = (r, d')" for i f d r d'
    using that by (auto simp: repeat_fulfilment_def committed_def bnd_def split: option.splits json.splits sum.splits
        dest: applyCartFulfillment_core)
  from assms show ?thesis
    unfolding repeatCustomerOrder_def
    by (auto simp: committed_def and_then_def viewed_def simp del: domainEvents_record_def split: sum.splits prod.splits
        dest!: cart_handlers_core(1) repeat_items_core ful)
      (blast intro: core_step_trans fin)+
qed

end
