(* ===== verification/System.thy ===== *)
theory System
  imports CustomerLaws
begin

text \<open>
  The services together, on one database: a step is one request one of the modelled handlers
  accepted, whichever handler it is and whoever sent it. Every step keeps \<open>api_ok\<close> and
  \<open>order_grows\<close>.
\<close>

inductive api_step :: "db \<Rightarrow> db \<Rightarrow> bool" where
  create_cart: "createCart ctx now cdto d = Inr (v, d') \<Longrightarrow> api_step d d'"
| update_cart: "updateCart ctx now i udto d = Inr (v, d') \<Longrightarrow> api_step d d'"
| add_item: "addItem ctx now i adto d = Inr (v, d') \<Longrightarrow> api_step d d'"
| update_item: "updateItem ctx now i j idto d = Inr (v, d') \<Longrightarrow> api_step d d'"
| delete_item: "deleteItem ctx now i j d = Inr (v, d') \<Longrightarrow> api_step d d'"
| check_out: "checkout ctx now i odto d = Inr (v, d') \<Longrightarrow> api_step d d'"
| move_order: "transitionOrder ctx now i tdto d = Inr (v, d') \<Longrightarrow> api_step d d'"
| move_ticket: "transitionTicket ctx now i kdto d = Inr (v, d') \<Longrightarrow> api_step d d'"
| reserve: "createReservation ctx now rdto d = Inr (v, d') \<Longrightarrow> 0 \<le> csr_quantity rdto \<Longrightarrow> api_step d d'"
| release: "releaseReservation ctx now i d = Inr (v, d') \<Longrightarrow> api_step d d'"
| consume: "consumeReservation ctx now i d = Inr (v, d') \<Longrightarrow> api_step d d'"
| adjust: "createAdjustment ctx now jdto d = Inr (v, d') \<Longrightarrow> api_step d d'"
| receive: "completeReceivingRecord ctx now i who d = Inr (v, d') \<Longrightarrow> api_step d d'"
| configure: "upsertStoreConfig ctx now i fdto d = Inr (next, d') \<Longrightarrow> api_step d d'"
| fulfil_cart: "applyCartFulfillment ctx now i input d = Inr d' \<Longrightarrow> api_step d d'"
| assign_courier: "assignCourier ctx now i acdto d = (r, d') \<Longrightarrow> api_step d d'"
| change_eta: "updateEta ctx now i edto d = (r, d') \<Longrightarrow> api_step d d'"
| change_fulfilment: "updateStatus ctx now i sdto d = (r, d') \<Longrightarrow> api_step d d'"
| adjust_points: "adjustLoyalty ctx now i ldto d = Inr (v, d') \<Longrightarrow> api_step d d'"
| create_promotion: "createPromotion ctx now pdto d = Inr (v, d') \<Longrightarrow> api_step d d'"
| update_promotion: "updatePromotion ctx now i updto d = Inr (v, d') \<Longrightarrow> api_step d d'"
| apply_promotion: "applyPromotionToCart ctx now pinput d = (r, d') \<Longrightarrow> api_step d d'"
| finalize_order: "finalizeOrderGrowth ctx now i d = Inr (v, d') \<Longrightarrow> api_step d d'"
| repeat_order: "repeatCustomerOrder ctx now rinput d = (r, d') \<Longrightarrow> api_step d d'"

section \<open>One step\<close>

lemma api_step_core: "api_step d d' \<Longrightarrow> core_step d d'"
  by (erule api_step.cases) (blast intro: cart_handlers_core order_handlers_core stock_handlers_core upsertStoreConfig_core
      applyCartFulfillment_core assignCourier_core updateEta_core updateStatus_core
      core_step_customer adjustLoyalty_rows createPromotion_rows updatePromotion_rows applyPromotionToCart_core
      finalizeOrderGrowth_core repeatCustomerOrder_core)+

lemma api_step_ok: "api_step d d' \<Longrightarrow> api_ok d \<Longrightarrow> api_ok d' \<and> order_grows d d'"
  using api_step_core unfolding core_step_def by blast

lemma api_reachable:
  assumes "api_step\<^sup>*\<^sup>* d d'" and "api_ok d"
  shows "api_ok d' \<and> order_grows d d'"
  using assms(1)
proof (induction rule: rtranclp_induct)
  case base
  with assms(2) show ?case by (simp add: order_grows_refl)
next
  case (step d1 d2)
  then show ?case using api_step_ok order_grows_trans by blast
qed

end
