(* ===== verification/Pos.thy ===== *)
theory Pos
  imports Carts
begin

text \<open>
  The point of sale of \<open>pos/pos.module.ts\<close>: a device has at most one open shift and, within an
  open shift, at most one active session.
\<close>

section \<open>Rows\<close>

definition shift_get :: "uuid \<Rightarrow> db \<Rightarrow> PosShift option" where
  "shift_get i d = find (\<lambda>r. ps_id r = i) (posShifts d)"

definition shift_update :: "uuid \<Rightarrow> (PosShift \<Rightarrow> PosShift) \<Rightarrow> db \<Rightarrow> db" where
  "shift_update i f d = d\<lparr>posShifts := update_where (\<lambda>r. ps_id r = i) f (posShifts d)\<rparr>"

definition shift_create :: "PosShift \<Rightarrow> db \<Rightarrow> db" where
  "shift_create r d = d\<lparr>posShifts := posShifts d @ [r]\<rparr>"

definition session_get :: "uuid \<Rightarrow> db \<Rightarrow> PosSession option" where
  "session_get i d = find (\<lambda>r. pse_id r = i) (posSessions d)"

definition session_update :: "uuid \<Rightarrow> (PosSession \<Rightarrow> PosSession) \<Rightarrow> db \<Rightarrow> db" where
  "session_update i f d = d\<lparr>posSessions := update_where (\<lambda>r. pse_id r = i) f (posSessions d)\<rparr>"

definition session_create :: "PosSession \<Rightarrow> db \<Rightarrow> db" where
  "session_create r d = d\<lparr>posSessions := posSessions d @ [r]\<rparr>"

interpretation shift_rows: row_store ps_id "\<lambda>d. map ps_id (posShifts d)" shift_get shift_update shift_create
  by (rule row_store_list) (simp_all add: shift_get_def shift_update_def shift_create_def)

interpretation session_rows: row_store pse_id "\<lambda>d. map pse_id (posSessions d)" session_get session_update
    session_create
  by (rule row_store_list) (simp_all add: session_get_def session_update_def session_create_def)

section \<open>Transfer objects\<close>

definition mapShift :: "PosShift \<Rightarrow> json" where
  "mapShift shift = JObj
     [(''id'', JStr (ps_id shift)), (''tenantId'', JStr (ps_tenantId shift)),
      (''storeId'', JStr (ps_storeId shift)), (''deviceId'', JStr (ps_deviceId shift)),
      (''openedByUserId'', JStr (ps_openedByUserId shift)),
      (''status'', JStr (show_shift_status (ps_status shift))),
      (''openingCashAmount'', jopt (map_option formatCents (ps_openingCashAmount shift))),
      (''closingCashAmount'', jopt (map_option formatCents (ps_closingCashAmount shift))),
      (''openedAt'', jtime (ps_openedAt shift)), (''closedAt'', jdate (ps_closedAt shift)),
      (''createdAt'', jtime (ps_createdAt shift)), (''updatedAt'', jtime (ps_updatedAt shift))]"

definition mapSession :: "PosSession \<Rightarrow> json" where
  "mapSession session = JObj
     [(''id'', JStr (pse_id session)), (''tenantId'', JStr (pse_tenantId session)),
      (''storeId'', JStr (pse_storeId session)), (''deviceId'', JStr (pse_deviceId session)),
      (''shiftId'', JStr (pse_shiftId session)), (''userId'', JStr (pse_userId session)),
      (''status'', JStr (show_session_status (pse_status session))),
      (''startedAt'', jtime (pse_startedAt session)), (''endedAt'', jdate (pse_endedAt session)),
      (''lastHeartbeatAt'', jdate (pse_lastHeartbeatAt session)),
      (''createdAt'', jtime (pse_createdAt session)), (''updatedAt'', jtime (pse_updatedAt session))]"

definition pos_log ::
  "RequestContext \<Rightarrow> uuid \<Rightarrow> uuid \<Rightarrow> string \<Rightarrow> string \<Rightarrow> uuid \<Rightarrow> json \<Rightarrow> json \<Rightarrow> db \<Rightarrow> db" where
  "pos_log context tenantId storeId action entityType entityId auditPayload eventPayload d =
     domainEvents_record \<lparr>ob_tenantId = Some tenantId, ob_eventName = action, ob_aggregate = entityType,
         ob_aggregateId = entityId, ob_payload = eventPayload\<rparr>
       (recordTx \<lparr>al_tenantId = Some tenantId, al_storeId = Some storeId, al_actorType = ''USER'',
           al_actorId = ctx_userId context, al_action = action, al_entityType = entityType,
           al_entityId = entityId, al_payload = Some auditPayload\<rparr> d)"

declare pos_log_def [simp]

section \<open>Reads\<close>

definition listShifts :: "RequestContext \<Rightarrow> uuid option \<Rightarrow> uuid option \<Rightarrow> db \<Rightarrow> json result" where
  "listShifts context tenantId storeId d =
     bnd (checkStoreQuery context storeId) (\<lambda>_.
     bnd (tenantWhere context tenantId) (\<lambda>tw.
     Inr (jlist (map mapShift (rev (filter
       (\<lambda>s. in_scope context tw storeId (ps_tenantId s) (ps_storeId s)) (posShifts d)))))))"

definition listSessions ::
  "RequestContext \<Rightarrow> uuid option \<Rightarrow> uuid option \<Rightarrow> uuid option \<Rightarrow> db \<Rightarrow> json result" where
  "listSessions context tenantId storeId deviceId d =
     bnd (checkStoreQuery context storeId) (\<lambda>_.
     bnd (tenantWhere context tenantId) (\<lambda>tw.
     Inr (jlist (map mapSession (rev (filter
       (\<lambda>s. in_scope context tw storeId (pse_tenantId s) (pse_storeId s) \<and>
            (truthy deviceId \<longrightarrow> deviceId = Some (pse_deviceId s))) (posSessions d)))))))"

section \<open>Devices\<close>

definition ensurePosDevice :: "DeviceKind \<Rightarrow> error + unit" where
  "ensurePosDevice deviceType =
     ensure (deviceType = DevPOS) (BadRequestException ''The selected device is not a POS device.'')"

definition loadPosDevice ::
  "RequestContext \<Rightarrow> uuid \<Rightarrow> uuid option \<Rightarrow> uuid option \<Rightarrow> db \<Rightarrow> Device result" where
  "loadPosDevice context deviceId tenantIdInput storeIdInput d =
     bnd (orThrow (find (\<lambda>v. dev_id v = deviceId) (devices d)) (RecordNotFound ''Device'')) (\<lambda>device.
     bnd (resolveTenantId context (Some (nullish tenantIdInput (dev_tenantId device))) True) (\<lambda>tenantId.
     bnd (ensure (dev_tenantId device = tenantId) (BadRequestException ''Device tenant mismatch.'')) (\<lambda>_.
     bnd (ensure (\<not> (truthy storeIdInput \<and> storeIdInput \<noteq> Some (dev_storeId device)))
            (BadRequestException ''Device store mismatch.'')) (\<lambda>_.
     bnd (enforceStoreAccess context (dev_storeId device)) (\<lambda>_.
     bnd (ensurePosDevice (dev_type device)) (\<lambda>_.
     Inr device))))))"

section \<open>Shifts\<close>

record OpenPosShiftDto =
  os_tenantId :: "uuid option"
  os_storeId :: "uuid option"
  os_deviceId :: uuid
  os_openingCashAmount :: "string option"

text \<open>An optional amount written to a money column.\<close>

definition decimal_opt :: "string option \<Rightarrow> int option result" where
  "decimal_opt m = (case m of None \<Rightarrow> Inr None | Some s \<Rightarrow> bnd (decimal_of s) (\<lambda>c. Inr (Some c)))"

definition new_shift :: "RequestContext \<Rightarrow> instant \<Rightarrow> Device \<Rightarrow> int option \<Rightarrow> db \<Rightarrow> PosShift" where
  "new_shift context now device amount d =
     \<lparr>ps_id = nextId d, ps_tenantId = dev_tenantId device, ps_storeId = dev_storeId device,
      ps_deviceId = dev_id device, ps_openedByUserId = ctx_userId context, ps_status = ShiftOpen,
      ps_openingCashAmount = amount, ps_closingCashAmount = None, ps_openedAt = now,
      ps_closedAt = None, ps_createdAt = now, ps_updatedAt = now\<rparr>"

definition openShift ::
  "RequestContext \<Rightarrow> instant \<Rightarrow> OpenPosShiftDto \<Rightarrow> db \<Rightarrow> (json \<times> db) result" where
  "openShift context now dto d =
     bnd (loadPosDevice context (os_deviceId dto) (os_tenantId dto) (os_storeId dto) d) (\<lambda>device.
     bnd (ensure (find (\<lambda>s. ps_deviceId s = dev_id device \<and> ps_status s = ShiftOpen) (posShifts d) = None)
            (BadRequestException ''An open POS shift already exists for this device.'')) (\<lambda>_.
     bnd (decimal_opt (os_openingCashAmount dto)) (\<lambda>amount.
     let shift = new_shift context now device amount d;
         d1 = shift_create shift (bump d);
         d2 = pos_log context (ps_tenantId shift) (ps_storeId shift) ''pos.shift_opened'' ''pos_shift''
           (ps_id shift)
           (JObj [(''deviceId'', JStr (ps_deviceId shift)),
                  (''openingCashAmount'', jopt (os_openingCashAmount dto))])
           (JObj [(''shiftId'', JStr (ps_id shift)), (''deviceId'', JStr (ps_deviceId shift))]) d1 in
     Inr (mapShift shift, d2))))"

definition closed_shift :: "instant \<Rightarrow> int option \<Rightarrow> PosShift \<Rightarrow> PosShift" where
  "closed_shift now amount s = s\<lparr>ps_status := ShiftClosed, ps_closedAt := Some now,
     ps_closingCashAmount := amount, ps_updatedAt := now\<rparr>"

definition end_shift_sessions :: "instant \<Rightarrow> uuid \<Rightarrow> db \<Rightarrow> db" where
  "end_shift_sessions now shiftId d = d\<lparr>posSessions := update_where
     (\<lambda>s. pse_shiftId s = shiftId \<and> pse_status s = SessionActive)
     (\<lambda>s. s\<lparr>pse_status := SessionEnded, pse_endedAt := Some now, pse_updatedAt := now\<rparr>)
     (posSessions d)\<rparr>"

definition closeShift ::
  "RequestContext \<Rightarrow> instant \<Rightarrow> uuid \<Rightarrow> string option \<Rightarrow> db \<Rightarrow> (json \<times> db) result" where
  "closeShift context now shiftId closingCashAmount d =
     bnd (orThrow (shift_get shiftId d) (RecordNotFound ''PosShift'')) (\<lambda>current.
     bnd (checkAccess context (ps_tenantId current) (ps_storeId current)) (\<lambda>_.
     bnd (ensure (ps_status current = ShiftOpen)
            (BadRequestException ''Only open POS shifts can be closed.'')) (\<lambda>_.
     bnd (decimal_opt closingCashAmount) (\<lambda>amount.
     let d1 = end_shift_sessions now (ps_id current) d;
         shift = closed_shift now amount current;
         d2 = shift_update (ps_id current) (closed_shift now amount) d1;
         d3 = pos_log context (ps_tenantId shift) (ps_storeId shift) ''pos.shift_closed'' ''pos_shift''
           (ps_id shift) (JObj [(''closingCashAmount'', jopt closingCashAmount)])
           (JObj [(''shiftId'', JStr (ps_id shift))]) d2 in
     Inr (mapShift shift, d3)))))"

section \<open>Sessions\<close>

record StartPosSessionDto =
  sp_tenantId :: "uuid option"
  sp_storeId :: "uuid option"
  sp_deviceId :: uuid
  sp_shiftId :: uuid

definition new_session :: "RequestContext \<Rightarrow> instant \<Rightarrow> Device \<Rightarrow> PosShift \<Rightarrow> db \<Rightarrow> PosSession" where
  "new_session context now device shift d =
     \<lparr>pse_id = nextId d, pse_tenantId = dev_tenantId device, pse_storeId = dev_storeId device,
      pse_deviceId = dev_id device, pse_shiftId = ps_id shift, pse_userId = ctx_userId context,
      pse_status = SessionActive, pse_startedAt = now, pse_endedAt = None,
      pse_lastHeartbeatAt = Some now, pse_createdAt = now, pse_updatedAt = now\<rparr>"

definition startSession ::
  "RequestContext \<Rightarrow> instant \<Rightarrow> StartPosSessionDto \<Rightarrow> db \<Rightarrow> (json \<times> db) result" where
  "startSession context now dto d =
     bnd (loadPosDevice context (sp_deviceId dto) (sp_tenantId dto) (sp_storeId dto) d) (\<lambda>device.
     bnd (orThrow (shift_get (sp_shiftId dto) d) (RecordNotFound ''PosShift'')) (\<lambda>shift.
     bnd (ensure (\<not> (ps_tenantId shift \<noteq> dev_tenantId device \<or> ps_storeId shift \<noteq> dev_storeId device \<or>
                    ps_deviceId shift \<noteq> dev_id device))
            (BadRequestException ''Shift/device/store mismatch.'')) (\<lambda>_.
     bnd (ensure (ps_status shift = ShiftOpen)
            (BadRequestException ''POS session requires an open shift.'')) (\<lambda>_.
     bnd (ensure (find (\<lambda>s. pse_deviceId s = dev_id device \<and> pse_status s = SessionActive)
                    (posSessions d) = None)
            (BadRequestException ''An active POS session already exists for this device.'')) (\<lambda>_.
     let session = new_session context now device shift d;
         d1 = session_create session (bump d);
         d2 = pos_log context (pse_tenantId session) (pse_storeId session) ''pos.session_started''
           ''pos_session'' (pse_id session)
           (JObj [(''shiftId'', JStr (pse_shiftId session)), (''deviceId'', JStr (pse_deviceId session))])
           (JObj [(''sessionId'', JStr (pse_id session)), (''shiftId'', JStr (pse_shiftId session)),
                  (''deviceId'', JStr (pse_deviceId session))]) d1 in
     Inr (mapSession session, d2))))))"

definition beaten :: "instant \<Rightarrow> PosSession \<Rightarrow> PosSession" where
  "beaten now s = s\<lparr>pse_lastHeartbeatAt := Some now, pse_updatedAt := now\<rparr>"

definition heartbeatSession :: "RequestContext \<Rightarrow> instant \<Rightarrow> uuid \<Rightarrow> db \<Rightarrow> (json \<times> db) result" where
  "heartbeatSession context now sessionId d =
     bnd (orThrow (session_get sessionId d) (RecordNotFound ''PosSession'')) (\<lambda>current.
     bnd (checkAccess context (pse_tenantId current) (pse_storeId current)) (\<lambda>_.
     bnd (ensure (pse_status current = SessionActive)
            (BadRequestException ''Only active POS sessions can send heartbeat.'')) (\<lambda>_.
     Inr (mapSession (beaten now current), session_update (pse_id current) (beaten now) d))))"

definition ended_session :: "instant \<Rightarrow> PosSession \<Rightarrow> PosSession" where
  "ended_session now s = s\<lparr>pse_status := SessionEnded, pse_endedAt := Some now,
     pse_lastHeartbeatAt := Some now, pse_updatedAt := now\<rparr>"

definition endSession :: "RequestContext \<Rightarrow> instant \<Rightarrow> uuid \<Rightarrow> db \<Rightarrow> (json \<times> db) result" where
  "endSession context now sessionId d =
     bnd (orThrow (session_get sessionId d) (RecordNotFound ''PosSession'')) (\<lambda>current.
     bnd (checkAccess context (pse_tenantId current) (pse_storeId current)) (\<lambda>_.
     bnd (ensure (pse_status current = SessionActive)
            (BadRequestException ''Only active POS sessions can be ended.'')) (\<lambda>_.
     let session = ended_session now current;
         d1 = session_update (pse_id current) (ended_session now) d;
         d2 = pos_log context (pse_tenantId session) (pse_storeId session) ''pos.session_ended''
           ''pos_session'' (pse_id session) (JObj [(''shiftId'', JStr (pse_shiftId session))])
           (JObj [(''sessionId'', JStr (pse_id session)), (''shiftId'', JStr (pse_shiftId session))]) d1 in
     Inr (mapSession session, d2))))"

end
