(* ===== verification/PosLaws.thy ===== *)
theory PosLaws
  imports Pos
begin

text \<open>
  The point of sale as a step relation: which handler may take the database from one state to
  the next, and the invariant every reachable state has.
\<close>

inductive pos_step :: "db \<Rightarrow> db \<Rightarrow> bool" where
  open_shift: "openShift context now dto d = Inr (v, d') \<Longrightarrow> pos_step d d'"
| close_shift: "closeShift context now i amount d = Inr (v, d') \<Longrightarrow> pos_step d d'"
| start_session: "startSession context now sdto d = Inr (v, d') \<Longrightarrow> pos_step d d'"
| heartbeat: "heartbeatSession context now i d = Inr (v, d') \<Longrightarrow> pos_step d d'"
| end_session: "endSession context now i d = Inr (v, d') \<Longrightarrow> pos_step d d'"

definition open_shifts :: "db \<Rightarrow> PosShift list" where
  "open_shifts d = filter (\<lambda>s. ps_status s = ShiftOpen) (posShifts d)"

definition active_sessions :: "db \<Rightarrow> PosSession list" where
  "active_sessions d = filter (\<lambda>s. pse_status s = SessionActive) (posSessions d)"

definition pos_ok :: "db \<Rightarrow> bool" where
  "pos_ok d \<longleftrightarrow>
     distinct (map ps_id (posShifts d)) \<and> distinct (map pse_id (posSessions d)) \<and>
     fresh_from (db_seq d) (map ps_id (posShifts d)) \<and>
     fresh_from (db_seq d) (map pse_id (posSessions d)) \<and>
     distinct (map ps_deviceId (open_shifts d)) \<and>
     distinct (map pse_deviceId (active_sessions d)) \<and>
     (\<forall>s \<in> set (active_sessions d). \<exists>t \<in> set (open_shifts d).
        ps_id t = pse_shiftId s \<and> ps_deviceId t = pse_deviceId s)"

text \<open>Filtering by status after one row changed.\<close>

lemma filter_update_out:
  assumes "\<And>r. Q (f r) = False"
  shows "filter Q (update_where P f rows) = filter (\<lambda>r. Q r \<and> \<not> P r) rows"
  using assms by (induction rows) (auto simp: update_where_Cons)

lemma distinct_map_filter_sub: "distinct (map k (filter Q rows)) \<Longrightarrow> distinct (map k (filter (\<lambda>r. Q r \<and> P r) rows))"
  by (induction rows) (auto split: if_splits)

section \<open>What the handlers did\<close>

lemma openShift_Inr:
  assumes "openShift context now dto d = Inr (v, d')"
  shows "\<exists>device amount l1 l2. loadPosDevice context (os_deviceId dto) (os_tenantId dto) (os_storeId dto) d = Inr device \<and>
    (\<forall>s \<in> set (open_shifts d). ps_deviceId s \<noteq> dev_id device) \<and>
    d' = (shift_create (new_shift context now device amount d) (bump d))\<lparr>auditLogs := l1, outbox := l2\<rparr>"
  using assms unfolding openShift_def
  by (clarsimp simp: Let_def find_None_iff open_shifts_def)
    (rule conjI, blast, rule exI, rule exI, rule exI, rule refl)

lemma closeShift_Inr:
  assumes "closeShift context now i am d = Inr (v, d')"
  shows "\<exists>s amount l1 l2. shift_get i d = Some s \<and> ps_status s = ShiftOpen \<and>
    checkAccess context (ps_tenantId s) (ps_storeId s) = Inr () \<and>
    d' = (shift_update i (closed_shift now amount) (end_shift_sessions now i d))\<lparr>auditLogs := l1, outbox := l2\<rparr>"
  using assms unfolding closeShift_def
  apply (clarsimp simp: Let_def)
  apply (frule shift_rows.get_key)
  apply clarsimp
  apply (rule exI, rule exI, rule exI, rule refl)
  done

lemma startSession_Inr:
  assumes "startSession context now dto d = Inr (v, d')"
  shows "\<exists>device shift l1 l2. shift_get (sp_shiftId dto) d = Some shift \<and> ps_status shift = ShiftOpen \<and>
    ps_deviceId shift = dev_id device \<and>
    loadPosDevice context (sp_deviceId dto) (sp_tenantId dto) (sp_storeId dto) d = Inr device \<and>
    (\<forall>s \<in> set (active_sessions d). pse_deviceId s \<noteq> dev_id device) \<and>
    d' = (session_create (new_session context now device shift d) (bump d))\<lparr>auditLogs := l1, outbox := l2\<rparr>"
  using assms unfolding startSession_def
  apply (clarsimp simp: Let_def find_None_iff active_sessions_def)
  apply (rule conjI, blast, rule exI, rule exI, rule refl)
  done

lemma heartbeatSession_Inr:
  assumes "heartbeatSession context now i d = Inr (v, d')"
  shows "d' = session_update i (beaten now) d"
  using assms unfolding heartbeatSession_def
  by clarsimp (drule session_rows.get_key, simp)

lemma endSession_Inr:
  assumes "endSession context now i d = Inr (v, d')"
  shows "\<exists>s l1 l2. session_get i d = Some s \<and> pse_status s = SessionActive \<and>
    d' = (session_update i (ended_session now) d)\<lparr>auditLogs := l1, outbox := l2\<rparr>"
  using assms unfolding endSession_def
  apply (clarsimp simp: Let_def)
  apply (frule session_rows.get_key)
  apply clarsimp
  apply (rule exI, rule exI, rule refl)
  done

section \<open>The invariant\<close>

lemma pos_okD:
  assumes "pos_ok d"
  shows "distinct (map ps_id (posShifts d))" "distinct (map pse_id (posSessions d))"
    "fresh_from (db_seq d) (map ps_id (posShifts d))" "fresh_from (db_seq d) (map pse_id (posSessions d))"
    "distinct (map ps_deviceId (open_shifts d))" "distinct (map pse_deviceId (active_sessions d))"
    "s \<in> set (active_sessions d) \<Longrightarrow>
      \<exists>t \<in> set (open_shifts d). ps_id t = pse_shiftId s \<and> ps_deviceId t = pse_deviceId s"
  using assms by (auto simp: pos_ok_def)

lemma openShift_ok:
  assumes ok: "pos_ok d" and run: "openShift context now dto d = Inr (v, d')"
  shows "pos_ok d'"
proof -
  note D = pos_okD [OF ok]
  from openShift_Inr [OF run] obtain device amount l1 l2 where
    free: "\<forall>s \<in> set (open_shifts d). ps_deviceId s \<noteq> dev_id device"
    and d': "d' = (shift_create (new_shift context now device amount d) (bump d))\<lparr>auditLogs := l1, outbox := l2\<rparr>"
    by blast
  have o: "open_shifts d' = open_shifts d @ [new_shift context now device amount d]"
    "active_sessions d' = active_sessions d"
    by (simp_all add: open_shifts_def active_sessions_def d' shift_create_def new_shift_def)
  have "newId (db_seq d) \<notin> set (map ps_id (posShifts d))" using D(3) by (rule fresh_fromD) simp
  with D free show ?thesis
    unfolding pos_ok_def o by (auto simp: d' shift_create_def new_shift_def fresh_from_Suc)
qed

lemma startSession_ok:
  assumes ok: "pos_ok d" and run: "startSession context now dto d = Inr (v, d')"
  shows "pos_ok d'"
proof -
  note D = pos_okD [OF ok]
  from startSession_Inr [OF run] obtain device shift l1 l2 where
    shift: "shift_get (sp_shiftId dto) d = Some shift" "ps_status shift = ShiftOpen"
      "ps_deviceId shift = dev_id device"
    and free: "\<forall>s \<in> set (active_sessions d). pse_deviceId s \<noteq> dev_id device"
    and d': "d' = (session_create (new_session context now device shift d) (bump d))\<lparr>auditLogs := l1, outbox := l2\<rparr>"
    by blast
  have o: "active_sessions d' = active_sessions d @ [new_session context now device shift d]"
    "open_shifts d' = open_shifts d"
    by (simp_all add: open_shifts_def active_sessions_def d' session_create_def new_session_def)
  have "shift \<in> set (open_shifts d)"
    using shift find_SomeD by (fastforce simp: shift_get_def open_shifts_def)
  moreover have "newId (db_seq d) \<notin> set (map pse_id (posSessions d))" using D(4) by (rule fresh_fromD) simp
  ultimately show ?thesis
    using D shift free unfolding pos_ok_def o
    by (auto simp: d' session_create_def new_session_def fresh_from_Suc)
qed

lemma closeShift_ok:
  assumes ok: "pos_ok d" and run: "closeShift context now i am d = Inr (v, d')"
  shows "pos_ok d'"
proof -
  note D = pos_okD [OF ok]
  from closeShift_Inr [OF run] obtain amount l1 l2 where
    d': "d' = (shift_update i (closed_shift now amount) (end_shift_sessions now i d))\<lparr>auditLogs := l1, outbox := l2\<rparr>"
    by blast
  have o: "open_shifts d' = filter (\<lambda>s. ps_status s = ShiftOpen \<and> ps_id s \<noteq> i) (posShifts d)"
    unfolding open_shifts_def d' shift_update_def end_shift_sessions_def
    by (simp add: filter_update_out closed_shift_def)
  have a: "active_sessions d' = filter (\<lambda>s. pse_status s = SessionActive \<and> pse_shiftId s \<noteq> i) (posSessions d)"
    unfolding active_sessions_def d' shift_update_def end_shift_sessions_def
    by (simp add: filter_update_out) (rule filter_cong, auto)
  have k: "map ps_id (posShifts d') = map ps_id (posShifts d)" "map pse_id (posSessions d') = map pse_id (posSessions d)"
    by (simp_all add: d' shift_update_def end_shift_sessions_def map_update_where_key closed_shift_def)
  have "\<exists>t \<in> set (open_shifts d'). ps_id t = pse_shiftId s \<and> ps_deviceId t = pse_deviceId s"
    if "s \<in> set (active_sessions d')" for s
    using that D(7) [of s] unfolding o a by (auto simp: open_shifts_def active_sessions_def)
  moreover have "db_seq d' = db_seq d" by (simp add: d' shift_update_def end_shift_sessions_def)
  ultimately show ?thesis
    using D(1-4) distinct_map_filter_sub [OF D(5) [unfolded open_shifts_def]]
      distinct_map_filter_sub [OF D(6) [unfolded active_sessions_def]]
    unfolding pos_ok_def k by (simp add: o a)
qed

text \<open>A session row changed in its times only, or was ended.\<close>

lemma session_update_ok:
  assumes ok: "pos_ok d"
    and f: "\<And>s. pse_id (f s) = pse_id s" "\<And>s. pse_deviceId (f s) = pse_deviceId s"
      "\<And>s. pse_shiftId (f s) = pse_shiftId s"
    and act: "(\<forall>s. pse_status (f s) = pse_status s) \<or> (\<forall>s. pse_status (f s) = SessionEnded)"
    and d': "posSessions d' = update_where (\<lambda>s. pse_id s = i) f (posSessions d)"
      "posShifts d' = posShifts d" "db_seq d' = db_seq d"
  shows "pos_ok d'"
proof -
  note D = pos_okD [OF ok]
  have k: "map pse_id (posSessions d') = map pse_id (posSessions d)"
    unfolding d' using f by (intro map_update_where_key) simp
  have o: "open_shifts d' = open_shifts d" by (simp add: open_shifts_def d')
  have sub: "\<exists>s0 \<in> set (active_sessions d). pse_deviceId s0 = pse_deviceId s \<and> pse_shiftId s0 = pse_shiftId s"
    if "s \<in> set (active_sessions d')" for s
    using that act f by (fastforce simp: active_sessions_def d' set_update_where)
  have "distinct (map pse_deviceId (active_sessions d'))"
    using act
  proof
    assume e: "\<forall>s. pse_status (f s) = SessionEnded"
    have "active_sessions d' = filter (\<lambda>s. pse_status s = SessionActive \<and> pse_id s \<noteq> i) (posSessions d)"
      unfolding active_sessions_def d' by (simp add: filter_update_out e)
    then show ?thesis using distinct_map_filter_sub [OF D(6) [unfolded active_sessions_def]] by simp
  next
    assume e: "\<forall>s. pse_status (f s) = pse_status s"
    have "map pse_deviceId (filter (\<lambda>s. pse_status s = SessionActive) (update_where P f rows)) =
        map pse_deviceId (filter (\<lambda>s. pse_status s = SessionActive) rows)" for P rows
      using e f by (induction rows) (auto simp: update_where_Cons)
    then show ?thesis using D(6) by (simp add: active_sessions_def d')
  qed
  moreover have "\<exists>t \<in> set (open_shifts d). ps_id t = pse_shiftId s \<and> ps_deviceId t = pse_deviceId s"
    if "s \<in> set (active_sessions d')" for s
    using sub [OF that] D(7) by fastforce
  ultimately show ?thesis using D(1-5) unfolding pos_ok_def k o d'(2,3) by simp
qed

lemma pos_step_ok: "pos_step d d' \<Longrightarrow> pos_ok d \<Longrightarrow> pos_ok d'"
proof (induction rule: pos_step.induct)
  case (heartbeat ctx now i d v d')
  then show ?case
    by (intro session_update_ok [of d "beaten now" d' i])
      (auto dest: heartbeatSession_Inr simp: session_update_def beaten_def)
next
  case (end_session ctx now i d v d')
  then show ?case
    by (intro session_update_ok [of d "ended_session now" d' i])
      (auto dest!: endSession_Inr simp: session_update_def ended_session_def)
qed (auto intro: openShift_ok closeShift_ok startSession_ok)

lemma pos_reachable_ok: "pos_step\<^sup>*\<^sup>* d d' \<Longrightarrow> pos_ok d \<Longrightarrow> pos_ok d'"
  by (induction rule: rtranclp_induct) (auto intro: pos_step_ok)

end
