(* ===== verification/Demo.thy ===== *)
theory Demo
  imports System PosLaws
begin

text \<open>
  One concrete run of the services: a tenant with one store, one warehouse and one recipe takes an
  order from an empty cart to completion. The databases of the run show that the hypotheses of the
  properties can hold, and the handlers that produced them are evaluated, not assumed.
\<close>

section \<open>Results of a run\<close>

definition view_of :: "('a \<times> db) result \<Rightarrow> 'a" where
  "view_of r = (case r of Inr (v, d) \<Rightarrow> v)"

definition db_after :: "('a \<times> db) result \<Rightarrow> db" where
  "db_after r = (case r of Inr (v, d) \<Rightarrow> d)"

lemma accepted: "\<not> isl r \<Longrightarrow> r = Inr (view_of r, db_after r)"
  by (cases r) (auto simp: view_of_def db_after_def)

text \<open>An id shorter than the generated ones is none of them.\<close>

lemma newId_long: "28 < length (newId n)"
  by (simp add: newId_def padStart_def)

lemma fresh_from_short: "list_all (\<lambda>i. length i \<le> 28) ids \<Longrightarrow> fresh_from n ids"
  unfolding fresh_from_def list_all_iff using newId_long not_less by blast

section \<open>The tenant\<close>

definition demo_context :: RequestContext where
  "demo_context = \<lparr>ctx_userId = ''u1'', ctx_tenantId = Some ''t1'', ctx_scope = TenantMember,
     ctx_roleIds = [], ctx_permissions = [''orders.write''], ctx_storeIds = [''s1''],
     ctx_deviceId = None\<rparr>"

text \<open>A member of another tenant.\<close>

definition other_context :: RequestContext where
  "other_context = demo_context\<lparr>ctx_tenantId := Some ''t2''\<rparr>"

definition demo_item :: InventoryItem where
  "demo_item = \<lparr>ii_id = ''i1'', ii_tenantId = ''t1'', ii_warehouseId = ''w1'',
     ii_ingredientId = ''g1'', ii_sku = None, ii_onHand = 10, ii_reserved = 0, ii_reorderPoint = 4,
     ii_metadata = JObj [], ii_createdAt = 0, ii_updatedAt = 0\<rparr>"

definition demo_product :: Product where
  "demo_product = \<lparr>pr_id = ''p1'', pr_tenantId = ''t1'', pr_categoryId = Some ''ct1'',
     pr_brandId = None, pr_code = ''burger'', pr_name = ''Burger'', pr_description = None,
     pr_status = ''ACTIVE'', pr_isVisible = True, pr_isAvailable = True, pr_isOutOfStock = False,
     pr_basePrice = Some 450, pr_modifierGroupIds = [''mg1''], pr_createdAt = 0, pr_updatedAt = 0\<rparr>"

definition demo_receiving :: ReceivingRecord where
  "demo_receiving = \<lparr>rr_id = ''r1'', rr_tenantId = ''t1'', rr_warehouseId = ''w1'',
     rr_reference = ''R-1'', rr_status = ''OPEN'', rr_receivedBy = None, rr_completedAt = None,
     rr_metadata = JObj [], rr_createdAt = 0, rr_updatedAt = 0,
     rr_lines = [\<lparr>rl_id = ''rl1'', rl_ingredientId = ''g1'', rl_quantity = 5, rl_unitCost = Some 120,
                  rl_metadata = JObj []\<rparr>]\<rparr>"

definition demo_db :: db where
  "demo_db = \<lparr>db_seq = 0,
     stores = [\<lparr>st_id = ''s1'', st_tenantId = ''t1'', st_brandId = None, st_code = ''first'',
        st_name = ''First'', st_timezone = ''UTC'', st_status = ''ACTIVE'', st_createdAt = 0,
        st_updatedAt = 0\<rparr>],
     devices = [\<lparr>dev_id = ''d1'', dev_tenantId = ''t1'', dev_storeId = ''s1'', dev_type = DevPOS\<rparr>],
     brands = [], categories = [\<lparr>cat_id = ''ct1'', cat_tenantId = ''t1'', cat_parentId = None,
        cat_code = ''grill'', cat_name = ''Grill'', cat_description = None, cat_sortOrder = 0,
        cat_status = ''ACTIVE'', cat_createdAt = 0, cat_updatedAt = 0\<rparr>],
     products = [demo_product], variants = [],
     modifierGroups = [\<lparr>mg_id = ''mg1'', mg_tenantId = ''t1'', mg_code = ''extra'', mg_name = ''Extras'',
        mg_description = None, mg_selectionMode = ''MULTIPLE'', mg_minSelection = 0,
        mg_maxSelection = None, mg_required = False, mg_status = ''ACTIVE'', mg_createdAt = 0,
        mg_updatedAt = 0\<rparr>],
     modifierOptions = [\<lparr>mo_id = ''mo1'', mo_tenantId = ''t1'', mo_groupId = ''mg1'',
        mo_code = ''cheese'', mo_name = ''Cheese'', mo_status = ''ACTIVE'', mo_priceDelta = 50,
        mo_createdAt = 0, mo_updatedAt = 0\<rparr>],
     priceLists = [], overrides = [], availabilityWindows = [], storeSettings = [], tenantSettings = [], carts = [],
     cartItems = [], orders = [], orderEvents = [], tickets = [],
     warehouses = [\<lparr>wh_id = ''w1'', wh_tenantId = ''t1'', wh_storeId = None, wh_code = ''main'',
        wh_name = ''Main'', wh_kind = ''STORE'', wh_notes = None, wh_isActive = True,
        wh_metadata = JObj [], wh_createdAt = 0, wh_updatedAt = 0\<rparr>],
     ingredients = [\<lparr>ing_id = ''g1'', ing_tenantId = ''t1'', ing_code = ''beef'', ing_name = ''Beef'',
        ing_unit = ''kg'', ing_lowStockThreshold = 6, ing_metadata = JObj [], ing_createdAt = 0,
        ing_updatedAt = 0\<rparr>],
     invItems = [demo_item],
     recipeBoms = [\<lparr>rb_id = ''b1'', rb_tenantId = ''t1'', rb_productId = ''p1'', rb_variantId = None,
        rb_ingredientId = ''g1'', rb_quantity = 2, rb_metadata = JObj [], rb_createdAt = 0,
        rb_updatedAt = 0\<rparr>],
     receivings = [demo_receiving], adjustments = [], reservations = [], ledger = [],
     stopRules = [], posShifts = [], posSessions = [], customerProfiles = [],
     loyaltyAccounts = [], loyaltyEntries = [], promotions = [], auditLogs = [], outbox = [], realtime = []\<rparr>"

lemma demo_ok: "api_ok demo_db"
proof -
  have "stock_ok demo_db"
    by (simp add: stock_ok_def demo_db_def demo_item_def item_key_def reserved_for_def fresh_from_short)
  moreover have "carts_ok demo_db" by (simp add: carts_ok_def demo_db_def)
  moreover have "orders_ok demo_db" by (simp add: orders_ok_def demo_db_def)
  ultimately show ?thesis by (simp add: api_ok_def)
qed

lemma demo_pos_ok: "pos_ok demo_db"
  by (simp add: pos_ok_def demo_db_def open_shifts_def active_sessions_def)

text \<open>The same tenant with an open cart, and its item.\<close>

definition demo_cart :: Cart where
  "demo_cart = \<lparr>cart_id = ''c1'', cart_tenantId = ''t1'', cart_storeId = ''s1'',
     cart_customerProfileId = None, cart_channel = POS, cart_status = OPEN, cart_customerName = None,
     cart_customerPhone = None, cart_note = None, cart_subtotal = 1350, cart_modifierTotal = 150,
     cart_fulfillmentFee = 0, cart_discountTotal = 0, cart_total = 1500, cart_promotionCode = None,
     cart_promotionSnapshot = None, cart_fulfillmentMode = None, cart_fulfillmentStatus = None,
     cart_fulfillmentPayload = None, cart_promisedAt = None, cart_etaAt = None, cart_deviceId = None,
     cart_createdByUserId = Some ''u1'', cart_createdAt = 0, cart_updatedAt = 0\<rparr>"

definition demo_modifier :: ItemModifier where
  "demo_modifier = \<lparr>im_id = ''m1'', im_modifierGroupId = ''mg1'', im_modifierOptionId = ''mo1'',
     im_nameSnapshot = ''Cheese'', im_priceDelta = 50\<rparr>"

definition demo_cart_item :: CartItem where
  "demo_cart_item = \<lparr>ci_id = ''ci1'', ci_cartId = ''c1'', ci_productId = ''p1'', ci_variantId = None,
     ci_quantity = 3, ci_priceListId = None, ci_unitBasePrice = Some 450, ci_modifierTotal = 150,
     ci_lineTotal = 1500, ci_snapshot = JNull, ci_createdAt = 0, ci_updatedAt = 0,
     ci_modifiers = [demo_modifier]\<rparr>"

definition cart_db :: db where
  "cart_db = demo_db\<lparr>carts := [demo_cart], cartItems := [demo_cart_item]\<rparr>"

text \<open>After its checkout: an order, and the reservation of its six units.\<close>

definition demo_order_item :: OrderItem where
  "demo_order_item = \<lparr>oi_id = ''oi1'', oi_orderId = ''o1'', oi_productId = ''p1'', oi_variantId = None,
     oi_quantity = 3, oi_unitBasePrice = Some 450, oi_modifierTotal = 150, oi_lineTotal = 1500,
     oi_snapshot = JNull, oi_createdAt = 0, oi_modifiers = [demo_modifier]\<rparr>"

definition demo_order :: "OrderStatus \<Rightarrow> Order" where
  "demo_order s = \<lparr>ord_id = ''o1'', ord_tenantId = ''t1'', ord_storeId = ''s1'', ord_cartId = Some ''c1'',
     ord_customerProfileId = None, ord_number = ''ORD-1'', ord_channel = POS, ord_status = s,
     ord_refundStatus = NONE, ord_customerName = None, ord_customerPhone = None, ord_note = None,
     ord_subtotal = 1350, ord_modifierTotal = 150, ord_fulfillmentFee = 0, ord_discountTotal = 0,
     ord_total = 1500, ord_promotionCode = None, ord_promotionSnapshot = None,
     ord_fulfillmentMode = None, ord_fulfillmentStatus = None, ord_fulfillmentPayload = None,
     ord_promisedAt = None, ord_etaAt = None, ord_placedAt = 0, ord_confirmedAt = None,
     ord_readyAt = None, ord_completedAt = None, ord_cancelledAt = None, ord_cancelReason = None,
     ord_deviceId = None, ord_createdByUserId = Some ''u1'', ord_createdAt = 0, ord_updatedAt = 0,
     ord_items = [demo_order_item]\<rparr>"

definition demo_reservation :: StockReservation where
  "demo_reservation = \<lparr>sr_id = ''sr1'', sr_tenantId = ''t1'', sr_warehouseId = ''w1'',
     sr_ingredientId = ''g1'', sr_sourceType = ''order'', sr_sourceId = ''o1'', sr_quantity = 6,
     sr_status = ResActive, sr_expiresAt = None, sr_metadata = JObj [], sr_createdAt = 0,
     sr_updatedAt = 0\<rparr>"

definition demo_ticket :: "KitchenTicketStatus \<Rightarrow> KitchenTicket" where
  "demo_ticket s = \<lparr>tk_id = ''k1'', tk_orderId = ''o1'', tk_tenantId = ''t1'', tk_storeId = ''s1'',
     tk_stationKey = ''KITCHEN'', tk_status = s, tk_sourceChannel = POS, tk_displayNumber = ''ORD-1'',
     tk_note = None, tk_itemCount = 3, tk_startedAt = None, tk_readyAt = None, tk_completedAt = None,
     tk_cancelledAt = None, tk_createdAt = 0, tk_updatedAt = 0,
     tk_items = [\<lparr>kti_id = ''ki1'', kti_ticketId = ''k1'', kti_orderItemId = ''oi1'',
        kti_productId = ''p1'', kti_variantId = None, kti_quantity = 3, kti_lineTotal = 1500,
        kti_snapshot = JNull, kti_createdAt = 0\<rparr>]\<rparr>"

definition order_db :: "OrderStatus \<Rightarrow> KitchenTicketStatus option \<Rightarrow> db" where
  "order_db s k = demo_db\<lparr>carts := [demo_cart\<lparr>cart_status := CONVERTED\<rparr>],
     cartItems := [demo_cart_item], orders := [demo_order s],
     tickets := (case k of None \<Rightarrow> [] | Some t \<Rightarrow> [demo_ticket t]),
     invItems := [demo_item\<lparr>ii_reserved := 6\<rparr>], reservations := [demo_reservation]\<rparr>"

text \<open>The state the order's ticket must allow.\<close>

lemmas demo_defs = demo_db_def demo_item_def demo_cart_def demo_cart_item_def demo_modifier_def
  demo_order_def demo_order_item_def demo_reservation_def demo_ticket_def demo_product_def
  demo_receiving_def demo_context_def other_context_def

lemma demo_stock_ok: "stock_ok (demo_db\<lparr>carts := cs, cartItems := is, orders := os, tickets := ts,
    invItems := [demo_item\<lparr>ii_reserved := 6\<rparr>], reservations := [demo_reservation]\<rparr>)"
  by (simp add: stock_ok_def demo_db_def demo_item_def demo_reservation_def item_key_def
      reserved_for_def contrib_def fresh_from_short getItemByWarehouseIngredientTx_def)

lemma demo_carts_ok: "carts_ok (demo_db\<lparr>carts := [demo_cart\<lparr>cart_status := s\<rparr>],
    cartItems := [demo_cart_item], orders := os, tickets := ts, invItems := ii, reservations := rs\<rparr>)"
  by (simp add: carts_ok_def demo_db_def demo_cart_def demo_cart_item_def demo_modifier_def line_ok_def
      cart_items_def cart_consistent_def item_cents_def cents_cart_totals_def cart_gross_def fresh_from_short)

lemma cart_db_ok: "api_ok cart_db"
proof -
  have "stock_ok cart_db"
    by (rule stock_ok_cong [OF _ _ _ api_okD(1) [OF demo_ok]]) (simp_all add: cart_db_def)
  moreover have "carts_ok cart_db"
    by (rule carts_ok_cong [OF _ _ _ _ demo_carts_ok [where s = OPEN]]) (simp_all add: cart_db_def demo_cart_def)
  moreover have "orders_ok cart_db" by (simp add: orders_ok_def cart_db_def demo_db_def)
  ultimately show ?thesis by (simp add: api_ok_def)
qed

lemma order_db_ok:
  assumes "case k of None \<Rightarrow> True | Some t \<Rightarrow> ticket_allowed s t"
  shows "api_ok (order_db s k)"
proof -
  have "stock_ok (order_db s k)" unfolding order_db_def by (rule demo_stock_ok)
  moreover have "carts_ok (order_db s k)" unfolding order_db_def by (rule demo_carts_ok)
  moreover have "order_consistent (demo_order s)"
    by (simp add: order_consistent_def demo_order_def demo_order_item_def order_item_cents_def
        cents_cart_totals_def cart_gross_def)
  then have "orders_ok (order_db s k)"
    using assms by (cases k)
      (simp_all add: orders_ok_def order_db_def demo_db_def demo_order_def demo_ticket_def demo_cart_def
        fresh_from_short)
  ultimately show ?thesis by (simp add: api_ok_def)
qed

section \<open>Requests\<close>

definition demo_create :: CreateCartDto where
  "demo_create = \<lparr>cc_tenantId = None, cc_storeId = ''s1'', cc_channel = Some POS, cc_customerName = None,
     cc_customerPhone = None, cc_note = None, cc_deviceId = None\<rparr>"

definition demo_add :: AddCartItemDto where
  "demo_add = \<lparr>ac_productId = ''p1'', ac_variantId = None, ac_quantity = 2, ac_priceListId = None,
     ac_modifierOptionIds = Some [''mo1'']\<rparr>"

definition demo_checkout :: CheckoutCartDto where
  "demo_checkout = \<lparr>co_customerName = Some ''Ann'', co_customerPhone = None, co_note = None\<rparr>"

definition to_status :: "OrderStatus \<Rightarrow> TransitionOrderDto" where
  "to_status s = \<lparr>tr_toStatus = s, tr_reason = None, tr_hasExternalPayment = None\<rparr>"

definition to_ticket :: "KitchenTicketStatus \<Rightarrow> TransitionKitchenTicketDto" where
  "to_ticket s = \<lparr>tkt_toStatus = s, tkt_reason = None\<rparr>"

section \<open>Accepted requests\<close>

definition run_create :: "(json \<times> db) result" where
  "run_create = createCart demo_context 1000 demo_create demo_db"

definition run_add :: "(json \<times> db) result" where
  "run_add = addItem demo_context 1000 ''c1'' demo_add cart_db"

definition run_checkout :: "(json \<times> db) result" where
  "run_checkout = checkout demo_context 1000 ''c1'' demo_checkout cart_db"

definition run_move :: "OrderStatus \<Rightarrow> KitchenTicketStatus option \<Rightarrow> OrderStatus \<Rightarrow> (json \<times> db) result" where
  "run_move s k to = transitionOrder demo_context 1000 ''o1'' (to_status to) (order_db s k)"

definition run_ticket :: "OrderStatus \<Rightarrow> KitchenTicketStatus \<Rightarrow> KitchenTicketStatus \<Rightarrow> (json \<times> db) result" where
  "run_ticket s k to = transitionTicket demo_context 1000 ''k1'' (to_ticket to) (order_db s (Some k))"

lemma run_create_Inr: "run_create = Inr (view_of run_create, db_after run_create)"
  by (rule accepted) code_simp

lemma run_add_Inr: "run_add = Inr (view_of run_add, db_after run_add)"
  by (rule accepted) code_simp

lemma run_checkout_Inr: "run_checkout = Inr (view_of run_checkout, db_after run_checkout)"
  by (rule accepted) code_simp

lemma create_run: "createCart demo_context 1000 demo_create demo_db = Inr (view_of run_create, db_after run_create)"
  using run_create_Inr by (simp add: run_create_def)

lemma add_run: "addItem demo_context 1000 ''c1'' demo_add cart_db = Inr (view_of run_add, db_after run_add)"
  using run_add_Inr by (simp add: run_add_def)

lemma checkout_run: "checkout demo_context 1000 ''c1'' demo_checkout cart_db =
    Inr (view_of run_checkout, db_after run_checkout)"
  using run_checkout_Inr by (simp add: run_checkout_def)

end
