(* ===== verification/Histories.thy ===== *)
theory Histories
  imports Demo
begin

text \<open>
  What follows from the invariant for whole histories of requests: what a checkout reserved in
  terms of recipes, why a cart is checked out once, how a cancelled order gives the stock back, why
  every live order can be completed, and what a cart's total is made of.
\<close>

section \<open>Checkout\<close>

lemma planned_other: "(\<And>e. e \<in> set plan \<Longrightarrow> rpe_warehouseId e \<noteq> w) \<Longrightarrow> planned w i plan = 0"
  by (induction plan) (auto simp: planned_def)

text \<open>What a plan takes from a level, in terms of the recipes of the items.\<close>

definition recipe_need :: "uuid \<Rightarrow> uuid \<Rightarrow> PlanItem list \<Rightarrow> db \<Rightarrow> uuid \<Rightarrow> uuid \<Rightarrow> quantity" where
  "recipe_need tenantId storeId items d w i =
     (case plan_warehouse tenantId storeId d of
        None \<Rightarrow> 0
      | Some warehouse \<Rightarrow> if wh_id warehouse = w then required_for tenantId items d i else 0)"

lemma planned_need:
  assumes plan: "buildReservationPlanTx tenantId storeId items d = Inr plan"
  shows "planned w i plan = recipe_need tenantId storeId items d w i"
proof (cases "plan_warehouse tenantId storeId d")
  case None
  then show ?thesis
    using plan by (simp add: recipe_need_def planned_def buildReservationPlanTx_def split: if_splits)
next
  case (Some warehouse)
  note B = buildReservationPlanTx_Inr [OF plan Some]
  show ?thesis
  proof (cases "wh_id warehouse = w")
    case True
    with B(1) Some show ?thesis by (simp add: recipe_need_def)
  next
    case False
    with B(2) have "planned w i plan = 0" by (intro planned_other) auto
    with False Some show ?thesis by (simp add: recipe_need_def)
  qed
qed

lemma checkout_taken:
  assumes "Some cartId \<in> set (map ord_cartId (orders d))"
  shows "isl (checkout context now cartId dto d)"
proof (cases "checkout context now cartId dto d")
  case (Inr p)
  then obtain v d' where "checkout context now cartId dto d = Inr (v, d')" by (cases p) auto
  from checkout_Inr [OF this] assms show ?thesis by auto
qed simp

lemma order_of_cart_stays:
  assumes "order_grows d d'" and "Some c \<in> set (map ord_cartId (orders d))"
  shows "Some c \<in> set (map ord_cartId (orders d'))"
proof -
  from assms(2) obtain r where r: "r \<in> set (orders d)" "ord_cartId r = Some c" by auto
  with assms(1) obtain r' where "r' \<in> set (orders d')" "ord_cartId r' = ord_cartId r"
    unfolding order_grows_def by blast
  with r show ?thesis by (metis image_eqI list.set_map)
qed

section \<open>Every live order can be completed\<close>

definition may_move :: "RequestContext \<Rightarrow> uuid \<Rightarrow> db \<Rightarrow> db \<Rightarrow> bool" where
  "may_move context i d d' \<longleftrightarrow> (\<exists>now dto v. transitionOrder context now i dto d = Inr (v, d'))"

lemma may_move_step: "may_move context i d d' \<Longrightarrow> api_step d d'"
  by (auto simp: may_move_def intro: move_order)

text \<open>The next status on the way to completion.\<close>

definition next_status :: "OrderStatus \<Rightarrow> OrderStatus" where
  "next_status s = (case s of PLACED \<Rightarrow> CONFIRMED | CONFIRMED \<Rightarrow> IN_PREPARATION
     | IN_PREPARATION \<Rightarrow> READY | _ \<Rightarrow> COMPLETED)"

lemma next_status_allowed:
  "s \<noteq> CANCELLED \<Longrightarrow> s \<noteq> COMPLETED \<Longrightarrow> canTransitionOrder s (next_status s) \<and>
     order_rank s < order_rank (next_status s) \<and> next_status s \<noteq> CANCELLED"
  by (cases s) (simp_all add: canTransitionOrder_iff next_status_def order_rank_def)

lemma order_get_update:
  assumes "orders d' = update_where (\<lambda>x. ord_id x = i) f (orders d)" and "\<And>x. ord_id (f x) = ord_id x"
    and "order_get i d = Some r"
  shows "order_get i d' = Some (f r)"
proof -
  have "order_get i d' = order_get i (order_update i f d)" by (simp add: order_get_def order_update_def assms(1))
  also have "\<dots> = Some (f r)" by (rule order_rows.get_upd_same [OF assms(2,3)])
  finally show ?thesis .
qed

lemma order_can_finish_from:
  assumes "api_ok d" and "order_get i d = Some r"
    and "checkAccess context (ord_tenantId r) (ord_storeId r) = Inr ()" and "ord_status r \<noteq> CANCELLED"
  shows "\<exists>d' r'. (may_move context i)\<^sup>*\<^sup>* d d' \<and> order_get i d' = Some r' \<and> ord_status r' = COMPLETED"
  using assms
proof (induction "4 - order_rank (ord_status r)" arbitrary: d r rule: less_induct)
  case less
  show ?case
  proof (cases "ord_status r = COMPLETED")
    case True
    with less.prems show ?thesis by blast
  next
    case False
    let ?s = "next_status (ord_status r)"
    let ?dto = "to_status ?s"
    note N = next_status_allowed [OF less.prems(4) False]
    have to: "tr_toStatus ?dto = ?s" by (simp add: to_status_def)
    have can: "canTransitionOrder (ord_status r) (tr_toStatus ?dto)" using N to by simp
    from transitionOrder_effect [OF api_okD(3,1) [OF less.prems(1)] less.prems(2,3) can] obtain d1 new where
      run: "transitionOrder context 0 i ?dto d = Inr (mapOrder (moved 0 ?dto r), d1)"
      and mv: "order_moved 0 i ?dto r new d d1" by blast
    have step: "may_move context i d d1" using run unfolding may_move_def by blast
    have ok: "api_ok d1" using api_step_ok [OF may_move_step [OF step] less.prems(1)] by simp
    have get: "order_get i d1 = Some (moved 0 ?dto r)"
      by (rule order_get_update [OF _ moved_keeps(1) less.prems(2)]) (use mv in \<open>simp add: order_moved_def\<close>)
    have "4 - order_rank ?s < 4 - order_rank (ord_status r)"
      using N ordl.bounded [of ?s] by (intro diff_less_mono2) auto
    then have "4 - order_rank (ord_status (moved 0 ?dto r)) < 4 - order_rank (ord_status r)" by (simp add: to)
    from less.hyps [OF this ok get] less.prems(3) N to obtain d' r' where
      "(may_move context i)\<^sup>*\<^sup>* d1 d'" "order_get i d' = Some r'" "ord_status r' = COMPLETED" by auto
    with step show ?thesis by (meson converse_rtranclp_into_rtranclp)
  qed
qed

section \<open>What a cart's total is made of\<close>

lemma gross_of_lines:
  assumes "\<And>x. x \<in> set items \<Longrightarrow> line_ok x"
  shows "cart_gross (map item_cents items) fee = sum_list (map ci_lineTotal items) + fee"
proof -
  have "(\<Sum>(q, b, m)\<leftarrow>map item_cents items. nullish b 0 * q) + (\<Sum>(q, b, m)\<leftarrow>map item_cents items. m) =
      sum_list (map ci_lineTotal items)"
    using assms by (induction items) (auto simp: item_cents_def line_ok_def algebra_simps)
  then show ?thesis by (simp add: cart_gross_def)
qed

lemma cart_total_lines:
  assumes ok: "carts_ok d" and c: "c \<in> set (carts d)"
  defines "gross \<equiv> sum_list (map ci_lineTotal (cart_items (cart_id c) d)) + cart_fulfillmentFee c"
  shows "cart_total c = max 0 (gross - max 0 (cart_discountTotal c))" "cart_discountTotal c \<le> max 0 gross"
    "0 \<le> gross \<Longrightarrow> cart_total c + cart_discountTotal c = gross"
proof -
  have "line_ok x" if "x \<in> set (cart_items (cart_id c) d)" for x
    using ok that by (auto simp: carts_ok_def cart_items_def)
  then have g: "cart_gross (map item_cents (cart_items (cart_id c) d)) (cart_fulfillmentFee c) = gross"
    unfolding gross_def by (rule gross_of_lines)
  have "cart_consistent c (cart_items (cart_id c) d)" using ok c by (simp add: carts_ok_def)
  then have "cart_total c = max 0 (gross - max 0 (cart_discountTotal c))"
    "recorded_discount (min gross (max 0 (cart_discountTotal c))) (cart_discountTotal c)"
    unfolding cart_consistent_def Let_def cents_cart_totals_def cents_totals.simps g by blast+
  then show "cart_total c = max 0 (gross - max 0 (cart_discountTotal c))" "cart_discountTotal c \<le> max 0 gross"
    "0 \<le> gross \<Longrightarrow> cart_total c + cart_discountTotal c = gross"
    unfolding recorded_discount_def by linarith+
qed

text \<open>The cart after an accepted change of its items.\<close>

lemma item_change_cart:
  assumes ch: "item_change context now i d d1 d'" and same: "carts d1 = carts d"
  shows "\<exists>c. cart_get i d = Some c \<and> cart_get i d' = Some (settle_cart now (cart_items i d1) c) \<and>
    cartItems d' = cartItems d1"
proof -
  from ch obtain c l1 l2 where c: "cart_get i d = Some c"
    and d': "d' = (cart_update i (settle_cart now (cart_items i d1)) d1)\<lparr>auditLogs := l1, outbox := l2\<rparr>"
    by (auto simp: item_change_def)
  have g: "cart_get i d1 = Some c" using c same by (simp add: cart_get_def)
  have "cart_get i d' = cart_get i (cart_update i (settle_cart now (cart_items i d1)) d1)"
    by (simp add: d' cart_get_def)
  also have "\<dots> = Some (settle_cart now (cart_items i d1) c)"
    by (rule cart_rows.get_upd_same [OF settle_cart_keeps(1) g])
  finally show ?thesis using c by (simp add: d' cart_update_def)
qed

section \<open>What a list shows\<close>

definition visible :: "RequestContext \<Rightarrow> uuid option \<Rightarrow> uuid option \<Rightarrow> uuid \<Rightarrow> uuid \<Rightarrow> bool" where
  "visible context tenantId storeId t s \<longleftrightarrow> may_access context t s \<and>
     (truthy tenantId \<longrightarrow> tenantId = Some t) \<and> (truthy storeId \<longrightarrow> storeId = Some s)"

lemma in_scope_visible:
  assumes "tenantWhere context tenantId = Inr tw" and "checkStoreQuery context storeId = Inr u"
  shows "in_scope context tw storeId t s \<longleftrightarrow> visible context tenantId storeId t s"
proof (cases "ctx_scope context = PlatformAdmin")
  case True
  with assms show ?thesis
    by (auto simp: in_scope_def visible_def may_access_def tenantWhere_def of_tenant_def storeFilter_def truthy_iff)
next
  case False
  with assms(1) tenantWhere_member obtain x where "tw = Some x" "ctx_tenantId context = Some x" by blast
  with False assms show ?thesis
    by (auto simp: in_scope_def visible_def may_access_def of_tenant_def checkStoreQuery_def storeFilter_def
        tenantWhere_def truthy_iff split: if_splits)
qed

end
