(* ===== verification/OrderProperties.thy ===== *)
theory OrderProperties
  imports Histories
begin

text \<open>
  The properties of carts, orders and the kitchen, each over the handlers as they are modelled, with
  a witness that applies it to a request of the demo tenant.
\<close>

lemma demo_reserved: "reservedAt ''w1'' ''g1'' (db_after run_checkout) = 6"
  by code_simp

section \<open>Orders\<close>


lemma demo_order_get: "order_get ''o1'' (order_db s k) = Some (demo_order s)"
  by (simp add: order_get_def order_db_def demo_order_def)

lemma demo_order_access: "checkAccess demo_context (ord_tenantId (demo_order s)) (ord_storeId (demo_order s)) = Inr ()"
  by (simp add: checkAccess_def resolveTenantId_def enforceStoreAccess_def demo_order_def demo_context_def)


text \<open>
  C5: The order handler fails in exactly three ways, tried in this order: the order does not exist, the
  user may not act on its tenant and store, the lifecycle does not allow the move. It never fails later,
  so no accepted check is followed by a failed write.
\<close>

theorem transitionOrder_errors:
  assumes "api_ok d"
  shows "transitionOrder context now i dto d = Inl e \<longleftrightarrow>
    (case order_get i d of
       None \<Rightarrow> e = RecordNotFound ''Order''
     | Some r \<Rightarrow> checkAccess context (ord_tenantId r) (ord_storeId r) = Inl e \<or>
         checkAccess context (ord_tenantId r) (ord_storeId r) = Inr () \<and>
         \<not> canTransitionOrder (ord_status r) (tr_toStatus dto) \<and>
         e = BadRequestException (transition_message (ord_status r) (tr_toStatus dto)))"
proof (cases "order_get i d")
  case None
  then show ?thesis by (auto simp: transitionOrder_def loadOrder_def)
next
  case (Some r)
  show ?thesis
  proof (cases "checkAccess context (ord_tenantId r) (ord_storeId r)")
    case (Inl e')
    with Some show ?thesis by (auto simp: transitionOrder_def loadOrder_def)
  next
    case (Inr u)
    show ?thesis
    proof (cases "canTransitionOrder (ord_status r) (tr_toStatus dto)")
      case True
      from Inr have acc: "checkAccess context (ord_tenantId r) (ord_storeId r) = Inr ()" by simp
      from transitionOrder_effect [OF api_okD(3,1) [OF assms] Some acc True, of now] Some acc True
      show ?thesis by auto
    next
      case False
      with Some Inr show ?thesis by (auto simp: transitionOrder_def loadOrder_def)
    qed
  qed
qed

theorem transitionOrder_errors_witness:
  "transitionOrder demo_context 1000 ''o1'' (to_status READY) (order_db PLACED None) =
     Inl (BadRequestException ''Order transition PLACED -> READY is not allowed.'')"
proof -
  have ok: "api_ok (order_db PLACED None)" by (rule order_db_ok) simp
  have "\<not> canTransitionOrder (ord_status (demo_order PLACED)) (tr_toStatus (to_status READY))"
    "transition_message (ord_status (demo_order PLACED)) (tr_toStatus (to_status READY)) =
       ''Order transition PLACED -> READY is not allowed.''"
    by code_simp+
  then show ?thesis
    using demo_order_access unfolding transitionOrder_errors [OF ok] demo_order_get by simp
qed

text \<open>
  C6: An order that is not cancelled can always be completed: from every state the services can be
  in, a user who may act on the order has a sequence of accepted status requests after which it is
  completed.
\<close>

theorem order_can_finish:
  assumes "api_ok d" and "order_get i d = Some r"
    and "checkAccess context (ord_tenantId r) (ord_storeId r) = Inr ()" and "ord_status r \<noteq> CANCELLED"
  shows "\<exists>d' r'. (may_move context i)\<^sup>*\<^sup>* d d' \<and> order_get i d' = Some r' \<and> ord_status r' = COMPLETED"
  using assms by (rule order_can_finish_from)

theorem order_can_finish_witness:
  "\<exists>d' r'. (may_move demo_context ''o1'')\<^sup>*\<^sup>* (order_db PLACED None) d' \<and> order_get ''o1'' d' = Some r' \<and>
     ord_status r' = COMPLETED"
proof -
  have ok: "api_ok (order_db PLACED None)" by (rule order_db_ok) simp
  have "ord_status (demo_order PLACED) \<noteq> CANCELLED" by (simp add: demo_order_def)
  then show ?thesis by (rule order_can_finish [OF ok demo_order_get demo_order_access])
qed

text \<open>
  C7: Placing an order and cancelling it gives every stock level back, whatever the recipes: reserved
  and on-hand quantities of every ingredient in every warehouse are what they were before the checkout,
  when no reservation named the new order before.
\<close>

theorem cancel_restores_stock:
  assumes ok: "api_ok d" and place: "checkout context now cartId dto d = Inr (v, d1)"
    and cancel: "transitionOrder context' now' (newId (db_seq d)) dto' d1 = Inr (v', d2)"
    and to: "tr_toStatus dto' = CANCELLED"
    and fresh: "\<forall>t. order_reservations t (newId (db_seq d)) d = []"
  shows "reservedAt w i d2 = reservedAt w i d \<and> onHandAt w i d2 = onHandAt w i d"
proof -
  from checkout_effect [OF api_okD(1) [OF ok] place] obtain c plan where
    os: "orders d1 = orders d @ [placed_order now c dto d]"
    and lv: "\<And>w i. reservedAt w i d1 = reservedAt w i d + planned w i plan"
      "\<And>w i. onHandAt w i d1 = onHandAt w i d"
      "\<And>t oid w i. heldBy t oid w i d1 = heldBy t oid w i d +
        (if t = cart_tenantId c \<and> oid = newId (db_seq d) then planned w i plan else 0)" by metis
  have ok1: "api_ok d1" using api_step_ok [OF check_out [OF place] ok] by simp
  note D = api_okD [OF ok1]
  from transitionOrder_Inr [OF D(3,1) cancel] obtain r new where
    r: "order_get (newId (db_seq d)) d1 = Some r" and mv: "order_moved now' (newId (db_seq d)) dto' r new d1 d2"
    by metis
  have "order_get (newId (db_seq d)) d1 = Some (placed_order now c dto d)"
    using order_get_in [OF D(3), of "placed_order now c dto d"] by (simp add: os)
  then have t: "ord_tenantId r = cart_tenantId c" unfolding r by (metis option.inject placed_order_simps(2))
  have "heldBy (cart_tenantId c) (newId (db_seq d)) w i d = 0" using fresh by (simp add: heldBy_def)
  with mv lv t to show ?thesis by (simp add: order_moved_def order_stock_step_def)
qed

theorem cancel_restores_stock_witness:
  "reservedAt ''w1'' ''g1'' (db_after run_checkout) = 6 \<and>
   (\<exists>v d2. transitionOrder demo_context 2000 (newId 0) (to_status CANCELLED) (db_after run_checkout) = Inr (v, d2) \<and>
      reservedAt ''w1'' ''g1'' d2 = 0)"
proof -
  have ev: "db_seq cart_db = 0" "reservedAt ''w1'' ''g1'' cart_db = 0" "cart_get ''c1'' cart_db = Some demo_cart"
    "checkAccess demo_context (cart_tenantId demo_cart) (cart_storeId demo_cart) = Inr ()"
    "canTransitionOrder PLACED (tr_toStatus (to_status CANCELLED))" "tr_toStatus (to_status CANCELLED) = CANCELLED"
    by code_simp+
  let ?o = "placed_order 1000 demo_cart demo_checkout cart_db" and ?d = "db_after run_checkout"
  have ok: "api_ok ?d" using api_step_ok [OF check_out [OF checkout_run] cart_db_ok] by simp
  have "?o \<in> set (orders ?d)"
    by (rule checkout_effect [OF api_okD(1) [OF cart_db_ok] checkout_run]) (use ev(3) in simp)
  then have get: "order_get (newId 0) ?d = Some ?o" using order_get_in [OF api_okD(3) [OF ok]] ev(1) by fastforce
  have acc: "checkAccess demo_context (ord_tenantId ?o) (ord_storeId ?o) = Inr ()"
    and can: "canTransitionOrder (ord_status ?o) (tr_toStatus (to_status CANCELLED))" using ev(4,5) by simp_all
  from transitionOrder_effect [OF api_okD(3,1) [OF ok] get acc can, of 2000] obtain v d2 where
    run: "transitionOrder demo_context 2000 (newId 0) (to_status CANCELLED) ?d = Inr (v, d2)" by blast
  have "\<forall>t. order_reservations t (newId (db_seq cart_db)) cart_db = []"
    by (simp add: order_reservations_def cart_db_def demo_db_def)
  from cancel_restores_stock [OF cart_db_ok checkout_run run [folded ev(1)] ev(6) this, of "''w1''" "''g1''"] ev(2) run
  show ?thesis using demo_reserved by auto
qed

section \<open>The kitchen\<close>

text \<open>
  C8: Confirming an order opens one new ticket for every station that has something to make, with
  exactly the order's items routed to that station, in their order, and none for any other station;
  every item whose product exists is on the ticket of its station.
\<close>

theorem confirmed_tickets:
  assumes ok: "api_ok d" and run: "transitionOrder context now i dto d = Inr (v, d')"
    and to: "tr_toStatus dto = CONFIRMED"
  shows "\<exists>r new. order_get i d = Some r \<and> tickets d' = tickets d @ new \<and> distinct (map tk_stationKey new) \<and>
    (\<forall>t \<in> set new. tk_orderId t = i \<and> tk_status t = TkNew \<and> tk_items t \<noteq> [] \<and>
       map kti_orderItemId (tk_items t) =
         map oi_id (filter (\<lambda>x. station_of r d x = Some (tk_stationKey t)) (ord_items r))) \<and>
    (\<forall>x \<in> set (ord_items r). \<forall>k. station_of r d x = Some k \<longrightarrow> k \<in> set (map tk_stationKey new))"
proof -
  from transitionOrder_Inr [OF api_okD(3,1) [OF ok] run] obtain r new where r: "order_get i d = Some r"
    and mv: "order_moved now i dto r new d d'" by metis
  have all: "list_all2 (ticket_for r) (groupedItems r d) new" and ts: "tickets d' = tickets d @ new"
    using mv to by (simp_all add: order_moved_def)
  note keys = list_all2_keys [OF all]
  have g: "distinct (map fst (groupedItems r d))"
    "\<And>k xs. (k, xs) \<in> set (groupedItems r d) \<longleftrightarrow> xs = filter (\<lambda>x. station_of r d x = Some k) (ord_items r) \<and> xs \<noteq> []"
    using groupedItems_grouping [of r d] unfolding grouping_def by blast+
  have i: "ord_id r = i" using order_getD [OF r] by simp
  have "tk_orderId t = i \<and> tk_status t = TkNew \<and> tk_items t \<noteq> [] \<and> map kti_orderItemId (tk_items t) =
      map oi_id (filter (\<lambda>x. station_of r d x = Some (tk_stationKey t)) (ord_items r))" if "t \<in> set new" for t
  proof -
    from that all obtain n where n: "n < length new" "t = new ! n" by (metis in_set_conv_nth)
    let ?g = "groupedItems r d ! n"
    have "ticket_for r ?g t" using list_all2_nthD2 [OF all n(1)] n(2) by simp
    moreover have "?g \<in> set (groupedItems r d)" using n(1) all by (metis list_all2_lengthD nth_mem)
    ultimately show ?thesis using g(2) [of "fst ?g" "snd ?g"] i by (auto simp: ticket_for_def)
  qed
  moreover have "k \<in> set (map tk_stationKey new)"
    if x: "x \<in> set (ord_items r)" "station_of r d x = Some k" for x k
  proof -
    have "(k, filter (\<lambda>x. station_of r d x = Some k) (ord_items r)) \<in> set (groupedItems r d)"
      using g(2) x by (auto simp: filter_empty_conv)
    then have "k \<in> set (map fst (groupedItems r d))" by force
    with keys(1) show ?thesis by simp
  qed
  ultimately show ?thesis using r ts g(1) keys(1) by (intro exI [of _ r] exI [of _ new]) auto
qed

theorem confirmed_tickets_witness:
  "\<exists>new v d'. transitionOrder demo_context 1000 ''o1'' (to_status CONFIRMED) (order_db PLACED None) = Inr (v, d') \<and>
     tickets d' = new \<and> ''KITCHEN'' \<in> set (map tk_stationKey new)"
proof -
  have ok: "api_ok (order_db PLACED None)" by (rule order_db_ok) simp
  have can: "canTransitionOrder (ord_status (demo_order PLACED)) (tr_toStatus (to_status CONFIRMED))"
    and to: "tr_toStatus (to_status CONFIRMED) = CONFIRMED"
    by (simp_all add: canTransitionOrder_iff demo_order_def to_status_def)
  from transitionOrder_effect [OF api_okD(3,1) [OF ok] demo_order_get demo_order_access can, of 1000] obtain v d' where
    run: "transitionOrder demo_context 1000 ''o1'' (to_status CONFIRMED) (order_db PLACED None) = Inr (v, d')" by blast
  from confirmed_tickets [OF ok run to] obtain new where
    new: "tickets d' = tickets (order_db PLACED None) @ new"
    and all: "\<forall>x \<in> set (ord_items (demo_order PLACED)). \<forall>k.
      station_of (demo_order PLACED) (order_db PLACED None) x = Some k \<longrightarrow> k \<in> set (map tk_stationKey new)"
    unfolding demo_order_get by auto
  have "station_of (demo_order PLACED) (order_db PLACED None) demo_order_item = Some ''KITCHEN''"
    "tickets (order_db PLACED None) = []" "demo_order_item \<in> set (ord_items (demo_order PLACED))"
    by code_simp+
  with new all run show ?thesis by (metis append_Nil)
qed

text \<open>
  C9: The ticket handler refines the abstract step \<open>ticket_step\<close>: a ticket the user may act on, moved
  as its lifecycle allows, takes the new status, and the order takes the status that all its tickets
  together give it, if they give it one; no other row of carts, orders, tickets or stock changes.
\<close>

theorem transitionTicket_refines:
  assumes "api_ok d" and "ticket_get i d = Some t"
    and "checkAccess context (tk_tenantId t) (tk_storeId t) = Inr ()"
    and "canTransitionKitchenTicket (tk_status t) (tkt_toStatus dto)"
  shows "\<exists>r d'. order_get (tk_orderId t) d = Some r \<and>
    transitionTicket context now i dto d = Inr (mapKitchenTicket (ticket_moved now (tkt_toStatus dto) t), d') \<and>
    ticket_step now i (tkt_toStatus dto) t r d d'"
  by (rule transitionTicket_effect [OF api_okD(3) [OF assms(1)] assms(2-4)])

theorem transitionTicket_refines_witness:
  "\<exists>v d'. transitionTicket demo_context 1000 ''k1'' (to_ticket TkInProgress)
      (order_db CONFIRMED (Some TkNew)) = Inr (v, d') \<and>
    map ord_status (orders d') = [IN_PREPARATION] \<and> map tk_status (tickets d') = [TkInProgress]"
proof -
  let ?d = "order_db CONFIRMED (Some TkNew)"
  have ok: "api_ok ?d" by (rule order_db_ok) (simp add: ticket_allowed_def)
  have t: "ticket_get ''k1'' ?d = Some (demo_ticket TkNew)" by code_simp
  have acc: "checkAccess demo_context (tk_tenantId (demo_ticket TkNew)) (tk_storeId (demo_ticket TkNew)) = Inr ()"
    and can: "canTransitionKitchenTicket (tk_status (demo_ticket TkNew)) (tkt_toStatus (to_ticket TkInProgress))"
    by code_simp+
  have ev: "tk_orderId (demo_ticket TkNew) = ''o1''" "tkt_toStatus (to_ticket TkInProgress) = TkInProgress"
    "synced_status (ord_status (demo_order CONFIRMED))
       (statuses_after (ord_id (demo_order CONFIRMED)) ''k1'' TkInProgress ?d) = Some IN_PREPARATION"
    "orders ?d = [demo_order CONFIRMED]" "tickets ?d = [demo_ticket TkNew]"
    "ord_id (demo_order CONFIRMED) = ''o1''" "tk_id (demo_ticket TkNew) = ''k1''"
    by code_simp+
  from transitionTicket_refines [OF ok t acc can, of 1000] demo_order_get ev
  show ?thesis unfolding ticket_step_def by (auto simp: update_where_Cons)
qed

text \<open>
  A ticket cancelled alone completes the order, although the board shows the order as cancelled.
\<close>

lemma cancelled_tickets_complete:
  "synced_status CONFIRMED [TkCancelled] = Some COMPLETED \<and>
   deriveBoardStatus CONFIRMED [TkCancelled] = BdCancelled \<and> \<not> canTransitionOrder CONFIRMED COMPLETED"
  by (simp add: synced_status_def deriveBoardStatus_def canTransitionOrder_iff)

section \<open>Carts\<close>

text \<open>
  In every state the services can reach, the total of every cart is the sum of the totals of its
  own lines and its delivery fee less its discount, and never negative, and its discount is never more
  than what is discounted.
\<close>

theorem cart_total_of_lines:
  assumes "api_ok d0" and "api_step\<^sup>*\<^sup>* d0 d" and "c \<in> set (carts d)"
  shows "let gross = sum_list (map ci_lineTotal (cart_items (cart_id c) d)) + cart_fulfillmentFee c in
    cart_total c = max 0 (gross - max 0 (cart_discountTotal c)) \<and> cart_discountTotal c \<le> max 0 gross \<and>
    (0 \<le> gross \<longrightarrow> cart_total c + cart_discountTotal c = gross)"
proof -
  have "carts_ok d" using api_reachable [OF assms(2,1)] api_okD(2) by blast
  note T = cart_total_lines [OF this assms(3)]
  show ?thesis unfolding Let_def using T by blast
qed

theorem cart_total_of_lines_witness:
  "demo_cart \<in> set (carts cart_db) \<and> cart_total demo_cart = max 0 (1500 - max 0 (cart_discountTotal demo_cart))"
proof -
  have "demo_cart \<in> set (carts cart_db)" by (simp add: cart_db_def)
  moreover have "sum_list (map ci_lineTotal (cart_items (cart_id demo_cart) cart_db)) +
      cart_fulfillmentFee demo_cart = 1500"
    by code_simp
  ultimately show ?thesis
    using cart_total_of_lines [OF cart_db_ok rtranclp.rtrancl_refl, of demo_cart] by (simp add: Let_def)
qed

text \<open>
  C10: Adding an item and removing it again gives the cart its lines back: all cart items are what they
  were, and the cart's total is that of its old lines without a promotion.
\<close>

theorem add_then_delete:
  assumes ok: "api_ok d" and add: "addItem context now i dto d = Inr (v, d1)"
    and del: "deleteItem context' now' i (newId (db_seq d)) d1 = Inr (v', d2)"
  shows "cartItems d2 = cartItems d \<and>
    (\<exists>c c2. cart_get i d = Some c \<and> cart_get i d2 = Some c2 \<and> cart_promotionCode c2 = None \<and>
      cart_total c2 = max 0 (sum_list (map ci_lineTotal (cart_items i d)) + cart_fulfillmentFee c))"
proof -
  note D = api_okD(2) [OF ok]
  from addItem_Inr [OF D add] obtain item n where it: "ci_id item = newId (db_seq d)"
    and ch: "item_change context now i d (d\<lparr>db_seq := n, cartItems := cartItems d @ [item]\<rparr>) d1" by blast
  from item_change_cart [OF ch] obtain c c1 where c: "cart_get i d = Some c" "cart_get i d1 = Some c1"
    "cart_fulfillmentFee c1 = cart_fulfillmentFee c" "cartItems d1 = cartItems d @ [item]" by auto
  have D1: "carts_ok d1" by (rule addItem_ok [OF D add])
  from deleteItem_Inr [OF D1 del] item_change_cart obtain c2 where
    c2: "cart_get i d2 = Some c2" "c2 = settle_cart now' (cart_items i (cartItem_delete (newId (db_seq d)) d1)) c1"
    "cartItems d2 = filter (\<lambda>c. ci_id c \<noteq> newId (db_seq d)) (cartItems d1)"
    using c(2) by (fastforce simp: cartItem_delete_def)
  have "newId (db_seq d) \<notin> set (map ci_id (cartItems d))"
    using D by (intro fresh_fromD) (auto simp: carts_ok_def)
  then have "filter (\<lambda>c. ci_id c \<noteq> newId (db_seq d)) (cartItems d) = cartItems d"
    by (intro filter_True ballI) (metis image_eqI list.set_map)
  then have items: "cartItems d2 = cartItems d" by (simp add: c2(3) c(4) it)
  have D2: "carts_ok d2" by (rule deleteItem_ok [OF D1 del])
  have mem: "c2 \<in> set (carts d2)" "cart_id c2 = i" using cart_getD [OF c2(1)] by auto
  have "cart_items i d2 = cart_items i d" by (simp add: cart_items_def items)
  moreover have "cart_discountTotal c2 \<le> 0" "cart_fulfillmentFee c2 = cart_fulfillmentFee c" "cart_promotionCode c2 = None"
    using c(3) unfolding c2(2) by (simp_all add: settle_cart_def cents_cart_totals_def Let_def)
  ultimately show ?thesis
    using cart_total_lines(1) [OF D2 mem(1)] mem(2) items c(1) c2(1) by simp
qed

theorem add_then_delete_witness:
  "\<exists>v d2. deleteItem demo_context 2000 ''c1'' (newId 0) (db_after run_add) = Inr (v, d2) \<and>
     length (cartItems (db_after run_add)) = 2 \<and> cartItems d2 = [demo_cart_item] \<and>
     (\<exists>c2. cart_get ''c1'' d2 = Some c2 \<and> cart_total c2 = 1500)"
proof -
  let ?r = "deleteItem demo_context 2000 ''c1'' (newId 0) (db_after run_add)"
  have ev: "db_seq cart_db = 0" "length (cartItems (db_after run_add)) = 2" "cart_get ''c1'' cart_db = Some demo_cart"
    "sum_list (map ci_lineTotal (cart_items ''c1'' cart_db)) + cart_fulfillmentFee demo_cart = 1500"
    "cartItems cart_db = [demo_cart_item]" "\<not> isl ?r" by code_simp+
  have run: "?r = Inr (view_of ?r, db_after ?r)" by (rule accepted [OF ev(6)])
  then have run': "deleteItem demo_context 2000 ''c1'' (newId (db_seq cart_db)) (db_after run_add) =
      Inr (view_of ?r, db_after ?r)" by (simp add: ev(1))
  from add_then_delete [OF cart_db_ok add_run run'] ev run show ?thesis by auto
qed

section \<open>Tenants and stores\<close>



text \<open>
  The order list and the ticket list answer exactly the rows the user may see: of the tenant and
  the store asked for, if any, in the stores the user is admitted to, with the status, channel or
  station asked for, the newest first. No row of another tenant is in the answer and none is missing.
\<close>

theorem lists_are_exact:
  "(listOrders context oq d = Inr answer \<longrightarrow>
     answer = jlist (map mapOrder (rev (filter (\<lambda>r.
       visible context (oq_tenantId oq) (oq_storeId oq) (ord_tenantId r) (ord_storeId r) \<and>
       listed (oq_status oq) (ord_status r) \<and> listed (oq_channel oq) (ord_channel r)) (orders d))))) \<and>
   (listTickets context kq d = Inr answer' \<longrightarrow>
     answer' = jlist (map mapKitchenTicket (rev (filter (\<lambda>t.
       visible context (kq_tenantId kq) (kq_storeId kq) (tk_tenantId t) (tk_storeId t) \<and>
       listed (kq_status kq) (tk_status t) \<and>
       (truthy (kq_stationKey kq) \<longrightarrow> kq_stationKey kq = Some (tk_stationKey t))) (tickets d)))))"
proof (intro conjI impI)
  assume "listOrders context oq d = Inr answer"
  then obtain u tw where q: "checkStoreQuery context (oq_storeId oq) = Inr u"
    "tenantWhere context (oq_tenantId oq) = Inr tw"
    and a: "answer = jlist (map mapOrder (rev (filter (\<lambda>r.
       in_scope context tw (oq_storeId oq) (ord_tenantId r) (ord_storeId r) \<and>
       listed (oq_status oq) (ord_status r) \<and> listed (oq_channel oq) (ord_channel r)) (orders d))))"
    by (auto simp: listOrders_def)
  show "answer = jlist (map mapOrder (rev (filter (\<lambda>r.
       visible context (oq_tenantId oq) (oq_storeId oq) (ord_tenantId r) (ord_storeId r) \<and>
       listed (oq_status oq) (ord_status r) \<and> listed (oq_channel oq) (ord_channel r)) (orders d))))"
    unfolding a by (simp only: in_scope_visible [OF q(2,1)])
next
  assume "listTickets context kq d = Inr answer'"
  then obtain u tw where q: "checkStoreQuery context (kq_storeId kq) = Inr u"
    "tenantWhere context (kq_tenantId kq) = Inr tw"
    and a: "answer' = jlist (map mapKitchenTicket (rev (filter (\<lambda>t.
       in_scope context tw (kq_storeId kq) (tk_tenantId t) (tk_storeId t) \<and>
       listed (kq_status kq) (tk_status t) \<and>
       (truthy (kq_stationKey kq) \<longrightarrow> kq_stationKey kq = Some (tk_stationKey t))) (tickets d))))"
    by (auto simp: listTickets_def)
  show "answer' = jlist (map mapKitchenTicket (rev (filter (\<lambda>t.
       visible context (kq_tenantId kq) (kq_storeId kq) (tk_tenantId t) (tk_storeId t) \<and>
       listed (kq_status kq) (tk_status t) \<and>
       (truthy (kq_stationKey kq) \<longrightarrow> kq_stationKey kq = Some (tk_stationKey t))) (tickets d))))"
    unfolding a by (simp only: in_scope_visible [OF q(2,1)])
qed

theorem lists_are_exact_witness:
  "listOrders demo_context \<lparr>oq_tenantId = None, oq_storeId = None, oq_status = None, oq_channel = None\<rparr>
     (order_db PLACED None) = Inr (jlist [mapOrder (demo_order PLACED)]) \<and>
   listOrders other_context \<lparr>oq_tenantId = None, oq_storeId = None, oq_status = None, oq_channel = None\<rparr>
     (order_db PLACED None) = Inr (jlist [])"
proof -
  let ?q = "\<lparr>oq_tenantId = None, oq_storeId = None, oq_status = None, oq_channel = None\<rparr>"
  let ?d = "order_db PLACED None"
  have "\<not> isl (listOrders demo_context ?q ?d)" "\<not> isl (listOrders other_context ?q ?d)" by code_simp+
  then obtain a b where run: "listOrders demo_context ?q ?d = Inr a" "listOrders other_context ?q ?d = Inr b"
    by (metis isl_def sum.exhaust)
  have o: "orders ?d = [demo_order PLACED]" by (simp add: order_db_def)
  have "visible demo_context None None (ord_tenantId (demo_order PLACED)) (ord_storeId (demo_order PLACED))"
    "\<not> visible other_context None None (ord_tenantId (demo_order PLACED)) (ord_storeId (demo_order PLACED))"
    by (simp_all add: visible_def may_access_def demo_context_def other_context_def demo_order_def)
  with lists_are_exact [of demo_context ?q ?d a] lists_are_exact [of other_context ?q ?d b] run o
  show ?thesis by (simp add: listed_def)
qed

end
