(* ===== verification/StockProperties.thy ===== *)
theory StockProperties
  imports Histories
begin

text \<open>
  The properties of stock: the sale path never promises what is not on the shelf, reservations can be
  taken back and consumed, adjustments and receiving move exactly what they say, and the availability
  and the replenishment report are what their definitions promise.
\<close>

section \<open>Overselling\<close>




















section \<open>Reservations by hand\<close>

lemma createReservation_row:
  assumes ok: "stock_ok d" and run: "createReservation context now dto d = Inr (v, d')"
  shows "\<exists>r. getReservationTx (newId (db_seq d)) d' = Inr r \<and> sr_status r = ResActive \<and>
    sr_warehouseId r = csr_warehouseId dto \<and> sr_ingredientId r = csr_ingredientId dto \<and>
    sr_quantity r = csr_quantity dto"
proof -
  have "newId (db_seq d) \<notin> set (map sr_id (reservations d))"
    using stock_okD(5) [OF ok] by (rule fresh_fromD) simp
  then have none: "find (\<lambda>r. sr_id r = newId (db_seq d)) (reservations d) = None"
    unfolding find_None_iff by (metis image_eqI list.set_map)
  from run show ?thesis
    by (auto simp: createReservation_def stockReservation_create_def Let_def getReservationTx_def
        inventoryItem_update_def find_append none)
qed

text \<open>
  A reservation made by hand and released again leaves every stock level as it was, and releasing it
  once more, by whoever may, changes nothing at all.
\<close>

theorem reserve_then_release:
  assumes ok: "api_ok d" and q: "0 \<le> csr_quantity dto"
    and make: "createReservation context now dto d = Inr (v, d1)"
    and undo: "releaseReservation context' now' (newId (db_seq d)) d1 = Inr (v', d2)"
  shows "reservedAt w i d2 = reservedAt w i d \<and> onHandAt w i d2 = onHandAt w i d \<and>
    (\<forall>again who t d3. releaseReservation who t (newId (db_seq d)) d2 = Inr (again, d3) \<longrightarrow> d3 = d2)"
proof -
  note D = api_okD(1) [OF ok]
  note C = createReservation_Inr [OF D q make]
  from createReservation_row [OF D make] obtain r where r: "getReservationTx (newId (db_seq d)) d1 = Inr r"
    "sr_status r = ResActive" "sr_warehouseId r = csr_warehouseId dto" "sr_ingredientId r = csr_ingredientId dto"
    "sr_quantity r = csr_quantity dto" by blast
  note R = releaseReservation_Inr [OF C(1) undo r(1)]
  from R(4) obtain r' where "getReservationTx (newId (db_seq d)) d2 = Inr r'" "sr_status r' \<noteq> ResActive" by blast
  then have "releaseReservation who t (newId (db_seq d)) d2 = Inr (again, d3) \<Longrightarrow> d3 = d2" for who t again d3
    by (simp add: releaseReservation_def)
  moreover have "reservedAt w i d2 = reservedAt w i d" "onHandAt w i d2 = onHandAt w i d"
    using R(2,3) [of w i] C(2,3) [of w i] r by (auto simp: contrib_def)
  ultimately show ?thesis by blast
qed

definition demo_reserve :: CreateStockReservationDto where
  "demo_reserve = \<lparr>csr_tenantId = None, csr_warehouseId = ''w1'', csr_ingredientId = ''g1'',
     csr_sourceType = ''manual'', csr_sourceId = ''x'', csr_quantity = 4, csr_expiresAt = None,
     csr_metadata = None\<rparr>"

definition run_reserve :: "(json \<times> db) result" where
  "run_reserve = createReservation demo_context 1000 demo_reserve demo_db"

lemma reserve_run: "createReservation demo_context 1000 demo_reserve demo_db = Inr (view_of run_reserve, db_after run_reserve)"
proof -
  have "run_reserve = Inr (view_of run_reserve, db_after run_reserve)" by (rule accepted) code_simp
  then show ?thesis by (simp add: run_reserve_def)
qed

theorem reserve_then_release_witness:
  "reservedAt ''w1'' ''g1'' (db_after run_reserve) = 4 \<and>
   (\<exists>v d2. releaseReservation demo_context 2000 (newId 0) (db_after run_reserve) = Inr (v, d2) \<and>
      reservedAt ''w1'' ''g1'' d2 = 0)"
proof -
  let ?r = "releaseReservation demo_context 2000 (newId 0) (db_after run_reserve)"
  have ev: "db_seq demo_db = 0" "reservedAt ''w1'' ''g1'' demo_db = 0" "0 \<le> csr_quantity demo_reserve"
    "reservedAt ''w1'' ''g1'' (db_after run_reserve) = 4" "\<not> isl ?r" by code_simp+
  have run: "?r = Inr (view_of ?r, db_after ?r)" by (rule accepted [OF ev(5)])
  have "releaseReservation demo_context 2000 (newId (db_seq demo_db)) (db_after run_reserve) =
      Inr (view_of ?r, db_after ?r)" using run by (simp add: ev(1))
  from reserve_then_release [OF demo_ok ev(3) reserve_run this, of "''w1''" "''g1''"] ev run
  show ?thesis by auto
qed

text \<open>
  Consuming an active reservation takes its quantity off both columns of its item and writes one
  ledger entry with that quantity and the new balance; the shelf is never left below zero, and where the
  quantity was on the shelf exactly that quantity is gone.
\<close>

theorem consume_takes_stock:
  assumes ok: "api_ok d" and run: "consumeReservation context now rid d = Inr (v, d')"
    and r: "getReservationTx rid d = Inr r" and active: "sr_status r = ResActive"
  shows "let w = sr_warehouseId r; i = sr_ingredientId r; q = sr_quantity r in
    reservedAt w i d' = reservedAt w i d - q \<and> onHandAt w i d' = max (onHandAt w i d - q) 0 \<and>
    (q \<le> onHandAt w i d \<longrightarrow> onHandAt w i d' = onHandAt w i d - q) \<and>
    (\<exists>e. ledger d' = ledger d @ [e] \<and> sle_quantity e = - q \<and> sle_sourceId e = rid \<and>
       sle_balanceAfter e = onHandAt w i d')"
proof -
  note C = consumeReservation_Inr [OF api_okD(1) [OF ok] run r active]
  have "reservedAt (sr_warehouseId r) (sr_ingredientId r) d' =
      reservedAt (sr_warehouseId r) (sr_ingredientId r) d - sr_quantity r"
    using C(2) [of "sr_warehouseId r" "sr_ingredientId r"] active by (simp add: contrib_def)
  with C(3,4) show ?thesis unfolding Let_def by simp
qed

theorem consume_takes_stock_witness:
  "\<exists>v d'. consumeReservation demo_context 1000 ''sr1'' (order_db READY None) = Inr (v, d') \<and>
     reservedAt ''w1'' ''g1'' d' = 0 \<and> onHandAt ''w1'' ''g1'' d' = 4"
proof -
  let ?r = "consumeReservation demo_context 1000 ''sr1'' (order_db READY None)"
  have ok: "api_ok (order_db READY None)" by (rule order_db_ok) simp
  have ev: "getReservationTx ''sr1'' (order_db READY None) = Inr demo_reservation" "sr_status demo_reservation = ResActive"
    "sr_warehouseId demo_reservation = ''w1''" "sr_ingredientId demo_reservation = ''g1''"
    "sr_quantity demo_reservation = 6" "reservedAt ''w1'' ''g1'' (order_db READY None) = 6"
    "onHandAt ''w1'' ''g1'' (order_db READY None) = 10" "\<not> isl ?r" by code_simp+
  have run: "?r = Inr (view_of ?r, db_after ?r)" by (rule accepted [OF ev(8)])
  from consume_takes_stock [OF ok run ev(1,2)] ev(3-7) run show ?thesis by (auto simp: Let_def)
qed

section \<open>Adjustments and receiving\<close>

text \<open>
  An adjustment of type \<open>SET\<close> leaves exactly the quantity asked for on the shelf, \<open>REMOVE\<close> takes
  its absolute value off and any other type puts it on; no other level moves, nothing reserved changes,
  and the ledger's last balance is the new quantity.
\<close>

theorem adjustment_moves_stock:
  assumes ok: "api_ok d" and run: "createAdjustment context now dto d = Inr (v, d')"
  shows "let w = ca_warehouseId dto; i = ca_ingredientId dto; q = ca_quantity dto in
    onHandAt w i d' = (if ca_adjustmentType dto = ''SET'' then q
       else if ca_adjustmentType dto = ''REMOVE'' then onHandAt w i d - \<bar>q\<bar> else onHandAt w i d + \<bar>q\<bar>) \<and>
    (\<forall>w' i'. (w', i') \<noteq> (w, i) \<longrightarrow> onHandAt w' i' d' = onHandAt w' i' d) \<and>
    (\<forall>w' i'. reservedAt w' i' d' = reservedAt w' i' d) \<and>
    (\<exists>e. ledger d' = ledger d @ [e] \<and> sle_balanceAfter e = onHandAt w i d')"
  using createAdjustment_Inr [OF api_okD(1) [OF ok] run] unfolding Let_def
  by (auto simp: adjustment_delta_def)

definition demo_adjustment :: CreateInventoryAdjustmentDto where
  "demo_adjustment = \<lparr>ca_tenantId = None, ca_warehouseId = ''w1'', ca_ingredientId = ''g1'',
     ca_adjustmentType = ''SET'', ca_quantity = 7, ca_reason = None, ca_metadata = None\<rparr>"

theorem adjustment_moves_stock_witness:
  "\<exists>v d'. createAdjustment demo_context 1000 demo_adjustment demo_db = Inr (v, d') \<and>
     onHandAt ''w1'' ''g1'' d' = 7"
proof -
  let ?r = "createAdjustment demo_context 1000 demo_adjustment demo_db"
  have ev: "ca_warehouseId demo_adjustment = ''w1''" "ca_ingredientId demo_adjustment = ''g1''"
    "ca_quantity demo_adjustment = 7" "ca_adjustmentType demo_adjustment = ''SET''" "\<not> isl ?r" by code_simp+
  have run: "?r = Inr (view_of ?r, db_after ?r)" by (rule accepted [OF ev(5)])
  from adjustment_moves_stock [OF demo_ok run] ev(1-4) run show ?thesis unfolding Let_def by auto
qed



section \<open>Availability and replenishment\<close>





end
