(* ===== verification/CoreProperties.thy ===== *)
theory CoreProperties
  imports Demo Availability
begin

text \<open>
  The properties of the point of sale and of the pure parts of the program: permissions, money, prices,
  payments, clocks and availability windows, lifecycles, station routing and fulfilment.
\<close>

section \<open>Point of sale\<close>

text \<open>
  C16: In every state the point of sale can reach, a device has at most one open shift and at most one
  active session, and every active session belongs to an open shift of its own device.
\<close>

theorem pos_history:
  assumes "pos_ok d0" and "pos_step\<^sup>*\<^sup>* d0 d"
  shows "distinct (map ps_deviceId (open_shifts d)) \<and> distinct (map pse_deviceId (active_sessions d)) \<and>
    (\<forall>s \<in> set (active_sessions d). \<exists>t \<in> set (open_shifts d).
       ps_id t = pse_shiftId s \<and> ps_deviceId t = pse_deviceId s)"
  using pos_reachable_ok [OF assms(2,1)] by (simp add: pos_ok_def)

definition demo_open :: OpenPosShiftDto where
  "demo_open = \<lparr>os_tenantId = None, os_storeId = None, os_deviceId = ''d1'', os_openingCashAmount = Some ''100.00''\<rparr>"

definition run_open :: "(json \<times> db) result" where
  "run_open = openShift demo_context 1000 demo_open demo_db"

lemma open_run: "openShift demo_context 1000 demo_open demo_db = Inr (view_of run_open, db_after run_open)"
proof -
  have "run_open = Inr (view_of run_open, db_after run_open)" by (rule accepted) code_simp
  then show ?thesis by (simp add: run_open_def)
qed

lemma demo_pos: "pos_step\<^sup>*\<^sup>* demo_db (db_after run_open)"
  by (rule r_into_rtranclp, rule open_shift, rule open_run)

theorem pos_history_witness:
  "pos_step\<^sup>*\<^sup>* demo_db (db_after run_open) \<and> map ps_deviceId (open_shifts (db_after run_open)) = [''d1''] \<and>
   distinct (map ps_deviceId (open_shifts (db_after run_open)))"
proof -
  have "map ps_deviceId (open_shifts (db_after run_open)) = [''d1'']" by code_simp
  with pos_history [OF demo_pos_ok demo_pos] demo_pos show ?thesis by blast
qed

text \<open>
  Closing a shift closes it and ends every active session it has, and changes no other shift and
  no session of another shift.
\<close>

theorem close_shift_ends_sessions:
  assumes ok: "pos_ok d" and run: "closeShift context now i amount d = Inr (v, d')"
  shows "(\<exists>s. shift_get i d = Some s \<and> ps_status s = ShiftOpen \<and>
      (\<exists>s'. shift_get i d' = Some s' \<and> ps_status s' = ShiftClosed \<and> ps_closedAt s' = Some now)) \<and>
    (\<forall>s \<in> set (posSessions d'). pse_shiftId s = i \<longrightarrow> pse_status s \<noteq> SessionActive) \<and>
    filter (\<lambda>s. pse_shiftId s \<noteq> i) (posSessions d') = filter (\<lambda>s. pse_shiftId s \<noteq> i) (posSessions d) \<and>
    filter (\<lambda>s. ps_id s \<noteq> i) (posShifts d') = filter (\<lambda>s. ps_id s \<noteq> i) (posShifts d)"
proof -
  from closeShift_Inr [OF run] obtain s am l1 l2 where s: "shift_get i d = Some s" "ps_status s = ShiftOpen"
    and d': "d' = (shift_update i (closed_shift now am) (end_shift_sessions now i d))\<lparr>auditLogs := l1, outbox := l2\<rparr>"
    by blast
  let ?d1 = "end_shift_sessions now i d"
  have ps: "posSessions d' = update_where (\<lambda>s. pse_shiftId s = i \<and> pse_status s = SessionActive)
      (\<lambda>s. s\<lparr>pse_status := SessionEnded, pse_endedAt := Some now, pse_updatedAt := now\<rparr>) (posSessions d)"
    and ss: "posShifts d' = update_where (\<lambda>r. ps_id r = i) (closed_shift now am) (posShifts d)"
    by (simp_all add: d' shift_update_def end_shift_sessions_def)
  have keep: "ps_id (closed_shift now am x) = ps_id x" for x by (simp add: closed_shift_def)
  have get1: "shift_get i ?d1 = Some s" using s(1) by (simp add: shift_get_def end_shift_sessions_def)
  have "shift_get i d' = shift_get i (shift_update i (closed_shift now am) ?d1)" by (simp add: d' shift_get_def)
  also have "\<dots> = Some (closed_shift now am s)" by (rule shift_rows.get_upd_same [OF keep get1])
  finally have "\<exists>s'. shift_get i d' = Some s' \<and> ps_status s' = ShiftClosed \<and> ps_closedAt s' = Some now"
    by (simp add: closed_shift_def)
  moreover have "pse_status x \<noteq> SessionActive" if "x \<in> set (posSessions d')" "pse_shiftId x = i" for x
  proof -
    from that(1) obtain y where "x = (if pse_shiftId y = i \<and> pse_status y = SessionActive
        then y\<lparr>pse_status := SessionEnded, pse_endedAt := Some now, pse_updatedAt := now\<rparr> else y)"
      unfolding ps update_where_def set_map by (rule imageE)
    with that(2) show ?thesis by (cases "pse_status y = SessionActive"; cases "pse_shiftId y = i") simp_all
  qed
  moreover have "filter (\<lambda>s. pse_shiftId s \<noteq> i) (posSessions d') = filter (\<lambda>s. pse_shiftId s \<noteq> i) (posSessions d)"
    unfolding ps by (rule filter_update_where_other) simp_all
  moreover have "filter (\<lambda>s. ps_id s \<noteq> i) (posShifts d') = filter (\<lambda>s. ps_id s \<noteq> i) (posShifts d)"
    unfolding ss by (rule filter_update_where_other) (simp_all add: keep)
  ultimately show ?thesis using s by blast
qed

definition shift_db :: db where
  "shift_db = demo_db\<lparr>
     posShifts := [\<lparr>ps_id = ''h1'', ps_tenantId = ''t1'', ps_storeId = ''s1'', ps_deviceId = ''d1'',
       ps_openedByUserId = ''u1'', ps_status = ShiftOpen, ps_openingCashAmount = None,
       ps_closingCashAmount = None, ps_openedAt = 0, ps_closedAt = None, ps_createdAt = 0, ps_updatedAt = 0\<rparr>],
     posSessions := [\<lparr>pse_id = ''e1'', pse_tenantId = ''t1'', pse_storeId = ''s1'', pse_deviceId = ''d1'',
       pse_shiftId = ''h1'', pse_userId = ''u1'', pse_status = SessionActive, pse_startedAt = 0,
       pse_endedAt = None, pse_lastHeartbeatAt = None, pse_createdAt = 0, pse_updatedAt = 0\<rparr>]\<rparr>"

lemma shift_db_ok: "pos_ok shift_db"
  by (simp add: pos_ok_def shift_db_def demo_db_def open_shifts_def active_sessions_def fresh_from_short)

theorem close_shift_ends_sessions_witness:
  "\<exists>v d'. closeShift demo_context 1000 ''h1'' (Some ''120.50'') shift_db = Inr (v, d') \<and>
     length (active_sessions shift_db) = 1 \<and> (\<exists>s. shift_get ''h1'' d' = Some s \<and> ps_status s = ShiftClosed)"
proof -
  let ?r = "closeShift demo_context 1000 ''h1'' (Some ''120.50'') shift_db"
  have ev: "\<not> isl ?r" "length (active_sessions shift_db) = 1" by code_simp+
  have run: "?r = Inr (view_of ?r, db_after ?r)" by (rule accepted [OF ev(1)])
  from close_shift_ends_sessions [OF shift_db_ok run] run ev(2) show ?thesis by auto
qed

section \<open>Permissions\<close>

text \<open>
  The permission guard lets a request pass exactly when the route is public, needs no permission, or
  its user is a platform administrator or has every permission the route names; it never answers false,
  it throws.
\<close>

theorem guard_exact:
  "canActivate isPublic meta user \<noteq> Inr False \<and>
   (canActivate isPublic meta user = Inr True \<longleftrightarrow>
      isPublic \<or> nullish meta [] = [] \<or>
      (\<exists>u. user = Some u \<and> (ctx_scope u = PlatformAdmin \<or> set (nullish meta []) \<subseteq> set (ctx_permissions u))))"
  by (auto simp: canActivate_def Let_def filter_empty_conv split: option.split)

theorem guard_exact_witness:
  "canActivate False (Some [''orders.write'']) (Some demo_context) = Inr True \<and>
   canActivate False (Some [''orders.write'', ''pos.write'']) (Some demo_context) \<noteq> Inr True"
  using guard_exact [of False "Some [''orders.write'']" "Some demo_context"]
    guard_exact [of False "Some [''orders.write'', ''pos.write'']" "Some demo_context"]
  by (simp add: demo_context_def)

section \<open>Money\<close>

text \<open>
  C17: Money survives the trip through its text: formatting any number of cents and parsing the text gives
  the cents back, so two amounts with the same text are the same amount.
\<close>

theorem money_round_trip:
  "parseMoneyToCents (Some (formatCents c)) = Inr (Some c) \<and> (formatCents a = formatCents b \<longleftrightarrow> a = b)"
  using formatCents_inj by auto

text \<open>
  Parsing an amount fails exactly for the non-empty texts that are not an optional minus sign, digits
  and at most two decimals, with the text in the message; the empty text and no text are no amount.
\<close>

theorem money_errors:
  "(parseMoneyToCents v = Inl e \<longleftrightarrow>
      (\<exists>s. v = Some s \<and> s \<noteq> '''' \<and> \<not> moneyPattern s \<and> e = JsError (''Invalid money value: '' @ s))) \<and>
   (parseMoneyToCents v = Inr None \<longleftrightarrow> v = None \<or> v = Some '''')"
  by (cases v) (auto simp: parseMoneyToCents_def Let_def)

text \<open>
  C18: The totals of a cart, computed on text, are the totals computed on cents: subtotal and modifier
  total are the sums over the items, the discount is capped by the gross total, the total is what remains
  and never negative; computing them again from the capped discount gives the same totals.
\<close>

theorem cart_totals_refine:
  "calculateCartTotals (map totals_item items) (Some (formatCents fee)) (Some (formatCents disc)) =
     Inr (format_totals (cents_cart_totals items fee disc)) \<and>
   0 \<le> c_total (cents_cart_totals items fee disc) \<and>
   (0 \<le> cart_gross items fee \<longrightarrow>
      c_total (cents_cart_totals items fee disc) + c_discountTotal (cents_cart_totals items fee disc) =
        cart_gross items fee \<and>
      0 \<le> c_discountTotal (cents_cart_totals items fee disc) \<and>
      calculateCartTotals (map totals_item items) (Some (formatCents fee))
        (Some (formatCents (c_discountTotal (cents_cart_totals items fee disc)))) =
        Inr (format_totals (cents_cart_totals items fee disc)))"
  using cents_totals_bounds [of items fee disc] cents_totals_idem [of items fee disc]
  by (auto simp: calculateCartTotals_cents cents_cart_totals_def)

theorem cart_totals_refine_witness:
  "0 \<le> cart_gross [(3, Some 450, 150)] 200 \<and>
   c_total (cents_cart_totals [(3, Some 450, 150)] 200 500) = 1200 \<and>
   c_total (cents_cart_totals [(3, Some 450, 150)] 200 500) +
     c_discountTotal (cents_cart_totals [(3, Some 450, 150)] 200 500) = 1700"
proof -
  have "0 \<le> cart_gross [(3, Some 450, 150)] 200" "cart_gross [(3, Some 450, 150)] 200 = 1700"
    "c_total (cents_cart_totals [(3, Some 450, 150)] 200 500) = 1200" by code_simp+
  with cart_totals_refine [of "[(3, Some 450, 150)]" 200 500] show ?thesis by simp
qed

text \<open>
  A cart whose gross total is negative, which negative modifier prices allow, has a negative discount.
\<close>

lemma negative_discount:
  "map_sum id ct_discountTotal (calculateCartTotals [totals_item (1, Some 100, - 300)] (Some ''0.00'') (Some ''0.00'')) =
     Inr ''-2.00''"
  by code_simp

text \<open>
  A price is resolved from the first source that has one, in the order store override, price list,
  variant, product, and the final price is that price and all modifier prices; with no source the base is
  missing and the modifiers alone are charged.
\<close>

theorem price_precedence:
  "resolvePrice (price_input ov pl vb pb
     (map (\<lambda>(i, c). \<lparr>pm_optionId = i, pm_priceDelta = formatCents c\<rparr>) ms)) =
   (let (src, base) = (if ov \<noteq> None then (StoreOverride, ov) else if pl \<noteq> None then (PriceListSource, pl)
          else if vb \<noteq> None then (VariantBase, vb) else if pb \<noteq> None then (ProductBase, pb) else (NoSource, None));
        extra = sum_list (map snd ms)
    in Inr \<lparr>prr_basePrice = map_option formatCents base, prr_modifierTotal = formatCents extra,
         prr_finalPrice = formatCents (nullish base 0 + extra), prr_source = src,
         prr_modifierBreakdown = map (\<lambda>(i, c). \<lparr>pm_optionId = i, pm_priceDelta = formatCents c\<rparr>) ms\<rparr>)"
proof -
  have "foldE (\<lambda>m. addMoney (Some (pm_priceDelta m)))
      (map (\<lambda>(i, c). \<lparr>pm_optionId = i, pm_priceDelta = formatCents c\<rparr>) ms) n = Inr (n + sum_list (map snd ms))" for n
    by (induction ms arbitrary: n) (auto simp: add.assoc)
  from resolvePrice_cents [OF this] show ?thesis
    by (cases ov; cases pl; cases vb; cases pb) (simp_all add: price_candidates_def map_filter_simps Let_def)
qed

text \<open>
  The payments offered at the point of sale are accepted exactly when there is one, each is an amount
  above zero, and together they are the order's total to the cent; the answer is that total.
\<close>

theorem allocations_exact:
  "validatePaymentAllocations allocations orderTotal = Inr answer \<longleftrightarrow>
    (\<exists>cs total. allocations \<noteq> [] \<and> parseMoneyToCents (Some orderTotal) = Inr total \<and>
       map (\<lambda>a. parseMoneyToCents (Some (pa_amount a))) allocations = map (\<lambda>c. Inr (Some c)) cs \<and>
       (\<forall>c \<in> set cs. 0 < c) \<and> sum_list cs = nullish total 0 \<and> answer = formatCents (sum_list cs))"
  by (auto simp: validatePaymentAllocations_def foldE_addAllocation) (rule exI, rule conjI, rule refl, simp)

theorem allocations_exact_witness:
  "validatePaymentAllocations [\<lparr>pa_method = CASH, pa_amount = ''10.00''\<rparr>, \<lparr>pa_method = CARD, pa_amount = ''5''\<rparr>]
     ''15.00'' = Inr ''15.00''"
proof -
  have "parseMoneyToCents (Some ''15.00'') = Inr (Some 1500)" "parseMoneyToCents (Some ''10.00'') = Inr (Some 1000)"
    "parseMoneyToCents (Some ''5'') = Inr (Some 500)" "formatCents 1500 = ''15.00''" by code_simp+
  then show ?thesis
    unfolding allocations_exact by (intro exI [of _ "[1000, 500]"] exI [of _ "Some 1500"]) simp
qed

section \<open>Clocks and windows\<close>

text \<open>
  A clock text is parsed to a minute of the day, every minute of the day is the value of its own clock
  text, and nothing outside the day is ever a value.
\<close>

theorem clock_bounds:
  "(parseClockTime s = Inr n \<longrightarrow> 0 \<le> n \<and> n < 1440) \<and>
   (0 \<le> n \<and> n < 1440 \<longrightarrow> parseClockTime (clock_string n) = Inr n)"
  using parseClockTime_bounds parse_clock_string by blast

theorem clock_bounds_witness: "parseClockTime ''23:59'' = Inr 1439 \<and> parseClockTime (clock_string 1439) = Inr 1439 \<and> (1439::int) < 1440"
proof -
  have "parseClockTime ''23:59'' = Inr 1439" by code_simp
  with clock_bounds [of "''23:59''" 1439] show ?thesis by simp
qed

text \<open>
  C19: The availability check is membership in intervals of the circular week: a slot is on sale exactly
  when one of the windows covers its minute, where a window runs from its start on its weekday to its end,
  into the next day when the end is not later, over Saturday midnight too, and is the whole day when both
  times are equal.
\<close>

theorem windows_are_intervals:
  assumes "ws \<noteq> []" and "0 \<le> wd" "wd < 7" "0 \<le> m" "m < 1440"
    and "\<And>w. w \<in> set ws \<Longrightarrow> 0 \<le> aw_weekday w \<and> aw_weekday w < 7 \<and>
      parseClockTime (aw_startTime w) = Inr (opens w) \<and> parseClockTime (aw_endTime w) = Inr (closes w)"
  shows "isWithinAvailabilityWindows ws wd m =
    Inr (\<exists>w \<in> set ws. covers_minute (aw_weekday w) (opens w) (closes w) wd m)"
proof -
  have "window_contains w wd m = Inr (covers_minute (aw_weekday w) (opens w) (closes w) wd m)" if "w \<in> set ws" for w
    using assms that by (intro window_contains_covers) auto
  then show ?thesis using assms(1) some_window_covers [of ws wd m] by (simp add: isWithinAvailabilityWindows_def)
qed

theorem windows_are_intervals_witness:
  "isWithinAvailabilityWindows [\<lparr>aw_weekday = 6, aw_startTime = ''22:00'', aw_endTime = ''02:00''\<rparr>] 0 30 = Inr True"
proof -
  let ?w = "\<lparr>aw_weekday = 6, aw_startTime = ''22:00'', aw_endTime = ''02:00''\<rparr>"
  have p: "parseClockTime ''22:00'' = Inr 1320" "parseClockTime ''02:00'' = Inr 120" by code_simp+
  have "isWithinAvailabilityWindows [?w] 0 30 = Inr (\<exists>w \<in> set [?w]. covers_minute (aw_weekday w) 1320 120 0 30)"
    by (rule windows_are_intervals) (auto simp: p)
  then show ?thesis by (simp add: covers_minute_def)
qed

section \<open>Lifecycles\<close>

text \<open>
  C20: Both lifecycles end: a run of allowed transitions from any status has at most as many steps as the
  rank allows, four for an order and three for a ticket, no status is ever reached again, and the statuses
  without a way out are exactly the completed and the cancelled one.
\<close>

theorem lifecycles_end:
  "(ordl.run a as \<longrightarrow> length as \<le> 4 - order_rank a) \<and> \<not> canTransitionOrder\<^sup>+\<^sup>+ a a \<and>
   ((\<forall>b. \<not> canTransitionOrder a b) \<longleftrightarrow> a \<in> {COMPLETED, CANCELLED}) \<and>
   (tktl.run t ts \<longrightarrow> length ts \<le> 3 - ticket_rank t) \<and> \<not> canTransitionKitchenTicket\<^sup>+\<^sup>+ t t \<and>
   ((\<forall>u. \<not> canTransitionKitchenTicket t u) \<longleftrightarrow> t \<in> {TkCompleted, TkCancelled})"
proof -
  have "length as \<le> 4 - order_rank a" if "ordl.run a as" using ordl.run_rank [OF that] by simp
  moreover have "length ts \<le> 3 - ticket_rank t" if "tktl.run t ts" using tktl.run_rank [OF that] by simp
  ultimately show ?thesis
    using ordl.acyclic tktl.acyclic ordl.terminal_iff [of a] tktl.terminal_iff [of t]
    by (auto simp: order_terminal_def ticket_terminal_def)
qed

theorem lifecycles_end_witness:
  "ordl.run PLACED [CONFIRMED, IN_PREPARATION, READY, COMPLETED] \<and> (4::nat) \<le> 4 - order_rank PLACED"
proof -
  have r: "ordl.run PLACED [CONFIRMED, IN_PREPARATION, READY, COMPLETED]" by (simp add: canTransitionOrder_iff)
  then show ?thesis
    using lifecycles_end [of PLACED "[CONFIRMED, IN_PREPARATION, READY, COMPLETED]" TkNew "[]"] by simp
qed

text \<open>
  The board status depends only on which ticket statuses an order has, not on their order or number:
  it is cancelled for a cancelled order and when all tickets are, completed when all tickets are, ready when
  all are ready or completed, in progress when none of this holds and one ticket is, and new otherwise.
\<close>

theorem board_status_exact:
  "deriveBoardStatus st ts = deriveBoardStatus st (remdups ts) \<and> deriveBoardStatus st ts = deriveBoardStatus st (rev ts) \<and>
   (deriveBoardStatus st ts = BdCancelled \<longleftrightarrow> st = CANCELLED \<or> ts \<noteq> [] \<and> set ts \<subseteq> {TkCancelled}) \<and>
   (deriveBoardStatus st ts = BdCompleted \<longleftrightarrow>
      st \<noteq> CANCELLED \<and> (if ts = [] then st = COMPLETED else set ts \<subseteq> {TkCompleted})) \<and>
   (deriveBoardStatus st ts = BdReady \<longleftrightarrow> st \<noteq> CANCELLED \<and> set ts \<subseteq> {TkReady, TkCompleted} \<and> TkReady \<in> set ts) \<and>
   (deriveBoardStatus st ts = BdInProgress \<longleftrightarrow> st \<noteq> CANCELLED \<and> TkInProgress \<in> set ts)"
proof -
  have "deriveBoardStatus st ts = deriveBoardStatus st (remdups ts)" "deriveBoardStatus st ts = deriveBoardStatus st (rev ts)"
    by (rule deriveBoardStatus_perm; simp)+
  then show ?thesis by (cases ts) (auto simp: deriveBoardStatus_def list_all_iff list_ex_iff)
qed

theorem board_status_exact_witness:
  "deriveBoardStatus CONFIRMED [TkReady, TkInProgress] = BdInProgress \<and>
   deriveBoardStatus CONFIRMED [TkReady, TkCompleted] = BdReady"
  using board_status_exact [of CONFIRMED "[TkReady, TkInProgress]", THEN conjunct2, THEN conjunct2, THEN conjunct2,
      THEN conjunct2, THEN conjunct2]
    board_status_exact [of CONFIRMED "[TkReady, TkCompleted]", THEN conjunct2, THEN conjunct2, THEN conjunct2,
      THEN conjunct2, THEN conjunct1]
  by simp

text \<open>
  Whatever routing configuration is stored, and whatever codes a product has, its station key is a
  normal one: not empty, upper-case letters and digits in runs joined by single underscores.
\<close>

theorem station_keys_normal:
  "station_key (resolveKitchenStationKey (resolveKitchenRoutingConfig config) productCode categoryCode)"
  by (rule resolveKitchenStationKey_normal)

section \<open>Fulfilment\<close>

text \<open>
  A quote stands when it is asked for again: from a configuration the store's settings resolve to, with
  one active zone per code, the selection a quote answers has an enabled mode, its fee is an amount, and
  quoting that selection again at the same time gives the same quote.
\<close>

theorem quote_stable:
  assumes "resolveStoreFulfillmentConfig sid raw = Inr config"
    and "distinct (map dz_code (filter dz_isActive (fc_deliveryZones config)))"
    and "quoteFulfillment config sel now = Inr q"
  shows "fs_mode (fq_selection q) \<in> set (fc_enabledModes config) \<and>
    (\<exists>c. parseMoneyToCents (Some (fq_fee q)) = Inr (Some c)) \<and>
    quoteFulfillment config (fq_selection q) now = Inr q"
proof -
  note M = quote_mode [OF assms(3)]
  have fee: "\<exists>c. parseMoneyToCents (Some (fq_fee q)) = Inr (Some c)"
    using assms(3) resolved_config(3) [OF assms(1)] parse_zero select_zone_active
    by (auto simp: quoteFulfillment_def split: if_splits)
  have "quoteFulfillment config (fq_selection q) now = Inr q"
  proof (cases "fs_mode sel")
    case FmDelivery
    with assms(3) obtain z p e where z: "select_zone (fc_deliveryZones config) sel = Some z"
      and "shiftIso now (dz_slaMinutes z) = Inr p" "shiftIso now (dz_etaMaxMinutes z) = Inr e"
      "q = \<lparr>fq_status = FsPending, fq_fee = dz_fee z, fq_promisedAt = p, fq_etaAt = e,
             fq_selection = sel\<lparr>fs_zoneCode := Some (dz_code z)\<rparr>\<rparr>"
      by (auto simp: quoteFulfillment_def split: if_splits)
    with M FmDelivery select_zone_again [OF assms(2) z] show ?thesis by (simp add: quoteFulfillment_def)
  next
    case FmPickup
    with assms(3) M show ?thesis by (auto simp: quoteFulfillment_def split: if_splits)
  next
    case FmDineIn
    with assms(3) obtain t where t: "find (\<lambda>i. Some (dt_code i) = fs_tableCode sel \<and> dt_isActive i)
        (di_tables (fc_dineIn config)) = Some t" "fq_selection q = sel\<lparr>fs_tableCode := Some (dt_code t)\<rparr>"
      by (auto simp: quoteFulfillment_def split: if_splits)
    with assms(3) M FmDineIn find_table_again [OF t(1)] show ?thesis
      by (auto simp: quoteFulfillment_def split: if_splits)
  qed
  with M fee show ?thesis by simp
qed

definition demo_zone :: json where
  "demo_zone = JObj [(''deliveryZones'', JArr [JObj [(''code'', JStr ''north''), (''fee'', JStr ''2.50''),
     (''postalCodes'', JArr [JStr ''1010''])]])]"

definition demo_selection :: FulfillmentSelection where
  "demo_selection = \<lparr>fs_mode = FmDelivery, fs_zoneCode = None, fs_addressLine1 = None, fs_addressLine2 = None,
     fs_postalCode = Some ''1010'', fs_contactless = False, fs_pickupSlotLabel = None, fs_tableCode = None,
     fs_guestCount = None, fs_instructions = None\<rparr>"

theorem quote_stable_witness:
  "\<exists>config q. resolveStoreFulfillmentConfig ''s1'' (Some demo_zone) = Inr config \<and>
     quoteFulfillment config demo_selection 0 = Inr q \<and> fq_fee q = ''2.50'' \<and>
     quoteFulfillment config (fq_selection q) 0 = Inr q"
proof -
  let ?c = "resolveStoreFulfillmentConfig ''s1'' (Some demo_zone)"
  have ev: "\<not> isl ?c" "\<not> isl (quoteFulfillment (projr ?c) demo_selection 0)"
    "distinct (map dz_code (filter dz_isActive (fc_deliveryZones (projr ?c))))"
    "fq_fee (projr (quoteFulfillment (projr ?c) demo_selection 0)) = ''2.50''" by code_simp+
  from ev(1) obtain config where c: "?c = Inr config" by (metis isl_def sum.exhaust)
  from ev(2) c obtain q where q: "quoteFulfillment config demo_selection 0 = Inr q" by (metis isl_def sum.exhaust sum.sel(2))
  from quote_stable [OF c _ q] ev c q show ?thesis by auto
qed

end
