(* ===== verification/Payments.thy ===== *)
theory Payments
  imports Orders Pos
begin

text \<open>
  The data of \<open>payments/payments.module.ts\<close> with its three utilities: the state of an intent from
  its allocations and the simulated results (\<open>payment-runtime.util.ts\<close>), the provider adapters
  (\<open>payment-adapter.util.ts\<close>) and the sealed secrets of a provider (\<open>provider-config-secrets.util.ts\<close>).
  The cipher of \<open>node:crypto\<close> and the random part of a reference are parameters.
\<close>

section \<open>Enumerations\<close>

datatype PaymentIntentStatus = IntPending | IntPartiallyPaid | IntCompleted | IntFailed | IntCancelled

datatype PaymentAllocationStatus = AllPending | AllCompleted | AllFailed | AllCancelled

datatype PaymentAttemptStatus = AttPending | AttSucceeded | AttFailed | AttCancelled

datatype PaymentProviderType = CashManual | CardSimulated | QrSimulated

datatype PaymentOperationKind = Refund | Void

definition show_intent_status :: "PaymentIntentStatus \<Rightarrow> string" where
  "show_intent_status s = (case s of IntPending \<Rightarrow> ''PENDING'' | IntPartiallyPaid \<Rightarrow> ''PARTIALLY_PAID''
     | IntCompleted \<Rightarrow> ''COMPLETED'' | IntFailed \<Rightarrow> ''FAILED'' | IntCancelled \<Rightarrow> ''CANCELLED'')"

definition show_allocation_status :: "PaymentAllocationStatus \<Rightarrow> string" where
  "show_allocation_status s = (case s of AllPending \<Rightarrow> ''PENDING'' | AllCompleted \<Rightarrow> ''COMPLETED''
     | AllFailed \<Rightarrow> ''FAILED'' | AllCancelled \<Rightarrow> ''CANCELLED'')"

definition show_attempt_status :: "PaymentAttemptStatus \<Rightarrow> string" where
  "show_attempt_status s = (case s of AttPending \<Rightarrow> ''PENDING'' | AttSucceeded \<Rightarrow> ''SUCCEEDED''
     | AttFailed \<Rightarrow> ''FAILED'' | AttCancelled \<Rightarrow> ''CANCELLED'')"

definition show_provider_type :: "PaymentProviderType \<Rightarrow> string" where
  "show_provider_type t = (case t of CashManual \<Rightarrow> ''CASH_MANUAL'' | CardSimulated \<Rightarrow> ''CARD_SIMULATED''
     | QrSimulated \<Rightarrow> ''QR_SIMULATED'')"

definition show_operation_kind :: "PaymentOperationKind \<Rightarrow> string" where
  "show_operation_kind k = (case k of Refund \<Rightarrow> ''REFUND'' | Void \<Rightarrow> ''VOID'')"

definition show_method :: "PaymentMethodKind \<Rightarrow> string" where
  "show_method m = (case m of CASH \<Rightarrow> ''CASH'' | CARD \<Rightarrow> ''CARD'' | QR \<Rightarrow> ''QR'')"

section \<open>Rows\<close>

record PaymentIntent =
  pi_id :: uuid
  pi_tenantId :: uuid
  pi_storeId :: uuid
  pi_orderId :: uuid
  pi_channel :: OrderChannel
  pi_deviceId :: "uuid option"
  pi_posSessionId :: "uuid option"
  pi_shiftId :: "uuid option"
  pi_status :: PaymentIntentStatus
  pi_totalAmount :: int
  pi_paidAmount :: int
  pi_createdByUserId :: "uuid option"
  pi_createdAt :: instant
  pi_updatedAt :: instant

record PaymentAllocation =
  pal_id :: uuid
  pal_tenantId :: uuid
  pal_paymentIntentId :: uuid
  pal_method :: PaymentMethodKind
  pal_amount :: int
  pal_status :: PaymentAllocationStatus
  pal_providerKey :: "string option"
  pal_externalReference :: "string option"
  pal_completedAt :: "instant option"
  pal_failedAt :: "instant option"
  pal_failureReason :: "string option"
  pal_createdAt :: instant

record PaymentAttempt =
  pat_id :: uuid
  pat_paymentIntentId :: uuid
  pat_paymentAllocationId :: uuid
  pat_tenantId :: uuid
  pat_storeId :: uuid
  pat_orderId :: uuid
  pat_providerKey :: string
  pat_providerType :: PaymentProviderType
  pat_method :: PaymentMethodKind
  pat_status :: PaymentAttemptStatus
  pat_requestPayload :: json
  pat_responsePayload :: json
  pat_externalReference :: "string option"
  pat_errorCode :: "string option"
  pat_errorMessage :: "string option"
  pat_startedAt :: instant
  pat_finishedAt :: "instant option"
  pat_createdAt :: instant

text \<open>The settings column holds an object or null: nothing else is ever written to it.\<close>

type_synonym jobject = "(string \<times> json) list"

record PaymentProviderConfig =
  ppc_id :: uuid
  ppc_tenantId :: uuid
  ppc_storeId :: "uuid option"
  ppc_providerKey :: string
  ppc_providerType :: PaymentProviderType
  ppc_method :: PaymentMethodKind
  ppc_enabled :: bool
  ppc_priority :: int
  ppc_allowedChannels :: "OrderChannel list"
  ppc_autoConfirmOrderOnSuccess :: bool
  ppc_settings :: "jobject option"
  ppc_createdAt :: instant
  ppc_updatedAt :: instant

record PaymentOperation =
  po_id :: uuid
  po_tenantId :: uuid
  po_storeId :: uuid
  po_paymentIntentId :: uuid
  po_paymentAllocationId :: "uuid option"
  po_orderId :: uuid
  po_kind :: PaymentOperationKind
  po_status :: string
  po_amount :: int
  po_currency :: string
  po_providerKey :: string
  po_externalReference :: "string option"
  po_reason :: "string option"
  po_requestPayload :: json
  po_responsePayload :: json
  po_createdByUserId :: "uuid option"
  po_processedAt :: "instant option"
  po_createdAt :: instant
  po_updatedAt :: instant

record PaymentSettlement =
  pst_id :: uuid
  pst_tenantId :: uuid
  pst_storeId :: "uuid option"
  pst_providerKey :: string
  pst_status :: string
  pst_currency :: string
  pst_periodStart :: instant
  pst_periodEnd :: instant
  pst_totalAmount :: int
  pst_settledAmount :: int
  pst_summary :: json
  pst_importedAt :: "instant option"
  pst_createdAt :: instant
  pst_updatedAt :: instant

record PaymentWebhookEvent =
  pwe_id :: uuid
  pwe_tenantId :: "uuid option"
  pwe_storeId :: "uuid option"
  pwe_providerKey :: string
  pwe_deliveryId :: string
  pwe_eventType :: string
  pwe_status :: string
  pwe_signatureValid :: bool
  pwe_payload :: json
  pwe_processedAt :: "instant option"
  pwe_failureReason :: "string option"
  pwe_createdAt :: instant

record ConnectorExecutionLog =
  cel_id :: uuid
  cel_tenantId :: "uuid option"
  cel_storeId :: "uuid option"
  cel_connectorKind :: string
  cel_connectorKey :: string
  cel_action :: string
  cel_status :: string
  cel_requestPayload :: json
  cel_responsePayload :: json
  cel_errorMessage :: "string option"
  cel_createdAt :: instant
  cel_finishedAt :: "instant option"

record HardwareJob =
  hj_id :: uuid
  hj_tenantId :: uuid
  hj_storeId :: uuid
  hj_orderId :: "uuid option"
  hj_deviceId :: "uuid option"
  hj_connectorKey :: string
  hj_kind :: string
  hj_status :: string
  hj_requestPayload :: json
  hj_resultPayload :: json
  hj_failureReason :: "string option"
  hj_createdByUserId :: "uuid option"
  hj_finishedAt :: "instant option"
  hj_createdAt :: instant
  hj_updatedAt :: instant

record HardwareReceipt =
  hr_id :: uuid
  hr_tenantId :: uuid
  hr_storeId :: uuid
  hr_hardwareJobId :: "uuid option"
  hr_orderId :: "uuid option"
  hr_receiptType :: string
  hr_externalReference :: "string option"
  hr_payload :: json
  hr_createdAt :: instant

text \<open>The tables of the payment service beside those of the rest of the API.\<close>

record pay_db =
  core :: db
  payIntents :: "PaymentIntent list"
  payAllocations :: "PaymentAllocation list"
  payAttempts :: "PaymentAttempt list"
  payConfigs :: "PaymentProviderConfig list"
  payOperations :: "PaymentOperation list"
  paySettlements :: "PaymentSettlement list"
  payWebhooks :: "PaymentWebhookEvent list"
  connectorLogs :: "ConnectorExecutionLog list"
  hardwareJobs :: "HardwareJob list"
  hardwareReceipts :: "HardwareReceipt list"

section \<open>The state of an intent\<close>

text \<open>
  \<open>payment-runtime.util.ts\<close>. The decimals of the allocations are cents here, so the amounts of a
  decision are compared as the source compares them.
\<close>

definition payment_validateAllocations ::
  "PaymentAllocationInput list \<Rightarrow> string \<Rightarrow> error + string \<times> PaymentAllocationInput list" where
  "payment_validateAllocations allocations expectedTotal =
     (if allocations = [] then Inl (BadRequestException ''At least one payment allocation is required.'')
      else bnd (foldE (\<lambda>allocation acc. bnd (decimal_of (pa_amount allocation)) (\<lambda>c. Inr (acc + c)))
                  allocations 0) (\<lambda>total.
        bnd (decimal_of expectedTotal) (\<lambda>expected.
        bnd (ensure (total = expected)
               (BadRequestException ''Payment allocations must match the order total.'')) (\<lambda>_.
        bnd (mapE (\<lambda>allocation. bnd (decimal_of (pa_amount allocation)) (\<lambda>c.
               Inr \<lparr>pa_method = pa_method allocation, pa_amount = formatCents c\<rparr>)) allocations) (\<lambda>normalized.
        Inr (formatCents total, normalized))))))"

definition resolvePaymentIntentState ::
  "int \<Rightarrow> (int \<times> PaymentAllocationStatus) list \<Rightarrow> PaymentIntentStatus \<times> int" where
  "resolvePaymentIntentState totalAmount allocations =
     (let completedAmount = foldl (\<lambda>acc (amount, status). if status \<noteq> AllCompleted then acc else acc + amount)
            0 allocations;
          statuses = map snd allocations;
          hasPending = AllPending \<in> set statuses;
          hasFailed = AllFailed \<in> set statuses;
          hasCancelled = AllCancelled \<in> set statuses
      in if completedAmount = totalAmount then (IntCompleted, completedAmount)
         else if completedAmount > 0 then (IntPartiallyPaid, completedAmount)
         else if hasPending then (IntPending, completedAmount)
         else if hasFailed then (IntFailed, completedAmount)
         else if hasCancelled \<and> list_all (\<lambda>s. s = AllCancelled) statuses then (IntCancelled, completedAmount)
         else (IntPending, completedAmount))"

definition resolveDefaultProviderType :: "PaymentMethodKind \<Rightarrow> PaymentProviderType" where
  "resolveDefaultProviderType method =
     (case method of CASH \<Rightarrow> CashManual | CARD \<Rightarrow> CardSimulated | QR \<Rightarrow> QrSimulated)"

definition resolveDefaultAutoConfirm :: "OrderChannel \<Rightarrow> bool" where
  "resolveDefaultAutoConfirm channel \<longleftrightarrow> channel = KIOSK"

text \<open>
  A setting is whatever JSON the client stored. A method called on a value that is no string throws;
  null and absent are skipped by \<open>?.\<close> and by \<open>??\<close>.
\<close>

definition setting_of :: "jobject option \<Rightarrow> string \<Rightarrow> json option" where
  "setting_of settings k =
     (case settings of None \<Rightarrow> None
      | Some kvs \<Rightarrow> (case map_of kvs k of None \<Rightarrow> None | Some JNull \<Rightarrow> None | Some v \<Rightarrow> Some v))"

definition string_setting :: "jobject option \<Rightarrow> string \<Rightarrow> error + string option" where
  "string_setting settings k =
     (case setting_of settings k of
        None \<Rightarrow> Inr None
      | Some (JStr s) \<Rightarrow> Inr (Some s)
      | Some _ \<Rightarrow> Inl (JsError ''not a function''))"

record PaymentAdapterConfig =
  pac_providerKey :: string
  pac_providerType :: PaymentProviderType
  pac_method :: PaymentMethodKind
  pac_settings :: "jobject option"
  pac_secrets :: "(string \<times> string) list option"

datatype ExecutionMode = Sync | Webhook

text \<open>The code and the message of a failure come from the settings, so they are any JSON until written.\<close>

record PaymentAdapterExecutionResult =
  per_executionMode :: ExecutionMode
  per_status :: PaymentAttemptStatus
  per_externalReference :: "string option"
  per_errorCode :: json
  per_errorMessage :: json
  per_responsePayload :: json

definition simulateProviderResult ::
  "instant \<Rightarrow> PaymentAdapterConfig \<Rightarrow> error + PaymentAdapterExecutionResult" where
  "simulateProviderResult now input =
     (let settings = pac_settings input in
      bnd (string_setting settings ''simulateResult'') (\<lambda>given.
      let simulateResult = nullish (map_option toLowerCase given) ''success'' in
      if simulateResult = ''failed'' \<or> simulateResult = ''failure'' \<or> simulateResult = ''error'' then
        Inr \<lparr>per_executionMode = Sync, per_status = AttFailed, per_externalReference = None,
             per_errorCode = nullish (setting_of settings ''failureCode'') (JStr ''SIMULATED_FAILURE''),
             per_errorMessage = nullish (setting_of settings ''failureMessage'')
               (JStr (show_method (pac_method input) @ '' payment failed in simulation mode.'')),
             per_responsePayload = JObj
               [(''providerKey'', JStr (pac_providerKey input)),
                (''providerType'', JStr (show_provider_type (pac_providerType input))),
                (''simulated'', JBool True), (''outcome'', JStr ''failed'')]\<rparr>
      else
        bnd (string_setting settings ''externalReferencePrefix'') (\<lambda>given.
        let prefix = (case map_option trim given of None \<Rightarrow> pac_providerKey input
              | Some p \<Rightarrow> if p \<noteq> '''' then p else pac_providerKey input);
            externalReference = prefix @ ''-'' @ show_int now in
        Inr \<lparr>per_executionMode = Sync, per_status = AttSucceeded,
             per_externalReference = Some externalReference, per_errorCode = JNull,
             per_errorMessage = JNull, per_responsePayload = JObj
               [(''providerKey'', JStr (pac_providerKey input)),
                (''providerType'', JStr (show_provider_type (pac_providerType input))),
                (''simulated'', JBool True), (''outcome'', JStr ''succeeded''),
                (''externalReference'', JStr externalReference)]\<rparr>)))"

section \<open>Provider adapters\<close>

text \<open>
  \<open>String(value)\<close> for a JSON value. The decimals of a number are not written out: \<open>None\<close> is a text
  with digits, which none of the words it is compared with has.
\<close>

fun words_of :: "json \<Rightarrow> string option" where
  "words_of JNull = Some ''null''"
| "words_of (JBool b) = Some (if b then ''true'' else ''false'')"
| "words_of (JNum n) = None"
| "words_of (JStr s) = Some s"
| "words_of (JArr xs) =
     (let ws = map (\<lambda>x. if x = JNull then Some '''' else words_of x) xs
      in if None \<in> set ws then None else Some (join_with '','' (map the ws)))"
| "words_of (JObj kvs) = Some ''[object Object]''"

definition resolveAdapterMode :: "jobject option \<Rightarrow> ExecutionMode" where
  "resolveAdapterMode settings =
     (let raw = map_option (\<lambda>s. toUpperCase (trim s))
            (words_of (nullish (setting_of settings ''adapterMode'') (JStr '''')))
      in if raw = Some ''WEBHOOK'' \<or> raw = Some ''ASYNC'' then Webhook else Sync)"

definition buildExternalReference :: "instant \<Rightarrow> string \<Rightarrow> string \<Rightarrow> string" where
  "buildExternalReference now random prefix = prefix @ ''-'' @ show_int now @ ''-'' @ random"

definition executePaymentProviderAttempt ::
  "instant \<Rightarrow> string \<Rightarrow> PaymentAdapterConfig \<Rightarrow> error + PaymentAdapterExecutionResult" where
  "executePaymentProviderAttempt now random config =
     (if resolveAdapterMode (pac_settings config) = Webhook then
        let externalReference = buildExternalReference now random (pac_providerKey config) in
        Inr \<lparr>per_executionMode = Webhook, per_status = AttPending,
             per_externalReference = Some externalReference, per_errorCode = JNull,
             per_errorMessage = JNull, per_responsePayload = JObj
               [(''providerKey'', JStr (pac_providerKey config)),
                (''providerType'', JStr (show_provider_type (pac_providerType config))),
                (''executionMode'', JStr ''WEBHOOK''), (''awaitingWebhook'', JBool True),
                (''externalReference'', JStr externalReference)]\<rparr>
      else bnd (simulateProviderResult now config) (\<lambda>simulated.
        Inr (simulated\<lparr>per_executionMode := Sync\<rparr>)))"

definition executePaymentOperation ::
  "instant \<Rightarrow> string \<Rightarrow> PaymentAdapterConfig \<Rightarrow> PaymentOperationKind \<Rightarrow> string \<Rightarrow>
   PaymentAdapterExecutionResult" where
  "executePaymentOperation now random config kind amount =
     (let prefix = pac_providerKey config @ ''-'' @ toLowerCase (show_operation_kind kind);
          externalReference = buildExternalReference now random prefix;
          payload = [(''providerKey'', JStr (pac_providerKey config)),
            (''providerType'', JStr (show_provider_type (pac_providerType config))),
            (''kind'', JStr (show_operation_kind kind)), (''amount'', JStr amount)]
      in if resolveAdapterMode (pac_settings config) = Webhook then
           \<lparr>per_executionMode = Webhook, per_status = AttPending,
            per_externalReference = Some externalReference, per_errorCode = JNull,
            per_errorMessage = JNull, per_responsePayload = JObj (payload @
              [(''executionMode'', JStr ''WEBHOOK''), (''awaitingWebhook'', JBool True),
               (''externalReference'', JStr externalReference)])\<rparr>
         else
           \<lparr>per_executionMode = Sync, per_status = AttSucceeded,
            per_externalReference = Some externalReference, per_errorCode = JNull,
            per_errorMessage = JNull, per_responsePayload = JObj (payload @
              [(''executionMode'', JStr ''SYNC''), (''completed'', JBool True)])\<rparr>)"

datatype WebhookEntity = PaymentAttemptEntity | PaymentOperationEntity

record PaymentWebhookResolution =
  pwr_signatureValid :: bool
  pwr_eventType :: string
  pwr_externalReference :: "string option"
  pwr_succeeded :: bool
  pwr_errorCode :: "string option"
  pwr_errorMessage :: "string option"
  pwr_entityType :: WebhookEntity
  pwr_payload :: json

text \<open>
  The secret is the sealed one, then the public setting; a signature is compared with it as it is. A
  secret that is no string equals no signature, and an empty one asks for none.
\<close>

definition js_truthy :: "json \<Rightarrow> bool" where
  "js_truthy j = (case j of JNull \<Rightarrow> False | JBool b \<Rightarrow> b | JNum n \<Rightarrow> n \<noteq> 0 | JStr s \<Rightarrow> s \<noteq> '''' | _ \<Rightarrow> True)"

definition webhook_secret :: "PaymentAdapterConfig \<Rightarrow> json" where
  "webhook_secret config =
     (case Option.bind (pac_secrets config) (\<lambda>ss. map_of ss ''webhookSecret'') of
        Some s \<Rightarrow> JStr s
      | None \<Rightarrow> nullish (setting_of (pac_settings config) ''webhookSecret'') JNull)"

definition resolvePaymentWebhook ::
  "PaymentAdapterConfig \<Rightarrow> string option \<Rightarrow> string \<Rightarrow> json \<Rightarrow> PaymentWebhookResolution" where
  "resolvePaymentWebhook config signature eventType payload =
     (let secret = webhook_secret config;
          signatureValid = (\<not> js_truthy secret \<or> map_option JStr signature = Some secret);
          given = (\<lambda>k. case jfield payload k of None \<Rightarrow> None | Some JNull \<Rightarrow> None | Some v \<Rightarrow> Some v);
          outcomeToken = map_option toUpperCase (words_of (nullish (given ''outcome'') (JStr ''SUCCEEDED'')));
          entityTypeToken = map_option toUpperCase
            (words_of (nullish (given ''entityType'') (JStr ''PAYMENT_ATTEMPT'')))
      in \<lparr>pwr_signatureValid = signatureValid, pwr_eventType = eventType,
          pwr_externalReference = jstring (jfield payload ''externalReference''),
          pwr_succeeded = (outcomeToken \<noteq> Some ''FAILED''),
          pwr_errorCode = jstring (jfield payload ''errorCode''),
          pwr_errorMessage = jstring (jfield payload ''errorMessage''),
          pwr_entityType = (if entityTypeToken = Some ''PAYMENT_OPERATION'' then PaymentOperationEntity
             else PaymentAttemptEntity),
          pwr_payload = payload\<rparr>)"

section \<open>Sealed secrets of a provider\<close>

text \<open>
  \<open>provider-config-secrets.util.ts\<close>. \<open>seal\<close> is the encryption of the JSON text of the secrets with a
  key derived from the environment's secret and a random vector, \<open>unseal\<close> decrypts an envelope and
  parses the text, or says why it cannot.
\<close>

record cipher =
  seal :: "string \<Rightarrow> string \<Rightarrow> jobject \<Rightarrow> jobject"
  unseal :: "string \<Rightarrow> json \<Rightarrow> string + json"
  encryptionSecret :: string

definition SECRET_ENVELOPE_KEY :: string where
  "SECRET_ENVELOPE_KEY = ''__secretEnvelope''"

definition SECRET_META_KEY :: string where
  "SECRET_META_KEY = ''__secretMeta''"

definition string_entries :: "jobject \<Rightarrow> string + (string \<times> string) list" where
  "string_entries = mapE (\<lambda>(k, v). case v of JStr s \<Rightarrow> Inr (k, s)
     | _ \<Rightarrow> Inl ''Decrypted provider config secrets contain non-string values.'')"

definition decryptSecrets :: "cipher \<Rightarrow> json \<Rightarrow> error + (string \<times> string) list" where
  "decryptSecrets cy envelope =
     (case bnd (unseal cy (encryptionSecret cy) envelope) (\<lambda>parsed.
          case parsed of JObj kvs \<Rightarrow> string_entries kvs
          | _ \<Rightarrow> Inl ''Decrypted provider config secrets are not an object.'') of
        Inr secrets \<Rightarrow> Inr secrets
      | Inl e \<Rightarrow> Inl (InternalServerErrorException
          (''Payment provider config secrets are unreadable: '' @ e)))"

definition encryptSecrets :: "cipher \<Rightarrow> string \<Rightarrow> (string \<times> string) list \<Rightarrow> json" where
  "encryptSecrets cy iv secrets =
     JObj (seal cy (encryptionSecret cy) iv (map (\<lambda>(k, s). (k, JStr s)) secrets))"

definition sanitizePublicSettings :: "jobject option \<Rightarrow> error + jobject option" where
  "sanitizePublicSettings settings =
     (case settings of
        None \<Rightarrow> Inr None
      | Some kvs \<Rightarrow>
          bnd (ensure (\<not> (SECRET_ENVELOPE_KEY \<in> set (map fst kvs) \<or> SECRET_META_KEY \<in> set (map fst kvs)))
                 (BadRequestException ''Payment provider settings cannot use reserved secret metadata keys.''))
            (\<lambda>_. Inr (if kvs \<noteq> [] then Some kvs else None)))"

definition secret_key_char :: "char \<Rightarrow> bool" where
  "secret_key_char c \<longleftrightarrow> is_digit c \<or> is_upper c \<or> is_lower c \<or> c \<in> set ''._-''"

definition normalizeSecretsInput :: "jobject option \<Rightarrow> error + (string \<times> string) list option" where
  "normalizeSecretsInput secrets =
     (case secrets of
        None \<Rightarrow> Inr None
      | Some entries \<Rightarrow>
          if entries = [] then Inr None
          else bnd (mapE (\<lambda>(key, value).
                 bnd (ensure (key \<noteq> [] \<and> list_all secret_key_char key)
                   (BadRequestException
                     ''Payment provider secret keys may only contain letters, digits, dot, underscore or dash.''))
                   (\<lambda>_. case value of
                      JStr s \<Rightarrow> if trim s \<noteq> '''' then Inr (key, s)
                        else Inl (BadRequestException ''Payment provider secrets must be non-empty strings.'')
                    | _ \<Rightarrow> Inl (BadRequestException ''Payment provider secrets must be non-empty strings.'')))
                 entries) (\<lambda>es. Inr (Some es)))"

definition readSecretMeta :: "json option \<Rightarrow> json" where
  "readSecretMeta value =
     (let keys = sort_by string_le (asStringArray (field value ''keys''));
          updatedAt = (case jstring (field value ''updatedAt'') of
              Some s \<Rightarrow> if s \<noteq> '''' then JStr s else JNull | None \<Rightarrow> JNull)
      in if keys = [] then JNull
         else JObj [(''hasSecrets'', JBool True), (''keys'', JArr (map JStr keys)), (''updatedAt'', updatedAt)])"

record ResolvedProviderConfigSettings =
  rps_publicSettings :: "jobject option"
  rps_secrets :: json
  rps_resolvedSecrets :: "(string \<times> string) list option"

definition without_reserved :: "jobject \<Rightarrow> jobject" where
  "without_reserved kvs = filter (\<lambda>(k, _). k \<noteq> SECRET_ENVELOPE_KEY \<and> k \<noteq> SECRET_META_KEY) kvs"

definition resolveProviderConfigSettings ::
  "cipher \<Rightarrow> jobject option \<Rightarrow> error + ResolvedProviderConfigSettings" where
  "resolveProviderConfigSettings cy storedSettings =
     (case storedSettings of
        None \<Rightarrow> Inr \<lparr>rps_publicSettings = None, rps_secrets = JNull, rps_resolvedSecrets = None\<rparr>
      | Some kvs \<Rightarrow>
          let publicSettings = without_reserved kvs in
          bnd (case map_of kvs SECRET_ENVELOPE_KEY of
                 Some envelope \<Rightarrow> if js_truthy envelope then bnd (decryptSecrets cy envelope) (\<lambda>ss. Inr (Some ss))
                   else Inr None
               | None \<Rightarrow> Inr None) (\<lambda>resolved.
          Inr \<lparr>rps_publicSettings = (if publicSettings \<noteq> [] then Some publicSettings else None),
               rps_secrets = readSecretMeta (map_of kvs SECRET_META_KEY),
               rps_resolvedSecrets = resolved\<rparr>))"

text \<open>A field of the input that is absent keeps what is stored, one that is null clears it.\<close>

definition buildProviderConfigSettings ::
  "cipher \<Rightarrow> instant \<Rightarrow> string \<Rightarrow> jobject option \<Rightarrow> jobject option option \<Rightarrow> jobject option option \<Rightarrow>
   error + jobject option" where
  "buildProviderConfigSettings cy now iv currentSettings nextSettings nextSecrets =
     bnd (resolveProviderConfigSettings cy currentSettings) (\<lambda>current.
     bnd (case nextSettings of None \<Rightarrow> Inr (rps_publicSettings current)
          | Some s \<Rightarrow> sanitizePublicSettings s) (\<lambda>publicSettings.
     bnd (case nextSecrets of None \<Rightarrow> Inr (rps_resolvedSecrets current)
          | Some s \<Rightarrow> normalizeSecretsInput s) (\<lambda>resolvedSecrets.
     let nextStoredSettings = nullish publicSettings [] @
           (case resolvedSecrets of
              None \<Rightarrow> []
            | Some secrets \<Rightarrow> if secrets = [] then []
                else [(SECRET_META_KEY, JObj
                         [(''keys'', JArr (map JStr (sort_by string_le (map fst secrets)))),
                          (''updatedAt'', jtime now)]),
                      (SECRET_ENVELOPE_KEY, encryptSecrets cy iv secrets)])
     in Inr (if nextStoredSettings \<noteq> [] then Some nextStoredSettings else None))))"


end
