(* ===== verification/PaymentOps.thy ===== *)
theory PaymentOps
  imports Payments
begin

text \<open>
  The handlers of \<open>payments/payments.module.ts\<close>. An intent splits the total of an order into
  allocations; processing an allocation asks its provider, at once or through a webhook, and the intent
  follows its allocations. Two handlers confirm the order in a second transaction, after the first is
  committed, so they return the next state also with an error.
\<close>

section \<open>Rows\<close>

definition intent_get :: "uuid \<Rightarrow> pay_db \<Rightarrow> PaymentIntent option" where
  "intent_get i s = find (\<lambda>r. pi_id r = i) (payIntents s)"

definition intent_update :: "uuid \<Rightarrow> (PaymentIntent \<Rightarrow> PaymentIntent) \<Rightarrow> pay_db \<Rightarrow> pay_db" where
  "intent_update i f s = s\<lparr>payIntents := update_where (\<lambda>r. pi_id r = i) f (payIntents s)\<rparr>"

definition intent_create :: "PaymentIntent \<Rightarrow> pay_db \<Rightarrow> pay_db" where
  "intent_create r s = s\<lparr>payIntents := payIntents s @ [r]\<rparr>"

definition allocation_get :: "uuid \<Rightarrow> pay_db \<Rightarrow> PaymentAllocation option" where
  "allocation_get i s = find (\<lambda>r. pal_id r = i) (payAllocations s)"

definition allocation_update :: "uuid \<Rightarrow> (PaymentAllocation \<Rightarrow> PaymentAllocation) \<Rightarrow> pay_db \<Rightarrow> pay_db" where
  "allocation_update i f s = s\<lparr>payAllocations := update_where (\<lambda>r. pal_id r = i) f (payAllocations s)\<rparr>"

definition allocation_create :: "PaymentAllocation \<Rightarrow> pay_db \<Rightarrow> pay_db" where
  "allocation_create r s = s\<lparr>payAllocations := payAllocations s @ [r]\<rparr>"

definition intent_allocations :: "uuid \<Rightarrow> pay_db \<Rightarrow> PaymentAllocation list" where
  "intent_allocations i s = filter (\<lambda>r. pal_paymentIntentId r = i) (payAllocations s)"

interpretation intent_rows: row_store pi_id "\<lambda>s. map pi_id (payIntents s)" intent_get intent_update intent_create
  by (rule row_store_list) (simp_all add: intent_get_def intent_update_def intent_create_def)

interpretation allocation_rows: row_store pal_id "\<lambda>s. map pal_id (payAllocations s)" allocation_get
    allocation_update allocation_create
  by (rule row_store_list) (simp_all add: allocation_get_def allocation_update_def allocation_create_def)

definition with_core :: "(db \<Rightarrow> db) \<Rightarrow> pay_db \<Rightarrow> pay_db" where
  "with_core f s = s\<lparr>core := f (core s)\<rparr>"

declare with_core_def [simp]

definition attempt_update :: "uuid \<Rightarrow> (PaymentAttempt \<Rightarrow> PaymentAttempt) \<Rightarrow> pay_db \<Rightarrow> pay_db" where
  "attempt_update i f s = s\<lparr>payAttempts := update_where (\<lambda>r. pat_id r = i) f (payAttempts s)\<rparr>"

definition operation_update :: "uuid \<Rightarrow> (PaymentOperation \<Rightarrow> PaymentOperation) \<Rightarrow> pay_db \<Rightarrow> pay_db" where
  "operation_update i f s = s\<lparr>payOperations := update_where (\<lambda>r. po_id r = i) f (payOperations s)\<rparr>"

section \<open>Transfer objects\<close>

definition mapPaymentAllocation :: "PaymentAllocation \<Rightarrow> json" where
  "mapPaymentAllocation allocation = JObj
     [(''id'', JStr (pal_id allocation)),
      (''paymentIntentId'', JStr (pal_paymentIntentId allocation)),
      (''method'', JStr (show_method (pal_method allocation))),
      (''amount'', jmoney (pal_amount allocation)),
      (''status'', JStr (show_allocation_status (pal_status allocation))),
      (''providerKey'', jopt (pal_providerKey allocation)),
      (''externalReference'', jopt (pal_externalReference allocation)),
      (''completedAt'', jdate (pal_completedAt allocation)),
      (''failedAt'', jdate (pal_failedAt allocation)),
      (''failureReason'', jopt (pal_failureReason allocation)),
      (''createdAt'', jtime (pal_createdAt allocation))]"

definition mapPaymentIntent :: "PaymentIntent \<Rightarrow> PaymentAllocation list \<Rightarrow> json" where
  "mapPaymentIntent intent allocations = JObj
     [(''id'', JStr (pi_id intent)), (''tenantId'', JStr (pi_tenantId intent)),
      (''storeId'', JStr (pi_storeId intent)), (''orderId'', JStr (pi_orderId intent)),
      (''channel'', JStr (show_channel (pi_channel intent))),
      (''deviceId'', jopt (pi_deviceId intent)), (''posSessionId'', jopt (pi_posSessionId intent)),
      (''shiftId'', jopt (pi_shiftId intent)),
      (''status'', JStr (show_intent_status (pi_status intent))),
      (''totalAmount'', jmoney (pi_totalAmount intent)), (''paidAmount'', jmoney (pi_paidAmount intent)),
      (''createdByUserId'', jopt (pi_createdByUserId intent)),
      (''createdAt'', jtime (pi_createdAt intent)), (''updatedAt'', jtime (pi_updatedAt intent)),
      (''allocations'', JArr (map mapPaymentAllocation allocations))]"

definition mapPaymentIntentListItem :: "PaymentIntent \<Rightarrow> Order \<Rightarrow> PaymentAllocation list \<Rightarrow> json" where
  "mapPaymentIntentListItem intent order allocations = JObj
     [(''id'', JStr (pi_id intent)), (''tenantId'', JStr (pi_tenantId intent)),
      (''storeId'', JStr (pi_storeId intent)), (''orderId'', JStr (pi_orderId intent)),
      (''orderNumber'', JStr (ord_number order)), (''channel'', JStr (show_channel (pi_channel intent))),
      (''status'', JStr (show_intent_status (pi_status intent))),
      (''totalAmount'', jmoney (pi_totalAmount intent)), (''paidAmount'', jmoney (pi_paidAmount intent)),
      (''customerName'', jopt (ord_customerName order)),
      (''allocationStatuses'', JArr (map (\<lambda>a. JStr (show_allocation_status (pal_status a))) allocations)),
      (''createdAt'', jtime (pi_createdAt intent)), (''updatedAt'', jtime (pi_updatedAt intent))]"

text \<open>A payload that is neither an object nor an array is answered as null.\<close>

definition object_or_null :: "json \<Rightarrow> json" where
  "object_or_null j = (case j of JObj _ \<Rightarrow> j | JArr _ \<Rightarrow> j | _ \<Rightarrow> JNull)"

definition record_or_null :: "json \<Rightarrow> json" where
  "record_or_null j = (if jrecord j then j else JNull)"

definition mapPaymentAttempt :: "PaymentAttempt \<Rightarrow> json" where
  "mapPaymentAttempt attempt = JObj
     [(''id'', JStr (pat_id attempt)), (''paymentIntentId'', JStr (pat_paymentIntentId attempt)),
      (''paymentAllocationId'', JStr (pat_paymentAllocationId attempt)),
      (''tenantId'', JStr (pat_tenantId attempt)), (''storeId'', JStr (pat_storeId attempt)),
      (''orderId'', JStr (pat_orderId attempt)), (''providerKey'', JStr (pat_providerKey attempt)),
      (''providerType'', JStr (show_provider_type (pat_providerType attempt))),
      (''method'', JStr (show_method (pat_method attempt))),
      (''status'', JStr (show_attempt_status (pat_status attempt))),
      (''requestPayload'', object_or_null (pat_requestPayload attempt)),
      (''responsePayload'', object_or_null (pat_responsePayload attempt)),
      (''externalReference'', jopt (pat_externalReference attempt)),
      (''errorCode'', jopt (pat_errorCode attempt)), (''errorMessage'', jopt (pat_errorMessage attempt)),
      (''startedAt'', jtime (pat_startedAt attempt)), (''finishedAt'', jdate (pat_finishedAt attempt)),
      (''createdAt'', jtime (pat_createdAt attempt))]"

definition mapPaymentOperation :: "PaymentOperation \<Rightarrow> json" where
  "mapPaymentOperation operation = JObj
     [(''id'', JStr (po_id operation)), (''tenantId'', JStr (po_tenantId operation)),
      (''storeId'', JStr (po_storeId operation)),
      (''paymentIntentId'', JStr (po_paymentIntentId operation)),
      (''paymentAllocationId'', jopt (po_paymentAllocationId operation)),
      (''orderId'', JStr (po_orderId operation)),
      (''kind'', JStr (show_operation_kind (po_kind operation))),
      (''status'', JStr (po_status operation)), (''amount'', jmoney (po_amount operation)),
      (''currency'', JStr (po_currency operation)), (''providerKey'', JStr (po_providerKey operation)),
      (''externalReference'', jopt (po_externalReference operation)),
      (''reason'', jopt (po_reason operation)),
      (''requestPayload'', record_or_null (po_requestPayload operation)),
      (''responsePayload'', record_or_null (po_responsePayload operation)),
      (''processedAt'', jdate (po_processedAt operation)),
      (''createdAt'', jtime (po_createdAt operation)), (''updatedAt'', jtime (po_updatedAt operation))]"

definition mapPaymentSettlement :: "PaymentSettlement \<Rightarrow> json" where
  "mapPaymentSettlement settlement = JObj
     [(''id'', JStr (pst_id settlement)), (''tenantId'', JStr (pst_tenantId settlement)),
      (''storeId'', jopt (pst_storeId settlement)), (''providerKey'', JStr (pst_providerKey settlement)),
      (''status'', JStr (pst_status settlement)), (''currency'', JStr (pst_currency settlement)),
      (''periodStart'', jtime (pst_periodStart settlement)),
      (''periodEnd'', jtime (pst_periodEnd settlement)),
      (''totalAmount'', jmoney (pst_totalAmount settlement)),
      (''settledAmount'', jmoney (pst_settledAmount settlement)),
      (''summary'', record_or_null (pst_summary settlement)),
      (''importedAt'', jdate (pst_importedAt settlement)),
      (''createdAt'', jtime (pst_createdAt settlement)), (''updatedAt'', jtime (pst_updatedAt settlement))]"

definition record_or_empty :: "json \<Rightarrow> json" where
  "record_or_empty j = (if jrecord j then j else JObj [])"

definition mapWebhookEvent :: "PaymentWebhookEvent \<Rightarrow> json" where
  "mapWebhookEvent event = JObj
     [(''id'', JStr (pwe_id event)), (''tenantId'', jopt (pwe_tenantId event)),
      (''storeId'', jopt (pwe_storeId event)), (''providerKey'', JStr (pwe_providerKey event)),
      (''deliveryId'', JStr (pwe_deliveryId event)), (''eventType'', JStr (pwe_eventType event)),
      (''status'', JStr (pwe_status event)), (''signatureValid'', JBool (pwe_signatureValid event)),
      (''payload'', record_or_empty (pwe_payload event)), (''processedAt'', jdate (pwe_processedAt event)),
      (''failureReason'', jopt (pwe_failureReason event)), (''createdAt'', jtime (pwe_createdAt event))]"

definition mapConnectorExecution :: "ConnectorExecutionLog \<Rightarrow> json" where
  "mapConnectorExecution entry = JObj
     [(''id'', JStr (cel_id entry)), (''tenantId'', jopt (cel_tenantId entry)),
      (''storeId'', jopt (cel_storeId entry)), (''connectorKind'', JStr (cel_connectorKind entry)),
      (''connectorKey'', JStr (cel_connectorKey entry)), (''action'', JStr (cel_action entry)),
      (''status'', JStr (cel_status entry)),
      (''requestPayload'', record_or_null (cel_requestPayload entry)),
      (''responsePayload'', record_or_null (cel_responsePayload entry)),
      (''errorMessage'', jopt (cel_errorMessage entry)), (''createdAt'', jtime (cel_createdAt entry)),
      (''finishedAt'', jdate (cel_finishedAt entry))]"

definition mapHardwareJob :: "HardwareJob \<Rightarrow> json" where
  "mapHardwareJob job = JObj
     [(''id'', JStr (hj_id job)), (''tenantId'', JStr (hj_tenantId job)),
      (''storeId'', JStr (hj_storeId job)), (''orderId'', jopt (hj_orderId job)),
      (''deviceId'', jopt (hj_deviceId job)), (''connectorKey'', JStr (hj_connectorKey job)),
      (''kind'', JStr (hj_kind job)), (''status'', JStr (hj_status job)),
      (''requestPayload'', record_or_null (hj_requestPayload job)),
      (''resultPayload'', record_or_null (hj_resultPayload job)),
      (''failureReason'', jopt (hj_failureReason job)), (''finishedAt'', jdate (hj_finishedAt job)),
      (''createdAt'', jtime (hj_createdAt job)), (''updatedAt'', jtime (hj_updatedAt job))]"

definition mapHardwareReceipt :: "HardwareReceipt \<Rightarrow> json" where
  "mapHardwareReceipt receipt = JObj
     [(''id'', JStr (hr_id receipt)), (''tenantId'', JStr (hr_tenantId receipt)),
      (''storeId'', JStr (hr_storeId receipt)), (''hardwareJobId'', jopt (hr_hardwareJobId receipt)),
      (''orderId'', jopt (hr_orderId receipt)), (''receiptType'', JStr (hr_receiptType receipt)),
      (''externalReference'', jopt (hr_externalReference receipt)),
      (''payload'', record_or_empty (hr_payload receipt)), (''createdAt'', jtime (hr_createdAt receipt))]"

text \<open>A configuration as the service hands it on: a stored one, or the default of a channel and method.\<close>

record LegacyProviderConfig =
  lpc_id :: "uuid option"
  lpc_tenantId :: uuid
  lpc_storeId :: "uuid option"
  lpc_providerKey :: string
  lpc_providerType :: PaymentProviderType
  lpc_method :: PaymentMethodKind
  lpc_enabled :: bool
  lpc_priority :: int
  lpc_allowedChannels :: "OrderChannel list"
  lpc_autoConfirmOrderOnSuccess :: bool
  lpc_settings :: "jobject option"
  lpc_secrets :: json
  lpc_resolvedSecrets :: "(string \<times> string) list option"
  lpc_createdAt :: instant
  lpc_updatedAt :: instant

definition mapProviderConfig :: "LegacyProviderConfig \<Rightarrow> json" where
  "mapProviderConfig config = JObj
     [(''id'', JStr (nullish (lpc_id config) ''default'')), (''tenantId'', JStr (lpc_tenantId config)),
      (''storeId'', jopt (lpc_storeId config)), (''providerKey'', JStr (lpc_providerKey config)),
      (''providerType'', JStr (show_provider_type (lpc_providerType config))),
      (''method'', JStr (show_method (lpc_method config))), (''enabled'', JBool (lpc_enabled config)),
      (''priority'', jint (lpc_priority config)),
      (''allowedChannels'', JArr (map (\<lambda>c. JStr (show_channel c)) (lpc_allowedChannels config))),
      (''autoConfirmOrderOnSuccess'', JBool (lpc_autoConfirmOrderOnSuccess config)),
      (''settings'', (case lpc_settings config of None \<Rightarrow> JNull | Some kvs \<Rightarrow> JObj kvs)),
      (''secrets'', lpc_secrets config),
      (''createdAt'', jtime (lpc_createdAt config)), (''updatedAt'', jtime (lpc_updatedAt config))]"

definition resolved_config :: "PaymentProviderConfig \<Rightarrow> ResolvedProviderConfigSettings \<Rightarrow> LegacyProviderConfig" where
  "resolved_config c resolved =
     \<lparr>lpc_id = Some (ppc_id c), lpc_tenantId = ppc_tenantId c, lpc_storeId = ppc_storeId c,
      lpc_providerKey = ppc_providerKey c, lpc_providerType = ppc_providerType c,
      lpc_method = ppc_method c, lpc_enabled = ppc_enabled c, lpc_priority = ppc_priority c,
      lpc_allowedChannels = ppc_allowedChannels c,
      lpc_autoConfirmOrderOnSuccess = ppc_autoConfirmOrderOnSuccess c,
      lpc_settings = rps_publicSettings resolved, lpc_secrets = rps_secrets resolved,
      lpc_resolvedSecrets = rps_resolvedSecrets resolved, lpc_createdAt = ppc_createdAt c,
      lpc_updatedAt = ppc_updatedAt c\<rparr>"

definition mapPersistedProviderConfig :: "cipher \<Rightarrow> PaymentProviderConfig \<Rightarrow> json result" where
  "mapPersistedProviderConfig cy config =
     bnd (resolveProviderConfigSettings cy (ppc_settings config)) (\<lambda>resolved.
     Inr (mapProviderConfig (resolved_config config resolved)))"

section \<open>Logs\<close>

definition pay_log ::
  "RequestContext \<Rightarrow> uuid \<Rightarrow> uuid option \<Rightarrow> string \<Rightarrow> string \<Rightarrow> uuid \<Rightarrow> json \<Rightarrow> json \<Rightarrow> db \<Rightarrow> db" where
  "pay_log context tenantId storeId action entityType entityId auditPayload eventPayload d =
     domainEvents_record \<lparr>ob_tenantId = Some tenantId, ob_eventName = action, ob_aggregate = entityType,
         ob_aggregateId = entityId, ob_payload = eventPayload\<rparr>
       (recordTx \<lparr>al_tenantId = Some tenantId, al_storeId = storeId,
           al_actorType = resolveActorType context, al_actorId = resolveActorId context,
           al_action = action, al_entityType = entityType,
           al_entityId = entityId, al_payload = Some auditPayload\<rparr> d)"

declare pay_log_def [simp]

text \<open>Every call of a connector is logged with what was asked and what came back.\<close>

definition connector_log ::
  "instant \<Rightarrow> uuid \<Rightarrow> uuid option \<Rightarrow> string \<Rightarrow> string \<Rightarrow> string \<Rightarrow> string \<Rightarrow> json \<Rightarrow> json \<Rightarrow>
   string option \<Rightarrow> instant option \<Rightarrow> pay_db \<Rightarrow> pay_db" where
  "connector_log now tenantId storeId kind key action status request response message finishedAt s =
     with_core bump (s\<lparr>connectorLogs := connectorLogs s @
       [\<lparr>cel_id = nextId (core s), cel_tenantId = Some tenantId, cel_storeId = storeId,
         cel_connectorKind = kind, cel_connectorKey = key, cel_action = action, cel_status = status,
         cel_requestPayload = request, cel_responsePayload = response, cel_errorMessage = message,
         cel_createdAt = now, cel_finishedAt = finishedAt\<rparr>]\<rparr>)"

declare connector_log_def [simp]

section \<open>Provider configurations\<close>

record PaymentProviderConfigQuery =
  ppq_tenantId :: "uuid option"
  ppq_storeId :: "uuid option"
  ppq_method :: "PaymentMethodKind option"

record CreatePaymentProviderConfigDto =
  cpc_tenantId :: uuid
  cpc_storeId :: "uuid option"
  cpc_providerKey :: string
  cpc_providerType :: PaymentProviderType
  cpc_method :: PaymentMethodKind
  cpc_enabled :: "bool option"
  cpc_priority :: "int option"
  cpc_allowedChannels :: "OrderChannel list option"
  cpc_autoConfirmOrderOnSuccess :: "bool option"
  cpc_settings :: "jobject option option"
  cpc_secrets :: "jobject option"

record UpdatePaymentProviderConfigDto =
  upc_storeId :: "uuid option option"
  upc_providerKey :: "string option"
  upc_providerType :: "PaymentProviderType option"
  upc_method :: "PaymentMethodKind option"
  upc_enabled :: "bool option"
  upc_priority :: "int option"
  upc_allowedChannels :: "OrderChannel list option"
  upc_autoConfirmOrderOnSuccess :: "bool option"
  upc_settings :: "jobject option option"
  upc_secrets :: "jobject option option"

text \<open>
  \<open>orderBy\<close> on a nullable column, descending: nulls come first, as PostgreSQL orders them.
\<close>

definition store_desc :: "uuid option \<Rightarrow> uuid option \<Rightarrow> bool" where
  "store_desc a b = (case (a, b) of (None, _) \<Rightarrow> True | (Some x, None) \<Rightarrow> False | (Some x, Some y) \<Rightarrow> string_le y x)"

definition config_order :: "PaymentProviderConfig \<Rightarrow> PaymentProviderConfig \<Rightarrow> bool" where
  "config_order a b \<longleftrightarrow>
     (if ppc_storeId a \<noteq> ppc_storeId b then store_desc (ppc_storeId a) (ppc_storeId b)
      else if ppc_priority a \<noteq> ppc_priority b then ppc_priority a < ppc_priority b
      else string_le (ppc_providerKey a) (ppc_providerKey b))"

definition listProviderConfigs ::
  "cipher \<Rightarrow> RequestContext \<Rightarrow> PaymentProviderConfigQuery \<Rightarrow> pay_db \<Rightarrow> json result" where
  "listProviderConfigs cy context query s =
     bnd (resolveTenantId context (orElse (ppq_tenantId query) (ctx_tenantId context)) True) (\<lambda>tenantId.
     bnd (checkStoreQuery context (ppq_storeId query)) (\<lambda>_.
     let configs = sort_by config_order (filter (\<lambda>c. ppc_tenantId c = tenantId \<and>
           (ppq_storeId query \<noteq> None \<longrightarrow> ppc_storeId c = ppq_storeId query) \<and>
           (ppq_method query \<noteq> None \<longrightarrow> Some (ppc_method c) = ppq_method query)) (payConfigs s)) in
     bnd (mapE (mapPersistedProviderConfig cy) configs) (\<lambda>items. Inr (jlist items))))"

definition ensureProviderKeyIsUnique ::
  "uuid \<Rightarrow> uuid option \<Rightarrow> string \<Rightarrow> uuid option \<Rightarrow> pay_db \<Rightarrow> error + unit" where
  "ensureProviderKeyIsUnique tenantId storeId providerKey excludeId s =
     ensure (find (\<lambda>c. ppc_tenantId c = tenantId \<and> ppc_storeId c = storeId \<and>
               ppc_providerKey c = providerKey \<and> (truthy excludeId \<longrightarrow> Some (ppc_id c) \<noteq> excludeId))
               (payConfigs s) = None)
       (BadRequestException ''A payment provider config with this key already exists.'')"

definition config_payload :: "PaymentProviderConfig \<Rightarrow> json" where
  "config_payload c = JObj [(''providerKey'', JStr (ppc_providerKey c)),
     (''method'', JStr (show_method (ppc_method c))), (''storeId'', jopt (ppc_storeId c))]"

definition new_config ::
  "instant \<Rightarrow> CreatePaymentProviderConfigDto \<Rightarrow> uuid \<Rightarrow> jobject option \<Rightarrow> db \<Rightarrow> PaymentProviderConfig" where
  "new_config now dto tenantId persistedSettings d =
     \<lparr>ppc_id = nextId d, ppc_tenantId = tenantId, ppc_storeId = cpc_storeId dto,
      ppc_providerKey = cpc_providerKey dto, ppc_providerType = cpc_providerType dto,
      ppc_method = cpc_method dto, ppc_enabled = nullish (cpc_enabled dto) True,
      ppc_priority = nullish (cpc_priority dto) 100,
      ppc_allowedChannels = nullish (cpc_allowedChannels dto) [ADMIN, POS, KIOSK, DELIVERY],
      ppc_autoConfirmOrderOnSuccess = nullish (cpc_autoConfirmOrderOnSuccess dto) False,
      ppc_settings = persistedSettings, ppc_createdAt = now, ppc_updatedAt = now\<rparr>"

text \<open>A null among the request's secrets is no secret, as an absent one: \<open>dto.secrets ?? undefined\<close>.\<close>

definition createProviderConfig ::
  "cipher \<Rightarrow> string \<Rightarrow> RequestContext \<Rightarrow> instant \<Rightarrow> CreatePaymentProviderConfigDto \<Rightarrow> pay_db \<Rightarrow>
   (json \<times> pay_db) result" where
  "createProviderConfig cy iv context now dto s =
     bnd (resolveTenantId context (Some (cpc_tenantId dto)) True) (\<lambda>tenantId.
     bnd (checkStoreQuery context (cpc_storeId dto)) (\<lambda>_.
     bnd (ensureProviderKeyIsUnique tenantId (cpc_storeId dto) (cpc_providerKey dto) None s) (\<lambda>_.
     bnd (buildProviderConfigSettings cy now iv None (cpc_settings dto) (map_option Some (cpc_secrets dto)))
       (\<lambda>persistedSettings.
     let config = new_config now dto tenantId persistedSettings (core s);
         s1 = with_core bump (s\<lparr>payConfigs := payConfigs s @ [config]\<rparr>);
         s2 = with_core (pay_log context tenantId (ppc_storeId config) ''payment.provider_config_created''
           ''payment_provider_config'' (ppc_id config) (config_payload config) (config_payload config)) s1 in
     bnd (mapPersistedProviderConfig cy config) (\<lambda>view. Inr (view, s2))))))"

definition changed_config ::
  "instant \<Rightarrow> UpdatePaymentProviderConfigDto \<Rightarrow> jobject option option \<Rightarrow> PaymentProviderConfig \<Rightarrow>
   PaymentProviderConfig" where
  "changed_config now dto persistedSettings c = c\<lparr>
     ppc_storeId := field_of (upc_storeId dto) (ppc_storeId c),
     ppc_providerKey := nullish (upc_providerKey dto) (ppc_providerKey c),
     ppc_providerType := nullish (upc_providerType dto) (ppc_providerType c),
     ppc_method := nullish (upc_method dto) (ppc_method c),
     ppc_enabled := nullish (upc_enabled dto) (ppc_enabled c),
     ppc_priority := nullish (upc_priority dto) (ppc_priority c),
     ppc_allowedChannels := nullish (upc_allowedChannels dto) (ppc_allowedChannels c),
     ppc_autoConfirmOrderOnSuccess := nullish (upc_autoConfirmOrderOnSuccess dto) (ppc_autoConfirmOrderOnSuccess c),
     ppc_settings := field_of persistedSettings (ppc_settings c), ppc_updatedAt := now\<rparr>"

text \<open>The request as it is logged: the fields that were given, the secrets among them.\<close>

definition jgiven_with :: "string \<Rightarrow> ('a \<Rightarrow> json) \<Rightarrow> 'a option \<Rightarrow> (string \<times> json) list" where
  "jgiven_with k f m = (case m of None \<Rightarrow> [] | Some v \<Rightarrow> [(k, f v)])"

definition jobj_opt :: "jobject option \<Rightarrow> json" where
  "jobj_opt m = (case m of None \<Rightarrow> JNull | Some kvs \<Rightarrow> JObj kvs)"

definition update_payload :: "UpdatePaymentProviderConfigDto \<Rightarrow> json" where
  "update_payload dto = JObj
     (jgiven_with ''storeId'' jopt (upc_storeId dto) @
      jgiven_with ''providerKey'' JStr (upc_providerKey dto) @
      jgiven_with ''providerType'' (\<lambda>t. JStr (show_provider_type t)) (upc_providerType dto) @
      jgiven_with ''method'' (\<lambda>m. JStr (show_method m)) (upc_method dto) @
      jgiven_with ''enabled'' JBool (upc_enabled dto) @
      jgiven_with ''priority'' jint (upc_priority dto) @
      jgiven_with ''allowedChannels'' (\<lambda>cs. JArr (map (\<lambda>c. JStr (show_channel c)) cs)) (upc_allowedChannels dto) @
      jgiven_with ''autoConfirmOrderOnSuccess'' JBool (upc_autoConfirmOrderOnSuccess dto) @
      jgiven_with ''settings'' jobj_opt (upc_settings dto) @
      jgiven_with ''secrets'' jobj_opt (upc_secrets dto))"

definition updateProviderConfig ::
  "cipher \<Rightarrow> string \<Rightarrow> RequestContext \<Rightarrow> instant \<Rightarrow> uuid \<Rightarrow> UpdatePaymentProviderConfigDto \<Rightarrow> pay_db \<Rightarrow>
   (json \<times> pay_db) result" where
  "updateProviderConfig cy iv context now configId dto s =
     bnd (orThrow (find (\<lambda>c. ppc_id c = configId) (payConfigs s)) (RecordNotFound ''PaymentProviderConfig''))
       (\<lambda>current.
     bnd (resolveTenantId context (Some (ppc_tenantId current)) True) (\<lambda>_.
     bnd (checkStoreQuery context (ppc_storeId current)) (\<lambda>_.
     bnd (checkStoreQuery context (nullish (upc_storeId dto) None)) (\<lambda>_.
     let nextProviderKey = nullish (upc_providerKey dto) (ppc_providerKey current);
         nextStoreId = field_of (upc_storeId dto) (ppc_storeId current) in
     bnd (if nextProviderKey \<noteq> ppc_providerKey current \<or> nextStoreId \<noteq> ppc_storeId current
          then ensureProviderKeyIsUnique (ppc_tenantId current) nextStoreId nextProviderKey
                 (Some (ppc_id current)) s
          else Inr ()) (\<lambda>_.
     bnd (if upc_settings dto \<noteq> None \<or> upc_secrets dto \<noteq> None
          then bnd (buildProviderConfigSettings cy now iv (ppc_settings current) (upc_settings dto) (upc_secrets dto))
                 (\<lambda>p. Inr (Some p))
          else Inr None) (\<lambda>persistedSettings.
     let updated = changed_config now dto persistedSettings current;
         s1 = s\<lparr>payConfigs := update_where (\<lambda>c. ppc_id c = ppc_id current)
                 (changed_config now dto persistedSettings) (payConfigs s)\<rparr>;
         s2 = with_core (pay_log context (ppc_tenantId updated) (ppc_storeId updated)
           ''payment.provider_config_updated'' ''payment_provider_config'' (ppc_id updated)
           (update_payload dto) (JObj [(''providerKey'', JStr (ppc_providerKey updated)),
             (''storeId'', jopt (ppc_storeId updated))])) s1 in
     bnd (mapPersistedProviderConfig cy updated) (\<lambda>view. Inr (view, s2))))))))"


section \<open>Intents\<close>

record PaymentIntentsQuery =
  piq_tenantId :: "uuid option"
  piq_storeId :: "uuid option"
  piq_status :: "PaymentIntentStatus option"
  piq_channel :: "OrderChannel option"

record CreatePaymentIntentDto =
  cpi_tenantId :: "uuid option"
  cpi_storeId :: uuid
  cpi_orderId :: uuid
  cpi_channel :: "OrderChannel option"
  cpi_deviceId :: "uuid option option"
  cpi_posSessionId :: "uuid option"
  cpi_shiftId :: "uuid option option"
  cpi_allocations :: "PaymentAllocationInput list"

text \<open>An intent with its allocations and its order.\<close>

definition loadIntent :: "uuid \<Rightarrow> pay_db \<Rightarrow> (PaymentIntent \<times> PaymentAllocation list \<times> Order) result" where
  "loadIntent intentId s =
     bnd (orThrow (intent_get intentId s) (RecordNotFound ''PaymentIntent'')) (\<lambda>intent.
     bnd (loadOrder (pi_orderId intent) (core s)) (\<lambda>order.
     Inr (intent, intent_allocations intentId s, order)))"

definition summary_tenant :: "RequestContext \<Rightarrow> uuid option \<Rightarrow> error + uuid option" where
  "summary_tenant context tenantId =
     (if truthy tenantId then bnd (resolveTenantId context tenantId True) (\<lambda>t. Inr (Some t))
      else if ctx_scope context = PlatformAdmin then Inr None
      else bnd (resolveTenantId context (ctx_tenantId context) True) (\<lambda>t. Inr (Some t)))"

definition buildPaymentIntentWhere ::
  "RequestContext \<Rightarrow> PaymentIntentsQuery \<Rightarrow> error + (PaymentIntent \<Rightarrow> bool)" where
  "buildPaymentIntentWhere context query =
     bnd (summary_tenant context (piq_tenantId query)) (\<lambda>tw.
     bnd (checkStoreQuery context (piq_storeId query)) (\<lambda>_.
     Inr (\<lambda>intent. in_scope context tw (piq_storeId query) (pi_tenantId intent) (pi_storeId intent) \<and>
            (piq_status query \<noteq> None \<longrightarrow> piq_status query = Some (pi_status intent)) \<and>
            (piq_channel query \<noteq> None \<longrightarrow> piq_channel query = Some (pi_channel intent)))))"

definition listIntents :: "RequestContext \<Rightarrow> PaymentIntentsQuery \<Rightarrow> pay_db \<Rightarrow> json result" where
  "listIntents context query s =
     bnd (buildPaymentIntentWhere context query) (\<lambda>matching.
     bnd (mapE (\<lambda>intent. bnd (loadOrder (pi_orderId intent) (core s)) (\<lambda>order.
            Inr (mapPaymentIntentListItem intent order (intent_allocations (pi_id intent) s))))
          (rev (filter matching (payIntents s)))) (\<lambda>items. Inr (jlist items)))"

definition getIntent :: "RequestContext \<Rightarrow> uuid \<Rightarrow> pay_db \<Rightarrow> json result" where
  "getIntent context intentId s =
     bnd (loadIntent intentId s) (\<lambda>(intent, allocations, order).
     bnd (checkAccess context (pi_tenantId intent) (pi_storeId intent)) (\<lambda>_.
     Inr (mapPaymentIntent intent allocations)))"

definition intent_session :: "uuid option \<Rightarrow> uuid \<Rightarrow> uuid \<Rightarrow> db \<Rightarrow> PosSession option result" where
  "intent_session posSessionId tenantId storeId d =
     (if \<not> truthy posSessionId then Inr None
      else bnd (orThrow (session_get (nullish posSessionId '''') d) (RecordNotFound ''PosSession'')) (\<lambda>session.
        bnd (ensure (\<not> (pse_tenantId session \<noteq> tenantId \<or> pse_storeId session \<noteq> storeId \<or>
                        pse_status session \<noteq> SessionActive))
               (BadRequestException ''POS payment intent requires an active matching session.'')) (\<lambda>_.
        Inr (Some session))))"

definition check_shift :: "uuid option \<Rightarrow> uuid \<Rightarrow> uuid \<Rightarrow> PosSession option \<Rightarrow> db \<Rightarrow> unit result" where
  "check_shift shiftId tenantId storeId session d =
     (if \<not> truthy shiftId then Inr ()
      else bnd (orThrow (shift_get (nullish shiftId '''') d) (RecordNotFound ''PosShift'')) (\<lambda>shift.
        ensure (\<not> (ps_tenantId shift \<noteq> tenantId \<or> ps_storeId shift \<noteq> storeId \<or>
                   (case session of None \<Rightarrow> False | Some s \<Rightarrow> ps_id shift \<noteq> pse_shiftId s)))
          (BadRequestException ''Payment shift context mismatch.'')))"

definition check_device :: "uuid option \<Rightarrow> uuid \<Rightarrow> uuid \<Rightarrow> db \<Rightarrow> unit result" where
  "check_device deviceId tenantId storeId d =
     (if \<not> truthy deviceId then Inr ()
      else bnd (orThrow (find (\<lambda>v. dev_id v = nullish deviceId '''') (devices d)) (RecordNotFound ''Device''))
        (\<lambda>device. ensure (\<not> (dev_tenantId device \<noteq> tenantId \<or> dev_storeId device \<noteq> storeId))
          (BadRequestException ''Payment device context mismatch.'')))"

definition active_intent :: "uuid \<Rightarrow> PaymentIntent \<Rightarrow> bool" where
  "active_intent orderId intent \<longleftrightarrow> pi_orderId intent = orderId \<and>
     pi_status intent \<in> set [IntPending, IntPartiallyPaid, IntCompleted]"

definition new_intent ::
  "RequestContext \<Rightarrow> instant \<Rightarrow> uuid \<Rightarrow> CreatePaymentIntentDto \<Rightarrow> Order \<Rightarrow> PosSession option \<Rightarrow>
   uuid option \<Rightarrow> uuid option \<Rightarrow> int \<Rightarrow> db \<Rightarrow> PaymentIntent" where
  "new_intent context now tenantId dto order session shiftId deviceId totalCents d =
     \<lparr>pi_id = nextId d, pi_tenantId = tenantId, pi_storeId = cpi_storeId dto, pi_orderId = ord_id order,
      pi_channel = nullish (cpi_channel dto) (ord_channel order), pi_deviceId = deviceId,
      pi_posSessionId = map_option pse_id session, pi_shiftId = shiftId, pi_status = IntPending,
      pi_totalAmount = totalCents, pi_paidAmount = 0, pi_createdByUserId = resolveCreatedByUserId context,
      pi_createdAt = now, pi_updatedAt = now\<rparr>"

definition new_allocation ::
  "instant \<Rightarrow> uuid \<Rightarrow> uuid \<Rightarrow> nat \<Rightarrow> PaymentMethodKind \<times> int \<Rightarrow> PaymentAllocation \<times> nat" where
  "new_allocation now tenantId intentId n = (\<lambda>(method, amount).
     (\<lparr>pal_id = newId n, pal_tenantId = tenantId, pal_paymentIntentId = intentId, pal_method = method,
       pal_amount = amount, pal_status = AllPending, pal_providerKey = None,
       pal_externalReference = None, pal_completedAt = None, pal_failedAt = None,
       pal_failureReason = None, pal_createdAt = now\<rparr>, Suc n))"

text \<open>The checks of a new intent, with what they loaded: its order, its tenant, session, shift and device.\<close>

record IntentPlace =
  ip_order :: Order
  ip_tenantId :: uuid
  ip_session :: "PosSession option"
  ip_shiftId :: "uuid option"
  ip_deviceId :: "uuid option"

definition check_intent ::
  "RequestContext \<Rightarrow> CreatePaymentIntentDto \<Rightarrow> pay_db \<Rightarrow> IntentPlace result" where
  "check_intent context dto s =
     bnd (loadOrder (cpi_orderId dto) (core s)) (\<lambda>order.
     bnd (resolveTenantId context (Some (nullish (cpi_tenantId dto) (ord_tenantId order))) True) (\<lambda>tenantId.
     bnd (enforceStoreAccess context (cpi_storeId dto)) (\<lambda>_.
     bnd (ensure (\<not> (ord_tenantId order \<noteq> tenantId \<or> ord_storeId order \<noteq> cpi_storeId dto))
            (BadRequestException ''Payment intent context mismatch.'')) (\<lambda>_.
     bnd (ensure (nullish (cpi_channel dto) (ord_channel order) = ord_channel order)
            (BadRequestException ''Payment channel must match the order channel.'')) (\<lambda>_.
     bnd (intent_session (cpi_posSessionId dto) tenantId (cpi_storeId dto) (core s)) (\<lambda>session.
     let shiftId = (case cpi_shiftId dto of Some v \<Rightarrow> v | None \<Rightarrow> map_option pse_shiftId session);
         deviceId = (case cpi_deviceId dto of Some v \<Rightarrow> v | None \<Rightarrow> map_option pse_deviceId session) in
     bnd (check_shift shiftId tenantId (cpi_storeId dto) session (core s)) (\<lambda>_.
     bnd (check_device deviceId tenantId (cpi_storeId dto) (core s)) (\<lambda>_.
     bnd (ensure (find (active_intent (ord_id order)) (payIntents s) = None)
            (BadRequestException ''An active payment intent already exists for this order.'')) (\<lambda>_.
     Inr \<lparr>ip_order = order, ip_tenantId = tenantId, ip_session = session, ip_shiftId = shiftId,
          ip_deviceId = deviceId\<rparr>)))))))))"

definition place_intent ::
  "RequestContext \<Rightarrow> instant \<Rightarrow> CreatePaymentIntentDto \<Rightarrow> IntentPlace \<Rightarrow> int \<Rightarrow>
   (PaymentMethodKind \<times> int) list \<Rightarrow> pay_db \<Rightarrow> json \<times> pay_db" where
  "place_intent context now dto p totalCents parts s =
     (let intent = new_intent context now (ip_tenantId p) dto (ip_order p) (ip_session p) (ip_shiftId p)
            (ip_deviceId p) totalCents (core s);
          (allocations, n) = create_rows (new_allocation now (ip_tenantId p) (pi_id intent)) parts
            (Suc (db_seq (core s)));
          s1 = with_core (\<lambda>d. d\<lparr>db_seq := n\<rparr>)
            ((intent_create intent s)\<lparr>payAllocations := payAllocations s @ allocations\<rparr>);
          s2 = with_core (pay_log context (pi_tenantId intent) (Some (pi_storeId intent))
            ''payment.intent_created'' ''payment_intent'' (pi_id intent)
            (JObj [(''orderId'', JStr (pi_orderId intent)),
                   (''channel'', JStr (show_channel (pi_channel intent))),
                   (''methods'', JArr (map (\<lambda>a. JStr (show_method (pal_method a))) allocations))])
            (JObj [(''paymentIntentId'', JStr (pi_id intent)), (''orderId'', JStr (pi_orderId intent)),
                   (''channel'', JStr (show_channel (pi_channel intent)))])) s1
      in (mapPaymentIntent intent allocations, s2))"

definition createIntent ::
  "RequestContext \<Rightarrow> instant \<Rightarrow> CreatePaymentIntentDto \<Rightarrow> pay_db \<Rightarrow> (json \<times> pay_db) result" where
  "createIntent context now dto s =
     bnd (check_intent context dto s) (\<lambda>p.
     bnd (payment_validateAllocations (cpi_allocations dto) (formatCents (ord_total (ip_order p))))
       (\<lambda>(totalAmount, normalized).
     bnd (decimal_of totalAmount) (\<lambda>totalCents.
     bnd (mapE (\<lambda>a. bnd (decimal_of (pa_amount a)) (\<lambda>c. Inr (pa_method a, c))) normalized) (\<lambda>parts.
     Inr (place_intent context now dto p totalCents parts s)))))"

definition cancelled_allocations :: "uuid \<Rightarrow> pay_db \<Rightarrow> pay_db" where
  "cancelled_allocations intentId s = s\<lparr>payAllocations := update_where
     (\<lambda>r. pal_paymentIntentId r = intentId \<and> pal_status r \<in> set [AllPending, AllFailed])
     (\<lambda>r. r\<lparr>pal_status := AllCancelled\<rparr>) (payAllocations s)\<rparr>"

definition cancelIntent ::
  "RequestContext \<Rightarrow> instant \<Rightarrow> uuid \<Rightarrow> string option \<Rightarrow> pay_db \<Rightarrow> (json \<times> pay_db) result" where
  "cancelIntent context now intentId reason s =
     bnd (loadIntent intentId s) (\<lambda>(intent, allocations, order).
     bnd (checkAccess context (pi_tenantId intent) (pi_storeId intent)) (\<lambda>_.
     bnd (ensure (pi_status intent \<noteq> IntCompleted)
            (BadRequestException ''Completed payment intents cannot be cancelled.'')) (\<lambda>_.
     bnd (ensure (\<not> formatCents (pi_paidAmount intent) \<noteq> ''0.00'')
            (BadRequestException ''Partially paid payment intents cannot be cancelled.'')) (\<lambda>_.
     let cancel = (\<lambda>r. r\<lparr>pi_status := IntCancelled, pi_updatedAt := now\<rparr>);
         s1 = intent_update (pi_id intent) cancel (cancelled_allocations (pi_id intent) s);
         payload = JObj [(''orderId'', JStr (pi_orderId intent)), (''reason'', jopt reason)];
         s2 = with_core (pay_log context (pi_tenantId intent) (Some (pi_storeId intent))
           ''payment.intent_cancelled'' ''payment_intent'' (pi_id intent) payload payload) s1 in
     Inr (mapPaymentIntent (cancel intent) (intent_allocations (pi_id intent) s1), s2)))))"

definition listAttempts :: "RequestContext \<Rightarrow> uuid \<Rightarrow> pay_db \<Rightarrow> json result" where
  "listAttempts context intentId s =
     bnd (orThrow (intent_get intentId s) (RecordNotFound ''PaymentIntent'')) (\<lambda>intent.
     bnd (checkAccess context (pi_tenantId intent) (pi_storeId intent)) (\<lambda>_.
     Inr (jlist (map mapPaymentAttempt
       (rev (filter (\<lambda>a. pat_paymentIntentId a = intentId) (payAttempts s)))))))"


section \<open>Processing\<close>

text \<open>
  A configuration is preferred when it is the store's own, then by priority, then by age. Without one
  and without a requested key there is a default for the channel and the method.
\<close>

definition config_before :: "uuid \<Rightarrow> PaymentProviderConfig \<Rightarrow> PaymentProviderConfig \<Rightarrow> bool" where
  "config_before storeId left right \<longleftrightarrow>
     (if ppc_storeId left = Some storeId \<and> ppc_storeId right \<noteq> Some storeId then True
      else if ppc_storeId left \<noteq> Some storeId \<and> ppc_storeId right = Some storeId then False
      else if ppc_priority left \<noteq> ppc_priority right then ppc_priority left < ppc_priority right
      else ppc_createdAt left \<le> ppc_createdAt right)"

definition default_config :: "PaymentIntent \<Rightarrow> PaymentMethodKind \<Rightarrow> LegacyProviderConfig" where
  "default_config intent method =
     \<lparr>lpc_id = None, lpc_tenantId = pi_tenantId intent, lpc_storeId = None,
      lpc_providerKey = toLowerCase (show_channel (pi_channel intent)) @ ''-'' @
        toLowerCase (show_method method) @ ''-default'',
      lpc_providerType = resolveDefaultProviderType method, lpc_method = method, lpc_enabled = True,
      lpc_priority = 100, lpc_allowedChannels = [pi_channel intent],
      lpc_autoConfirmOrderOnSuccess = resolveDefaultAutoConfirm (pi_channel intent),
      lpc_settings = None, lpc_secrets = JNull, lpc_resolvedSecrets = None, lpc_createdAt = 0,
      lpc_updatedAt = 0\<rparr>"

definition matching_configs ::
  "PaymentIntent \<Rightarrow> PaymentMethodKind \<Rightarrow> string option \<Rightarrow> pay_db \<Rightarrow> PaymentProviderConfig list" where
  "matching_configs intent method explicitProviderKey s =
     sort_by (config_before (pi_storeId intent))
       (filter (\<lambda>c. ppc_tenantId c = pi_tenantId intent \<and> ppc_method c = method \<and> ppc_enabled c \<and>
          (truthy explicitProviderKey \<longrightarrow> Some (ppc_providerKey c) = explicitProviderKey) \<and>
          pi_channel intent \<in> set (ppc_allowedChannels c) \<and>
          (ppc_storeId c = None \<or> ppc_storeId c = Some (pi_storeId intent))) (payConfigs s))"

definition resolveProviderConfigTx ::
  "cipher \<Rightarrow> PaymentIntent \<Rightarrow> PaymentMethodKind \<Rightarrow> string option \<Rightarrow> pay_db \<Rightarrow> LegacyProviderConfig result" where
  "resolveProviderConfigTx cy intent method explicitProviderKey s =
     (case matching_configs intent method explicitProviderKey s of
        selected # _ \<Rightarrow>
          bnd (resolveProviderConfigSettings cy (ppc_settings selected)) (\<lambda>resolved.
          Inr (resolved_config selected resolved))
      | [] \<Rightarrow>
          if truthy explicitProviderKey
          then Inl (BadRequestException ''Requested payment provider config was not found.'')
          else Inr (default_config intent method))"

definition adapter_config :: "LegacyProviderConfig \<Rightarrow> PaymentMethodKind \<Rightarrow> PaymentAdapterConfig" where
  "adapter_config c method =
     \<lparr>pac_providerKey = lpc_providerKey c, pac_providerType = lpc_providerType c, pac_method = method,
      pac_settings = lpc_settings c, pac_secrets = lpc_resolvedSecrets c\<rparr>"

text \<open>A value written to a nullable text column.\<close>

definition text_column :: "json \<Rightarrow> string option result" where
  "text_column j = (case j of JNull \<Rightarrow> Inr None | JStr s \<Rightarrow> Inr (Some s)
     | _ \<Rightarrow> Inl (JsError ''Argument is not a String.''))"

definition execution_log_status :: "PaymentAttemptStatus \<Rightarrow> string" where
  "execution_log_status s = (if s = AttPending then ''PENDING'' else if s = AttSucceeded then ''COMPLETED''
     else ''FAILED'')"

definition new_attempt ::
  "instant \<Rightarrow> PaymentIntent \<Rightarrow> PaymentAllocation \<Rightarrow> LegacyProviderConfig \<Rightarrow> json \<Rightarrow> db \<Rightarrow> PaymentAttempt" where
  "new_attempt now intent allocation providerConfig requestPayload d =
     \<lparr>pat_id = nextId d, pat_paymentIntentId = pi_id intent, pat_paymentAllocationId = pal_id allocation,
      pat_tenantId = pi_tenantId intent, pat_storeId = pi_storeId intent, pat_orderId = pi_orderId intent,
      pat_providerKey = lpc_providerKey providerConfig, pat_providerType = lpc_providerType providerConfig,
      pat_method = pal_method allocation, pat_status = AttPending, pat_requestPayload = requestPayload,
      pat_responsePayload = JNull, pat_externalReference = None, pat_errorCode = None,
      pat_errorMessage = None, pat_startedAt = now, pat_finishedAt = None, pat_createdAt = now\<rparr>"

definition executed_attempt ::
  "instant \<Rightarrow> PaymentAdapterExecutionResult \<Rightarrow> string option \<Rightarrow> string option \<Rightarrow> PaymentAttempt \<Rightarrow> PaymentAttempt" where
  "executed_attempt now execution errorCode errorMessage a = a\<lparr>
     pat_status := per_status execution, pat_responsePayload := per_responsePayload execution,
     pat_externalReference := per_externalReference execution, pat_errorCode := errorCode,
     pat_errorMessage := errorMessage,
     pat_finishedAt := (if per_status execution = AttPending then None else Some now)\<rparr>"

text \<open>What an execution makes of its allocation: still pending, completed or failed.\<close>

definition executed_allocation ::
  "instant \<Rightarrow> string \<Rightarrow> PaymentAttemptStatus \<Rightarrow> string option \<Rightarrow> string option \<Rightarrow> PaymentAllocation \<Rightarrow>
   PaymentAllocation" where
  "executed_allocation now providerKey status externalReference errorMessage a =
     (if status = AttPending
      then a\<lparr>pal_status := AllPending, pal_providerKey := Some providerKey,
             pal_externalReference := externalReference, pal_completedAt := None, pal_failedAt := None,
             pal_failureReason := None\<rparr>
      else let allocationStatus = (if status = AttSucceeded then AllCompleted else AllFailed)
           in a\<lparr>pal_status := allocationStatus, pal_providerKey := Some providerKey,
                pal_externalReference := externalReference,
                pal_completedAt := (if allocationStatus = AllCompleted then Some now else None),
                pal_failedAt := (if allocationStatus = AllFailed then Some now else None),
                pal_failureReason := errorMessage\<rparr>)"

text \<open>The intent takes the state its allocations are in.\<close>

definition follow_allocations :: "instant \<Rightarrow> uuid \<Rightarrow> pay_db \<Rightarrow> (PaymentIntent \<times> pay_db) result" where
  "follow_allocations now intentId s =
     bnd (loadIntent intentId s) (\<lambda>(refreshed, allocations, order).
     let (status, paid) = resolvePaymentIntentState (pi_totalAmount refreshed)
           (map (\<lambda>a. (pal_amount a, pal_status a)) allocations);
         f = (\<lambda>r. r\<lparr>pi_status := status, pi_paidAmount := paid, pi_updatedAt := now\<rparr>) in
     Inr (f refreshed, intent_update (pi_id refreshed) f s))"

definition process_event :: "PaymentAttemptStatus \<Rightarrow> string" where
  "process_event s = (if s = AttPending then ''payment.attempt_pending_external''
     else if s = AttSucceeded then ''payment.attempt_succeeded'' else ''payment.attempt_failed'')"

definition show_mode :: "ExecutionMode \<Rightarrow> string" where
  "show_mode m = (case m of Sync \<Rightarrow> ''SYNC'' | Webhook \<Rightarrow> ''WEBHOOK'')"

definition process_payload ::
  "PaymentIntent \<Rightarrow> PaymentAllocation \<Rightarrow> LegacyProviderConfig \<Rightarrow> json" where
  "process_payload intent allocation providerConfig = JObj
     [(''paymentIntentId'', JStr (pi_id intent)), (''paymentAllocationId'', JStr (pal_id allocation)),
      (''providerKey'', JStr (lpc_providerKey providerConfig)),
      (''providerType'', JStr (show_provider_type (lpc_providerType providerConfig))),
      (''channel'', JStr (show_channel (pi_channel intent))),
      (''method'', JStr (show_method (pal_method allocation))), (''amount'', jmoney (pal_amount allocation))]"

definition process_log ::
  "RequestContext \<Rightarrow> PaymentIntent \<Rightarrow> PaymentAllocation \<Rightarrow> LegacyProviderConfig \<Rightarrow> uuid \<Rightarrow>
   PaymentAdapterExecutionResult \<Rightarrow> string option \<Rightarrow> db \<Rightarrow> db" where
  "process_log context intent allocation providerConfig attemptId execution errorMessage =
     (let shared = [(''paymentIntentId'', JStr (pi_id intent)), (''paymentAllocationId'', JStr (pal_id allocation)),
            (''providerKey'', JStr (lpc_providerKey providerConfig)),
            (''status'', JStr (show_attempt_status (per_status execution)))]
      in pay_log context (pi_tenantId intent) (Some (pi_storeId intent)) (process_event (per_status execution))
           ''payment_attempt'' attemptId
           (JObj (shared @ [(''externalReference'', jopt (per_externalReference execution)),
                            (''errorMessage'', jopt errorMessage)]))
           (JObj (shared @ [(''executionMode'', JStr (show_mode (per_executionMode execution)))])))"

text \<open>The attempt with its answer, the connector's log and the allocation.\<close>

definition record_execution ::
  "instant \<Rightarrow> PaymentIntent \<Rightarrow> PaymentAllocation \<Rightarrow> LegacyProviderConfig \<Rightarrow> PaymentAdapterExecutionResult \<Rightarrow>
   string option \<Rightarrow> string option \<Rightarrow> pay_db \<Rightarrow> pay_db" where
  "record_execution now intent allocation providerConfig execution errorCode errorMessage s =
     (let requestPayload = process_payload intent allocation providerConfig;
          attempt = new_attempt now intent allocation providerConfig requestPayload (core s);
          s1 = with_core bump (s\<lparr>payAttempts := payAttempts s @ [attempt]\<rparr>);
          s2 = attempt_update (pat_id attempt) (executed_attempt now execution errorCode errorMessage) s1;
          s3 = connector_log now (pi_tenantId intent) (Some (pi_storeId intent)) ''PAYMENT_PROVIDER''
            (lpc_providerKey providerConfig) ''process_allocation'' (execution_log_status (per_status execution))
            requestPayload (per_responsePayload execution) errorMessage
            (if per_status execution = AttPending then None else Some now) s2
      in allocation_update (pal_id allocation) (executed_allocation now (lpc_providerKey providerConfig)
           (per_status execution) (per_externalReference execution) errorMessage) s3)"

definition processAllocationTx ::
  "cipher \<Rightarrow> string \<Rightarrow> RequestContext \<Rightarrow> instant \<Rightarrow> uuid \<Rightarrow> uuid \<Rightarrow> string option \<Rightarrow> pay_db \<Rightarrow>
   (PaymentIntent \<times> Order \<times> LegacyProviderConfig \<times> pay_db) result" where
  "processAllocationTx cy random context now intentId allocationId providerKey s =
     bnd (loadIntent intentId s) (\<lambda>(intent, allocations, order).
     bnd (checkAccess context (pi_tenantId intent) (pi_storeId intent)) (\<lambda>_.
     bnd (ensure (\<not> (pi_status intent = IntCompleted \<or> pi_status intent = IntCancelled))
            (BadRequestException ''This payment intent is already closed.'')) (\<lambda>_.
     bnd (orThrow (find (\<lambda>a. pal_id a = allocationId) allocations)
            (BadRequestException ''Payment allocation was not found.'')) (\<lambda>allocation.
     bnd (ensure (\<not> (pal_status allocation = AllCompleted \<or> pal_status allocation = AllCancelled))
            (BadRequestException ''This allocation cannot be processed again.'')) (\<lambda>_.
     bnd (resolveProviderConfigTx cy intent (pal_method allocation) providerKey s) (\<lambda>providerConfig.
     bnd (executePaymentProviderAttempt now random (adapter_config providerConfig (pal_method allocation)))
       (\<lambda>execution.
     bnd (text_column (per_errorCode execution)) (\<lambda>errorCode.
     bnd (text_column (per_errorMessage execution)) (\<lambda>errorMessage.
     let s1 = record_execution now intent allocation providerConfig execution errorCode errorMessage s in
     bnd (if per_status execution = AttPending
          then bnd (loadIntent (pi_id intent) s1) (\<lambda>(i, _, _). Inr (i, s1))
          else follow_allocations now (pi_id intent) s1) (\<lambda>(updatedIntent, s2).
     Inr (updatedIntent, order, providerConfig,
       with_core (process_log context updatedIntent allocation providerConfig (nextId (core s)) execution
         errorMessage) s2)))))))))))"

definition to_confirmed :: TransitionOrderDto where
  "to_confirmed = \<lparr>tr_toStatus = CONFIRMED, tr_reason = None, tr_hasExternalPayment = None\<rparr>"

text \<open>
  The order is confirmed in a transaction of its own once the payment is committed: when that fails,
  the payment stays.
\<close>

definition auto_confirm ::
  "RequestContext \<Rightarrow> instant \<Rightarrow> bool \<Rightarrow> uuid \<Rightarrow> pay_db \<Rightarrow> (error + unit) \<times> pay_db" where
  "auto_confirm context now wanted orderId s =
     (if \<not> wanted then (Inr (), s)
      else case transitionOrder context now orderId to_confirmed (core s) of
             Inl e \<Rightarrow> (Inl e, s)
           | Inr (view, d) \<Rightarrow> (Inr (), s\<lparr>core := d\<rparr>))"

definition processAllocation ::
  "cipher \<Rightarrow> string \<Rightarrow> RequestContext \<Rightarrow> instant \<Rightarrow> uuid \<Rightarrow> uuid \<Rightarrow> string option \<Rightarrow> pay_db \<Rightarrow>
   (error + json) \<times> pay_db" where
  "processAllocation cy random context now intentId allocationId providerKey s =
     (case processAllocationTx cy random context now intentId allocationId providerKey s of
        Inl e \<Rightarrow> (Inl e, s)
      | Inr (intent, order, providerConfig, s1) \<Rightarrow>
          (case auto_confirm context now
                  (pi_status intent = IntCompleted \<and> lpc_autoConfirmOrderOnSuccess providerConfig \<and>
                   ord_status order = PLACED) (pi_orderId intent) s1 of
             (Inl e, s2) \<Rightarrow> (Inl e, s2)
           | (Inr _, s2) \<Rightarrow> (getIntent context intentId s2, s2)))"


section \<open>Refunds and voids\<close>

record CreatePaymentOperationDto =
  cpo_paymentIntentId :: uuid
  cpo_paymentAllocationId :: "uuid option"
  cpo_kind :: PaymentOperationKind
  cpo_amount :: string
  cpo_reason :: "string option"

definition new_operation ::
  "RequestContext \<Rightarrow> instant \<Rightarrow> PaymentIntent \<Rightarrow> PaymentAllocation \<Rightarrow> CreatePaymentOperationDto \<Rightarrow>
   string \<Rightarrow> int \<Rightarrow> json \<Rightarrow> db \<Rightarrow> PaymentOperation" where
  "new_operation context now intent allocation dto providerKey amount requestPayload d =
     \<lparr>po_id = nextId d, po_tenantId = pi_tenantId intent, po_storeId = pi_storeId intent,
      po_paymentIntentId = pi_id intent, po_paymentAllocationId = Some (pal_id allocation),
      po_orderId = pi_orderId intent, po_kind = cpo_kind dto, po_status = ''PENDING'', po_amount = amount,
      po_currency = ''RUB'', po_providerKey = providerKey, po_externalReference = None,
      po_reason = cpo_reason dto, po_requestPayload = requestPayload, po_responsePayload = JNull,
      po_createdByUserId = resolveCreatedByUserId context, po_processedAt = None, po_createdAt = now,
      po_updatedAt = now\<rparr>"

text \<open>A provider's answer is written as it is called: a refund done at once is \<open>SUCCEEDED\<close>.\<close>

definition executed_operation ::
  "instant \<Rightarrow> PaymentAdapterExecutionResult \<Rightarrow> PaymentOperation \<Rightarrow> PaymentOperation" where
  "executed_operation now execution p = p\<lparr>
     po_status := show_attempt_status (per_status execution),
     po_externalReference := per_externalReference execution,
     po_responsePayload := per_responsePayload execution,
     po_processedAt := (if per_status execution = AttPending then None else Some now), po_updatedAt := now\<rparr>"

definition refunded :: "instant \<Rightarrow> RefundStatus \<Rightarrow> Order \<Rightarrow> Order" where
  "refunded now status r = r\<lparr>ord_refundStatus := status, ord_updatedAt := now\<rparr>"

text \<open>
  What an operation that was carried out writes: its row, the log of the connector, the refund status of
  its order, and the audit entry with its event.
\<close>

definition record_operation ::
  "RequestContext \<Rightarrow> instant \<Rightarrow> PaymentIntent \<Rightarrow> string \<Rightarrow> PaymentAdapterExecutionResult \<Rightarrow> json \<Rightarrow> PaymentOperation \<Rightarrow>
   pay_db \<Rightarrow> pay_db" where
  "record_operation context now intent providerKey execution requestPayload updated s =
     (let kind = toLowerCase (show_operation_kind (po_kind updated));
          s1 = with_core bump (s\<lparr>payOperations := payOperations s @ [updated]\<rparr>);
          s2 = connector_log now (pi_tenantId intent) (Some (pi_storeId intent)) ''PAYMENT_PROVIDER''
            providerKey kind (execution_log_status (per_status execution))
            requestPayload (per_responsePayload execution) None
            (if per_status execution = AttPending then None else Some now) s1;
          s3 = with_core (order_update (pi_orderId intent) (refunded now
            (if per_status execution = AttPending then PENDING_MANUAL else NOT_REQUIRED))) s2 in
      with_core (pay_log context (pi_tenantId intent) (Some (pi_storeId intent))
        (''payment.'' @ kind @ ''_requested'') ''payment_operation'' (po_id updated)
        (JObj [(''paymentIntentId'', JStr (pi_id intent)),
               (''kind'', JStr (show_operation_kind (po_kind updated))), (''status'', JStr (po_status updated)),
               (''externalReference'', jopt (po_externalReference updated))])
        (JObj [(''paymentIntentId'', JStr (pi_id intent)), (''paymentOperationId'', JStr (po_id updated)),
               (''kind'', JStr (show_operation_kind (po_kind updated))), (''status'', JStr (po_status updated))])) s3)"

definition createOperation ::
  "cipher \<Rightarrow> string \<Rightarrow> RequestContext \<Rightarrow> instant \<Rightarrow> CreatePaymentOperationDto \<Rightarrow> pay_db \<Rightarrow>
   (json \<times> pay_db) result" where
  "createOperation cy random context now dto s =
     bnd (loadIntent (cpo_paymentIntentId dto) s) (\<lambda>(intent, allocations, order).
     bnd (checkAccess context (pi_tenantId intent) (pi_storeId intent)) (\<lambda>_.
     bnd (orThrow (orElse (find (\<lambda>a. Some (pal_id a) = cpo_paymentAllocationId dto) allocations)
                     (find (\<lambda>a. pal_status a = AllCompleted) allocations))
            (BadRequestException
              ''A completed payment allocation is required for refund or void operations.'')) (\<lambda>allocation.
     bnd (resolveProviderConfigTx cy intent (pal_method allocation) (pal_providerKey allocation) s)
       (\<lambda>providerConfig.
     bnd (decimal_of (cpo_amount dto)) (\<lambda>amount.
     let requestPayload = JObj [(''paymentIntentId'', JStr (pi_id intent)),
           (''paymentAllocationId'', JStr (pal_id allocation)), (''orderId'', JStr (pi_orderId intent)),
           (''kind'', JStr (show_operation_kind (cpo_kind dto))), (''amount'', JStr (cpo_amount dto))];
         operation = new_operation context now intent allocation dto (lpc_providerKey providerConfig) amount
           requestPayload (core s);
         execution = executePaymentOperation now random
           (adapter_config providerConfig (pal_method allocation)) (cpo_kind dto) (cpo_amount dto);
         updated = executed_operation now execution operation in
     Inr (mapPaymentOperation updated,
          record_operation context now intent (lpc_providerKey providerConfig) execution requestPayload updated s))))))"

section \<open>Lists\<close>

definition listOperations ::
  "RequestContext \<Rightarrow> uuid option \<Rightarrow> uuid option \<Rightarrow> PaymentOperationKind option \<Rightarrow> pay_db \<Rightarrow> json result" where
  "listOperations context tenantId storeId kind s =
     bnd (checkStoreQuery context storeId) (\<lambda>_.
     bnd (tenantWhere context tenantId) (\<lambda>tw.
     Inr (jlist (map mapPaymentOperation (rev (filter
       (\<lambda>p. of_tenant tw (po_tenantId p) \<and> (truthy storeId \<longrightarrow> storeId = Some (po_storeId p)) \<and>
            (kind \<noteq> None \<longrightarrow> kind = Some (po_kind p))) (payOperations s)))))))"

text \<open>A row without a tenant or a store matches only a query without one.\<close>

definition matches_given :: "uuid option \<Rightarrow> uuid option \<Rightarrow> bool" where
  "matches_given wanted v \<longleftrightarrow> (truthy wanted \<longrightarrow> wanted = v)"

definition listSettlements ::
  "RequestContext \<Rightarrow> uuid option \<Rightarrow> uuid option \<Rightarrow> string option \<Rightarrow> pay_db \<Rightarrow> json result" where
  "listSettlements context tenantId storeId providerKey s =
     bnd (checkStoreQuery context storeId) (\<lambda>_.
     bnd (tenantWhere context tenantId) (\<lambda>tw.
     Inr (jlist (map mapPaymentSettlement (rev (filter
       (\<lambda>p. of_tenant tw (pst_tenantId p) \<and> matches_given storeId (pst_storeId p) \<and>
            matches_given providerKey (Some (pst_providerKey p))) (paySettlements s)))))))"

definition listWebhookEvents ::
  "RequestContext \<Rightarrow> uuid option \<Rightarrow> uuid option \<Rightarrow> string option \<Rightarrow> pay_db \<Rightarrow> json result" where
  "listWebhookEvents context tenantId storeId providerKey s =
     bnd (checkStoreQuery context storeId) (\<lambda>_.
     bnd (tenantWhere context tenantId) (\<lambda>tw.
     Inr (jlist (map mapWebhookEvent (rev (filter
       (\<lambda>p. matches_given tw (pwe_tenantId p) \<and> matches_given storeId (pwe_storeId p) \<and>
            matches_given providerKey (Some (pwe_providerKey p))) (payWebhooks s)))))))"

definition listConnectorExecutions ::
  "RequestContext \<Rightarrow> uuid option \<Rightarrow> uuid option \<Rightarrow> string option \<Rightarrow> pay_db \<Rightarrow> json result" where
  "listConnectorExecutions context tenantId storeId providerKey s =
     bnd (checkStoreQuery context storeId) (\<lambda>_.
     bnd (tenantWhere context tenantId) (\<lambda>tw.
     Inr (jlist (map mapConnectorExecution (rev (filter
       (\<lambda>p. matches_given tw (cel_tenantId p) \<and> matches_given storeId (cel_storeId p) \<and>
            matches_given providerKey (Some (cel_connectorKey p))) (connectorLogs s)))))))"

definition listHardwareJobs ::
  "RequestContext \<Rightarrow> uuid option \<Rightarrow> uuid option \<Rightarrow> uuid option \<Rightarrow> pay_db \<Rightarrow> json result" where
  "listHardwareJobs context tenantId storeId orderId s =
     bnd (checkStoreQuery context storeId) (\<lambda>_.
     bnd (tenantWhere context tenantId) (\<lambda>tw.
     Inr (jlist (map mapHardwareJob (rev (filter
       (\<lambda>p. of_tenant tw (hj_tenantId p) \<and> matches_given storeId (Some (hj_storeId p)) \<and>
            matches_given orderId (hj_orderId p)) (hardwareJobs s)))))))"

definition listHardwareReceipts ::
  "RequestContext \<Rightarrow> uuid option \<Rightarrow> uuid option \<Rightarrow> uuid option \<Rightarrow> pay_db \<Rightarrow> json result" where
  "listHardwareReceipts context tenantId storeId orderId s =
     bnd (checkStoreQuery context storeId) (\<lambda>_.
     bnd (tenantWhere context tenantId) (\<lambda>tw.
     Inr (jlist (map mapHardwareReceipt (rev (filter
       (\<lambda>p. of_tenant tw (hr_tenantId p) \<and> matches_given storeId (Some (hr_storeId p)) \<and>
            matches_given orderId (hr_orderId p)) (hardwareReceipts s)))))))"

section \<open>Settlements\<close>

text \<open>The dates of a period are given as instants; \<open>None\<close> is a text that is no date.\<close>

record CreatePaymentSettlementDto =
  cps_tenantId :: "uuid option"
  cps_storeId :: "uuid option"
  cps_providerKey :: string
  cps_periodStart :: "instant option"
  cps_periodEnd :: "instant option"
  cps_totalAmount :: "string option"
  cps_settledAmount :: "string option"
  cps_summary :: "jobject option"

definition date_column :: "instant option \<Rightarrow> instant result" where
  "date_column m = orThrow m (JsError ''Provided Date object is invalid.'')"

definition createSettlement ::
  "RequestContext \<Rightarrow> instant \<Rightarrow> CreatePaymentSettlementDto \<Rightarrow> pay_db \<Rightarrow> (json \<times> pay_db) result" where
  "createSettlement context now dto s =
     bnd (resolveTenantId context (orElse (cps_tenantId dto) (ctx_tenantId context)) True) (\<lambda>tenantId.
     bnd (checkStoreQuery context (cps_storeId dto)) (\<lambda>_.
     bnd (date_column (cps_periodStart dto)) (\<lambda>periodStart.
     bnd (date_column (cps_periodEnd dto)) (\<lambda>periodEnd.
     bnd (decimal_of (nullish (cps_totalAmount dto) ''0.00'')) (\<lambda>totalAmount.
     bnd (decimal_of (nullish (orElse (cps_settledAmount dto) (cps_totalAmount dto)) ''0.00'')) (\<lambda>settledAmount.
     let created = \<lparr>pst_id = nextId (core s), pst_tenantId = tenantId, pst_storeId = cps_storeId dto,
           pst_providerKey = cps_providerKey dto, pst_status = ''IMPORTED'', pst_currency = ''RUB'',
           pst_periodStart = periodStart, pst_periodEnd = periodEnd, pst_totalAmount = totalAmount,
           pst_settledAmount = settledAmount, pst_summary = jobj_opt (cps_summary dto),
           pst_importedAt = Some now, pst_createdAt = now, pst_updatedAt = now\<rparr>;
         s1 = with_core bump (s\<lparr>paySettlements := paySettlements s @ [created]\<rparr>);
         s2 = with_core (domainEvents_record
           \<lparr>ob_tenantId = Some tenantId, ob_eventName = ''payment.settlement_imported'',
            ob_aggregate = ''payment_settlement'', ob_aggregateId = pst_id created,
            ob_payload = JObj [(''providerKey'', JStr (pst_providerKey created)),
              (''periodStart'', jtime (pst_periodStart created)),
              (''periodEnd'', jtime (pst_periodEnd created))]\<rparr>) s1 in
     Inr (mapPaymentSettlement created, s2)))))))"

section \<open>Webhooks\<close>

record ReceivePaymentWebhookDto =
  rpw_tenantId :: "uuid option"
  rpw_storeId :: "uuid option"
  rpw_deliveryId :: string
  rpw_eventType :: string
  rpw_signature :: "string option"
  rpw_payload :: json

definition buildWebhookContext :: "ReceivePaymentWebhookDto \<Rightarrow> RequestContext" where
  "buildWebhookContext dto =
     \<lparr>ctx_userId = ''system:webhook'', ctx_tenantId = rpw_tenantId dto, ctx_scope = PlatformAdmin,
      ctx_roleIds = [], ctx_permissions = [],
      ctx_storeIds = (if truthy (rpw_storeId dto) then [nullish (rpw_storeId dto) ''''] else []),
      ctx_deviceId = None\<rparr>"

definition webhook_order :: "PaymentProviderConfig \<Rightarrow> PaymentProviderConfig \<Rightarrow> bool" where
  "webhook_order a b \<longleftrightarrow>
     (if ppc_storeId a \<noteq> ppc_storeId b then store_desc (ppc_storeId a) (ppc_storeId b)
      else ppc_priority a \<le> ppc_priority b)"

definition new_webhook ::
  "instant \<Rightarrow> PaymentProviderConfig \<Rightarrow> string \<Rightarrow> ReceivePaymentWebhookDto \<Rightarrow> PaymentWebhookResolution \<Rightarrow>
   db \<Rightarrow> PaymentWebhookEvent" where
  "new_webhook now config providerKey dto webhook d =
     \<lparr>pwe_id = nextId d, pwe_tenantId = Some (ppc_tenantId config), pwe_storeId = ppc_storeId config,
      pwe_providerKey = providerKey, pwe_deliveryId = rpw_deliveryId dto,
      pwe_eventType = rpw_eventType dto,
      pwe_status = (if pwr_signatureValid webhook then ''RECEIVED'' else ''FAILED''),
      pwe_signatureValid = pwr_signatureValid webhook, pwe_payload = rpw_payload dto,
      pwe_processedAt = None,
      pwe_failureReason = (if pwr_signatureValid webhook then None else Some ''Invalid webhook signature''),
      pwe_createdAt = now\<rparr>"

definition webhook_update ::
  "uuid \<Rightarrow> (PaymentWebhookEvent \<Rightarrow> PaymentWebhookEvent) \<Rightarrow> pay_db \<Rightarrow> pay_db" where
  "webhook_update i f s = s\<lparr>payWebhooks := update_where (\<lambda>r. pwe_id r = i) f (payWebhooks s)\<rparr>"

definition failed_webhook :: "string \<Rightarrow> PaymentWebhookEvent \<Rightarrow> PaymentWebhookEvent" where
  "failed_webhook reason e = e\<lparr>pwe_status := ''FAILED'', pwe_failureReason := Some reason\<rparr>"

definition answered_attempt ::
  "instant \<Rightarrow> PaymentWebhookResolution \<Rightarrow> PaymentAttempt \<Rightarrow> PaymentAttempt" where
  "answered_attempt now webhook a = a\<lparr>
     pat_status := (if pwr_succeeded webhook then AttSucceeded else AttFailed),
     pat_responsePayload := pwr_payload webhook, pat_errorCode := pwr_errorCode webhook,
     pat_errorMessage := pwr_errorMessage webhook, pat_finishedAt := Some now\<rparr>"

definition answered_allocation ::
  "instant \<Rightarrow> string \<Rightarrow> string \<Rightarrow> PaymentWebhookResolution \<Rightarrow> PaymentAllocation \<Rightarrow> PaymentAllocation" where
  "answered_allocation now providerKey externalReference webhook a = a\<lparr>
     pal_status := (if pwr_succeeded webhook then AllCompleted else AllFailed),
     pal_providerKey := Some providerKey, pal_externalReference := Some externalReference,
     pal_completedAt := (if pwr_succeeded webhook then Some now else None),
     pal_failedAt := (if pwr_succeeded webhook then None else Some now),
     pal_failureReason := pwr_errorMessage webhook\<rparr>"

definition answered_operation ::
  "instant \<Rightarrow> PaymentWebhookResolution \<Rightarrow> PaymentOperation \<Rightarrow> PaymentOperation" where
  "answered_operation now webhook p = p\<lparr>
     po_status := (if pwr_succeeded webhook then ''COMPLETED'' else ''FAILED''),
     po_responsePayload := pwr_payload webhook, po_processedAt := Some now, po_updatedAt := now\<rparr>"

text \<open>The answer for an attempt or an operation, or why there is nothing it answers.\<close>

definition apply_webhook ::
  "instant \<Rightarrow> string \<Rightarrow> bool \<Rightarrow> PaymentWebhookResolution \<Rightarrow> string \<Rightarrow> pay_db \<Rightarrow>
   (string + uuid option \<times> pay_db) result" where
  "apply_webhook now providerKey autoConfirm webhook externalReference s =
     (if pwr_entityType webhook = PaymentAttemptEntity then
        (case find (\<lambda>a. pat_providerKey a = providerKey \<and> pat_externalReference a = Some externalReference)
                (payAttempts s) of
           None \<Rightarrow> Inr (Inl ''Payment attempt was not found for webhook.'')
         | Some attempt \<Rightarrow>
             let s1 = attempt_update (pat_id attempt) (answered_attempt now webhook) s;
                 s2 = allocation_update (pat_paymentAllocationId attempt)
                   (answered_allocation now providerKey externalReference webhook) s1 in
             bnd (loadIntent (pat_paymentIntentId attempt) s2) (\<lambda>(_, _, order).
             bnd (follow_allocations now (pat_paymentIntentId attempt) s2) (\<lambda>(intent, s3).
             Inr (Inr (if pi_status intent = IntCompleted \<and> autoConfirm \<and> ord_status order = PLACED
                       then Some (pi_orderId intent) else None, s3)))))
      else
        (case find (\<lambda>p. po_providerKey p = providerKey \<and> po_externalReference p = Some externalReference)
                (payOperations s) of
           None \<Rightarrow> Inr (Inl ''Payment operation was not found for webhook.'')
         | Some operation \<Rightarrow>
             let s1 = operation_update (po_id operation) (answered_operation now webhook) s;
                 s2 = with_core (order_update (po_orderId operation) (refunded now
                   (if pwr_succeeded webhook then NOT_REQUIRED else PENDING_MANUAL))) s1 in
             Inr (Inr (None, s2))))"

text \<open>What becomes of a delivery that was written down.\<close>

definition finish_webhook ::
  "instant \<Rightarrow> string \<Rightarrow> PaymentProviderConfig \<Rightarrow> ReceivePaymentWebhookDto \<Rightarrow> PaymentWebhookResolution \<Rightarrow>
   PaymentWebhookEvent \<Rightarrow> pay_db \<Rightarrow> (PaymentWebhookEvent \<times> uuid option \<times> pay_db) result" where
  "finish_webhook now providerKey providerConfig dto webhook baseEvent s =
     (let failed = (\<lambda>reason. (failed_webhook reason baseEvent, None,
            webhook_update (pwe_id baseEvent) (failed_webhook reason) s)) in
      if \<not> pwr_signatureValid webhook then Inr (baseEvent, None, s)
      else if \<not> truthy (pwr_externalReference webhook)
      then Inr (failed ''Webhook externalReference is required'')
      else bnd (apply_webhook now providerKey (ppc_autoConfirmOrderOnSuccess providerConfig) webhook
                  (nullish (pwr_externalReference webhook) '''') s) (\<lambda>answer.
        case answer of
          Inl reason \<Rightarrow> Inr (failed reason)
        | Inr (autoConfirmOrderId, s2) \<Rightarrow>
            let processed = (\<lambda>e. e\<lparr>pwe_status := ''PROCESSED'', pwe_processedAt := Some now\<rparr>);
                s3 = connector_log now (ppc_tenantId providerConfig) (ppc_storeId providerConfig)
                  ''PAYMENT_PROVIDER'' providerKey ''webhook''
                  (if pwr_succeeded webhook then ''COMPLETED'' else ''FAILED'') (rpw_payload dto)
                  (pwr_payload webhook) (pwr_errorMessage webhook) (Some now) s2 in
            Inr (processed baseEvent, autoConfirmOrderId, webhook_update (pwe_id baseEvent) processed s3)))"

definition receiveWebhookTx ::
  "cipher \<Rightarrow> instant \<Rightarrow> string \<Rightarrow> ReceivePaymentWebhookDto \<Rightarrow> pay_db \<Rightarrow>
   (PaymentWebhookEvent \<times> uuid option \<times> pay_db) result" where
  "receiveWebhookTx cy now providerKey dto s =
     (case find (\<lambda>e. pwe_providerKey e = providerKey \<and> pwe_deliveryId e = rpw_deliveryId dto) (payWebhooks s) of
        Some existing \<Rightarrow> Inr (existing, None, s)
      | None \<Rightarrow>
          bnd (orThrow (find (\<lambda>_. True) (sort_by webhook_order (filter (\<lambda>c. ppc_providerKey c = providerKey \<and>
                  (truthy (rpw_tenantId dto) \<longrightarrow> Some (ppc_tenantId c) = rpw_tenantId dto) \<and> ppc_enabled c)
                  (payConfigs s))))
                 (RecordNotFound ''PaymentProviderConfig'')) (\<lambda>providerConfig.
          bnd (resolveProviderConfigSettings cy (ppc_settings providerConfig)) (\<lambda>resolved.
          let webhook = resolvePaymentWebhook
                \<lparr>pac_providerKey = providerKey, pac_providerType = ppc_providerType providerConfig,
                 pac_method = ppc_method providerConfig, pac_settings = rps_publicSettings resolved,
                 pac_secrets = rps_resolvedSecrets resolved\<rparr>
                (rpw_signature dto) (rpw_eventType dto) (rpw_payload dto);
              baseEvent = new_webhook now providerConfig providerKey dto webhook (core s) in
          finish_webhook now providerKey providerConfig dto webhook baseEvent
            (with_core bump (s\<lparr>payWebhooks := payWebhooks s @ [baseEvent]\<rparr>)))))"

definition receiveWebhook ::
  "cipher \<Rightarrow> instant \<Rightarrow> string \<Rightarrow> ReceivePaymentWebhookDto \<Rightarrow> pay_db \<Rightarrow> (error + json) \<times> pay_db" where
  "receiveWebhook cy now providerKey dto s =
     (case receiveWebhookTx cy now providerKey dto s of
        Inl e \<Rightarrow> (Inl e, s)
      | Inr (event, autoConfirmOrderId, s1) \<Rightarrow>
          (case auto_confirm (buildWebhookContext dto) now (truthy autoConfirmOrderId)
                  (nullish autoConfirmOrderId '''') s1 of
             (Inl e, s2) \<Rightarrow> (Inl e, s2)
           | (Inr _, s2) \<Rightarrow> (Inr (mapWebhookEvent event), s2)))"


section \<open>Hardware\<close>

record CreateHardwareJobDto =
  chj_tenantId :: "uuid option"
  chj_storeId :: uuid
  chj_orderId :: "uuid option"
  chj_deviceId :: "uuid option"
  chj_connectorKey :: string
  chj_kind :: string
  chj_requestPayload :: "jobject option"

definition hardware_connector :: "string \<Rightarrow> string" where
  "hardware_connector kind =
     (if kind = ''SCANNER_SYNC'' then ''SCANNER_BRIDGE''
      else if kind = ''TERMINAL_CAPTURE'' then ''TERMINAL_BRIDGE''
      else if kind = ''PRINT_RECEIPT'' then ''PRINTER_ADAPTER'' else ''FISCAL_ADAPTER'')"

definition new_job ::
  "RequestContext \<Rightarrow> instant \<Rightarrow> uuid \<Rightarrow> CreateHardwareJobDto \<Rightarrow> bool \<Rightarrow> db \<Rightarrow> HardwareJob" where
  "new_job context now tenantId dto shouldFail d =
     \<lparr>hj_id = nextId d, hj_tenantId = tenantId, hj_storeId = chj_storeId dto, hj_orderId = chj_orderId dto,
      hj_deviceId = chj_deviceId dto, hj_connectorKey = chj_connectorKey dto, hj_kind = chj_kind dto,
      hj_status = (if shouldFail then ''FAILED'' else ''COMPLETED''),
      hj_requestPayload = jobj_opt (chj_requestPayload dto),
      hj_resultPayload = JObj [(''completed'', JBool (\<not> shouldFail)),
        (''connectorKey'', JStr (chj_connectorKey dto)), (''kind'', JStr (chj_kind dto))],
      hj_failureReason = (if shouldFail then Some ''Hardware adapter simulated failure.'' else None),
      hj_createdByUserId = resolveCreatedByUserId context, hj_finishedAt = Some now, hj_createdAt = now,
      hj_updatedAt = now\<rparr>"

definition new_receipt :: "instant \<Rightarrow> HardwareJob \<Rightarrow> db \<Rightarrow> HardwareReceipt" where
  "new_receipt now job d =
     \<lparr>hr_id = nextId d, hr_tenantId = hj_tenantId job, hr_storeId = hj_storeId job,
      hr_hardwareJobId = Some (hj_id job), hr_orderId = hj_orderId job, hr_receiptType = hj_kind job,
      hr_externalReference = Some (hj_connectorKey job @ ''-'' @ take 8 (hj_id job)),
      hr_payload = JObj [(''connectorKey'', JStr (hj_connectorKey job)), (''kind'', JStr (hj_kind job))],
      hr_createdAt = now\<rparr>"

definition createHardwareJob ::
  "RequestContext \<Rightarrow> instant \<Rightarrow> CreateHardwareJobDto \<Rightarrow> pay_db \<Rightarrow> (json \<times> pay_db) result" where
  "createHardwareJob context now dto s =
     bnd (resolveTenantId context (orElse (chj_tenantId dto) (ctx_tenantId context)) True) (\<lambda>tenantId.
     bnd (enforceStoreAccess context (chj_storeId dto)) (\<lambda>_.
     let shouldFail = (setting_of (chj_requestPayload dto) ''forceFailure'' = Some (JBool True));
         job = new_job context now tenantId dto shouldFail (core s);
         s1 = with_core bump (s\<lparr>hardwareJobs := hardwareJobs s @ [job]\<rparr>);
         s2 = (if shouldFail then s1
               else with_core bump (s1\<lparr>hardwareReceipts := hardwareReceipts s1 @ [new_receipt now job (core s1)]\<rparr>));
         s3 = connector_log now tenantId (Some (chj_storeId dto)) (hardware_connector (chj_kind dto))
           (chj_connectorKey dto) ''hardware_job'' (hj_status job) (hj_requestPayload job)
           (JObj [(''hardwareJobId'', JStr (hj_id job)), (''status'', JStr (hj_status job))])
           (hj_failureReason job) (Some now) s2 in
     Inr (mapHardwareJob job, s3)))"

section \<open>Reconciliation\<close>

text \<open>A \<open>Map\<close> in insertion order from a key to a count and amounts, as the loops of the summary fill it.\<close>

fun tally :: "'k \<Rightarrow> int list \<Rightarrow> ('k \<times> int \<times> int list) list \<Rightarrow> ('k \<times> int \<times> int list) list" where
  "tally key amounts [] = [(key, 1, amounts)]"
| "tally key amounts ((k, n, ms) # rest) =
     (if k = key then (k, n + 1, map2 (+) ms amounts) # rest else (k, n, ms) # tally key amounts rest)"

definition intents_by_status :: "PaymentIntent list \<Rightarrow> (PaymentIntentStatus \<times> int \<times> int list) list" where
  "intents_by_status intents =
     foldl (\<lambda>m i. tally (pi_status i) [pi_totalAmount i, pi_paidAmount i] m) [] intents"

definition allocations_by_method ::
  "PaymentAllocation list \<Rightarrow> ((PaymentMethodKind \<times> PaymentAllocationStatus) \<times> int \<times> int list) list" where
  "allocations_by_method allocations =
     foldl (\<lambda>m a. tally (pal_method a, pal_status a) [pal_amount a] m) [] allocations"

definition reconciliationSummary ::
  "RequestContext \<Rightarrow> instant \<Rightarrow> uuid option \<Rightarrow> uuid option \<Rightarrow> pay_db \<Rightarrow> json result" where
  "reconciliationSummary context now tenantId storeId s =
     bnd (summary_tenant context tenantId) (\<lambda>tw.
     bnd (checkStoreQuery context storeId) (\<lambda>_.
     let intents = filter (\<lambda>i. in_scope context tw storeId (pi_tenantId i) (pi_storeId i)) (payIntents s);
         allocations = filter (\<lambda>a. list_ex (\<lambda>i. pi_id i = pal_paymentIntentId a) intents) (payAllocations s);
         failedAttemptsCount = length (filter (\<lambda>a. pat_status a = AttFailed \<and>
           in_scope context tw storeId (pat_tenantId a) (pat_storeId a)) (payAttempts s)) in
     Inr (JObj
       [(''tenantId'', jopt tw), (''storeId'', jopt storeId), (''generatedAt'', jtime now),
        (''intentsByStatus'', JArr (map (\<lambda>(status, n, ms). JObj
           [(''status'', JStr (show_intent_status status)), (''count'', jint n),
            (''totalAmount'', jmoney (ms ! 0)), (''paidAmount'', jmoney (ms ! 1))])
           (intents_by_status intents))),
        (''allocationsByMethod'', JArr (map (\<lambda>((method, status), n, ms). JObj
           [(''method'', JStr (show_method method)), (''status'', JStr (show_allocation_status status)),
            (''count'', jint n), (''amount'', jmoney (ms ! 0))])
           (allocations_by_method allocations))),
        (''failedAttempts'', JObj [(''count'', jint (int failedAttemptsCount))])])))"


end
