(* ===== verification/PaymentLaws.thy ===== *)
theory PaymentLaws
  imports PaymentOps System
begin

text \<open>
  What the payment handlers guarantee: an intent asks for the total of its order, its allocations add
  up to it, and what it says is paid is the sum of its completed allocations, whichever handler, webhook
  or service wrote last.
\<close>

text \<open>An update that a test does not see.\<close>

section \<open>The state of an intent\<close>

definition amount_of :: "uuid \<Rightarrow> PaymentAllocation list \<Rightarrow> int" where
  "amount_of i rows = (\<Sum>a\<leftarrow>rows. if pal_paymentIntentId a = i then pal_amount a else 0)"

definition paid_of :: "uuid \<Rightarrow> PaymentAllocation list \<Rightarrow> int" where
  "paid_of i rows =
     (\<Sum>a\<leftarrow>rows. if pal_paymentIntentId a = i \<and> pal_status a = AllCompleted then pal_amount a else 0)"

lemma completed_sum:
  "foldl (\<lambda>acc (amount, status). if status \<noteq> AllCompleted then acc else acc + amount) n
     (map (\<lambda>a. (pal_amount a, pal_status a)) (filter (\<lambda>a. pal_paymentIntentId a = i) rows)) = n + paid_of i rows"
  by (induction rows arbitrary: n) (simp_all add: paid_of_def)

lemma resolve_state:
  "resolvePaymentIntentState t (map (\<lambda>a. (pal_amount a, pal_status a)) (intent_allocations i s)) = (status, paid) \<Longrightarrow>
     paid = paid_of i (payAllocations s) \<and> (status = IntCompleted \<longleftrightarrow> paid = t) \<and>
     (status = IntPartiallyPaid \<longleftrightarrow> paid \<noteq> t \<and> 0 < paid)"
  using completed_sum [of 0 i "payAllocations s"]
  by (auto simp: resolvePaymentIntentState_def intent_allocations_def Let_def split: if_splits)

section \<open>The invariant\<close>

definition of_order :: "PaymentIntent \<Rightarrow> Order \<Rightarrow> bool" where
  "of_order i r \<longleftrightarrow> ord_id r = pi_orderId i \<and> ord_tenantId r = pi_tenantId i \<and>
     ord_storeId r = pi_storeId i \<and> ord_channel r = pi_channel i \<and> ord_total r = pi_totalAmount i"

definition intent_consistent :: "PaymentIntent \<Rightarrow> PaymentAllocation list \<Rightarrow> bool" where
  "intent_consistent i rows \<longleftrightarrow> pi_totalAmount i = amount_of (pi_id i) rows \<and>
     pi_paidAmount i = paid_of (pi_id i) rows \<and> (pi_status i = IntCompleted \<longrightarrow> pi_paidAmount i = pi_totalAmount i)"

definition pay_ok :: "pay_db \<Rightarrow> bool" where
  "pay_ok s \<longleftrightarrow> api_ok (core s) \<and> distinct (map pi_id (payIntents s)) \<and>
     distinct (map pal_id (payAllocations s)) \<and>
     fresh_from (db_seq (core s)) (map pi_id (payIntents s)) \<and>
     fresh_from (db_seq (core s)) (map pal_id (payAllocations s)) \<and>
     (\<forall>i \<in> set (payIntents s). intent_consistent i (payAllocations s) \<and>
        (\<exists>r \<in> set (orders (core s)). of_order i r)) \<and>
     (\<forall>a \<in> set (payAllocations s). pal_paymentIntentId a \<in> set (map pi_id (payIntents s))) \<and>
     (\<forall>t \<in> set (payAttempts s). \<exists>a \<in> set (payAllocations s).
        pal_id a = pat_paymentAllocationId t \<and> pal_paymentIntentId a = pat_paymentIntentId t)"

lemma pay_okD:
  assumes "pay_ok s"
  shows "api_ok (core s)" "distinct (map pi_id (payIntents s))" "distinct (map pal_id (payAllocations s))"
    "fresh_from (db_seq (core s)) (map pi_id (payIntents s))"
    "fresh_from (db_seq (core s)) (map pal_id (payAllocations s))"
    "i \<in> set (payIntents s) \<Longrightarrow> intent_consistent i (payAllocations s)"
    "i \<in> set (payIntents s) \<Longrightarrow> \<exists>r \<in> set (orders (core s)). of_order i r"
    "a \<in> set (payAllocations s) \<Longrightarrow> pal_paymentIntentId a \<in> set (map pi_id (payIntents s))"
    "t \<in> set (payAttempts s) \<Longrightarrow> \<exists>a \<in> set (payAllocations s).
        pal_id a = pat_paymentAllocationId t \<and> pal_paymentIntentId a = pat_paymentIntentId t"
  using assms by (auto simp: pay_ok_def)

lemma of_order_grows:
  assumes "order_grows d d'" and "\<exists>r \<in> set (orders d). of_order i r"
  shows "\<exists>r \<in> set (orders d'). of_order i r"
  using assms unfolding order_grows_def of_order_def same_place_def by metis

text \<open>The tables of the core moved on, those of the payments stand.\<close>

lemma pay_ok_core:
  assumes ok: "pay_ok s" and c: "api_ok (core s')" "order_grows (core s) (core s')"
    and same: "payIntents s' = payIntents s" "payAllocations s' = payAllocations s" "payAttempts s' = payAttempts s"
  shows "pay_ok s'"
proof -
  note D = pay_okD [OF ok]
  have n: "db_seq (core s) \<le> db_seq (core s')" using c(2) by (simp add: order_grows_def)
  have "\<forall>i \<in> set (payIntents s). intent_consistent i (payAllocations s) \<and> (\<exists>r \<in> set (orders (core s')). of_order i r)"
    using D(6) of_order_grows [OF c(2) D(7)] by simp
  then show ?thesis
    using c(1) D(2,3) D(8,9) fresh_from_mono [OF D(4) n] fresh_from_mono [OF D(5) n] unfolding pay_ok_def same by simp
qed

section \<open>What a handler may do to the core\<close>

lemma pay_log_logged: "logged d (pay_log context t st a e i p q d)"
  unfolding logged_def by (cases d) auto

lemma core_step_refund: "core_step d (order_update i (refunded now st) d)"
  by (rule core_step_order) (simp add: own_change_def same_place_def order_consistent_def refunded_def)

lemma pay_ok_core_step:
  assumes "pay_ok s" and "core_step (core s) (core s')"
    and "payIntents s' = payIntents s" "payAllocations s' = payAllocations s" "payAttempts s' = payAttempts s"
  shows "pay_ok s'"
  using assms pay_okD(1) [OF assms(1)] by (intro pay_ok_core [OF assms(1)]) (auto simp: core_step_def)

section \<open>Changing allocations of one intent\<close>

text \<open>
  The shape of every payment step on existing rows: allocations of one intent change their status, the
  intent follows or keeps what it says is paid, attempts stay attached.
\<close>

lemma pay_ok_change:
  assumes ok: "pay_ok s" and c: "core_step (core s) (core s')"
    and al: "payAllocations s' = update_where P f (payAllocations s)"
    and f: "\<And>a. pal_id (f a) = pal_id a \<and> pal_paymentIntentId (f a) = pal_paymentIntentId a \<and> pal_amount (f a) = pal_amount a"
    and P: "\<And>a. a \<in> set (payAllocations s) \<Longrightarrow> P a \<Longrightarrow> pal_paymentIntentId a = i"
    and it: "payIntents s' = update_where (\<lambda>r. pi_id r = i) g (payIntents s)"
    and g: "\<And>r. pi_id (g r) = pi_id r \<and> pi_orderId (g r) = pi_orderId r \<and> pi_tenantId (g r) = pi_tenantId r \<and>
      pi_storeId (g r) = pi_storeId r \<and> pi_channel (g r) = pi_channel r \<and> pi_totalAmount (g r) = pi_totalAmount r"
    and paid: "\<And>r. r \<in> set (payIntents s) \<Longrightarrow> pi_id r = i \<Longrightarrow> pi_paidAmount (g r) = paid_of i (payAllocations s') \<and>
      (pi_status (g r) = IntCompleted \<longrightarrow> pi_paidAmount (g r) = pi_totalAmount r)"
    and at: "\<And>t. t \<in> set (payAttempts s') \<Longrightarrow> \<exists>a \<in> set (payAllocations s).
        pal_id a = pat_paymentAllocationId t \<and> pal_paymentIntentId a = pat_paymentIntentId t"
  shows "pay_ok s'"
proof -
  note D = pay_okD [OF ok]
  have c': "api_ok (core s')" "order_grows (core s) (core s')" using c D(1) by (auto simp: core_step_def)
  then have n: "db_seq (core s) \<le> db_seq (core s')" by (simp add: order_grows_def)
  have ids: "map pi_id (payIntents s') = map pi_id (payIntents s)" "map pal_id (payAllocations s') = map pal_id (payAllocations s)"
    unfolding it al using f g by (auto intro: map_update_where_key)
  have am: "amount_of j (payAllocations s') = amount_of j (payAllocations s)" for j
    unfolding al amount_of_def
    by (rule arg_cong [of _ _ sum_list], rule map_update_where_key) (simp add: f)
  have other: "paid_of j (payAllocations s') = paid_of j (payAllocations s)" if "j \<noteq> i" for j
  proof -
    have "paid_of j (update_where P f rows) = paid_of j rows"
      if "\<And>a. a \<in> set rows \<Longrightarrow> P a \<Longrightarrow> pal_paymentIntentId a = i" for rows
      using that \<open>j \<noteq> i\<close> f by (induction rows) (auto simp: paid_of_def update_where_Cons)
    then show ?thesis unfolding al using P by blast
  qed
  have "intent_consistent r (payAllocations s') \<and> (\<exists>x \<in> set (orders (core s')). of_order r x)"
    if r: "r \<in> set (payIntents s')" for r
  proof -
    from r obtain r0 where r0: "r0 \<in> set (payIntents s)" "r = (if pi_id r0 = i then g r0 else r0)"
      unfolding it update_where_def by auto
    have "of_order r x = of_order r0 x" for x using r0(2) g [of r0] by (auto simp: of_order_def)
    moreover have "intent_consistent r (payAllocations s')"
      using D(6) [OF r0(1)] r0 g [of r0] paid [OF r0(1)] am other
      by (auto simp: intent_consistent_def split: if_splits)
    ultimately show ?thesis using of_order_grows [OF c'(2) D(7) [OF r0(1)]] by simp
  qed
  moreover have "pal_paymentIntentId a \<in> set (map pi_id (payIntents s'))" if "a \<in> set (payAllocations s')" for a
    using that D(8) f unfolding ids al by (auto simp: update_where_def)
  moreover have "\<exists>a \<in> set (payAllocations s'). pal_id a = pat_paymentAllocationId t \<and> pal_paymentIntentId a = pat_paymentIntentId t"
    if "t \<in> set (payAttempts s')" for t
    unfolding al using at [OF that] by (subst bex_update_where) (simp_all add: f)
  ultimately show ?thesis
    unfolding pay_ok_def using c'(1) D(2-5) fresh_from_mono [OF _ n] ids by simp
qed

section \<open>Creating an intent\<close>

lemma new_allocations:
  assumes "create_rows (new_allocation now t i) parts n = (rows, m)"
  shows "map pal_id rows = map newId [n..<m] \<and> m = n + length parts \<and>
    (\<forall>a \<in> set rows. pal_paymentIntentId a = i \<and> pal_status a = AllPending) \<and>
    sum_list (map pal_amount rows) = sum_list (map snd parts)"
  using assms
proof (induction parts arbitrary: n rows m)
  case (Cons p parts)
  obtain pay_by c where p: "p = (pay_by, c)" by (cases p)
  obtain x where x: "new_allocation now t i n p = (x, Suc n)" by (simp add: new_allocation_def p)
  obtain rows' k where q: "create_rows (new_allocation now t i) parts (Suc n) = (rows', k)" by fastforce
  from Cons.prems x q have r: "create_rows (new_allocation now t i) parts (Suc n) = (rows', m)" "rows = x # rows'"
    by simp_all
  note I = Cons.IH [OF r(1)]
  have "[n..<m] = n # [Suc n..<m]" using I by (intro upt_conv_Cons) simp
  with I r(2) x show ?case by (auto simp: new_allocation_def p simp del: upt_Suc)
qed simp

lemma amount_of_append: "amount_of i (xs @ ys) = amount_of i xs + amount_of i ys"
  by (simp add: amount_of_def)

lemma paid_of_append: "paid_of i (xs @ ys) = paid_of i xs + paid_of i ys"
  by (simp add: paid_of_def)

lemma amount_of_all: "(\<And>a. a \<in> set xs \<Longrightarrow> pal_paymentIntentId a = i) \<Longrightarrow> amount_of i xs = sum_list (map pal_amount xs)"
  unfolding amount_of_def by (induction xs) auto

lemma amount_of_none: "(\<And>a. a \<in> set xs \<Longrightarrow> pal_paymentIntentId a \<noteq> i) \<Longrightarrow> amount_of i xs = 0"
  unfolding amount_of_def by (induction xs) auto

lemma paid_of_none: "(\<And>a. a \<in> set xs \<Longrightarrow> pal_paymentIntentId a \<noteq> i \<or> pal_status a \<noteq> AllCompleted) \<Longrightarrow> paid_of i xs = 0"
  unfolding paid_of_def by (induction xs) auto

text \<open>The validated allocations add up to the total they were checked against.\<close>

lemma validateAllocations_sum:
  assumes "payment_validateAllocations als (formatCents t) = Inr (tot, normalized)"
    and "mapE (\<lambda>a. bnd (decimal_of (pa_amount a)) (\<lambda>c. Inr (pa_method a, c))) normalized = Inr parts"
  shows "tot = formatCents t \<and> sum_list (map snd parts) = t \<and> parts \<noteq> []"
proof -
  have fold: "k = n + sum_list (map snd zs) \<and> length zs = length xs"
    if "foldE (\<lambda>a acc. bnd (decimal_of (pa_amount a)) (\<lambda>c. Inr (acc + c))) xs n = Inr k"
      "mapE (\<lambda>a. bnd (decimal_of (pa_amount a)) (\<lambda>c. Inr \<lparr>pa_method = pa_method a, pa_amount = formatCents c\<rparr>)) xs = Inr ys"
      "mapE (\<lambda>a. bnd (decimal_of (pa_amount a)) (\<lambda>c. Inr (pa_method a, c))) ys = Inr zs" for xs n k ys zs
    using that
  proof (induction xs arbitrary: n ys zs)
    case (Cons a xs)
    then obtain c ys' zs' where c: "decimal_of (pa_amount a) = Inr c"
      "foldE (\<lambda>a acc. bnd (decimal_of (pa_amount a)) (\<lambda>c. Inr (acc + c))) xs (n + c) = Inr k"
      "mapE (\<lambda>a. bnd (decimal_of (pa_amount a)) (\<lambda>c. Inr \<lparr>pa_method = pa_method a, pa_amount = formatCents c\<rparr>)) xs = Inr ys'"
      "mapE (\<lambda>a. bnd (decimal_of (pa_amount a)) (\<lambda>c. Inr (pa_method a, c))) ys' = Inr zs'"
      "zs = (pa_method a, c) # zs'" by auto
    from Cons.IH [OF c(2-4)] c(5) show ?case by simp
  qed auto
  from assms(1) obtain k ys where
    "foldE (\<lambda>a acc. bnd (decimal_of (pa_amount a)) (\<lambda>c. Inr (acc + c))) als 0 = Inr k"
    "mapE (\<lambda>a. bnd (decimal_of (pa_amount a)) (\<lambda>c. Inr \<lparr>pa_method = pa_method a, pa_amount = formatCents c\<rparr>)) als = Inr normalized"
    "k = t" "tot = formatCents k" "als \<noteq> []"
    by (auto simp: payment_validateAllocations_def split: if_splits)
  with fold [OF _ _ assms(2), of als 0 k] show ?thesis by auto
qed


lemma find_none_active: "find (active_intent o') rows = None \<longleftrightarrow> (\<forall>i \<in> set rows. \<not> active_intent o' i)"
  by (simp add: find_None_iff) blast

lemma check_intent_Inr:
  assumes "check_intent context dto s = Inr p"
  shows "order_get (cpi_orderId dto) (core s) = Some (ip_order p)" "ip_tenantId p = ord_tenantId (ip_order p)"
    "cpi_storeId dto = ord_storeId (ip_order p)"
    "nullish (cpi_channel dto) (ord_channel (ip_order p)) = ord_channel (ip_order p)"
    "\<And>i. i \<in> set (payIntents s) \<Longrightarrow> \<not> active_intent (ord_id (ip_order p)) i"
proof -
  from assms obtain r session where *: "loadOrder (cpi_orderId dto) (core s) = Inr r"
    "ord_storeId r = cpi_storeId dto" "nullish (cpi_channel dto) (ord_channel r) = ord_channel r"
    "find (active_intent (ord_id r)) (payIntents s) = None" "ip_order p = r" "ip_tenantId p = ord_tenantId r"
    unfolding check_intent_def Let_def by auto
  then show "order_get (cpi_orderId dto) (core s) = Some (ip_order p)" "ip_tenantId p = ord_tenantId (ip_order p)"
    "cpi_storeId dto = ord_storeId (ip_order p)"
    "nullish (cpi_channel dto) (ord_channel (ip_order p)) = ord_channel (ip_order p)"
    "\<And>i. i \<in> set (payIntents s) \<Longrightarrow> \<not> active_intent (ord_id (ip_order p)) i"
    by (simp_all add: loadOrder_Inr find_none_active)
qed

lemma createIntent_Inr:
  assumes "createIntent context now dto s = Inr (v, s')"
  shows "\<exists>r intent rows n. order_get (cpi_orderId dto) (core s) = Some r \<and> of_order intent r \<and>
    pi_id intent = newId (db_seq (core s)) \<and> pi_status intent = IntPending \<and> pi_paidAmount intent = 0 \<and>
    map pal_id rows = map newId [Suc (db_seq (core s))..<n] \<and> db_seq (core s) < n \<and>
    (\<forall>a \<in> set rows. pal_paymentIntentId a = pi_id intent \<and> pal_status a = AllPending) \<and>
    sum_list (map pal_amount rows) = pi_totalAmount intent \<and>
    (\<forall>i \<in> set (payIntents s). \<not> active_intent (ord_id r) i) \<and>
    payIntents s' = payIntents s @ [intent] \<and> payAllocations s' = payAllocations s @ rows \<and>
    payAttempts s' = payAttempts s \<and> logged (core s) (core s') \<and> n \<le> db_seq (core s')"
proof -
  from assms obtain p tot normalized totalCents parts where
    p: "check_intent context dto s = Inr p"
    and val: "payment_validateAllocations (cpi_allocations dto) (formatCents (ord_total (ip_order p))) = Inr (tot, normalized)"
    and tc: "decimal_of tot = Inr totalCents"
    and parts: "mapE (\<lambda>a. bnd (decimal_of (pa_amount a)) (\<lambda>c. Inr (pa_method a, c))) normalized = Inr parts"
    and place: "place_intent context now dto p totalCents parts s = (v, s')"
    unfolding createIntent_def by auto
  note C = check_intent_Inr [OF p]
  note V = validateAllocations_sum [OF val parts]
  let ?i = "new_intent context now (ip_tenantId p) dto (ip_order p) (ip_session p) (ip_shiftId p)
      (ip_deviceId p) totalCents (core s)"
  obtain rows n where rows: "create_rows (new_allocation now (ip_tenantId p) (pi_id ?i)) parts (Suc (db_seq (core s))) = (rows, n)"
    by fastforce
  note R = new_allocations [OF rows]
  have total: "totalCents = ord_total (ip_order p)" using tc V by simp
  have i: "of_order ?i (ip_order p)" "pi_id ?i = newId (db_seq (core s))" "pi_status ?i = IntPending"
    "pi_paidAmount ?i = 0" "pi_totalAmount ?i = totalCents"
    using C by (simp_all add: of_order_def new_intent_def total)
  have s': "payIntents s' = payIntents s @ [?i]" "payAllocations s' = payAllocations s @ rows"
    "payAttempts s' = payAttempts s" "logged ((core s)\<lparr>db_seq := n\<rparr>) (core s')"
    using place rows pay_log_logged
    by (auto simp: place_intent_def Let_def intent_create_def split: prod.splits simp del: pay_log_def)
  have n: "db_seq (core s) < n" using R by simp
  then have "logged (core s) (core s')" using logged_trans [OF seq_logged s'(4)] by simp
  moreover have "n \<le> db_seq (core s')" using loggedD(9) [OF s'(4)] by simp
  ultimately show ?thesis
    using C(1,5) i s'(1-3) R V n total by (intro exI [of _ "ip_order p"] exI [of _ ?i] exI [of _ rows] exI [of _ n]) simp
qed

lemma createIntent_ok:
  assumes ok: "pay_ok s" and run: "createIntent context now dto s = Inr (v, s')"
  shows "pay_ok s'"
proof -
  note D = pay_okD [OF ok]
  let ?n0 = "db_seq (core s)"
  from createIntent_Inr [OF run] obtain r intent rows n where
    r: "order_get (cpi_orderId dto) (core s) = Some r" "of_order intent r"
    and it: "pi_id intent = newId ?n0" "pi_status intent = IntPending" "pi_paidAmount intent = 0"
    and rows: "map pal_id rows = map newId [Suc ?n0..<n]" "?n0 < n"
      "\<forall>a \<in> set rows. pal_paymentIntentId a = pi_id intent \<and> pal_status a = AllPending"
      "sum_list (map pal_amount rows) = pi_totalAmount intent"
    and s': "payIntents s' = payIntents s @ [intent]" "payAllocations s' = payAllocations s @ rows"
      "payAttempts s' = payAttempts s"
    and l: "logged (core s) (core s')" "n \<le> db_seq (core s')" by blast
  have c: "api_ok (core s')" "order_grows (core s) (core s')"
    using core_step_logged [OF l(1)] D(1) by (auto simp: core_step_def)
  have new: "newId ?n0 \<notin> set (map pi_id (payIntents s))" by (rule fresh_fromD [OF D(4)]) simp
  have old: "pal_paymentIntentId a \<noteq> newId ?n0" if "a \<in> set (payAllocations s)" for a
    using D(8) [OF that] new by metis
  have dist: "distinct (map pal_id (payAllocations s'))"
  proof -
    have "distinct (map newId [Suc ?n0..<n])" by (simp add: distinct_map inj_on_def)
    moreover have "newId k \<notin> set (map pal_id (payAllocations s))" if "Suc ?n0 \<le> k" for k
      using fresh_fromD [OF D(5), of k] that by simp
    then have "set (map newId [Suc ?n0..<n]) \<inter> set (map pal_id (payAllocations s)) = {}"
      by (auto simp del: set_map simp: in_set_conv_nth)
    ultimately show ?thesis using D(3) unfolding s'(2) map_append rows(1) by auto
  qed
  have fr: "fresh_from (db_seq (core s')) (map newId [Suc ?n0..<n])"
    using l(2) by (auto simp: fresh_from_def)
  have "intent_consistent intent (payAllocations s')"
    using rows(3,4) it old
    by (simp add: intent_consistent_def s'(2) amount_of_append paid_of_append amount_of_none amount_of_all paid_of_none)
  moreover have "intent_consistent i (payAllocations s')" if i: "i \<in> set (payIntents s)" for i
  proof -
    have "pi_id i \<noteq> newId ?n0" using new i by (metis image_eqI list.set_map)
    then show ?thesis using D(6) [OF i] rows(3) it(1)
      by (auto simp: intent_consistent_def s'(2) amount_of_append paid_of_append amount_of_none paid_of_none)
  qed
  moreover have "\<exists>x \<in> set (orders (core s')). of_order intent x"
    using of_order_grows [OF c(2)] order_getD [OF r(1)] r(2) by blast
  moreover have "\<exists>x \<in> set (orders (core s')). of_order i x" if "i \<in> set (payIntents s)" for i
    using of_order_grows [OF c(2) D(7) [OF that]] .
  moreover have "pal_paymentIntentId a \<in> set (map pi_id (payIntents s'))" if "a \<in> set (payAllocations s')" for a
    using that D(8) rows(3) unfolding s' by auto
  moreover have "\<exists>a \<in> set (payAllocations s'). pal_id a = pat_paymentAllocationId t \<and> pal_paymentIntentId a = pat_paymentIntentId t"
    if "t \<in> set (payAttempts s')" for t
    using that D(9) unfolding s' by fastforce
  ultimately show ?thesis
    unfolding pay_ok_def using c(1) dist D(2,4,5) new it(1) fr l(2) rows(1,2) loggedD(9) [OF l(1)]
    by (auto simp: s' fresh_from_mono)
qed

section \<open>Cancelling and processing\<close>

lemma loadIntent_Inr:
  "loadIntent i s = Inr (intent, as, order) \<longleftrightarrow> intent_get i s = Some intent \<and> as = intent_allocations i s \<and>
     order_get (pi_orderId intent) (core s) = Some order"
  by (auto simp: loadIntent_def loadOrder_Inr)

lemma intent_getD: "intent_get i s = Some r \<Longrightarrow> r \<in> set (payIntents s) \<and> pi_id r = i"
  by (auto simp: intent_get_def dest: find_SomeD)

lemma intent_unique: "pay_ok s \<Longrightarrow> intent_get i s = Some r \<Longrightarrow> x \<in> set (payIntents s) \<Longrightarrow> pi_id x = i \<Longrightarrow> x = r"
  using distinct_key_eq [OF pay_okD(2)] intent_getD by metis

lemma cancelIntent_Inr:
  assumes "cancelIntent context now i reason s = Inr (v, s')"
  shows "\<exists>r. intent_get i s = Some r \<and> pi_status r \<noteq> IntCompleted \<and> pi_paidAmount r = 0 \<and>
    payIntents s' = update_where (\<lambda>r. pi_id r = i) (\<lambda>r. r\<lparr>pi_status := IntCancelled, pi_updatedAt := now\<rparr>) (payIntents s) \<and>
    payAllocations s' = payAllocations (cancelled_allocations i s) \<and>
    payAttempts s' = payAttempts s \<and> logged (core s) (core s')"
proof -
  have "formatCents c = ''0.00'' \<Longrightarrow> c = 0" for c
  proof -
    assume "formatCents c = ''0.00''"
    moreover have "formatCents 0 = ''0.00''" by code_simp
    ultimately show "c = 0" by (metis formatCents_inj)
  qed
  then show ?thesis
    using assms pay_log_logged intent_getD [of i s]
    by (auto simp: cancelIntent_def loadIntent_Inr Let_def intent_update_def cancelled_allocations_def
        simp del: pay_log_def)
qed

lemma paid_of_update:
  assumes "\<And>a. pal_paymentIntentId (f a) = pal_paymentIntentId a \<and> pal_amount (f a) = pal_amount a"
    and "\<And>a. a \<in> set rows \<Longrightarrow> P a \<Longrightarrow> pal_status a \<noteq> AllCompleted \<and> pal_status (f a) \<noteq> AllCompleted"
  shows "paid_of i (update_where P f rows) = paid_of i rows"
  using assms(2) by (induction rows) (auto simp: paid_of_def update_where_Cons assms(1))

lemma cancelIntent_ok:
  assumes ok: "pay_ok s" and run: "cancelIntent context now i reason s = Inr (v, s')"
  shows "pay_ok s'"
proof -
  from cancelIntent_Inr [OF run] obtain r where r: "intent_get i s = Some r" "pi_paidAmount r = 0"
    and it: "payIntents s' = update_where (\<lambda>r. pi_id r = i) (\<lambda>r. r\<lparr>pi_status := IntCancelled, pi_updatedAt := now\<rparr>) (payIntents s)"
    and al: "payAllocations s' = payAllocations (cancelled_allocations i s)"
    and at: "payAttempts s' = payAttempts s" and l: "logged (core s) (core s')" by blast
  let ?P = "\<lambda>a. pal_paymentIntentId a = i \<and> pal_status a \<in> set [AllPending, AllFailed]"
  have al: "payAllocations s' = update_where ?P (\<lambda>r. r\<lparr>pal_status := AllCancelled\<rparr>) (payAllocations s)"
    unfolding al cancelled_allocations_def by simp
  have "paid_of i (payAllocations s') = paid_of i (payAllocations s)"
    unfolding al by (rule paid_of_update) auto
  moreover have "pi_paidAmount x = paid_of i (payAllocations s)" if "x \<in> set (payIntents s)" "pi_id x = i" for x
    using pay_okD(6) [OF ok that(1)] that(2) by (simp add: intent_consistent_def)
  ultimately show ?thesis
    using pay_okD(9) [OF ok]
    by (intro pay_ok_change [OF ok core_step_logged [OF l] al _ _ it]) (simp_all add: at)
qed


lemma follow_allocations_Inr:
  assumes "follow_allocations now i s = Inr (intent, s')"
  shows "\<exists>r status paid. intent_get i s = Some r \<and>
    resolvePaymentIntentState (pi_totalAmount r)
      (map (\<lambda>a. (pal_amount a, pal_status a)) (intent_allocations i s)) = (status, paid) \<and>
    intent = r\<lparr>pi_status := status, pi_paidAmount := paid, pi_updatedAt := now\<rparr> \<and>
    s' = intent_update i (\<lambda>r. r\<lparr>pi_status := status, pi_paidAmount := paid, pi_updatedAt := now\<rparr>) s"
proof -
  from assms obtain r where r: "intent_get i s = Some r" by (auto simp: follow_allocations_def loadIntent_Inr)
  obtain status paid where "resolvePaymentIntentState (pi_totalAmount r)
      (map (\<lambda>a. (pal_amount a, pal_status a)) (intent_allocations i s)) = (status, paid)" by fastforce
  with assms r intent_getD [OF r] show ?thesis
    by (auto simp: follow_allocations_def loadIntent_Inr Let_def)
qed

text \<open>What a step on one allocation and its intent amounts to.\<close>

definition allocation_step ::
  "uuid \<Rightarrow> PaymentAllocation \<Rightarrow> (PaymentAllocation \<Rightarrow> PaymentAllocation) \<Rightarrow> PaymentIntent \<Rightarrow> pay_db \<Rightarrow> pay_db \<Rightarrow> bool" where
  "allocation_step i a f intent s s' \<longleftrightarrow>
     (\<exists>r g. intent_get i s = Some r \<and> intent = g r \<and> a \<in> set (payAllocations s) \<and> pal_paymentIntentId a = i \<and>
        payAllocations s' = update_where (\<lambda>x. pal_id x = pal_id a) f (payAllocations s) \<and>
        payIntents s' = update_where (\<lambda>x. pi_id x = i) g (payIntents s) \<and>
        (g = id \<and> pal_status a \<noteq> AllCompleted \<and> pal_status (f a) \<noteq> AllCompleted \<or>
         (\<exists>status paid now. g = (\<lambda>r. r\<lparr>pi_status := status, pi_paidAmount := paid, pi_updatedAt := now\<rparr>) \<and>
            paid = paid_of i (payAllocations s') \<and> (status = IntCompleted \<longleftrightarrow> paid = pi_totalAmount r))))"

lemma allocation_step_follow:
  assumes fol: "follow_allocations now i s1 = Inr (intent, s')"
    and al: "payAllocations s1 = update_where (\<lambda>x. pal_id x = pal_id a) f (payAllocations s)"
    and it: "payIntents s1 = payIntents s" and a: "a \<in> set (payAllocations s)" "pal_paymentIntentId a = i"
  shows "allocation_step i a f intent s s'"
proof -
  from follow_allocations_Inr [OF fol] obtain r status paid where r: "intent_get i s1 = Some r"
    and st: "resolvePaymentIntentState (pi_totalAmount r)
      (map (\<lambda>a. (pal_amount a, pal_status a)) (intent_allocations i s1)) = (status, paid)"
    and i: "intent = r\<lparr>pi_status := status, pi_paidAmount := paid, pi_updatedAt := now\<rparr>"
    and s': "s' = intent_update i (\<lambda>r. r\<lparr>pi_status := status, pi_paidAmount := paid, pi_updatedAt := now\<rparr>) s1"
    by blast
  have "intent_get i s = Some r" using r by (simp add: intent_get_def it)
  then show ?thesis
    unfolding allocation_step_def
    using resolve_state [OF st] a al it i s'
    by (intro exI [of _ r] exI [of _ "\<lambda>r. r\<lparr>pi_status := status, pi_paidAmount := paid, pi_updatedAt := now\<rparr>"])
      (auto simp: intent_update_def)
qed

lemma allocation_step_ok:
  assumes ok: "pay_ok s" and st: "allocation_step i a f intent s s'" and c: "core_step (core s) (core s')"
    and f: "\<And>x. pal_id (f x) = pal_id x \<and> pal_paymentIntentId (f x) = pal_paymentIntentId x \<and> pal_amount (f x) = pal_amount x"
    and at: "\<And>t. t \<in> set (payAttempts s') \<Longrightarrow> \<exists>a \<in> set (payAllocations s).
        pal_id a = pat_paymentAllocationId t \<and> pal_paymentIntentId a = pat_paymentIntentId t"
  shows "pay_ok s'"
proof -
  note D = pay_okD [OF ok]
  from st obtain r g where r: "intent_get i s = Some r" and a: "a \<in> set (payAllocations s)" "pal_paymentIntentId a = i"
    and al: "payAllocations s' = update_where (\<lambda>x. pal_id x = pal_id a) f (payAllocations s)"
    and it: "payIntents s' = update_where (\<lambda>x. pi_id x = i) g (payIntents s)"
    and g: "g = id \<and> pal_status a \<noteq> AllCompleted \<and> pal_status (f a) \<noteq> AllCompleted \<or>
         (\<exists>status paid now. g = (\<lambda>r. r\<lparr>pi_status := status, pi_paidAmount := paid, pi_updatedAt := now\<rparr>) \<and>
            paid = paid_of i (payAllocations s') \<and> (status = IntCompleted \<longleftrightarrow> paid = pi_totalAmount r))"
    unfolding allocation_step_def by blast
  have one: "x = a" if "x \<in> set (payAllocations s)" "pal_id x = pal_id a" for x
    using distinct_key_eq [OF D(3) that(1) a(1)] that(2) by simp
  have rx: "x = r" if "x \<in> set (payIntents s)" "pi_id x = i" for x by (rule intent_unique [OF ok r that])
  have same: "paid_of i (payAllocations s') = paid_of i (payAllocations s)" if "g = id"
    "pal_status a \<noteq> AllCompleted" "pal_status (f a) \<noteq> AllCompleted"
    unfolding al using that one f by (intro paid_of_update) auto
  have paid: "pi_paidAmount (g x) = paid_of i (payAllocations s') \<and>
      (pi_status (g x) = IntCompleted \<longrightarrow> pi_paidAmount (g x) = pi_totalAmount x)"
    if "x \<in> set (payIntents s)" "pi_id x = i" for x
    using g D(6) [OF that(1)] that rx [OF that] same by (auto simp: intent_consistent_def)
  show ?thesis
    using g one a(2) by (intro pay_ok_change [OF ok c al f _ it _ paid at]) auto
qed


lemma executed_allocation_keeps:
  "pal_id (executed_allocation now k st ref m x) = pal_id x \<and>
   pal_paymentIntentId (executed_allocation now k st ref m x) = pal_paymentIntentId x \<and>
   pal_amount (executed_allocation now k st ref m x) = pal_amount x"
  by (simp add: executed_allocation_def Let_def)

lemma executed_allocation_status:
  "pal_status (executed_allocation now k st ref m x) =
     (if st = AttPending then AllPending else if st = AttSucceeded then AllCompleted else AllFailed)"
  by (simp add: executed_allocation_def Let_def)

lemma record_execution_effect:
  fixes s :: pay_db
  defines "s1 \<equiv> \<lambda>now intent a config ex c m. record_execution now intent a config ex c m s"
  shows "payIntents (s1 now intent a config ex c m) = payIntents s"
    and "payAllocations (s1 now intent a config ex c m) = update_where (\<lambda>x. pal_id x = pal_id a)
      (executed_allocation now (lpc_providerKey config) (per_status ex) (per_externalReference ex) m) (payAllocations s)"
    and "logged (core s) (core (s1 now intent a config ex c m))"
    and "t \<in> set (payAttempts (s1 now intent a config ex c m)) \<Longrightarrow>
      (\<exists>t0 \<in> set (payAttempts s). pat_paymentAllocationId t = pat_paymentAllocationId t0 \<and>
         pat_paymentIntentId t = pat_paymentIntentId t0) \<or>
      pat_paymentAllocationId t = pal_id a \<and> pat_paymentIntentId t = pi_id intent"
proof -
  show "payIntents (s1 now intent a config ex c m) = payIntents s"
    "payAllocations (s1 now intent a config ex c m) = update_where (\<lambda>x. pal_id x = pal_id a)
      (executed_allocation now (lpc_providerKey config) (per_status ex) (per_externalReference ex) m) (payAllocations s)"
    by (simp_all add: s1_def record_execution_def Let_def attempt_update_def allocation_update_def)
  show "logged (core s) (core (s1 now intent a config ex c m))"
    using logged_trans [OF bump_logged bump_logged]
    by (simp add: s1_def record_execution_def Let_def attempt_update_def allocation_update_def)
  show "t \<in> set (payAttempts (s1 now intent a config ex c m)) \<Longrightarrow>
      (\<exists>t0 \<in> set (payAttempts s). pat_paymentAllocationId t = pat_paymentAllocationId t0 \<and>
         pat_paymentIntentId t = pat_paymentIntentId t0) \<or>
      pat_paymentAllocationId t = pal_id a \<and> pat_paymentIntentId t = pi_id intent"
    by (auto simp: s1_def record_execution_def Let_def attempt_update_def allocation_update_def set_update_where
        executed_attempt_def new_attempt_def)
qed

lemma process_logged: "logged d (process_log context intent a config i ex m d)"
  by (simp add: process_log_def Let_def pay_log_logged del: pay_log_def)

lemma processAllocationTx_Inr:
  assumes ok: "pay_ok s"
    and run: "processAllocationTx cy random context now i aid key s = Inr (intent, order, config, s')"
  shows "\<exists>r a st ref m. intent_get i s = Some r \<and> pi_status r \<noteq> IntCompleted \<and> pi_status r \<noteq> IntCancelled \<and>
    order_get (pi_orderId r) (core s) = Some order \<and>
    checkAccess context (pi_tenantId r) (pi_storeId r) = Inr () \<and>
    a \<in> set (payAllocations s) \<and> pal_id a = aid \<and> pal_status a \<in> {AllPending, AllFailed} \<and>
    allocation_step i a (executed_allocation now (lpc_providerKey config) st ref m) intent s s' \<and>
    logged (core s) (core s') \<and> pay_ok s'"
proof -
  from run obtain r a ex c m s2 where r: "intent_get i s = Some r" "order_get (pi_orderId r) (core s) = Some order"
      "checkAccess context (pi_tenantId r) (pi_storeId r) = Inr ()"
      "pi_status r \<noteq> IntCompleted" "pi_status r \<noteq> IntCancelled"
    and a: "find (\<lambda>a. pal_id a = aid) (intent_allocations i s) = Some a"
      "pal_status a \<noteq> AllCompleted" "pal_status a \<noteq> AllCancelled"
    and fol: "(if per_status ex = AttPending
       then bnd (loadIntent (pi_id r) (record_execution now r a config ex c m s)) (\<lambda>(i, _, _). Inr (i, record_execution now r a config ex c m s))
       else follow_allocations now (pi_id r) (record_execution now r a config ex c m s)) = Inr (intent, s2)"
    and s': "s' = with_core (process_log context intent a config (nextId (core s)) ex m) s2"
    unfolding processAllocationTx_def Let_def by (auto simp: loadIntent_Inr simp del: with_core_def nextId_def)
  let ?s1 = "record_execution now r a config ex c m s"
  let ?f = "executed_allocation now (lpc_providerKey config) (per_status ex) (per_externalReference ex) m"
  note E = record_execution_effect [where s = s]
  have ri: "r \<in> set (payIntents s)" "pi_id r = i" using intent_getD [OF r(1)] by simp_all
  have al: "a \<in> set (payAllocations s)" "pal_paymentIntentId a = i" "pal_id a = aid"
    using find_SomeD [OF a(1)] by (simp_all add: intent_allocations_def)
  have st: "pal_status a \<in> {AllPending, AllFailed}" using a by (cases "pal_status a") simp_all
  have same: "payIntents s' = payIntents s2" "payAllocations s' = payAllocations s2" "payAttempts s' = payAttempts s2"
    by (simp_all add: s')
  have step: "allocation_step i a ?f intent s s2 \<and> payAttempts s2 = payAttempts ?s1 \<and> core s2 = core ?s1"
  proof (cases "per_status ex = AttPending")
    case True
    with fol ri(2) have s2: "s2 = ?s1" "intent_get i ?s1 = Some intent" by (auto simp: loadIntent_Inr)
    then have "intent = r" using r(1) E(1) by (simp add: intent_get_def)
    moreover have "update_where (\<lambda>x. pi_id x = i) id (payIntents s) = payIntents s"
      by (auto simp: update_where_def intro: map_idI)
    ultimately show ?thesis
      unfolding allocation_step_def using r(1) al E(1,2) s2(1) a(2) True
      by (intro conjI exI [of _ r] exI [of _ id]) (simp_all add: executed_allocation_status)
  next
    case False
    with fol ri(2) have f: "follow_allocations now i ?s1 = Inr (intent, s2)" by simp
    from follow_allocations_Inr [OF f] have "payAttempts s2 = payAttempts ?s1 \<and> core s2 = core ?s1"
      by (auto simp: intent_update_def)
    with allocation_step_follow [OF f E(2) E(1) al(1,2)] show ?thesis by simp
  qed
  then have step': "allocation_step i a ?f intent s s'" unfolding allocation_step_def same by simp
  have l: "logged (core s) (core s')"
    using logged_trans [OF E(3) process_logged] step by (simp add: s')
  have "pay_ok s'"
  proof (rule allocation_step_ok [OF ok step' core_step_logged [OF l] executed_allocation_keeps])
    fix t assume "t \<in> set (payAttempts s')"
    then have "t \<in> set (payAttempts ?s1)" using step same by simp
    from E(4) [OF this] show "\<exists>a \<in> set (payAllocations s).
        pal_id a = pat_paymentAllocationId t \<and> pal_paymentIntentId a = pat_paymentIntentId t"
      using pay_okD(9) [OF ok] al ri(2) by auto
  qed
  with r al st step' l show ?thesis
    by (intro exI [of _ r] exI [of _ a] exI [of _ "per_status ex"] exI [of _ "per_externalReference ex"] exI [of _ m]) simp
qed


section \<open>Webhooks\<close>

lemma answered_allocation_keeps:
  "pal_id (answered_allocation now k ref w x) = pal_id x \<and>
   pal_paymentIntentId (answered_allocation now k ref w x) = pal_paymentIntentId x \<and>
   pal_amount (answered_allocation now k ref w x) = pal_amount x"
  by (simp add: answered_allocation_def)

lemma apply_webhook_ok:
  assumes ok: "pay_ok s" and run: "apply_webhook now key auto w ref s = Inr (Inr (confirm, s'))"
  shows "pay_ok s' \<and> payWebhooks s' = payWebhooks s \<and>
    (\<forall>oid. confirm = Some oid \<longrightarrow> (\<exists>r \<in> set (payIntents s'). pi_orderId r = oid \<and> pi_status r = IntCompleted))"
proof (cases "pwr_entityType w = PaymentAttemptEntity")
  case True
  let ?find = "find (\<lambda>a. pat_providerKey a = key \<and> pat_externalReference a = Some ref) (payAttempts s)"
  from True run obtain attempt where t: "?find = Some attempt"
    by (auto simp: apply_webhook_def split: option.splits)
  have t_in: "attempt \<in> set (payAttempts s)" using find_SomeD [OF t] by simp
  from pay_okD(9) [OF ok t_in] obtain a where a: "a \<in> set (payAllocations s)"
    "pal_id a = pat_paymentAllocationId attempt" "pal_paymentIntentId a = pat_paymentIntentId attempt" by blast
  let ?i = "pat_paymentIntentId attempt"
  let ?s2 = "allocation_update (pat_paymentAllocationId attempt) (answered_allocation now key ref w)
      (attempt_update (pat_id attempt) (answered_attempt now w) s)"
  from True run t obtain intent where f: "follow_allocations now ?i ?s2 = Inr (intent, s')"
    and cf: "confirm = None \<or> pi_status intent = IntCompleted \<and> confirm = Some (pi_orderId intent)"
    by (auto simp: apply_webhook_def Let_def)
  have same: "payIntents ?s2 = payIntents s" "payAllocations ?s2 = update_where (\<lambda>x. pal_id x = pal_id a)
      (answered_allocation now key ref w) (payAllocations s)" "core ?s2 = core s" "payWebhooks ?s2 = payWebhooks s"
    using a(2) by (simp_all add: allocation_update_def attempt_update_def)
  have at: "\<exists>t0 \<in> set (payAttempts s). pat_paymentAllocationId t' = pat_paymentAllocationId t0 \<and>
      pat_paymentIntentId t' = pat_paymentIntentId t0" if "t' \<in> set (payAttempts ?s2)" for t'
    using that by (auto simp: allocation_update_def attempt_update_def set_update_where answered_attempt_def)
  have step: "allocation_step ?i a (answered_allocation now key ref w) intent s s'"
    by (rule allocation_step_follow [OF f same(2,1) a(1,3)])
  from follow_allocations_Inr [OF f] obtain r status paid where s':
    "intent_get ?i ?s2 = Some r" "intent = r\<lparr>pi_status := status, pi_paidAmount := paid, pi_updatedAt := now\<rparr>"
    "s' = intent_update ?i (\<lambda>r. r\<lparr>pi_status := status, pi_paidAmount := paid, pi_updatedAt := now\<rparr>) ?s2" by blast
  then have s'c: "core s' = core s" "payAttempts s' = payAttempts ?s2" "payWebhooks s' = payWebhooks s"
    using same by (simp_all add: intent_update_def)
  have "pay_ok s'"
  proof (rule allocation_step_ok [OF ok step _ answered_allocation_keeps])
    show "core_step (core s) (core s')" by (simp add: s'c)
    show "\<exists>a \<in> set (payAllocations s). pal_id a = pat_paymentAllocationId t' \<and> pal_paymentIntentId a = pat_paymentIntentId t'"
      if "t' \<in> set (payAttempts s')" for t'
      using at [of t'] that pay_okD(9) [OF ok] unfolding s'c by metis
  qed
  moreover have "intent \<in> set (payIntents s')"
    using s' intent_getD [OF s'(1)] by (auto simp: intent_update_def set_update_where)
  ultimately show ?thesis using cf s'c by auto
next
  case False
  let ?find = "find (\<lambda>p. po_providerKey p = key \<and> po_externalReference p = Some ref) (payOperations s)"
  from False run obtain p where p: "?find = Some p" by (auto simp: apply_webhook_def split: option.splits)
  have s': "s' = with_core (order_update (po_orderId p) (refunded now
      (if pwr_succeeded w then NOT_REQUIRED else PENDING_MANUAL))) (operation_update (po_id p) (answered_operation now w) s)"
    and "confirm = None" using False run p by (simp_all add: apply_webhook_def Let_def)
  moreover have "pay_ok s'"
    by (rule pay_ok_core_step [OF ok]) (simp_all add: s' core_step_refund operation_update_def)
  ultimately show ?thesis by (simp add: operation_update_def)
qed

lemma pay_ok_tables:
  assumes "pay_ok s" "core s' = core s" "payIntents s' = payIntents s" "payAllocations s' = payAllocations s"
    "payAttempts s' = payAttempts s"
  shows "pay_ok s'"
  using assms by (simp add: pay_ok_def)

lemma pay_ok_logged:
  assumes "pay_ok s" "logged (core s) (core s')" "payIntents s' = payIntents s"
    "payAllocations s' = payAllocations s" "payAttempts s' = payAttempts s"
  shows "pay_ok s'"
  by (rule pay_ok_core_step [OF assms(1) core_step_logged [OF assms(2)] assms(3-5)])

lemma finish_webhook_ok:
  assumes ok: "pay_ok s" and run: "finish_webhook now key config dto w e s = Inr (event, confirm, s')"
  shows "pay_ok s' \<and> (\<forall>oid. confirm = Some oid \<longrightarrow>
    (\<exists>r \<in> set (payIntents s'). pi_orderId r = oid \<and> pi_status r = IntCompleted))"
proof -
  have fail: "pay_ok (webhook_update (pwe_id e) f s)" for f
    by (rule pay_ok_tables [OF ok]) (simp_all add: webhook_update_def)
  show ?thesis
  proof (cases "pwr_signatureValid w \<and> truthy (pwr_externalReference w)")
    case False
    with run ok fail show ?thesis by (auto simp: finish_webhook_def Let_def split: if_split_asm)
  next
    case True
    then obtain answer where ap: "apply_webhook now key (ppc_autoConfirmOrderOnSuccess config) w
        (nullish (pwr_externalReference w) '''') s = Inr answer"
      using run by (auto simp: finish_webhook_def Let_def)
    show ?thesis
    proof (cases answer)
      case (Inl r)
      with run ap True fail show ?thesis by (auto simp: finish_webhook_def Let_def)
    next
      case (Inr p)
      then obtain c s2 where p: "answer = Inr (c, s2)" by (cases p) simp
      with run ap True obtain f st where c: "c = confirm" and s': "s' = webhook_update (pwe_id e) f
          (connector_log now (ppc_tenantId config) (ppc_storeId config) ''PAYMENT_PROVIDER'' key ''webhook'' st
             (rpw_payload dto) (pwr_payload w) (pwr_errorMessage w) (Some now) s2)"
        by (auto simp: finish_webhook_def Let_def simp del: connector_log_def)
      note A = apply_webhook_ok [OF ok ap [unfolded p c]]
      have "pay_ok s'"
        by (rule pay_ok_logged [of s2]) (simp_all add: A s' webhook_update_def bump_logged del: bump_def)
      moreover have "payIntents s' = payIntents s2" by (simp add: s' webhook_update_def)
      ultimately show ?thesis using A by simp
    qed
  qed
qed

lemma receiveWebhookTx_ok:
  assumes ok: "pay_ok s" and run: "receiveWebhookTx cy now key dto s = Inr (event, confirm, s')"
  shows "pay_ok s' \<and> (\<forall>oid. confirm = Some oid \<longrightarrow>
    (\<exists>r \<in> set (payIntents s'). pi_orderId r = oid \<and> pi_status r = IntCompleted))"
proof -
  have start: "pay_ok (with_core bump (s\<lparr>payWebhooks := payWebhooks s @ [e]\<rparr>))" for e
    by (rule pay_ok_logged [OF ok]) (simp_all add: bump_logged del: bump_def)
  show ?thesis
  proof (cases "find (\<lambda>e. pwe_providerKey e = key \<and> pwe_deliveryId e = rpw_deliveryId dto) (payWebhooks s)")
    case (Some e)
    with run ok show ?thesis by (simp add: receiveWebhookTx_def)
  next
    case None
    with run obtain config w e where
      "finish_webhook now key config dto w e (with_core bump (s\<lparr>payWebhooks := payWebhooks s @ [e]\<rparr>)) = Inr (event, confirm, s')"
      by (auto simp: receiveWebhookTx_def Let_def simp del: with_core_def)
    then show ?thesis by (rule finish_webhook_ok [OF start])
  qed
qed

section \<open>The whole service\<close>

text \<open>
  Confirming the order in its own transaction: either it happened, or it was refused and the payment
  stands.
\<close>

lemma auto_confirm_ok:
  assumes ok: "pay_ok s" and run: "auto_confirm context now wanted oid s = (r, s')"
  shows "pay_ok s'"
proof (cases "wanted \<and> \<not> isl (transitionOrder context now oid to_confirmed (core s))")
  case True
  then obtain v d where t: "transitionOrder context now oid to_confirmed (core s) = Inr (v, d)"
    by (metis isl_def old.prod.exhaust sum.exhaust)
  with run True have s': "s' = s\<lparr>core := d\<rparr>" by (simp add: auto_confirm_def)
  from transitionOrder_step [OF pay_okD(1) [OF ok] t] show ?thesis
    by (intro pay_ok_core [OF ok]) (simp_all add: s')
next
  case False
  with run have "s' = s" by (auto simp: auto_confirm_def isl_def split: if_splits)
  with ok show ?thesis by simp
qed

lemma processAllocation_ok:
  assumes ok: "pay_ok s" and run: "processAllocation cy random context now i aid key s = (r, s')"
  shows "pay_ok s'"
proof (cases "processAllocationTx cy random context now i aid key s")
  case (Inl e)
  with run ok show ?thesis by (simp add: processAllocation_def)
next
  case (Inr p)
  then obtain intent order config s1 where t: "processAllocationTx cy random context now i aid key s = Inr (intent, order, config, s1)"
    by (cases p) auto
  from processAllocationTx_Inr [OF ok t] have "pay_ok s1" by blast
  moreover from run t obtain w r' where "auto_confirm context now w (pi_orderId intent) s1 = (r', s')"
    by (auto simp: processAllocation_def split: prod.splits sum.splits)
  ultimately show ?thesis by (rule auto_confirm_ok)
qed

lemma receiveWebhook_ok:
  assumes ok: "pay_ok s" and run: "receiveWebhook cy now key dto s = (r, s')"
  shows "pay_ok s'"
proof (cases "receiveWebhookTx cy now key dto s")
  case (Inl e)
  with run ok show ?thesis by (simp add: receiveWebhook_def)
next
  case (Inr p)
  then obtain event confirm s1 where t: "receiveWebhookTx cy now key dto s = Inr (event, confirm, s1)"
    by (cases p) auto
  from receiveWebhookTx_ok [OF ok t] have "pay_ok s1" by blast
  moreover from run t obtain w oid r' where "auto_confirm (buildWebhookContext dto) now w oid s1 = (r', s')"
    by (auto simp: receiveWebhook_def split: prod.splits sum.splits)
  ultimately show ?thesis by (rule auto_confirm_ok)
qed

lemma record_operation_ok:
  assumes ok: "pay_ok s"
  shows "pay_ok (record_operation context now intent key execution p updated s)"
proof -
  let ?s = "record_operation context now intent key execution p updated s"
  let ?st = "if per_status execution = AttPending then PENDING_MANUAL else NOT_REQUIRED"
  let ?d = "order_update (pi_orderId intent) (refunded now ?st) (bump (bump (core s)))"
  obtain t kd a e i x y where c: "core ?s = pay_log context t kd a e i x y ?d"
    by (simp add: record_operation_def Let_def del: pay_log_def)
  have "core_step (core s) (core ?s)"
    unfolding c by (rule core_step_trans [OF core_step_logged [OF logged_trans [OF bump_logged bump_logged]]
        core_step_trans [OF core_step_refund core_step_logged [OF pay_log_logged]]])
  then show ?thesis
    by (rule pay_ok_core_step [OF ok]) (simp_all add: record_operation_def Let_def)
qed

lemma createOperation_ok:
  assumes ok: "pay_ok s" and run: "createOperation cy random context now dto s = Inr (v, s')"
  shows "pay_ok s'"
proof -
  from run obtain i k e p u where "s' = record_operation context now i k e p u s"
    by (auto simp: createOperation_def Let_def)
  with record_operation_ok [OF ok] show ?thesis by simp
qed

lemma other_handlers_ok:
  assumes ok: "pay_ok s"
  shows "createProviderConfig cy iv context now pdto s = Inr (v, s') \<Longrightarrow> pay_ok s'"
    and "updateProviderConfig cy iv context now i udto s = Inr (v, s') \<Longrightarrow> pay_ok s'"
    and "createSettlement context now sdto s = Inr (v, s') \<Longrightarrow> pay_ok s'"
    and "createHardwareJob context now hdto s = Inr (v, s') \<Longrightarrow> pay_ok s'"
proof -
  show "createProviderConfig cy iv context now pdto s = Inr (v, s') \<Longrightarrow> pay_ok s'"
    by (rule pay_ok_logged [OF ok])
      (use logged_trans [OF bump_logged pay_log_logged] in \<open>auto simp: createProviderConfig_def Let_def simp del: pay_log_def\<close>)
  show "updateProviderConfig cy iv context now i udto s = Inr (v, s') \<Longrightarrow> pay_ok s'"
    by (rule pay_ok_logged [OF ok])
      (use pay_log_logged in \<open>auto simp: updateProviderConfig_def Let_def simp del: pay_log_def\<close>)
  have ob: "logged d (domainEvents_record e (bump d))" for e d
    unfolding logged_def by (cases d) auto
  show "createSettlement context now sdto s = Inr (v, s') \<Longrightarrow> pay_ok s'"
    by (rule pay_ok_logged [OF ok])
      (use ob in \<open>auto simp: createSettlement_def Let_def simp del: domainEvents_record_def bump_def\<close>)
  have b: "logged d (bump (bump d))" "logged d (bump (bump (bump d)))" for d
    using logged_trans [OF bump_logged bump_logged] logged_trans [OF logged_trans [OF bump_logged bump_logged] bump_logged]
    by simp_all
  show "createHardwareJob context now hdto s = Inr (v, s') \<Longrightarrow> pay_ok s'"
    by (rule pay_ok_logged [OF ok])
      (use b in \<open>auto simp: createHardwareJob_def Let_def simp del: bump_def split: if_splits\<close>)
qed

text \<open>
  A step of the system with payments: a request of the payment service, whether it is answered or fails
  after its first transaction, or an accepted request of another service.
\<close>

inductive pay_step :: "pay_db \<Rightarrow> pay_db \<Rightarrow> bool" where
  create_intent: "createIntent ctx now idto s = Inr (v, s') \<Longrightarrow> pay_step s s'"
| process_allocation: "processAllocation cy rnd ctx now i a k s = (r, s') \<Longrightarrow> pay_step s s'"
| cancel_intent: "cancelIntent ctx now i reason s = Inr (v, s') \<Longrightarrow> pay_step s s'"
| receive_webhook: "receiveWebhook cy now k wdto s = (r, s') \<Longrightarrow> pay_step s s'"
| create_operation: "createOperation cy rnd ctx now odto s = Inr (v, s') \<Longrightarrow> pay_step s s'"
| create_config: "createProviderConfig cy iv ctx now pdto s = Inr (v, s') \<Longrightarrow> pay_step s s'"
| update_config: "updateProviderConfig cy iv ctx now i udto s = Inr (v, s') \<Longrightarrow> pay_step s s'"
| create_settlement: "createSettlement ctx now sdto s = Inr (v, s') \<Longrightarrow> pay_step s s'"
| create_job: "createHardwareJob ctx now hdto s = Inr (v, s') \<Longrightarrow> pay_step s s'"
| other_service: "api_step (core s) d \<Longrightarrow> pay_step s (s\<lparr>core := d\<rparr>)"

lemma pay_step_ok: "pay_step s s' \<Longrightarrow> pay_ok s \<Longrightarrow> pay_ok s'"
proof (induction rule: pay_step.induct)
  case (other_service s d)
  from api_step_ok [OF other_service(1) pay_okD(1) [OF other_service(2)]] show ?case
    by (intro pay_ok_core [OF other_service(2)]) simp_all
qed (auto intro: createIntent_ok processAllocation_ok cancelIntent_ok receiveWebhook_ok createOperation_ok
    dest: other_handlers_ok)

lemma pay_reachable: "pay_step\<^sup>*\<^sup>* s s' \<Longrightarrow> pay_ok s \<Longrightarrow> pay_ok s'"
  by (induction rule: rtranclp_induct) (auto intro: pay_step_ok)


end
