(* ===== verification/PaymentProperties.thy ===== *)
theory PaymentProperties
  imports PaymentLaws Demo
begin

text \<open>
  The properties of the payment service: the history of its intents, the confirmation of a paid order,
  the round trip of a provider's secrets, and deliveries that are received twice.
\<close>

section \<open>Intents\<close>

lemma amount_of_filter: "amount_of i rows = sum_list (map pal_amount (filter (\<lambda>a. pal_paymentIntentId a = i) rows))"
  by (simp add: amount_of_def sum_list_map_filter')

lemma paid_of_filter: "paid_of i rows = sum_list (map pal_amount
    (filter (\<lambda>a. pal_paymentIntentId a = i \<and> pal_status a = AllCompleted) rows))"
  by (simp add: paid_of_def sum_list_map_filter')

text \<open>
  C21: Along any history of the payment service and the other services together, every payment intent
  belongs to an order of its tenant, store and channel whose total it asks for, its allocations add up
  to that total, what it counts as paid is the sum of its completed allocations, and it is completed
  only when that is the whole total.
\<close>

theorem payment_history:
  assumes "pay_ok s" and "pay_step\<^sup>*\<^sup>* s s'" and "i \<in> set (payIntents s')"
  shows "(\<exists>r \<in> set (orders (core s')). ord_id r = pi_orderId i \<and> ord_tenantId r = pi_tenantId i \<and>
      ord_storeId r = pi_storeId i \<and> ord_channel r = pi_channel i \<and> ord_total r = pi_totalAmount i) \<and>
    pi_totalAmount i = sum_list (map pal_amount (intent_allocations (pi_id i) s')) \<and>
    pi_paidAmount i = sum_list (map pal_amount
      (filter (\<lambda>a. pal_status a = AllCompleted) (intent_allocations (pi_id i) s'))) \<and>
    (pi_status i = IntCompleted \<longrightarrow> pi_paidAmount i = pi_totalAmount i)"
proof -
  have ok: "pay_ok s'" by (rule pay_reachable [OF assms(2,1)])
  from pay_okD(6,7) [OF ok assms(3)] show ?thesis
    by (simp add: intent_consistent_def of_order_def amount_of_filter paid_of_filter intent_allocations_def
        conj_commute) auto
qed

section \<open>The demonstration\<close>

text \<open>
  The placed order of the demonstration, a card provider of its store that confirms orders, and a request
  to pay in cash and by card.
\<close>

definition demo_config :: PaymentProviderConfig where
  "demo_config = \<lparr>ppc_id = ''pc1'', ppc_tenantId = ''t1'', ppc_storeId = Some ''s1'', ppc_providerKey = ''bank'',
     ppc_providerType = resolveDefaultProviderType CARD, ppc_method = CARD, ppc_enabled = True,
     ppc_priority = 10, ppc_allowedChannels = [POS], ppc_autoConfirmOrderOnSuccess = True,
     ppc_settings = None, ppc_createdAt = 0, ppc_updatedAt = 0\<rparr>"

definition pay_start :: pay_db where
  "pay_start = \<lparr>core = order_db PLACED None, payIntents = [], payAllocations = [], payAttempts = [],
     payConfigs = [demo_config], payOperations = [], paySettlements = [], payWebhooks = [], connectorLogs = [],
     hardwareJobs = [], hardwareReceipts = []\<rparr>"

definition pay_request :: CreatePaymentIntentDto where
  "pay_request = \<lparr>cpi_tenantId = None, cpi_storeId = ''s1'', cpi_orderId = ''o1'', cpi_channel = None,
     cpi_deviceId = None, cpi_posSessionId = None, cpi_shiftId = None,
     cpi_allocations = [\<lparr>pa_method = CASH, pa_amount = ''5.00''\<rparr>, \<lparr>pa_method = CARD, pa_amount = ''10.00''\<rparr>]\<rparr>"

lemma pay_start_ok: "pay_ok pay_start"
  using order_db_ok [where s = PLACED and k = None] by (simp add: pay_ok_def pay_start_def fresh_from_short)

definition pay_view :: "(json \<times> pay_db) result \<Rightarrow> json" where
  "pay_view r = (case r of Inr (v, s) \<Rightarrow> v)"

definition pay_after :: "(json \<times> pay_db) result \<Rightarrow> pay_db" where
  "pay_after r = (case r of Inr (v, s) \<Rightarrow> s)"

lemma pay_accepted: "\<not> isl r \<Longrightarrow> r = Inr (pay_view r, pay_after r)"
  by (cases r) (auto simp: pay_view_def pay_after_def)

definition pay_created :: pay_db where
  "pay_created = pay_after (createIntent demo_context 1000 pay_request pay_start)"

lemma pay_created_run: "createIntent demo_context 1000 pay_request pay_start =
    Inr (pay_view (createIntent demo_context 1000 pay_request pay_start), pay_created)"
  unfolding pay_created_def by (rule pay_accepted) code_simp

theorem payment_history_witness:
  "\<exists>i. payIntents pay_created = [i] \<and> pi_totalAmount i = 1500 \<and>
     sum_list (map pal_amount (intent_allocations (pi_id i) pay_created)) = 1500"
proof -
  obtain i where i: "payIntents pay_created = [i]" "pi_totalAmount i = 1500"
    by (rule that [of "hd (payIntents pay_created)"]) code_simp+
  have "pay_step\<^sup>*\<^sup>* pay_start pay_created" by (rule r_into_rtranclp) (rule create_intent [OF pay_created_run])
  from payment_history [OF pay_start_ok this, of i] i show ?thesis by simp
qed

section \<open>Processing an allocation\<close>

lemma auto_confirm_confirms:
  assumes ok: "api_ok (core s)" and r: "order_get i (core s) = Some r" and st: "ord_status r = PLACED"
    and acc: "checkAccess context (ord_tenantId r) (ord_storeId r) = Inr ()"
  shows "\<exists>d r'. auto_confirm context now True i s = (Inr (), s\<lparr>core := d\<rparr>) \<and>
    order_get i d = Some r' \<and> ord_status r' = CONFIRMED \<and> ord_total r' = ord_total r"
proof -
  have "canTransitionOrder (ord_status r) (tr_toStatus to_confirmed)" by (simp add: st to_confirmed_def canTransitionOrder_def transitionMap_def)
  from transitionOrder_effect [OF api_okD(3,1) [OF ok] r acc this] obtain d new where
    d: "transitionOrder context now i to_confirmed (core s) = Inr (mapOrder (moved now to_confirmed r), d)"
    and mv: "order_moved now i to_confirmed r new (core s) d" by blast
  have "order_get i d = order_get i (order_update i (moved now to_confirmed) (core s))"
    using mv by (simp add: order_moved_def order_get_def order_update_def)
  also have "\<dots> = Some (moved now to_confirmed r)"
    by (rule order_rows.get_upd_same) (simp_all add: r moved_def Let_def)
  finally show ?thesis using d by (intro exI [of _ d]) (simp add: auto_confirm_def moved_def Let_def to_confirmed_def)
qed

text \<open>The intent a step leaves is the row it finds, moved on.\<close>

lemma allocation_step_get:
  assumes "allocation_step i a f intent s s'" and "intent_get i s = Some r"
  shows "intent_get i s' = Some intent \<and> pi_id intent = pi_id r \<and> pi_tenantId intent = pi_tenantId r \<and>
    pi_storeId intent = pi_storeId r \<and> pi_orderId intent = pi_orderId r \<and> pi_totalAmount intent = pi_totalAmount r"
proof -
  from assms obtain g where g: "intent = g r" "payIntents s' = update_where (\<lambda>x. pi_id x = i) g (payIntents s)"
    and "g = id \<or> (\<exists>status paid now. g = (\<lambda>r. r\<lparr>pi_status := status, pi_paidAmount := paid, pi_updatedAt := now\<rparr>))"
    unfolding allocation_step_def by (metis option.inject)
  then have k: "pi_id (g x) = pi_id x \<and> pi_tenantId (g x) = pi_tenantId x \<and> pi_storeId (g x) = pi_storeId x \<and>
      pi_orderId (g x) = pi_orderId x \<and> pi_totalAmount (g x) = pi_totalAmount x" for x by auto
  have "intent_get i (intent_update i g s) = Some (g r)"
    by (rule intent_rows.get_upd_same) (simp_all add: k assms(2))
  then have "intent_get i s' = Some (g r)" by (simp add: intent_get_def intent_update_def g(2))
  with g(1) k show ?thesis by simp
qed

lemma order_of_intent:
  assumes ok: "pay_ok s" and r: "intent_get i s = Some r" and order: "order_get (pi_orderId r) (core s) = Some order"
  shows "of_order r order"
proof -
  from pay_okD(7) [OF ok conjunct1 [OF intent_getD [OF r]]]
  obtain o' where o': "o' \<in> set (orders (core s))" "of_order r o'" by blast
  with order_get_in [OF api_okD(3) [OF pay_okD(1) [OF ok]] o'(1)] order show ?thesis by (simp add: of_order_def)
qed

text \<open>
  C22: Once the provider's answer is written, the request is answered with the intent and its
  allocations, whatever the answer was: nothing after the first transaction fails. What the intent counts
  as paid is the sum of its completed allocations. If that made it completed, its provider confirms
  orders and the order was placed, the order is now confirmed with the same total; otherwise the order
  and all else outside the payment tables are as the first transaction left them.
\<close>

theorem processing_answers:
  assumes ok: "pay_ok s"
    and tx: "processAllocationTx cy random context now i aid key s = Inr (intent, order, config, s1)"
  shows "\<exists>s'. processAllocation cy random context now i aid key s =
      (Inr (mapPaymentIntent intent (intent_allocations i s')), s') \<and>
    payIntents s' = payIntents s1 \<and> payAllocations s' = payAllocations s1 \<and>
    pi_paidAmount intent = sum_list (map pal_amount
      (filter (\<lambda>a. pal_status a = AllCompleted) (intent_allocations i s'))) \<and>
    (if pi_status intent = IntCompleted \<and> lpc_autoConfirmOrderOnSuccess config \<and> ord_status order = PLACED
     then \<exists>r. order_get (pi_orderId intent) (core s') = Some r \<and> ord_status r = CONFIRMED \<and>
            ord_total r = pi_paidAmount intent
     else core s' = core s1)"
proof -
  from processAllocationTx_Inr [OF ok tx] obtain r a f where r: "intent_get i s = Some r"
      "order_get (pi_orderId r) (core s) = Some order" "checkAccess context (pi_tenantId r) (pi_storeId r) = Inr ()"
    and st: "allocation_step i a f intent s s1" and l: "logged (core s) (core s1)" and ok1: "pay_ok s1" by blast
  note G = allocation_step_get [OF st r(1)]
  have i1: "intent_get i s1 = Some intent" using G by simp
  note in1 = intent_getD [OF i1]
  have place: "ord_tenantId order = pi_tenantId intent" "ord_storeId order = pi_storeId intent"
    "ord_total order = pi_totalAmount intent" "order_get (pi_orderId intent) (core s1) = Some order"
    using order_of_intent [OF ok r(1,2)] G r(2) loggedD [OF l] by (simp_all add: of_order_def order_get_def)
  have acc: "checkAccess context (pi_tenantId intent) (pi_storeId intent) = Inr ()" using r(3) G by simp
  have con: "intent_consistent intent (payAllocations s1)" using pay_okD(6) [OF ok1] in1 by blast
  have paid: "pi_paidAmount intent = sum_list (map pal_amount
      (filter (\<lambda>a. pal_status a = AllCompleted) (filter (\<lambda>a. pal_paymentIntentId a = i) (payAllocations s1))))"
    using con in1 by (simp add: intent_consistent_def paid_of_filter conj_commute)
  let ?w = "pi_status intent = IntCompleted \<and> lpc_autoConfirmOrderOnSuccess config \<and> ord_status order = PLACED"
  have conf: "\<exists>d r'. auto_confirm context now ?w (pi_orderId intent) s1 = (Inr (), s1\<lparr>core := d\<rparr>) \<and>
      order_get (pi_orderId intent) d = Some r' \<and>
      (if ?w then ord_status r' = CONFIRMED \<and> ord_total r' = pi_paidAmount intent else d = core s1)"
  proof (cases ?w)
    case True
    from auto_confirm_confirms [OF pay_okD(1) [OF ok1] place(4) _ acc [folded place(1,2)], of now] True con place(3)
    show ?thesis by (auto simp: intent_consistent_def)
  next
    case False
    then show ?thesis using place(4) by (intro exI [of _ "core s1"]) (simp add: auto_confirm_def)
  qed
  then obtain d r' where d: "auto_confirm context now ?w (pi_orderId intent) s1 = (Inr (), s1\<lparr>core := d\<rparr>)"
      "order_get (pi_orderId intent) d = Some r'"
    and w: "if ?w then ord_status r' = CONFIRMED \<and> ord_total r' = pi_paidAmount intent else d = core s1" by blast
  let ?s' = "s1\<lparr>core := d\<rparr>"
  have "intent_get i ?s' = Some intent" using i1 by (simp add: intent_get_def)
  then have "getIntent context i ?s' = Inr (mapPaymentIntent intent (intent_allocations i ?s'))"
    using acc d(2) by (simp add: getIntent_def loadIntent_def loadOrder_Inr)
  then have "processAllocation cy random context now i aid key s =
      (Inr (mapPaymentIntent intent (intent_allocations i ?s')), ?s')"
    by (simp add: processAllocation_def tx d(1))
  then show ?thesis using paid w d(2) by (intro exI [of _ ?s']) (auto simp: intent_allocations_def)
qed

text \<open>The cash is taken first, then the card: the second answer confirms the order.\<close>

definition demo_cipher :: cipher where
  "demo_cipher = \<lparr>seal = (\<lambda>key iv kvs. [(''iv'', JStr iv), (''data'', JObj kvs)]),
     unseal = (\<lambda>key j. case jfield j ''data'' of Some kvs \<Rightarrow> Inr kvs | None \<Rightarrow> Inl ''no data''),
     encryptionSecret = ''secret''\<rparr>"

definition pay_cash :: pay_db where
  "pay_cash = snd (processAllocation demo_cipher ''r'' demo_context 2000 (newId 0) (newId 1) None pay_created)"

definition card_tx :: "(PaymentIntent \<times> Order \<times> LegacyProviderConfig \<times> pay_db) result" where
  "card_tx = processAllocationTx demo_cipher ''r'' demo_context 3000 (newId 0) (newId 2) None pay_cash"

lemma pay_cash_ok: "pay_ok pay_cash"
proof -
  obtain r where "processAllocation demo_cipher ''r'' demo_context 2000 (newId 0) (newId 1) None pay_created = (r, pay_cash)"
    by (metis pay_cash_def prod.collapse)
  then show ?thesis by (rule processAllocation_ok [OF createIntent_ok [OF pay_start_ok pay_created_run]])
qed

lemma card_tx_values:
  "\<exists>intent order config s1. card_tx = Inr (intent, order, config, s1) \<and> pi_status intent = IntCompleted \<and>
     lpc_autoConfirmOrderOnSuccess config \<and> ord_status order = PLACED \<and> pi_orderId intent = ''o1'' \<and>
     pi_paidAmount intent = 1500"
proof -
  have "case card_tx of Inl _ \<Rightarrow> False | Inr (intent, order, config, s1) \<Rightarrow> pi_status intent = IntCompleted \<and>
     lpc_autoConfirmOrderOnSuccess config \<and> ord_status order = PLACED \<and> pi_orderId intent = ''o1'' \<and>
     pi_paidAmount intent = 1500" by code_simp
  then show ?thesis by (auto split: sum.splits prod.splits)
qed

theorem processing_answers_witness:
  "\<exists>r s'. snd (processAllocation demo_cipher ''r'' demo_context 3000 (newId 0) (newId 2) None pay_cash) = s' \<and>
     order_get ''o1'' (core s') = Some r \<and> ord_status r = CONFIRMED \<and> ord_total r = 1500"
proof -
  from card_tx_values obtain intent order config s1 where c: "card_tx = Inr (intent, order, config, s1)"
    "pi_status intent = IntCompleted" "lpc_autoConfirmOrderOnSuccess config" "ord_status order = PLACED"
    "pi_orderId intent = ''o1''" "pi_paidAmount intent = 1500" by blast
  from processing_answers [OF pay_cash_ok c(1) [unfolded card_tx_def]] c(2-6) show ?thesis by auto
qed

section \<open>Secrets of a provider\<close>

text \<open>Stored settings: public ones with no reserved key, then the sealed secrets when there are any.\<close>

definition sealed :: "cipher \<Rightarrow> instant \<Rightarrow> string \<Rightarrow> jobject \<Rightarrow> (string \<times> string) list \<Rightarrow> jobject" where
  "sealed cy now iv pub secrets = pub @
     (if secrets = [] then []
      else [(SECRET_META_KEY, JObj [(''keys'', JArr (map JStr (sort_by string_le (map fst secrets)))),
              (''updatedAt'', jtime now)]),
            (SECRET_ENVELOPE_KEY, encryptSecrets cy iv secrets)])"

definition unreserved :: "jobject \<Rightarrow> bool" where
  "unreserved pub \<longleftrightarrow> (\<forall>(k, v) \<in> set pub. k \<noteq> SECRET_ENVELOPE_KEY \<and> k \<noteq> SECRET_META_KEY)"

lemma without_reserved_unreserved: "unreserved (without_reserved kvs)"
  by (auto simp: unreserved_def without_reserved_def)

lemma without_reserved_sealed: "unreserved pub \<Longrightarrow> without_reserved (sealed cy now iv pub secrets) = pub"
  by (auto simp: unreserved_def without_reserved_def sealed_def filter_id_conv)

lemma keys_differ: "SECRET_META_KEY \<noteq> SECRET_ENVELOPE_KEY"
  by (simp add: SECRET_META_KEY_def SECRET_ENVELOPE_KEY_def)

lemma string_entries_strings: "string_entries (map (\<lambda>(k, s). (k, JStr s)) secrets) = Inr secrets"
  unfolding string_entries_def by (induction secrets) auto

lemma decrypt_encrypt:
  assumes "\<And>kvs. unseal cy (encryptionSecret cy) (JObj (seal cy (encryptionSecret cy) iv kvs)) = Inr (JObj kvs)"
  shows "decryptSecrets cy (encryptSecrets cy iv secrets) = Inr secrets"
  using assms by (simp add: decryptSecrets_def encryptSecrets_def string_entries_strings)

lemma resolve_sealed:
  assumes law: "\<And>kvs. unseal cy (encryptionSecret cy) (JObj (seal cy (encryptionSecret cy) iv kvs)) = Inr (JObj kvs)"
    and pub: "unreserved pub"
  shows "\<exists>meta. resolveProviderConfigSettings cy
      (if sealed cy now iv pub secrets \<noteq> [] then Some (sealed cy now iv pub secrets) else None) =
    Inr \<lparr>rps_publicSettings = (if pub \<noteq> [] then Some pub else None), rps_secrets = meta,
         rps_resolvedSecrets = (if secrets \<noteq> [] then Some secrets else None)\<rparr>"
proof -
  have none: "map_of pub SECRET_ENVELOPE_KEY = None" using pub by (auto simp: unreserved_def map_of_eq_None_iff)
  have env: "map_of (sealed cy now iv pub secrets) SECRET_ENVELOPE_KEY =
      (if secrets = [] then None else Some (encryptSecrets cy iv secrets))"
    using none keys_differ by (simp add: sealed_def map_add_def)
  have t: "js_truthy (encryptSecrets cy iv secrets)" by (simp add: encryptSecrets_def js_truthy_def)
  show ?thesis
  proof (cases "sealed cy now iv pub secrets = []")
    case True
    then have "pub = [] \<and> secrets = []" by (simp add: sealed_def split: if_splits)
    then show ?thesis by (simp add: resolveProviderConfigSettings_def sealed_def)
  next
    case False
    then show ?thesis
      using without_reserved_sealed [OF pub] decrypt_encrypt [OF law] t
      by (simp add: resolveProviderConfigSettings_def env Let_def)
  qed
qed

lemma buildProviderConfigSettings_Inr:
  assumes run: "buildProviderConfigSettings cy now iv stored settings secrets = Inr stored'"
    and c: "resolveProviderConfigSettings cy stored = Inr c"
  obtains pub ss where
    "(case settings of None \<Rightarrow> Inr (rps_publicSettings c) | Some s \<Rightarrow> sanitizePublicSettings s) = Inr pub"
    "(case secrets of None \<Rightarrow> Inr (rps_resolvedSecrets c) | Some s \<Rightarrow> normalizeSecretsInput s) = Inr ss"
    "stored' = (let kvs = sealed cy now iv (nullish pub []) (nullish ss []) in if kvs \<noteq> [] then Some kvs else None)"
proof -
  from run c obtain pub ss where
    ps: "(case settings of None \<Rightarrow> Inr (rps_publicSettings c) | Some s \<Rightarrow> sanitizePublicSettings s) = Inr pub"
      "(case secrets of None \<Rightarrow> Inr (rps_resolvedSecrets c) | Some s \<Rightarrow> normalizeSecretsInput s) = Inr ss"
    unfolding buildProviderConfigSettings_def by fastforce
  moreover from run c ps have
    "stored' = (let kvs = sealed cy now iv (nullish pub []) (nullish ss []) in if kvs \<noteq> [] then Some kvs else None)"
    by (cases ss) (auto simp: buildProviderConfigSettings_def sealed_def nullish_def Let_def cong del: if_weak_cong)
  ultimately show thesis by (rule that)
qed

lemma sanitize_Inr: "sanitizePublicSettings s = Inr pub \<Longrightarrow>
    unreserved (nullish pub []) \<and> pub = (if s = Some [] then None else s)"
  by (cases s) (auto simp: sanitizePublicSettings_def unreserved_def nullish_def split: if_splits, (force+)?)

lemma normalize_strings:
  "mapE (\<lambda>(key, value). bnd (ensure (P key) e) (\<lambda>_. case value of
       JStr s \<Rightarrow> if trim s \<noteq> '''' then Inr (key, s) else Inl m | _ \<Rightarrow> Inl m)) entries = Inr es \<Longrightarrow>
     map (\<lambda>(k, s). (k, JStr s)) es = entries"
  by (induction entries arbitrary: es) (auto split: json.splits if_splits)

lemma normalize_Inr: "normalizeSecretsInput s = Inr ss \<Longrightarrow>
    map (\<lambda>(k, s). (k, JStr s)) (nullish ss []) = nullish s []"
  by (cases s) (auto simp: normalizeSecretsInput_def nullish_def dest: normalize_strings split: if_splits)

lemma resolved_public:
  assumes "resolveProviderConfigSettings cy stored = Inr c"
  shows "unreserved (nullish (rps_publicSettings c) []) \<and> rps_publicSettings c \<noteq> Some []"
proof (cases stored)
  case None
  with assms show ?thesis by (auto simp: resolveProviderConfigSettings_def nullish_def unreserved_def)
next
  case (Some kvs)
  with assms have "rps_publicSettings c = (if without_reserved kvs \<noteq> [] then Some (without_reserved kvs) else None)"
    by (auto simp: resolveProviderConfigSettings_def Let_def)
  with without_reserved_unreserved [of kvs] show ?thesis by (cases "without_reserved kvs") (simp_all add: nullish_def unreserved_def)
qed

text \<open>
  C23: What a provider's configuration stores is what it was given: if the cipher opens what it sealed,
  an accepted change of the settings is read back with the public settings of the request, or the ones
  there were when it gave none, and with the secrets of the request, or the ones there were; a request
  with empty secrets removes them.
\<close>

theorem secrets_round_trip:
  assumes law: "\<And>kvs. unseal cy (encryptionSecret cy) (JObj (seal cy (encryptionSecret cy) iv kvs)) = Inr (JObj kvs)"
    and c: "resolveProviderConfigSettings cy stored = Inr c"
    and run: "buildProviderConfigSettings cy now iv stored settings secrets = Inr stored'"
  shows "\<exists>r. resolveProviderConfigSettings cy stored' = Inr r \<and>
    rps_publicSettings r = (case settings of None \<Rightarrow> rps_publicSettings c
      | Some s \<Rightarrow> if s = Some [] then None else s) \<and>
    map (\<lambda>(k, s). (k, JStr s)) (nullish (rps_resolvedSecrets r) []) =
      (case secrets of None \<Rightarrow> map (\<lambda>(k, s). (k, JStr s)) (nullish (rps_resolvedSecrets c) [])
       | Some s \<Rightarrow> nullish s [])"
proof -
  from buildProviderConfigSettings_Inr [OF run c] obtain pub ss where
    p: "(case settings of None \<Rightarrow> Inr (rps_publicSettings c) | Some s \<Rightarrow> sanitizePublicSettings s) = Inr pub"
    and s: "(case secrets of None \<Rightarrow> Inr (rps_resolvedSecrets c) | Some s \<Rightarrow> normalizeSecretsInput s) = Inr ss"
    and st: "stored' = (let kvs = sealed cy now iv (nullish pub []) (nullish ss []) in if kvs \<noteq> [] then Some kvs else None)"
    by blast
  have u: "unreserved (nullish pub [])" and ne: "pub \<noteq> Some []"
    and pub: "pub = (case settings of None \<Rightarrow> rps_publicSettings c | Some s \<Rightarrow> if s = Some [] then None else s)"
    using p resolved_public [OF c] by (auto split: option.splits if_splits dest: sanitize_Inr)
  have ss: "map (\<lambda>(k, s). (k, JStr s)) (nullish ss []) =
      (case secrets of None \<Rightarrow> map (\<lambda>(k, s). (k, JStr s)) (nullish (rps_resolvedSecrets c) [])
       | Some s \<Rightarrow> nullish s [])"
    using s normalize_Inr by (auto split: option.splits)
  from resolve_sealed [OF law u] obtain meta where "resolveProviderConfigSettings cy stored' =
      Inr \<lparr>rps_publicSettings = (if nullish pub [] \<noteq> [] then Some (nullish pub []) else None), rps_secrets = meta,
           rps_resolvedSecrets = (if nullish ss [] \<noteq> [] then Some (nullish ss []) else None)\<rparr>"
    unfolding st Let_def by blast
  moreover have "(if nullish pub [] \<noteq> [] then Some (nullish pub []) else None) = pub"
    using ne by (cases pub) (auto simp: nullish_def)
  moreover have "nullish (if nullish ss [] \<noteq> [] then Some (nullish ss []) else None) [] = nullish ss []"
    by (simp add: nullish_def)
  ultimately show ?thesis unfolding pub [symmetric] ss [symmetric] by simp
qed

theorem secrets_round_trip_witness:
  "\<exists>stored r. buildProviderConfigSettings demo_cipher 5000 ''iv'' None
      (Some (Some [(''mode'', JStr ''live'')])) (Some (Some [(''apiKey'', JStr ''k1''), (''webhookSecret'', JStr ''k2'')])) =
      Inr stored \<and> resolveProviderConfigSettings demo_cipher stored = Inr r \<and>
    rps_publicSettings r = Some [(''mode'', JStr ''live'')] \<and>
    map (\<lambda>(k, s). (k, JStr s)) (nullish (rps_resolvedSecrets r) []) =
      [(''apiKey'', JStr ''k1''), (''webhookSecret'', JStr ''k2'')]"
proof -
  have law: "unseal demo_cipher (encryptionSecret demo_cipher)
      (JObj (seal demo_cipher (encryptionSecret demo_cipher) ''iv'' kvs)) = Inr (JObj kvs)" for kvs
    by (simp add: demo_cipher_def jfield_def)
  have c: "resolveProviderConfigSettings demo_cipher None =
      Inr \<lparr>rps_publicSettings = None, rps_secrets = JNull, rps_resolvedSecrets = None\<rparr>"
    by (simp add: resolveProviderConfigSettings_def)
  have "\<not> isl (buildProviderConfigSettings demo_cipher 5000 ''iv'' None
      (Some (Some [(''mode'', JStr ''live'')])) (Some (Some [(''apiKey'', JStr ''k1''), (''webhookSecret'', JStr ''k2'')])))"
    by code_simp
  then obtain stored where b: "buildProviderConfigSettings demo_cipher 5000 ''iv'' None
      (Some (Some [(''mode'', JStr ''live'')])) (Some (Some [(''apiKey'', JStr ''k1''), (''webhookSecret'', JStr ''k2'')])) =
      Inr stored" by (metis isl_def sum.exhaust)
  from secrets_round_trip [OF law c b] b show ?thesis by (auto simp: nullish_def)
qed

section \<open>Deliveries received twice\<close>

abbreviation delivered :: "string \<Rightarrow> string \<Rightarrow> PaymentWebhookEvent \<Rightarrow> bool" where
  "delivered key delivery \<equiv> \<lambda>e. pwe_providerKey e = key \<and> pwe_deliveryId e = delivery"

lemma find_updated_last:
  assumes "find P xs = None" and "\<And>x. P (f x) = P x" and "P e" and "Q e"
  shows "find P (update_where Q f (xs @ [e])) = Some (f e)"
  using assms(1,2) by (induction xs) (auto simp: update_where_def assms(3,4) split: if_splits)

lemma find_last: "find P xs = None \<Longrightarrow> P e \<Longrightarrow> find P (xs @ [e]) = Some e"
  by (induction xs) (auto split: if_splits)

lemma apply_webhook_webhooks:
  "apply_webhook now key auto w ref s = Inr (Inr (c, s2)) \<Longrightarrow> payWebhooks s2 = payWebhooks s"
  by (auto simp: apply_webhook_def Let_def operation_update_def allocation_update_def attempt_update_def
      intent_update_def dest!: follow_allocations_Inr split: if_splits option.splits)

lemma finish_webhook_stored:
  assumes none: "find (delivered key (rpw_deliveryId dto)) xs = None"
    and e: "delivered key (rpw_deliveryId dto) e" and ws: "payWebhooks s = xs @ [e]"
    and run: "finish_webhook now key config dto w e s = Inr (event, confirm, s')"
  shows "find (delivered key (rpw_deliveryId dto)) (payWebhooks s') = Some event"
proof -
  have upd: "find (delivered key (rpw_deliveryId dto)) (payWebhooks (webhook_update (pwe_id e) f s2)) = Some (f e)"
    if "payWebhooks s2 = payWebhooks s" "\<And>x. delivered key (rpw_deliveryId dto) (f x) = delivered key (rpw_deliveryId dto) x"
    for f s2
    unfolding webhook_update_def using find_updated_last [OF none that(2) e, of "\<lambda>r. pwe_id r = pwe_id e"] that(1) ws by simp
  have fail: "find (delivered key (rpw_deliveryId dto)) (payWebhooks (webhook_update (pwe_id e) (failed_webhook m) s)) =
      Some (failed_webhook m e)" for m
    by (rule upd) (simp_all add: failed_webhook_def)
  show ?thesis
  proof (cases "pwr_signatureValid w \<and> truthy (pwr_externalReference w)")
    case False
    with run fail find_last [OF none e] ws show ?thesis by (auto simp: finish_webhook_def Let_def split: if_split_asm)
  next
    case True
    let ?apply = "apply_webhook now key (ppc_autoConfirmOrderOnSuccess config) w (nullish (pwr_externalReference w) '''') s"
    from True obtain answer where ap: "?apply = Inr answer" using run by (auto simp: finish_webhook_def Let_def)
    show ?thesis
    proof (cases answer)
      case (Inl m)
      with run ap True fail show ?thesis by (auto simp: finish_webhook_def Let_def)
    next
      case (Inr p)
      then obtain c s2 where p: "answer = Inr (c, s2)" by (cases p) simp
      let ?done = "\<lambda>x. x\<lparr>pwe_status := ''PROCESSED'', pwe_processedAt := Some now\<rparr>"
      from run ap True p obtain s3 where "event = ?done e" "s' = webhook_update (pwe_id e) ?done s3"
        "payWebhooks s3 = payWebhooks s2"
        by (auto simp: finish_webhook_def Let_def)
      with apply_webhook_webhooks [OF ap [unfolded p]] show ?thesis by (simp add: upd)
    qed
  qed
qed

lemma receiveWebhookTx_stored:
  assumes run: "receiveWebhookTx cy now key dto s = Inr (event, confirm, s')"
  shows "find (delivered key (rpw_deliveryId dto)) (payWebhooks s') = Some event"
proof (cases "find (delivered key (rpw_deliveryId dto)) (payWebhooks s)")
  case (Some e)
  with run show ?thesis by (simp add: receiveWebhookTx_def)
next
  case None
  with run obtain config w where
    "finish_webhook now key config dto w (new_webhook now config key dto w (core s))
       (with_core bump (s\<lparr>payWebhooks := payWebhooks s @ [new_webhook now config key dto w (core s)]\<rparr>)) =
       Inr (event, confirm, s')"
    by (auto simp: receiveWebhookTx_def Let_def simp del: with_core_def)
  then show ?thesis
    by (rule finish_webhook_stored [OF None, rotated -1])
      (simp_all add: new_webhook_def)
qed

lemma auto_confirm_webhooks: "auto_confirm context now w i s = (r, s') \<Longrightarrow> payWebhooks s' = payWebhooks s"
  by (auto simp: auto_confirm_def split: if_splits sum.splits)

text \<open>
  C24: A delivery is applied once: after a webhook is received, whatever became of it and of the
  confirmation it asked for, every further request with its provider and its delivery id, whatever its
  contents, changes nothing at all and is answered with the event of the first one.
\<close>

theorem delivery_applied_once:
  assumes first: "receiveWebhookTx cy now key dto s = Inr (event, confirm, s0)"
    and run: "receiveWebhook cy now key dto s = (r, s1)"
    and again: "rpw_deliveryId dto' = rpw_deliveryId dto"
  shows "receiveWebhook cy' now' key dto' s1 = (Inr (mapWebhookEvent event), s1) \<and>
    (\<forall>v. r = Inr v \<longrightarrow> v = mapWebhookEvent event)"
proof -
  obtain r' where c: "auto_confirm (buildWebhookContext dto) now (truthy confirm) (nullish confirm '''') s0 = (r', s1)"
    using run first by (auto simp: receiveWebhook_def split: prod.splits sum.splits)
  have "find (delivered key (rpw_deliveryId dto')) (payWebhooks s1) = Some event"
    using receiveWebhookTx_stored [OF first] auto_confirm_webhooks [OF c] again by simp
  then have "receiveWebhookTx cy' now' key dto' s1 = Inr (event, None, s1)" by (simp add: receiveWebhookTx_def)
  then have "receiveWebhook cy' now' key dto' s1 = (Inr (mapWebhookEvent event), s1)"
    by (simp add: receiveWebhook_def auto_confirm_def truthy_def)
  moreover have "r = Inr v \<Longrightarrow> v = mapWebhookEvent event" for v
    using run first c by (auto simp: receiveWebhook_def split: sum.splits)
  ultimately show ?thesis by blast
qed

text \<open>A card provider that answers later: its delivery completes the intent and confirms the order.\<close>

definition hook_start :: pay_db where
  "hook_start = snd (processAllocation demo_cipher ''r'' demo_context 3000 (newId 0) (newId 2) None
     (pay_cash\<lparr>payConfigs := [demo_config\<lparr>ppc_settings := Some [(''adapterMode'', JStr ''webhook'')]\<rparr>]\<rparr>))"

definition hook_request :: ReceivePaymentWebhookDto where
  "hook_request = \<lparr>rpw_tenantId = Some ''t1'', rpw_storeId = None, rpw_deliveryId = ''d1'',
     rpw_eventType = ''payment'', rpw_signature = None,
     rpw_payload = JObj [(''externalReference'', JStr ''bank-3000-r''), (''outcome'', JStr ''succeeded'')]\<rparr>"

definition hook_tx :: "(PaymentWebhookEvent \<times> uuid option \<times> pay_db) result" where
  "hook_tx = receiveWebhookTx demo_cipher 4000 ''bank'' hook_request hook_start"

lemma hook_tx_values:
  "\<exists>event s0. hook_tx = Inr (event, Some ''o1'', s0) \<and> pwe_status event = ''PROCESSED''"
proof -
  have "case hook_tx of Inl _ \<Rightarrow> False | Inr (event, confirm, s0) \<Rightarrow>
      confirm = Some ''o1'' \<and> pwe_status event = ''PROCESSED''" by code_simp
  then show ?thesis by (auto split: sum.splits prod.splits)
qed

theorem delivery_applied_once_witness:
  "\<exists>event. pwe_status event = ''PROCESSED'' \<and>
     (let s1 = snd (receiveWebhook demo_cipher 4000 ''bank'' hook_request hook_start) in
      receiveWebhook demo_cipher 9000 ''bank'' (hook_request\<lparr>rpw_payload := JNull\<rparr>) s1 = (Inr (mapWebhookEvent event), s1))"
proof -
  from hook_tx_values obtain event s0 where h: "hook_tx = Inr (event, Some ''o1'', s0)"
    and st: "pwe_status event = ''PROCESSED''" by blast
  obtain r s1 where r: "receiveWebhook demo_cipher 4000 ''bank'' hook_request hook_start = (r, s1)" by fastforce
  have "rpw_deliveryId (hook_request\<lparr>rpw_payload := JNull\<rparr>) = rpw_deliveryId hook_request" by simp
  from delivery_applied_once [OF h [unfolded hook_tx_def] r this] r st show ?thesis by auto
qed

end
