(* ===== verification/FulfillmentProperties.thy ===== *)
theory FulfillmentProperties
  imports Demo
begin

text \<open>
  Properties of the fulfilment handlers: what a cart gets when a fulfilment is chosen for it, and
  what is read back of a store's configuration after it was written.
\<close>

section \<open>A fulfilment for a cart\<close>

text \<open>
  C25: Choosing a fulfilment is accepted only for an open cart the caller may write. The fee and the
  two times of the cart are then those the store's configuration promises for the mode, the total is
  that of the cart's lines plus the fee, a promotion the cart had is taken off, and neither another
  cart nor a line nor an order is touched.
\<close>

theorem fulfilment_of_cart:
  assumes "applyCartFulfillment context now i input d = Inr d'"
  shows "\<exists>c c' sel config quote fee p e. cart_get i d = Some c \<and> cart_status c = OPEN \<and>
    checkAccess context (cart_tenantId c) (cart_storeId c) = Inr () \<and>
    normalizeFulfillmentSelection (Some input) = Some sel \<and>
    getPublicStoreConfig (cart_storeId c) d = Inr config \<and> fs_mode sel \<in> set (fc_enabledModes config) \<and>
    quoteFulfillment config sel now = Inr quote \<and> parseMoneyToCents (Some (fq_fee quote)) = Inr (Some fee) \<and>
    quote_terms config sel now (fq_fee quote) p e \<and>
    cart_get i d' = Some c' \<and> cart_status c' = OPEN \<and> cart_fulfillmentFee c' = fee \<and>
    cart_promisedAt c' = Some p \<and> cart_etaAt c' = Some e \<and> cart_discountTotal c' = 0 \<and>
    cart_promotionCode c' = None \<and>
    cart_total c' = c_total (cents_cart_totals (map item_cents (cart_items i d)) fee 0) \<and>
    (\<forall>j. j \<noteq> i \<longrightarrow> cart_get j d' = cart_get j d) \<and> cartItems d' = cartItems d \<and> orders d' = orders d"
proof -
  obtain c sel config quote fee p e l where
    h: "cart_get i d = Some c" "cart_status c = OPEN"
    "checkAccess context (cart_tenantId c) (cart_storeId c) = Inr ()"
    "normalizeFulfillmentSelection (Some input) = Some sel"
    "getPublicStoreConfig (cart_storeId c) d = Inr config"
    "quoteFulfillment config sel now = Inr quote" "parseMoneyToCents (Some (fq_fee quote)) = Inr (Some fee)"
    "quote_terms config sel now (fq_fee quote) p e"
    and d': "d' = (cart_update i (\<lambda>c. let t = cents_cart_totals (map item_cents (cart_items i d)) fee 0 in
        fulfilled_cart now quote fee (c_subtotal t) (c_modifierTotal t) (c_total t) p e c) d)\<lparr>auditLogs := l\<rparr>"
    by (rule applyCartFulfillment_Inr [OF assms])
  let ?t = "cents_cart_totals (map item_cents (cart_items i d)) fee 0"
  let ?f = "fulfilled_cart now quote fee (c_subtotal ?t) (c_modifierTotal ?t) (c_total ?t) p e"
  have k: "cart_id (?f x) = cart_id x" for x by (simp add: fulfilled_cart_def)
  have get: "cart_get j d' = cart_get j (cart_update i ?f d)" for j by (simp add: d' Let_def cart_get_def)
  have "cart_get i d' = Some (?f c)" unfolding get using h(1) k by (rule cart_rows.get_upd_same [rotated])
  moreover have "cart_get j d' = cart_get j d" if "j \<noteq> i" for j
    unfolding get using cart_rows.get_upd [of ?f j i d] k that by simp
  moreover have "fs_mode sel \<in> set (fc_enabledModes config)" using quote_mode [OF h(6)] by simp
  ultimately show ?thesis
    using h by (auto simp: fulfilled_cart_def d' cart_update_def intro!: exI [of _ sel])
qed

definition delivery_db :: db where
  "delivery_db = cart_db\<lparr>storeSettings := [\<lparr>set_id = ''f1'', set_tenantId = ''t1'', set_ownerId = ''s1'',
     set_key = fulfillment_config_key, set_value = JObj
       [(''deliveryZones'', JArr [JObj [(''code'', JStr ''north''), (''fee'', JStr ''2.50''),
          (''slaMinutes'', JNum 45), (''postalCodes'', JArr [JStr ''1010''])]])],
     set_createdAt = 0, set_updatedAt = 0\<rparr>]\<rparr>"

definition delivery_input :: json where
  "delivery_input = JObj [(''mode'', JStr ''DELIVERY''), (''postalCode'', JStr ''1010'')]"

definition run_delivery :: "db result" where
  "run_delivery = applyCartFulfillment demo_context 1000 ''c1'' delivery_input delivery_db"

theorem fulfilment_of_cart_witness:
  "\<exists>d' c'. applyCartFulfillment demo_context 1000 ''c1'' delivery_input delivery_db = Inr d' \<and>
     cart_get ''c1'' d' = Some c' \<and> cart_fulfillmentFee c' = 250 \<and> cart_total c' = 1750 \<and>
     cart_promisedAt c' = Some 2701000"
proof -
  have "\<not> isl run_delivery" by code_simp
  then obtain d' where r: "run_delivery = Inr d'" by (metis isl_def sum.exhaust)
  then have run: "applyCartFulfillment demo_context 1000 ''c1'' delivery_input delivery_db = Inr d'"
    by (simp add: run_delivery_def)
  from fulfilment_of_cart [OF run] obtain c' where c': "cart_get ''c1'' d' = Some c'" by blast
  have "map_option (\<lambda>c. (cart_fulfillmentFee c, cart_total c, cart_promisedAt c)) (cart_get ''c1'' (projr run_delivery)) =
      Some (250, 1750, Some 2701000)" by code_simp
  then have "\<exists>z. cart_get ''c1'' d' = Some z \<and> cart_fulfillmentFee z = 250 \<and> cart_total z = 1750 \<and>
      cart_promisedAt z = Some 2701000" unfolding r by simp
  with c' run show ?thesis by blast
qed

section \<open>The configuration of a store\<close>

lemma spread_all:
  assumes "map fst kvs = map fst current"
  shows "spread current (map (apsnd Some) kvs) = JObj kvs"
proof -
  have "filter (\<lambda>(k, v). k \<notin> set (map fst (map (apsnd Some) kvs))) current = []"
  proof -
    have "set (map fst (map (apsnd Some) kvs)) = set (map fst current)"
      unfolding assms [symmetric] by (simp add: comp_def)
    moreover have "fst x \<in> set (map fst current)" if "x \<in> set current" for x using that by simp
    ultimately show ?thesis unfolding filter_empty_conv case_prod_unfold by blast
  qed
  moreover have "List.map_filter (\<lambda>(k, m). map_option (Pair k) m) (map (apsnd Some) kvs) = kvs"
    by (induction kvs) (auto simp: map_filter_simps)
  ultimately show ?thesis by (simp add: spread_def)
qed

lemma upsert_stable:
  assumes "resolveStoreFulfillmentConfig sid raw = Inr c"
  shows "resolveStoreFulfillmentConfig sid
    (Some (spread (config_fields current) (map (apsnd Some) (config_fields c)))) = Inr c"
proof -
  have "spread (config_fields current) (map (apsnd Some) (config_fields c)) = config_json c"
    unfolding config_json_def by (rule spread_all) (simp add: config_fields_def)
  then show ?thesis using config_stable [OF assms] by simp
qed

text \<open>
  C26: An accepted change of a store's fulfilment configuration answers exactly what the same caller
  reads afterwards, and the configuration of every other store reads as before. Sending the answer
  back changes nothing. A field the request holds without a value is not left as it was but reset:
  such a request leaves the store without delivery zones.
\<close>

theorem config_round_trip:
  assumes "upsertStoreConfig context now sid dto d = Inr (new, d')" and "distinct (map fst dto)"
  shows "getStoreConfig context sid d' = Inr new \<and>
    (\<forall>other. other \<noteq> sid \<longrightarrow> getPublicStoreConfig other d' = getPublicStoreConfig other d) \<and>
    (\<exists>d2. upsertStoreConfig context now' sid (map (apsnd Some) (config_fields new)) d' = Inr (new, d2)) \<and>
    (map_of dto ''deliveryZones'' = Some None \<longrightarrow> fc_deliveryZones new = [])"
proof -
  from assms(1) obtain store current t i d1 log where
    h: "enforceStoreAccess context sid = Inr ()" "find (\<lambda>s. st_id s = sid) (stores d) = Some store"
      "resolveTenantId context (Some (st_tenantId store)) True = Inr t"
      "resolveStoreFulfillmentConfig sid (Some (spread (config_fields current) dto)) = Inr new"
    and up: "upsert_setting now (st_tenantId store) sid fulfillment_config_key (config_json new) d = (i, d1)"
    and d': "d' = recordTx log d1"
    unfolding upsertStoreConfig_def by (auto simp: Let_def case_prod_Inr simp del: recordTx_def)
  have pub: "getPublicStoreConfig sid d' = Inr new" and st: "stores d' = stores d"
    by (rule upsertStoreConfig_Inr [OF assms(1)], simp)+
  have get: "getStoreConfig context sid d' = Inr new"
    using h pub st by (auto simp: getStoreConfig_def getPublicStoreConfig_def)
  have "getPublicStoreConfig other d' = getPublicStoreConfig other d" if "other \<noteq> sid" for other
    using store_settings.read_other [OF up, of other fulfillment_config_key] that by (simp add: getPublicStoreConfig_def loadConfigValue_def d')
  moreover have "\<exists>d2. upsertStoreConfig context now' sid (map (apsnd Some) (config_fields new)) d' = Inr (new, d2)"
    using h pub st upsert_stable [OF h(4)]
    by (auto simp: upsertStoreConfig_def getPublicStoreConfig_def Let_def case_prod_unfold)
  moreover have "fc_deliveryZones new = []" if "map_of dto ''deliveryZones'' = Some None"
    using h(4) spread_field [OF assms(2), of "config_fields current" "''deliveryZones''"] that
    by (auto simp: resolveStoreFulfillmentConfig_def Let_def normalizeDeliveryZones_def asRecords_def)
  ultimately show ?thesis using get by blast
qed

definition config_request :: own_fields where
  "config_request = [(''enabledModes'', Some (JArr [JStr ''PICKUP''])), (''deliveryZones'', None)]"

definition run_config :: "(StoreFulfillmentConfig \<times> db) result" where
  "run_config = upsertStoreConfig demo_context 1000 ''s1'' config_request delivery_db"

theorem config_round_trip_witness:
  "\<exists>new d'. upsertStoreConfig demo_context 1000 ''s1'' config_request delivery_db = Inr (new, d') \<and>
     getStoreConfig demo_context ''s1'' d' = Inr new \<and> fc_enabledModes new = [FmPickup] \<and>
     fc_deliveryZones new = []"
proof -
  have "\<not> isl run_config" by code_simp
  then obtain new d' where r: "run_config = Inr (new, d')" by (metis isl_def sum.exhaust surj_pair)
  then have run: "upsertStoreConfig demo_context 1000 ''s1'' config_request delivery_db = Inr (new, d')"
    by (simp add: run_config_def)
  have "fc_enabledModes (fst (projr run_config)) = [FmPickup]" by code_simp
  then have "fc_enabledModes new = [FmPickup]" unfolding r by simp
  then show ?thesis using config_round_trip [OF run] run by (simp add: config_request_def)
qed

end
