(* ===== verification/CustomerHistory.thy ===== *)
theory CustomerHistory
  imports System
begin

text \<open>
  The invariant \<open>customers_ok\<close> of profiles, loyalty accounts, ledger entries and promotions: which
  services leave these tables alone, and that the customer handlers keep it.
\<close>

section \<open>The other services leave the customers alone\<close>

definition customer_tables ::
  "db \<Rightarrow> CustomerProfile list \<times> LoyaltyAccount list \<times> LoyaltyLedgerEntry list \<times> PromotionCampaign list" where
  "customer_tables d = (customerProfiles d, loyaltyAccounts d, loyaltyEntries d, promotions d)"

lemma tables_logged: "logged d d' \<Longrightarrow> customer_tables d' = customer_tables d"
  by (auto simp: logged_def customer_tables_def)

lemma tables_moved: "stock_moved d d' \<Longrightarrow> customer_tables d' = customer_tables d"
  by (auto simp: stock_moved_def customer_tables_def)

lemma tables_rows [simp]:
  "customer_tables (cart_update i f d) = customer_tables d" "customer_tables (cart_create c d) = customer_tables d"
  "customer_tables (order_update i h d) = customer_tables d" "customer_tables (order_create r d) = customer_tables d"
  "customer_tables (ticket_update i k d) = customer_tables d" "customer_tables (ticket_create t d) = customer_tables d"
  "customer_tables (d\<lparr>db_seq := n\<rparr>) = customer_tables d"
  "customer_tables (d\<lparr>auditLogs := l1, outbox := l2\<rparr>) = customer_tables d"
  by (simp_all add: customer_tables_def cart_update_def cart_create_def order_update_def order_create_def
      ticket_update_def ticket_create_def)

lemma item_change_tables: "item_change context now i d d1 d' \<Longrightarrow> customer_tables d' = customer_tables d1"
  by (auto simp: item_change_def)

lemma cart_handlers_tables:
  assumes ok: "carts_ok d"
  shows "createCart context now cdto d = Inr (v, d') \<Longrightarrow> customer_tables d' = customer_tables d"
    "updateCart context now i udto d = Inr (v, d') \<Longrightarrow> customer_tables d' = customer_tables d"
    "addItem context now i adto d = Inr (v, d') \<Longrightarrow> customer_tables d' = customer_tables d"
    "updateItem context now i j idto d = Inr (v, d') \<Longrightarrow> customer_tables d' = customer_tables d"
    "deleteItem context now i j d = Inr (v, d') \<Longrightarrow> customer_tables d' = customer_tables d"
proof -
  show "createCart context now cdto d = Inr (v, d') \<Longrightarrow> customer_tables d' = customer_tables d"
    by (drule createCart_Inr) auto
  show "updateCart context now i udto d = Inr (v, d') \<Longrightarrow> customer_tables d' = customer_tables d"
    by (drule updateCart_Inr [OF ok]) auto
  show "addItem context now i adto d = Inr (v, d') \<Longrightarrow> customer_tables d' = customer_tables d"
    by (drule addItem_Inr [OF ok]) (auto dest!: item_change_tables simp: customer_tables_def)
  show "updateItem context now i j idto d = Inr (v, d') \<Longrightarrow> customer_tables d' = customer_tables d"
    by (drule updateItem_Inr [OF ok]) (auto dest!: item_change_tables simp: customer_tables_def cartItem_update_def)
  show "deleteItem context now i j d = Inr (v, d') \<Longrightarrow> customer_tables d' = customer_tables d"
    by (drule deleteItem_Inr [OF ok]) (auto dest!: item_change_tables simp: customer_tables_def cartItem_delete_def)
qed

lemma checkout_tables:
  assumes "checkout context now i dto d = Inr (v, d')"
  shows "customer_tables d' = customer_tables d"
proof -
  from checkout_Inr [OF assms] obtain c plan n d1 where
    r: "reserveOrderInventoryTx now (cart_tenantId c) (newId (db_seq d)) plan
      (order_create (placed_order now c dto d) (d\<lparr>db_seq := n\<rparr>)) = Inr d1"
    and l: "logged (cart_update i (converted now (placed_order now c dto d)) d1) d'" by auto
  show ?thesis using tables_moved [OF reserve_moved [OF r]] tables_logged [OF l] by simp
qed

lemma tables_logs [simp]:
  "customer_tables (transition_log context now order st dto d) = customer_tables d"
  "customer_tables (order_log context now order name a b c d) = customer_tables d"
  "customer_tables (count_event now order type counter n d) = customer_tables d"
  "customer_tables (ticket_log context now order ticket d) = customer_tables d"
  "customer_tables (emit_tickets now ts d) = customer_tables d"
  "customer_tables (emitToStore now t s type payload d) = customer_tables d"
  "customer_tables (sync_log context now order x y d) = customer_tables d"
  "customer_tables (ticket_transition_log context ticket z reason d) = customer_tables d"
  "customer_tables (recordFulfillmentEvent context now oid t s type payload d) = customer_tables d"
  by (rule tables_logged, rule transition_logged order_log_logged count_event_logged ticket_log_logged
      emit_tickets_logged emit_logged sync_log_logged ticket_transition_logged recordFulfillmentEvent_logged)+

lemma create_ticket_tables:
  "create_ticket context now order g s = Inr s' \<Longrightarrow> customer_tables (fst s') = customer_tables (fst s)"
  by (cases s; cases g) (auto simp: create_ticket_def Let_def case_prod_Inr)

lemma createKitchenTickets_tables:
  assumes "createKitchenTicketsForOrder context now order d = Inr (d', ts)"
  shows "customer_tables d' = customer_tables d"
proof (cases "order_tickets (ord_id order) d = []")
  case True
  with assms have run: "foldE (create_ticket context now order) (groupedItems order d) (d, []) = Inr (d', ts)"
    by (simp add: createKitchenTicketsForOrder_def)
  have "customer_tables (fst (d', ts)) = customer_tables d"
    by (rule foldE_invariant [where P = "\<lambda>s. customer_tables (fst s) = customer_tables d", OF _ run])
      (simp_all add: create_ticket_tables)
  then show ?thesis by simp
next
  case False
  with assms show ?thesis by (simp add: createKitchenTicketsForOrder_def)
qed

lemma cancel_step_tables [simp]: "customer_tables (cancel_step now order d) = customer_tables d"
proof -
  obtain n d1 where r: "releaseOrderInventoryReservationsTx now (ord_tenantId order) (ord_id order) d = (n, d1)"
    by force
  show ?thesis
    using tables_moved [OF release_moved [OF r]]
    by (simp add: cancel_step_def r Let_def cancelKitchenTicketsForOrder_def) (simp add: customer_tables_def)
qed

lemma complete_step_tables [simp]: "customer_tables (complete_step now order d) = customer_tables d"
proof -
  obtain n d1 where c: "consumeOrderInventoryReservationsTx now (ord_tenantId order) (ord_id order) d = (n, d1)"
    by force
  show ?thesis using tables_moved [OF consume_moved [OF c]] by (simp add: complete_step_def c)
qed

lemma transitionOrder_tables:
  "transitionOrder context now i dto d = Inr (v, d') \<Longrightarrow> customer_tables d' = customer_tables d"
  unfolding transitionOrder_def
  by (clarsimp simp: Let_def case_prod_Inr confirm_step_def simp del: emitToStore_def split: if_split_asm)
    (auto dest!: createKitchenTickets_tables simp del: emitToStore_def)

lemma transitionTicket_tables:
  "transitionTicket context now i dto d = Inr (v, d') \<Longrightarrow> customer_tables d' = customer_tables d"
  unfolding transitionTicket_def syncOrderStatusFromTickets_def
  by (auto simp: Let_def case_prod_Inr simp del: emitToStore_def split: option.split_asm)

lemma createReservation_tables:
  "createReservation context now dto d = Inr (v, d') \<Longrightarrow> customer_tables d' = customer_tables d"
  by (auto simp: createReservation_def stockReservation_create_def inventoryItem_update_def
      customer_tables_def Let_def)

lemma releaseReservation_tables:
  "releaseReservation context now i d = Inr (v, d') \<Longrightarrow> customer_tables d' = customer_tables d"
  unfolding releaseReservation_def
  by (auto simp: Let_def intro!: tables_moved release_one_moved split: if_splits)

lemma consumeReservation_tables:
  "consumeReservation context now i d = Inr (v, d') \<Longrightarrow> customer_tables d' = customer_tables d"
  unfolding consumeReservation_def
  by (auto simp: Let_def intro!: tables_moved consume_one_moved split: if_splits)

lemma getOrCreate_tables:
  "getOrCreateItemTx now t w i d = Inr (x, d') \<Longrightarrow> customer_tables d' = customer_tables d"
  by (auto simp: getOrCreateItemTx_def inventoryItem_create_def customer_tables_def Let_def split: option.splits)

lemma applyStockDelta_tables: "applyStockDeltaTx now input d = Inr d' \<Longrightarrow> customer_tables d' = customer_tables d"
  unfolding applyStockDeltaTx_def
  by (auto simp: Let_def case_prod_Inr dest!: getOrCreate_tables)
    (auto simp: customer_tables_def inventoryItem_update_def stockLedgerEntry_create_def)

lemma createAdjustment_tables:
  "createAdjustment context now dto d = Inr (v, d') \<Longrightarrow> customer_tables d' = customer_tables d"
  unfolding createAdjustment_def
  by (auto simp: Let_def case_prod_Inr dest!: getOrCreate_tables applyStockDelta_tables)
    (auto simp: customer_tables_def)

lemma receive_tables:
  assumes "completeReceivingRecord context now i who d = Inr (v, d')"
  shows "customer_tables d' = customer_tables d"
proof -
  from assms obtain r where "completeReceivingRecordTx now i who d = Inr (r, d')"
    unfolding completeReceivingRecord_def by auto
  then obtain d1 rec who' where "d' = d \<or>
      (foldE (receive_line now rec who') (rr_lines rec) d = Inr d1 \<and>
       d' = receiving_update now i (\<lambda>r. r\<lparr>rr_status := ''COMPLETED'', rr_receivedBy := who',
                  rr_completedAt := Some now\<rparr>) d1)"
    unfolding completeReceivingRecordTx_def by (auto simp: Let_def split: if_splits)
  moreover have "customer_tables d1 = customer_tables d" if "foldE (receive_line now rec who') ls d = Inr d1" for ls
    by (rule foldE_invariant [where P = "\<lambda>s. customer_tables s = customer_tables d", OF _ that])
      (auto simp: receive_line_def dest!: applyStockDelta_tables)
  ultimately show ?thesis by (auto simp: customer_tables_def receiving_update_def)
qed

lemma fulfilment_tables:
  "upsertStoreConfig context now s fdto d = Inr (next, d') \<Longrightarrow> customer_tables d' = customer_tables d"
  "applyCartFulfillment context now i input d = Inr d' \<Longrightarrow> customer_tables d' = customer_tables d"
  "assignCourier context now i acdto d = (r, d') \<Longrightarrow> customer_tables d' = customer_tables d"
  "updateEta context now i edto d = (r, d') \<Longrightarrow> customer_tables d' = customer_tables d"
  "updateStatus context now i sdto d = (r, d') \<Longrightarrow> customer_tables d' = customer_tables d"
proof -
  show "upsertStoreConfig context now s fdto d = Inr (next, d') \<Longrightarrow> customer_tables d' = customer_tables d"
    by (erule upsertStoreConfig_Inr) (simp add: customer_tables_def)
  show "applyCartFulfillment context now i input d = Inr d' \<Longrightarrow> customer_tables d' = customer_tables d"
    by (erule applyCartFulfillment_Inr) (simp add: customer_tables_def cart_update_def)
qed (auto simp: assignCourier_def assignCourier_tx_def updateEta_def updateEta_tx_def updateStatus_def
      updateStatus_tx_def committed_def and_then_def Let_def split: sum.splits if_splits)

section \<open>The invariant\<close>

definition balanced :: "LoyaltyLedgerEntry list \<Rightarrow> LoyaltyAccount \<Rightarrow> bool" where
  "balanced entries a \<longleftrightarrow> la_pointsBalance a = (\<Sum>e\<leftarrow>entries. lle_points e) \<and>
     la_totalEarnedPoints a = earned_points entries \<and> la_totalRedeemedPoints a = redeemed_points entries"

text \<open>The entry of an order: what it earned is one point for every whole unit of its total.\<close>

definition entry_of_order :: "Order list \<Rightarrow> LoyaltyLedgerEntry \<Rightarrow> bool" where
  "entry_of_order rows e \<longleftrightarrow> (case lle_orderId e of None \<Rightarrow> lle_entryKind e = ADJUST
     | Some i \<Rightarrow> (\<exists>r \<in> set rows. ord_id r = i \<and>
         (lle_entryKind e = EARN \<and> lle_points e = ord_total r div 100 \<and> 0 < lle_points e \<or>
          lle_entryKind e = REDEEM \<and> lle_points e < 0)))"

definition order_keys :: "LoyaltyLedgerEntry list \<Rightarrow> (uuid option \<times> LoyaltyLedgerEntryKind) list" where
  "order_keys entries = map (\<lambda>e. (lle_orderId e, lle_entryKind e)) (filter (\<lambda>e. lle_orderId e \<noteq> None) entries)"

text \<open>\<open>customers_but S\<close>: the accounts of the profiles in \<open>S\<close> may be out of balance.\<close>

definition customers_but :: "uuid set \<Rightarrow> db \<Rightarrow> bool" where
  "customers_but S d \<longleftrightarrow>
     distinct (map cp_id (customerProfiles d)) \<and> fresh_from (db_seq d) (map cp_id (customerProfiles d)) \<and>
     distinct (map (\<lambda>p. (cp_tenantId p, cp_phoneNormalized p)) (customerProfiles d)) \<and>
     distinct (map la_id (loyaltyAccounts d)) \<and> fresh_from (db_seq d) (map la_id (loyaltyAccounts d)) \<and>
     distinct (map la_customerProfileId (loyaltyAccounts d)) \<and>
     fresh_from (db_seq d) (map la_customerProfileId (loyaltyAccounts d)) \<and>
     distinct (map pc_id (promotions d)) \<and> fresh_from (db_seq d) (map pc_id (promotions d)) \<and>
     distinct (map (\<lambda>p. (pc_tenantId p, pc_code p)) (promotions d)) \<and>
     distinct (order_keys (loyaltyEntries d)) \<and>
     (\<forall>e \<in> set (loyaltyEntries d). entry_of_order (orders d) e \<and>
        (\<exists>a \<in> set (loyaltyAccounts d). la_customerProfileId a = lle_customerProfileId e \<and>
           la_id a = lle_loyaltyAccountId e)) \<and>
     (\<forall>a \<in> set (loyaltyAccounts d). la_customerProfileId a \<notin> S \<longrightarrow>
        balanced (profile_entries (la_customerProfileId a) d) a)"

definition customers_ok :: "db \<Rightarrow> bool" where
  "customers_ok d \<longleftrightarrow> customers_but {} d"

lemma entry_of_order_grows:
  assumes "order_grows d d'" and "entry_of_order (orders d) e"
  shows "entry_of_order (orders d') e"
proof (cases "lle_orderId e")
  case None
  with assms(2) show ?thesis by (simp add: entry_of_order_def)
next
  case (Some i)
  with assms(2) obtain r where r: "r \<in> set (orders d)" "ord_id r = i"
    "lle_entryKind e = EARN \<and> lle_points e = ord_total r div 100 \<and> 0 < lle_points e \<or>
          lle_entryKind e = REDEEM \<and> lle_points e < 0"
    by (auto simp: entry_of_order_def)
  from assms(1) r(1) obtain r' where "r' \<in> set (orders d')" "ord_id r' = ord_id r" "ord_total r' = ord_total r"
    unfolding order_grows_def by blast
  with r Some show ?thesis unfolding entry_of_order_def by auto
qed

lemma customers_but_grows:
  assumes ok: "customers_but S d" and t: "customer_tables d' = customer_tables d" and g: "order_grows d d'"
  shows "customers_but S d'"
proof -
  have n: "db_seq d \<le> db_seq d'" using g by (simp add: order_grows_def)
  have "profile_entries i d' = profile_entries i d" for i
    using t by (simp add: profile_entries_def customer_tables_def)
  then show ?thesis
    using ok t fresh_from_mono [OF _ n] entry_of_order_grows [OF g]
    unfolding customers_but_def customer_tables_def by simp
qed

lemma customers_but_mono: "customers_but S d \<Longrightarrow> S \<subseteq> T \<Longrightarrow> customers_but T d"
  unfolding customers_but_def by blast

lemma account_ofD: "account_of p d = Some a \<Longrightarrow> a \<in> set (loyaltyAccounts d) \<and> la_customerProfileId a = p"
  by (auto simp: account_of_def dest: find_SomeD)

lemma customers_profiles:
  assumes ok: "customers_but S d" and g: "\<And>p. cp_id (f p) = cp_id p \<and> cp_tenantId (f p) = cp_tenantId p \<and>
    cp_phoneNormalized (f p) = cp_phoneNormalized p"
  shows "customers_but S (profile_update i f d)"
proof -
  have "map cp_id (customerProfiles (profile_update i f d)) = map cp_id (customerProfiles d)"
    "map (\<lambda>p. (cp_tenantId p, cp_phoneNormalized p)) (customerProfiles (profile_update i f d)) =
     map (\<lambda>p. (cp_tenantId p, cp_phoneNormalized p)) (customerProfiles d)"
    using g by (simp_all add: profile_update_def map_update_where_key)
  moreover have "profile_entries j (profile_update i f d) = profile_entries j d" for j
    by (simp add: profile_entries_def profile_update_def)
  ultimately show ?thesis
    using ok unfolding customers_but_def by (simp add: profile_update_def)
qed

lemma customers_promotions:
  assumes ok: "customers_but S d" and g: "\<And>p. pc_id (f p) = pc_id p"
    and codes: "distinct (map (\<lambda>p. (pc_tenantId p, pc_code p)) (promotions (promotion_update i f d)))"
  shows "customers_but S (promotion_update i f d)"
proof -
  have "map pc_id (promotions (promotion_update i f d)) = map pc_id (promotions d)"
    using g by (simp add: promotion_update_def map_update_where_key)
  moreover have "profile_entries j (promotion_update i f d) = profile_entries j d" for j
    by (simp add: profile_entries_def promotion_update_def)
  ultimately show ?thesis
    using ok codes unfolding customers_but_def by (simp add: promotion_update_def)
qed

lemma customers_logged: "logged d d' \<Longrightarrow> customers_but S d \<Longrightarrow> customers_but S d'"
  by (erule (1) customers_but_grows [OF _ tables_logged]) (auto simp: loggedD intro: order_grows_refl)

lemma customers_create_profile:
  assumes ok: "customers_but S d" and new: "find_customer t phone d = None"
  shows "customers_but S (profile_create (new_profile now (newId (db_seq d)) t s name phone) (bump d))"
proof -
  let ?d = "profile_create (new_profile now (newId (db_seq d)) t s name phone) (bump d)"
  have fr: "newId (db_seq d) \<notin> set (map cp_id (customerProfiles d))"
    using ok by (intro fresh_fromD [of "db_seq d"]) (simp_all add: customers_but_def)
  have "(t, phone) \<notin> set (map (\<lambda>p. (cp_tenantId p, cp_phoneNormalized p)) (customerProfiles d))"
    using new by (auto simp: find_customer_def find_None_iff)
  moreover have "profile_entries j ?d = profile_entries j d" for j
    by (simp add: profile_entries_def profile_create_def)
  ultimately show ?thesis
    using ok fr unfolding customers_but_def
    by (simp add: profile_create_def new_profile_def fresh_from_Suc)
qed

lemma resolve_customer:
  assumes ok: "customers_but S d"
    and run: "resolveOrCreateCustomerProfileTx now t s name phone d = (p, d')"
  shows "customers_but S d'" "orders d' = orders d" "cp_tenantId p = t"
    "cp_phoneNormalized p = normalizeCustomerPhone phone" "p \<in> set (customerProfiles d')"
    "loyaltyEntries d' = loyaltyEntries d" "promotions d' = promotions d" "orderEvents d' = orderEvents d"
proof -
  let ?n = "normalizeCustomerPhone phone"
  have "customers_but S d' \<and> orders d' = orders d \<and> cp_tenantId p = t \<and> cp_phoneNormalized p = ?n \<and>
    p \<in> set (customerProfiles d') \<and> loyaltyEntries d' = loyaltyEntries d \<and> promotions d' = promotions d \<and>
    orderEvents d' = orderEvents d"
  proof (cases "find_customer t ?n d")
    case None
    then have r: "p = new_profile now (newId (db_seq d)) t s name ?n" "d' = profile_create p (bump d)"
      using run by (auto simp: resolveOrCreateCustomerProfileTx_def Let_def)
    show ?thesis
      using customers_create_profile [OF ok None, of now s name] unfolding r
      by (simp add: new_profile_def profile_create_def)
  next
    case (Some c)
    then have c: "c \<in> set (customerProfiles d)" "cp_tenantId c = t" "cp_phoneNormalized c = ?n"
      by (auto simp: find_customer_def dest: find_SomeD)
    have r: "p = seen_profile now s name ?n c" "d' = profile_update (cp_id c) (seen_profile now s name ?n) d"
      using run Some by (auto simp: resolveOrCreateCustomerProfileTx_def Let_def)
    have "p \<in> set (customerProfiles d')"
      using in_update_where [OF c(1), of "\<lambda>x. cp_id x = cp_id c" "seen_profile now s name ?n"]
      by (simp add: r profile_update_def)
    moreover have "customers_but S d'" unfolding r
      by (rule customers_profiles [OF ok]) (simp add: seen_profile_def)
    ultimately show ?thesis using c r by (simp add: seen_profile_def profile_update_def)
  qed
  then show "customers_but S d'" "orders d' = orders d" "cp_tenantId p = t" "cp_phoneNormalized p = ?n"
    "p \<in> set (customerProfiles d')" "loyaltyEntries d' = loyaltyEntries d" "promotions d' = promotions d"
    "orderEvents d' = orderEvents d" by blast+
qed

lemma ensure_account:
  assumes ok: "customers_but S d" and run: "ensureLoyaltyAccountTx now p d = (a, d')"
    and fr: "fresh_from (db_seq d) [cp_id p]"
  shows "customers_but S d'" "account_of (cp_id p) d' = Some a" "orders d' = orders d"
    "loyaltyEntries d' = loyaltyEntries d" "promotions d' = promotions d" "orderEvents d' = orderEvents d"
    "customerProfiles d' = customerProfiles d"
proof -
  have "customers_but S d' \<and> account_of (cp_id p) d' = Some a \<and> orders d' = orders d \<and>
    loyaltyEntries d' = loyaltyEntries d \<and> promotions d' = promotions d \<and> orderEvents d' = orderEvents d \<and>
    customerProfiles d' = customerProfiles d"
  proof (cases "account_of (cp_id p) d")
    case (Some c)
    then show ?thesis using run ok by (auto simp: ensureLoyaltyAccountTx_def)
  next
    case None
    then have out: "cp_id p \<notin> set (map la_customerProfileId (loyaltyAccounts d))"
      by (auto simp: account_of_def find_None_iff)
    have a: "la_id a = newId (db_seq d)" "la_customerProfileId a = cp_id p" "la_pointsBalance a = 0"
      "la_totalEarnedPoints a = 0" "la_totalRedeemedPoints a = 0" and d': "d' = account_create a (bump d)"
      using run None by (auto simp: ensureLoyaltyAccountTx_def Let_def)
    have ent: "profile_entries j d' = profile_entries j d" for j
      by (simp add: profile_entries_def d' account_create_def)
    have "lle_customerProfileId e \<noteq> cp_id p" if e: "e \<in> set (loyaltyEntries d)" for e
    proof -
      from ok e obtain x where "x \<in> set (loyaltyAccounts d)" "la_customerProfileId x = lle_customerProfileId e"
        unfolding customers_but_def by blast
      with out show ?thesis by force
    qed
    then have "profile_entries (cp_id p) d = []" by (simp add: profile_entries_def filter_empty_conv)
    then have bal: "balanced (profile_entries (cp_id p) d) a"
      by (simp add: balanced_def a earned_points_def redeemed_points_def)
    have fresh: "newId (db_seq d) \<notin> set (map la_id (loyaltyAccounts d))"
      using ok by (intro fresh_fromD [of "db_seq d"]) (simp_all add: customers_but_def)
    have fr': "fresh_from (Suc (db_seq d)) [cp_id p]" using fr by (rule fresh_from_Suc)
    have "customers_but S d'"
      using ok out bal fresh fr' ent unfolding customers_but_def d'
      by (auto simp: account_create_def a fresh_from_Suc)
    moreover have "account_of (cp_id p) d' = Some a"
      using None a(2) by (simp add: account_of_def d' account_create_def find_append)
    ultimately show ?thesis by (simp add: d' account_create_def)
  qed
  then show "customers_but S d'" "account_of (cp_id p) d' = Some a" "orders d' = orders d"
    "loyaltyEntries d' = loyaltyEntries d" "promotions d' = promotions d" "orderEvents d' = orderEvents d"
    "customerProfiles d' = customerProfiles d" by blast+
qed

lemma new_entry_ok:
  assumes ok: "customers_but S d" and a: "account_of p d = Some a"
    and key: "oid = None \<or> (oid, k) \<notin> set (order_keys (loyaltyEntries d))"
    and e: "entry_of_order (orders d) \<lparr>lle_id = newId (db_seq d), lle_tenantId = t, lle_customerProfileId = p,
      lle_loyaltyAccountId = la_id a, lle_orderId = oid, lle_entryKind = k, lle_points = n, lle_amount = am,
      lle_description = ds, lle_metadata = None, lle_createdAt = now\<rparr>"
  shows "customers_but (insert p S) (new_entry now t p (la_id a) oid k n am ds d)"
proof -
  let ?d = "new_entry now t p (la_id a) oid k n am ds d"
  have "profile_entries j ?d = profile_entries j d" if "j \<noteq> p" for j
    using that by (simp add: profile_entries_def new_entry_def)
  moreover have "distinct (order_keys (loyaltyEntries ?d))"
    using ok key by (auto simp: order_keys_def new_entry_def customers_but_def)
  ultimately show ?thesis
    using ok account_ofD [OF a] e unfolding customers_but_def
    by (auto simp: new_entry_def fresh_from_Suc)
qed

lemma refresh_account_ok:
  assumes ok: "customers_but S d" and run: "refreshLoyaltyAccountTx now p d = Inr d'"
  shows "customers_but (S - {p}) d'"
proof -
  from run obtain a where a: "account_of p d = Some a"
    and d': "d' = account_update (la_id a) (refreshed_account now (profile_entries p d)) d"
    by (auto simp: refreshLoyaltyAccountTx_def)
  let ?f = "refreshed_account now (profile_entries p d)"
  have keys: "map la_id (loyaltyAccounts d') = map la_id (loyaltyAccounts d)"
    "map la_customerProfileId (loyaltyAccounts d') = map la_customerProfileId (loyaltyAccounts d)"
    by (simp_all add: d' account_update_def map_update_where_key refreshed_account_def)
  have ent: "profile_entries j d' = profile_entries j d" for j
    by (simp add: profile_entries_def d' account_update_def)
  have "balanced (profile_entries (la_customerProfileId x) d) x"
    if x: "x \<in> set (loyaltyAccounts d')" and out: "la_customerProfileId x \<notin> S - {p}" for x
  proof -
    from x obtain y where y: "y \<in> set (loyaltyAccounts d)" "x = (if la_id y = la_id a then ?f y else y)"
      by (auto simp: d' account_update_def update_where_def)
    show ?thesis
    proof (cases "la_id y = la_id a")
      case True
      then have "y = a" using ok y(1) account_ofD [OF a] distinct_key_eq [of la_id "loyaltyAccounts d" y a]
        by (simp add: customers_but_def)
      with True y(2) account_ofD [OF a] show ?thesis by (simp add: balanced_def refreshed_account_def)
    next
      case False
      have "la_customerProfileId y \<noteq> p"
      proof
        assume "la_customerProfileId y = p"
        then have "y = a" using ok y(1) account_ofD [OF a]
            distinct_key_eq [of la_customerProfileId "loyaltyAccounts d" y a] by (simp add: customers_but_def)
        with False show False by simp
      qed
      with False y ok out show ?thesis by (auto simp: customers_but_def)
    qed
  qed
  moreover have "\<exists>x \<in> set (loyaltyAccounts d'). la_customerProfileId x = i \<and> la_id x = j"
    if "\<exists>x \<in> set (loyaltyAccounts d). la_customerProfileId x = i \<and> la_id x = j" for i j
    using that unfolding d' account_update_def
    by (simp, subst bex_update_where) (auto simp: refreshed_account_def)
  moreover have "customerProfiles d' = customerProfiles d" "loyaltyEntries d' = loyaltyEntries d"
    "promotions d' = promotions d" "orders d' = orders d" "db_seq d' = db_seq d"
    by (simp_all add: d' account_update_def)
  ultimately show ?thesis
    using ok unfolding customers_but_def keys ent by (simp add: keys)
qed

end
