(* ===== verification/CustomerSteps.thy ===== *)
theory CustomerSteps
  imports CustomerHistory
begin

text \<open>
  Every accepted request keeps \<open>customers_ok\<close>: the balance of each account is the sum of its ledger,
  and an order has at most one entry of each kind.
\<close>

section \<open>The pieces of a transaction\<close>

lemma customers_same:
  assumes "customers_but S d" and "customer_tables d' = customer_tables d" and "orders d' = orders d"
    and "db_seq d \<le> db_seq d'"
  shows "customers_but S d'"
  using customers_but_grows [OF assms(1,2)] order_grows_refl [OF assms(3,4)] by blast

lemma customers_logs [intro]:
  "customers_but S d \<Longrightarrow> customers_but S (recordTx l d)"
  "customers_but S d \<Longrightarrow> customers_but S (domainEvents_record ev d)"
  "customers_but S d \<Longrightarrow> customers_but S (recordOrderEventTx now order type payload d)"
  "customers_but S d \<Longrightarrow> customers_but S (record_once now order type payload d)"
  by (auto elim!: customers_same simp: customer_tables_def recordOrderEventTx_def record_once_def)

lemma customers_bump: "customers_but S d \<Longrightarrow> customers_but S (bump d)"
  by (erule customers_same) (auto simp: customer_tables_def)

lemma profile_fresh: "customers_but S d \<Longrightarrow> p \<in> set (customerProfiles d) \<Longrightarrow> fresh_from (db_seq d) [cp_id p]"
  by (auto simp: customers_but_def fresh_from_def)

lemma growth_events_ok: "customers_but S d \<Longrightarrow> customers_but S (growth_events now order p p' n d)"
  unfolding growth_events_def Let_def by (auto intro!: customers_logs)

lemma refresh_profile_ok:
  assumes ok: "customers_but S d" and run: "refreshCustomerProfileTx now i d = Inr (p, d')"
  shows "customers_but S d' \<and> orders d' = orders d \<and> loyaltyEntries d' = loyaltyEntries d \<and>
    promotions d' = promotions d \<and> orderEvents d' = orderEvents d"
proof -
  from run obtain q a d1 rows spent segments where q: "profile_get i d = Some q"
    and e: "ensureLoyaltyAccountTx now q d = (a, d1)"
    and d': "d' = profile_update (cp_id q) (refreshed_profile now rows spent segments) d1"
    by (auto simp: refreshCustomerProfileTx_def Let_def case_prod_Inr)
  have "q \<in> set (customerProfiles d)" using q by (auto simp: profile_get_def dest: find_SomeD)
  note E = ensure_account [OF ok e profile_fresh [OF ok this]]
  have "customers_but S d'" unfolding d'
    by (rule customers_profiles [OF E(1)]) (simp add: refreshed_profile_def)
  then show ?thesis using E by (simp add: d' profile_update_def)
qed

section \<open>Points, promotions\<close>

lemma adjustLoyalty_ok:
  assumes ok: "customers_ok d" and run: "adjustLoyalty context now i dto d = Inr (v, d')"
  shows "customers_ok d'"
proof -
  from run obtain p ac d1 d3 p' d4 l ev where p: "loadProfile context i d = Inr p"
    and e: "ensureLoyaltyAccountTx now p d = (ac, d1)"
    and r: "refreshLoyaltyAccountTx now (cp_id p) (new_entry now (cp_tenantId p) (cp_id p) (la_id ac) None ADJUST
       (acl_points dto) None (acl_description dto) d1) = Inr d3"
    and rp: "refreshCustomerProfileTx now (cp_id p) d3 = Inr (p', d4)"
    and d': "d' = domainEvents_record ev (recordTx l d4)"
    unfolding adjustLoyalty_def
    by (clarsimp simp: Let_def case_prod_Inr simp del: recordTx_def domainEvents_record_def)
  have "p \<in> set (customerProfiles d)"
    using p by (auto simp: loadProfile_def profile_get_def dest: find_SomeD)
  note E = ensure_account [OF ok [unfolded customers_ok_def] e profile_fresh [OF ok [unfolded customers_ok_def] this]]
  have "customers_but {cp_id p} (new_entry now (cp_tenantId p) (cp_id p) (la_id ac) None ADJUST
       (acl_points dto) None (acl_description dto) d1)"
    by (rule new_entry_ok [OF E(1,2)]) (simp_all add: entry_of_order_def)
  from refresh_account_ok [OF this r] have "customers_but {} d3" by simp
  with refresh_profile_ok [OF _ rp] have "customers_but {} d4" by blast
  then show ?thesis unfolding customers_ok_def d' by blast
qed

lemma createPromotion_ok:
  assumes ok: "customers_ok d" and run: "createPromotion context now dto d = Inr (v, d')"
  shows "customers_ok d'"
proof -
  from run obtain t x y z l where fr: "\<not> code_taken t (promotion_code (cpd_code dto)) d"
    and d': "d' = recordTx l (promotion_create (new_promotion now (newId (db_seq d)) t dto x y z) (bump d))"
    unfolding createPromotion_def
    by (clarsimp simp: Let_def simp del: recordTx_def bump_def) (auto simp: new_promotion_def)
  let ?d = "promotion_create (new_promotion now (newId (db_seq d)) t dto x y z) (bump d)"
  have ok': "customers_but {} d" using ok by (simp add: customers_ok_def)
  have "newId (db_seq d) \<notin> set (map pc_id (promotions d))"
    using ok' by (intro fresh_fromD [of "db_seq d"]) (simp_all add: customers_but_def)
  moreover have "profile_entries j ?d = profile_entries j d" for j
    by (simp add: profile_entries_def promotion_create_def)
  ultimately have "customers_but {} ?d"
    using ok' fr unfolding customers_but_def
    by (simp add: promotion_create_def new_promotion_def fresh_from_Suc code_taken_def)
  then show ?thesis unfolding customers_ok_def d' by blast
qed

lemma promotion_codes:
  assumes d: "distinct (map pc_id ps)" and dc: "distinct (map (\<lambda>p. (pc_tenantId p, pc_code p)) ps)"
    and p: "find (\<lambda>r. pc_id r = i) ps = Some p" and t: "\<And>r. pc_tenantId (f r) = pc_tenantId r"
    and new: "pc_code (f p) = pc_code p \<or> (pc_tenantId p, pc_code (f p)) \<notin> set (map (\<lambda>p. (pc_tenantId p, pc_code p)) ps)"
  shows "distinct (map (\<lambda>p. (pc_tenantId p, pc_code p)) (update_where (\<lambda>r. pc_id r = i) f ps))"
  using assms
proof (induction ps)
  case (Cons q ps)
  show ?case
  proof (cases "pc_id q = i")
    case True
    with Cons.prems have q: "p = q" by simp
    have "update_where (\<lambda>r. pc_id r = i) f ps = ps"
      unfolding update_where_def by (rule map_idI) (use Cons.prems(1) True in \<open>auto dest: image_eqI [OF sym]\<close>)
    with True q Cons.prems(2,4,5) show ?thesis by (auto simp: update_where_def)
  next
    case False
    with Cons.prems have "find (\<lambda>r. pc_id r = i) ps = Some p" by simp
    then have p': "p \<in> set ps" "pc_id p = i" by (auto dest: find_SomeD)
    have *: "(pc_tenantId q, pc_code q) \<noteq> (pc_tenantId (f x), pc_code (f x))"
      if x: "x \<in> set ps" "pc_id x = i" for x
    proof -
      from Cons.prems(1) p' x have "x = p" using distinct_key_eq [of pc_id ps x p] by simp
      with Cons.prems(2,4,5) p' show ?thesis by force
    qed
    have "distinct (map (\<lambda>p. (pc_tenantId p, pc_code p)) (update_where (\<lambda>r. pc_id r = i) f ps))"
      using Cons.prems False by (intro Cons.IH) auto
    moreover have "(pc_tenantId q, pc_code q) \<notin>
        set (map (\<lambda>p. (pc_tenantId p, pc_code p)) (update_where (\<lambda>r. pc_id r = i) f ps))"
      using * Cons.prems(2) by (force simp: update_where_def)
    ultimately show ?thesis using False by (simp add: update_where_def)
  qed
qed simp

lemma updatePromotion_ok:
  assumes ok: "customers_ok d" and run: "updatePromotion context now i dto d = Inr (v, d')"
  shows "customers_ok d'"
proof -
  from run obtain p x y z l where p: "promotion_get i d = Some p"
    and new: "pc_code (changed_promotion now dto x y z p) = pc_code p \<or>
      \<not> code_taken (pc_tenantId p) (pc_code (changed_promotion now dto x y z p)) d"
    and d': "d' = recordTx l (promotion_update i (changed_promotion now dto x y z) d)"
    unfolding updatePromotion_def
    by (clarsimp simp: Let_def simp del: recordTx_def)
  have ok': "customers_but {} d" using ok by (simp add: customers_ok_def)
  have "customers_but {} (promotion_update i (changed_promotion now dto x y z) d)"
  proof (rule customers_promotions [OF ok'])
    show "distinct (map (\<lambda>p. (pc_tenantId p, pc_code p)) (promotions
        (promotion_update i (changed_promotion now dto x y z) d)))"
      unfolding promotion_update_def
      using ok' p new
      by (simp, intro promotion_codes) (auto simp: customers_but_def promotion_get_def changed_promotion_def code_taken_def)
  qed (simp add: changed_promotion_def)
  then show ?thesis unfolding customers_ok_def d' by blast
qed

lemma applyPromotion_ok:
  assumes ok: "customers_ok d" and run: "applyPromotionToCart context now input d = (r, d')"
  shows "customers_ok d'"
proof -
  have "customers_ok e" if tx: "applyPromotion_tx context now input d = Inr (u, e)" for u e
  proof -
    obtain c items profile d1 p account d2 f where
      pr: "applied_profile now c input d = (profile, d1)" and ac: "applied_account now profile d1 = (account, d2)"
      and e: "e = cart_update (api_cartId input) f d2"
      by (rule applyPromotion_Inr [OF tx]) (auto simp: Let_def)
    have "customers_but {} d2"
    proof (cases profile)
      case None
      then have "d2 = d" using pr ac
        by (auto simp: applied_profile_def applied_account_def case_prod_unfold Let_def split: option.splits)
      with ok show ?thesis by (simp add: customers_ok_def)
    next
      case (Some q)
      obtain t s n ph where r: "resolveOrCreateCustomerProfileTx now t s n ph d = (q, d1)"
        using pr Some by (auto simp: applied_profile_def case_prod_unfold Let_def split: option.splits
            intro: that [OF prod_eqI])
      note R = resolve_customer [OF ok [unfolded customers_ok_def] r]
      obtain a where "ensureLoyaltyAccountTx now q d1 = (a, d2)"
        using ac Some by (auto simp: applied_account_def case_prod_unfold Let_def intro: that [OF prod_eqI])
      from ensure_account(1) [OF R(1) this profile_fresh [OF R(1) R(5)]] show ?thesis .
    qed
    then show ?thesis unfolding customers_ok_def e
      by (rule customers_same) (simp_all add: cart_update_def customer_tables_def)
  qed
  with run ok show ?thesis
    by (auto simp: applyPromotionToCart_def committed_def and_then_def split: sum.splits)
qed


section \<open>What an order earns\<close>

lemma not_entry_exists: "\<not> entry_exists i k d \<Longrightarrow> (Some i, k) \<notin> set (order_keys (loyaltyEntries d))"
  by (auto simp: entry_exists_def order_keys_def list_ex_iff)

lemma earn_ok:
  assumes ok: "customers_but S d" and a: "account_of (cp_id p) d = Some a"
    and r: "\<exists>r \<in> set (orders d). ord_id r = ord_id order \<and> ord_total r = ord_total order"
    and n: "n = max 0 (ord_total order div 100)"
  shows "customers_but (insert (cp_id p) S) (earn now order p a n d)"
proof (cases "\<not> entry_exists (ord_id order) EARN d \<and> 0 < n \<and> ord_status order \<noteq> CANCELLED")
  case True
  then show ?thesis unfolding earn_def
    using r n by (simp, intro new_entry_ok [OF ok a])
      (auto simp: not_entry_exists entry_of_order_def)
next
  case False
  then have "earn now order p a n d = d" by (simp only: earn_def if_False)
  with customers_but_mono [OF ok subset_insertI] show ?thesis by simp
qed

lemma redeem_ok:
  assumes ok: "customers_but (insert (cp_id p) S) d" and a: "account_of (cp_id p) d = Some a"
    and r: "\<exists>r \<in> set (orders d). ord_id r = ord_id order"
    and run: "redeem now order p a d = Inr d'"
  shows "customers_but (insert (cp_id p) S) d'"
proof (cases "d' = d")
  case False
  with run obtain x where x: "redemption_cost (ord_promotionSnapshot order) = Some x" "\<not> entry_exists (ord_id order) REDEEM d"
    "of_int \<lfloor>x\<rfloor> = x"
    and d': "d' = new_entry now (ord_tenantId order) (cp_id p) (la_id a) (Some (ord_id order))
              REDEEM (- \<lfloor>x\<rfloor>) (Some (ord_discountTotal order))
              (Some (''Redeemed for promotion '' @ nullish (ord_promotionCode order) ''LOYALTY'')) d"
    by (auto simp: redeem_def split: option.splits if_splits)
  have "0 < x" using x(1) by (auto simp: redemption_cost_def split: if_splits option.splits)
  with x(3) have "0 < \<lfloor>x\<rfloor>" by (metis of_int_0_less_iff)
  with new_entry_ok [OF ok a, of "Some (ord_id order)" REDEEM] x(2) r not_entry_exists show ?thesis
    unfolding d' by (force simp: entry_of_order_def)
qed (use ok in simp)

lemma count_use_ok:
  assumes ok: "customers_but S d" and run: "count_use now order p d = Inr d'"
  shows "customers_but S d'"
proof (cases "d' = d")
  case False
  with run obtain i type payload where
    d': "d' = recordOrderEventTx now order type payload (promotion_update i
      (\<lambda>p. p\<lparr>pc_usedCount := pc_usedCount p + 1, pc_updatedAt := now\<rparr>) d)"
    by (auto simp: count_use_def split: option.splits if_splits)
  have "distinct (map (\<lambda>p. (pc_tenantId p, pc_code p)) (promotions (promotion_update i
      (\<lambda>p. p\<lparr>pc_usedCount := pc_usedCount p + 1, pc_updatedAt := now\<rparr>) d)))"
    using ok by (simp add: promotion_update_def map_update_where_key customers_but_def)
  from customers_promotions [OF ok _ this] show ?thesis unfolding d' by (auto intro!: customers_logs)
qed (use ok in simp)

lemma link_customer_tables: "link_customer now p order d = Inr d' \<Longrightarrow> customer_tables d' = customer_tables d"
  by (auto simp: link_customer_def Let_def split: option.splits)

lemma earn_keeps: "account_of i (earn now order p a n d) = account_of i d \<and> orders (earn now order p a n d) = orders d"
  by (simp add: earn_def account_of_def new_entry_def)

lemma finalizeOrderGrowth_ok:
  assumes api: "api_ok d" and ok: "customers_ok d" and run: "finalizeOrderGrowth context now i d = Inr (v, d')"
  shows "customers_ok d'"
proof (cases "d' = d")
  case False
  obtain order p d1 a d2 d3 n d4 d5 payload d7 p' d8 where
    o: "order_get i d = Some order"
    and r: "resolveOrCreateCustomerProfileTx now (ord_tenantId order) (ord_storeId order)
           (ord_customerName order) (normalizeCustomerPhone (nullish (ord_customerPhone order) '''')) d = (p, d1)"
    and e: "ensureLoyaltyAccountTx now p d1 = (a, d2)"
    and l: "link_customer now p order d2 = Inr d3" and n: "n = max 0 (ord_total order div 100)"
    and rd: "redeem now order p a (earn now order p a n d3) = Inr d4"
    and cu: "count_use now order p d4 = Inr d5"
    and ra: "refreshLoyaltyAccountTx now (cp_id p) (record_once now order ''customer.profile_linked'' payload d5) = Inr d7"
    and rp: "refreshCustomerProfileTx now (cp_id p) d7 = Inr (p', d8)"
    and d': "d' = growth_events now order p p' n d8"
    by (rule finalize_Inr [OF run False])
  note R = resolve_customer [OF ok [unfolded customers_ok_def] r]
  note E = ensure_account [OF R(1) e profile_fresh [OF R(1) R(5)]]
  have o2: "order_get i d2 = Some order" using o R(2) E(3) by (simp add: order_get_def)
  have rows: "customer_rows d d2"
    using customer_rows_tx(2) [OF r] customer_rows_tx(1) [OF e] by (rule customer_rows_trans)
  have api2: "api_ok d2" using core_step_customer [OF rows] api by (simp add: core_step_def)
  have g: "order_grows d2 d3"
    using link_customer_core [OF l] o2 order_getD [OF o2] api2 by (simp add: core_step_def)
  have t: "customer_tables d3 = customer_tables d2" by (rule link_customer_tables [OF l])
  have ok3: "customers_but {} d3" by (rule customers_but_grows [OF E(1) t g])
  have a3: "account_of (cp_id p) d3 = Some a" using E(2) t by (simp add: account_of_def customer_tables_def)
  have ord3: "\<exists>r \<in> set (orders d3). ord_id r = ord_id order \<and> ord_total r = ord_total order"
    using g order_getD [OF o2] unfolding order_grows_def by blast
  have "customers_but {cp_id p} (earn now order p a n d3)" using earn_ok [OF ok3 a3 ord3 n] by simp
  then have "customers_but {cp_id p} d4"
    by (rule redeem_ok [OF _ _ _ rd]) (use ord3 a3 earn_keeps in auto)
  then have "customers_but {cp_id p} d5" by (rule count_use_ok [OF _ cu])
  then have "customers_but {cp_id p} (record_once now order ''customer.profile_linked'' payload d5)" by blast
  from refresh_account_ok [OF this ra] have "customers_but {} d7" by simp
  with refresh_profile_ok [OF _ rp] have "customers_but {} d8" by blast
  then show ?thesis unfolding customers_ok_def d' by (rule growth_events_ok)
qed (use ok in simp)

section \<open>Ordering again\<close>

lemma repeat_items_tables:
  "repeat_items context now i items d = (r, d') \<Longrightarrow> api_ok d \<Longrightarrow> customer_tables d' = customer_tables d"
proof (induction items arbitrary: d)
  case (Cons x items)
  show ?case
  proof (cases "addItem context now i (repeat_dto x) d")
    case (Inl err)
    with Cons.prems show ?thesis by (simp add: committed_def and_then_def)
  next
    case (Inr vd)
    obtain v d1 where vd: "vd = (v, d1)" by (cases vd)
    have "api_ok d1" using cart_handlers_core(3) [OF Inr [unfolded vd]] Cons.prems(2) by (simp add: core_step_def)
    moreover have "customer_tables d1 = customer_tables d"
      using cart_handlers_tables(3) [OF _ Inr [unfolded vd]] Cons.prems(2) by (simp add: api_ok_def)
    ultimately show ?thesis using Cons Inr vd by (simp add: committed_def and_then_def)
  qed
qed simp

lemma repeat_fulfilment_tables:
  "repeat_fulfilment context now i f d = (r, d') \<Longrightarrow> customer_tables d' = customer_tables d"
  by (auto simp: repeat_fulfilment_def committed_def bnd_def dest: fulfilment_tables
      split: option.splits json.splits sum.splits)

lemma repeatCustomerOrder_tables:
  assumes api: "api_ok d" and run: "repeatCustomerOrder context now input d = (r, d')"
  shows "customer_tables d' = customer_tables d"
proof -
  have fin: "customer_tables (domainEvents_record ev d) = customer_tables d" for ev d
    by (simp add: customer_tables_def)
  have cr: "api_ok e \<and> customer_tables e = customer_tables d" if "createCart context now x d = Inr (v, e)" for x v e
    using cart_handlers_core(1) [OF that] cart_handlers_tables(1) [OF _ that] api by (simp add: core_step_def api_ok_def)
  from run show ?thesis
    unfolding repeatCustomerOrder_def
    by (auto simp: committed_def and_then_def viewed_def fin simp del: domainEvents_record_def
        split: sum.splits prod.splits dest!: cr repeat_items_tables repeat_fulfilment_tables)
qed

section \<open>Every request\<close>

lemma other_tables:
  assumes "api_ok d"
  shows "core_step d d' \<Longrightarrow> customer_tables d' = customer_tables d \<Longrightarrow> customers_ok d \<Longrightarrow> customers_ok d'"
  using assms customers_but_grows unfolding core_step_def customers_ok_def by blast

lemma api_step_customers:
  assumes step: "api_step d d'" and api: "api_ok d" and ok: "customers_ok d"
  shows "customers_ok d'"
proof -
  have carts: "carts_ok d" using api by (simp add: api_ok_def)
  note other = other_tables [OF api api_step_core [OF step] _ ok]
  from step show ?thesis
    by cases (blast intro: other cart_handlers_tables [OF carts] checkout_tables transitionOrder_tables
      transitionTicket_tables createReservation_tables releaseReservation_tables consumeReservation_tables
      createAdjustment_tables receive_tables fulfilment_tables repeatCustomerOrder_tables [OF api]
      adjustLoyalty_ok [OF ok] createPromotion_ok [OF ok] updatePromotion_ok [OF ok] applyPromotion_ok [OF ok]
      finalizeOrderGrowth_ok [OF api ok])+
qed

lemma customers_reachable:
  assumes "api_step\<^sup>*\<^sup>* d d'" and "api_ok d" and "customers_ok d"
  shows "customers_ok d'"
  using assms(1)
proof (induction rule: rtranclp_induct)
  case (step d1 d2)
  then show ?case using api_step_customers api_reachable assms(2) by blast
qed (rule assms(3))

section \<open>Finalizing an order twice\<close>

definition ledger_tables :: "db \<Rightarrow> LoyaltyLedgerEntry list \<times> PromotionCampaign list" where
  "ledger_tables d = (loyaltyEntries d, promotions d)"

text \<open>Nothing is left to earn, to redeem or to count for an order.\<close>

definition order_settled :: "Order \<Rightarrow> db \<Rightarrow> bool" where
  "order_settled order d \<longleftrightarrow>
     (0 < ord_total order div 100 \<and> ord_status order \<noteq> CANCELLED \<longrightarrow> entry_exists (ord_id order) EARN d) \<and>
     (redemption_cost (ord_promotionSnapshot order) \<noteq> None \<longrightarrow> entry_exists (ord_id order) REDEEM d) \<and>
     (jstring (field (ord_promotionSnapshot order) ''promotionId'') \<noteq> None \<longrightarrow>
        order_event_exists (ord_id order) ''customer.promotion_redeemed'' d)"

lemma entry_exists_mono: "entry_exists i k d \<Longrightarrow> set (loyaltyEntries d) \<subseteq> set (loyaltyEntries d') \<Longrightarrow> entry_exists i k d'"
  unfolding entry_exists_def list_ex_iff by blast

lemma order_settled_mono:
  assumes "order_settled order d" and "set (loyaltyEntries d) \<subseteq> set (loyaltyEntries d')"
    and "set (orderEvents d) \<subseteq> set (orderEvents d')"
  shows "order_settled order d'"
  using assms unfolding order_settled_def entry_exists_def order_event_exists_def list_ex_iff by blast

lemma resolve_ledger: "resolveOrCreateCustomerProfileTx now t s name phone d = (p, d') \<Longrightarrow>
    ledger_tables d' = ledger_tables d \<and> orderEvents d' = orderEvents d \<and> orders d' = orders d"
  by (auto simp: resolveOrCreateCustomerProfileTx_def Let_def ledger_tables_def profile_update_def profile_create_def
      split: option.splits)

lemma ensure_ledger: "ensureLoyaltyAccountTx now p d = (a, d') \<Longrightarrow>
    ledger_tables d' = ledger_tables d \<and> orderEvents d' = orderEvents d \<and> orders d' = orders d"
  by (auto simp: ensureLoyaltyAccountTx_def Let_def ledger_tables_def account_create_def split: option.splits)

lemma refresh_ledger:
  "refreshLoyaltyAccountTx now i d = Inr d' \<Longrightarrow>
    ledger_tables d' = ledger_tables d \<and> orderEvents d' = orderEvents d \<and> orders d' = orders d"
  "refreshCustomerProfileTx now i d = Inr (p, d') \<Longrightarrow>
    ledger_tables d' = ledger_tables d \<and> orderEvents d' = orderEvents d \<and> orders d' = orders d"
  by (auto simp: refreshLoyaltyAccountTx_def refreshCustomerProfileTx_def Let_def case_prod_Inr ledger_tables_def
      account_update_def profile_update_def dest!: ensure_ledger)

lemma record_once_ledger:
  "ledger_tables (record_once now order type payload d) = ledger_tables d \<and>
   orders (record_once now order type payload d) = orders d \<and>
   set (orderEvents d) \<subseteq> set (orderEvents (record_once now order type payload d))"
  by (auto simp: record_once_def recordOrderEventTx_def ledger_tables_def)

lemma growth_ledger:
  "ledger_tables (growth_events now order p p' n d) = ledger_tables d \<and>
   orders (growth_events now order p p' n d) = orders d \<and>
   set (orderEvents d) \<subseteq> set (orderEvents (growth_events now order p p' n d))"
  unfolding growth_events_def Let_def
  by (auto simp: record_once_def recordOrderEventTx_def ledger_tables_def)

lemma earn_settles:
  "0 < n \<Longrightarrow> ord_status order \<noteq> CANCELLED \<Longrightarrow> entry_exists (ord_id order) EARN (earn now order p a n d)"
  "set (loyaltyEntries d) \<subseteq> set (loyaltyEntries (earn now order p a n d))"
  "promotions (earn now order p a n d) = promotions d" "orderEvents (earn now order p a n d) = orderEvents d"
  by (auto simp: earn_def new_entry_def entry_exists_def)

lemma redeem_settles:
  assumes "redeem now order p a d = Inr d'"
  shows "redemption_cost (ord_promotionSnapshot order) \<noteq> None \<Longrightarrow> entry_exists (ord_id order) REDEEM d'"
    "set (loyaltyEntries d) \<subseteq> set (loyaltyEntries d')" "orders d' = orders d" "orderEvents d' = orderEvents d"
  using assms by (auto simp: redeem_def new_entry_def entry_exists_def split: option.splits if_splits)

lemma count_use_settles:
  assumes "count_use now order p d = Inr d'"
  shows "jstring (field (ord_promotionSnapshot order) ''promotionId'') \<noteq> None \<Longrightarrow>
      order_event_exists (ord_id order) ''customer.promotion_redeemed'' d'"
    "loyaltyEntries d' = loyaltyEntries d" "orders d' = orders d" "set (orderEvents d) \<subseteq> set (orderEvents d')"
  using assms by (auto simp: count_use_def recordOrderEventTx_def promotion_update_def order_event_exists_def
      split: option.splits if_splits)

lemma finalize_run:
  assumes "finalizeOrderGrowth context now i d = Inr (v, d')" and "order_get i d = Some order"
    and "truthy (map_option trim (ord_customerPhone order))"
  obtains profile d1 account d2 d3 n d4 d5 payload d7 profile' d8 where
    "resolveOrCreateCustomerProfileTx now (ord_tenantId order) (ord_storeId order)
           (ord_customerName order) (normalizeCustomerPhone (nullish (ord_customerPhone order) '''')) d = (profile, d1)"
    "ensureLoyaltyAccountTx now profile d1 = (account, d2)"
    "link_customer now profile order d2 = Inr d3" "n = max 0 (ord_total order div 100)"
    "redeem now order profile account (earn now order profile account n d3) = Inr d4"
    "count_use now order profile d4 = Inr d5"
    "refreshLoyaltyAccountTx now (cp_id profile) (record_once now order ''customer.profile_linked'' payload d5) = Inr d7"
    "refreshCustomerProfileTx now (cp_id profile) d7 = Inr (profile', d8)"
    "d' = growth_events now order profile profile' n d8"
  using assms unfolding finalizeOrderGrowth_def
  by (auto simp: Let_def case_prod_Inr loadOrder_Inr resolveEarnedLoyaltyPoints_def split: if_splits)

lemma link_customer_ledger:
  assumes "link_customer now p order d = Inr d'"
  shows "ledger_tables d' = ledger_tables d" "orderEvents d' = orderEvents d"
    "order_get j d' = order_get j (order_update (ord_id order) (linked_order now p) d)"
  using assms by (auto simp: link_customer_def Let_def ledger_tables_def order_update_def cart_update_def order_get_def
      split: option.splits)

lemma finalize_settles:
  assumes run: "finalizeOrderGrowth context now i d = Inr (v, d')" and o: "order_get i d = Some order"
    and t: "truthy (map_option trim (ord_customerPhone order))"
  shows "order_settled order d' \<and> (\<exists>p. order_get i d' = Some (linked_order now p order))"
proof -
  obtain p d1 a d2 d3 n d4 d5 payload d7 p' d8 where
    r: "resolveOrCreateCustomerProfileTx now (ord_tenantId order) (ord_storeId order)
           (ord_customerName order) (normalizeCustomerPhone (nullish (ord_customerPhone order) '''')) d = (p, d1)"
    and e: "ensureLoyaltyAccountTx now p d1 = (a, d2)"
    and l: "link_customer now p order d2 = Inr d3" and n: "n = max 0 (ord_total order div 100)"
    and rd: "redeem now order p a (earn now order p a n d3) = Inr d4"
    and cu: "count_use now order p d4 = Inr d5"
    and ra: "refreshLoyaltyAccountTx now (cp_id p) (record_once now order ''customer.profile_linked'' payload d5) = Inr d7"
    and rp: "refreshCustomerProfileTx now (cp_id p) d7 = Inr (p', d8)"
    and d': "d' = growth_events now order p p' n d8"
    by (rule finalize_run [OF run o t])
  note R = redeem_settles [OF rd] and C = count_use_settles [OF cu]
  have "entry_exists (ord_id order) EARN d5" if "0 < ord_total order div 100" "ord_status order \<noteq> CANCELLED"
    by (rule entry_exists_mono [OF earn_settles(1) [of n order now p a d3]]) (use n that R(2) C(2) in simp_all)
  moreover have "entry_exists (ord_id order) REDEEM d5" if "redemption_cost (ord_promotionSnapshot order) \<noteq> None"
    by (rule entry_exists_mono [OF R(1) [OF that]]) (simp add: C(2))
  ultimately have "order_settled order d5" using C(1) unfolding order_settled_def by blast
  moreover have "ledger_tables d' = ledger_tables d5 \<and> orders d' = orders d5 \<and> set (orderEvents d5) \<subseteq> set (orderEvents d')"
    using refresh_ledger(1) [OF ra] refresh_ledger(2) [OF rp] record_once_ledger [of now order "''customer.profile_linked''" payload d5]
      growth_ledger [of now order p p' n d8] unfolding d' by auto
  ultimately have s: "order_settled order d'" and os: "orders d' = orders d5"
    by (auto elim: order_settled_mono simp: ledger_tables_def)
  have "orders d5 = orders d3" using R C earn_keeps by metis
  moreover have "orders d2 = orders d" using resolve_ledger [OF r] ensure_ledger [OF e] by simp
  ultimately have "order_get i d' = order_get i (order_update (ord_id order) (linked_order now p) d2)"
    "order_get i d2 = Some order"
    using os link_customer_ledger(3) [OF l, of i] o by (simp_all add: order_get_def)
  then have "order_get i d' = Some (linked_order now p order)"
    using order_getD [OF o] by (simp add: order_rows.get_upd linked_order_def)
  with s show ?thesis by blast
qed

lemma finalize_settled:
  assumes run: "finalizeOrderGrowth context now i d = Inr (v, d')" and o: "order_get i d = Some order"
    and s: "order_settled order d"
  shows "ledger_tables d' = ledger_tables d"
proof (cases "truthy (map_option trim (ord_customerPhone order))")
  case False
  with run o show ?thesis by (auto simp: finalizeOrderGrowth_def loadOrder_Inr)
next
  case True
  obtain p d1 a d2 d3 n d4 d5 payload d7 p' d8 where
    r: "resolveOrCreateCustomerProfileTx now (ord_tenantId order) (ord_storeId order)
           (ord_customerName order) (normalizeCustomerPhone (nullish (ord_customerPhone order) '''')) d = (p, d1)"
    and e: "ensureLoyaltyAccountTx now p d1 = (a, d2)"
    and l: "link_customer now p order d2 = Inr d3" and n: "n = max 0 (ord_total order div 100)"
    and rd: "redeem now order p a (earn now order p a n d3) = Inr d4"
    and cu: "count_use now order p d4 = Inr d5"
    and ra: "refreshLoyaltyAccountTx now (cp_id p) (record_once now order ''customer.profile_linked'' payload d5) = Inr d7"
    and rp: "refreshCustomerProfileTx now (cp_id p) d7 = Inr (p', d8)"
    and d': "d' = growth_events now order p p' n d8"
    by (rule finalize_run [OF run o True])
  have same: "ledger_tables d3 = ledger_tables d" "orderEvents d3 = orderEvents d"
    using resolve_ledger [OF r] ensure_ledger [OF e] link_customer_ledger [OF l] by auto
  then have s3: "order_settled order d3" using s by (auto elim!: order_settled_mono simp: ledger_tables_def)
  then have "earn now order p a n d3 = d3" by (auto simp: earn_def order_settled_def n)
  then have "d4 = d3" using rd s3 by (auto simp: redeem_def order_settled_def split: option.splits if_splits)
  then have "d5 = d3" using cu s3 by (auto simp: count_use_def order_settled_def split: option.splits if_splits)
  then show ?thesis
    using refresh_ledger(1) [OF ra] refresh_ledger(2) [OF rp] record_once_ledger [of now order "''customer.profile_linked''" payload d5]
      growth_ledger [of now order p p' n d8] same unfolding d' by auto
qed

lemma finalize_twice:
  assumes first: "finalizeOrderGrowth context now i d = Inr (v, d1)"
    and second: "finalizeOrderGrowth context' now' i d1 = Inr (v', d2)"
  shows "ledger_tables d2 = ledger_tables d1"
proof -
  obtain order where o: "order_get i d = Some order"
    using first by (auto simp: finalizeOrderGrowth_def loadOrder_Inr)
  show ?thesis
  proof (cases "truthy (map_option trim (ord_customerPhone order))")
    case True
    from finalize_settles [OF first o True] obtain p where s: "order_settled order d1"
      and o1: "order_get i d1 = Some (linked_order now p order)" by blast
    from s have "order_settled (linked_order now p order) d1" by (simp add: order_settled_def linked_order_def)
    from finalize_settled [OF second o1 this] show ?thesis .
  next
    case False
    then have "d1 = d" using first o by (auto simp: finalizeOrderGrowth_def loadOrder_Inr)
    with False second o show ?thesis by (auto simp: finalizeOrderGrowth_def loadOrder_Inr)
  qed
qed

end
