(* ===== verification/CustomerProperties.thy ===== *)
theory CustomerProperties
  imports Demo CustomerSteps
begin

text \<open>
  Properties of customers, loyalty points and promotions: what a promotion takes off an amount, what
  it changes when it is applied, what the ledger of a customer adds up to after any history, and that
  an order earns and redeems once.
\<close>

section \<open>The arithmetic of discounts\<close>

text \<open>The discount in exact arithmetic: a percentage is rounded down to a whole cent.\<close>

definition exact_discount :: "PromotionType \<Rightarrow> int \<Rightarrow> int \<Rightarrow> int option \<Rightarrow> int" where
  "exact_discount type v t cap =
     (let taken = (if type = PERCENTAGE then t * v div 10000 else v)
      in min t (case cap of None \<Rightarrow> taken | Some m \<Rightarrow> min taken m))"

lemma promotion_cents_nonneg:
  assumes "0 \<le> v" "0 \<le> t" and "\<forall>m. cap = Some m \<longrightarrow> 0 \<le> m"
  shows "0 \<le> promotion_cents type v t cap"
  using assms percent_cents_nonneg [OF assms(2,1)] by (auto simp: promotion_cents_def Let_def split: option.splits)

text \<open>
  C30: A promotion takes at least nothing, at most the amount of the order, and at most its own
  maximum. It takes the discount of exact arithmetic; only where a percentage comes out at a whole
  number of cents may the doubles of the code take one cent less.
\<close>

theorem promotion_discount:
  assumes "parseMoneyToCents (Some value) = Inr (Some v)" and "parseMoneyToCents (Some orderTotal) = Inr (Some t)"
    and "0 \<le> v" and "0 \<le> t" and "t * v < 2 ^ 51" and "\<forall>m. cap = Some m \<longrightarrow> 0 \<le> m"
  shows "\<exists>c. resolvePromotionDiscount type value orderTotal (map_option formatCents cap) = Inr (formatCents c) \<and>
    0 \<le> c \<and> c \<le> t \<and> (\<forall>m. cap = Some m \<longrightarrow> c \<le> m) \<and>
    (c = exact_discount type v t cap \<or>
     type = PERCENTAGE \<and> t * v mod 10000 = 0 \<and> c = exact_discount type v t cap - 1)"
proof (intro exI conjI)
  let ?c = "promotion_cents type v t cap"
  show "resolvePromotionDiscount type value orderTotal (map_option formatCents cap) = Inr (formatCents ?c)"
    using assms by (cases cap) (simp_all add: resolvePromotionDiscount_def max_def)
  show "0 \<le> ?c" by (rule promotion_cents_nonneg [OF assms(3,4,6)])
  show "?c \<le> t" by (simp add: promotion_cents_def Let_def)
  show "\<forall>m. cap = Some m \<longrightarrow> ?c \<le> m" by (auto simp: promotion_cents_def Let_def)
  note P = percent_cents_bounds [OF assms(4,3,5)]
  show "?c = exact_discount type v t cap \<or>
     type = PERCENTAGE \<and> t * v mod 10000 = 0 \<and> ?c = exact_discount type v t cap - 1"
  proof (cases "type = PERCENTAGE")
    case False
    then show ?thesis by (simp add: promotion_cents_def exact_discount_def Let_def)
  next
    case True
    have "percent_cents t v = t * v div 10000 \<or> t * v mod 10000 = 0 \<and> percent_cents t v = t * v div 10000 - 1"
      using P by blast
    then show ?thesis
      using True by (cases cap) (auto simp: promotion_cents_def exact_discount_def Let_def min_def)
  qed
qed

theorem promotion_discount_witness:
  "resolvePromotionDiscount PERCENTAGE ''29.00'' ''1.00'' (Some ''0.50'') = Inr ''0.28'' \<and>
   exact_discount PERCENTAGE 2900 100 (Some 50) = 29 \<and>
   (\<exists>c. resolvePromotionDiscount PERCENTAGE ''29.00'' ''1.00'' (map_option formatCents (Some 50)) = Inr (formatCents c) \<and>
      0 \<le> c \<and> c \<le> 100)"
proof -
  have "parseMoneyToCents (Some ''29.00'') = Inr (Some 2900)" "parseMoneyToCents (Some ''1.00'') = Inr (Some 100)"
    by code_simp+
  note parsed = this
  note D = promotion_discount [OF parsed, of "Some 50" PERCENTAGE]
  obtain c where "resolvePromotionDiscount PERCENTAGE ''29.00'' ''1.00'' (map_option formatCents (Some 50)) = Inr (formatCents c)"
    "0 \<le> c" "c \<le> 100" by (rule exE [OF D]) simp_all
  then have "\<exists>c. resolvePromotionDiscount PERCENTAGE ''29.00'' ''1.00'' (map_option formatCents (Some 50)) =
      Inr (formatCents c) \<and> 0 \<le> c \<and> c \<le> 100" by blast
  moreover have "resolvePromotionDiscount PERCENTAGE ''29.00'' ''1.00'' (Some ''0.50'') = Inr ''0.28''"
  proof -
    have p: "percent_cents 100 2900 = 28" by code_simp
    have cap: "parseMoneyToCents (Some ''0.50'') = Inr (Some 50)" and txt28: "formatCents 28 = ''0.28''" by code_simp+
    have "promotion_cents PERCENTAGE 2900 100 (Some 50) = 28"
      unfolding promotion_cents_def Let_def by (simp add: p)
    then show ?thesis by (simp add: resolvePromotionDiscount_def parsed cap txt28)
  qed
  moreover have "exact_discount PERCENTAGE 2900 100 (Some 50) = 29" by code_simp
  ultimately show ?thesis by blast
qed

text \<open>
  C31: What a customer spent is summed in doubles, one order at a time, and written with two digits.
  For up to two thousand orders that add up to at most ten thousand million, the text is the exact
  sum of the cents.
\<close>

theorem spent_exact:
  assumes "\<forall>t \<in> set ts. \<bar>t\<bar> \<le> 10 ^ 12" and "(\<Sum>t\<leftarrow>ts. max 0 t) \<le> 10 ^ 12" and "length ts \<le> 2000"
  shows "total_spent ts = formatCents (\<Sum>t\<leftarrow>ts. max 0 t)"
  using total_spent_exact [OF assms(1) _ assms(3)] assms(2) by (simp add: sum_spent_def)

theorem spent_exact_witness: "total_spent [10, 20, 1999] = ''20.29''"
proof -
  have "total_spent [10, 20, 1999] = formatCents (\<Sum>t\<leftarrow>[10, 20, 1999]. max 0 t)" by (rule spent_exact) simp_all
  moreover have "formatCents (\<Sum>t\<leftarrow>[10, 20, 1999]. max 0 t) = ''20.29''" by code_simp
  ultimately show ?thesis by simp
qed

section \<open>Points\<close>

lemma refresh_account_of:
  assumes ok: "customers_but S d" and run: "refreshLoyaltyAccountTx now p d = Inr d'" and a: "account_of p d = Some a"
  shows "account_of p d' = Some (refreshed_account now (profile_entries p d) a)"
    "j \<noteq> p \<Longrightarrow> account_of j d' = account_of j d"
proof -
  let ?f = "refreshed_account now (profile_entries p d)"
  have d': "d' = account_update (la_id a) ?f d" using run a by (simp add: refreshLoyaltyAccountTx_def)
  have keys: "distinct (map la_id (loyaltyAccounts d))" "distinct (map la_customerProfileId (loyaltyAccounts d))"
    using ok by (simp_all add: customers_but_def)
  have k: "la_customerProfileId (?f x) = la_customerProfileId x" for x by (simp add: refreshed_account_def)
  have "find (\<lambda>r. la_customerProfileId r = j) (update_where (\<lambda>r. la_id r = la_id a) ?f rows) =
      map_option (\<lambda>x. if la_id x = la_id a then ?f x else x) (find (\<lambda>r. la_customerProfileId r = j) rows)" for j rows
    by (induction rows) (auto simp: update_where_Cons k)
  then have g: "account_of j d' = map_option (\<lambda>x. if la_id x = la_id a then ?f x else x) (account_of j d)" for j
    by (simp add: account_of_def d' account_update_def)
  show "account_of p d' = Some (?f a)" using a by (simp add: g)
  assume j: "j \<noteq> p"
  have "la_id x \<noteq> la_id a" if "account_of j d = Some x" for x
    using account_ofD [OF that] account_ofD [OF a] j distinct_key_eq [OF keys(1), of x a] by auto
  then show "account_of j d' = account_of j d" by (cases "account_of j d") (auto simp: g)
qed

lemma refresh_profile_accounts:
  assumes "refreshCustomerProfileTx now i d = Inr (p, d')" and "account_of i d = Some a"
  shows "loyaltyAccounts d' = loyaltyAccounts d"
proof -
  from assms(1) obtain q b d1 f where q: "profile_get i d = Some q"
    and e: "ensureLoyaltyAccountTx now q d = (b, d1)" and d': "d' = profile_update (cp_id q) f d1"
    by (auto simp: refreshCustomerProfileTx_def Let_def case_prod_Inr)
  have "cp_id q = i" using q by (auto simp: profile_get_def dest: find_SomeD)
  then have "d1 = d" using e assms(2) by (simp add: ensureLoyaltyAccountTx_def)
  then show ?thesis by (simp add: d' profile_update_def)
qed

text \<open>
  An accepted adjustment adds its points to the balance of the customer, who is given an account
  when there was none, writes one ledger entry, sets the tier that follows from the points earned, and
  leaves the account of every other customer alone.
\<close>

theorem adjustment_moves_points:
  assumes "customers_ok d" and "adjustLoyalty context now i dto d = Inr (v, d')"
  shows "\<exists>a e. account_of i d' = Some a \<and>
    la_pointsBalance a = (case account_of i d of None \<Rightarrow> 0 | Some b \<Rightarrow> la_pointsBalance b) + acl_points dto \<and>
    la_tierKey a = Some (tier_of (la_totalEarnedPoints a)) \<and>
    loyaltyEntries d' = loyaltyEntries d @ [e] \<and> lle_entryKind e = ADJUST \<and> lle_points e = acl_points dto \<and>
    lle_customerProfileId e = i \<and> lle_loyaltyAccountId e = la_id a \<and>
    (\<forall>j. j \<noteq> i \<longrightarrow> account_of j d' = account_of j d)"
proof -
  from assms(2) obtain p ac d1 d3 p' d4 l ev where p: "loadProfile context i d = Inr p"
    and e: "ensureLoyaltyAccountTx now p d = (ac, d1)"
    and r: "refreshLoyaltyAccountTx now (cp_id p) (new_entry now (cp_tenantId p) (cp_id p) (la_id ac) None ADJUST
       (acl_points dto) None (acl_description dto) d1) = Inr d3"
    and rp: "refreshCustomerProfileTx now (cp_id p) d3 = Inr (p', d4)"
    and d': "d' = domainEvents_record ev (recordTx l d4)"
    unfolding adjustLoyalty_def
    by (clarsimp simp: Let_def case_prod_Inr simp del: recordTx_def domainEvents_record_def)
  let ?d2 = "new_entry now (cp_tenantId p) (cp_id p) (la_id ac) None ADJUST (acl_points dto) None (acl_description dto) d1"
  have pi: "p \<in> set (customerProfiles d)" "cp_id p = i"
    using p by (auto simp: loadProfile_def profile_get_def dest: find_SomeD)
  have ok: "customers_but {} d" using assms(1) by (simp add: customers_ok_def)
  note E = ensure_account [OF ok e profile_fresh [OF ok pi(1)]]
  have ok2: "customers_but {cp_id p} ?d2"
    by (rule new_entry_ok [OF E(1,2)]) (simp_all add: entry_of_order_def)
  have ac2: "account_of j ?d2 = account_of j d1" for j by (simp add: account_of_def new_entry_def)
  note R = refresh_account_of [OF ok2 r, unfolded pi(2)]
  let ?a = "refreshed_account now (profile_entries i ?d2) ac"
  have a3: "account_of i d3 = Some ?a" using R(1) E(2) ac2 pi(2) by simp
  have la: "loyaltyAccounts d' = loyaltyAccounts d3"
    using refresh_profile_accounts [OF rp] a3 pi(2) by (simp add: d')
  have before: "account_of j d1 = account_of j d" if "j \<noteq> i" for j
    using e pi(2) that by (auto simp: ensureLoyaltyAccountTx_def Let_def account_of_def account_create_def find_append
        split: option.splits)
  have bal: "la_pointsBalance ac = (case account_of i d of None \<Rightarrow> 0 | Some b \<Rightarrow> la_pointsBalance b)"
    using e pi(2) by (auto simp: ensureLoyaltyAccountTx_def Let_def split: option.splits)
  have sum: "la_pointsBalance ac = (\<Sum>x\<leftarrow>profile_entries i d1. lle_points x)"
    using E(1) account_ofD [OF E(2)] pi(2) by (auto simp: customers_but_def balanced_def)
  obtain x where x: "loyaltyEntries ?d2 = loyaltyEntries d @ [x]" "lle_entryKind x = ADJUST" "lle_points x = acl_points dto"
    "lle_customerProfileId x = i" "lle_loyaltyAccountId x = la_id ac"
    using E(4) pi(2) by (auto simp: new_entry_def)
  have "profile_entries i ?d2 = profile_entries i d1 @ [x]" using x E(4) by (simp add: profile_entries_def)
  then have "la_pointsBalance ?a = la_pointsBalance ac + acl_points dto"
    "la_tierKey ?a = Some (tier_of (la_totalEarnedPoints ?a))" "la_id ?a = la_id ac"
    using sum x(3) by (simp_all add: refreshed_account_def)
  moreover have "loyaltyEntries d' = loyaltyEntries ?d2"
    using refresh_ledger(1) [OF r] refresh_ledger(2) [OF rp] by (simp add: d' ledger_tables_def)
  moreover have "account_of j d' = account_of j d" if "j \<noteq> i" for j
    using R(2) [OF _ that] before [OF that] ac2 E(2) la pi(2) by (simp add: account_of_def)
  moreover have "account_of i d' = Some ?a" using a3 la by (simp add: account_of_def)
  ultimately show ?thesis using x bal by (intro exI [of _ ?a] exI [of _ x]) simp
qed

text \<open>A customer's completed order, without and with an account.\<close>

definition loyal_order :: Order where
  "loyal_order = (demo_order COMPLETED)\<lparr>ord_customerPhone := Some ''+359888'', ord_customerName := Some ''Ann''\<rparr>"

definition loyal_db :: db where
  "loyal_db = (order_db COMPLETED None)\<lparr>orders := [loyal_order]\<rparr>"

definition run_finalize :: "(json \<times> db) result" where
  "run_finalize = finalizeOrderGrowth demo_context 1000 ''o1'' loyal_db"

definition run_refinalize :: "(json \<times> db) result" where
  "run_refinalize = finalizeOrderGrowth demo_context 2000 ''o1'' (db_after run_finalize)"

definition demo_adjust :: AdjustCustomerLoyaltyDto where
  "demo_adjust = \<lparr>acl_points = 10, acl_description = None\<rparr>"

definition first_profile :: "db \<Rightarrow> uuid" where
  "first_profile d = nullish (first_of cp_id (customerProfiles d)) ''''"

definition run_adjust :: "(json \<times> db) result" where
  "run_adjust = adjustLoyalty demo_context 3000 (first_profile (db_after run_finalize)) demo_adjust (db_after run_finalize)"

lemma loyal_db_ok: "api_ok loyal_db" "customers_ok loyal_db"
proof -
  show "api_ok loyal_db"
  proof -
    have "core_step (order_db COMPLETED None) (order_update ''o1'' (\<lambda>r. r\<lparr>ord_customerPhone := Some ''+359888'',
        ord_customerName := Some ''Ann''\<rparr>) (order_db COMPLETED None))"
      by (rule core_step_order) (simp add: own_change_def same_place_def order_consistent_def)
    moreover have "order_update ''o1'' (\<lambda>r. r\<lparr>ord_customerPhone := Some ''+359888'',
        ord_customerName := Some ''Ann''\<rparr>) (order_db COMPLETED None) = loyal_db"
      by (simp add: loyal_db_def loyal_order_def order_update_def order_db_def demo_order_def update_where_Cons)
    ultimately show ?thesis using order_db_ok [of COMPLETED None] by (simp add: core_step_def)
  qed
  show "customers_ok loyal_db"
    by (simp add: customers_ok_def customers_but_def loyal_db_def order_db_def demo_db_def fresh_from_def order_keys_def)
qed

text \<open>One evaluation of the whole run: finalized, finalized again, and adjusted.\<close>

definition growth_run :: "(json \<times> db) result \<Rightarrow> bool" where
  "growth_run r = (case r of Inl e \<Rightarrow> False
     | Inr (v1, d1) \<Rightarrow> (case finalizeOrderGrowth demo_context 2000 ''o1'' d1 of Inl e \<Rightarrow> False
     | Inr (v2, d2) \<Rightarrow> (case adjustLoyalty demo_context 3000 (first_profile d1) demo_adjust d1 of Inl e \<Rightarrow> False
     | Inr (v3, d3) \<Rightarrow> map lle_points (loyaltyEntries d1) = [15] \<and> map la_pointsBalance (loyaltyAccounts d1) = [15] \<and>
         map la_pointsBalance (loyaltyAccounts d3) = [25] \<and>
         map_option la_pointsBalance (account_of (first_profile d1) d1) = Some 15)))"

lemma growth_runD:
  assumes "growth_run r"
  shows "r = Inr (view_of r, db_after r)" (is ?A)
    "\<not> isl (finalizeOrderGrowth demo_context 2000 ''o1'' (db_after r))" (is ?B)
    "\<not> isl (adjustLoyalty demo_context 3000 (first_profile (db_after r)) demo_adjust (db_after r))" (is ?C)
    "length (loyaltyEntries (db_after r)) = 1" (is ?D)
    "map_option la_pointsBalance (account_of (first_profile (db_after r)) (db_after r)) = Some 15" (is ?E)
    "map la_pointsBalance (loyaltyAccounts (db_after
       (adjustLoyalty demo_context 3000 (first_profile (db_after r)) demo_adjust (db_after r)))) = [25]" (is ?F)
proof -
  obtain v1 d1 where r: "r = Inr (v1, d1)" using assms by (cases r) (auto simp: growth_run_def)
  obtain v2 d2 where f: "finalizeOrderGrowth demo_context 2000 ''o1'' d1 = Inr (v2, d2)"
    using assms unfolding r growth_run_def
    by (cases "finalizeOrderGrowth demo_context 2000 ''o1'' d1") auto
  obtain v3 d3 where l: "adjustLoyalty demo_context 3000 (first_profile d1) demo_adjust d1 = Inr (v3, d3)"
    using assms unfolding r growth_run_def
    by (cases "adjustLoyalty demo_context 3000 (first_profile d1) demo_adjust d1") (auto simp: f)
  have ev: "map lle_points (loyaltyEntries d1) = [15]" "map la_pointsBalance (loyaltyAccounts d3) = [25]"
    "map_option la_pointsBalance (account_of (first_profile d1) d1) = Some 15"
    using assms unfolding r growth_run_def by (simp_all add: f l)
  have d1: "db_after r = d1" "view_of r = v1" by (simp_all add: r db_after_def view_of_def)
  show ?A ?B ?C ?E by (simp_all add: d1 f l ev) (simp add: r)
  show ?D unfolding d1 using ev(1) by (metis length_Cons length_map list.size(3) One_nat_def)
  show ?F unfolding d1 l using ev(2) by (simp add: db_after_def)
qed

lemma growth_run: "growth_run run_finalize"
  by code_simp

lemma run_finalize_Inr:
  "finalizeOrderGrowth demo_context 1000 ''o1'' loyal_db = Inr (view_of run_finalize, db_after run_finalize)"
  using growth_runD(1) [OF growth_run] by (simp add: run_finalize_def)

lemma run_refinalize_Inr: "finalizeOrderGrowth demo_context 2000 ''o1'' (db_after run_finalize) =
    Inr (view_of run_refinalize, db_after run_refinalize)"
  using accepted [OF growth_runD(2) [OF growth_run]] by (simp add: run_refinalize_def)

lemma run_adjust_Inr: "adjustLoyalty demo_context 3000 (first_profile (db_after run_finalize)) demo_adjust (db_after run_finalize) =
    Inr (view_of run_adjust, db_after run_adjust)"
  using accepted [OF growth_runD(3) [OF growth_run]] by (simp add: run_adjust_def)

lemma after_finalize_ok: "customers_ok (db_after run_finalize)"
  by (rule finalizeOrderGrowth_ok [OF loyal_db_ok run_finalize_Inr])

theorem adjustment_moves_points_witness:
  "\<exists>a. account_of (first_profile (db_after run_finalize)) (db_after run_adjust) = Some a \<and> la_pointsBalance a = 25"
proof -
  from adjustment_moves_points [OF after_finalize_ok run_adjust_Inr] obtain a where
    a: "account_of (first_profile (db_after run_finalize)) (db_after run_adjust) = Some a"
    "la_pointsBalance a = (case account_of (first_profile (db_after run_finalize)) (db_after run_finalize) of
        None \<Rightarrow> 0 | Some b \<Rightarrow> la_pointsBalance b) + acl_points demo_adjust" by blast
  have "(case account_of (first_profile (db_after run_finalize)) (db_after run_finalize) of
        None \<Rightarrow> 0 | Some b \<Rightarrow> la_pointsBalance b) = 15" using growth_runD(5) [OF growth_run] by (auto split: option.splits)
  with a show ?thesis by (simp add: demo_adjust_def)
qed

section \<open>Whole histories\<close>

lemma order_keys_once:
  assumes "distinct (order_keys es)"
  shows "length (filter (\<lambda>e. lle_orderId e = Some i \<and> lle_entryKind e = k) es) \<le> 1"
  using assms
proof (induction es)
  case (Cons e es)
  have keys: "distinct (order_keys es)" using Cons.prems by (auto simp: order_keys_def split: if_splits)
  show ?case
  proof (cases "lle_orderId e = Some i \<and> lle_entryKind e = k")
    case True
    then have "(Some i, k) \<notin> set (order_keys es)" using Cons.prems by (auto simp: order_keys_def)
    then have "filter (\<lambda>e. lle_orderId e = Some i \<and> lle_entryKind e = k) es = []"
      by (force simp: order_keys_def filter_empty_conv)
    with True show ?thesis by simp
  next
    case False
    with Cons.IH [OF keys] show ?thesis by auto
  qed
qed simp

lemma earned_minus_redeemed: "(\<Sum>e\<leftarrow>es. lle_points e) = earned_points es - redeemed_points es"
  by (induction es) (auto simp: earned_points_def redeemed_points_def)

text \<open>
  C27: After any accepted requests, whoever sent them and in whatever order, the balance of a loyalty
  account is the sum of its customer's ledger, which is what was earned less what was redeemed; the
  ledger has at most one entry of each kind for an order; an order that earned is one point for every
  whole unit of its total; and a tenant has one profile for a phone and one campaign for a code.
\<close>

theorem customer_history:
  assumes "api_step\<^sup>*\<^sup>* d d'" and "api_ok d" and "customers_ok d"
  shows "(\<forall>a \<in> set (loyaltyAccounts d').
      la_pointsBalance a = (\<Sum>e\<leftarrow>profile_entries (la_customerProfileId a) d'. lle_points e) \<and>
      la_pointsBalance a = la_totalEarnedPoints a - la_totalRedeemedPoints a) \<and>
    (\<forall>i k. length (filter (\<lambda>e. lle_orderId e = Some i \<and> lle_entryKind e = k) (loyaltyEntries d')) \<le> 1) \<and>
    (\<forall>e \<in> set (loyaltyEntries d'). lle_entryKind e = EARN \<longrightarrow>
      (\<exists>r \<in> set (orders d'). lle_orderId e = Some (ord_id r) \<and> lle_points e = ord_total r div 100)) \<and>
    distinct (map (\<lambda>p. (cp_tenantId p, cp_phoneNormalized p)) (customerProfiles d')) \<and>
    distinct (map (\<lambda>p. (pc_tenantId p, pc_code p)) (promotions d'))"
proof -
  have ok: "customers_but {} d'" using customers_reachable [OF assms] by (simp add: customers_ok_def)
  have bal: "balanced (profile_entries (la_customerProfileId a) d') a" if "a \<in> set (loyaltyAccounts d')" for a
    using ok that by (simp add: customers_but_def)
  have ent: "entry_of_order (orders d') e" if "e \<in> set (loyaltyEntries d')" for e
    using ok that by (simp add: customers_but_def)
  have "\<exists>r \<in> set (orders d'). lle_orderId e = Some (ord_id r) \<and> lle_points e = ord_total r div 100"
    if "e \<in> set (loyaltyEntries d')" "lle_entryKind e = EARN" for e
    using ent [OF that(1)] that(2) by (auto simp: entry_of_order_def split: option.splits)
  moreover have "length (filter (\<lambda>e. lle_orderId e = Some i \<and> lle_entryKind e = k) (loyaltyEntries d')) \<le> 1" for i k
    by (rule order_keys_once) (use ok in \<open>simp add: customers_but_def\<close>)
  moreover have "distinct (map (\<lambda>p. (cp_tenantId p, cp_phoneNormalized p)) (customerProfiles d'))"
    "distinct (map (\<lambda>p. (pc_tenantId p, pc_code p)) (promotions d'))" using ok by (simp_all add: customers_but_def)
  ultimately show ?thesis using bal by (auto simp: balanced_def earned_minus_redeemed)
qed

theorem customer_history_witness:
  "api_step\<^sup>*\<^sup>* loyal_db (db_after run_adjust) \<and>
   map la_pointsBalance (loyaltyAccounts (db_after run_adjust)) = [25] \<and>
   map (\<lambda>a. la_totalEarnedPoints a - la_totalRedeemedPoints a) (loyaltyAccounts (db_after run_adjust)) = [25]"
proof -
  have steps: "api_step\<^sup>*\<^sup>* loyal_db (db_after run_adjust)"
    using finalize_order [OF run_finalize_Inr] adjust_points [OF run_adjust_Inr] by (meson rtranclp.simps)
  have "map (\<lambda>a. la_totalEarnedPoints a - la_totalRedeemedPoints a) (loyaltyAccounts (db_after run_adjust)) =
      map la_pointsBalance (loyaltyAccounts (db_after run_adjust))"
    using customer_history [OF steps loyal_db_ok] by (intro map_cong) auto
  moreover have "map la_pointsBalance (loyaltyAccounts (db_after run_adjust)) = [25]"
    using growth_runD(6) [OF growth_run] by (simp add: run_adjust_def)
  ultimately show ?thesis using steps by simp
qed

section \<open>Finalizing an order\<close>

text \<open>
  C28: Finalizing an order a second time, by anyone and at any later time, adds no ledger entry and
  counts no use of a promotion. The first time, an order with a phone that is not cancelled and comes
  to at least one whole unit has earned, and the use of its promotion is on record.
\<close>

theorem finalize_once:
  assumes "finalizeOrderGrowth context now i d = Inr (v, d1)"
    and "finalizeOrderGrowth context' now' i d1 = Inr (v', d2)"
  shows "loyaltyEntries d2 = loyaltyEntries d1 \<and> promotions d2 = promotions d1 \<and>
    (\<exists>r. order_get i d = Some r \<and> (truthy (map_option trim (ord_customerPhone r)) \<longrightarrow>
      (ord_status r \<noteq> CANCELLED \<and> 100 \<le> ord_total r \<longrightarrow> entry_exists i EARN d1) \<and>
      (redemption_cost (ord_promotionSnapshot r) \<noteq> None \<longrightarrow> entry_exists i REDEEM d1) \<and>
      (jstring (field (ord_promotionSnapshot r) ''promotionId'') \<noteq> None \<longrightarrow>
         order_event_exists i ''customer.promotion_redeemed'' d1)))"
proof -
  obtain r where r: "order_get i d = Some r"
    using assms(1) by (auto simp: finalizeOrderGrowth_def loadOrder_Inr)
  then have i: "ord_id r = i" using order_getD by blast
  have "order_settled r d1" if "truthy (map_option trim (ord_customerPhone r))"
    using finalize_settles [OF assms(1) r that] by blast
  moreover have "0 < ord_total r div 100" if "100 \<le> ord_total r" using that by (simp add: pos_imp_zdiv_pos_iff)
  ultimately show ?thesis
    using finalize_twice [OF assms] r i by (auto simp: ledger_tables_def order_settled_def)
qed

theorem finalize_once_witness:
  "length (loyaltyEntries (db_after run_finalize)) = 1 \<and>
   loyaltyEntries (db_after run_refinalize) = loyaltyEntries (db_after run_finalize)"
proof -
  have "length (loyaltyEntries (db_after run_finalize)) = 1" by (rule growth_runD(4) [OF growth_run])
  with finalize_once [OF run_finalize_Inr run_refinalize_Inr] show ?thesis by blast
qed

section \<open>A promotion for a cart\<close>

lemma discount_of_bounds: "0 \<le> discount_of p c items \<and> discount_of p c items \<le> gross_of c items"
proof -
  have g: "0 \<le> gross_of c items" by (simp add: gross_of_def cents_cart_totals_def)
  have "0 \<le> discount_of p c items" unfolding discount_of_def
    by (rule promotion_cents_nonneg) (auto simp: g)
  moreover have "discount_of p c items \<le> gross_of c items"
    using g by (simp add: discount_of_def promotion_cents_def Let_def)
  ultimately show ?thesis by simp
qed

lemma promoted_total:
  "c_total (cents_cart_totals items fee disc) + disc = c_total (cents_cart_totals items fee 0)"
  if "0 \<le> disc" "disc \<le> c_total (cents_cart_totals items fee 0)"
  using that by (auto simp: cents_cart_totals_def max_def)

lemma applied_ledger:
  "applied_profile now cart input d = (p, d') \<Longrightarrow> ledger_tables d' = ledger_tables d"
  "applied_account now p d = (a, d') \<Longrightarrow> ledger_tables d' = ledger_tables d"
  by (auto simp: applied_profile_def applied_account_def case_prod_unfold Let_def split: option.splits
      dest: resolve_ledger [OF prod_eqI] ensure_ledger [OF prod_eqI])
    (metis resolve_ledger surjective_pairing, metis ensure_ledger surjective_pairing)

lemma applied_account_row:
  assumes "applied_account now p d = (m, d')" and "m = Some a"
  shows "\<exists>q. p = Some q \<and> a \<in> set (loyaltyAccounts d') \<and> la_customerProfileId a = cp_id q"
proof -
  obtain q where q: "p = Some q" using assms by (cases p) (auto simp: applied_account_def)
  with assms have e: "ensureLoyaltyAccountTx now q d = (a, d')"
    by (cases "ensureLoyaltyAccountTx now q d") (auto simp: applied_account_def)
  then show ?thesis
    using q by (auto simp: ensureLoyaltyAccountTx_def Let_def account_create_def split: option.splits dest: account_ofD)
qed

text \<open>
  C29: A promotion is applied only to an open cart with items the caller may write, only while its
  campaign is active, meant for the store, below its limit of uses and, where it is paid for with
  points, covered by the customer's balance. The cart's total is then what it was without a promotion
  less the discount, which is never more than that; no use is counted and no point is taken yet.
\<close>

theorem promotion_applied:
  assumes "applyPromotion_tx context now input d = Inr (u, d')"
  shows "\<exists>c items p c'. cart_get (api_cartId input) d = Some c \<and> items = cart_items (api_cartId input) d \<and>
    items \<noteq> [] \<and> cart_status c = OPEN \<and> checkAccess context (cart_tenantId c) (cart_storeId c) = Inr () \<and>
    p \<in> set (promotions d) \<and> pc_tenantId p = cart_tenantId c \<and> pc_code p = promotion_code (api_code input) \<and>
    for_store (cart_storeId c) p \<and> isPromotionActive now p \<and> \<not> usage_exhausted p \<and>
    (pc_type p = LOYALTY_REDEEM \<longrightarrow> (\<exists>a \<in> set (loyaltyAccounts d'). 0 < nullish (pc_pointsCost p) 0 \<and>
       nullish (pc_pointsCost p) 0 \<le> la_pointsBalance a \<and> cart_customerProfileId c' = Some (la_customerProfileId a))) \<and>
    cart_get (api_cartId input) d' = Some c' \<and> cart_status c' = OPEN \<and> cart_promotionCode c' = Some (pc_code p) \<and>
    0 \<le> discount_of p c items \<and> discount_of p c items \<le> gross_of c items \<and>
    cart_total c' + discount_of p c items = gross_of c items \<and>
    promotions d' = promotions d \<and> loyaltyEntries d' = loyaltyEntries d"
proof -
  obtain c items profile d1 p account d2 where
    c: "cart_get (api_cartId input) d = Some c" "cart_status c = OPEN" "items = cart_items (api_cartId input) d"
    "items \<noteq> []" "checkAccess context (cart_tenantId c) (cart_storeId c) = Inr ()"
    and pr: "applied_profile now c input d = (profile, d1)"
    and p: "find_promotion (cart_tenantId c) (cart_storeId c) (promotion_code (api_code input)) d1 = Some p"
    "isPromotionActive now p" "\<not> usage_exhausted p"
    and ac: "applied_account now profile d1 = (account, d2)" "checkRedemption p account = Inr ()"
    and d': "d' = cart_update (api_cartId input)
       (let t = cents_cart_totals (map item_cents items) (cart_fulfillmentFee c) (discount_of p c items)
        in promoted_cart now (map_option cp_id profile) (applied_name input c) (applied_phone input c) p
             (formatCents (c_discountTotal t)) (c_discountTotal t) (c_total t)) d2"
    by (rule applyPromotion_Inr [OF assms])
  let ?t = "cents_cart_totals (map item_cents items) (cart_fulfillmentFee c) (discount_of p c items)"
  let ?f = "promoted_cart now (map_option cp_id profile) (applied_name input c) (applied_phone input c) p
             (formatCents (c_discountTotal ?t)) (c_discountTotal ?t) (c_total ?t)"
  have led: "ledger_tables d2 = ledger_tables d" using applied_ledger(1) [OF pr] applied_ledger(2) [OF ac(1)] by simp
  have "customer_rows d d2" using applied_rows pr ac(1) customer_rows_trans by blast
  then have "cart_get (api_cartId input) d2 = Some c" using c(1) customer_rowsD by (simp add: cart_get_def)
  then have get: "cart_get (api_cartId input) d' = Some (?f c)"
    unfolding d' Let_def by (intro cart_rows.get_upd_same) (simp_all add: promoted_cart_def)
  have pin: "p \<in> set (promotions d)" "pc_tenantId p = cart_tenantId c" "pc_code p = promotion_code (api_code input)"
    "for_store (cart_storeId c) p"
    using p(1) applied_ledger(1) [OF pr] by (auto simp: find_promotion_def ledger_tables_def dest: find_SomeD)
  have tot: "c_total ?t + discount_of p c items = gross_of c items"
    using discount_of_bounds [of p c items] promoted_total unfolding gross_of_def by blast
  have pts: "\<exists>a \<in> set (loyaltyAccounts d'). 0 < nullish (pc_pointsCost p) 0 \<and>
      nullish (pc_pointsCost p) 0 \<le> la_pointsBalance a \<and> cart_customerProfileId (?f c) = Some (la_customerProfileId a)"
    if "pc_type p = LOYALTY_REDEEM"
  proof -
    from ac(2) that obtain a where a: "account = Some a" "0 < nullish (pc_pointsCost p) 0"
      "nullish (pc_pointsCost p) 0 \<le> la_pointsBalance a" by (auto simp: checkRedemption_def split: option.splits)
    obtain q where q: "profile = Some q" "a \<in> set (loyaltyAccounts d2)" "la_customerProfileId a = cp_id q"
      using applied_account_row [OF ac(1) a(1)] by blast
    then show ?thesis using a by (auto simp: promoted_cart_def d' cart_update_def)
  qed
  have "promotions d' = promotions d" "loyaltyEntries d' = loyaltyEntries d"
    using led by (simp_all add: d' cart_update_def ledger_tables_def)
  then show ?thesis
    using c p(2,3) pin pts get tot discount_of_bounds [of p c items]
    by (intro exI [of _ c] exI [of _ items] exI [of _ p] exI [of _ "?f c"]) (simp add: promoted_cart_def)
qed

definition demo_promotion :: PromotionCampaign where
  "demo_promotion = \<lparr>pc_id = ''pc1'', pc_tenantId = ''t1'', pc_storeId = None, pc_code = ''SAVE'',
     pc_name = ''Save'', pc_status = PromoActive, pc_type = PERCENTAGE, pc_value = 1250,
     pc_minimumOrderTotal = 1000, pc_maxDiscountAmount = None, pc_pointsCost = None, pc_segmentKeys = [],
     pc_usageLimit = Some 5, pc_usedCount = 4, pc_activeFrom = None, pc_activeTo = None,
     pc_metadata = None, pc_createdAt = 0, pc_updatedAt = 0\<rparr>"

definition demo_apply :: ApplyPromotionInput where
  "demo_apply = \<lparr>api_cartId = ''c1'', api_code = '' save'', api_customerName = None, api_customerPhone = None\<rparr>"

definition run_apply :: "(unit \<times> db) result" where
  "run_apply = applyPromotion_tx demo_context 1000 demo_apply (cart_db\<lparr>promotions := [demo_promotion]\<rparr>)"

definition total_after :: "(unit \<times> db) result \<Rightarrow> int option" where
  "total_after r = (case r of Inl e \<Rightarrow> None | Inr (u, d) \<Rightarrow> map_option cart_total (cart_get ''c1'' d))"

lemma total_after:
  assumes "total_after r = Some n"
  shows "\<not> isl r" "map_option cart_total (cart_get ''c1'' (db_after r)) = Some n"
  using assms by (auto simp: total_after_def db_after_def split: sum.splits)

theorem promotion_applied_witness:
  "\<exists>d' c'. applyPromotion_tx demo_context 1000 demo_apply (cart_db\<lparr>promotions := [demo_promotion]\<rparr>) = Inr ((), d') \<and>
     cart_get ''c1'' d' = Some c' \<and> cart_total c' = 1313 \<and> promotions d' = [demo_promotion]"
proof -
  have ev: "total_after run_apply = Some 1313" by code_simp
  from accepted [OF total_after(1) [OF ev]] have run: "applyPromotion_tx demo_context 1000 demo_apply
      (cart_db\<lparr>promotions := [demo_promotion]\<rparr>) = Inr ((), db_after run_apply)" by (simp add: run_apply_def)
  from promotion_applied [OF run] obtain c' where c': "cart_get ''c1'' (db_after run_apply) = Some c'"
    and pr: "promotions (db_after run_apply) = [demo_promotion]" by (auto simp: demo_apply_def)
  have "map_option cart_total (cart_get ''c1'' (db_after run_apply)) = Some 1313"
    by (rule total_after(2) [OF ev])
  with c' pr run show ?thesis by auto
qed

end
