(* ===== verification/Billing.thy ===== *)
theory Billing
  imports Customers
begin

text \<open>
  The tables and the state of \<open>billing/billing.module.ts\<close>. A request loads the plans, the
  resellers and the rows of one tenant as a \<open>BillingState\<close>, changes that value, and writes all of
  it back: \<open>saveStateTx\<close> upserts plans and resellers by their code, and deletes and creates again
  every row of the tenant. Dates are instants in a row and ISO texts in the state, amounts are cents
  in a row and texts in the state; what the column \<open>Decimal(12, 2)\<close> makes of a text is the
  argument \<open>amt\<close>.
\<close>

section \<open>Rows\<close>

record BillingPlan =
  bpl_id :: uuid
  bpl_code :: string
  bpl_name :: string
  bpl_status :: string
  bpl_priceAmount :: int
  bpl_currency :: string
  bpl_intervalKey :: string
  bpl_entitlements :: json
  bpl_quotas :: json
  bpl_metadata :: "json option"
  bpl_createdAt :: instant
  bpl_updatedAt :: instant

record ResellerAccount =
  rsl_id :: uuid
  rsl_code :: string
  rsl_name :: string
  rsl_status :: string
  rsl_metadata :: "json option"
  rsl_createdAt :: instant
  rsl_updatedAt :: instant

record BillingAccount =
  bac_id :: uuid
  bac_tenantId :: uuid
  bac_resellerAccountId :: "uuid option"
  bac_status :: string
  bac_defaultPaymentTerms :: "string option"
  bac_metadata :: "json option"
  bac_createdAt :: instant
  bac_updatedAt :: instant

record Subscription =
  sub_id :: uuid
  sub_tenantId :: uuid
  sub_billingAccountId :: uuid
  sub_planId :: uuid
  sub_status :: string
  sub_startedAt :: instant
  sub_currentPeriodStart :: instant
  sub_currentPeriodEnd :: instant
  sub_cancelledAt :: "instant option"
  sub_metadata :: "json option"
  sub_createdAt :: instant
  sub_updatedAt :: instant

record Invoice =
  ivc_id :: uuid
  ivc_tenantId :: uuid
  ivc_billingAccountId :: uuid
  ivc_subscriptionId :: "uuid option"
  ivc_number :: string
  ivc_status :: string
  ivc_currency :: string
  ivc_subtotalAmount :: int
  ivc_totalAmount :: int
  ivc_dueAt :: "instant option"
  ivc_issuedAt :: "instant option"
  ivc_paidAt :: "instant option"
  ivc_lines :: json
  ivc_metadata :: "json option"
  ivc_createdAt :: instant
  ivc_updatedAt :: instant

record EntitlementGrant =
  eg_id :: uuid
  eg_tenantId :: uuid
  eg_subscriptionId :: "uuid option"
  eg_key :: string
  eg_scopeType :: string
  eg_scopeId :: "string option"
  eg_value :: json
  eg_source :: string
  eg_createdAt :: instant
  eg_updatedAt :: instant

record QuotaCounter =
  qc_id :: uuid
  qc_tenantId :: uuid
  qc_subscriptionId :: "uuid option"
  qc_key :: string
  qc_scopeType :: string
  qc_scopeId :: "string option"
  qc_limitValue :: int
  qc_usedValue :: int
  qc_resetAt :: "instant option"
  qc_createdAt :: instant
  qc_updatedAt :: instant

record TrialGrant =
  tg_id :: uuid
  tg_tenantId :: uuid
  tg_subscriptionId :: "uuid option"
  tg_status :: string
  tg_startedAt :: instant
  tg_endsAt :: instant
  tg_convertedAt :: "instant option"
  tg_createdAt :: instant
  tg_updatedAt :: instant

text \<open>The tables of the billing service beside those of the rest of the API.\<close>

record billing_db =
  bill_core :: db
  billingPlans :: "BillingPlan list"
  resellerAccounts :: "ResellerAccount list"
  billingAccounts :: "BillingAccount list"
  subscriptions :: "Subscription list"
  invoices :: "Invoice list"
  entitlementGrants :: "EntitlementGrant list"
  quotaCounters :: "QuotaCounter list"
  trialGrants :: "TrialGrant list"

section \<open>The state of a request\<close>

record BillingPlanRecord =
  bpr_id :: uuid
  bpr_code :: string
  bpr_name :: string
  bpr_status :: string
  bpr_priceAmount :: string
  bpr_currency :: string
  bpr_intervalKey :: string
  bpr_entitlements :: json
  bpr_quotas :: json
  bpr_metadata :: "json option"
  bpr_createdAt :: string
  bpr_updatedAt :: string

record BillingAccountRecord =
  bar_id :: uuid
  bar_tenantId :: uuid
  bar_resellerAccountId :: "uuid option"
  bar_status :: string
  bar_defaultPaymentTerms :: "string option"
  bar_metadata :: "json option"
  bar_createdAt :: string
  bar_updatedAt :: string

record BillingSubscriptionRecord =
  bsr_id :: uuid
  bsr_tenantId :: uuid
  bsr_billingAccountId :: uuid
  bsr_planId :: uuid
  bsr_status :: string
  bsr_startedAt :: string
  bsr_currentPeriodStart :: string
  bsr_currentPeriodEnd :: string
  bsr_cancelledAt :: "string option"
  bsr_metadata :: "json option"
  bsr_createdAt :: string
  bsr_updatedAt :: string

record BillingInvoiceRecord =
  bir_id :: uuid
  bir_tenantId :: uuid
  bir_billingAccountId :: uuid
  bir_subscriptionId :: "uuid option"
  bir_number :: string
  bir_status :: string
  bir_currency :: string
  bir_subtotalAmount :: string
  bir_totalAmount :: string
  bir_dueAt :: "string option"
  bir_issuedAt :: "string option"
  bir_paidAt :: "string option"
  bir_lines :: "json list"
  bir_metadata :: "json option"
  bir_createdAt :: string
  bir_updatedAt :: string

record BillingEntitlementRecord =
  ber_id :: uuid
  ber_tenantId :: uuid
  ber_subscriptionId :: "uuid option"
  ber_key :: string
  ber_scopeType :: string
  ber_scopeId :: "string option"
  ber_value :: json
  ber_source :: string
  ber_createdAt :: string
  ber_updatedAt :: string

record BillingQuotaRecord =
  bqr_id :: uuid
  bqr_tenantId :: uuid
  bqr_subscriptionId :: "uuid option"
  bqr_key :: string
  bqr_scopeType :: string
  bqr_scopeId :: "string option"
  bqr_limitValue :: int
  bqr_usedValue :: int
  bqr_resetAt :: "string option"
  bqr_createdAt :: string
  bqr_updatedAt :: string

record BillingTrialRecord =
  btr_id :: uuid
  btr_tenantId :: uuid
  btr_subscriptionId :: "uuid option"
  btr_status :: string
  btr_startedAt :: string
  btr_endsAt :: string
  btr_convertedAt :: "string option"
  btr_createdAt :: string
  btr_updatedAt :: string

record BillingResellerRecord =
  brr_id :: uuid
  brr_code :: string
  brr_name :: string
  brr_status :: string
  brr_metadata :: "json option"
  brr_createdAt :: string
  brr_updatedAt :: string

record BillingState =
  bs_plans :: "BillingPlanRecord list"
  bs_accounts :: "BillingAccountRecord list"
  bs_subscriptions :: "BillingSubscriptionRecord list"
  bs_invoices :: "BillingInvoiceRecord list"
  bs_entitlements :: "BillingEntitlementRecord list"
  bs_quotas :: "BillingQuotaRecord list"
  bs_trials :: "BillingTrialRecord list"
  bs_resellers :: "BillingResellerRecord list"

record BillingOverviewDto = BillingState +
  bo_tenantId :: uuid
  bo_generatedAt :: string
  bo_activePlan :: "BillingPlanRecord option"
  bo_activeSubscription :: "BillingSubscriptionRecord option"
  bo_activeTrial :: "BillingTrialRecord option"
  bo_billingAccount :: "BillingAccountRecord option"

definition BILLING_STATE_KEY :: string where
  "BILLING_STATE_KEY = ''billing.state''"

section \<open>Columns and texts\<close>

definition asJsonRecord :: "json option \<Rightarrow> json option" where
  "asJsonRecord value = (case value of Some (JObj kvs) \<Rightarrow> Some (JObj kvs) | _ \<Rightarrow> None)"

text \<open>
  A field of the state is never \<open>undefined\<close>: \<open>None\<close> is \<open>null\<close>, which \<open>Prisma.JsonNull\<close> stores as
  the JSON value null.
\<close>

definition asRequiredJson :: "json option \<Rightarrow> json" where
  "asRequiredJson value = (case value of None \<Rightarrow> JNull | Some j \<Rightarrow> j)"

definition asOptionalJson :: "json option \<Rightarrow> json option" where
  "asOptionalJson value = (case value of None \<Rightarrow> Some JNull | Some j \<Rightarrow> Some j)"

text \<open>
  \<open>toISOString\<close> throws outside the range of a \<open>Date\<close>; a text that is no date, or one outside that
  range, is rejected.
\<close>

definition toIso :: "instant \<Rightarrow> string result" where
  "toIso t = (if valid_instant t then Inr (toISOString t) else Inl (JsError ''Invalid time value''))"

definition new_date :: "string \<Rightarrow> instant result" where
  "new_date s = bnd (orThrow (parse_iso s) (JsError ''Invalid Date'')) (\<lambda>t.
     bnd (ensure (valid_instant t) (JsError ''Invalid Date'')) (\<lambda>_. Inr t))"

text \<open>\<open>value ? new Date(value) : null\<close>: an empty text is no date.\<close>

definition optional_date :: "string option \<Rightarrow> instant option result" where
  "optional_date m = (case m of None \<Rightarrow> Inr None
     | Some s \<Rightarrow> if s = '''' then Inr None else bnd (new_date s) (\<lambda>t. Inr (Some t)))"

definition mapBillingPlanModel :: "BillingPlan \<Rightarrow> BillingPlanRecord" where
  "mapBillingPlanModel plan =
     \<lparr>bpr_id = bpl_id plan, bpr_code = bpl_code plan, bpr_name = bpl_name plan,
      bpr_status = bpl_status plan, bpr_priceAmount = formatCents (bpl_priceAmount plan),
      bpr_currency = bpl_currency plan, bpr_intervalKey = bpl_intervalKey plan,
      bpr_entitlements = nullish (asJsonRecord (Some (bpl_entitlements plan))) (JObj []),
      bpr_quotas = nullish (asJsonRecord (Some (bpl_quotas plan))) (JObj []),
      bpr_metadata = asJsonRecord (bpl_metadata plan),
      bpr_createdAt = toISOString (bpl_createdAt plan),
      bpr_updatedAt = toISOString (bpl_updatedAt plan)\<rparr>"

definition mapBillingAccountModel :: "BillingAccount \<Rightarrow> BillingAccountRecord" where
  "mapBillingAccountModel account =
     \<lparr>bar_id = bac_id account, bar_tenantId = bac_tenantId account,
      bar_resellerAccountId = bac_resellerAccountId account, bar_status = bac_status account,
      bar_defaultPaymentTerms = bac_defaultPaymentTerms account,
      bar_metadata = asJsonRecord (bac_metadata account),
      bar_createdAt = toISOString (bac_createdAt account),
      bar_updatedAt = toISOString (bac_updatedAt account)\<rparr>"

definition mapSubscriptionModel :: "Subscription \<Rightarrow> BillingSubscriptionRecord" where
  "mapSubscriptionModel subscription =
     \<lparr>bsr_id = sub_id subscription, bsr_tenantId = sub_tenantId subscription,
      bsr_billingAccountId = sub_billingAccountId subscription,
      bsr_planId = sub_planId subscription, bsr_status = sub_status subscription,
      bsr_startedAt = toISOString (sub_startedAt subscription),
      bsr_currentPeriodStart = toISOString (sub_currentPeriodStart subscription),
      bsr_currentPeriodEnd = toISOString (sub_currentPeriodEnd subscription),
      bsr_cancelledAt = map_option toISOString (sub_cancelledAt subscription),
      bsr_metadata = asJsonRecord (sub_metadata subscription),
      bsr_createdAt = toISOString (sub_createdAt subscription),
      bsr_updatedAt = toISOString (sub_updatedAt subscription)\<rparr>"

definition mapInvoiceModel :: "Invoice \<Rightarrow> BillingInvoiceRecord" where
  "mapInvoiceModel invoice =
     \<lparr>bir_id = ivc_id invoice, bir_tenantId = ivc_tenantId invoice,
      bir_billingAccountId = ivc_billingAccountId invoice,
      bir_subscriptionId = ivc_subscriptionId invoice, bir_number = ivc_number invoice,
      bir_status = ivc_status invoice, bir_currency = ivc_currency invoice,
      bir_subtotalAmount = formatCents (ivc_subtotalAmount invoice),
      bir_totalAmount = formatCents (ivc_totalAmount invoice),
      bir_dueAt = map_option toISOString (ivc_dueAt invoice),
      bir_issuedAt = map_option toISOString (ivc_issuedAt invoice),
      bir_paidAt = map_option toISOString (ivc_paidAt invoice),
      bir_lines = (case ivc_lines invoice of JArr js \<Rightarrow> js | _ \<Rightarrow> []),
      bir_metadata = asJsonRecord (ivc_metadata invoice),
      bir_createdAt = toISOString (ivc_createdAt invoice),
      bir_updatedAt = toISOString (ivc_updatedAt invoice)\<rparr>"

definition mapEntitlementModel :: "EntitlementGrant \<Rightarrow> BillingEntitlementRecord" where
  "mapEntitlementModel entitlement =
     \<lparr>ber_id = eg_id entitlement, ber_tenantId = eg_tenantId entitlement,
      ber_subscriptionId = eg_subscriptionId entitlement, ber_key = eg_key entitlement,
      ber_scopeType = eg_scopeType entitlement, ber_scopeId = eg_scopeId entitlement,
      ber_value = nullish (asJsonRecord (Some (eg_value entitlement))) (JObj []),
      ber_source = eg_source entitlement,
      ber_createdAt = toISOString (eg_createdAt entitlement),
      ber_updatedAt = toISOString (eg_updatedAt entitlement)\<rparr>"

definition mapQuotaModel :: "QuotaCounter \<Rightarrow> BillingQuotaRecord" where
  "mapQuotaModel quota =
     \<lparr>bqr_id = qc_id quota, bqr_tenantId = qc_tenantId quota,
      bqr_subscriptionId = qc_subscriptionId quota, bqr_key = qc_key quota,
      bqr_scopeType = qc_scopeType quota, bqr_scopeId = qc_scopeId quota,
      bqr_limitValue = qc_limitValue quota, bqr_usedValue = qc_usedValue quota,
      bqr_resetAt = map_option toISOString (qc_resetAt quota),
      bqr_createdAt = toISOString (qc_createdAt quota),
      bqr_updatedAt = toISOString (qc_updatedAt quota)\<rparr>"

definition mapTrialModel :: "TrialGrant \<Rightarrow> BillingTrialRecord" where
  "mapTrialModel trial =
     \<lparr>btr_id = tg_id trial, btr_tenantId = tg_tenantId trial,
      btr_subscriptionId = tg_subscriptionId trial, btr_status = tg_status trial,
      btr_startedAt = toISOString (tg_startedAt trial), btr_endsAt = toISOString (tg_endsAt trial),
      btr_convertedAt = map_option toISOString (tg_convertedAt trial),
      btr_createdAt = toISOString (tg_createdAt trial),
      btr_updatedAt = toISOString (tg_updatedAt trial)\<rparr>"

definition mapResellerModel :: "ResellerAccount \<Rightarrow> BillingResellerRecord" where
  "mapResellerModel reseller =
     \<lparr>brr_id = rsl_id reseller, brr_code = rsl_code reseller, brr_name = rsl_name reseller,
      brr_status = rsl_status reseller, brr_metadata = asJsonRecord (rsl_metadata reseller),
      brr_createdAt = toISOString (rsl_createdAt reseller),
      brr_updatedAt = toISOString (rsl_updatedAt reseller)\<rparr>"

section \<open>The overview\<close>

text \<open>
  \<open>subscriptionStatusRank[status]\<close> of a status the table does not list is \<open>undefined\<close>; the
  difference is then \<open>NaN\<close>, which a sort reads as 0.
\<close>

definition subscriptionStatusRank :: "string \<Rightarrow> int option" where
  "subscriptionStatusRank = map_of [(''ACTIVE'', 5), (''TRIAL'', 4), (''GRACE'', 3), (''SUSPENDED'', 2), (''CANCELLED'', 1)]"

definition iso_compare :: "string \<Rightarrow> string \<Rightarrow> int" where
  "iso_compare s t = (if s = t then 0 else if string_le s t then - 1 else 1)"

definition subscription_compare :: "BillingSubscriptionRecord \<Rightarrow> BillingSubscriptionRecord \<Rightarrow> int" where
  "subscription_compare left right =
     (case (subscriptionStatusRank (bsr_status right), subscriptionStatusRank (bsr_status left)) of
        (Some r, Some l) \<Rightarrow>
          let statusDelta = r - l in
          if statusDelta \<noteq> 0 then statusDelta
          else let updatedDelta = iso_compare (bsr_updatedAt right) (bsr_updatedAt left) in
               if updatedDelta \<noteq> 0 then updatedDelta
               else let periodEndDelta = iso_compare (bsr_currentPeriodEnd right) (bsr_currentPeriodEnd left) in
                    if periodEndDelta \<noteq> 0 then periodEndDelta
                    else iso_compare (bsr_createdAt right) (bsr_createdAt left)
      | _ \<Rightarrow> 0)"

definition active_subscription :: "BillingState \<Rightarrow> uuid \<Rightarrow> BillingSubscriptionRecord option" where
  "active_subscription state tenantId =
     (case sort_by (\<lambda>left right. subscription_compare left right \<le> 0)
             (filter (\<lambda>r. bsr_tenantId r = tenantId) (bs_subscriptions state)) of
        [] \<Rightarrow> None | r # _ \<Rightarrow> Some r)"

definition active_trial :: "BillingState \<Rightarrow> uuid \<Rightarrow> BillingTrialRecord option" where
  "active_trial state tenantId =
     (case sort_by (\<lambda>left right. iso_compare (btr_createdAt right) (btr_createdAt left) \<le> 0)
             (filter (\<lambda>r. btr_tenantId r = tenantId) (bs_trials state)) of
        [] \<Rightarrow> None | r # _ \<Rightarrow> Some r)"

definition mapBillingOverview :: "instant \<Rightarrow> BillingState \<Rightarrow> uuid \<Rightarrow> BillingOverviewDto result" where
  "mapBillingOverview now state tenantId =
     bnd (toIso now) (\<lambda>generatedAt.
     let billingAccount = find (\<lambda>r. bar_tenantId r = tenantId) (bs_accounts state);
         activeSubscription = active_subscription state tenantId;
         activePlan = (case activeSubscription of
             Some r \<Rightarrow> find (\<lambda>p. bpr_id p = bsr_planId r) (bs_plans state)
           | None \<Rightarrow> find (\<lambda>p. bpr_status p = ''ACTIVE'') (bs_plans state)) in
     Inr \<lparr>bs_plans = bs_plans state, bs_accounts = bs_accounts state,
          bs_subscriptions = bs_subscriptions state, bs_invoices = bs_invoices state,
          bs_entitlements = bs_entitlements state, bs_quotas = bs_quotas state,
          bs_trials = bs_trials state, bs_resellers = bs_resellers state,
          bo_tenantId = tenantId, bo_generatedAt = generatedAt, bo_activePlan = activePlan,
          bo_activeSubscription = activeSubscription, bo_activeTrial = active_trial state tenantId,
          bo_billingAccount = billingAccount\<rparr>)"

section \<open>Load and save\<close>

definition loadStateTx :: "uuid \<Rightarrow> billing_db \<Rightarrow> BillingState" where
  "loadStateTx tenantId s =
     \<lparr>bs_plans = map mapBillingPlanModel (billingPlans s),
      bs_accounts = map mapBillingAccountModel (filter (\<lambda>r. bac_tenantId r = tenantId) (billingAccounts s)),
      bs_subscriptions = map mapSubscriptionModel (filter (\<lambda>r. sub_tenantId r = tenantId) (subscriptions s)),
      bs_invoices = map mapInvoiceModel (filter (\<lambda>r. ivc_tenantId r = tenantId) (invoices s)),
      bs_entitlements = map mapEntitlementModel (filter (\<lambda>r. eg_tenantId r = tenantId) (entitlementGrants s)),
      bs_quotas = map mapQuotaModel (filter (\<lambda>r. qc_tenantId r = tenantId) (quotaCounters s)),
      bs_trials = map mapTrialModel (filter (\<lambda>r. tg_tenantId r = tenantId) (trialGrants s)),
      bs_resellers = map mapResellerModel (resellerAccounts s)\<rparr>"

text \<open>
  A create writes one row, unless it collides with a row on the id or on another unique key; a
  column may reject its value.
\<close>

definition create_row :: "('r \<Rightarrow> 'r \<Rightarrow> bool) \<Rightarrow> string \<Rightarrow> ('a \<Rightarrow> 'r result) \<Rightarrow> 'a \<Rightarrow> 'r list \<Rightarrow> 'r list result" where
  "create_row clash table row_of x rows =
     bnd (row_of x) (\<lambda>r.
     bnd (ensure (\<not> list_ex (clash r) rows) (UniqueViolation table)) (\<lambda>_.
     Inr (rows @ [r])))"

text \<open>An upsert by a unique key: the row with the key is written, or a row is created.\<close>

definition upsert_row ::
  "('r \<Rightarrow> string) \<Rightarrow> ('a \<Rightarrow> string) \<Rightarrow> ('r \<Rightarrow> uuid) \<Rightarrow> string \<Rightarrow> ('a \<Rightarrow> ('r \<Rightarrow> 'r) result) \<Rightarrow>
     ('a \<Rightarrow> 'r result) \<Rightarrow> 'a \<Rightarrow> 'r list \<Rightarrow> 'r list result" where
  "upsert_row key rec_key row_id table written row_of x rows =
     (if list_ex (\<lambda>r. key r = rec_key x) rows
      then bnd (written x) (\<lambda>f. Inr (update_where (\<lambda>r. key r = rec_key x) f rows))
      else create_row (\<lambda>r y. row_id y = row_id r) table row_of x rows)"

definition plan_row :: "(string \<Rightarrow> int result) \<Rightarrow> instant \<Rightarrow> BillingPlanRecord \<Rightarrow> BillingPlan result" where
  "plan_row amt now plan =
     bnd (amt (bpr_priceAmount plan)) (\<lambda>priceAmount.
     Inr \<lparr>bpl_id = bpr_id plan, bpl_code = bpr_code plan, bpl_name = bpr_name plan,
          bpl_status = bpr_status plan, bpl_priceAmount = priceAmount,
          bpl_currency = bpr_currency plan, bpl_intervalKey = bpr_intervalKey plan,
          bpl_entitlements = asRequiredJson (Some (bpr_entitlements plan)),
          bpl_quotas = asRequiredJson (Some (bpr_quotas plan)),
          bpl_metadata = asOptionalJson (bpr_metadata plan),
          bpl_createdAt = now, bpl_updatedAt = now\<rparr>)"

definition plan_written :: "(string \<Rightarrow> int result) \<Rightarrow> instant \<Rightarrow> BillingPlanRecord \<Rightarrow> (BillingPlan \<Rightarrow> BillingPlan) result" where
  "plan_written amt now plan =
     bnd (amt (bpr_priceAmount plan)) (\<lambda>priceAmount.
     Inr (\<lambda>r. r\<lparr>bpl_name := bpr_name plan, bpl_status := bpr_status plan, bpl_priceAmount := priceAmount,
       bpl_currency := bpr_currency plan, bpl_intervalKey := bpr_intervalKey plan,
       bpl_entitlements := asRequiredJson (Some (bpr_entitlements plan)),
       bpl_quotas := asRequiredJson (Some (bpr_quotas plan)),
       bpl_metadata := asOptionalJson (bpr_metadata plan), bpl_updatedAt := now\<rparr>))"

definition upsert_plan ::
  "(string \<Rightarrow> int result) \<Rightarrow> instant \<Rightarrow> BillingPlanRecord \<Rightarrow> BillingPlan list \<Rightarrow> BillingPlan list result" where
  "upsert_plan amt now = upsert_row bpl_code bpr_code bpl_id ''BillingPlan'' (plan_written amt now) (plan_row amt now)"

definition reseller_row :: "instant \<Rightarrow> BillingResellerRecord \<Rightarrow> ResellerAccount result" where
  "reseller_row now reseller =
     Inr \<lparr>rsl_id = brr_id reseller, rsl_code = brr_code reseller, rsl_name = brr_name reseller,
          rsl_status = brr_status reseller, rsl_metadata = asOptionalJson (brr_metadata reseller),
          rsl_createdAt = now, rsl_updatedAt = now\<rparr>"

definition reseller_written :: "instant \<Rightarrow> BillingResellerRecord \<Rightarrow> (ResellerAccount \<Rightarrow> ResellerAccount) result" where
  "reseller_written now reseller =
     Inr (\<lambda>r. r\<lparr>rsl_name := brr_name reseller, rsl_status := brr_status reseller,
       rsl_metadata := asOptionalJson (brr_metadata reseller), rsl_updatedAt := now\<rparr>)"

definition upsert_reseller ::
  "instant \<Rightarrow> BillingResellerRecord \<Rightarrow> ResellerAccount list \<Rightarrow> ResellerAccount list result" where
  "upsert_reseller now = upsert_row rsl_code brr_code rsl_id ''ResellerAccount'' (reseller_written now) (reseller_row now)"

definition account_row :: "instant \<Rightarrow> BillingAccountRecord \<Rightarrow> BillingAccount result" where
  "account_row now account =
     Inr \<lparr>bac_id = bar_id account, bac_tenantId = bar_tenantId account,
          bac_resellerAccountId = bar_resellerAccountId account, bac_status = bar_status account,
          bac_defaultPaymentTerms = bar_defaultPaymentTerms account,
          bac_metadata = asOptionalJson (bar_metadata account),
          bac_createdAt = now, bac_updatedAt = now\<rparr>"

definition subscription_row :: "instant \<Rightarrow> BillingSubscriptionRecord \<Rightarrow> Subscription result" where
  "subscription_row now subscription =
     bnd (new_date (bsr_startedAt subscription)) (\<lambda>startedAt.
     bnd (new_date (bsr_currentPeriodStart subscription)) (\<lambda>currentPeriodStart.
     bnd (new_date (bsr_currentPeriodEnd subscription)) (\<lambda>currentPeriodEnd.
     bnd (optional_date (bsr_cancelledAt subscription)) (\<lambda>cancelledAt.
     Inr \<lparr>sub_id = bsr_id subscription, sub_tenantId = bsr_tenantId subscription,
          sub_billingAccountId = bsr_billingAccountId subscription,
          sub_planId = bsr_planId subscription, sub_status = bsr_status subscription,
          sub_startedAt = startedAt, sub_currentPeriodStart = currentPeriodStart,
          sub_currentPeriodEnd = currentPeriodEnd, sub_cancelledAt = cancelledAt,
          sub_metadata = asOptionalJson (bsr_metadata subscription),
          sub_createdAt = now, sub_updatedAt = now\<rparr>))))"

definition invoice_row :: "(string \<Rightarrow> int result) \<Rightarrow> instant \<Rightarrow> BillingInvoiceRecord \<Rightarrow> Invoice result" where
  "invoice_row amt now invoice =
     bnd (amt (bir_subtotalAmount invoice)) (\<lambda>subtotalAmount.
     bnd (amt (bir_totalAmount invoice)) (\<lambda>totalAmount.
     bnd (optional_date (bir_dueAt invoice)) (\<lambda>dueAt.
     bnd (optional_date (bir_issuedAt invoice)) (\<lambda>issuedAt.
     bnd (optional_date (bir_paidAt invoice)) (\<lambda>paidAt.
     Inr \<lparr>ivc_id = bir_id invoice, ivc_tenantId = bir_tenantId invoice,
          ivc_billingAccountId = bir_billingAccountId invoice,
          ivc_subscriptionId = bir_subscriptionId invoice, ivc_number = bir_number invoice,
          ivc_status = bir_status invoice, ivc_currency = bir_currency invoice,
          ivc_subtotalAmount = subtotalAmount, ivc_totalAmount = totalAmount,
          ivc_dueAt = dueAt, ivc_issuedAt = issuedAt, ivc_paidAt = paidAt,
          ivc_lines = asRequiredJson (Some (JArr (bir_lines invoice))),
          ivc_metadata = asOptionalJson (bir_metadata invoice),
          ivc_createdAt = now, ivc_updatedAt = now\<rparr>)))))"

definition entitlement_row :: "instant \<Rightarrow> BillingEntitlementRecord \<Rightarrow> EntitlementGrant result" where
  "entitlement_row now entitlement =
     Inr \<lparr>eg_id = ber_id entitlement, eg_tenantId = ber_tenantId entitlement,
          eg_subscriptionId = ber_subscriptionId entitlement, eg_key = ber_key entitlement,
          eg_scopeType = ber_scopeType entitlement, eg_scopeId = ber_scopeId entitlement,
          eg_value = asRequiredJson (Some (ber_value entitlement)), eg_source = ber_source entitlement,
          eg_createdAt = now, eg_updatedAt = now\<rparr>"

definition quota_row :: "instant \<Rightarrow> BillingQuotaRecord \<Rightarrow> QuotaCounter result" where
  "quota_row now quota =
     bnd (optional_date (bqr_resetAt quota)) (\<lambda>resetAt.
     Inr \<lparr>qc_id = bqr_id quota, qc_tenantId = bqr_tenantId quota,
          qc_subscriptionId = bqr_subscriptionId quota, qc_key = bqr_key quota,
          qc_scopeType = bqr_scopeType quota, qc_scopeId = bqr_scopeId quota,
          qc_limitValue = bqr_limitValue quota, qc_usedValue = bqr_usedValue quota,
          qc_resetAt = resetAt, qc_createdAt = now, qc_updatedAt = now\<rparr>)"

definition trial_row :: "instant \<Rightarrow> BillingTrialRecord \<Rightarrow> TrialGrant result" where
  "trial_row now trial =
     bnd (new_date (btr_startedAt trial)) (\<lambda>startedAt.
     bnd (new_date (btr_endsAt trial)) (\<lambda>endsAt.
     bnd (optional_date (btr_convertedAt trial)) (\<lambda>convertedAt.
     Inr \<lparr>tg_id = btr_id trial, tg_tenantId = btr_tenantId trial,
          tg_subscriptionId = btr_subscriptionId trial, tg_status = btr_status trial,
          tg_startedAt = startedAt, tg_endsAt = endsAt, tg_convertedAt = convertedAt,
          tg_createdAt = now, tg_updatedAt = now\<rparr>)))"

text \<open>The unique keys of the tables; two absent scopes are different values.\<close>

definition account_clash :: "BillingAccount \<Rightarrow> BillingAccount \<Rightarrow> bool" where
  "account_clash r x \<longleftrightarrow> bac_id x = bac_id r \<or> bac_tenantId x = bac_tenantId r"

definition subscription_clash :: "Subscription \<Rightarrow> Subscription \<Rightarrow> bool" where
  "subscription_clash r x \<longleftrightarrow> sub_id x = sub_id r"

definition invoice_clash :: "Invoice \<Rightarrow> Invoice \<Rightarrow> bool" where
  "invoice_clash r x \<longleftrightarrow> ivc_id x = ivc_id r \<or> ivc_number x = ivc_number r"

definition entitlement_clash :: "EntitlementGrant \<Rightarrow> EntitlementGrant \<Rightarrow> bool" where
  "entitlement_clash r x \<longleftrightarrow> eg_id x = eg_id r \<or>
     eg_tenantId x = eg_tenantId r \<and> eg_key x = eg_key r \<and> eg_scopeType x = eg_scopeType r \<and>
     eg_scopeId x = eg_scopeId r \<and> eg_scopeId r \<noteq> None"

definition quota_clash :: "QuotaCounter \<Rightarrow> QuotaCounter \<Rightarrow> bool" where
  "quota_clash r x \<longleftrightarrow> qc_id x = qc_id r \<or>
     qc_tenantId x = qc_tenantId r \<and> qc_key x = qc_key r \<and> qc_scopeType x = qc_scopeType r \<and>
     qc_scopeId x = qc_scopeId r \<and> qc_scopeId r \<noteq> None"

definition trial_clash :: "TrialGrant \<Rightarrow> TrialGrant \<Rightarrow> bool" where
  "trial_clash r x \<longleftrightarrow> tg_id x = tg_id r \<or> tg_tenantId x = tg_tenantId r"

text \<open>The seven \<open>deleteMany\<close> calls.\<close>

definition delete_tenant :: "uuid \<Rightarrow> billing_db \<Rightarrow> billing_db" where
  "delete_tenant tenantId s =
     s\<lparr>invoices := filter (\<lambda>r. ivc_tenantId r \<noteq> tenantId) (invoices s),
       entitlementGrants := filter (\<lambda>r. eg_tenantId r \<noteq> tenantId) (entitlementGrants s),
       quotaCounters := filter (\<lambda>r. qc_tenantId r \<noteq> tenantId) (quotaCounters s),
       subscriptions := filter (\<lambda>r. sub_tenantId r \<noteq> tenantId) (subscriptions s),
       trialGrants := filter (\<lambda>r. tg_tenantId r \<noteq> tenantId) (trialGrants s),
       billingAccounts := filter (\<lambda>r. bac_tenantId r \<noteq> tenantId) (billingAccounts s),
       bill_core := (bill_core s)\<lparr>tenantSettings :=
         filter (\<lambda>r. \<not> (set_ownerId r = tenantId \<and> set_key r = BILLING_STATE_KEY))
           (tenantSettings (bill_core s))\<rparr>\<rparr>"

definition saveStateTx :: "(string \<Rightarrow> int result) \<Rightarrow> instant \<Rightarrow> uuid \<Rightarrow> BillingState \<Rightarrow> billing_db \<Rightarrow> billing_db result" where
  "saveStateTx amt now tenantId state s0 =
     bnd (foldE (upsert_plan amt now) (bs_plans state) (billingPlans s0)) (\<lambda>plans.
     bnd (foldE (upsert_reseller now) (bs_resellers state) (resellerAccounts s0)) (\<lambda>resellers.
     let s = delete_tenant tenantId (s0\<lparr>billingPlans := plans, resellerAccounts := resellers\<rparr>) in
     bnd (foldE (create_row account_clash ''BillingAccount'' (account_row now))
            (filter (\<lambda>r. bar_tenantId r = tenantId) (bs_accounts state)) (billingAccounts s)) (\<lambda>accounts.
     bnd (foldE (create_row subscription_clash ''Subscription'' (subscription_row now))
            (filter (\<lambda>r. bsr_tenantId r = tenantId) (bs_subscriptions state)) (subscriptions s)) (\<lambda>subs.
     bnd (foldE (create_row invoice_clash ''Invoice'' (invoice_row amt now))
            (filter (\<lambda>r. bir_tenantId r = tenantId) (bs_invoices state)) (invoices s)) (\<lambda>invs.
     bnd (foldE (create_row entitlement_clash ''EntitlementGrant'' (entitlement_row now))
            (filter (\<lambda>r. ber_tenantId r = tenantId) (bs_entitlements state)) (entitlementGrants s)) (\<lambda>ents.
     bnd (foldE (create_row quota_clash ''QuotaCounter'' (quota_row now))
            (filter (\<lambda>r. bqr_tenantId r = tenantId) (bs_quotas state)) (quotaCounters s)) (\<lambda>quotas.
     bnd (foldE (create_row trial_clash ''TrialGrant'' (trial_row now))
            (filter (\<lambda>r. btr_tenantId r = tenantId) (bs_trials state)) (trialGrants s)) (\<lambda>trials.
     Inr (s\<lparr>billingAccounts := accounts, subscriptions := subs, invoices := invs, entitlementGrants := ents,
            quotaCounters := quotas, trialGrants := trials\<rparr>)))))))))"

end
