(* ===== verification/BillingTables.thy ===== *)
theory BillingTables
  imports Billing
begin

text \<open>
  The two kinds of tables a save writes, each with its interface: rows of a tenant that are deleted and
  created again (\<open>tenant_table\<close>, six tables), and rows that are upserted by a unique key
  (\<open>upsert_table\<close>, plans and resellers).
\<close>

section \<open>Creating rows\<close>

definition unclashed :: "('r \<Rightarrow> 'r \<Rightarrow> bool) \<Rightarrow> 'r list \<Rightarrow> bool" where
  "unclashed clash rows \<longleftrightarrow> sorted_wrt (\<lambda>x y. \<not> clash y x) rows"

lemma unclashed_Nil [simp]: "unclashed clash []"
  by (simp add: unclashed_def)

lemma unclashed_append: "unclashed clash (xs @ ys) \<longleftrightarrow>
    unclashed clash xs \<and> unclashed clash ys \<and> (\<forall>x \<in> set xs. \<forall>y \<in> set ys. \<not> clash y x)"
  by (simp add: unclashed_def sorted_wrt_append)

lemma unclashed_Cons: "unclashed clash (x # xs) \<longleftrightarrow> unclashed clash xs \<and> (\<forall>y \<in> set xs. \<not> clash y x)"
  by (auto simp: unclashed_def)

lemma unclashed_filter: "unclashed clash xs \<Longrightarrow> unclashed clash (filter P xs)"
  unfolding unclashed_def by (rule sorted_wrt_filter)

lemma unclashed_key: "unclashed (\<lambda>r x. k x = k r) rows \<longleftrightarrow> distinct (map k rows)"
  by (induction rows) (auto simp: unclashed_Cons)

lemma unclashed_distinct:
  assumes "unclashed clash rows" and "\<And>x y. k x = k y \<Longrightarrow> clash x y"
  shows "distinct (map k rows)"
  using assms(1)
  by (induction rows) (auto simp: unclashed_Cons, metis assms(2))

lemma create_row_Inr: "create_row clash n f x rows = Inr rows' \<longleftrightarrow>
    (\<exists>r. f x = Inr r \<and> \<not> list_ex (clash r) rows \<and> rows' = rows @ [r])"
  by (auto simp: create_row_def)

lemma create_all_D:
  "foldE (create_row clash n f) xs rows = Inr rows' \<Longrightarrow>
     \<exists>rs. mapE f xs = Inr rs \<and> rows' = rows @ rs \<and> (unclashed clash rows \<longrightarrow> unclashed clash rows')"
proof (induction xs arbitrary: rows)
  case (Cons x xs)
  then obtain r where r: "f x = Inr r" "\<not> list_ex (clash r) rows"
    and rest: "foldE (create_row clash n f) xs (rows @ [r]) = Inr rows'"
    by (auto simp: create_row_Inr)
  from Cons.IH [OF rest] obtain rs where "mapE f xs = Inr rs" "rows' = (rows @ [r]) @ rs"
    "unclashed clash (rows @ [r]) \<longrightarrow> unclashed clash rows'" by blast
  with r show ?case by (auto simp: list_ex_iff unclashed_append unclashed_Cons)
qed simp

lemma create_all_I:
  "mapE f xs = Inr rs \<Longrightarrow> unclashed clash (rows @ rs) \<Longrightarrow>
     foldE (create_row clash n f) xs rows = Inr (rows @ rs)"
proof (induction xs arbitrary: rows rs)
  case (Cons x xs)
  then obtain r rs' where r: "f x = Inr r" "mapE f xs = Inr rs'" "rs = r # rs'" by auto
  then have "\<not> list_ex (clash r) rows" using Cons.prems(2) by (auto simp: unclashed_append list_ex_iff)
  moreover have "foldE (create_row clash n f) xs (rows @ [r]) = Inr ((rows @ [r]) @ rs')"
    using Cons.IH [OF r(2)] Cons.prems(2) r(3) by simp
  moreover have "create_row clash n f x rows = Inr (rows @ [r])" using r calculation by (simp add: create_row_Inr)
  ultimately show ?case using r by simp
qed simp

lemma mapE_elem: "mapE f xs = Inr ys \<Longrightarrow> x \<in> set xs \<Longrightarrow> \<exists>y \<in> set ys. f x = Inr y"
  by (induction xs arbitrary: ys) auto

lemma mapE_keys: "mapE f xs = Inr ys \<Longrightarrow> (\<And>x y. f x = Inr y \<Longrightarrow> k y = h x) \<Longrightarrow> map k ys = map h xs"
  by (induction xs arbitrary: ys) auto

section \<open>The table of one kind of tenant rows\<close>

text \<open>
  What a save relies on of each of the six tables: a record names the tenant its row has, a valid row
  read as a record is written as the same row with new time stamps, and time stamps are no key.
\<close>

locale tenant_table =
  fixes tenant_of :: "'r \<Rightarrow> uuid"
    and rec_tenant :: "'a \<Rightarrow> uuid"
    and clash :: "'r \<Rightarrow> 'r \<Rightarrow> bool"
    and to_rec :: "'r \<Rightarrow> 'a"
    and row_of :: "instant \<Rightarrow> 'a \<Rightarrow> 'r result"
    and valid :: "'r \<Rightarrow> bool"
    and stamped :: "instant \<Rightarrow> 'r \<Rightarrow> 'r"
  assumes row_tenant: "row_of now x = Inr r \<Longrightarrow> tenant_of r = rec_tenant x"
    and rec_of_row: "rec_tenant (to_rec r) = tenant_of r"
    and row_of_rec: "valid r \<Longrightarrow> row_of now (to_rec r) = Inr (stamped now r)"
    and clash_sym: "clash r r' \<longleftrightarrow> clash r' r"
    and clash_stamped: "clash (stamped now r) r' \<longleftrightarrow> clash r r'"
begin

lemma saved:
  assumes "foldE (create_row clash n (row_of now)) (filter (\<lambda>x. rec_tenant x = t) xs)
      (filter (\<lambda>r. tenant_of r \<noteq> t) rows) = Inr rows'"
  shows "u \<noteq> t \<Longrightarrow> filter (\<lambda>r. tenant_of r = u) rows' = filter (\<lambda>r. tenant_of r = u) rows"
    "mapE (row_of now) (filter (\<lambda>x. rec_tenant x = t) xs) = Inr (filter (\<lambda>r. tenant_of r = t) rows')"
    "unclashed clash rows \<Longrightarrow> unclashed clash rows'"
    "r \<in> set rows' \<Longrightarrow> tenant_of r \<noteq> t \<Longrightarrow> r \<in> set rows"
proof -
  from create_all_D [OF assms] obtain rs where rs: "mapE (row_of now) (filter (\<lambda>x. rec_tenant x = t) xs) = Inr rs"
    "rows' = filter (\<lambda>r. tenant_of r \<noteq> t) rows @ rs"
    "unclashed clash (filter (\<lambda>r. tenant_of r \<noteq> t) rows) \<longrightarrow> unclashed clash rows'" by blast
  have t: "tenant_of r = t" if "r \<in> set rs" for r
    using mapE_set [OF rs(1) that] row_tenant by auto
  have f: "filter (\<lambda>r. tenant_of r = t) rs = rs" "u \<noteq> t \<Longrightarrow> filter (\<lambda>r. tenant_of r = u) rs = []" for u
    using t by (auto simp: filter_id_conv filter_empty_conv)
  show "filter (\<lambda>r. tenant_of r = u) rows' = filter (\<lambda>r. tenant_of r = u) rows" if "u \<noteq> t" for u
    using f(2) [OF that] that by (auto simp: rs(2) intro: filter_cong)
  show "mapE (row_of now) (filter (\<lambda>x. rec_tenant x = t) xs) = Inr (filter (\<lambda>r. tenant_of r = t) rows')"
    using rs(1,2) f(1) by simp
  show "unclashed clash rows \<Longrightarrow> unclashed clash rows'" using rs(3) unclashed_filter by blast
  show "r \<in> set rows' \<Longrightarrow> tenant_of r \<noteq> t \<Longrightarrow> r \<in> set rows" for r using rs(2) t by auto
qed

text \<open>Where the rows of a saved table come from, and that none is lost.\<close>

lemma saved_from:
  assumes run: "foldE (create_row clash n (row_of now)) (filter (\<lambda>x. rec_tenant x = t) xs)
      (filter (\<lambda>r. tenant_of r \<noteq> t) rows) = Inr rows'"
  shows "r \<in> set rows' \<Longrightarrow> (r \<in> set rows \<and> tenant_of r \<noteq> t) \<or> (\<exists>x \<in> set xs. rec_tenant x = t \<and> row_of now x = Inr r)"
    "r \<in> set rows \<Longrightarrow> tenant_of r \<noteq> t \<Longrightarrow> r \<in> set rows'"
    "x \<in> set xs \<Longrightarrow> rec_tenant x = t \<Longrightarrow> \<exists>r \<in> set rows'. row_of now x = Inr r"
proof -
  from create_all_D [OF run] obtain rs where rs: "mapE (row_of now) (filter (\<lambda>x. rec_tenant x = t) xs) = Inr rs"
    "rows' = filter (\<lambda>r. tenant_of r \<noteq> t) rows @ rs" by blast
  show "r \<in> set rows' \<Longrightarrow> (r \<in> set rows \<and> tenant_of r \<noteq> t) \<or> (\<exists>x \<in> set xs. rec_tenant x = t \<and> row_of now x = Inr r)"
    using mapE_set [OF rs(1), of r] rs(2) by auto
  show "r \<in> set rows \<Longrightarrow> tenant_of r \<noteq> t \<Longrightarrow> r \<in> set rows'" using rs(2) by simp
  show "x \<in> set xs \<Longrightarrow> rec_tenant x = t \<Longrightarrow> \<exists>r \<in> set rows'. row_of now x = Inr r"
    using mapE_elem [OF rs(1), of x] rs(2) by auto
qed

lemma saved_key:
  assumes run: "foldE (create_row clash n (row_of now)) (filter (\<lambda>x. rec_tenant x = t) xs)
      (filter (\<lambda>r. tenant_of r \<noteq> t) rows) = Inr rows'"
    and k: "\<And>x r. row_of now x = Inr r \<Longrightarrow> k r = h x"
  shows "set (map k rows') \<subseteq> set (map k rows) \<union> h ` set xs"
proof
  fix i assume "i \<in> set (map k rows')"
  then obtain r where r: "r \<in> set rows'" "i = k r" by auto
  from saved_from(1) [OF run r(1)] show "i \<in> set (map k rows) \<union> h ` set xs"
  proof
    assume "\<exists>x \<in> set xs. rec_tenant x = t \<and> row_of now x = Inr r"
    then obtain x where "x \<in> set xs" "row_of now x = Inr r" by blast
    with k r(2) show ?thesis by auto
  qed (use r(2) in simp)
qed

lemma saved_all:
  assumes run: "foldE (create_row clash n (row_of now)) (filter (\<lambda>x. rec_tenant x = t) xs)
      (filter (\<lambda>r. tenant_of r \<noteq> t) rows) = Inr rows'"
    and "\<And>x r. row_of now x = Inr r \<Longrightarrow> Q r" and "\<forall>r \<in> set rows. Q r"
  shows "\<forall>r \<in> set rows'. Q r"
  using saved_from(1) [OF run] assms(2,3) by blast

lemma unclashed_stamped:
  "unclashed clash (xs @ map (stamped now) ys) \<longleftrightarrow> unclashed clash (xs @ ys)"
proof -
  have "unclashed clash (map (stamped now) ys) \<longleftrightarrow> unclashed clash ys"
    by (induction ys) (auto simp: unclashed_Cons clash_stamped, (metis clash_stamped clash_sym)+)
  then show ?thesis by (auto simp: unclashed_append clash_stamped)
qed

lemma unclashed_partition:
  assumes "unclashed clash rows"
  shows "unclashed clash (filter (\<lambda>r. tenant_of r \<noteq> t) rows @ filter P (filter (\<lambda>r. tenant_of r = t) rows))"
proof -
  have "\<not> clash y x" if "x \<in> set rows" "y \<in> set rows" "x \<noteq> y" for x y
    using assms that by (induction rows) (auto simp: unclashed_Cons clash_sym)
  then show ?thesis using assms by (auto simp: unclashed_append unclashed_filter)
qed

text \<open>What is loaded, saved again: nothing but the time stamps changes.\<close>

lemma resaved_rows:
  assumes "unclashed clash rows" and "\<And>r. r \<in> set rows \<Longrightarrow> valid r"
  shows "foldE (create_row clash n (row_of now))
      (filter (\<lambda>x. rec_tenant x = t) (map to_rec (filter (\<lambda>r. tenant_of r = t) rows)))
      (filter (\<lambda>r. tenant_of r \<noteq> t) rows) =
    Inr (filter (\<lambda>r. tenant_of r \<noteq> t) rows @ map (stamped now) (filter (\<lambda>r. tenant_of r = t) rows))"
proof -
  have f: "filter (\<lambda>x. rec_tenant x = t) (map to_rec (filter (\<lambda>r. tenant_of r = t) rows)) =
      map to_rec (filter (\<lambda>r. tenant_of r = t) rows)"
    by (auto simp: filter_id_conv rec_of_row)
  have "mapE (row_of now) (map to_rec (filter (\<lambda>r. tenant_of r = t) rows)) =
      Inr (map (stamped now) (filter (\<lambda>r. tenant_of r = t) rows))"
    using assms(2) by (induction rows) (auto simp: row_of_rec)
  then show ?thesis
    unfolding f using unclashed_partition [OF assms(1), of t "\<lambda>_. True"]
    by (intro create_all_I) (simp_all add: unclashed_stamped)
qed

text \<open>The same with one record in front, and some of the old ones left out.\<close>

lemma added_rows:
  assumes u: "unclashed clash rows" and v: "\<And>r. r \<in> set rows \<Longrightarrow> valid r"
    and x: "row_of now x = Inr y" "rec_tenant x = t"
    and new: "\<And>r. r \<in> set rows \<Longrightarrow> clash y r \<Longrightarrow> tenant_of r = t \<and> \<not> P r"
  shows "foldE (create_row clash n (row_of now))
      (filter (\<lambda>x. rec_tenant x = t) (x # map to_rec (filter P (filter (\<lambda>r. tenant_of r = t) rows))))
      (filter (\<lambda>r. tenant_of r \<noteq> t) rows) =
    Inr (filter (\<lambda>r. tenant_of r \<noteq> t) rows @ y # map (stamped now) (filter P (filter (\<lambda>r. tenant_of r = t) rows)))"
proof -
  let ?old = "filter P (filter (\<lambda>r. tenant_of r = t) rows)"
  have f: "filter (\<lambda>x. rec_tenant x = t) (x # map to_rec ?old) = x # map to_rec ?old"
    using x(2) by (auto simp: filter_id_conv rec_of_row)
  have m: "mapE (row_of now) (map to_rec ?old) = Inr (map (stamped now) ?old)"
    using v by (induction rows) (auto simp: row_of_rec)
  have a: "\<not> clash (stamped now r) y" if "r \<in> set ?old" for r
    using new [of r] that clash_sym clash_stamped by auto
  have b: "\<not> clash y r" if "r \<in> set (filter (\<lambda>r. tenant_of r \<noteq> t) rows)" for r
    using new [of r] that by auto
  have c: "unclashed clash (filter (\<lambda>r. tenant_of r \<noteq> t) rows @ map (stamped now) ?old)"
    using unclashed_partition [OF u, of t P] by (simp add: unclashed_stamped)
  show ?thesis
    unfolding f using m x(1) a b c
    by (intro create_all_I) (auto simp: unclashed_append unclashed_Cons)
qed

end

section \<open>The six tables\<close>

definition valid_date :: "instant option \<Rightarrow> bool" where
  "valid_date m \<longleftrightarrow> (case m of None \<Rightarrow> True | Some t \<Rightarrow> valid_instant t)"

lemma toISOString_nonempty [simp]: "toISOString t \<noteq> ''''"
  by (simp add: toISOString_def Let_def case_prod_unfold)

lemma new_date_iso [simp]: "valid_instant t \<Longrightarrow> new_date (toISOString t) = Inr t"
  by (simp add: new_date_def parse_iso_toISOString)

lemma new_date_valid: "new_date s = Inr t \<Longrightarrow> valid_instant t"
  by (simp add: new_date_def)

lemma optional_date_iso [simp]: "valid_date m \<Longrightarrow> optional_date (map_option toISOString m) = Inr m"
  by (cases m) (simp_all add: optional_date_def valid_date_def)

lemma optional_date_valid: "optional_date m = Inr t \<Longrightarrow> valid_date t"
  by (cases m) (auto simp: optional_date_def valid_date_def new_date_valid split: if_splits)

lemma toIso_Inr [simp]: "toIso t = Inr s \<longleftrightarrow> valid_instant t \<and> s = toISOString t"
  by (auto simp: toIso_def)

text \<open>What a column makes of a text, it makes of the text it is read back as.\<close>

definition amount_column :: "(string \<Rightarrow> int result) \<Rightarrow> bool" where
  "amount_column amt \<longleftrightarrow> (\<forall>text c. amt text = Inr c \<longrightarrow> amt (formatCents c) = Inr c)"

lemma amount_column_decimal: "amount_column decimal_of"
  by (simp add: amount_column_def)

definition json_kept :: "json option \<Rightarrow> json option" where
  "json_kept m = asOptionalJson (asJsonRecord m)"

definition json_object :: "json \<Rightarrow> json" where
  "json_object j = nullish (asJsonRecord (Some j)) (JObj [])"

lemma asJsonRecord_kept [simp]: "asJsonRecord (json_kept m) = asJsonRecord m"
  by (cases m; simp add: json_kept_def asJsonRecord_def asOptionalJson_def split: json.splits)

lemma asJsonRecord_object [simp]:
  "asJsonRecord (Some (json_object j)) = Some (json_object j)"
  by (simp add: json_object_def asJsonRecord_def split: json.splits)

lemma asRequiredJson_Some [simp]: "asRequiredJson (Some j) = j"
  by (simp add: asRequiredJson_def)

definition account_stamped :: "instant \<Rightarrow> BillingAccount \<Rightarrow> BillingAccount" where
  "account_stamped now r = r\<lparr>bac_metadata := json_kept (bac_metadata r), bac_createdAt := now, bac_updatedAt := now\<rparr>"

definition subscription_stamped :: "instant \<Rightarrow> Subscription \<Rightarrow> Subscription" where
  "subscription_stamped now r = r\<lparr>sub_metadata := json_kept (sub_metadata r), sub_createdAt := now, sub_updatedAt := now\<rparr>"

definition invoice_stamped :: "instant \<Rightarrow> Invoice \<Rightarrow> Invoice" where
  "invoice_stamped now r = r\<lparr>ivc_lines := JArr (case ivc_lines r of JArr js \<Rightarrow> js | _ \<Rightarrow> []),
     ivc_metadata := json_kept (ivc_metadata r), ivc_createdAt := now, ivc_updatedAt := now\<rparr>"

definition entitlement_stamped :: "instant \<Rightarrow> EntitlementGrant \<Rightarrow> EntitlementGrant" where
  "entitlement_stamped now r = r\<lparr>eg_value := json_object (eg_value r), eg_createdAt := now, eg_updatedAt := now\<rparr>"

definition quota_stamped :: "instant \<Rightarrow> QuotaCounter \<Rightarrow> QuotaCounter" where
  "quota_stamped now r = r\<lparr>qc_createdAt := now, qc_updatedAt := now\<rparr>"

definition trial_stamped :: "instant \<Rightarrow> TrialGrant \<Rightarrow> TrialGrant" where
  "trial_stamped now r = r\<lparr>tg_createdAt := now, tg_updatedAt := now\<rparr>"

definition subscription_valid :: "Subscription \<Rightarrow> bool" where
  "subscription_valid r \<longleftrightarrow> valid_instant (sub_startedAt r) \<and> valid_instant (sub_currentPeriodStart r) \<and>
     valid_instant (sub_currentPeriodEnd r) \<and> valid_date (sub_cancelledAt r)"

definition invoice_valid :: "(string \<Rightarrow> int result) \<Rightarrow> Invoice \<Rightarrow> bool" where
  "invoice_valid amt r \<longleftrightarrow> amt (formatCents (ivc_subtotalAmount r)) = Inr (ivc_subtotalAmount r) \<and>
     amt (formatCents (ivc_totalAmount r)) = Inr (ivc_totalAmount r) \<and>
     valid_date (ivc_dueAt r) \<and> valid_date (ivc_issuedAt r) \<and> valid_date (ivc_paidAt r)"

definition quota_valid :: "QuotaCounter \<Rightarrow> bool" where
  "quota_valid r \<longleftrightarrow> valid_date (qc_resetAt r)"

definition trial_valid :: "TrialGrant \<Rightarrow> bool" where
  "trial_valid r \<longleftrightarrow> valid_instant (tg_startedAt r) \<and> valid_instant (tg_endsAt r) \<and> valid_date (tg_convertedAt r)"

interpretation accounts: tenant_table bac_tenantId bar_tenantId account_clash mapBillingAccountModel
    account_row "\<lambda>_. True" account_stamped
  by unfold_locales
    (auto simp: account_row_def mapBillingAccountModel_def account_clash_def account_stamped_def json_kept_def)

interpretation subs: tenant_table sub_tenantId bsr_tenantId subscription_clash mapSubscriptionModel
    subscription_row subscription_valid subscription_stamped
  by unfold_locales
    (auto simp: subscription_row_def mapSubscriptionModel_def subscription_clash_def subscription_stamped_def
      json_kept_def subscription_valid_def)

interpretation invoices: tenant_table ivc_tenantId bir_tenantId invoice_clash mapInvoiceModel
    "invoice_row amt" "invoice_valid amt" invoice_stamped for amt :: "string \<Rightarrow> int result"
  by unfold_locales
    (auto simp: invoice_row_def mapInvoiceModel_def invoice_clash_def invoice_stamped_def json_kept_def
      invoice_valid_def)

interpretation entitlements: tenant_table eg_tenantId ber_tenantId entitlement_clash mapEntitlementModel
    entitlement_row "\<lambda>_. True" entitlement_stamped
  by unfold_locales
    (auto simp: entitlement_row_def mapEntitlementModel_def entitlement_clash_def entitlement_stamped_def
      json_object_def)

interpretation quotas: tenant_table qc_tenantId bqr_tenantId quota_clash mapQuotaModel
    quota_row quota_valid quota_stamped
  by unfold_locales
    (auto simp: quota_row_def mapQuotaModel_def quota_clash_def quota_stamped_def quota_valid_def)

interpretation trials: tenant_table tg_tenantId btr_tenantId trial_clash mapTrialModel
    trial_row trial_valid trial_stamped
  by unfold_locales
    (auto simp: trial_row_def mapTrialModel_def trial_clash_def trial_stamped_def trial_valid_def)

lemma subscription_row_valid: "subscription_row now x = Inr r \<Longrightarrow> subscription_valid r"
  by (auto simp: subscription_row_def subscription_valid_def dest: new_date_valid optional_date_valid)

lemma invoice_row_valid: "amount_column amt \<Longrightarrow> invoice_row amt now x = Inr r \<Longrightarrow> invoice_valid amt r"
  by (auto simp: invoice_row_def invoice_valid_def amount_column_def dest: new_date_valid optional_date_valid)

lemma quota_row_valid: "quota_row now x = Inr r \<Longrightarrow> quota_valid r"
  by (auto simp: quota_row_def quota_valid_def dest: optional_date_valid)

lemma trial_row_valid: "trial_row now x = Inr r \<Longrightarrow> trial_valid r"
  by (auto simp: trial_row_def trial_valid_def dest: new_date_valid optional_date_valid)

text \<open>A stamped row is read as the record it was, but for its time stamps.\<close>

lemma read_stamped:
  "mapBillingAccountModel (account_stamped now a) =
     (mapBillingAccountModel a)\<lparr>bar_createdAt := toISOString now, bar_updatedAt := toISOString now\<rparr>"
  "mapSubscriptionModel (subscription_stamped now u) =
     (mapSubscriptionModel u)\<lparr>bsr_createdAt := toISOString now, bsr_updatedAt := toISOString now\<rparr>"
  "mapInvoiceModel (invoice_stamped now i) =
     (mapInvoiceModel i)\<lparr>bir_createdAt := toISOString now, bir_updatedAt := toISOString now\<rparr>"
  "mapEntitlementModel (entitlement_stamped now e) =
     (mapEntitlementModel e)\<lparr>ber_createdAt := toISOString now, ber_updatedAt := toISOString now\<rparr>"
  "mapQuotaModel (quota_stamped now q) =
     (mapQuotaModel q)\<lparr>bqr_createdAt := toISOString now, bqr_updatedAt := toISOString now\<rparr>"
  "mapTrialModel (trial_stamped now t) =
     (mapTrialModel t)\<lparr>btr_createdAt := toISOString now, btr_updatedAt := toISOString now\<rparr>"
  by (simp_all add: mapBillingAccountModel_def account_stamped_def mapSubscriptionModel_def subscription_stamped_def
      mapInvoiceModel_def invoice_stamped_def mapEntitlementModel_def entitlement_stamped_def
      mapQuotaModel_def quota_stamped_def mapTrialModel_def trial_stamped_def)
    (simp add: json_object_def asJsonRecord_def split: json.splits)?

section \<open>The tables written by an upsert\<close>

locale upsert_table =
  fixes key :: "'r \<Rightarrow> string"
    and rec_key :: "'a \<Rightarrow> string"
    and row_id :: "'r \<Rightarrow> uuid"
    and rec_id :: "'a \<Rightarrow> uuid"
    and to_rec :: "'r \<Rightarrow> 'a"
    and written :: "'a \<Rightarrow> ('r \<Rightarrow> 'r) result"
    and row_of :: "'a \<Rightarrow> 'r result"
    and valid :: "'r \<Rightarrow> bool"
    and stamped :: "'r \<Rightarrow> 'r"
  assumes written_keeps: "written x = Inr f \<Longrightarrow> key (f r) = key r \<and> row_id (f r) = row_id r"
    and row_keys: "row_of x = Inr r \<Longrightarrow> key r = rec_key x \<and> row_id r = rec_id x"
    and rec_keys: "rec_key (to_rec r) = key r" "rec_id (to_rec r) = row_id r"
    and written_rec: "valid r \<Longrightarrow> \<exists>f. written (to_rec r) = Inr f \<and> f r = stamped r \<and>
      (\<forall>x g. written x = Inr g \<longrightarrow> f (g r) = stamped r)"
begin

abbreviation upsert where "upsert n \<equiv> upsert_row key rec_key row_id n written row_of"

lemma upsert_one:
  assumes "upsert n x a = Inr b"
  shows "\<exists>more. map (\<lambda>r. (row_id r, key r)) b = map (\<lambda>r. (row_id r, key r)) a @ more \<and>
      set more \<subseteq> {(rec_id x, rec_key x)}"
    "distinct (map row_id a) \<and> distinct (map key a) \<Longrightarrow> distinct (map row_id b) \<and> distinct (map key b)"
    "rec_key x \<in> key ` set b"
proof -
  have "(\<exists>more. map (\<lambda>r. (row_id r, key r)) b = map (\<lambda>r. (row_id r, key r)) a @ more \<and>
      set more \<subseteq> {(rec_id x, rec_key x)}) \<and>
      (distinct (map row_id a) \<and> distinct (map key a) \<longrightarrow> distinct (map row_id b) \<and> distinct (map key b)) \<and>
      rec_key x \<in> set (map key b)"
  proof (cases "list_ex (\<lambda>r. key r = rec_key x) a")
    case True
    with assms obtain f where f: "written x = Inr f" "b = update_where (\<lambda>r. key r = rec_key x) f a"
      by (auto simp: upsert_row_def)
    have "map (\<lambda>r. (row_id r, key r)) b = map (\<lambda>r. (row_id r, key r)) a" "map row_id b = map row_id a"
      "map key b = map key a"
      unfolding f(2) using written_keeps [OF f(1)] by (simp_all add: map_update_where_key)
    moreover have "rec_key x \<in> set (map key a)" using True by (force simp: list_ex_iff)
    ultimately show ?thesis by simp
  next
    case False
    with assms obtain r where r: "row_of x = Inr r" "\<not> list_ex (\<lambda>y. row_id y = row_id r) a" "b = a @ [r]"
      by (auto simp: upsert_row_def create_row_Inr)
    with False row_keys [OF r(1)] show ?thesis by (auto simp: list_ex_iff)
  qed
  then show "\<exists>more. map (\<lambda>r. (row_id r, key r)) b = map (\<lambda>r. (row_id r, key r)) a @ more \<and>
      set more \<subseteq> {(rec_id x, rec_key x)}"
    "distinct (map row_id a) \<and> distinct (map key a) \<Longrightarrow> distinct (map row_id b) \<and> distinct (map key b)"
    "rec_key x \<in> key ` set b" by simp_all
qed

lemma upsert_keys:
  assumes "foldE (upsert n) xs rows = Inr rows'"
  shows "\<exists>more. map (\<lambda>r. (row_id r, key r)) rows' = map (\<lambda>r. (row_id r, key r)) rows @ more \<and>
      set more \<subseteq> (\<lambda>x. (rec_id x, rec_key x)) ` set xs"
    "distinct (map row_id rows) \<Longrightarrow> distinct (map key rows) \<Longrightarrow>
      distinct (map row_id rows') \<and> distinct (map key rows')"
    "x \<in> set xs \<Longrightarrow> rec_key x \<in> key ` set rows'"
proof -
  have all: "(\<exists>more. map (\<lambda>r. (row_id r, key r)) rows' = map (\<lambda>r. (row_id r, key r)) rows @ more \<and>
      set more \<subseteq> (\<lambda>x. (rec_id x, rec_key x)) ` set xs) \<and> (\<forall>x \<in> set xs. rec_key x \<in> key ` set rows')"
    using assms
  proof (induction xs arbitrary: rows)
    case (Cons x xs)
    then obtain b where b: "upsert n x rows = Inr b" "foldE (upsert n) xs b = Inr rows'" by auto
    from Cons.IH [OF b(2)] obtain m1 where m1: "map (\<lambda>r. (row_id r, key r)) rows' = map (\<lambda>r. (row_id r, key r)) b @ m1"
      "set m1 \<subseteq> (\<lambda>x. (rec_id x, rec_key x)) ` set xs" "\<forall>x \<in> set xs. rec_key x \<in> key ` set rows'" by blast
    from upsert_one(1) [OF b(1)] obtain m2 where
      m2: "map (\<lambda>r. (row_id r, key r)) b = map (\<lambda>r. (row_id r, key r)) rows @ m2"
      "set m2 \<subseteq> {(rec_id x, rec_key x)}" by blast
    have "map (\<lambda>r. (row_id r, key r)) rows' = map (\<lambda>r. (row_id r, key r)) rows @ (m2 @ m1)"
      "set (m2 @ m1) \<subseteq> (\<lambda>x. (rec_id x, rec_key x)) ` set (x # xs)" using m1 m2 by auto
    moreover have "rec_key x \<in> key ` set rows'"
    proof -
      from arg_cong [OF m1(1), of "map snd"] have "map key rows' = map key b @ map snd m1" by (simp add: comp_def)
      then have "set (map key b) \<subseteq> set (map key rows')" by simp
      with upsert_one(3) [OF b(1)] show ?thesis by auto
    qed
    ultimately show ?case using m1(3) by auto
  qed simp
  then show "\<exists>more. map (\<lambda>r. (row_id r, key r)) rows' = map (\<lambda>r. (row_id r, key r)) rows @ more \<and>
      set more \<subseteq> (\<lambda>x. (rec_id x, rec_key x)) ` set xs" by blast
  show "x \<in> set xs \<Longrightarrow> rec_key x \<in> key ` set rows'" using all by blast
  show "distinct (map row_id rows) \<Longrightarrow> distinct (map key rows) \<Longrightarrow>
      distinct (map row_id rows') \<and> distinct (map key rows')"
    using foldE_invariant [of xs "\<lambda>a. distinct (map row_id a) \<and> distinct (map key a)", OF _ assms]
      upsert_one(2) by simp
qed

lemma upsert_ids:
  assumes "foldE (upsert n) xs rows = Inr rows'"
  shows "set (map row_id rows') \<subseteq> set (map row_id rows) \<union> rec_id ` set xs"
proof -
  from upsert_keys(1) [OF assms] obtain more where
    m: "map (\<lambda>r. (row_id r, key r)) rows' = map (\<lambda>r. (row_id r, key r)) rows @ more"
      "set more \<subseteq> (\<lambda>x. (rec_id x, rec_key x)) ` set xs" by blast
  from arg_cong [OF m(1), of "map fst"] have "map row_id rows' = map row_id rows @ map fst more"
    by (simp add: comp_def)
  with m(2) show ?thesis by auto
qed

text \<open>Records whose keys are all in the table: each row is written by the record with its key.\<close>

lemma upsert_known:
  assumes "\<And>x. x \<in> set xs \<Longrightarrow> rec_key x \<in> key ` set rows \<and> written x = Inr (w x)"
    and "distinct (map rec_key xs)"
  shows "foldE (upsert n) xs rows = Inr (map (\<lambda>r. case find (\<lambda>x. rec_key x = key r) xs of
      None \<Rightarrow> r | Some x \<Rightarrow> w x r) rows)"
  using assms
proof (induction xs arbitrary: rows)
  case (Cons x xs)
  let ?b = "update_where (\<lambda>r. key r = rec_key x) (w x) rows"
  have x: "rec_key x \<in> key ` set rows" "written x = Inr (w x)" using Cons.prems(1) by auto
  have k: "key (w x r) = key r" for r using written_keeps [OF x(2)] by blast
  have ex: "list_ex (\<lambda>r. key r = rec_key x) rows" using x(1) by (auto simp: list_ex_iff)
  have u: "upsert n x rows = Inr ?b" unfolding upsert_row_def using ex x(2) by simp
  have keys: "key ` set ?b = key ` set rows"
    using map_update_where_key [of "\<lambda>r. key r = rec_key x" key "w x" rows] k by (metis list.set_map)
  have none: "find (\<lambda>y. rec_key y = rec_key x) xs = None"
    using Cons.prems(2) by (simp add: find_None_iff) (metis imageI)
  have "foldE (upsert n) xs ?b = Inr (map (\<lambda>r. case find (\<lambda>x. rec_key x = key r) xs of
      None \<Rightarrow> r | Some x \<Rightarrow> w x r) ?b)"
    using Cons.prems keys by (intro Cons.IH) auto
  also have "\<dots> = Inr (map (\<lambda>r. case find (\<lambda>x. rec_key x = key r) (x # xs) of None \<Rightarrow> r | Some x \<Rightarrow> w x r) rows)"
    by (auto simp: update_where_def k none)
  finally show ?case using u by simp
qed simp

lemma find_rec:
  assumes "distinct (map key rows)" "r \<in> set rows"
  shows "find (\<lambda>x. rec_key x = key r) (map to_rec rows) = Some (to_rec r)"
proof -
  have "map rec_key (map to_rec rows) = map key rows" by (simp add: rec_keys comp_def)
  then have "distinct (map rec_key (map to_rec rows))" using assms(1) by (simp only:)
  moreover have "to_rec r \<in> set (map to_rec rows)" using assms(2) by simp
  ultimately show ?thesis using find_key_unique by (metis rec_keys(1))
qed

text \<open>
  What is loaded, saved again, after a first record that is one of the keys the table has: the
  loaded records undo what it wrote.
\<close>

lemma upsert_loaded:
  assumes "distinct (map key rows)" and "\<And>r. r \<in> set rows \<Longrightarrow> valid r"
    and b: "b = rows \<or> (\<exists>x g. written x = Inr g \<and> b = update_where (\<lambda>r. key r = rec_key x) g rows)"
    and disj: "key ` set c \<inter> key ` set rows = {}"
  shows "foldE (upsert n) (map to_rec rows) (b @ c) = Inr (map stamped rows @ c)"
proof -
  obtain w where w: "\<And>x. x \<in> set (map to_rec rows) \<Longrightarrow> written x = Inr (w x)"
  proof -
    have "\<exists>f. written x = Inr f" if "x \<in> set (map to_rec rows)" for x
      using that written_rec assms(2) by force
    then have "\<forall>x. \<exists>f. x \<in> set (map to_rec rows) \<longrightarrow> written x = Inr f" by blast
    from choice [OF this] that show ?thesis by blast
  qed
  have kb: "map key b = map key rows"
    using b by (auto intro!: map_update_where_key dest: written_keeps)
  have dist: "distinct (map rec_key (map to_rec rows))" using assms(1) by (simp add: rec_keys comp_def)
  have known: "rec_key x \<in> key ` set (b @ c) \<and> written x = Inr (w x)" if "x \<in> set (map to_rec rows)" for x
  proof -
    have "rec_key x \<in> set (map key rows)" using that by (auto simp: rec_keys)
    then show ?thesis using w [OF that] unfolding kb [symmetric] by auto
  qed
  have wr: "w (to_rec r) r = stamped r" "written x = Inr g \<Longrightarrow> w (to_rec r) (g r) = stamped r"
    if "r \<in> set rows" for r x g
    using written_rec [of r] assms(2) [OF that] w [of "to_rec r"] that by auto
  have cc: "map (\<lambda>r. case find (\<lambda>x. rec_key x = key r) (map to_rec rows) of None \<Rightarrow> r | Some x \<Rightarrow> w x r) c = c"
  proof (rule map_idI)
    fix r assume r: "r \<in> set c"
    have "find (\<lambda>x. rec_key x = key r) (map to_rec rows) = None"
      using disj r by (auto simp: find_None_iff rec_keys)
    then show "(case find (\<lambda>x. rec_key x = key r) (map to_rec rows) of None \<Rightarrow> r | Some x \<Rightarrow> w x r) = r" by simp
  qed
  have bb: "map (\<lambda>r. case find (\<lambda>x. rec_key x = key r) (map to_rec rows) of None \<Rightarrow> r | Some x \<Rightarrow> w x r) b =
      map stamped rows"
    using b
  proof
    assume "b = rows"
    then show ?thesis using find_rec [OF assms(1)] wr(1) by auto
  next
    assume "\<exists>x g. written x = Inr g \<and> b = update_where (\<lambda>r. key r = rec_key x) g rows"
    then obtain x g where x: "written x = Inr g" "b = update_where (\<lambda>r. key r = rec_key x) g rows" by blast
    have "(case find (\<lambda>y. rec_key y = key (if key r = rec_key x then g r else r)) (map to_rec rows) of
        None \<Rightarrow> (if key r = rec_key x then g r else r)
      | Some y \<Rightarrow> w y (if key r = rec_key x then g r else r)) = stamped r" if "r \<in> set rows" for r
    proof -
      have k: "key (if key r = rec_key x then g r else r) = key r" using written_keeps [OF x(1), of r] by simp
      show ?thesis unfolding k find_rec [OF assms(1) that] using wr(1) [OF that] wr(2) [OF that x(1)] by simp
    qed
    then show ?thesis unfolding x(2) by (simp add: update_where_def)
  qed
  show ?thesis using upsert_known [OF known dist, of n] cc bb by simp
qed

end

definition plan_stamped :: "instant \<Rightarrow> BillingPlan \<Rightarrow> BillingPlan" where
  "plan_stamped now r = r\<lparr>bpl_entitlements := json_object (bpl_entitlements r),
     bpl_quotas := json_object (bpl_quotas r), bpl_metadata := json_kept (bpl_metadata r), bpl_updatedAt := now\<rparr>"

definition reseller_stamped :: "instant \<Rightarrow> ResellerAccount \<Rightarrow> ResellerAccount" where
  "reseller_stamped now r = r\<lparr>rsl_metadata := json_kept (rsl_metadata r), rsl_updatedAt := now\<rparr>"

definition plan_valid :: "(string \<Rightarrow> int result) \<Rightarrow> BillingPlan \<Rightarrow> bool" where
  "plan_valid amt r \<longleftrightarrow> amt (formatCents (bpl_priceAmount r)) = Inr (bpl_priceAmount r)"

interpretation plans: upsert_table bpl_code bpr_code bpl_id bpr_id mapBillingPlanModel "plan_written amt now"
    "plan_row amt now" "plan_valid amt" "plan_stamped now" for amt :: "string \<Rightarrow> int result" and now :: instant
  by unfold_locales
    (auto simp: plan_written_def plan_row_def mapBillingPlanModel_def plan_valid_def plan_stamped_def json_kept_def
      json_object_def)

interpretation resellers: upsert_table rsl_code brr_code rsl_id brr_id mapResellerModel "reseller_written now"
    "reseller_row now" "\<lambda>_. True" "reseller_stamped now" for now :: instant
  by unfold_locales
    (auto simp: reseller_written_def reseller_row_def mapResellerModel_def reseller_stamped_def json_kept_def)

lemma read_upserted:
  "mapBillingPlanModel (plan_stamped now p) = (mapBillingPlanModel p)\<lparr>bpr_updatedAt := toISOString now\<rparr>"
  "mapResellerModel (reseller_stamped now r) = (mapResellerModel r)\<lparr>brr_updatedAt := toISOString now\<rparr>"
  by (simp_all add: mapBillingPlanModel_def plan_stamped_def mapResellerModel_def reseller_stamped_def)
    (simp add: json_object_def asJsonRecord_def split: json.splits)?

lemma plans_valid_kept:
  assumes "amount_column amt" "foldE (upsert_plan amt now) xs rows = Inr rows'" "\<forall>r \<in> set rows. plan_valid amt r"
  shows "\<forall>r \<in> set rows'. plan_valid amt r"
proof (rule foldE_invariant [where P = "\<lambda>a. \<forall>r \<in> set a. plan_valid amt r", OF _ assms(2,3)])
  fix x a b
  assume a: "\<forall>r \<in> set a. plan_valid amt r" and b: "upsert_plan amt now x a = Inr b"
  have w: "plan_valid amt (f r)" if "plan_written amt now x = Inr f" for f r
    using that assms(1) by (auto simp: plan_written_def plan_valid_def amount_column_def)
  have "plan_valid amt r" if "plan_row amt now x = Inr r" for r
    using that assms(1) by (auto simp: plan_row_def plan_valid_def amount_column_def)
  with a b w show "\<forall>r \<in> set b. plan_valid amt r"
    by (auto simp: upsert_plan_def upsert_row_def create_row_Inr set_update_where split: if_splits)
qed

end
