(* ===== verification/BillingOps.thy ===== *)
theory BillingOps
  imports Billing
begin

text \<open>
  The handlers of \<open>billing/billing.module.ts\<close>. The objects of a loaded state are shared with its
  lists, so an assignment to one is an update of the entry with its id. A date of a request stands as
  the instant it denotes.
\<close>

section \<open>Requests\<close>

record CreateBillingPlanDto =
  cbp_tenantId :: uuid
  cbp_code :: string
  cbp_name :: string
  cbp_priceAmount :: "string option"
  cbp_currency :: "string option"
  cbp_intervalKey :: "string option"
  cbp_entitlements :: "json option"
  cbp_quotas :: "json option"
  cbp_metadata :: "json option"

record UpdateBillingPlanDto =
  ubp_tenantId :: "uuid option"
  ubp_code :: "string option"
  ubp_name :: "string option"
  ubp_priceAmount :: "string option"
  ubp_currency :: "string option"
  ubp_intervalKey :: "string option"
  ubp_status :: "string option"
  ubp_entitlements :: "json option"
  ubp_quotas :: "json option"
  ubp_metadata :: "json option"

record CreateBillingSubscriptionDto =
  cbs_tenantId :: uuid
  cbs_planId :: uuid
  cbs_billingAccountId :: "uuid option"
  cbs_status :: "string option"
  cbs_currentPeriodDays :: "int option"

record IssueBillingInvoiceDto =
  ibi_tenantId :: uuid
  ibi_billingAccountId :: uuid
  ibi_subscriptionId :: "uuid option"
  ibi_subtotalAmount :: string
  ibi_totalAmount :: string
  ibi_lines :: "json list"
  ibi_dueAt :: "instant option"

record UpsertBillingEntitlementDto =
  ube_tenantId :: uuid
  ube_subscriptionId :: "uuid option"
  ube_key :: string
  ube_scopeType :: "string option"
  ube_scopeId :: "string option"
  ube_value :: json
  ube_source :: "string option"

record UpsertBillingQuotaDto =
  ubq_tenantId :: uuid
  ubq_subscriptionId :: "uuid option"
  ubq_key :: string
  ubq_scopeType :: "string option"
  ubq_scopeId :: "string option"
  ubq_limitValue :: int
  ubq_usedValue :: "int option"
  ubq_resetAt :: "instant option"

record CreateBillingResellerDto =
  cbr_tenantId :: "uuid option"
  cbr_code :: string
  cbr_name :: string
  cbr_metadata :: "json option"

record BillingBootstrapDto =
  bbd_tenantId :: uuid
  bbd_planCode :: string
  bbd_planName :: string
  bbd_planPriceAmount :: "string option"
  bbd_currency :: "string option"
  bbd_intervalKey :: "string option"
  bbd_trialDays :: "int option"
  bbd_resellerCode :: "string option"
  bbd_resellerName :: "string option"

section \<open>What the handlers share\<close>

definition bill_newId :: "billing_db \<Rightarrow> uuid \<times> billing_db" where
  "bill_newId s = (nextId (bill_core s), s\<lparr>bill_core := bump (bill_core s)\<rparr>)"

definition bill_recordTx ::
  "uuid \<Rightarrow> string \<Rightarrow> string \<Rightarrow> uuid \<Rightarrow> json \<Rightarrow> RequestContext \<Rightarrow> billing_db \<Rightarrow> billing_db" where
  "bill_recordTx tenantId eventName aggregate aggregateId payload context s =
     s\<lparr>bill_core :=
       domainEvents_record
         \<lparr>ob_tenantId = Some tenantId, ob_eventName = eventName, ob_aggregate = aggregate,
          ob_aggregateId = aggregateId, ob_payload = payload\<rparr>
       (recordTx
         \<lparr>al_tenantId = Some tenantId, al_storeId = None, al_actorType = resolveActorType context,
          al_actorId = resolveActorId context, al_action = eventName, al_entityType = aggregate,
          al_entityId = aggregateId, al_payload = Some payload\<rparr> (bill_core s))\<rparr>"

definition loadAndSelect ::
  "RequestContext \<Rightarrow> uuid option \<Rightarrow> (BillingState \<Rightarrow> 'a) \<Rightarrow> billing_db \<Rightarrow> 'a result" where
  "loadAndSelect context tenantId selector s =
     bnd (resolveTenantId context tenantId True) (\<lambda>tenantId. Inr (selector (loadStateTx tenantId s)))"

text \<open>
  An account that is not found is created, and the state it is part of is saved at once.
\<close>

definition ensureAccountTx ::
  "(string \<Rightarrow> int result) \<Rightarrow> instant \<Rightarrow> uuid \<Rightarrow> BillingState \<Rightarrow> uuid option \<Rightarrow> billing_db \<Rightarrow>
     (BillingAccountRecord \<times> BillingState \<times> billing_db) result" where
  "ensureAccountTx amt now tenantId state billingAccountId s =
     (case (if truthy billingAccountId
            then find (\<lambda>r. Some (bar_id r) = billingAccountId) (bs_accounts state)
            else find (\<lambda>r. bar_tenantId r = tenantId) (bs_accounts state)) of
        Some current \<Rightarrow> Inr (current, state, s)
      | None \<Rightarrow>
          bnd (toIso now) (\<lambda>stamp.
          let (id, s) = bill_newId s;
              account = \<lparr>bar_id = id, bar_tenantId = tenantId, bar_resellerAccountId = None,
                bar_status = ''ACTIVE'', bar_defaultPaymentTerms = None, bar_metadata = None,
                bar_createdAt = stamp, bar_updatedAt = stamp\<rparr>;
              state = state\<lparr>bs_accounts := account # bs_accounts state\<rparr> in
          bnd (saveStateTx amt now tenantId state s) (\<lambda>s.
          Inr (account, state, s))))"

definition ensurePlan ::
  "instant \<Rightarrow> BillingBootstrapDto \<Rightarrow> BillingState \<Rightarrow> billing_db \<Rightarrow>
     (BillingPlanRecord \<times> BillingState \<times> billing_db) result" where
  "ensurePlan now input state s =
     bnd (toIso now) (\<lambda>stamp.
     case find (\<lambda>p. bpr_code p = bbd_planCode input) (bs_plans state) of
       Some current \<Rightarrow>
         let plan = current\<lparr>bpr_name := trim (bbd_planName input),
               bpr_priceAmount := nullish (bbd_planPriceAmount input) (bpr_priceAmount current),
               bpr_currency := nullish (bbd_currency input) (bpr_currency current),
               bpr_intervalKey := nullish (bbd_intervalKey input) (bpr_intervalKey current),
               bpr_updatedAt := stamp\<rparr> in
         Inr (plan, state\<lparr>bs_plans := update_where (\<lambda>p. bpr_id p = bpr_id current) (\<lambda>_. plan) (bs_plans state)\<rparr>, s)
     | None \<Rightarrow>
         let (id, s) = bill_newId s;
             plan = \<lparr>bpr_id = id, bpr_code = trim (bbd_planCode input), bpr_name = trim (bbd_planName input),
               bpr_status = ''ACTIVE'', bpr_priceAmount = nullish (bbd_planPriceAmount input) ''0.00'',
               bpr_currency = nullish (bbd_currency input) ''RUB'',
               bpr_intervalKey = nullish (bbd_intervalKey input) ''MONTHLY'',
               bpr_entitlements = JObj [], bpr_quotas = JObj [], bpr_metadata = None,
               bpr_createdAt = stamp, bpr_updatedAt = stamp\<rparr> in
         Inr (plan, state\<lparr>bs_plans := plan # bs_plans state\<rparr>, s))"

definition ensureTrial ::
  "instant \<Rightarrow> uuid \<Rightarrow> int \<Rightarrow> BillingState \<Rightarrow> billing_db \<Rightarrow>
     (BillingTrialRecord \<times> BillingState \<times> billing_db) result" where
  "ensureTrial now tenantId trialDays state s =
     (case find (\<lambda>r. btr_tenantId r = tenantId) (bs_trials state) of
        Some current \<Rightarrow> Inr (current, state, s)
      | None \<Rightarrow>
          let (id, s) = bill_newId s in
          bnd (toIso now) (\<lambda>stamp.
          bnd (toIso (now + trialDays * 86400000)) (\<lambda>endsAt.
          let trial = \<lparr>btr_id = id, btr_tenantId = tenantId, btr_subscriptionId = None,
                btr_status = ''ACTIVE'', btr_startedAt = stamp, btr_endsAt = endsAt, btr_convertedAt = None,
                btr_createdAt = stamp, btr_updatedAt = stamp\<rparr> in
          Inr (trial, state\<lparr>bs_trials := trial # bs_trials state\<rparr>, s))))"

definition ensureSubscription ::
  "instant \<Rightarrow> uuid \<Rightarrow> uuid \<Rightarrow> uuid \<Rightarrow> string \<Rightarrow> BillingState \<Rightarrow> billing_db \<Rightarrow>
     (BillingSubscriptionRecord \<times> BillingState \<times> billing_db) result" where
  "ensureSubscription now tenantId billingAccountId planId currentPeriodEnd state s =
     (case find (\<lambda>r. bsr_tenantId r = tenantId) (bs_subscriptions state) of
        Some current \<Rightarrow> Inr (current, state, s)
      | None \<Rightarrow>
          bnd (toIso now) (\<lambda>stamp.
          let (id, s) = bill_newId s;
              subscription = \<lparr>bsr_id = id, bsr_tenantId = tenantId,
                bsr_billingAccountId = billingAccountId, bsr_planId = planId, bsr_status = ''TRIAL'',
                bsr_startedAt = stamp, bsr_currentPeriodStart = stamp,
                bsr_currentPeriodEnd = currentPeriodEnd, bsr_cancelledAt = None, bsr_metadata = None,
                bsr_createdAt = stamp, bsr_updatedAt = stamp\<rparr> in
          Inr (subscription, state\<lparr>bs_subscriptions := subscription # bs_subscriptions state\<rparr>, s)))"

definition ensureReseller ::
  "instant \<Rightarrow> string \<Rightarrow> string \<Rightarrow> BillingState \<Rightarrow> billing_db \<Rightarrow>
     (BillingResellerRecord \<times> BillingState \<times> billing_db) result" where
  "ensureReseller now rcode name state s =
     (case find (\<lambda>r. brr_code r = rcode) (bs_resellers state) of
        Some current \<Rightarrow> Inr (current, state, s)
      | None \<Rightarrow>
          bnd (toIso now) (\<lambda>stamp.
          let (id, s) = bill_newId s;
              reseller = \<lparr>brr_id = id, brr_code = rcode, brr_name = name, brr_status = ''ACTIVE'',
                brr_metadata = None, brr_createdAt = stamp, brr_updatedAt = stamp\<rparr> in
          Inr (reseller, state\<lparr>bs_resellers := reseller # bs_resellers state\<rparr>, s)))"

section \<open>Handlers\<close>

definition billing_overview ::
  "RequestContext \<Rightarrow> instant \<Rightarrow> uuid option \<Rightarrow> billing_db \<Rightarrow> BillingOverviewDto result" where
  "billing_overview context now tenantId s =
     bnd (resolveTenantId context tenantId True) (\<lambda>tenantId.
     mapBillingOverview now (loadStateTx tenantId s) tenantId)"

definition listPlans :: "RequestContext \<Rightarrow> uuid option \<Rightarrow> billing_db \<Rightarrow> BillingPlanRecord list result" where
  "listPlans context tenantId s = loadAndSelect context tenantId bs_plans s"

definition listSubscriptions ::
  "RequestContext \<Rightarrow> uuid option \<Rightarrow> billing_db \<Rightarrow> BillingSubscriptionRecord list result" where
  "listSubscriptions context tenantId s = loadAndSelect context tenantId bs_subscriptions s"

definition listInvoices :: "RequestContext \<Rightarrow> uuid option \<Rightarrow> billing_db \<Rightarrow> BillingInvoiceRecord list result" where
  "listInvoices context tenantId s = loadAndSelect context tenantId bs_invoices s"

definition listEntitlements ::
  "RequestContext \<Rightarrow> uuid option \<Rightarrow> billing_db \<Rightarrow> BillingEntitlementRecord list result" where
  "listEntitlements context tenantId s = loadAndSelect context tenantId bs_entitlements s"

definition listQuotas :: "RequestContext \<Rightarrow> uuid option \<Rightarrow> billing_db \<Rightarrow> BillingQuotaRecord list result" where
  "listQuotas context tenantId s = loadAndSelect context tenantId bs_quotas s"

definition listResellers :: "RequestContext \<Rightarrow> uuid option \<Rightarrow> billing_db \<Rightarrow> BillingResellerRecord list result" where
  "listResellers context tenantId s = loadAndSelect context tenantId bs_resellers s"

definition createPlan ::
  "(string \<Rightarrow> int result) \<Rightarrow> RequestContext \<Rightarrow> instant \<Rightarrow> CreateBillingPlanDto \<Rightarrow> billing_db \<Rightarrow>
     (BillingPlanRecord \<times> billing_db) result" where
  "createPlan amt context now dto s =
     bnd (resolveTenantId context (Some (cbp_tenantId dto)) True) (\<lambda>tenantId.
     let state = loadStateTx tenantId s in
     bnd (toIso now) (\<lambda>stamp.
     let (id, s) = bill_newId s;
         plan = \<lparr>bpr_id = id, bpr_code = trim (cbp_code dto), bpr_name = trim (cbp_name dto),
           bpr_status = ''ACTIVE'', bpr_priceAmount = nullish (cbp_priceAmount dto) ''0.00'',
           bpr_currency = nullish (cbp_currency dto) ''RUB'',
           bpr_intervalKey = nullish (cbp_intervalKey dto) ''MONTHLY'',
           bpr_entitlements = nullish (cbp_entitlements dto) (JObj []),
           bpr_quotas = nullish (cbp_quotas dto) (JObj []), bpr_metadata = cbp_metadata dto,
           bpr_createdAt = stamp, bpr_updatedAt = stamp\<rparr>;
         state = state\<lparr>bs_plans := plan # filter (\<lambda>p. bpr_id p \<noteq> bpr_id plan) (bs_plans state)\<rparr> in
     bnd (saveStateTx amt now tenantId state s) (\<lambda>s.
     Inr (plan, bill_recordTx tenantId ''billing.plan_created'' ''billing_plan'' (bpr_id plan)
       (JObj [(''code'', JStr (bpr_code plan))]) context s))))"

definition plan_changed :: "UpdateBillingPlanDto \<Rightarrow> string \<Rightarrow> BillingPlanRecord \<Rightarrow> BillingPlanRecord" where
  "plan_changed dto stamp current =
     current\<lparr>bpr_code := nullish (ubp_code dto) (bpr_code current),
       bpr_name := nullish (ubp_name dto) (bpr_name current),
       bpr_status := nullish (ubp_status dto) (bpr_status current),
       bpr_priceAmount := nullish (ubp_priceAmount dto) (bpr_priceAmount current),
       bpr_currency := nullish (ubp_currency dto) (bpr_currency current),
       bpr_intervalKey := nullish (ubp_intervalKey dto) (bpr_intervalKey current),
       bpr_entitlements := nullish (ubp_entitlements dto) (bpr_entitlements current),
       bpr_quotas := nullish (ubp_quotas dto) (bpr_quotas current),
       bpr_metadata := orElse (ubp_metadata dto) (bpr_metadata current),
       bpr_updatedAt := stamp\<rparr>"

definition updatePlan ::
  "(string \<Rightarrow> int result) \<Rightarrow> RequestContext \<Rightarrow> instant \<Rightarrow> uuid \<Rightarrow> UpdateBillingPlanDto \<Rightarrow> billing_db \<Rightarrow>
     (BillingPlanRecord \<times> billing_db) result" where
  "updatePlan amt context now planId dto s =
     bnd (resolveTenantId context (orElse (ubp_tenantId dto) (ctx_tenantId context)) True) (\<lambda>tenantId.
     let state = loadStateTx tenantId s in
     bnd (orThrow (find (\<lambda>p. bpr_id p = planId) (bs_plans state))
            (BadRequestException ''Billing plan was not found.'')) (\<lambda>current.
     bnd (toIso now) (\<lambda>stamp.
     let changed = plan_changed dto stamp current;
         state = state\<lparr>bs_plans := update_where (\<lambda>p. bpr_id p = planId) (\<lambda>_. changed) (bs_plans state)\<rparr> in
     bnd (saveStateTx amt now tenantId state s) (\<lambda>s.
     Inr (changed, bill_recordTx tenantId ''billing.plan_updated'' ''billing_plan'' planId
       (JObj [(''code'', JStr (bpr_code changed)), (''name'', JStr (bpr_name changed)),
              (''status'', JStr (bpr_status changed)), (''priceAmount'', JStr (bpr_priceAmount changed)),
              (''currency'', JStr (bpr_currency changed)),
              (''intervalKey'', JStr (bpr_intervalKey changed))]) context s)))))"

definition createSubscription ::
  "(string \<Rightarrow> int result) \<Rightarrow> RequestContext \<Rightarrow> instant \<Rightarrow> CreateBillingSubscriptionDto \<Rightarrow> billing_db \<Rightarrow>
     (BillingSubscriptionRecord \<times> billing_db) result" where
  "createSubscription amt context now dto s =
     bnd (resolveTenantId context (Some (cbs_tenantId dto)) True) (\<lambda>tenantId.
     let state = loadStateTx tenantId s in
     bnd (orThrow (find (\<lambda>p. bpr_id p = cbs_planId dto) (bs_plans state))
            (BadRequestException ''Billing plan was not found.'')) (\<lambda>plan.
     bnd (ensureAccountTx amt now tenantId state (cbs_billingAccountId dto) s) (\<lambda>(account, state, s).
     let (id, s) = bill_newId s;
         periodDays = nullish (cbs_currentPeriodDays dto) 30 in
     bnd (toIso now) (\<lambda>stamp.
     bnd (toIso (now + periodDays * 86400000)) (\<lambda>periodEnd.
     let subscription = \<lparr>bsr_id = id, bsr_tenantId = tenantId, bsr_billingAccountId = bar_id account,
           bsr_planId = bpr_id plan, bsr_status = nullish (cbs_status dto) ''ACTIVE'',
           bsr_startedAt = stamp, bsr_currentPeriodStart = stamp, bsr_currentPeriodEnd = periodEnd,
           bsr_cancelledAt = None, bsr_metadata = None, bsr_createdAt = stamp, bsr_updatedAt = stamp\<rparr>;
         state = state\<lparr>bs_subscriptions := subscription # bs_subscriptions state\<rparr> in
     bnd (saveStateTx amt now tenantId state s) (\<lambda>s.
     Inr (subscription, bill_recordTx tenantId ''billing.subscription_created'' ''billing_subscription''
       (bsr_id subscription)
       (JObj [(''planId'', JStr (bpr_id plan)), (''billingAccountId'', JStr (bar_id account))]) context s)))))))"

definition issueInvoice ::
  "(string \<Rightarrow> int result) \<Rightarrow> RequestContext \<Rightarrow> instant \<Rightarrow> IssueBillingInvoiceDto \<Rightarrow> billing_db \<Rightarrow>
     (BillingInvoiceRecord \<times> billing_db) result" where
  "issueInvoice amt context now dto s =
     bnd (resolveTenantId context (Some (ibi_tenantId dto)) True) (\<lambda>tenantId.
     let state = loadStateTx tenantId s in
     bnd (ensureAccountTx amt now tenantId state (Some (ibi_billingAccountId dto)) s) (\<lambda>(account, state, s).
     let (id, s) = bill_newId s in
     bnd (toIso now) (\<lambda>stamp.
     bnd (case ibi_dueAt dto of None \<Rightarrow> Inr None | Some t \<Rightarrow> bnd (toIso t) (\<lambda>i. Inr (Some i))) (\<lambda>dueAt.
     let invoice = \<lparr>bir_id = id, bir_tenantId = tenantId, bir_billingAccountId = bar_id account,
           bir_subscriptionId = ibi_subscriptionId dto, bir_number = ''INV-'' @ show_int now,
           bir_status = ''ISSUED'', bir_currency = ''RUB'', bir_subtotalAmount = ibi_subtotalAmount dto,
           bir_totalAmount = ibi_totalAmount dto, bir_dueAt = dueAt, bir_issuedAt = Some stamp,
           bir_paidAt = None, bir_lines = ibi_lines dto, bir_metadata = None,
           bir_createdAt = stamp, bir_updatedAt = stamp\<rparr>;
         state = state\<lparr>bs_invoices := invoice # bs_invoices state\<rparr> in
     bnd (saveStateTx amt now tenantId state s) (\<lambda>s.
     Inr (invoice, bill_recordTx tenantId ''billing.invoice_issued'' ''billing_invoice'' (bir_id invoice)
       (JObj [(''number'', JStr (bir_number invoice))]) context s))))))"

definition upsertEntitlement ::
  "(string \<Rightarrow> int result) \<Rightarrow> RequestContext \<Rightarrow> instant \<Rightarrow> UpsertBillingEntitlementDto \<Rightarrow> billing_db \<Rightarrow>
     (BillingEntitlementRecord \<times> billing_db) result" where
  "upsertEntitlement amt context now dto s =
     bnd (resolveTenantId context (Some (ube_tenantId dto)) True) (\<lambda>tenantId.
     let state = loadStateTx tenantId s;
         scopeType = nullish (ube_scopeType dto) ''TENANT'';
         current = find (\<lambda>r. ber_tenantId r = tenantId \<and> ber_key r = ube_key dto \<and>
           ber_scopeType r = scopeType \<and> ber_scopeId r = ube_scopeId dto) (bs_entitlements state) in
     bnd (toIso now) (\<lambda>stamp.
     let (id, s) = (case current of Some c \<Rightarrow> (ber_id c, s) | None \<Rightarrow> bill_newId s);
         entitlement = \<lparr>ber_id = id, ber_tenantId = tenantId,
           ber_subscriptionId = orElse (ube_subscriptionId dto) (Option.bind current ber_subscriptionId),
           ber_key = ube_key dto, ber_scopeType = scopeType, ber_scopeId = ube_scopeId dto,
           ber_value = ube_value dto, ber_source = nullish (ube_source dto) ''MANUAL'',
           ber_createdAt = (case current of Some c \<Rightarrow> ber_createdAt c | None \<Rightarrow> stamp), ber_updatedAt = stamp\<rparr>;
         state = state\<lparr>bs_entitlements := entitlement #
           filter (\<lambda>r. ber_id r \<noteq> ber_id entitlement) (bs_entitlements state)\<rparr> in
     bnd (saveStateTx amt now tenantId state s) (\<lambda>s.
     Inr (entitlement, bill_recordTx tenantId ''billing.entitlement_upserted'' ''billing_entitlement''
       (ber_id entitlement) (JObj [(''key'', JStr (ber_key entitlement))]) context s))))"

definition upsertQuota ::
  "(string \<Rightarrow> int result) \<Rightarrow> RequestContext \<Rightarrow> instant \<Rightarrow> UpsertBillingQuotaDto \<Rightarrow> billing_db \<Rightarrow>
     (BillingQuotaRecord \<times> billing_db) result" where
  "upsertQuota amt context now dto s =
     bnd (resolveTenantId context (Some (ubq_tenantId dto)) True) (\<lambda>tenantId.
     let state = loadStateTx tenantId s;
         scopeType = nullish (ubq_scopeType dto) ''TENANT'';
         current = find (\<lambda>r. bqr_tenantId r = tenantId \<and> bqr_key r = ubq_key dto \<and>
           bqr_scopeType r = scopeType \<and> bqr_scopeId r = ubq_scopeId dto) (bs_quotas state) in
     bnd (toIso now) (\<lambda>stamp.
     bnd (case ubq_resetAt dto of None \<Rightarrow> Inr None | Some t \<Rightarrow> bnd (toIso t) (\<lambda>i. Inr (Some i))) (\<lambda>resetAt.
     let (id, s) = (case current of Some c \<Rightarrow> (bqr_id c, s) | None \<Rightarrow> bill_newId s);
         quota = \<lparr>bqr_id = id, bqr_tenantId = tenantId,
           bqr_subscriptionId = orElse (ubq_subscriptionId dto) (Option.bind current bqr_subscriptionId),
           bqr_key = ubq_key dto, bqr_scopeType = scopeType, bqr_scopeId = ubq_scopeId dto,
           bqr_limitValue = ubq_limitValue dto,
           bqr_usedValue = nullish (orElse (ubq_usedValue dto) (map_option bqr_usedValue current)) 0,
           bqr_resetAt = orElse resetAt (Option.bind current bqr_resetAt),
           bqr_createdAt = (case current of Some c \<Rightarrow> bqr_createdAt c | None \<Rightarrow> stamp), bqr_updatedAt = stamp\<rparr>;
         state = state\<lparr>bs_quotas := quota # filter (\<lambda>r. bqr_id r \<noteq> bqr_id quota) (bs_quotas state)\<rparr> in
     bnd (saveStateTx amt now tenantId state s) (\<lambda>s.
     Inr (quota, bill_recordTx tenantId ''billing.quota_upserted'' ''billing_quota'' (bqr_id quota)
       (JObj [(''key'', JStr (bqr_key quota))]) context s)))))"

definition createReseller ::
  "(string \<Rightarrow> int result) \<Rightarrow> RequestContext \<Rightarrow> instant \<Rightarrow> CreateBillingResellerDto \<Rightarrow> billing_db \<Rightarrow>
     (BillingResellerRecord \<times> billing_db) result" where
  "createReseller amt context now dto s =
     bnd (resolveTenantId context (cbr_tenantId dto) True) (\<lambda>tenantId.
     let state = loadStateTx tenantId s in
     bnd (toIso now) (\<lambda>stamp.
     let (id, s) = bill_newId s;
         reseller = \<lparr>brr_id = id, brr_code = trim (cbr_code dto), brr_name = trim (cbr_name dto),
           brr_status = ''ACTIVE'', brr_metadata = cbr_metadata dto,
           brr_createdAt = stamp, brr_updatedAt = stamp\<rparr>;
         state = state\<lparr>bs_resellers := reseller #
           filter (\<lambda>r. brr_code r \<noteq> brr_code reseller) (bs_resellers state)\<rparr> in
     bnd (saveStateTx amt now tenantId state s) (\<lambda>s.
     Inr (reseller, bill_recordTx tenantId ''billing.reseller_created'' ''billing_reseller''
       (brr_id reseller) (JObj [(''code'', JStr (brr_code reseller))]) context s))))"

definition bootstrap ::
  "(string \<Rightarrow> int result) \<Rightarrow> RequestContext \<Rightarrow> instant \<Rightarrow> BillingBootstrapDto \<Rightarrow> billing_db \<Rightarrow>
     (BillingOverviewDto \<times> billing_db) result" where
  "bootstrap amt context now dto s =
     bnd (resolveTenantId context (Some (bbd_tenantId dto)) True) (\<lambda>tenantId.
     let state = loadStateTx tenantId s in
     bnd (ensurePlan now dto state s) (\<lambda>(plan, state, s).
     bnd (ensureAccountTx amt now tenantId state None s) (\<lambda>(account, state, s).
     bnd (ensureTrial now tenantId (nullish (bbd_trialDays dto) 30) state s) (\<lambda>(trial, state, s).
     bnd (ensureSubscription now tenantId (bar_id account) (bpr_id plan) (btr_endsAt trial) state s)
       (\<lambda>(subscription, state, s).
     bnd (if truthy (bbd_resellerCode dto)
          then bnd (ensureReseller now (nullish (bbd_resellerCode dto) '''')
                      (nullish (bbd_resellerName dto) (nullish (bbd_resellerCode dto) '''')) state s)
                 (\<lambda>(reseller, state, s).
               Inr (state\<lparr>bs_accounts := update_where (\<lambda>r. bar_id r = bar_id account)
                      (\<lambda>r. r\<lparr>bar_resellerAccountId := Some (brr_id reseller)\<rparr>) (bs_accounts state)\<rparr>, s))
          else Inr (state, s)) (\<lambda>(state, s).
     bnd (saveStateTx amt now tenantId state s) (\<lambda>s.
     let s = bill_recordTx tenantId ''billing.bootstrap_completed'' ''billing_account'' (bar_id account)
       (JObj [(''planId'', JStr (bpr_id plan)), (''trialId'', JStr (btr_id trial)),
              (''subscriptionId'', JStr (bsr_id subscription))]) context s in
     bnd (mapBillingOverview now state tenantId) (\<lambda>overview.
     Inr (overview, s)))))))))"

end
