(* ===== verification/BillingLaws.thy ===== *)
theory BillingLaws
  imports BillingTables BillingOps System
begin

text \<open>
  What a save does to the tables of the billing service, and the invariant \<open>billing_ok\<close> it keeps when
  the state it saves is one that was loaded, with records changed that name accounts of the tenant.
\<close>

section \<open>A save\<close>

lemma saveStateTx_iff:
  "saveStateTx amt now t st s = Inr s' \<longleftrightarrow>
     foldE (upsert_plan amt now) (bs_plans st) (billingPlans s) = Inr (billingPlans s') \<and>
     foldE (upsert_reseller now) (bs_resellers st) (resellerAccounts s) = Inr (resellerAccounts s') \<and>
     foldE (create_row account_clash ''BillingAccount'' (account_row now))
       (filter (\<lambda>r. bar_tenantId r = t) (bs_accounts st))
       (filter (\<lambda>r. bac_tenantId r \<noteq> t) (billingAccounts s)) = Inr (billingAccounts s') \<and>
     foldE (create_row subscription_clash ''Subscription'' (subscription_row now))
       (filter (\<lambda>r. bsr_tenantId r = t) (bs_subscriptions st))
       (filter (\<lambda>r. sub_tenantId r \<noteq> t) (subscriptions s)) = Inr (subscriptions s') \<and>
     foldE (create_row invoice_clash ''Invoice'' (invoice_row amt now))
       (filter (\<lambda>r. bir_tenantId r = t) (bs_invoices st))
       (filter (\<lambda>r. ivc_tenantId r \<noteq> t) (invoices s)) = Inr (invoices s') \<and>
     foldE (create_row entitlement_clash ''EntitlementGrant'' (entitlement_row now))
       (filter (\<lambda>r. ber_tenantId r = t) (bs_entitlements st))
       (filter (\<lambda>r. eg_tenantId r \<noteq> t) (entitlementGrants s)) = Inr (entitlementGrants s') \<and>
     foldE (create_row quota_clash ''QuotaCounter'' (quota_row now))
       (filter (\<lambda>r. bqr_tenantId r = t) (bs_quotas st))
       (filter (\<lambda>r. qc_tenantId r \<noteq> t) (quotaCounters s)) = Inr (quotaCounters s') \<and>
     foldE (create_row trial_clash ''TrialGrant'' (trial_row now))
       (filter (\<lambda>r. btr_tenantId r = t) (bs_trials st))
       (filter (\<lambda>r. tg_tenantId r \<noteq> t) (trialGrants s)) = Inr (trialGrants s') \<and>
     bill_core s' = (bill_core s)\<lparr>tenantSettings :=
       filter (\<lambda>r. \<not> (set_ownerId r = t \<and> set_key r = BILLING_STATE_KEY)) (tenantSettings (bill_core s))\<rparr>"
  unfolding saveStateTx_def delete_tenant_def Let_def
  by (cases s; cases s') auto

text \<open>The writes of a successful save, table by table, and the core.\<close>

lemmas saveD =
  saveStateTx_iff [THEN iffD1, THEN conjunct1]
  saveStateTx_iff [THEN iffD1, THEN conjunct2, THEN conjunct1]
  saveStateTx_iff [THEN iffD1, THEN conjunct2, THEN conjunct2, THEN conjunct1]
  saveStateTx_iff [THEN iffD1, THEN conjunct2, THEN conjunct2, THEN conjunct2, THEN conjunct1]
  saveStateTx_iff [THEN iffD1, THEN conjunct2, THEN conjunct2, THEN conjunct2, THEN conjunct2, THEN conjunct1]
  saveStateTx_iff [THEN iffD1, THEN conjunct2, THEN conjunct2, THEN conjunct2, THEN conjunct2, THEN conjunct2, THEN conjunct1]
  saveStateTx_iff [THEN iffD1, THEN conjunct2, THEN conjunct2, THEN conjunct2, THEN conjunct2, THEN conjunct2, THEN conjunct2, THEN conjunct1]
  saveStateTx_iff [THEN iffD1, THEN conjunct2, THEN conjunct2, THEN conjunct2, THEN conjunct2, THEN conjunct2, THEN conjunct2, THEN conjunct2, THEN conjunct1]
  saveStateTx_iff [THEN iffD1, THEN conjunct2, THEN conjunct2, THEN conjunct2, THEN conjunct2, THEN conjunct2, THEN conjunct2, THEN conjunct2, THEN conjunct2]

lemma save_fails:
  "foldE (upsert_plan amt now) (bs_plans st) (billingPlans s) = Inl e \<Longrightarrow> saveStateTx amt now t st s = Inl e"
  by (simp add: saveStateTx_def)

section \<open>The invariant\<close>

definition bill_ids :: "billing_db \<Rightarrow> uuid list" where
  "bill_ids s = map bpl_id (billingPlans s) @ map rsl_id (resellerAccounts s) @ map bac_id (billingAccounts s) @
     map sub_id (subscriptions s) @ map ivc_id (invoices s) @ map eg_id (entitlementGrants s) @
     map qc_id (quotaCounters s) @ map tg_id (trialGrants s)"

definition state_ids :: "BillingState \<Rightarrow> uuid list" where
  "state_ids st = map bpr_id (bs_plans st) @ map brr_id (bs_resellers st) @ map bar_id (bs_accounts st) @
     map bsr_id (bs_subscriptions st) @ map bir_id (bs_invoices st) @ map ber_id (bs_entitlements st) @
     map bqr_id (bs_quotas st) @ map btr_id (bs_trials st)"

definition owned :: "(uuid \<times> uuid) list \<Rightarrow> (uuid \<times> uuid) list \<Rightarrow> bool" where
  "owned refs accounts \<longleftrightarrow> set refs \<subseteq> set accounts"

definition billing_ok :: "(string \<Rightarrow> int result) \<Rightarrow> billing_db \<Rightarrow> bool" where
  "billing_ok amt s \<longleftrightarrow>
     api_ok (bill_core s) \<and> fresh_from (db_seq (bill_core s)) (bill_ids s) \<and>
     distinct (map bpl_id (billingPlans s)) \<and> distinct (map bpl_code (billingPlans s)) \<and>
     distinct (map rsl_id (resellerAccounts s)) \<and> distinct (map rsl_code (resellerAccounts s)) \<and>
     unclashed account_clash (billingAccounts s) \<and> unclashed subscription_clash (subscriptions s) \<and>
     unclashed invoice_clash (invoices s) \<and> unclashed entitlement_clash (entitlementGrants s) \<and>
     unclashed quota_clash (quotaCounters s) \<and> unclashed trial_clash (trialGrants s) \<and>
     (\<forall>p \<in> set (billingPlans s). plan_valid amt p) \<and>
     (\<forall>u \<in> set (subscriptions s). subscription_valid u) \<and>
     (\<forall>i \<in> set (invoices s). invoice_valid amt i) \<and>
     (\<forall>q \<in> set (quotaCounters s). quota_valid q) \<and>
     (\<forall>r \<in> set (trialGrants s). trial_valid r) \<and>
     owned (map (\<lambda>u. (sub_tenantId u, sub_billingAccountId u)) (subscriptions s) @
            map (\<lambda>i. (ivc_tenantId i, ivc_billingAccountId i)) (invoices s))
       (map (\<lambda>a. (bac_tenantId a, bac_id a)) (billingAccounts s))"

text \<open>What a state must satisfy for its save to keep the invariant.\<close>

definition state_ok :: "uuid \<Rightarrow> BillingState \<Rightarrow> nat \<Rightarrow> bool" where
  "state_ok t st n \<longleftrightarrow> fresh_from n (state_ids st) \<and> (\<forall>a \<in> set (bs_accounts st). bar_tenantId a = t) \<and>
     (\<forall>u \<in> set (bs_subscriptions st). \<exists>a \<in> set (bs_accounts st). bar_tenantId a = bsr_tenantId u \<and> bar_id a = bsr_billingAccountId u) \<and>
     (\<forall>i \<in> set (bs_invoices st). \<exists>a \<in> set (bs_accounts st). bar_tenantId a = bir_tenantId i \<and> bar_id a = bir_billingAccountId i)"

lemma fresh_from_subset: "fresh_from n xs \<Longrightarrow> set ys \<subseteq> set xs \<Longrightarrow> fresh_from n ys"
  unfolding fresh_from_def by blast

lemmas row_defs = account_row_def subscription_row_def invoice_row_def entitlement_row_def quota_row_def trial_row_def

lemma row_ids:
  "account_row now a = Inr ar \<Longrightarrow> bac_id ar = bar_id a \<and> bac_tenantId ar = bar_tenantId a"
  "subscription_row now u = Inr ur \<Longrightarrow> sub_id ur = bsr_id u \<and> sub_tenantId ur = bsr_tenantId u \<and>
     sub_billingAccountId ur = bsr_billingAccountId u"
  "invoice_row amt now i = Inr ir \<Longrightarrow> ivc_id ir = bir_id i \<and> ivc_tenantId ir = bir_tenantId i \<and>
     ivc_billingAccountId ir = bir_billingAccountId i"
  "entitlement_row now e = Inr er \<Longrightarrow> eg_id er = ber_id e"
  "quota_row now q = Inr qr \<Longrightarrow> qc_id qr = bqr_id q"
  "trial_row now t = Inr tr \<Longrightarrow> tg_id tr = btr_id t"
  by (auto simp: row_defs)

lemma Un_grow: "A' \<subseteq> A \<union> B \<Longrightarrow> C' \<subseteq> C \<union> D \<Longrightarrow> A' \<union> C' \<subseteq> (A \<union> C) \<union> (B \<union> D)"
  by blast

lemma save_ids:
  assumes "saveStateTx amt now t st s = Inr s'"
  shows "set (bill_ids s') \<subseteq> set (bill_ids s @ state_ids st)"
proof -
  note D = saveD [OF assms]
  have p: "set (map bpl_id (billingPlans s')) \<subseteq> set (map bpl_id (billingPlans s)) \<union> bpr_id ` set (bs_plans st)"
    by (rule plans.upsert_ids [OF D(1) [unfolded upsert_plan_def]])
  have r: "set (map rsl_id (resellerAccounts s')) \<subseteq> set (map rsl_id (resellerAccounts s)) \<union> brr_id ` set (bs_resellers st)"
    by (rule resellers.upsert_ids [OF D(2) [unfolded upsert_reseller_def]])
  have "set (map bac_id (billingAccounts s')) \<subseteq> set (map bac_id (billingAccounts s)) \<union> bar_id ` set (bs_accounts st)"
    by (rule accounts.saved_key [OF D(3)]) (simp add: row_ids)
  moreover have "set (map sub_id (subscriptions s')) \<subseteq> set (map sub_id (subscriptions s)) \<union> bsr_id ` set (bs_subscriptions st)"
    by (rule subs.saved_key [OF D(4)]) (simp add: row_ids)
  moreover have "set (map ivc_id (invoices s')) \<subseteq> set (map ivc_id (invoices s)) \<union> bir_id ` set (bs_invoices st)"
    by (rule invoices.saved_key [OF D(5)]) (simp add: row_ids)
  moreover have "set (map eg_id (entitlementGrants s')) \<subseteq> set (map eg_id (entitlementGrants s)) \<union> ber_id ` set (bs_entitlements st)"
    by (rule entitlements.saved_key [OF D(6)]) (simp add: row_ids)
  moreover have "set (map qc_id (quotaCounters s')) \<subseteq> set (map qc_id (quotaCounters s)) \<union> bqr_id ` set (bs_quotas st)"
    by (rule quotas.saved_key [OF D(7)]) (simp add: row_ids)
  moreover have "set (map tg_id (trialGrants s')) \<subseteq> set (map tg_id (trialGrants s)) \<union> btr_id ` set (bs_trials st)"
    by (rule trials.saved_key [OF D(8)]) (simp add: row_ids)
  ultimately show ?thesis
    using p r unfolding bill_ids_def state_ids_def set_append set_map by (intro Un_grow)
qed

lemma core_step_settings: "core_step d (d\<lparr>tenantSettings := x\<rparr>)"
  using stock_ok_cong [of "d\<lparr>tenantSettings := x\<rparr>" d] carts_ok_cong [of "d\<lparr>tenantSettings := x\<rparr>" d]
    orders_ok_cong [of d "d\<lparr>tenantSettings := x\<rparr>"]
  by (auto simp: core_step_def api_ok_def order_grows_refl)

lemma ownedI:
  "(\<And>u. u \<in> set us \<Longrightarrow> f u \<in> set accs) \<Longrightarrow> (\<And>i. i \<in> set ivs \<Longrightarrow> g i \<in> set accs) \<Longrightarrow>
     owned (map f us @ map g ivs) accs"
  by (auto simp: owned_def)

theorem save_ok:
  assumes ok: "billing_ok amt s" and amt: "amount_column amt" and st: "state_ok t st (db_seq (bill_core s))"
    and run: "saveStateTx amt now t st s = Inr s'"
  shows "billing_ok amt s'" "db_seq (bill_core s') = db_seq (bill_core s)"
proof -
  note D = saveD [OF run]
  have ids: "fresh_from (db_seq (bill_core s)) (bill_ids s')"
    by (rule fresh_from_subset [OF _ save_ids [OF run]])
      (use ok st in \<open>simp add: billing_ok_def state_ok_def\<close>)
  show seq: "db_seq (bill_core s') = db_seq (bill_core s)" using D(9) by simp
  have core: "api_ok (bill_core s')"
    using D(9) ok core_step_settings [of "bill_core s"] by (simp add: core_step_def billing_ok_def)
  have p: "distinct (map bpl_id (billingPlans s')) \<and> distinct (map bpl_code (billingPlans s'))"
    using ok by (intro plans.upsert_keys(2) [OF D(1) [unfolded upsert_plan_def]]) (simp_all add: billing_ok_def)
  have r: "distinct (map rsl_id (resellerAccounts s')) \<and> distinct (map rsl_code (resellerAccounts s'))"
    using ok by (intro resellers.upsert_keys(2) [OF D(2) [unfolded upsert_reseller_def]]) (simp_all add: billing_ok_def)
  have pv: "\<forall>p \<in> set (billingPlans s'). plan_valid amt p"
    using plans_valid_kept [OF amt D(1)] ok by (simp add: billing_ok_def)
  have u: "unclashed account_clash (billingAccounts s')" "unclashed subscription_clash (subscriptions s')"
    "unclashed invoice_clash (invoices s')" "unclashed entitlement_clash (entitlementGrants s')"
    "unclashed quota_clash (quotaCounters s')" "unclashed trial_clash (trialGrants s')"
    using accounts.saved(3) [OF D(3)] subs.saved(3) [OF D(4)] invoices.saved(3) [OF D(5)]
      entitlements.saved(3) [OF D(6)] quotas.saved(3) [OF D(7)] trials.saved(3) [OF D(8)] ok
    by (simp_all add: billing_ok_def)
  have "\<forall>u \<in> set (subscriptions s'). subscription_valid u"
    by (rule subs.saved_all [OF D(4) subscription_row_valid]) (use ok in \<open>simp_all add: billing_ok_def\<close>)
  moreover have "\<forall>i \<in> set (invoices s'). invoice_valid amt i"
    by (rule invoices.saved_all [OF D(5) invoice_row_valid [OF amt]]) (use ok in \<open>simp_all add: billing_ok_def\<close>)
  moreover have "\<forall>q \<in> set (quotaCounters s'). quota_valid q"
    by (rule quotas.saved_all [OF D(7) quota_row_valid]) (use ok in \<open>simp_all add: billing_ok_def\<close>)
  moreover have "\<forall>r \<in> set (trialGrants s'). trial_valid r"
    by (rule trials.saved_all [OF D(8) trial_row_valid]) (use ok in \<open>simp_all add: billing_ok_def\<close>)
  ultimately have v: "(\<forall>u \<in> set (subscriptions s'). subscription_valid u) \<and> (\<forall>i \<in> set (invoices s'). invoice_valid amt i) \<and>
    (\<forall>q \<in> set (quotaCounters s'). quota_valid q) \<and> (\<forall>r \<in> set (trialGrants s'). trial_valid r)" by blast
  have keep: "(x, i) \<in> set (map (\<lambda>a. (bac_tenantId a, bac_id a)) (billingAccounts s'))"
    if "(x, i) \<in> set (map (\<lambda>a. (bac_tenantId a, bac_id a)) (billingAccounts s))" "x \<noteq> t" for x i
    using that accounts.saved_from(2) [OF D(3)] by fastforce
  have new: "(t, i) \<in> set (map (\<lambda>a. (bac_tenantId a, bac_id a)) (billingAccounts s'))"
    if "a \<in> set (bs_accounts st)" "bar_tenantId a = t" "bar_id a = i" for a i
  proof -
    from accounts.saved_from(3) [OF D(3) that(1,2)] obtain r where r: "r \<in> set (billingAccounts s')"
      "account_row now a = Inr r" by blast
    from r(1) row_ids(1) [OF r(2)] that(2,3) show ?thesis by force
  qed
  have "(sub_tenantId u, sub_billingAccountId u) \<in> set (map (\<lambda>a. (bac_tenantId a, bac_id a)) (billingAccounts s'))"
    if "u \<in> set (subscriptions s')" for u
  proof -
    have "u \<in> set (subscriptions s) \<and> sub_tenantId u \<noteq> t \<or>
        (\<exists>x \<in> set (bs_subscriptions st). bsr_tenantId x = t \<and> subscription_row now x = Inr u)"
      using subs.saved_from(1) [OF D(4)] that by blast
    then show ?thesis
    proof
      assume "u \<in> set (subscriptions s) \<and> sub_tenantId u \<noteq> t"
      then show ?thesis using ok unfolding billing_ok_def owned_def by (intro keep) auto
    next
      assume "\<exists>x \<in> set (bs_subscriptions st). bsr_tenantId x = t \<and> subscription_row now x = Inr u"
      then obtain x where x: "x \<in> set (bs_subscriptions st)" "bsr_tenantId x = t" "subscription_row now x = Inr u" by blast
      from st x(1,2) obtain a where a: "a \<in> set (bs_accounts st)" "bar_tenantId a = t" "bar_id a = bsr_billingAccountId x"
        unfolding state_ok_def by auto
      show ?thesis using new [OF a] row_ids(2) [OF x(3)] x(2) by simp
    qed
  qed
  moreover have "(ivc_tenantId u, ivc_billingAccountId u) \<in> set (map (\<lambda>a. (bac_tenantId a, bac_id a)) (billingAccounts s'))"
    if "u \<in> set (invoices s')" for u
  proof -
    have "u \<in> set (invoices s) \<and> ivc_tenantId u \<noteq> t \<or>
        (\<exists>x \<in> set (bs_invoices st). bir_tenantId x = t \<and> invoice_row amt now x = Inr u)"
      using invoices.saved_from(1) [OF D(5)] that by blast
    then show ?thesis
    proof
      assume "u \<in> set (invoices s) \<and> ivc_tenantId u \<noteq> t"
      then show ?thesis using ok unfolding billing_ok_def owned_def by (intro keep) auto
    next
      assume "\<exists>x \<in> set (bs_invoices st). bir_tenantId x = t \<and> invoice_row amt now x = Inr u"
      then obtain x where x: "x \<in> set (bs_invoices st)" "bir_tenantId x = t" "invoice_row amt now x = Inr u" by blast
      from st x(1,2) obtain a where a: "a \<in> set (bs_accounts st)" "bar_tenantId a = t" "bar_id a = bir_billingAccountId x"
        unfolding state_ok_def by auto
      show ?thesis using new [OF a] row_ids(3) [OF x(3)] x(2) by simp
    qed
  qed
  ultimately have "owned (map (\<lambda>u. (sub_tenantId u, sub_billingAccountId u)) (subscriptions s') @
      map (\<lambda>i. (ivc_tenantId i, ivc_billingAccountId i)) (invoices s'))
    (map (\<lambda>a. (bac_tenantId a, bac_id a)) (billingAccounts s'))"
    by (rule ownedI)
  then show "billing_ok amt s'"
    unfolding billing_ok_def seq using ids core p r pv u v by (intro conjI) blast+
qed

text \<open>What was loaded may be saved.\<close>

lemma state_ok_load:
  assumes "billing_ok amt s"
  shows "state_ok t (loadStateTx t s) (db_seq (bill_core s))"
proof -
  have "fresh_from (db_seq (bill_core s)) (state_ids (loadStateTx t s))"
    by (rule fresh_from_subset [of _ "bill_ids s"])
      (use assms in \<open>auto simp: billing_ok_def state_ids_def bill_ids_def loadStateTx_def mapBillingPlanModel_def
        mapResellerModel_def mapBillingAccountModel_def mapSubscriptionModel_def mapInvoiceModel_def
        mapEntitlementModel_def mapQuotaModel_def mapTrialModel_def\<close>)
  then show ?thesis
    using assms by (force simp: state_ok_def billing_ok_def owned_def loadStateTx_def mapBillingAccountModel_def
        mapSubscriptionModel_def mapInvoiceModel_def)
qed

lemma state_ok_mono: "state_ok t st n \<Longrightarrow> n \<le> m \<Longrightarrow> state_ok t st m"
  using fresh_from_mono by (auto simp: state_ok_def)

text \<open>The core moves on, the tables of the service stand.\<close>

lemma billing_ok_core:
  assumes "billing_ok amt s" and "core_step (bill_core s) d'"
  shows "billing_ok amt (s\<lparr>bill_core := d'\<rparr>)" "db_seq (bill_core s) \<le> db_seq d'"
proof -
  have c: "api_ok d'" "order_grows (bill_core s) d'" using assms by (auto simp: core_step_def billing_ok_def)
  then show n: "db_seq (bill_core s) \<le> db_seq d'" by (simp add: order_grows_def)
  have "fresh_from (db_seq d') (bill_ids s)"
    using assms(1) fresh_from_mono [OF _ n] by (simp add: billing_ok_def)
  then show "billing_ok amt (s\<lparr>bill_core := d'\<rparr>)"
    using assms(1) c(1) by (simp add: billing_ok_def bill_ids_def)
qed

lemma bill_newId_ok:
  assumes "bill_newId s = (i, s')"
  shows "billing_ok amt s \<Longrightarrow> billing_ok amt s'" "db_seq (bill_core s') = Suc (db_seq (bill_core s))"
    "i = newId (db_seq (bill_core s))"
proof -
  have s': "s' = s\<lparr>bill_core := bump (bill_core s)\<rparr>" and i: "i = newId (db_seq (bill_core s))"
    using assms by (auto simp: bill_newId_def)
  show "billing_ok amt s \<Longrightarrow> billing_ok amt s'"
    unfolding s' by (rule billing_ok_core(1) [OF _ core_step_logged [OF bump_logged]])
  show "db_seq (bill_core s') = Suc (db_seq (bill_core s))" "i = newId (db_seq (bill_core s))"
    by (simp_all add: s' i)
qed

lemma bill_recordTx_logged: "logged (bill_core s) (bill_core (bill_recordTx t ev ag i p ctx s))"
  unfolding logged_def bill_recordTx_def by (cases "bill_core s") auto

lemma bill_recordTx_ok: "billing_ok amt s \<Longrightarrow> billing_ok amt (bill_recordTx t ev ag i p ctx s)"
proof -
  have e: "bill_recordTx t ev ag i p ctx s = s\<lparr>bill_core := bill_core (bill_recordTx t ev ag i p ctx s)\<rparr>"
    by (simp add: bill_recordTx_def)
  assume "billing_ok amt s"
  from billing_ok_core(1) [OF this core_step_logged [OF bill_recordTx_logged]] show ?thesis by (subst e)
qed

lemma bill_recordTx_tables [simp]:
  "billingPlans (bill_recordTx t ev ag i p ctx s) = billingPlans s"
  "resellerAccounts (bill_recordTx t ev ag i p ctx s) = resellerAccounts s"
  "billingAccounts (bill_recordTx t ev ag i p ctx s) = billingAccounts s"
  "subscriptions (bill_recordTx t ev ag i p ctx s) = subscriptions s"
  "invoices (bill_recordTx t ev ag i p ctx s) = invoices s"
  "entitlementGrants (bill_recordTx t ev ag i p ctx s) = entitlementGrants s"
  "quotaCounters (bill_recordTx t ev ag i p ctx s) = quotaCounters s"
  "trialGrants (bill_recordTx t ev ag i p ctx s) = trialGrants s"
  by (simp_all add: bill_recordTx_def)

end
