(* ===== verification/BillingSteps.thy ===== *)
theory BillingSteps
  imports BillingLaws
begin

text \<open>
  Every request of the billing service keeps \<open>billing_ok\<close> and ends in a save for the tenant the
  context acts for, so it leaves the rows of other tenants alone.
\<close>

section \<open>Every request keeps the invariant\<close>

text \<open>
  A request saves a state that is the loaded one with one record changed; the ids in it are those of the
  loaded state and the ids it drew.
\<close>

lemma state_ok_change:
  assumes "state_ok t st n" and "set (state_ids st') \<subseteq> set (state_ids st) \<union> {newId n}"
    and "bs_accounts st' = bs_accounts st"
    and "\<And>u. u \<in> set (bs_subscriptions st') \<Longrightarrow> u \<in> set (bs_subscriptions st) \<or>
      (\<exists>a \<in> set (bs_accounts st). bsr_tenantId u = t \<and> bsr_billingAccountId u = bar_id a)"
    and "\<And>i. i \<in> set (bs_invoices st') \<Longrightarrow> i \<in> set (bs_invoices st) \<or>
      (\<exists>a \<in> set (bs_accounts st). bir_tenantId i = t \<and> bir_billingAccountId i = bar_id a)"
  shows "state_ok t st' (Suc n)"
proof -
  have "fresh_from (Suc n) (state_ids st @ [newId n])"
    using assms(1) fresh_from_Suc by (simp add: state_ok_def)
  then have "fresh_from (Suc n) (state_ids st')" by (rule fresh_from_subset) (use assms(2) in auto)
  moreover have "\<exists>a \<in> set (bs_accounts st). bar_tenantId a = bsr_tenantId u \<and> bar_id a = bsr_billingAccountId u"
    if "u \<in> set (bs_subscriptions st')" for u
    using assms(4) [OF that] assms(1) unfolding state_ok_def by force
  moreover have "\<exists>a \<in> set (bs_accounts st). bar_tenantId a = bir_tenantId i \<and> bar_id a = bir_billingAccountId i"
    if "i \<in> set (bs_invoices st')" for i
    using assms(5) [OF that] assms(1) unfolding state_ok_def by force
  ultimately show ?thesis
    using assms(1) unfolding state_ok_def assms(3) by blast
qed

lemma fresh_state_ok:
  assumes "state_ok t st n" and "set (state_ids st') \<subseteq> set (state_ids st)"
    and "bs_accounts st' = bs_accounts st" "bs_subscriptions st' = bs_subscriptions st" "bs_invoices st' = bs_invoices st"
  shows "state_ok t st' n"
  using assms fresh_from_subset by (auto simp: state_ok_def)

lemma ensureAccountTx_ok:
  assumes ok: "billing_ok amt s" and amt: "amount_column amt" and st: "state_ok t st (db_seq (bill_core s))"
    and run: "ensureAccountTx amt now t st b s = Inr (a, st', s')"
  shows "billing_ok amt s'" "state_ok t st' (db_seq (bill_core s'))" "a \<in> set (bs_accounts st')"
    "db_seq (bill_core s) \<le> db_seq (bill_core s')" "\<exists>new. st' = st\<lparr>bs_accounts := new @ bs_accounts st\<rparr>"
proof -
  let ?found = "if truthy b then find (\<lambda>r. Some (bar_id r) = b) (bs_accounts st)
    else find (\<lambda>r. bar_tenantId r = t) (bs_accounts st)"
  have "billing_ok amt s' \<and> state_ok t st' (db_seq (bill_core s')) \<and> a \<in> set (bs_accounts st') \<and>
    db_seq (bill_core s) \<le> db_seq (bill_core s') \<and> (\<exists>new. st' = st\<lparr>bs_accounts := new @ bs_accounts st\<rparr>)"
  proof (cases ?found)
    case (Some c)
    then have "c \<in> set (bs_accounts st)" by (auto split: if_splits dest: find_SomeD)
    moreover have "a = c" "st' = st" "s' = s" using run Some by (auto simp: ensureAccountTx_def)
    ultimately show ?thesis using ok st by (auto intro: exI [of _ "[]"])
  next
    case None
    obtain i s1 where n: "bill_newId s = (i, s1)" by fastforce
    define st1 where "st1 = st\<lparr>bs_accounts := a # bs_accounts st\<rparr>"
    have a: "bar_id a = i" "bar_tenantId a = t" "st' = st1" "saveStateTx amt now t st1 s1 = Inr s'"
      using run None n unfolding ensureAccountTx_def st1_def by (auto simp: Let_def)
    note N = bill_newId_ok [OF n]
    have "state_ok t st1 (db_seq (bill_core s1))"
      using st fresh_from_Suc [of "db_seq (bill_core s)" "state_ids st"] a(1,2) N(2,3)
      by (auto simp: st1_def state_ok_def state_ids_def fresh_from_def)
    moreover have "a \<in> set (bs_accounts st1)" by (simp add: st1_def)
    moreover have "\<exists>new. st1 = st\<lparr>bs_accounts := new @ bs_accounts st\<rparr>"
      by (rule exI [of _ "[a]"]) (simp add: st1_def)
    ultimately show ?thesis using save_ok [OF N(1) [OF ok] amt _ a(4)] a(3) N(2) by simp
  qed
  then show "billing_ok amt s'" "state_ok t st' (db_seq (bill_core s'))" "a \<in> set (bs_accounts st')"
    "db_seq (bill_core s) \<le> db_seq (bill_core s')" "\<exists>new. st' = st\<lparr>bs_accounts := new @ bs_accounts st\<rparr>" by blast+
qed

lemma save_logged_ok:
  assumes "billing_ok amt s" "amount_column amt" "state_ok t st (db_seq (bill_core s))"
    and "saveStateTx amt now t st s = Inr s1" and "s' = bill_recordTx t ev ag i p ctx s1"
  shows "billing_ok amt s'"
  using save_ok(1) [OF assms(1-4)] bill_recordTx_ok assms(5) by blast

lemma loaded_new:
  assumes ok: "billing_ok amt s" and n: "bill_newId s = (i, s1)"
  shows "billing_ok amt s1" "state_ok t (loadStateTx t s) (db_seq (bill_core s))"
    "db_seq (bill_core s1) = Suc (db_seq (bill_core s))" "i = newId (db_seq (bill_core s))"
  using bill_newId_ok [OF n] state_ok_load [OF ok] ok by auto

lemma createPlan_ok:
  assumes ok: "billing_ok amt s" and amt: "amount_column amt" and run: "createPlan amt ctx now dto s = Inr (v, s')"
  shows "billing_ok amt s'"
proof -
  obtain i s1 where n: "bill_newId s = (i, s1)" by fastforce
  from run n obtain t s2 ev ag p where
    v: "bpr_id v = i" and save: "saveStateTx amt now t ((loadStateTx t s)
      \<lparr>bs_plans := v # filter (\<lambda>p. bpr_id p \<noteq> bpr_id v) (bs_plans (loadStateTx t s))\<rparr>) s1 = Inr s2"
    and s': "s' = bill_recordTx t ev ag (bpr_id v) p ctx s2"
    unfolding createPlan_def by (auto simp: Let_def)
  note L = loaded_new [OF ok n]
  have "state_ok t ((loadStateTx t s)
      \<lparr>bs_plans := v # filter (\<lambda>p. bpr_id p \<noteq> bpr_id v) (bs_plans (loadStateTx t s))\<rparr>) (Suc (db_seq (bill_core s)))"
    by (rule state_ok_change [OF L(2)]) (use v L(4) in \<open>auto simp: state_ids_def\<close>)
  then show ?thesis by (intro save_logged_ok [OF L(1) amt _ save s']) (simp add: L(3))
qed

lemma updatePlan_ok:
  assumes ok: "billing_ok amt s" and amt: "amount_column amt" and run: "updatePlan amt ctx now i dto s = Inr (v, s')"
  shows "billing_ok amt s'"
proof -
  from run obtain t s2 ev ag p cur iso where
    c: "find (\<lambda>p. bpr_id p = i) (bs_plans (loadStateTx t s)) = Some cur"
    and v: "v = plan_changed dto iso cur"
    and save: "saveStateTx amt now t ((loadStateTx t s)
      \<lparr>bs_plans := update_where (\<lambda>p. bpr_id p = i) (\<lambda>_. v) (bs_plans (loadStateTx t s))\<rparr>) s = Inr s2"
    and s': "s' = bill_recordTx t ev ag i p ctx s2"
    unfolding updatePlan_def by (auto simp: Let_def)
  note L = state_ok_load [OF ok]
  have cur: "cur \<in> set (bs_plans (loadStateTx t s))" "bpr_id cur = i" using find_SomeD [OF c] by simp_all
  have i: "bpr_id v = i" using cur(2) by (simp add: v plan_changed_def)
  have "set (map bpr_id (update_where (\<lambda>p. bpr_id p = i) (\<lambda>_. v) ps)) \<subseteq> set (map bpr_id ps)" for ps
    by (auto simp: set_update_where i)
  then have "state_ok t ((loadStateTx t s)
      \<lparr>bs_plans := update_where (\<lambda>p. bpr_id p = i) (\<lambda>_. v) (bs_plans (loadStateTx t s))\<rparr>) (db_seq (bill_core s))"
    by (intro fresh_state_ok [OF L]) (auto simp: state_ids_def)
  then show ?thesis by (rule save_logged_ok [OF ok amt _ save s'])
qed

lemma createSubscription_ok:
  assumes ok: "billing_ok amt s" and amt: "amount_column amt" and run: "createSubscription amt ctx now dto s = Inr (v, s')"
  shows "billing_ok amt s'"
proof -
  from run obtain t where t: "resolveTenantId ctx (Some (cbs_tenantId dto)) True = Inr t"
    unfolding createSubscription_def by auto
  with run obtain a st1 s1 where
    e: "ensureAccountTx amt now t (loadStateTx t s) (cbs_billingAccountId dto) s = Inr (a, st1, s1)"
    unfolding createSubscription_def by (auto simp: Let_def case_prod_Inr)
  obtain i s2 where n: "bill_newId s1 = (i, s2)" by fastforce
  from run t e n obtain s3 ev ag p where v: "bsr_id v = i" "bsr_tenantId v = t" "bsr_billingAccountId v = bar_id a"
    and save: "saveStateTx amt now t (st1\<lparr>bs_subscriptions := v # bs_subscriptions st1\<rparr>) s2 = Inr s3"
    and s': "s' = bill_recordTx t ev ag (bsr_id v) p ctx s3"
    unfolding createSubscription_def by (auto simp: Let_def)
  note E = ensureAccountTx_ok [OF ok amt state_ok_load [OF ok] e]
  note N = bill_newId_ok [OF n]
  have "state_ok t (st1\<lparr>bs_subscriptions := v # bs_subscriptions st1\<rparr>) (Suc (db_seq (bill_core s1)))"
    by (rule state_ok_change [OF E(2)]) (use v E(3) N(3) in \<open>auto simp: state_ids_def\<close>)
  then show ?thesis by (intro save_logged_ok [OF N(1) [OF E(1)] amt _ save s']) (simp add: N(2))
qed

lemma issueInvoice_ok:
  assumes ok: "billing_ok amt s" and amt: "amount_column amt" and run: "issueInvoice amt ctx now dto s = Inr (v, s')"
  shows "billing_ok amt s'"
proof -
  from run obtain t where t: "resolveTenantId ctx (Some (ibi_tenantId dto)) True = Inr t"
    unfolding issueInvoice_def by auto
  with run obtain a st1 s1 where
    e: "ensureAccountTx amt now t (loadStateTx t s) (Some (ibi_billingAccountId dto)) s = Inr (a, st1, s1)"
    unfolding issueInvoice_def by (auto simp: Let_def case_prod_Inr)
  obtain i s2 where n: "bill_newId s1 = (i, s2)" by fastforce
  from run t e n obtain s3 ev ag p where v: "bir_id v = i" "bir_tenantId v = t" "bir_billingAccountId v = bar_id a"
    and save: "saveStateTx amt now t (st1\<lparr>bs_invoices := v # bs_invoices st1\<rparr>) s2 = Inr s3"
    and s': "s' = bill_recordTx t ev ag (bir_id v) p ctx s3"
    unfolding issueInvoice_def by (auto simp: Let_def)
  note E = ensureAccountTx_ok [OF ok amt state_ok_load [OF ok] e]
  note N = bill_newId_ok [OF n]
  have "state_ok t (st1\<lparr>bs_invoices := v # bs_invoices st1\<rparr>) (Suc (db_seq (bill_core s1)))"
    by (rule state_ok_change [OF E(2)]) (use v E(3) N(3) in \<open>auto simp: state_ids_def\<close>)
  then show ?thesis by (intro save_logged_ok [OF N(1) [OF E(1)] amt _ save s']) (simp add: N(2))
qed

lemma createReseller_ok:
  assumes ok: "billing_ok amt s" and amt: "amount_column amt" and run: "createReseller amt ctx now dto s = Inr (v, s')"
  shows "billing_ok amt s'"
proof -
  obtain i s1 where n: "bill_newId s = (i, s1)" by fastforce
  from run n obtain t s2 ev ag p where
    v: "brr_id v = i" and save: "saveStateTx amt now t ((loadStateTx t s)
      \<lparr>bs_resellers := v # filter (\<lambda>r. brr_code r \<noteq> brr_code v) (bs_resellers (loadStateTx t s))\<rparr>) s1 = Inr s2"
    and s': "s' = bill_recordTx t ev ag (brr_id v) p ctx s2"
    unfolding createReseller_def by (auto simp: Let_def)
  note L = loaded_new [OF ok n]
  have "state_ok t ((loadStateTx t s)
      \<lparr>bs_resellers := v # filter (\<lambda>r. brr_code r \<noteq> brr_code v) (bs_resellers (loadStateTx t s))\<rparr>) (Suc (db_seq (bill_core s)))"
    by (rule state_ok_change [OF L(2)]) (use v L(4) in \<open>auto simp: state_ids_def\<close>)
  then show ?thesis by (intro save_logged_ok [OF L(1) amt _ save s']) (simp add: L(3))
qed

text \<open>An upsert keeps the id of the entry it replaces, or draws one.\<close>

lemma upserted_id:
  assumes ok: "billing_ok amt s" and n: "(case cur of Some c \<Rightarrow> (f c, s) | None \<Rightarrow> bill_newId s) = (i, s1)"
  shows "billing_ok amt s1" "db_seq (bill_core s) \<le> db_seq (bill_core s1)"
    "(\<exists>c. cur = Some c \<and> i = f c \<and> s1 = s) \<or> i = newId (db_seq (bill_core s)) \<and> db_seq (bill_core s1) = Suc (db_seq (bill_core s))"
  using n bill_newId_ok [of s i s1] ok by (auto split: option.splits)

lemma upsertEntitlement_ok:
  assumes ok: "billing_ok amt s" and amt: "amount_column amt" and run: "upsertEntitlement amt ctx now dto s = Inr (v, s')"
  shows "billing_ok amt s'"
proof -
  from run obtain t where t: "resolveTenantId ctx (Some (ube_tenantId dto)) True = Inr t"
    unfolding upsertEntitlement_def by auto
  define cur where "cur = find (\<lambda>r. ber_tenantId r = t \<and> ber_key r = ube_key dto \<and>
    ber_scopeType r = nullish (ube_scopeType dto) ''TENANT'' \<and> ber_scopeId r = ube_scopeId dto)
    (bs_entitlements (loadStateTx t s))"
  obtain i s1 where n: "(case cur of Some c \<Rightarrow> (ber_id c, s) | None \<Rightarrow> bill_newId s) = (i, s1)" by fastforce
  from run t n obtain s2 ev ag p where v: "ber_id v = i"
    and save: "saveStateTx amt now t ((loadStateTx t s)\<lparr>bs_entitlements := v #
      filter (\<lambda>r. ber_id r \<noteq> ber_id v) (bs_entitlements (loadStateTx t s))\<rparr>) s1 = Inr s2"
    and s': "s' = bill_recordTx t ev ag (ber_id v) p ctx s2"
    unfolding upsertEntitlement_def by (auto simp: Let_def cur_def)
  note U = upserted_id [OF ok n]
  note L = state_ok_load [OF ok, of t]
  let ?st = "(loadStateTx t s)\<lparr>bs_entitlements := v # filter (\<lambda>r. ber_id r \<noteq> ber_id v) (bs_entitlements (loadStateTx t s))\<rparr>"
  have "state_ok t ?st (db_seq (bill_core s1))"
    using U(3)
  proof
    assume "\<exists>c. cur = Some c \<and> i = ber_id c \<and> s1 = s"
    then obtain c where c: "cur = Some c" "i = ber_id c" "s1 = s" by blast
    from find_SomeD [OF c(1) [unfolded cur_def]] have "c \<in> set (bs_entitlements (loadStateTx t s))" by blast
    then have "set (state_ids ?st) \<subseteq> set (state_ids (loadStateTx t s))"
      using v c(2) by (auto simp: state_ids_def)
    then show ?thesis unfolding c(3) by (intro fresh_state_ok [OF L]) simp_all
  next
    assume new: "i = newId (db_seq (bill_core s)) \<and> db_seq (bill_core s1) = Suc (db_seq (bill_core s))"
    show ?thesis
      unfolding conjunct2 [OF new] by (rule state_ok_change [OF L]) (use v new in \<open>auto simp: state_ids_def\<close>)
  qed
  then show ?thesis by (rule save_logged_ok [OF U(1) amt _ save s'])
qed

lemma upsertQuota_ok:
  assumes ok: "billing_ok amt s" and amt: "amount_column amt" and run: "upsertQuota amt ctx now dto s = Inr (v, s')"
  shows "billing_ok amt s'"
proof -
  from run obtain t where t: "resolveTenantId ctx (Some (ubq_tenantId dto)) True = Inr t"
    unfolding upsertQuota_def by auto
  define cur where "cur = find (\<lambda>r. bqr_tenantId r = t \<and> bqr_key r = ubq_key dto \<and>
    bqr_scopeType r = nullish (ubq_scopeType dto) ''TENANT'' \<and> bqr_scopeId r = ubq_scopeId dto)
    (bs_quotas (loadStateTx t s))"
  obtain i s1 where n: "(case cur of Some c \<Rightarrow> (bqr_id c, s) | None \<Rightarrow> bill_newId s) = (i, s1)" by fastforce
  from run t n obtain s2 ev ag p where v: "bqr_id v = i"
    and save: "saveStateTx amt now t ((loadStateTx t s)\<lparr>bs_quotas := v #
      filter (\<lambda>r. bqr_id r \<noteq> bqr_id v) (bs_quotas (loadStateTx t s))\<rparr>) s1 = Inr s2"
    and s': "s' = bill_recordTx t ev ag (bqr_id v) p ctx s2"
    unfolding upsertQuota_def by (auto simp: Let_def cur_def)
  note U = upserted_id [OF ok n]
  note L = state_ok_load [OF ok, of t]
  let ?st = "(loadStateTx t s)\<lparr>bs_quotas := v # filter (\<lambda>r. bqr_id r \<noteq> bqr_id v) (bs_quotas (loadStateTx t s))\<rparr>"
  have "state_ok t ?st (db_seq (bill_core s1))"
    using U(3)
  proof
    assume "\<exists>c. cur = Some c \<and> i = bqr_id c \<and> s1 = s"
    then obtain c where c: "cur = Some c" "i = bqr_id c" "s1 = s" by blast
    from find_SomeD [OF c(1) [unfolded cur_def]] have "c \<in> set (bs_quotas (loadStateTx t s))" by blast
    then have "set (state_ids ?st) \<subseteq> set (state_ids (loadStateTx t s))"
      using v c(2) by (auto simp: state_ids_def)
    then show ?thesis unfolding c(3) by (intro fresh_state_ok [OF L]) simp_all
  next
    assume new: "i = newId (db_seq (bill_core s)) \<and> db_seq (bill_core s1) = Suc (db_seq (bill_core s))"
    show ?thesis
      unfolding conjunct2 [OF new] by (rule state_ok_change [OF L]) (use v new in \<open>auto simp: state_ids_def\<close>)
  qed
  then show ?thesis by (rule save_logged_ok [OF U(1) amt _ save s'])
qed

text \<open>The bootstrap changes its state in five steps, each on a state that may be saved.\<close>

definition draft :: "(string \<Rightarrow> int result) \<Rightarrow> uuid \<Rightarrow> BillingState \<Rightarrow> billing_db \<Rightarrow> bool" where
  "draft amt t st s \<longleftrightarrow> billing_ok amt s \<and> state_ok t st (db_seq (bill_core s))"

lemma draft_new:
  assumes d: "draft amt t st s" and n: "bill_newId s = (i, s1)"
    and "set (state_ids st') \<subseteq> set (state_ids st) \<union> {i}" "bs_accounts st' = bs_accounts st"
    and "\<And>u. u \<in> set (bs_subscriptions st') \<Longrightarrow> u \<in> set (bs_subscriptions st) \<or>
      (\<exists>a \<in> set (bs_accounts st). bsr_tenantId u = t \<and> bsr_billingAccountId u = bar_id a)"
    and "bs_invoices st' = bs_invoices st"
  shows "draft amt t st' s1"
proof -
  note N = bill_newId_ok [OF n]
  have "state_ok t st' (Suc (db_seq (bill_core s)))"
    by (rule state_ok_change [of t st]) (use assms(3-6) d N(3) in \<open>auto simp: draft_def\<close>)
  with d N show ?thesis by (simp add: draft_def)
qed

lemma ensurePlan_draft:
  assumes d: "draft amt t st s" and run: "ensurePlan now input st s = Inr (p, st', s')"
  shows "draft amt t st' s'"
proof (cases "find (\<lambda>p. bpr_code p = bbd_planCode input) (bs_plans st)")
  case None
  obtain i s1 where n: "bill_newId s = (i, s1)" by fastforce
  from run None n have "bpr_id p = i" "st' = st\<lparr>bs_plans := p # bs_plans st\<rparr>" "s' = s1"
    by (auto simp: ensurePlan_def Let_def)
  then show ?thesis by (auto simp: state_ids_def intro!: draft_new [OF d n])
next
  case (Some c)
  from run Some have p: "bpr_id p = bpr_id c" "s' = s"
    "st' = st\<lparr>bs_plans := update_where (\<lambda>x. bpr_id x = bpr_id c) (\<lambda>_. p) (bs_plans st)\<rparr>"
    by (auto simp: ensurePlan_def Let_def)
  have "map bpr_id (update_where (\<lambda>x. bpr_id x = bpr_id c) (\<lambda>_. p) (bs_plans st)) = map bpr_id (bs_plans st)"
    by (rule map_update_where_key) (simp add: p(1))
  then have ids: "state_ids st' = state_ids st" unfolding p(3) by (simp add: state_ids_def)
  have "state_ok t st' (db_seq (bill_core s))"
    by (rule fresh_state_ok [of t st]) (use d ids in \<open>simp_all add: draft_def p(3)\<close>)
  with d p(2) show ?thesis by (simp add: draft_def)
qed

lemma ensureTrial_draft:
  assumes d: "draft amt t st s" and run: "ensureTrial now t days st s = Inr (x, st', s')"
  shows "draft amt t st' s'" "bs_accounts st' = bs_accounts st"
proof -
  obtain i s1 where n: "bill_newId s = (i, s1)" by fastforce
  have "(st' = st \<and> s' = s) \<or> (btr_id x = i \<and> st' = st\<lparr>bs_trials := x # bs_trials st\<rparr> \<and> s' = s1)"
    using run n by (auto simp: ensureTrial_def Let_def split: option.splits)
  then show "draft amt t st' s'" using d by (auto simp: state_ids_def intro!: draft_new [OF d n])
  show "bs_accounts st' = bs_accounts st"
    using run n by (auto simp: ensureTrial_def Let_def split: option.splits)
qed

lemma ensureSubscription_draft:
  assumes d: "draft amt t st s" and run: "ensureSubscription now t (bar_id a) p pe st s = Inr (x, st', s')"
    and a: "a \<in> set (bs_accounts st)"
  shows "draft amt t st' s'" "bs_accounts st' = bs_accounts st"
proof -
  obtain i s1 where n: "bill_newId s = (i, s1)" by fastforce
  have "(st' = st \<and> s' = s) \<or> (bsr_id x = i \<and> bsr_tenantId x = t \<and> bsr_billingAccountId x = bar_id a \<and>
      st' = st\<lparr>bs_subscriptions := x # bs_subscriptions st\<rparr> \<and> s' = s1)"
    using run n by (auto simp: ensureSubscription_def Let_def split: option.splits)
  then show "draft amt t st' s'"
  proof
    assume x: "bsr_id x = i \<and> bsr_tenantId x = t \<and> bsr_billingAccountId x = bar_id a \<and>
      st' = st\<lparr>bs_subscriptions := x # bs_subscriptions st\<rparr> \<and> s' = s1"
    then have "draft amt t st' s1"
      by (intro draft_new [OF d n]) (use a in \<open>auto simp: state_ids_def\<close>)
    with x show ?thesis by simp
  qed (use d in simp)
  show "bs_accounts st' = bs_accounts st"
    using run n by (auto simp: ensureSubscription_def Let_def split: option.splits)
qed

lemma ensureReseller_draft:
  assumes d: "draft amt t st s" and run: "ensureReseller now c nm st s = Inr (x, st', s')"
  shows "draft amt t st' s'"
proof -
  obtain i s1 where n: "bill_newId s = (i, s1)" by fastforce
  have "(st' = st \<and> s' = s) \<or> (brr_id x = i \<and> st' = st\<lparr>bs_resellers := x # bs_resellers st\<rparr> \<and> s' = s1)"
    using run n by (auto simp: ensureReseller_def Let_def split: option.splits)
  then show ?thesis using d by (auto simp: state_ids_def intro!: draft_new [OF d n])
qed

lemma draft_accounts:
  assumes "draft amt t st s" and f: "\<And>a. bar_id (f a) = bar_id a \<and> bar_tenantId (f a) = bar_tenantId a"
  shows "draft amt t (st\<lparr>bs_accounts := update_where P f (bs_accounts st)\<rparr>) s"
proof -
  have m: "map bar_id (update_where P f xs) = map bar_id xs" for xs using f by (simp add: map_update_where_key)
  have e: "\<exists>b \<in> set (update_where P f xs). bar_tenantId b = t' \<and> bar_id b = i"
    if "\<exists>a \<in> set xs. bar_tenantId a = t' \<and> bar_id a = i" for xs t' i
    using that f by (auto simp: set_update_where)
  show ?thesis
    using assms(1) e f by (simp add: draft_def state_ok_def state_ids_def m) (auto simp: set_update_where)
qed

lemma bootstrap_ok:
  assumes ok: "billing_ok amt s" and amt: "amount_column amt" and run: "bootstrap amt ctx now dto s = Inr (v, s')"
  shows "billing_ok amt s'"
proof -
  from run obtain t where t: "resolveTenantId ctx (Some (bbd_tenantId dto)) True = Inr t"
    unfolding bootstrap_def by auto
  with run obtain p st1 s1 where 1: "ensurePlan now dto (loadStateTx t s) s = Inr (p, st1, s1)"
    unfolding bootstrap_def by (auto simp: Let_def case_prod_Inr)
  with run t obtain a st2 s2 where 2: "ensureAccountTx amt now t st1 None s1 = Inr (a, st2, s2)"
    unfolding bootstrap_def by (auto simp: Let_def case_prod_Inr)
  with run t 1 obtain x st3 s3 where 3: "ensureTrial now t (nullish (bbd_trialDays dto) 30) st2 s2 = Inr (x, st3, s3)"
    unfolding bootstrap_def by (auto simp: Let_def case_prod_Inr)
  with run t 1 2 obtain u st4 s4 where
    4: "ensureSubscription now t (bar_id a) (bpr_id p) (btr_endsAt x) st3 s3 = Inr (u, st4, s4)"
    unfolding bootstrap_def by (auto simp: Let_def case_prod_Inr)
  have "draft amt t (loadStateTx t s) s" using ok state_ok_load by (simp add: draft_def)
  then have "draft amt t st1 s1" by (rule ensurePlan_draft [OF _ 1])
  then have d2: "draft amt t st2 s2" "a \<in> set (bs_accounts st2)"
    using ensureAccountTx_ok [OF _ amt _ 2] by (auto simp: draft_def)
  then have d3: "draft amt t st3 s3" "a \<in> set (bs_accounts st3)" using ensureTrial_draft [OF _ 3] by auto
  then have d4: "draft amt t st4 s4" using ensureSubscription_draft [OF _ 4] by blast
  have "\<exists>st5 s5. draft amt t st5 s5 \<and> (\<exists>s6 ev ag i pl. saveStateTx amt now t st5 s5 = Inr s6 \<and>
      s' = bill_recordTx t ev ag i pl ctx s6)"
  proof (cases "truthy (bbd_resellerCode dto)")
    case True
    with run t 1 2 3 4 obtain r st5 s5 where 5: "ensureReseller now (nullish (bbd_resellerCode dto) '''')
      (nullish (bbd_resellerName dto) (nullish (bbd_resellerCode dto) '''')) st4 s4 = Inr (r, st5, s5)"
      unfolding bootstrap_def by (auto simp: Let_def case_prod_Inr)
    let ?st = "st5\<lparr>bs_accounts := update_where (\<lambda>r. bar_id r = bar_id a)
      (\<lambda>x. x\<lparr>bar_resellerAccountId := Some (brr_id r)\<rparr>) (bs_accounts st5)\<rparr>"
    have "draft amt t ?st s5" by (rule draft_accounts [OF ensureReseller_draft [OF d4 5]]) simp
    moreover from run t 1 2 3 4 5 True obtain s6 ev ag i pl where "saveStateTx amt now t ?st s5 = Inr s6"
      "s' = bill_recordTx t ev ag i pl ctx s6"
      unfolding bootstrap_def by (auto simp: Let_def)
    ultimately show ?thesis by blast
  next
    case False
    with run t 1 2 3 4 obtain s6 ev ag i pl where "saveStateTx amt now t st4 s4 = Inr s6"
      "s' = bill_recordTx t ev ag i pl ctx s6"
      unfolding bootstrap_def by (auto simp: Let_def)
    with d4 show ?thesis by blast
  qed
  then show ?thesis using save_logged_ok [OF _ amt] unfolding draft_def by blast
qed

section \<open>Histories\<close>

text \<open>
  A request the billing service accepts; a step is such a request, or one of the other services on the
  same database.
\<close>

inductive billing_request ::
  "(string \<Rightarrow> int result) \<Rightarrow> RequestContext \<Rightarrow> instant \<Rightarrow> billing_db \<Rightarrow> billing_db \<Rightarrow> bool"
  for amt :: "string \<Rightarrow> int result" and ctx :: RequestContext and now :: instant where
  create_plan: "createPlan amt ctx now pdto s = Inr (p, s') \<Longrightarrow> billing_request amt ctx now s s'"
| update_plan: "updatePlan amt ctx now i udto s = Inr (p, s') \<Longrightarrow> billing_request amt ctx now s s'"
| subscribe: "createSubscription amt ctx now sdto s = Inr (u, s') \<Longrightarrow> billing_request amt ctx now s s'"
| invoice: "issueInvoice amt ctx now idto s = Inr (v, s') \<Longrightarrow> billing_request amt ctx now s s'"
| entitle: "upsertEntitlement amt ctx now edto s = Inr (e, s') \<Longrightarrow> billing_request amt ctx now s s'"
| set_quota: "upsertQuota amt ctx now qdto s = Inr (q, s') \<Longrightarrow> billing_request amt ctx now s s'"
| create_reseller: "createReseller amt ctx now rdto s = Inr (r, s') \<Longrightarrow> billing_request amt ctx now s s'"
| boot: "bootstrap amt ctx now bdto s = Inr (ov, s') \<Longrightarrow> billing_request amt ctx now s s'"

inductive billing_step :: "(string \<Rightarrow> int result) \<Rightarrow> billing_db \<Rightarrow> billing_db \<Rightarrow> bool"
  for amt :: "string \<Rightarrow> int result" where
  request: "billing_request amt ctx now s s' \<Longrightarrow> billing_step amt s s'"
| elsewhere: "api_step (bill_core s) d' \<Longrightarrow> billing_step amt s (s\<lparr>bill_core := d'\<rparr>)"

lemma billing_request_ok:
  "billing_request amt ctx now s s' \<Longrightarrow> amount_column amt \<Longrightarrow> billing_ok amt s \<Longrightarrow> billing_ok amt s'"
  by (erule billing_request.cases)
    (blast intro: createPlan_ok updatePlan_ok createSubscription_ok issueInvoice_ok upsertEntitlement_ok
      upsertQuota_ok createReseller_ok bootstrap_ok)+

lemma billing_step_ok: "billing_step amt s s' \<Longrightarrow> amount_column amt \<Longrightarrow> billing_ok amt s \<Longrightarrow> billing_ok amt s'"
  by (erule billing_step.cases) (blast intro: billing_request_ok billing_ok_core(1) api_step_core)+

section \<open>Every request ends in a save\<close>

text \<open>The rows of one tenant.\<close>

definition tenant_rows :: "uuid \<Rightarrow> billing_db \<Rightarrow>
    BillingAccount list \<times> Subscription list \<times> Invoice list \<times> EntitlementGrant list \<times> QuotaCounter list \<times> TrialGrant list" where
  "tenant_rows u s =
     (filter (\<lambda>r. bac_tenantId r = u) (billingAccounts s), filter (\<lambda>r. sub_tenantId r = u) (subscriptions s),
      filter (\<lambda>r. ivc_tenantId r = u) (invoices s), filter (\<lambda>r. eg_tenantId r = u) (entitlementGrants s),
      filter (\<lambda>r. qc_tenantId r = u) (quotaCounters s), filter (\<lambda>r. tg_tenantId r = u) (trialGrants s))"

definition plan_keys :: "billing_db \<Rightarrow> (uuid \<times> string) list" where
  "plan_keys s = map (\<lambda>r. (bpl_id r, bpl_code r)) (billingPlans s)"

definition kept_for_others :: "uuid \<Rightarrow> billing_db \<Rightarrow> billing_db \<Rightarrow> bool" where
  "kept_for_others t s s' \<longleftrightarrow> (\<forall>u. u \<noteq> t \<longrightarrow> tenant_rows u s' = tenant_rows u s) \<and>
     (\<exists>more. plan_keys s' = plan_keys s @ more)"

lemma kept_refl [simp, intro]: "kept_for_others t s s"
  by (simp add: kept_for_others_def)

lemma kept_trans [trans]: "kept_for_others t s s1 \<Longrightarrow> kept_for_others t s1 s2 \<Longrightarrow> kept_for_others t s s2"
  by (fastforce simp: kept_for_others_def)

lemma save_kept:
  assumes "saveStateTx amt now t st s = Inr s'"
  shows "kept_for_others t s s'"
proof -
  note D = saveD [OF assms]
  from plans.upsert_keys(1) [OF D(1) [unfolded upsert_plan_def]] have "\<exists>more. plan_keys s' = plan_keys s @ more"
    unfolding plan_keys_def by blast
  moreover have "tenant_rows u s' = tenant_rows u s" if "u \<noteq> t" for u
    using that accounts.saved(1) [OF D(3)] subs.saved(1) [OF D(4)] invoices.saved(1) [OF D(5)]
      entitlements.saved(1) [OF D(6)] quotas.saved(1) [OF D(7)] trials.saved(1) [OF D(8)]
    by (simp add: tenant_rows_def)
  ultimately show ?thesis by (simp add: kept_for_others_def)
qed

lemma bill_newId_kept: "bill_newId s = (i, s') \<Longrightarrow> kept_for_others t s s'"
  by (auto simp: bill_newId_def kept_for_others_def tenant_rows_def plan_keys_def)

lemma ensureAccountTx_kept:
  "ensureAccountTx amt now t st b s = Inr (a, st', s') \<Longrightarrow> kept_for_others t s s'"
  using bill_newId_kept [of s _ _ t]
  by (auto simp: ensureAccountTx_def Let_def case_prod_Inr split: option.splits dest!: save_kept intro: kept_trans)

lemma ensure_kept:
  "ensurePlan now input st s = Inr (p, st', s') \<Longrightarrow> kept_for_others t s s'"
  "ensureTrial now t' days st s = Inr (tr, st', s') \<Longrightarrow> kept_for_others t s s'"
  "ensureSubscription now t' aid pid pe st s = Inr (u, st', s') \<Longrightarrow> kept_for_others t s s'"
  "ensureReseller now c nm st s = Inr (r, st', s') \<Longrightarrow> kept_for_others t s s'"
  using bill_newId_kept [of s _ _ t]
  by (auto simp: ensurePlan_def ensureTrial_def ensureSubscription_def ensureReseller_def Let_def case_prod_Inr
      split: option.splits)

definition same_tables :: "billing_db \<Rightarrow> billing_db \<Rightarrow> bool" where
  "same_tables s s' \<longleftrightarrow> s' = s\<lparr>bill_core := bill_core s'\<rparr>"

lemma bill_recordTx_same: "same_tables s (bill_recordTx t ev ag i p ctx s)"
  by (simp add: same_tables_def bill_recordTx_def)

text \<open>The tenant a request acts for.\<close>

definition acts_for :: "RequestContext \<Rightarrow> uuid \<Rightarrow> bool" where
  "acts_for ctx t \<longleftrightarrow> (\<exists>q. resolveTenantId ctx q True = Inr t)"

definition ends_in_save ::
  "(string \<Rightarrow> int result) \<Rightarrow> RequestContext \<Rightarrow> instant \<Rightarrow> billing_db \<Rightarrow> billing_db \<Rightarrow> bool" where
  "ends_in_save amt ctx now s s' \<longleftrightarrow> (\<exists>t st s1 s2. acts_for ctx t \<and> kept_for_others t s s1 \<and>
     saveStateTx amt now t st s1 = Inr s2 \<and> same_tables s2 s')"

lemma ends_in_saveI:
  "resolveTenantId ctx q True = Inr t \<Longrightarrow> kept_for_others t s s1 \<Longrightarrow> saveStateTx amt now t st s1 = Inr s2 \<Longrightarrow>
     s' = bill_recordTx t ev ag i p ctx s2 \<Longrightarrow> ends_in_save amt ctx now s s'"
  unfolding ends_in_save_def acts_for_def using bill_recordTx_same by metis

lemma simple_ends:
  "createPlan amt ctx now pdto s = Inr (p, s') \<Longrightarrow> ends_in_save amt ctx now s s'"
  "updatePlan amt ctx now i udto s = Inr (p', s') \<Longrightarrow> ends_in_save amt ctx now s s'"
  "createReseller amt ctx now rdto s = Inr (r, s') \<Longrightarrow> ends_in_save amt ctx now s s'"
  unfolding createPlan_def updatePlan_def createReseller_def
  by (auto simp: Let_def case_prod_Inr dest!: bill_newId_kept intro: ends_in_saveI)

lemma upsert_ends:
  "upsertEntitlement amt ctx now edto s = Inr (e, s') \<Longrightarrow> ends_in_save amt ctx now s s'"
  "upsertQuota amt ctx now qdto s = Inr (q, s') \<Longrightarrow> ends_in_save amt ctx now s s'"
  unfolding upsertEntitlement_def upsertQuota_def
  by (auto simp: Let_def case_prod_Inr split: option.splits dest!: bill_newId_kept intro: ends_in_saveI)

lemma account_ends:
  "createSubscription amt ctx now sdto s = Inr (u, s') \<Longrightarrow> ends_in_save amt ctx now s s'"
  "issueInvoice amt ctx now idto s = Inr (v, s') \<Longrightarrow> ends_in_save amt ctx now s s'"
  unfolding createSubscription_def issueInvoice_def
  by (auto simp: Let_def case_prod_Inr dest!: bill_newId_kept dest: ensureAccountTx_kept
      intro: ends_in_saveI [OF _ kept_trans])

lemma bootstrap_ends:
  assumes run: "bootstrap amt ctx now dto s = Inr (v, s')"
  shows "ends_in_save amt ctx now s s'"
proof -
  from run obtain t where t: "resolveTenantId ctx (Some (bbd_tenantId dto)) True = Inr t"
    unfolding bootstrap_def by auto
  with run obtain p st1 s1 where 1: "ensurePlan now dto (loadStateTx t s) s = Inr (p, st1, s1)"
    unfolding bootstrap_def by (auto simp: Let_def case_prod_Inr)
  with run t obtain a st2 s2 where 2: "ensureAccountTx amt now t st1 None s1 = Inr (a, st2, s2)"
    unfolding bootstrap_def by (auto simp: Let_def case_prod_Inr)
  with run t 1 obtain x st3 s3 where 3: "ensureTrial now t (nullish (bbd_trialDays dto) 30) st2 s2 = Inr (x, st3, s3)"
    unfolding bootstrap_def by (auto simp: Let_def case_prod_Inr)
  with run t 1 2 obtain u st4 s4 where
    4: "ensureSubscription now t (bar_id a) (bpr_id p) (btr_endsAt x) st3 s3 = Inr (u, st4, s4)"
    unfolding bootstrap_def by (auto simp: Let_def case_prod_Inr)
  have k: "kept_for_others t s s4"
    by (rule kept_trans [OF ensure_kept(1) [OF 1] kept_trans [OF ensureAccountTx_kept [OF 2]
          kept_trans [OF ensure_kept(2) [OF 3] ensure_kept(3) [OF 4]]]])
  show ?thesis
    using run t 1 2 3 4 k unfolding bootstrap_def
    by (auto simp: Let_def case_prod_Inr split: if_splits dest: ensure_kept(4)
        intro: ends_in_saveI ends_in_saveI [OF _ kept_trans])
qed

theorem request_ends_in_save: "billing_request amt ctx now s s' \<Longrightarrow> ends_in_save amt ctx now s s'"
  by (erule billing_request.cases) (blast intro: simple_ends upsert_ends account_ends bootstrap_ends)+

lemma acts_for_member: "acts_for ctx t \<Longrightarrow> ctx_scope ctx \<noteq> PlatformAdmin \<Longrightarrow> ctx_tenantId ctx = Some t"
  by (auto simp: acts_for_def resolveTenantId_def truthy_iff split: if_splits)

end
