(* ===== verification/BillingReads.thy ===== *)
theory BillingReads
  imports BillingSteps
begin

text \<open>
  What is read after a request: a save of what was loaded changes time stamps only, a record in front
  of the loaded ones is found in front afterwards, and the effects of taken plan codes, of a second
  account and of an upserted quota.
\<close>

section \<open>Saving what was loaded\<close>

definition resaved :: "instant \<Rightarrow> uuid \<Rightarrow> billing_db \<Rightarrow> billing_db" where
  "resaved now t s =
     (delete_tenant t s)\<lparr>billingPlans := map (plan_stamped now) (billingPlans s),
       resellerAccounts := map (reseller_stamped now) (resellerAccounts s),
       billingAccounts := filter (\<lambda>r. bac_tenantId r \<noteq> t) (billingAccounts s) @
         map (account_stamped now) (filter (\<lambda>r. bac_tenantId r = t) (billingAccounts s)),
       subscriptions := filter (\<lambda>r. sub_tenantId r \<noteq> t) (subscriptions s) @
         map (subscription_stamped now) (filter (\<lambda>r. sub_tenantId r = t) (subscriptions s)),
       invoices := filter (\<lambda>r. ivc_tenantId r \<noteq> t) (invoices s) @
         map (invoice_stamped now) (filter (\<lambda>r. ivc_tenantId r = t) (invoices s)),
       entitlementGrants := filter (\<lambda>r. eg_tenantId r \<noteq> t) (entitlementGrants s) @
         map (entitlement_stamped now) (filter (\<lambda>r. eg_tenantId r = t) (entitlementGrants s)),
       quotaCounters := filter (\<lambda>r. qc_tenantId r \<noteq> t) (quotaCounters s) @
         map (quota_stamped now) (filter (\<lambda>r. qc_tenantId r = t) (quotaCounters s)),
       trialGrants := filter (\<lambda>r. tg_tenantId r \<noteq> t) (trialGrants s) @
         map (trial_stamped now) (filter (\<lambda>r. tg_tenantId r = t) (trialGrants s))\<rparr>"

lemma billing_okD:
  assumes "billing_ok amt s"
  shows "distinct (map bpl_code (billingPlans s))" "distinct (map rsl_code (resellerAccounts s))"
    "r \<in> set (billingPlans s) \<Longrightarrow> plan_valid amt r"
    "unclashed account_clash (billingAccounts s)" "unclashed subscription_clash (subscriptions s)"
    "unclashed invoice_clash (invoices s)" "unclashed entitlement_clash (entitlementGrants s)"
    "unclashed quota_clash (quotaCounters s)" "unclashed trial_clash (trialGrants s)"
    "u \<in> set (subscriptions s) \<Longrightarrow> subscription_valid u" "i \<in> set (invoices s) \<Longrightarrow> invoice_valid amt i"
    "q \<in> set (quotaCounters s) \<Longrightarrow> quota_valid q" "x \<in> set (trialGrants s) \<Longrightarrow> trial_valid x"
    "distinct (map bpl_id (billingPlans s))" "distinct (map rsl_id (resellerAccounts s))"
    "fresh_from (db_seq (bill_core s)) (bill_ids s)"
  using assms unfolding billing_ok_def by blast+

lemma resaved_tables:
  assumes "billing_ok amt s"
  shows "foldE (upsert_plan amt now) (map mapBillingPlanModel (billingPlans s)) (billingPlans s) =
      Inr (map (plan_stamped now) (billingPlans s))"
    "foldE (upsert_reseller now) (map mapResellerModel (resellerAccounts s)) (resellerAccounts s) =
      Inr (map (reseller_stamped now) (resellerAccounts s))"
    "foldE (create_row account_clash n (account_row now)) (filter (\<lambda>r. bar_tenantId r = t)
        (map mapBillingAccountModel (filter (\<lambda>r. bac_tenantId r = t) (billingAccounts s))))
        (filter (\<lambda>r. bac_tenantId r \<noteq> t) (billingAccounts s)) = Inr (billingAccounts (resaved now t s))"
    "foldE (create_row subscription_clash n (subscription_row now)) (filter (\<lambda>r. bsr_tenantId r = t)
        (map mapSubscriptionModel (filter (\<lambda>r. sub_tenantId r = t) (subscriptions s))))
        (filter (\<lambda>r. sub_tenantId r \<noteq> t) (subscriptions s)) = Inr (subscriptions (resaved now t s))"
    "foldE (create_row invoice_clash n (invoice_row amt now)) (filter (\<lambda>r. bir_tenantId r = t)
        (map mapInvoiceModel (filter (\<lambda>r. ivc_tenantId r = t) (invoices s))))
        (filter (\<lambda>r. ivc_tenantId r \<noteq> t) (invoices s)) = Inr (invoices (resaved now t s))"
    "foldE (create_row entitlement_clash n (entitlement_row now)) (filter (\<lambda>r. ber_tenantId r = t)
        (map mapEntitlementModel (filter (\<lambda>r. eg_tenantId r = t) (entitlementGrants s))))
        (filter (\<lambda>r. eg_tenantId r \<noteq> t) (entitlementGrants s)) = Inr (entitlementGrants (resaved now t s))"
    "foldE (create_row quota_clash n (quota_row now)) (filter (\<lambda>r. bqr_tenantId r = t)
        (map mapQuotaModel (filter (\<lambda>r. qc_tenantId r = t) (quotaCounters s))))
        (filter (\<lambda>r. qc_tenantId r \<noteq> t) (quotaCounters s)) = Inr (quotaCounters (resaved now t s))"
    "foldE (create_row trial_clash n (trial_row now)) (filter (\<lambda>r. btr_tenantId r = t)
        (map mapTrialModel (filter (\<lambda>r. tg_tenantId r = t) (trialGrants s))))
        (filter (\<lambda>r. tg_tenantId r \<noteq> t) (trialGrants s)) = Inr (trialGrants (resaved now t s))"
proof -
  note D = billing_okD [OF assms]
  show "foldE (upsert_plan amt now) (map mapBillingPlanModel (billingPlans s)) (billingPlans s) =
      Inr (map (plan_stamped now) (billingPlans s))"
    using plans.upsert_loaded [OF D(1,3), where b = "billingPlans s" and c = "[]"] by (simp add: upsert_plan_def)
  show "foldE (upsert_reseller now) (map mapResellerModel (resellerAccounts s)) (resellerAccounts s) =
      Inr (map (reseller_stamped now) (resellerAccounts s))"
    using resellers.upsert_loaded [OF D(2), where b = "resellerAccounts s" and c = "[]"] by (simp add: upsert_reseller_def)
qed (simp_all add: resaved_def accounts.resaved_rows [OF billing_okD(4) [OF assms]]
    subs.resaved_rows [OF billing_okD(5,10) [OF assms]] invoices.resaved_rows [OF billing_okD(6,11) [OF assms]]
    entitlements.resaved_rows [OF billing_okD(7) [OF assms]] quotas.resaved_rows [OF billing_okD(8,12) [OF assms]]
    trials.resaved_rows [OF billing_okD(9,13) [OF assms]])

lemma save_loaded:
  assumes "billing_ok amt s"
  shows "saveStateTx amt now t (loadStateTx t s) s = Inr (resaved now t s)"
  unfolding saveStateTx_iff using resaved_tables [OF assms]
  by (simp add: loadStateTx_def) (simp add: resaved_def delete_tenant_def)

lemma save_with_subscription:
  assumes ok: "billing_ok amt s" and y: "subscription_row now x = Inr y" "bsr_tenantId x = t"
    and new: "\<And>r. r \<in> set (subscriptions s) \<Longrightarrow> sub_id r \<noteq> sub_id y"
  shows "saveStateTx amt now t ((loadStateTx t s)\<lparr>bs_subscriptions := x # bs_subscriptions (loadStateTx t s)\<rparr>) s =
    Inr ((resaved now t s)\<lparr>subscriptions := filter (\<lambda>r. sub_tenantId r \<noteq> t) (subscriptions s) @ y #
      map (subscription_stamped now) (filter (\<lambda>r. sub_tenantId r = t) (subscriptions s))\<rparr>)"
proof -
  note D = billing_okD [OF ok]
  have "\<And>r. r \<in> set (subscriptions s) \<Longrightarrow> subscription_clash y r \<Longrightarrow> sub_tenantId r = t \<and> \<not> True"
    using new by (simp add: subscription_clash_def)
  from subs.added_rows [OF D(5) D(10) y(1,2) this, of "''Subscription''"]
  have *: "foldE (create_row subscription_clash ''Subscription'' (subscription_row now))
      (filter (\<lambda>r. bsr_tenantId r = t) (x # map mapSubscriptionModel (filter (\<lambda>r. sub_tenantId r = t) (subscriptions s))))
      (filter (\<lambda>r. sub_tenantId r \<noteq> t) (subscriptions s)) =
    Inr (filter (\<lambda>r. sub_tenantId r \<noteq> t) (subscriptions s) @ y #
      map (subscription_stamped now) (filter (\<lambda>r. sub_tenantId r = t) (subscriptions s)))"
    by (simp del: filter.simps)
  show ?thesis
    unfolding saveStateTx_iff using resaved_tables [OF ok] *
    by (simp add: loadStateTx_def del: filter.simps) (simp add: resaved_def delete_tenant_def)
qed

lemma same_tables_rows:
  assumes "same_tables s s'"
  shows "billingPlans s' = billingPlans s" "resellerAccounts s' = resellerAccounts s"
    "billingAccounts s' = billingAccounts s" "subscriptions s' = subscriptions s" "invoices s' = invoices s"
    "entitlementGrants s' = entitlementGrants s" "quotaCounters s' = quotaCounters s" "trialGrants s' = trialGrants s"
  by (subst assms [unfolded same_tables_def], simp)+

text \<open>The creation times of the rows of a tenant.\<close>

definition created_at :: "uuid \<Rightarrow> billing_db \<Rightarrow> instant list" where
  "created_at t s =
     map bac_createdAt (filter (\<lambda>r. bac_tenantId r = t) (billingAccounts s)) @
     map sub_createdAt (filter (\<lambda>r. sub_tenantId r = t) (subscriptions s)) @
     map ivc_createdAt (filter (\<lambda>r. ivc_tenantId r = t) (invoices s)) @
     map eg_createdAt (filter (\<lambda>r. eg_tenantId r = t) (entitlementGrants s)) @
     map qc_createdAt (filter (\<lambda>r. qc_tenantId r = t) (quotaCounters s)) @
     map tg_createdAt (filter (\<lambda>r. tg_tenantId r = t) (trialGrants s))"

lemma row_created:
  "account_row now a = Inr ar \<Longrightarrow> bac_createdAt ar = now"
  "subscription_row now u = Inr ur \<Longrightarrow> sub_createdAt ur = now"
  "invoice_row amt now i = Inr ir \<Longrightarrow> ivc_createdAt ir = now"
  "entitlement_row now e = Inr er \<Longrightarrow> eg_createdAt er = now"
  "quota_row now q = Inr qr \<Longrightarrow> qc_createdAt qr = now"
  "trial_row now t = Inr tr \<Longrightarrow> tg_createdAt tr = now"
  by (auto simp: row_defs)

lemma mapE_all: "mapE f xs = Inr ys \<Longrightarrow> (\<And>x y. f x = Inr y \<Longrightarrow> k y = c) \<Longrightarrow> set (map k ys) \<subseteq> {c}"
  using mapE_set by fastforce

lemma save_created:
  assumes "saveStateTx amt now t st s = Inr s'"
  shows "set (created_at t s') \<subseteq> {now}"
  unfolding created_at_def set_append
  by (intro Un_least mapE_all [OF accounts.saved(2) [OF saveD(3) [OF assms]] row_created(1)]
      mapE_all [OF subs.saved(2) [OF saveD(4) [OF assms]] row_created(2)]
      mapE_all [OF invoices.saved(2) [OF saveD(5) [OF assms]] row_created(3)]
      mapE_all [OF entitlements.saved(2) [OF saveD(6) [OF assms]] row_created(4)]
      mapE_all [OF quotas.saved(2) [OF saveD(7) [OF assms]] row_created(5)]
      mapE_all [OF trials.saved(2) [OF saveD(8) [OF assms]] row_created(6)])

section \<open>Plans and their codes\<close>

lemma bill_newId_same: "bill_newId s = (i, s') \<Longrightarrow> same_tables s s'"
  by (auto simp: bill_newId_def same_tables_def)

lemma load_same: "same_tables s s' \<Longrightarrow> loadStateTx t s' = loadStateTx t s"
  by (simp add: loadStateTx_def same_tables_rows)

lemma fresh_bill_id:
  assumes "billing_ok amt s" "bill_newId s = (i, s')"
  shows "i \<notin> set (bill_ids s)"
  using billing_okD(16) [OF assms(1)] fresh_fromD bill_newId_ok(3) [OF assms(2)] by blast

text \<open>A new record with a code the table has: the loaded records undo what it wrote.\<close>

lemma taken_code_saved:
  assumes ok: "billing_ok amt s" and taken: "bpr_code v \<in> bpl_code ` set (billingPlans s)"
    and run: "foldE (upsert_plan amt now) (v # map mapBillingPlanModel (billingPlans s)) (billingPlans s) = Inr ps"
  shows "ps = map (plan_stamped now) (billingPlans s)"
proof -
  have ex: "list_ex (\<lambda>r. bpl_code r = bpr_code v) (billingPlans s)" using taken by (auto simp: list_ex_iff)
  with run obtain g where g: "plan_written amt now v = Inr g"
    and rest: "foldE (upsert_plan amt now) (map mapBillingPlanModel (billingPlans s))
      (update_where (\<lambda>r. bpl_code r = bpr_code v) g (billingPlans s)) = Inr ps"
    by (auto simp: upsert_plan_def upsert_row_def [of bpl_code bpr_code bpl_id "''BillingPlan''" _ _ v])
  have "foldE (upsert_plan amt now) (map mapBillingPlanModel (billingPlans s))
      (update_where (\<lambda>r. bpl_code r = bpr_code v) g (billingPlans s) @ []) = Inr (map (plan_stamped now) (billingPlans s) @ [])"
    unfolding upsert_plan_def
    by (rule plans.upsert_loaded [OF billing_okD(1,3) [OF ok]]) (use g in auto)
  with rest show ?thesis by simp
qed

text \<open>Records with the ids of the table: none of them is created.\<close>

lemma known_ids_saved:
  assumes ok: "billing_ok amt s" and ids: "bpr_id ` set xs \<subseteq> bpl_id ` set (billingPlans s)"
    and run: "foldE (upsert_plan amt now) xs (billingPlans s) = Inr ps"
  shows "map (\<lambda>r. (bpl_id r, bpl_code r)) ps = plan_keys s"
    "x \<in> set xs \<Longrightarrow> bpr_code x \<in> snd ` set (plan_keys s)"
proof -
  note K = plans.upsert_keys [OF run [unfolded upsert_plan_def]]
  from K(1) obtain more where m: "map (\<lambda>r. (bpl_id r, bpl_code r)) ps = plan_keys s @ more"
    "set more \<subseteq> (\<lambda>x. (bpr_id x, bpr_code x)) ` set xs" unfolding plan_keys_def by blast
  have "map bpl_id ps = map bpl_id (billingPlans s) @ map fst more"
    using arg_cong [OF m(1), of "map fst"] by (simp add: plan_keys_def comp_def)
  moreover have "distinct (map bpl_id ps)" using K(2) billing_okD(1,14) [OF ok] by blast
  moreover have "fst ` set more \<subseteq> bpl_id ` set (billingPlans s)" using m(2) ids by fastforce
  ultimately have "more = []" by (cases more) auto
  with m(1) show keys: "map (\<lambda>r. (bpl_id r, bpl_code r)) ps = plan_keys s" by simp
  have "bpl_code ` set ps = snd ` set (plan_keys s)"
    using arg_cong [OF keys, of "\<lambda>l. snd ` set l"] by (simp add: image_image)
  with K(3) show "x \<in> set xs \<Longrightarrow> bpr_code x \<in> snd ` set (plan_keys s)" by simp
qed

section \<open>Accounts\<close>

lemma one_account:
  assumes "billing_ok amt s" "a \<in> set (billingAccounts s)" "r \<in> set (billingAccounts s)" "bac_tenantId r = bac_tenantId a"
  shows "r = a"
  using distinct_key_eq [of bac_tenantId "billingAccounts s" r a] assms(2-4)
    unclashed_distinct [OF billing_okD(4) [OF assms(1)], of bac_tenantId] by (auto simp: account_clash_def)

text \<open>
  An account that is not the one the tenant has cannot be made: the save creates both, and the second
  of them violates the unique tenant.
\<close>

lemma second_account:
  assumes ok: "billing_ok amt s" and a: "a \<in> set (billingAccounts s)" "bac_tenantId a = t"
    and b: "b \<noteq> ''''" "b \<noteq> bac_id a" and now: "valid_instant now"
  shows "ensureAccountTx amt now t (loadStateTx t s) (Some b) s = Inl (UniqueViolation ''BillingAccount'')"
proof -
  obtain i s1 where n: "bill_newId s = (i, s1)" by fastforce
  note N = bill_newId_ok(1) [OF n ok] and T = same_tables_rows [OF bill_newId_same [OF n]]
  have only: "r = a" if "r \<in> set (billingAccounts s)" "bac_tenantId r = t" for r
    using one_account [OF ok a(1) that(1)] that(2) a(2) by simp
  have none: "find (\<lambda>r. Some (bar_id r) = Some b) (bs_accounts (loadStateTx t s)) = None"
    using only b(2) by (auto simp: find_None_iff loadStateTx_def mapBillingAccountModel_def)
  define x where "x = \<lparr>bar_id = i, bar_tenantId = t, bar_resellerAccountId = None, bar_status = ''ACTIVE'',
    bar_defaultPaymentTerms = None, bar_metadata = None, bar_createdAt = toISOString now, bar_updatedAt = toISOString now\<rparr>"
  define st where "st = (loadStateTx t s)\<lparr>bs_accounts := x # bs_accounts (loadStateTx t s)\<rparr>"
  obtain y where y: "account_row now x = Inr y" "bac_id y = i" "bac_tenantId y = t"
    by (simp add: account_row_def x_def)
  obtain r rs where r: "filter (\<lambda>r. bac_tenantId r = t) (billingAccounts s) = r # rs" "bac_tenantId r = t"
    using a by (cases "filter (\<lambda>r. bac_tenantId r = t) (billingAccounts s)") (auto simp: filter_empty_conv filter_eq_Cons_iff)
  have new: "\<not> list_ex (account_clash y) (filter (\<lambda>r. bac_tenantId r \<noteq> t) (billingAccounts s))"
  proof -
    have "bac_id r \<noteq> i" if "r \<in> set (billingAccounts s)" for r
      using fresh_bill_id [OF ok n] that by (auto simp: bill_ids_def)
    then show ?thesis using y(2,3) by (auto simp: list_ex_iff account_clash_def)
  qed
  have second: "account_row now (mapBillingAccountModel r) = Inr (account_stamped now r)"
    by (rule accounts.row_of_rec) simp
  have "account_clash (account_stamped now r) y" using r(2) y(3) by (simp add: account_clash_def account_stamped_def)
  then have fail: "foldE (create_row account_clash ''BillingAccount'' (account_row now))
      (x # map mapBillingAccountModel (r # rs)) (filter (\<lambda>r. bac_tenantId r \<noteq> t) (billingAccounts s)) =
      Inl (UniqueViolation ''BillingAccount'')"
    using y(1) new second by (simp add: create_row_def list_ex_iff)
  have all: "filter (\<lambda>r. bar_tenantId r = t) (bs_accounts st) = x # map mapBillingAccountModel (r # rs)"
    by (simp add: st_def loadStateTx_def r x_def) (use r in \<open>auto simp: filter_id_conv mapBillingAccountModel_def filter_eq_Cons_iff\<close>)
  have "saveStateTx amt now t st s1 = Inl (UniqueViolation ''BillingAccount'')"
    unfolding saveStateTx_def all Let_def delete_tenant_def
    using resaved_tables(1,2) [OF N, of now] fail
    by (simp add: st_def loadStateTx_def T)
  then show ?thesis
    using none b(1) n now by (simp add: ensureAccountTx_def Let_def toIso_def st_def x_def)
qed

lemma find_loaded_plan:
  assumes "billing_ok amt s" "p \<in> set (billingPlans s)"
  shows "find (\<lambda>x. bpr_id x = bpl_id p) (bs_plans (loadStateTx t s)) = Some (mapBillingPlanModel p)"
proof -
  have m: "map bpr_id (map mapBillingPlanModel (billingPlans s)) = map bpl_id (billingPlans s)"
    by (simp add: mapBillingPlanModel_def)
  have "find (\<lambda>x. bpr_id x = bpr_id (mapBillingPlanModel p)) (map mapBillingPlanModel (billingPlans s)) =
      Some (mapBillingPlanModel p)"
    by (rule find_key_unique) (use m billing_okD(14) [OF assms(1)] assms(2) in \<open>simp_all only: set_map image_eqI\<close>)
  then show ?thesis by (simp add: loadStateTx_def mapBillingPlanModel_def)
qed

lemma ensureAccountTx_found:
  assumes ok: "billing_ok amt s" and a: "a \<in> set (billingAccounts s)" "bac_tenantId a = t"
    and b: "b = None \<or> b = Some (bac_id a) \<and> bac_id a \<noteq> ''''"
  shows "ensureAccountTx amt now t (loadStateTx t s) b s = Inr (mapBillingAccountModel a, loadStateTx t s, s)"
proof -
  have "find P (bs_accounts (loadStateTx t s)) = Some (mapBillingAccountModel a)" if "P (mapBillingAccountModel a)" for P
  proof (cases "find P (bs_accounts (loadStateTx t s))")
    case None
    with a that show ?thesis by (auto simp: find_None_iff loadStateTx_def)
  next
    case (Some c)
    from find_SomeD [OF Some] obtain r where "r \<in> set (billingAccounts s)" "bac_tenantId r = t" "c = mapBillingAccountModel r"
      by (auto simp: loadStateTx_def)
    with Some one_account [OF ok a(1)] a(2) show ?thesis by auto
  qed
  from this [of "\<lambda>r. bar_tenantId r = t"] this [of "\<lambda>r. Some (bar_id r) = b"]
  have "find (\<lambda>r. bar_tenantId r = t) (bs_accounts (loadStateTx t s)) = Some (mapBillingAccountModel a)"
    "b = Some (bac_id a) \<Longrightarrow>
      find (\<lambda>r. Some (bar_id r) = b) (bs_accounts (loadStateTx t s)) = Some (mapBillingAccountModel a)"
    using a(2) by (simp_all add: mapBillingAccountModel_def)
  with b show ?thesis unfolding ensureAccountTx_def by (elim disjE conjE) simp_all
qed

section \<open>Quotas\<close>

definition quota_scope :: "BillingQuotaRecord \<Rightarrow> string \<times> string \<times> string option" where
  "quota_scope r = (bqr_key r, bqr_scopeType r, bqr_scopeId r)"

lemma quota_scope_stamps [simp]:
  "quota_scope (r\<lparr>bqr_createdAt := c, bqr_updatedAt := u\<rparr>) = quota_scope r"
  "quota_scope (r\<lparr>bqr_createdAt := c\<rparr>) = quota_scope r"
  by (simp_all add: quota_scope_def)

definition iso_date :: "string option \<Rightarrow> bool" where
  "iso_date m \<longleftrightarrow> m = None \<or> (\<exists>d. valid_instant d \<and> m = Some (toISOString d))"

lemma read_quota_row:
  "quota_row now x = Inr y \<Longrightarrow> bqr_updatedAt x = toISOString now \<Longrightarrow> iso_date (bqr_resetAt x) \<Longrightarrow>
     mapQuotaModel y = x\<lparr>bqr_createdAt := toISOString now\<rparr>"
  by (auto simp: quota_row_def mapQuotaModel_def iso_date_def optional_date_def)

lemma loaded_reset:
  assumes "billing_ok amt s" "r \<in> set (bs_quotas (loadStateTx t s))"
  shows "iso_date (bqr_resetAt r)" "bqr_tenantId r = t"
proof -
  from assms(2) obtain q where q: "q \<in> set (quotaCounters s)" "qc_tenantId q = t" "r = mapQuotaModel q"
    by (auto simp: loadStateTx_def)
  from billing_okD(12) [OF assms(1) q(1)] show "iso_date (bqr_resetAt r)"
    by (cases "qc_resetAt q") (auto simp: q(3) mapQuotaModel_def iso_date_def quota_valid_def valid_date_def)
  show "bqr_tenantId r = t" using q by (simp add: mapQuotaModel_def)
qed

lemma mapE_loaded:
  assumes "\<And>r. r \<in> set rs \<Longrightarrow> f (g r) = Inr (h r)" and "mapE f (map g rs) = Inr ys"
  shows "ys = map h rs"
  using assms by (induction rs arbitrary: ys) auto

text \<open>A save with one quota in front: what is read afterwards.\<close>

lemma quotas_saved:
  assumes ok: "billing_ok amt s" and same: "same_tables s s1"
    and save: "saveStateTx amt now t ((loadStateTx t s)\<lparr>bs_quotas := v # filter P (bs_quotas (loadStateTx t s))\<rparr>) s1 = Inr s2"
    and v: "bqr_tenantId v = t" "bqr_updatedAt v = toISOString now" "iso_date (bqr_resetAt v)"
  shows "bs_quotas (loadStateTx t s2) = v\<lparr>bqr_createdAt := toISOString now\<rparr> #
    map (\<lambda>r. r\<lparr>bqr_createdAt := toISOString now, bqr_updatedAt := toISOString now\<rparr>)
      (filter P (bs_quotas (loadStateTx t s)))"
proof -
  let ?old = "filter (P \<circ> mapQuotaModel) (filter (\<lambda>r. qc_tenantId r = t) (quotaCounters s))"
  have old: "filter P (bs_quotas (loadStateTx t s)) = map mapQuotaModel ?old"
    by (simp add: loadStateTx_def filter_map)
  have recs: "filter (\<lambda>r. bqr_tenantId r = t) (v # map mapQuotaModel ?old) = v # map mapQuotaModel ?old"
    using v(1) by (auto simp: filter_id_conv mapQuotaModel_def)
  have "mapE (quota_row now) (filter (\<lambda>r. bqr_tenantId r = t) (v # filter P (bs_quotas (loadStateTx t s)))) =
      Inr (filter (\<lambda>r. qc_tenantId r = t) (quotaCounters s2))"
    using quotas.saved(2) [OF saveD(7) [OF save]] by (simp del: filter.simps)
  then obtain y ys where y: "quota_row now v = Inr y" "mapE (quota_row now) (map mapQuotaModel ?old) = Inr ys"
    "filter (\<lambda>r. qc_tenantId r = t) (quotaCounters s2) = y # ys"
    unfolding old recs by auto
  have "ys = map (quota_stamped now) ?old"
    by (rule mapE_loaded [OF quotas.row_of_rec y(2)]) (use billing_okD(12) [OF ok] in auto)
  with y(3) read_quota_row [OF y(1) v(2,3)] show ?thesis
    unfolding old by (simp add: loadStateTx_def read_stamped)
qed

lemma loaded_quota_ids:
  assumes "billing_ok amt s"
  shows "distinct (map bqr_id (bs_quotas (loadStateTx t s)))"
proof -
  have "distinct (map qc_id (quotaCounters s))"
    by (rule unclashed_distinct [OF billing_okD(8) [OF assms]]) (simp add: quota_clash_def)
  then have "distinct (map qc_id (filter (\<lambda>r. qc_tenantId r = t) (quotaCounters s)))"
    by (rule distinct_map_filter)
  then show ?thesis by (simp add: loadStateTx_def mapQuotaModel_def comp_def)
qed

text \<open>What an accepted upsert of a quota saves.\<close>

lemma upsertQuota_Inr:
  assumes ok: "billing_ok amt s" and run: "upsertQuota amt ctx now dto s = Inr (v, s')"
    and t: "resolveTenantId ctx (Some (ubq_tenantId dto)) True = Inr t"
    and sc: "sc = (ubq_key dto, nullish (ubq_scopeType dto) ''TENANT'', ubq_scopeId dto)"
    and cur: "cur = find (\<lambda>r. quota_scope r = sc) (bs_quotas (loadStateTx t s))"
  obtains s1 s2 where "same_tables s s1"
    "(case cur of Some c \<Rightarrow> (bqr_id c, s) | None \<Rightarrow> bill_newId s) = (bqr_id v, s1)"
    "bqr_tenantId v = t" "quota_scope v = sc" "bqr_limitValue v = ubq_limitValue dto"
    "bqr_usedValue v = nullish (orElse (ubq_usedValue dto) (map_option bqr_usedValue cur)) 0"
    "bqr_updatedAt v = toISOString now" "iso_date (bqr_resetAt v)"
    "saveStateTx amt now t ((loadStateTx t s)\<lparr>bs_quotas :=
       v # filter (\<lambda>r. bqr_id r \<noteq> bqr_id v) (bs_quotas (loadStateTx t s))\<rparr>) s1 = Inr s2"
    "loadStateTx t s' = loadStateTx t s2"
proof -
  let ?old = "bs_quotas (loadStateTx t s)"
  have code: "find (\<lambda>r. bqr_tenantId r = t \<and> bqr_key r = ubq_key dto \<and>
    bqr_scopeType r = nullish (ubq_scopeType dto) ''TENANT'' \<and> bqr_scopeId r = ubq_scopeId dto) ?old = cur"
    unfolding cur sc using loaded_reset(2) [OF ok] by (intro find_cong) (auto simp: quota_scope_def)
  obtain i s1 where n: "(case cur of Some c \<Rightarrow> (bqr_id c, s) | None \<Rightarrow> bill_newId s) = (i, s1)" by fastforce
  from run t n obtain s2 ev ag p where v: "bqr_id v = i" "bqr_tenantId v = t" "quota_scope v = sc"
      "bqr_limitValue v = ubq_limitValue dto" "bqr_usedValue v = nullish (orElse (ubq_usedValue dto) (map_option bqr_usedValue cur)) 0"
      "bqr_updatedAt v = toISOString now"
    and reset: "bqr_resetAt v = Option.bind cur bqr_resetAt \<or>
      (\<exists>d. ubq_resetAt dto = Some d \<and> valid_instant d \<and> bqr_resetAt v = Some (toISOString d))"
    and save: "saveStateTx amt now t ((loadStateTx t s)\<lparr>bs_quotas := v # filter (\<lambda>r. bqr_id r \<noteq> bqr_id v) ?old\<rparr>) s1 = Inr s2"
    and s': "s' = bill_recordTx t ev ag (bqr_id v) p ctx s2"
    unfolding upsertQuota_def by (auto simp: Let_def code sc quota_scope_def split: option.splits)
  have iso: "iso_date (bqr_resetAt v)"
  proof (cases cur)
    case (Some k)
    then have "iso_date (bqr_resetAt k)" using find_SomeD [OF Some [unfolded cur]] loaded_reset(1) [OF ok] by blast
    then show ?thesis using reset Some by (auto simp: iso_date_def)
  qed (use reset in \<open>auto simp: iso_date_def\<close>)
  have same: "same_tables s s1" using n bill_newId_same by (auto simp: same_tables_def split: option.splits)
  show thesis by (rule that [OF same _ v(2-6) iso save]) (simp_all add: n v(1) s' load_same [OF bill_recordTx_same])
qed

text \<open>Where scopes are unique, dropping the row of an identifier drops the row of its scope.\<close>

lemma other_quotas:
  assumes ok: "billing_ok amt s" and one: "distinct (map quota_scope (bs_quotas (loadStateTx t s)))"
    and cur: "cur = find (\<lambda>r. quota_scope r = sc) (bs_quotas (loadStateTx t s))"
    and n: "(case cur of Some c \<Rightarrow> (bqr_id c, s) | None \<Rightarrow> bill_newId s) = (i, s1)"
  shows "filter (\<lambda>r. bqr_id r \<noteq> i) (bs_quotas (loadStateTx t s)) =
    filter (\<lambda>r. quota_scope r \<noteq> sc) (bs_quotas (loadStateTx t s))"
proof (rule filter_cong [OF refl])
  fix r assume r: "r \<in> set (bs_quotas (loadStateTx t s))"
  show "bqr_id r \<noteq> i \<longleftrightarrow> quota_scope r \<noteq> sc"
  proof (cases cur)
    case (Some k)
    then have k: "k \<in> set (bs_quotas (loadStateTx t s))" "quota_scope k = sc" "i = bqr_id k"
      using n find_SomeD [OF Some [unfolded cur]] by auto
    then show ?thesis
      using distinct_key_eq [OF one r k(1)] distinct_key_eq [OF loaded_quota_ids [OF ok] r k(1)] by auto
  next
    case None
    have "bqr_id r \<in> set (bill_ids s)" using r by (auto simp: loadStateTx_def mapQuotaModel_def bill_ids_def)
    moreover have "i \<notin> set (bill_ids s)" using None n fresh_bill_id [OF ok] by simp
    ultimately have "bqr_id r \<noteq> i" by auto
    then show ?thesis using None r by (simp add: cur find_None_iff)
  qed
qed

end
