(* ===== verification/BillingDemo.thy ===== *)
theory BillingDemo
  imports BillingReads Demo
begin

text \<open>
  A concrete state of the billing service for the witnesses: one plan, and a tenant with an account, a
  subscription, a trial and a quota.
\<close>

definition demo_plan :: BillingPlan where
  "demo_plan = \<lparr>bpl_id = ''pl1'', bpl_code = ''pro'', bpl_name = ''Pro'', bpl_status = ''ACTIVE'',
     bpl_priceAmount = 99900, bpl_currency = ''RUB'', bpl_intervalKey = ''MONTHLY'',
     bpl_entitlements = JObj [], bpl_quotas = JObj [], bpl_metadata = Some JNull,
     bpl_createdAt = 500, bpl_updatedAt = 500\<rparr>"

definition demo_account :: BillingAccount where
  "demo_account = \<lparr>bac_id = ''ba1'', bac_tenantId = ''t1'', bac_resellerAccountId = None,
     bac_status = ''ACTIVE'', bac_defaultPaymentTerms = None, bac_metadata = Some JNull,
     bac_createdAt = 500, bac_updatedAt = 500\<rparr>"

definition demo_subscription :: Subscription where
  "demo_subscription = \<lparr>sub_id = ''sb1'', sub_tenantId = ''t1'', sub_billingAccountId = ''ba1'',
     sub_planId = ''pl1'', sub_status = ''TRIAL'', sub_startedAt = 500, sub_currentPeriodStart = 500,
     sub_currentPeriodEnd = 2592000500, sub_cancelledAt = None, sub_metadata = Some JNull,
     sub_createdAt = 500, sub_updatedAt = 500\<rparr>"

definition demo_quota :: QuotaCounter where
  "demo_quota = \<lparr>qc_id = ''qc1'', qc_tenantId = ''t1'', qc_subscriptionId = None, qc_key = ''stores'',
     qc_scopeType = ''TENANT'', qc_scopeId = None, qc_limitValue = 3, qc_usedValue = 2,
     qc_resetAt = None, qc_createdAt = 500, qc_updatedAt = 500\<rparr>"

definition demo_trial :: TrialGrant where
  "demo_trial = \<lparr>tg_id = ''tg1'', tg_tenantId = ''t1'', tg_subscriptionId = None, tg_status = ''ACTIVE'',
     tg_startedAt = 500, tg_endsAt = 2592000500, tg_convertedAt = None, tg_createdAt = 500,
     tg_updatedAt = 500\<rparr>"

definition bill_demo :: billing_db where
  "bill_demo = \<lparr>bill_core = demo_db, billingPlans = [demo_plan], resellerAccounts = [],
     billingAccounts = [demo_account], subscriptions = [demo_subscription], invoices = [],
     entitlementGrants = [], quotaCounters = [demo_quota], trialGrants = [demo_trial]\<rparr>"

lemmas bill_demo_defs = bill_demo_def demo_plan_def demo_account_def demo_subscription_def demo_quota_def
  demo_trial_def

lemma bill_demo_ok: "billing_ok decimal_of bill_demo"
  using demo_ok
  by (simp add: billing_ok_def bill_demo_defs bill_ids_def fresh_from_short unclashed_Cons plan_valid_def
      subscription_valid_def quota_valid_def trial_valid_def valid_date_def valid_instant_def owned_def)

definition bill_after :: "('a \<times> billing_db) result \<Rightarrow> billing_db" where
  "bill_after r = (case r of Inr (v, s) \<Rightarrow> s)"

definition bill_view :: "('a \<times> billing_db) result \<Rightarrow> 'a" where
  "bill_view r = (case r of Inr (v, s) \<Rightarrow> v)"

lemma bill_accepted: "\<not> isl r \<Longrightarrow> r = Inr (bill_view r, bill_after r)"
  by (cases r) (auto simp: bill_view_def bill_after_def)

section \<open>Requests\<close>

definition demo_plan_dto :: CreateBillingPlanDto where
  "demo_plan_dto = \<lparr>cbp_tenantId = ''t1'', cbp_code = '' pro '', cbp_name = ''Pro again'',
     cbp_priceAmount = Some ''10.00'', cbp_currency = None, cbp_intervalKey = None,
     cbp_entitlements = None, cbp_quotas = None, cbp_metadata = None\<rparr>"

definition demo_plan_update :: UpdateBillingPlanDto where
  "demo_plan_update = \<lparr>ubp_tenantId = None, ubp_code = None, ubp_name = Some ''Professional'',
     ubp_priceAmount = Some ''1200.00'', ubp_currency = None, ubp_intervalKey = None, ubp_status = None,
     ubp_entitlements = None, ubp_quotas = None, ubp_metadata = None\<rparr>"

definition demo_subscribe :: "uuid option \<Rightarrow> CreateBillingSubscriptionDto" where
  "demo_subscribe acc = \<lparr>cbs_tenantId = ''t1'', cbs_planId = ''pl1'', cbs_billingAccountId = acc,
     cbs_status = None, cbs_currentPeriodDays = Some 7\<rparr>"

definition demo_invoice :: "uuid \<Rightarrow> IssueBillingInvoiceDto" where
  "demo_invoice acc = \<lparr>ibi_tenantId = ''t1'', ibi_billingAccountId = acc, ibi_subscriptionId = None,
     ibi_subtotalAmount = ''999.00'', ibi_totalAmount = ''999.00'', ibi_lines = [], ibi_dueAt = None\<rparr>"

definition demo_quota_dto :: UpsertBillingQuotaDto where
  "demo_quota_dto = \<lparr>ubq_tenantId = ''t1'', ubq_subscriptionId = None, ubq_key = ''stores'',
     ubq_scopeType = None, ubq_scopeId = None, ubq_limitValue = 5, ubq_usedValue = None,
     ubq_resetAt = None\<rparr>"

definition other_boot :: BillingBootstrapDto where
  "other_boot = \<lparr>bbd_tenantId = ''t2'', bbd_planCode = ''basic'', bbd_planName = ''Basic'',
     bbd_planPriceAmount = None, bbd_currency = None, bbd_intervalKey = None, bbd_trialDays = None,
     bbd_resellerCode = Some ''partner'', bbd_resellerName = None\<rparr>"

definition run_boot :: "(BillingOverviewDto \<times> billing_db) result" where
  "run_boot = bootstrap decimal_of other_context 1000 other_boot bill_demo"

definition run_plan :: "(BillingPlanRecord \<times> billing_db) result" where
  "run_plan = createPlan decimal_of demo_context 1000 demo_plan_dto bill_demo"

definition run_update :: "(BillingPlanRecord \<times> billing_db) result" where
  "run_update = updatePlan decimal_of demo_context 1000 ''pl1'' demo_plan_update bill_demo"

definition run_quota :: "(BillingQuotaRecord \<times> billing_db) result" where
  "run_quota = upsertQuota decimal_of demo_context 1000 demo_quota_dto bill_demo"

lemma billing_runs: "\<not> isl run_boot" "\<not> isl run_plan" "\<not> isl run_update" "\<not> isl run_quota"
  by code_simp+

lemma boot_run: "bootstrap decimal_of other_context 1000 other_boot bill_demo = Inr (bill_view run_boot, bill_after run_boot)"
  using bill_accepted [OF billing_runs(1)] by (simp add: run_boot_def)

lemma plan_run: "createPlan decimal_of demo_context 1000 demo_plan_dto bill_demo = Inr (bill_view run_plan, bill_after run_plan)"
  using bill_accepted [OF billing_runs(2)] by (simp add: run_plan_def)

lemma update_run: "updatePlan decimal_of demo_context 1000 ''pl1'' demo_plan_update bill_demo =
    Inr (bill_view run_update, bill_after run_update)"
  using bill_accepted [OF billing_runs(3)] by (simp add: run_update_def)

lemma quota_run: "upsertQuota decimal_of demo_context 1000 demo_quota_dto bill_demo =
    Inr (bill_view run_quota, bill_after run_quota)"
  using bill_accepted [OF billing_runs(4)] by (simp add: run_quota_def)


text \<open>
  A bootstrap looks a plan up by the code as it was sent and creates it under the trimmed one: with
  blanks around a code that is taken, the subscription it makes names a plan that is not stored.
\<close>

lemma untrimmed_code_dangles:
  "(case bootstrap decimal_of other_context 1000 (other_boot\<lparr>bbd_planCode := '' pro ''\<rparr>) bill_demo of
      Inl e \<Rightarrow> False
    | Inr (view, s) \<Rightarrow> filter (\<lambda>u. sub_planId u \<notin> bpl_id ` set (billingPlans s)) (subscriptions s) \<noteq> [])"
  by code_simp

end
