(* ===== verification/BillingProperties.thy ===== *)
theory BillingProperties
  imports BillingDemo
begin

text \<open>
  The properties of the billing service (\<open>billing/billing.module.ts\<close>). The argument \<open>amt\<close> is what the
  column \<open>Decimal(12, 2)\<close> makes of a text; its one law, \<open>amount_column\<close>, is that an amount written
  back as it was read is stored unchanged.
\<close>



text \<open>
  C33: A billing request of a member of one tenant changes no account, subscription, invoice,
  entitlement, quota or trial of another tenant, although a save deletes and creates rows wholesale; of
  the plans, which all tenants share, none is removed and none changes its id or its code.
\<close>

theorem other_tenants_kept:
  assumes run: "billing_request amt ctx now s s'"
    and member: "ctx_scope ctx \<noteq> PlatformAdmin" and other: "ctx_tenantId ctx \<noteq> Some u"
  shows "tenant_rows u s' = tenant_rows u s \<and> (\<exists>more. plan_keys s' = plan_keys s @ more)"
proof -
  from request_ends_in_save [OF run] obtain t st s1 s2 where a: "acts_for ctx t" and k: "kept_for_others t s s1"
    and save: "saveStateTx amt now t st s1 = Inr s2" and same: "same_tables s2 s'"
    unfolding ends_in_save_def by blast
  have "tenant_rows u s' = tenant_rows u s2" "plan_keys s' = plan_keys s2"
    using same_tables_rows [OF same] by (simp_all add: tenant_rows_def plan_keys_def)
  moreover have "kept_for_others t s s2" using k save_kept [OF save] kept_trans by blast
  moreover have "u \<noteq> t" using acts_for_member [OF a member] other by auto
  ultimately show ?thesis by (simp add: kept_for_others_def)
qed

theorem other_tenants_kept_witness:
  "tenant_rows ''t1'' (bill_after run_boot) = tenant_rows ''t1'' bill_demo \<and>
   (\<exists>more. plan_keys (bill_after run_boot) = plan_keys bill_demo @ more)"
  by (rule other_tenants_kept [OF boot [OF boot_run]]) (simp_all add: other_context_def demo_context_def)

text \<open>
  C34: Every accepted request of a tenant resets the creation time of every billing row the tenant has
  to the time of the request, whatever it was about: the save deletes and creates the rows without their
  \<open>createdAt\<close>.
\<close>

theorem creation_times_lost:
  assumes run: "billing_request amt ctx now s s'"
    and member: "ctx_scope ctx \<noteq> PlatformAdmin" "ctx_tenantId ctx = Some t"
  shows "set (created_at t s') \<subseteq> {now}"
proof -
  from request_ends_in_save [OF run] obtain u st s1 s2 where a: "acts_for ctx u"
    and save: "saveStateTx amt now u st s1 = Inr s2" and same: "same_tables s2 s'"
    unfolding ends_in_save_def by blast
  have "u = t" using acts_for_member [OF a member(1)] member(2) by simp
  then show ?thesis using save_created [OF save] same_tables_rows [OF same] by (simp add: created_at_def)
qed

theorem creation_times_lost_witness:
  "set (created_at ''t1'' (bill_after run_plan)) \<subseteq> {1000} \<and> created_at ''t1'' bill_demo = [500, 500, 500, 500]"
  using creation_times_lost [OF create_plan [OF plan_run], of "''t1''"]
  by (simp add: demo_context_def created_at_def bill_demo_defs)

text \<open>
  C35: A subscription to a stored plan, for a tenant with an account, is accepted whenever its period
  ends inside the range of a date: the new subscription comes first in the list read afterwards, on the
  tenant's account, active for the requested days, and every older one follows as it was, its time
  stamps apart.
\<close>

theorem subscription_listed:
  assumes ok: "billing_ok amt s"
    and t: "resolveTenantId ctx (Some (cbs_tenantId dto)) True = Inr t"
    and p: "p \<in> set (billingPlans s)" "cbs_planId dto = bpl_id p"
    and a: "a \<in> set (billingAccounts s)" "bac_tenantId a = t"
      "cbs_billingAccountId dto = None \<or> cbs_billingAccountId dto = Some (bac_id a) \<and> bac_id a \<noteq> ''''"
    and now: "valid_instant now" "valid_instant (now + nullish (cbs_currentPeriodDays dto) 30 * 86400000)"
  shows "\<exists>v s'. createSubscription amt ctx now dto s = Inr (v, s') \<and>
    bsr_billingAccountId v = bac_id a \<and> bsr_planId v = bpl_id p \<and>
    bsr_status v = nullish (cbs_status dto) ''ACTIVE'' \<and>
    bsr_currentPeriodEnd v = toISOString (now + nullish (cbs_currentPeriodDays dto) 30 * 86400000) \<and>
    bs_subscriptions (loadStateTx t s') =
      v # map (\<lambda>r. r\<lparr>bsr_createdAt := toISOString now, bsr_updatedAt := toISOString now\<rparr>)
        (bs_subscriptions (loadStateTx t s))"
proof -
  obtain i s1 where n: "bill_newId s = (i, s1)" by fastforce
  note N = bill_newId_ok(1) [OF n ok] and T = bill_newId_same [OF n]
  define x where "x = \<lparr>bsr_id = i, bsr_tenantId = t, bsr_billingAccountId = bac_id a, bsr_planId = bpl_id p,
    bsr_status = nullish (cbs_status dto) ''ACTIVE'', bsr_startedAt = toISOString now,
    bsr_currentPeriodStart = toISOString now,
    bsr_currentPeriodEnd = toISOString (now + nullish (cbs_currentPeriodDays dto) 30 * 86400000),
    bsr_cancelledAt = None, bsr_metadata = None, bsr_createdAt = toISOString now, bsr_updatedAt = toISOString now\<rparr>"
  obtain y where y: "subscription_row now x = Inr y" "sub_id y = i" "sub_tenantId y = t" "mapSubscriptionModel y = x"
    using now by (simp add: subscription_row_def x_def optional_date_def mapSubscriptionModel_def
        asOptionalJson_def asJsonRecord_def)
  have new: "sub_id r \<noteq> sub_id y" if "r \<in> set (subscriptions s1)" for r
  proof -
    have "sub_id r \<in> set (bill_ids s)" using that by (simp add: bill_ids_def same_tables_rows [OF T])
    then show ?thesis using fresh_bill_id [OF ok n] y(2) by auto
  qed
  have tx: "bsr_tenantId x = t" by (simp add: x_def)
  define s2 where "s2 = resaved now t s1\<lparr>subscriptions :=
      filter (\<lambda>r. sub_tenantId r \<noteq> t) (subscriptions s1) @ y #
      map (subscription_stamped now) (filter (\<lambda>r. sub_tenantId r = t) (subscriptions s1))\<rparr>"
  note save = save_with_subscription [OF N y(1) tx new, unfolded load_same [OF T], folded s2_def]
  have read: "bs_subscriptions (loadStateTx t s2) =
    x # map (\<lambda>r. r\<lparr>bsr_createdAt := toISOString now, bsr_updatedAt := toISOString now\<rparr>)
        (bs_subscriptions (loadStateTx t s))"
    by (simp add: s2_def loadStateTx_def y(3,4) same_tables_rows [OF T] comp_def filter_map read_stamped)
      (simp add: subscription_stamped_def comp_def filter_id_conv)
  have ids: "bpr_id (mapBillingPlanModel p) = bpl_id p" "bar_id (mapBillingAccountModel a) = bac_id a"
    by (simp_all add: mapBillingPlanModel_def mapBillingAccountModel_def)
  have "createSubscription amt ctx now dto s = Inr (x, bill_recordTx t ''billing.subscription_created''
      ''billing_subscription'' i
      (JObj [(''planId'', JStr (bpl_id p)), (''billingAccountId'', JStr (bac_id a))]) ctx s2)"
    unfolding createSubscription_def
    using save by (simp add: t p(2) find_loaded_plan [OF ok p(1)] ensureAccountTx_found [OF ok a] n now toIso_def
        ids x_def [symmetric])
  moreover have "bsr_billingAccountId x = bac_id a \<and> bsr_planId x = bpl_id p \<and>
      bsr_status x = nullish (cbs_status dto) ''ACTIVE'' \<and>
      bsr_currentPeriodEnd x = toISOString (now + nullish (cbs_currentPeriodDays dto) 30 * 86400000)"
    by (simp add: x_def)
  ultimately show ?thesis by (simp add: load_same [OF bill_recordTx_same] read)
qed

theorem subscription_listed_witness:
  "\<exists>v s'. createSubscription decimal_of demo_context 1000 (demo_subscribe None) bill_demo = Inr (v, s') \<and>
    bsr_billingAccountId v = ''ba1'' \<and> bsr_planId v = ''pl1'' \<and> bsr_status v = ''ACTIVE'' \<and>
    bsr_currentPeriodEnd v = toISOString 604801000 \<and>
    bs_subscriptions (loadStateTx ''t1'' s') =
      v # map (\<lambda>r. r\<lparr>bsr_createdAt := toISOString 1000, bsr_updatedAt := toISOString 1000\<rparr>)
        (bs_subscriptions (loadStateTx ''t1'' bill_demo))"
  using subscription_listed [OF bill_demo_ok, of demo_context "demo_subscribe None" "''t1''" demo_plan demo_account 1000]
  by (simp add: demo_subscribe_def bill_demo_defs demo_context_def resolveTenantId_def valid_instant_def)

text \<open>
  C36: A plan whose code is taken is answered as created but is not stored: no stored plan has its id,
  and the plans read afterwards are those from before, their \<open>updatedAt\<close> apart, because the save writes
  the new values into the existing row and then the loaded values over them.
\<close>

theorem taken_code_not_created:
  assumes ok: "billing_ok amt s" and taken: "trim (cbp_code dto) \<in> bpl_code ` set (billingPlans s)"
    and run: "createPlan amt ctx now dto s = Inr (v, s')"
  shows "bpr_id v \<notin> bpl_id ` set (billingPlans s') \<and>
    bs_plans (loadStateTx t s') = map (\<lambda>p. p\<lparr>bpr_updatedAt := toISOString now\<rparr>) (bs_plans (loadStateTx t s))"
proof -
  obtain i s1 where n: "bill_newId s = (i, s1)" by fastforce
  from run n obtain u s2 ev ag p where v: "bpr_id v = i" "bpr_code v = trim (cbp_code dto)"
    and save: "saveStateTx amt now u ((loadStateTx u s)
      \<lparr>bs_plans := v # filter (\<lambda>p. bpr_id p \<noteq> bpr_id v) (bs_plans (loadStateTx u s))\<rparr>) s1 = Inr s2"
    and s': "s' = bill_recordTx u ev ag (bpr_id v) p ctx s2"
    unfolding createPlan_def by (auto simp: Let_def)
  have fresh: "i \<notin> bpl_id ` set (billingPlans s)" using fresh_bill_id [OF ok n] by (auto simp: bill_ids_def)
  then have "filter (\<lambda>p. bpr_id p \<noteq> bpr_id v) (bs_plans (loadStateTx u s)) = map mapBillingPlanModel (billingPlans s)"
    by (auto simp: loadStateTx_def filter_id_conv v(1) mapBillingPlanModel_def)
  then have ps: "billingPlans s' = map (plan_stamped now) (billingPlans s)"
    using saveD(1) [OF save] taken by (intro taken_code_saved [OF ok, of v])
      (simp_all add: s' v(2) same_tables_rows [OF bill_newId_same [OF n]])
  show ?thesis
    using fresh by (simp add: v(1) ps image_image loadStateTx_def read_upserted) (simp add: plan_stamped_def)
qed

theorem taken_code_not_created_witness:
  "bpr_id (bill_view run_plan) \<notin> bpl_id ` set (billingPlans (bill_after run_plan)) \<and>
    bs_plans (loadStateTx ''t1'' (bill_after run_plan)) =
      map (\<lambda>p. p\<lparr>bpr_updatedAt := toISOString 1000\<rparr>) (bs_plans (loadStateTx ''t1'' bill_demo))"
  by (rule taken_code_not_created [OF bill_demo_ok _ plan_run]) code_simp

text \<open>
  Changing a plan never changes the id or the code of a stored plan, although the request may carry
  a code and the answer repeats it: a code no plan has is refused, and with the code of another plan the
  request is accepted and every plan keeps its own.
\<close>

theorem plan_code_fixed:
  assumes ok: "billing_ok amt s" and run: "updatePlan amt ctx now i dto s = Inr (v, s')"
  shows "plan_keys s' = plan_keys s \<and> bpr_code v \<in> snd ` set (plan_keys s)"
proof -
  from run obtain t s2 ev ag p cur stamp where
    c: "find (\<lambda>p. bpr_id p = i) (bs_plans (loadStateTx t s)) = Some cur"
    and v: "v = plan_changed dto stamp cur"
    and save: "saveStateTx amt now t ((loadStateTx t s)
      \<lparr>bs_plans := update_where (\<lambda>p. bpr_id p = i) (\<lambda>_. v) (bs_plans (loadStateTx t s))\<rparr>) s = Inr s2"
    and s': "s' = bill_recordTx t ev ag i p ctx s2"
    unfolding updatePlan_def by (auto simp: Let_def)
  have cur: "cur \<in> set (bs_plans (loadStateTx t s))" "bpr_id cur = i" using find_SomeD [OF c] by simp_all
  have i: "bpr_id v = i" using cur(2) by (simp add: v plan_changed_def)
  let ?ps = "update_where (\<lambda>p. bpr_id p = i) (\<lambda>_. v) (bs_plans (loadStateTx t s))"
  have "map bpr_id ?ps = map bpr_id (bs_plans (loadStateTx t s))"
    by (rule map_update_where_key) (simp add: i)
  then have "set (map bpr_id ?ps) = set (map bpl_id (billingPlans s))"
    by (simp only:) (simp add: loadStateTx_def mapBillingPlanModel_def image_image)
  moreover have "v \<in> set ?ps" using cur by (auto simp: set_update_where)
  moreover have "foldE (upsert_plan amt now) ?ps (billingPlans s) = Inr (billingPlans s2)"
    using saveD(1) [OF save] by simp
  ultimately show ?thesis
    using known_ids_saved [OF ok, of ?ps now "billingPlans s2"] by (simp add: s' plan_keys_def)
qed

theorem plan_code_fixed_witness:
  "plan_keys (bill_after run_update) = plan_keys bill_demo \<and>
   bpr_code (bill_view run_update) \<in> snd ` set (plan_keys bill_demo)"
  by (rule plan_code_fixed [OF bill_demo_ok update_run])

text \<open>
  An invoice or a subscription that names an account other than the one the tenant has is refused
  by the unique tenant of the accounts, not as an unknown account: the service tries to create a second
  account first.
\<close>

theorem second_account_refused:
  assumes ok: "billing_ok amt s" and a: "a \<in> set (billingAccounts s)" "bac_tenantId a = t"
    and b: "b \<noteq> ''''" "b \<noteq> bac_id a" and now: "valid_instant now"
    and i: "resolveTenantId ctx (Some (ibi_tenantId idto)) True = Inr t" "ibi_billingAccountId idto = b"
    and u: "resolveTenantId ctx (Some (cbs_tenantId sdto)) True = Inr t" "cbs_billingAccountId sdto = Some b"
      "cbs_planId sdto \<in> bpl_id ` set (billingPlans s)"
  shows "issueInvoice amt ctx now idto s = Inl (UniqueViolation ''BillingAccount'') \<and>
    createSubscription amt ctx now sdto s = Inl (UniqueViolation ''BillingAccount'')"
proof -
  note E = second_account [OF ok a b now]
  obtain p where "find (\<lambda>p. bpr_id p = cbs_planId sdto) (bs_plans (loadStateTx t s)) = Some p"
    using u(3) by (cases "find (\<lambda>p. bpr_id p = cbs_planId sdto) (bs_plans (loadStateTx t s))")
      (auto simp: find_None_iff loadStateTx_def mapBillingPlanModel_def)
  then show ?thesis by (simp add: issueInvoice_def createSubscription_def i u(1,2) E)
qed

theorem second_account_refused_witness:
  "issueInvoice decimal_of demo_context 1000 (demo_invoice ''ba9'') bill_demo = Inl (UniqueViolation ''BillingAccount'') \<and>
   createSubscription decimal_of demo_context 1000 (demo_subscribe (Some ''ba9'')) bill_demo =
     Inl (UniqueViolation ''BillingAccount'')"
  by (rule second_account_refused [OF bill_demo_ok, of demo_account "''t1''" "''ba9''"])
    (simp_all add: demo_subscribe_def demo_invoice_def bill_demo_defs demo_context_def resolveTenantId_def valid_instant_def)

text \<open>
  An accepted upsert of a quota leaves exactly one quota of its key and scope: it comes first in the
  list read afterwards with the limit that was asked for, with the use that was asked for or the one it
  had, and every other quota of the tenant follows as it was, its time stamps apart.
\<close>

theorem quota_replaced:
  assumes ok: "billing_ok amt s" and run: "upsertQuota amt ctx now dto s = Inr (v, s')"
    and t: "resolveTenantId ctx (Some (ubq_tenantId dto)) True = Inr t"
    and one: "distinct (map quota_scope (bs_quotas (loadStateTx t s)))"
  shows "bs_quotas (loadStateTx t s') = v\<lparr>bqr_createdAt := toISOString now\<rparr> #
      map (\<lambda>r. r\<lparr>bqr_createdAt := toISOString now, bqr_updatedAt := toISOString now\<rparr>)
        (filter (\<lambda>r. quota_scope r \<noteq> quota_scope v) (bs_quotas (loadStateTx t s))) \<and>
    distinct (map quota_scope (bs_quotas (loadStateTx t s'))) \<and>
    quota_scope v = (ubq_key dto, nullish (ubq_scopeType dto) ''TENANT'', ubq_scopeId dto) \<and>
    bqr_limitValue v = ubq_limitValue dto \<and>
    bqr_usedValue v = nullish (orElse (ubq_usedValue dto)
      (map_option bqr_usedValue (find (\<lambda>r. quota_scope r = quota_scope v) (bs_quotas (loadStateTx t s))))) 0"
proof -
  let ?old = "bs_quotas (loadStateTx t s)"
  define sc where "sc = (ubq_key dto, nullish (ubq_scopeType dto) ''TENANT'', ubq_scopeId dto)"
  define cur where "cur = find (\<lambda>r. quota_scope r = sc) ?old"
  from upsertQuota_Inr [OF ok run t sc_def cur_def] obtain s1 s2 where same: "same_tables s s1"
    and n: "(case cur of Some c \<Rightarrow> (bqr_id c, s) | None \<Rightarrow> bill_newId s) = (bqr_id v, s1)"
    and v: "bqr_tenantId v = t" "quota_scope v = sc" "bqr_limitValue v = ubq_limitValue dto"
      "bqr_usedValue v = nullish (orElse (ubq_usedValue dto) (map_option bqr_usedValue cur)) 0"
      "bqr_updatedAt v = toISOString now" "iso_date (bqr_resetAt v)"
    and save: "saveStateTx amt now t ((loadStateTx t s)\<lparr>bs_quotas := v # filter (\<lambda>r. bqr_id r \<noteq> bqr_id v) ?old\<rparr>) s1 = Inr s2"
    and s': "loadStateTx t s' = loadStateTx t s2" .
  have read: "bs_quotas (loadStateTx t s') = v\<lparr>bqr_createdAt := toISOString now\<rparr> #
      map (\<lambda>r. r\<lparr>bqr_createdAt := toISOString now, bqr_updatedAt := toISOString now\<rparr>)
        (filter (\<lambda>r. quota_scope r \<noteq> sc) ?old)"
    using quotas_saved [OF ok same save v(1,5,6)] unfolding other_quotas [OF ok one cur_def n] s' .
  moreover have "distinct (map quota_scope (bs_quotas (loadStateTx t s')))"
    using distinct_map_filter [OF one, of "\<lambda>r. quota_scope r \<noteq> sc"] v(2) unfolding read
    by (simp add: comp_def) (auto simp: quota_scope_def)
  ultimately show ?thesis using v by (simp add: cur_def sc_def)
qed

theorem quota_replaced_witness:
  "bs_quotas (loadStateTx ''t1'' (bill_after run_quota)) = (bill_view run_quota)\<lparr>bqr_createdAt := toISOString 1000\<rparr> #
      map (\<lambda>r. r\<lparr>bqr_createdAt := toISOString 1000, bqr_updatedAt := toISOString 1000\<rparr>)
        (filter (\<lambda>r. quota_scope r \<noteq> quota_scope (bill_view run_quota)) (bs_quotas (loadStateTx ''t1'' bill_demo))) \<and>
    bqr_limitValue (bill_view run_quota) = 5"
proof -
  have t: "resolveTenantId demo_context (Some (ubq_tenantId demo_quota_dto)) True = Inr ''t1''"
    by (simp add: resolveTenantId_def demo_context_def demo_quota_dto_def)
  have one: "distinct (map quota_scope (bs_quotas (loadStateTx ''t1'' bill_demo)))"
    by (simp add: loadStateTx_def bill_demo_defs)
  show ?thesis using quota_replaced [OF bill_demo_ok quota_run t one] by (simp add: demo_quota_dto_def)
qed

end
