(* ===== verification/Locales.thy ===== *)
theory Locales
  imports Db
begin

text \<open>
  The pure part of \<open>localization/localization.module.ts\<close>: locale tags and country codes in their
  normal form, the values stored under the settings of the service (preferences, country profiles,
  localized content, templates) with their parsers, the keys of those settings, and the choice of
  an entry for a chain of locales. A channel is its string. Objects have own properties only.
\<close>

section \<open>Keys and names\<close>

definition localizationPreferencesKey :: string where
  "localizationPreferencesKey = ''localization.preferences''"

definition countryProfilePrefix :: string where
  "countryProfilePrefix = ''localization.country-profile.''"

definition localizedContentPrefix :: string where
  "localizedContentPrefix = ''localization.content.''"

definition localizedTemplatePrefix :: string where
  "localizedTemplatePrefix = ''localization.template.''"

definition customizationChannels :: "string list" where
  "customizationChannels =
     [''ADMIN'', ''POS'', ''KIOSK'', ''DELIVERY'', ''KITCHEN'', ''BOARD'', ''BACKOFFICE'']"

datatype LocalizedContentTargetType =
  LtCategory | LtProduct | LtVariant | LtModifierGroup | LtModifierOption | LtBranding

definition show_content_target :: "LocalizedContentTargetType \<Rightarrow> string" where
  "show_content_target t = (case t of LtCategory \<Rightarrow> ''CATEGORY'' | LtProduct \<Rightarrow> ''PRODUCT''
     | LtVariant \<Rightarrow> ''VARIANT'' | LtModifierGroup \<Rightarrow> ''MODIFIER_GROUP''
     | LtModifierOption \<Rightarrow> ''MODIFIER_OPTION'' | LtBranding \<Rightarrow> ''BRANDING'')"

definition localizedContentTargetTypes :: "LocalizedContentTargetType list" where
  "localizedContentTargetTypes =
     [LtCategory, LtProduct, LtVariant, LtModifierGroup, LtModifierOption, LtBranding]"

definition content_target_of :: "string \<Rightarrow> LocalizedContentTargetType option" where
  "content_target_of s = find (\<lambda>t. show_content_target t = s) localizedContentTargetTypes"

section \<open>Objects\<close>

text \<open>\<open>Object.fromEntries\<close>: a later entry replaces the value of an earlier one, in its place.\<close>

fun set_entry :: "string \<Rightarrow> 'v \<Rightarrow> (string \<times> 'v) list \<Rightarrow> (string \<times> 'v) list" where
  "set_entry k v [] = [(k, v)]"
| "set_entry k v ((k', v') # kvs) = (if k' = k then (k, v) # kvs else (k', v') # set_entry k v kvs)"

definition fromEntries :: "(string \<times> 'v) list \<Rightarrow> (string \<times> 'v) list" where
  "fromEntries kvs = fold (\<lambda>(k, v). set_entry k v) kvs []"

text \<open>\<open>asRecord(value) ?? {}\<close>, as the list of its entries.\<close>

definition object_entries :: "json option \<Rightarrow> (string \<times> json) list" where
  "object_entries value = (case value of Some (JObj kvs) \<Rightarrow> kvs | _ \<Rightarrow> [])"

definition asStringRecord :: "json \<Rightarrow> (string \<times> string) list" where
  "asStringRecord value = List.map_filter (\<lambda>(k, v). map_option (Pair k) (jstring (Some v)))
     (object_entries (Some value))"

section \<open>Locales and countries\<close>

definition normalizeCountryCode :: "string option \<Rightarrow> string option" where
  "normalizeCountryCode countryCode =
     (case map_option trim countryCode of
        None \<Rightarrow> None | Some s \<Rightarrow> if s = '''' then None else Some (toUpperCase s))"

definition dashed :: "string \<Rightarrow> string" where
  "dashed s = map (\<lambda>c. if c = CHR ''_'' then CHR ''-'' else c) s"

definition normal_segment :: "string \<Rightarrow> string" where
  "normal_segment segment = (if length segment \<le> 3 then toUpperCase segment else segment)"

definition normalizeLocaleTag :: "string option \<Rightarrow> string option" where
  "normalizeLocaleTag locale =
     (case map_option (\<lambda>s. dashed (trim s)) locale of
        None \<Rightarrow> None
      | Some trimmed \<Rightarrow>
          if trimmed = '''' then None
          else (case split_on (CHR ''-'') trimmed of
             [] \<Rightarrow> None
           | language # rest \<Rightarrow>
               if language = '''' then None
               else Some (join_with ''-'' (toLowerCase language # map normal_segment rest))))"

definition dedupeStrings :: "string option list \<Rightarrow> string list" where
  "dedupeStrings values =
     foldl (\<lambda>result value. if \<not> truthy value \<or> the value \<in> set result then result
              else result @ [the value]) [] values"

definition buildLocaleVariants :: "string \<Rightarrow> string list" where
  "buildLocaleVariants locale =
     (case normalizeLocaleTag (Some locale) of
        None \<Rightarrow> []
      | Some normalized \<Rightarrow>
          dedupeStrings [Some normalized, Some (hd (split_on (CHR ''-'') normalized))])"

definition normalizeSupportedLocales ::
  "string option list \<Rightarrow> string option \<Rightarrow> string option \<Rightarrow> string list" where
  "normalizeSupportedLocales locales defaultLocale fallbackLocale =
     dedupeStrings (map normalizeLocaleTag (locales @ [defaultLocale, fallbackLocale]))"

text \<open>The elements of a stored array: \<open>locale?.trim()\<close> throws for one that is not a string.\<close>

definition locale_element :: "json \<Rightarrow> error + string option" where
  "locale_element j = (case j of JNull \<Rightarrow> Inr None | JStr s \<Rightarrow> Inr (Some s)
     | _ \<Rightarrow> Inl (JsError ''locale?.trim is not a function''))"

definition stored_locales :: "json option \<Rightarrow> error + string option list" where
  "stored_locales value = (case value of Some (JArr xs) \<Rightarrow> mapE locale_element xs | _ \<Rightarrow> Inr [])"

definition buildChannelLocales :: "json option \<Rightarrow> (string \<times> string) list" where
  "buildChannelLocales value =
     fromEntries (List.map_filter (\<lambda>(channel, v).
       if channel \<in> set customizationChannels
       then map_option (\<lambda>s. (channel, nullish (normalizeLocaleTag (Some s)) s)) (jstring (Some v))
       else None) (object_entries value))"

section \<open>Preferences\<close>

record LocalizationPreferencesValue =
  lp_defaultLocale :: string
  lp_fallbackLocale :: string
  lp_supportedLocales :: "string list"
  lp_countryCode :: "string option"
  lp_currency :: "string option"
  lp_timezone :: "string option"
  lp_channelLocales :: "(string \<times> string) list"

definition parseLocalizationPreferences ::
  "json option \<Rightarrow> LocalizationPreferencesValue option \<Rightarrow> error + LocalizationPreferencesValue" where
  "parseLocalizationPreferences value fallback =
     (let defaultLocale = nullish (orElse (normalizeLocaleTag (jstring (field value ''defaultLocale'')))
            (normalizeLocaleTag (map_option lp_defaultLocale fallback))) ''en-US'';
          fallbackLocale = nullish (orElse (normalizeLocaleTag (jstring (field value ''fallbackLocale'')))
            (normalizeLocaleTag (map_option lp_fallbackLocale fallback))) defaultLocale
      in bnd (stored_locales (field value ''supportedLocales'')) (\<lambda>supported.
         Inr \<lparr>lp_defaultLocale = defaultLocale, lp_fallbackLocale = fallbackLocale,
              lp_supportedLocales =
                normalizeSupportedLocales supported (Some defaultLocale) (Some fallbackLocale),
              lp_countryCode = normalizeCountryCode
                (orElse (jstring (field value ''countryCode'')) (Option.bind fallback lp_countryCode)),
              lp_currency = (case jstring (field value ''currency'') of
                 Some s \<Rightarrow> Some (toUpperCase (trim s)) | None \<Rightarrow> Option.bind fallback lp_currency),
              lp_timezone =
                orElse (jstring (field value ''timezone'')) (Option.bind fallback lp_timezone),
              lp_channelLocales = buildChannelLocales (field value ''channelLocales'')\<rparr>))"

text \<open>The object \<open>asInputJsonObject\<close> writes to the column.\<close>

definition preferences_json :: "LocalizationPreferencesValue \<Rightarrow> json" where
  "preferences_json v = JObj
     [(''defaultLocale'', JStr (lp_defaultLocale v)), (''fallbackLocale'', JStr (lp_fallbackLocale v)),
      (''supportedLocales'', JArr (map JStr (lp_supportedLocales v))),
      (''countryCode'', jopt (lp_countryCode v)), (''currency'', jopt (lp_currency v)),
      (''timezone'', jopt (lp_timezone v)),
      (''channelLocales'', JObj (map (apsnd JStr) (lp_channelLocales v)))]"

section \<open>Country profiles\<close>

record TaxProfile =
  tx_mode :: string
  tx_ratePercent :: "rat option"
  tx_label :: "string option"

record CountryProfileValue =
  cp_defaultLocale :: string
  cp_supportedLocales :: "string list"
  cp_currency :: string
  cp_tax :: TaxProfile
  cp_complianceFlags :: "string list"
  cp_metadata :: json

definition tax_mode :: "json option \<Rightarrow> string" where
  "tax_mode mode = (case jstring mode of
     Some s \<Rightarrow> if s = ''INCLUSIVE'' \<or> s = ''EXCLUSIVE'' \<or> s = ''NONE'' then s else ''NONE''
   | None \<Rightarrow> ''NONE'')"

definition parse_tax :: "json option \<Rightarrow> TaxProfile" where
  "parse_tax value =
     \<lparr>tx_mode = tax_mode (field value ''mode''), tx_ratePercent = jnumber (field value ''ratePercent''),
      tx_label = jstring (field value ''label'')\<rparr>"

definition parseCountryProfile :: "json option \<Rightarrow> string \<Rightarrow> error + CountryProfileValue" where
  "parseCountryProfile value countryCode =
     (let defaultLocale =
            nullish (normalizeLocaleTag (jstring (field value ''defaultLocale''))) ''en-US''
      in bnd (stored_locales (field value ''supportedLocales'')) (\<lambda>supported.
         Inr \<lparr>cp_defaultLocale = defaultLocale,
              cp_supportedLocales =
                normalizeSupportedLocales supported (Some defaultLocale) (Some defaultLocale),
              cp_currency = (case jstring (field value ''currency'') of
                 Some s \<Rightarrow> if trim s \<noteq> '''' then toUpperCase (trim s) else ''USD'' | None \<Rightarrow> ''USD''),
              cp_tax = parse_tax (field value ''tax''),
              cp_complianceFlags = asStringArray (field value ''complianceFlags''),
              cp_metadata = (case field value ''metadata'' of
                 Some (JObj kvs) \<Rightarrow> JObj kvs
               | _ \<Rightarrow> JObj [(''countryCode'', JStr countryCode), (''profileStatus'', JStr ''base'')])\<rparr>))"

definition tax_json :: "TaxProfile \<Rightarrow> json" where
  "tax_json t = JObj [(''mode'', JStr (tx_mode t)),
     (''ratePercent'', case tx_ratePercent t of None \<Rightarrow> JNull | Some n \<Rightarrow> JNum n),
     (''label'', jopt (tx_label t))]"

definition country_profile_json :: "CountryProfileValue \<Rightarrow> json" where
  "country_profile_json v = JObj
     [(''defaultLocale'', JStr (cp_defaultLocale v)),
      (''supportedLocales'', JArr (map JStr (cp_supportedLocales v))),
      (''currency'', JStr (cp_currency v)), (''tax'', tax_json (cp_tax v)),
      (''complianceFlags'', JArr (map JStr (cp_complianceFlags v))), (''metadata'', cp_metadata v)]"

definition buildCountryProfileKey :: "string \<Rightarrow> string" where
  "buildCountryProfileKey countryCode =
     countryProfilePrefix @ nullish (normalizeCountryCode (Some countryCode)) ''null''"

definition parseCountryProfileKey :: "string \<Rightarrow> string option" where
  "parseCountryProfileKey key =
     (if starts_with countryProfilePrefix key
      then normalizeCountryCode (Some (drop (length countryProfilePrefix) key)) else None)"

section \<open>Localized content\<close>

type_synonym content_entries = "(string \<times> (string \<times> string) list) list"

definition normal_key :: "string \<Rightarrow> string" where
  "normal_key locale = nullish (normalizeLocaleTag (Some locale)) locale"

definition content_entries_of :: "(string \<times> json) list \<Rightarrow> content_entries" where
  "content_entries_of raw = fromEntries (map (\<lambda>(locale, fields). (normal_key locale, asStringRecord fields)) raw)"

definition parseLocalizedContentValue :: "json option \<Rightarrow> content_entries" where
  "parseLocalizedContentValue value = content_entries_of (object_entries (field value ''entries''))"

definition content_json :: "content_entries \<Rightarrow> json" where
  "content_json entries =
     JObj [(''entries'', JObj (map (apsnd (\<lambda>fields. JObj (map (apsnd JStr) fields))) entries))]"

definition buildLocalizedContentKey :: "LocalizedContentTargetType \<Rightarrow> string \<Rightarrow> string" where
  "buildLocalizedContentKey targetType targetId =
     localizedContentPrefix @ show_content_target targetType @ ''.'' @ targetId"

definition parseLocalizedContentKey :: "string \<Rightarrow> (LocalizedContentTargetType \<times> string) option" where
  "parseLocalizedContentKey key =
     (if \<not> starts_with localizedContentPrefix key then None
      else case split_on (CHR ''.'') (drop (length localizedContentPrefix) key) of
        [] \<Rightarrow> None
      | targetType # targetIdParts \<Rightarrow>
          if targetIdParts = [] then None
          else map_option (\<lambda>t. (t, join_with ''.'' targetIdParts)) (content_target_of targetType))"

text \<open>\<open>resolveLocalizedEntry\<close>: an entry without fields counts as one.\<close>

definition resolveLocalizedEntry ::
  "(string \<times> (string \<times> 'v) list) list \<Rightarrow> string list \<Rightarrow> (string \<times> (string \<times> 'v) list) option" where
  "resolveLocalizedEntry entries localeChain =
     (case find (\<lambda>v. map_of entries v \<noteq> None) (concat (map buildLocaleVariants localeChain)) of
        Some v \<Rightarrow> Some (v, the (map_of entries v))
      | None \<Rightarrow> find (\<lambda>e. snd e \<noteq> []) entries)"

section \<open>Templates\<close>

type_synonym template_entries = "(string \<times> (string \<times> json) list) list"

record LocalizedTemplateValue =
  lt_channel :: "string option"
  lt_description :: "string option"
  lt_variables :: "string list"
  lt_entries :: template_entries

text \<open>
  The matches of the pattern \<open>/\{\{\s*([a-zA-Z0-9_.-]+)\s*\}\}/g\<close>: a template is read as
  characters and placeholders from left to right.
\<close>

definition variable_char :: "char \<Rightarrow> bool" where
  "variable_char c \<longleftrightarrow> is_digit c \<or> is_upper c \<or> is_lower c \<or> c \<in> set ''_.-''"

definition match_variable :: "string \<Rightarrow> (string \<times> string) option" where
  "match_variable s =
     (if \<not> starts_with ''{{'' s then None
      else let inner = dropWhile js_space (drop 2 s);
               name = takeWhile variable_char inner;
               rest = dropWhile js_space (dropWhile variable_char inner)
           in if name \<noteq> [] \<and> starts_with ''}}'' rest then Some (name, drop 2 rest) else None)"

datatype piece = Literal char | Placeholder string

lemma match_variable_shorter: "match_variable s = Some (n, r) \<Longrightarrow> length r < length s"
proof -
  assume m: "match_variable s = Some (n, r)"
  let ?i = "dropWhile js_space (drop 2 s)"
  let ?r = "dropWhile js_space (dropWhile variable_char ?i)"
  have "starts_with ''{{'' s" "r = drop 2 ?r" using m by (auto simp: match_variable_def Let_def split: if_splits)
  moreover have "length ?r \<le> length (drop 2 s)"
    by (meson length_dropWhile_le order_trans)
  ultimately show "length r < length s" by (cases s) (auto simp: starts_with_def)
qed

function pieces :: "string \<Rightarrow> piece list" where
  "pieces [] = []"
| "pieces (c # cs) =
     (case match_variable (c # cs) of
        Some (name, rest) \<Rightarrow> Placeholder name # pieces rest
      | None \<Rightarrow> Literal c # pieces cs)"
  by pat_completeness auto
termination
  by (relation "measure length") (auto dest: match_variable_shorter)

definition placeholders :: "string \<Rightarrow> string list" where
  "placeholders template = List.map_filter (\<lambda>p. case p of Placeholder n \<Rightarrow> Some n | Literal c \<Rightarrow> None) (pieces template)"

text \<open>
  The pattern is applied to \<open>String(value)\<close>. Only strings, and the strings an array holds, can
  contain a placeholder: the commas between the elements of an array are no part of one.
\<close>

fun value_placeholders :: "json \<Rightarrow> string list" where
  "value_placeholders (JStr s) = placeholders s"
| "value_placeholders (JArr xs) = concat (map value_placeholders xs)"
| "value_placeholders _ = []"

definition collectTemplateVariables :: "template_entries \<Rightarrow> string list" where
  "collectTemplateVariables entries =
     sort_by string_le (remdups (concat (map (\<lambda>e. concat (map (value_placeholders \<circ> snd) (snd e))) entries)))"

definition template_entries_of :: "(string \<times> json) list \<Rightarrow> template_entries" where
  "template_entries_of raw = fromEntries (map (\<lambda>(locale, t). (normal_key locale, object_entries (Some t))) raw)"

definition parseLocalizedTemplateValue :: "json option \<Rightarrow> string option \<Rightarrow> LocalizedTemplateValue" where
  "parseLocalizedTemplateValue value channel =
     (let entries = template_entries_of (object_entries (field value ''entries''))
      in \<lparr>lt_channel = channel, lt_description = jstring (field value ''description''),
          lt_variables = (case field value ''variables'' of
             Some (JArr xs) \<Rightarrow> if list_all (\<lambda>x. jstring (Some x) \<noteq> None) xs
               then asStringArray (Some (JArr xs)) else collectTemplateVariables entries
           | _ \<Rightarrow> collectTemplateVariables entries),
          lt_entries = entries\<rparr>)"

definition template_json :: "LocalizedTemplateValue \<Rightarrow> json" where
  "template_json v = JObj
     [(''channel'', jopt (lt_channel v)), (''description'', jopt (lt_description v)),
      (''variables'', JArr (map JStr (lt_variables v))),
      (''entries'', JObj (map (apsnd JObj) (lt_entries v)))]"

definition buildLocalizedTemplateKey :: "string option \<Rightarrow> string \<Rightarrow> string" where
  "buildLocalizedTemplateKey channel templateKey =
     localizedTemplatePrefix @ nullish channel ''shared'' @ ''.'' @ templateKey"

definition parseLocalizedTemplateKey :: "string \<Rightarrow> (string option \<times> string) option" where
  "parseLocalizedTemplateKey key =
     (if \<not> starts_with localizedTemplatePrefix key then None
      else case split_on (CHR ''.'') (drop (length localizedTemplatePrefix) key) of
        [] \<Rightarrow> None
      | scope # templateKeyParts \<Rightarrow>
          if scope = '''' \<or> templateKeyParts = [] then None
          else Some (if scope = ''shared'' then None else Some scope, join_with ''.'' templateKeyParts))"

text \<open>
  \<open>String(value)\<close> of a variable: a number is written with its decimals, of which seventeen
  are kept; the notation with an exponent, which starts at the number \<open>10 ^ 21\<close>, is not written.
\<close>

fun decimals :: "nat \<Rightarrow> rat \<Rightarrow> string" where
  "decimals 0 r = []"
| "decimals (Suc n) r =
     (if r = 0 then [] else digit_char \<lfloor>10 * r\<rfloor> # decimals n (10 * r - of_int \<lfloor>10 * r\<rfloor>))"

definition show_number :: "rat \<Rightarrow> string" where
  "show_number r =
     (let whole = \<lfloor>\<bar>r\<bar>\<rfloor>; f = decimals 17 (\<bar>r\<bar> - of_int whole)
      in (if r < 0 then ''-'' else '''') @ digits_of whole @ (if f = [] then [] else ''.'' @ f))"

fun js_text :: "json \<Rightarrow> string" where
  "js_text JNull = ''null''"
| "js_text (JBool b) = (if b then ''true'' else ''false'')"
| "js_text (JNum n) = show_number n"
| "js_text (JStr s) = s"
| "js_text (JArr xs) = join_with '','' (map (\<lambda>x. if x = JNull then '''' else js_text x) xs)"
| "js_text (JObj kvs) = ''[object Object]''"

definition variable_text :: "(string \<times> json) list \<Rightarrow> string \<Rightarrow> string" where
  "variable_text variables key =
     (case map_of variables key of None \<Rightarrow> '''' | Some JNull \<Rightarrow> '''' | Some v \<Rightarrow> js_text v)"

definition render_pieces :: "(string \<times> json) list \<Rightarrow> piece list \<Rightarrow> string" where
  "render_pieces variables ps =
     concat (map (\<lambda>p. case p of Literal c \<Rightarrow> [c] | Placeholder n \<Rightarrow> variable_text variables n) ps)"

definition interpolateTemplate :: "json option \<Rightarrow> (string \<times> json) list \<Rightarrow> error + string option" where
  "interpolateTemplate template variables =
     (case template of
        None \<Rightarrow> Inr None
      | Some JNull \<Rightarrow> Inr None
      | Some (JBool False) \<Rightarrow> Inr None
      | Some (JStr s) \<Rightarrow> if s = '''' then Inr None else Inr (Some (render_pieces variables (pieces s)))
      | Some (JNum n) \<Rightarrow> if n = 0 then Inr None else Inl (JsError ''template.replace is not a function'')
      | _ \<Rightarrow> Inl (JsError ''template.replace is not a function''))"

end
