(* ===== verification/Localization.thy ===== *)
theory Localization
  imports Locales Pricing
begin

text \<open>
  The handlers of \<open>localization/localization.module.ts\<close>: preferences of a tenant and of its stores,
  country profiles, localized content and templates under keys of the settings tables, the language
  pack that carries all of them, and the resolution of a locale, a country, a currency and the texts
  shown in them.
\<close>

section \<open>Requests and answers\<close>

record UpsertLocalizationPreferencesDto =
  ulp_defaultLocale :: string
  ulp_fallbackLocale :: "string option"
  ulp_supportedLocales :: "string list option"
  ulp_countryCode :: "string option"
  ulp_currency :: "string option"
  ulp_timezone :: "string option"
  ulp_channelLocales :: "json option"

record UpsertStoreLocalizationPreferencesDto = UpsertLocalizationPreferencesDto +
  ulp_storeId :: uuid

record UpsertCountryProfileDto =
  ucp_defaultLocale :: string
  ucp_currency :: string
  ucp_supportedLocales :: "string list option"
  ucp_tax :: "json option"
  ucp_complianceFlags :: "string list option"
  ucp_metadata :: "json option"

record UpsertLocalizedContentDto =
  ulc_tenantId :: uuid
  ulc_targetType :: LocalizedContentTargetType
  ulc_targetId :: string
  ulc_entries :: "(string \<times> json) list"

record UpsertLocalizedTemplateDto =
  ult_tenantId :: uuid
  ult_templateKey :: string
  ult_channel :: "string option"
  ult_description :: "string option"
  ult_variables :: "string list option"
  ult_entries :: "(string \<times> json) list"

record LocalizationPreferencesDto = LocalizationPreferencesValue +
  lpd_scope :: string
  lpd_tenantId :: uuid
  lpd_storeId :: "uuid option"
  lpd_createdAt :: "string option"
  lpd_updatedAt :: "string option"

record CountryProfileDto = CountryProfileValue +
  cpd_tenantId :: uuid
  cpd_countryCode :: string
  cpd_createdAt :: "string option"
  cpd_updatedAt :: "string option"

record LocalizedContentDto =
  lcd_tenantId :: uuid
  lcd_targetType :: LocalizedContentTargetType
  lcd_targetId :: string
  lcd_entries :: content_entries
  lcd_createdAt :: "string option"
  lcd_updatedAt :: "string option"

record LocalizedTemplateDto = LocalizedTemplateValue +
  ltd_tenantId :: uuid
  ltd_templateKey :: string
  ltd_createdAt :: "string option"
  ltd_updatedAt :: "string option"

record LocalizationLanguagePackDto =
  lpk_tenantId :: "uuid option"
  lpk_generatedAt :: string
  lpk_tenantPreferences :: "LocalizationPreferencesDto option"
  lpk_storePreferences :: "LocalizationPreferencesDto list"
  lpk_countryProfiles :: "CountryProfileDto list"
  lpk_content :: "LocalizedContentDto list"
  lpk_templates :: "LocalizedTemplateDto list"

definition mapPreferencesDto ::
  "string \<Rightarrow> uuid \<Rightarrow> uuid option \<Rightarrow> LocalizationPreferencesValue \<Rightarrow> Setting \<Rightarrow> LocalizationPreferencesDto" where
  "mapPreferencesDto scope tenantId storeId value setting =
     \<lparr>lp_defaultLocale = lp_defaultLocale value, lp_fallbackLocale = lp_fallbackLocale value,
      lp_supportedLocales = lp_supportedLocales value, lp_countryCode = lp_countryCode value,
      lp_currency = lp_currency value, lp_timezone = lp_timezone value,
      lp_channelLocales = lp_channelLocales value, lpd_scope = scope, lpd_tenantId = tenantId,
      lpd_storeId = storeId, lpd_createdAt = Some (toISOString (set_createdAt setting)),
      lpd_updatedAt = Some (toISOString (set_updatedAt setting))\<rparr>"

definition mapCountryProfileDto ::
  "uuid \<Rightarrow> string \<Rightarrow> CountryProfileValue \<Rightarrow> Setting \<Rightarrow> CountryProfileDto" where
  "mapCountryProfileDto tenantId countryCode value setting =
     \<lparr>cp_defaultLocale = cp_defaultLocale value, cp_supportedLocales = cp_supportedLocales value,
      cp_currency = cp_currency value, cp_tax = cp_tax value,
      cp_complianceFlags = cp_complianceFlags value, cp_metadata = cp_metadata value,
      cpd_tenantId = tenantId, cpd_countryCode = countryCode,
      cpd_createdAt = Some (toISOString (set_createdAt setting)),
      cpd_updatedAt = Some (toISOString (set_updatedAt setting))\<rparr>"

definition mapLocalizedContentDto ::
  "uuid \<Rightarrow> LocalizedContentTargetType \<Rightarrow> string \<Rightarrow> content_entries \<Rightarrow> Setting \<Rightarrow> LocalizedContentDto" where
  "mapLocalizedContentDto tenantId targetType targetId value setting =
     \<lparr>lcd_tenantId = tenantId, lcd_targetType = targetType, lcd_targetId = targetId,
      lcd_entries = value, lcd_createdAt = Some (toISOString (set_createdAt setting)),
      lcd_updatedAt = Some (toISOString (set_updatedAt setting))\<rparr>"

definition mapLocalizedTemplateDto ::
  "uuid \<Rightarrow> string \<Rightarrow> LocalizedTemplateValue \<Rightarrow> Setting \<Rightarrow> LocalizedTemplateDto" where
  "mapLocalizedTemplateDto tenantId templateKey value setting =
     \<lparr>lt_channel = lt_channel value, lt_description = lt_description value,
      lt_variables = lt_variables value, lt_entries = lt_entries value, ltd_tenantId = tenantId,
      ltd_templateKey = templateKey, ltd_createdAt = Some (toISOString (set_createdAt setting)),
      ltd_updatedAt = Some (toISOString (set_updatedAt setting))\<rparr>"

section \<open>Scope\<close>

definition resolveScopeTx ::
  "RequestContext \<Rightarrow> uuid option \<Rightarrow> uuid option \<Rightarrow> db \<Rightarrow> (uuid \<times> Store option) result" where
  "resolveScopeTx context tenantId storeId d =
     bnd (find_optional st_id ''Store'' (stores d) storeId) (\<lambda>store.
     bnd (case store of None \<Rightarrow> Inr () | Some s \<Rightarrow> enforceStoreAccess context (st_id s)) (\<lambda>_.
     bnd (resolveTenantId context
            (orElse tenantId (orElse (map_option st_tenantId store) (ctx_tenantId context))) True) (\<lambda>t.
     Inr (t, store))))"

definition tenant_setting :: "uuid \<Rightarrow> string \<Rightarrow> db \<Rightarrow> Setting option" where
  "tenant_setting tenantId key d = find_setting tenantId key (tenantSettings d)"

definition store_setting :: "uuid option \<Rightarrow> string \<Rightarrow> db \<Rightarrow> Setting option" where
  "store_setting storeId key d = Option.bind storeId (\<lambda>i. find_setting i key (storeSettings d))"

text \<open>The settings of a tenant whose keys have a prefix, in the order of their keys.\<close>

definition key_le :: "Setting \<Rightarrow> Setting \<Rightarrow> bool" where
  "key_le a b = string_le (set_key a) (set_key b)"

definition settings_under :: "uuid \<Rightarrow> string \<Rightarrow> db \<Rightarrow> Setting list" where
  "settings_under tenantId prefix d = sort_by key_le
     (filter (\<lambda>s. set_ownerId s = tenantId \<and> starts_with prefix (set_key s)) (tenantSettings d))"

definition locale_audit ::
  "RequestContext \<Rightarrow> uuid \<Rightarrow> uuid option \<Rightarrow> string \<Rightarrow> string \<Rightarrow> uuid \<Rightarrow> (string \<times> json) list \<Rightarrow> db \<Rightarrow> db" where
  "locale_audit context tenantId storeId action entityType entityId payload =
     recordTx \<lparr>al_tenantId = Some tenantId, al_storeId = storeId,
       al_actorType = resolveActorType context, al_actorId = resolveActorId context,
       al_action = action, al_entityType = entityType, al_entityId = entityId,
       al_payload = Some (JObj payload)\<rparr>"

section \<open>Preferences\<close>

definition buildPreferencesValue ::
  "('a UpsertLocalizationPreferencesDto_scheme) \<Rightarrow> LocalizationPreferencesValue" where
  "buildPreferencesValue dto =
     (let defaultLocale = nullish (normalizeLocaleTag (Some (ulp_defaultLocale dto))) ''en-US'';
          fallbackLocale = nullish (normalizeLocaleTag (ulp_fallbackLocale dto)) defaultLocale
      in \<lparr>lp_defaultLocale = defaultLocale, lp_fallbackLocale = fallbackLocale,
          lp_supportedLocales = normalizeSupportedLocales
            (map Some (nullish (ulp_supportedLocales dto) [])) (Some defaultLocale) (Some fallbackLocale),
          lp_countryCode = normalizeCountryCode (ulp_countryCode dto),
          lp_currency = map_option (\<lambda>s. toUpperCase (trim s)) (ulp_currency dto),
          lp_timezone = ulp_timezone dto,
          lp_channelLocales = buildChannelLocales (ulp_channelLocales dto)\<rparr>)"

definition listPreferences ::
  "RequestContext \<Rightarrow> uuid option \<Rightarrow> uuid option \<Rightarrow> db \<Rightarrow>
   (LocalizationPreferencesDto option \<times> LocalizationPreferencesDto option) result" where
  "listPreferences context tenantId storeId d =
     bnd (resolveScopeTx context tenantId storeId d) (\<lambda>(t, store).
     bnd (case tenant_setting t localizationPreferencesKey d of
            None \<Rightarrow> Inr None
          | Some s \<Rightarrow> bnd (parseLocalizationPreferences (Some (set_value s)) None) (\<lambda>v.
              Inr (Some (mapPreferencesDto ''TENANT'' t None v s)))) (\<lambda>tenant.
     bnd (case store_setting (map_option st_id store) localizationPreferencesKey d of
            None \<Rightarrow> Inr None
          | Some s \<Rightarrow> bnd (parseLocalizationPreferences (Some (set_value s)) None) (\<lambda>v.
              Inr (Some (mapPreferencesDto ''STORE'' (set_tenantId s) (Some (set_ownerId s)) v s))))
       (\<lambda>storePreferences.
     Inr (tenant, storePreferences))))"

definition upsertTenantPreferences ::
  "RequestContext \<Rightarrow> instant \<Rightarrow> UpsertLocalizationPreferencesDto \<Rightarrow> uuid option \<Rightarrow> db \<Rightarrow>
   (LocalizationPreferencesDto \<times> db) result" where
  "upsertTenantPreferences context now dto tenantId d =
     bnd (resolveTenantId context (orElse tenantId (ctx_tenantId context)) True) (\<lambda>t.
     let value = buildPreferencesValue dto;
         (setting, d1) = upsert_tenant_setting now t localizationPreferencesKey (preferences_json value) d in
     Inr (mapPreferencesDto ''TENANT'' t None value setting,
       locale_audit context t None ''localization.tenant_preferences_upserted'' ''tenant_setting''
         (set_id setting) [(''key'', JStr localizationPreferencesKey),
           (''defaultLocale'', JStr (lp_defaultLocale value))] d1))"

definition upsertStorePreferences ::
  "RequestContext \<Rightarrow> instant \<Rightarrow> UpsertStoreLocalizationPreferencesDto \<Rightarrow> db \<Rightarrow>
   (LocalizationPreferencesDto \<times> db) result" where
  "upsertStorePreferences context now dto d =
     bnd (enforceStoreAccess context (ulp_storeId dto)) (\<lambda>_.
     bnd (orThrow (find (\<lambda>s. st_id s = ulp_storeId dto) (stores d)) (RecordNotFound ''Store'')) (\<lambda>store.
     bnd (resolveTenantId context (Some (st_tenantId store)) True) (\<lambda>_.
     let value = buildPreferencesValue dto;
         (setting, d1) = upsert_setting now (st_tenantId store) (ulp_storeId dto)
           localizationPreferencesKey (preferences_json value) d in
     Inr (mapPreferencesDto ''STORE'' (st_tenantId store) (Some (ulp_storeId dto)) value setting,
       locale_audit context (st_tenantId store) (Some (ulp_storeId dto))
         ''localization.store_preferences_upserted'' ''store_setting'' (set_id setting)
         [(''key'', JStr localizationPreferencesKey),
          (''defaultLocale'', JStr (lp_defaultLocale value))] d1))))"

section \<open>Country profiles\<close>

text \<open>\<open>map(...).filter(Boolean)\<close> over the settings under a prefix.\<close>

definition country_profiles :: "uuid \<Rightarrow> db \<Rightarrow> CountryProfileDto list result" where
  "country_profiles t d =
     mapE (\<lambda>(s, code). bnd (parseCountryProfile (Some (set_value s)) code) (\<lambda>v.
       Inr (mapCountryProfileDto t code v s)))
     (List.map_filter (\<lambda>s. map_option (Pair s) (parseCountryProfileKey (set_key s)))
        (settings_under t countryProfilePrefix d))"

definition listCountryProfiles ::
  "RequestContext \<Rightarrow> uuid option \<Rightarrow> uuid option \<Rightarrow> db \<Rightarrow> CountryProfileDto list result" where
  "listCountryProfiles context tenantId storeId d =
     bnd (resolveScopeTx context tenantId storeId d) (\<lambda>(t, store). country_profiles t d)"

text \<open>The label of a tax profile in a request is a string, as its type says; only \<open>@IsObject\<close> checks it.\<close>

definition country_profile_value :: "UpsertCountryProfileDto \<Rightarrow> CountryProfileValue" where
  "country_profile_value dto =
     \<lparr>cp_defaultLocale = nullish (normalizeLocaleTag (Some (ucp_defaultLocale dto))) ''en-US'',
      cp_supportedLocales = normalizeSupportedLocales
        (map Some (nullish (ucp_supportedLocales dto) [])) (Some (ucp_defaultLocale dto))
        (Some (ucp_defaultLocale dto)),
      cp_currency = toUpperCase (trim (ucp_currency dto)),
      cp_tax = parse_tax (ucp_tax dto),
      cp_complianceFlags = dedupeStrings (map Some (nullish (ucp_complianceFlags dto) [])),
      cp_metadata = nullish (ucp_metadata dto) (JObj [])\<rparr>"

definition upsertCountryProfile ::
  "RequestContext \<Rightarrow> instant \<Rightarrow> string \<Rightarrow> UpsertCountryProfileDto \<Rightarrow> uuid option \<Rightarrow> db \<Rightarrow>
   (CountryProfileDto \<times> db) result" where
  "upsertCountryProfile context now countryCode dto tenantId d =
     bnd (resolveTenantId context (orElse tenantId (ctx_tenantId context)) True) (\<lambda>t.
     bnd (orThrow (normalizeCountryCode (Some countryCode))
            (BadRequestException ''Country code is required.'')) (\<lambda>code.
     let value = country_profile_value dto;
         (setting, d1) = upsert_tenant_setting now t (buildCountryProfileKey code)
           (country_profile_json value) d in
     Inr (mapCountryProfileDto t code value setting,
       locale_audit context t None ''localization.country_profile_upserted'' ''tenant_setting''
         (set_id setting) [(''countryCode'', JStr code), (''currency'', JStr (cp_currency value))] d1)))"

section \<open>Localized content\<close>

definition contents :: "uuid \<Rightarrow> db \<Rightarrow> LocalizedContentDto list" where
  "contents t d =
     List.map_filter (\<lambda>s. map_option (\<lambda>(targetType, targetId).
       mapLocalizedContentDto t targetType targetId (parseLocalizedContentValue (Some (set_value s))) s)
       (parseLocalizedContentKey (set_key s)))
     (settings_under t localizedContentPrefix d)"

definition listLocalizedContent ::
  "RequestContext \<Rightarrow> uuid option \<Rightarrow> uuid option \<Rightarrow> LocalizedContentTargetType option \<Rightarrow> string option \<Rightarrow>
   db \<Rightarrow> LocalizedContentDto list result" where
  "listLocalizedContent context tenantId storeId targetType targetId d =
     bnd (resolveScopeTx context tenantId storeId d) (\<lambda>(t, store).
     Inr (filter (\<lambda>c. (case targetType of None \<Rightarrow> True | Some x \<Rightarrow> lcd_targetType c = x) \<and>
       (\<not> truthy targetId \<or> targetId = Some (lcd_targetId c))) (contents t d)))"

definition upsertLocalizedContent ::
  "RequestContext \<Rightarrow> instant \<Rightarrow> UpsertLocalizedContentDto \<Rightarrow> db \<Rightarrow> (LocalizedContentDto \<times> db) result" where
  "upsertLocalizedContent context now dto d =
     bnd (resolveTenantId context (Some (ulc_tenantId dto)) True) (\<lambda>t.
     let value = content_entries_of (ulc_entries dto);
         (setting, d1) = upsert_tenant_setting now t
           (buildLocalizedContentKey (ulc_targetType dto) (ulc_targetId dto)) (content_json value) d in
     Inr (mapLocalizedContentDto t (ulc_targetType dto) (ulc_targetId dto) value setting,
       locale_audit context t None ''localization.content_upserted'' ''tenant_setting'' (set_id setting)
         [(''targetType'', JStr (show_content_target (ulc_targetType dto))),
          (''targetId'', JStr (ulc_targetId dto))] d1))"

section \<open>Templates\<close>

definition templates :: "uuid \<Rightarrow> db \<Rightarrow> LocalizedTemplateDto list" where
  "templates t d =
     List.map_filter (\<lambda>s. map_option (\<lambda>(channel, templateKey).
       mapLocalizedTemplateDto t templateKey (parseLocalizedTemplateValue (Some (set_value s)) channel) s)
       (parseLocalizedTemplateKey (set_key s)))
     (settings_under t localizedTemplatePrefix d)"

text \<open>The channel of a query: absent, \<open>null\<close> or a channel.\<close>

definition listTemplates ::
  "RequestContext \<Rightarrow> uuid option \<Rightarrow> uuid option \<Rightarrow> string option \<Rightarrow> string option option \<Rightarrow> db \<Rightarrow>
   LocalizedTemplateDto list result" where
  "listTemplates context tenantId storeId templateKey channel d =
     bnd (resolveScopeTx context tenantId storeId d) (\<lambda>(t, store).
     Inr (filter (\<lambda>x. (\<not> truthy templateKey \<or> templateKey = Some (ltd_templateKey x)) \<and>
       (case channel of None \<Rightarrow> True | Some c \<Rightarrow> lt_channel x = c)) (templates t d)))"

definition template_value :: "UpsertLocalizedTemplateDto \<Rightarrow> LocalizedTemplateValue" where
  "template_value dto =
     (let normalizedEntries = template_entries_of (ult_entries dto)
      in \<lparr>lt_channel = ult_channel dto, lt_description = ult_description dto,
          lt_variables = (if nullish (ult_variables dto) [] \<noteq> []
            then dedupeStrings (map Some (nullish (ult_variables dto) []))
            else collectTemplateVariables normalizedEntries),
          lt_entries = normalizedEntries\<rparr>)"

definition upsertTemplate ::
  "RequestContext \<Rightarrow> instant \<Rightarrow> UpsertLocalizedTemplateDto \<Rightarrow> db \<Rightarrow> (LocalizedTemplateDto \<times> db) result" where
  "upsertTemplate context now dto d =
     bnd (resolveTenantId context (Some (ult_tenantId dto)) True) (\<lambda>t.
     let value = template_value dto;
         (setting, d1) = upsert_tenant_setting now t
           (buildLocalizedTemplateKey (ult_channel dto) (ult_templateKey dto)) (template_json value) d in
     Inr (mapLocalizedTemplateDto t (ult_templateKey dto) value setting,
       locale_audit context t None ''localization.template_upserted'' ''tenant_setting'' (set_id setting)
         [(''templateKey'', JStr (ult_templateKey dto)), (''channel'', jopt (ult_channel dto))] d1))"

end
