(* ===== verification/LocaleContext.thy ===== *)
theory LocaleContext
  imports Localization
begin

text \<open>
  The rest of \<open>localization/localization.module.ts\<close>: the language pack, the context a request is
  answered in (locale, fallback, country, currency, tax), the localized texts of catalogue entries,
  and the rendering of a template. What \<open>Intl\<close> formats, and one example address that is not
  ASCII, are parameters.
\<close>

section \<open>Language packs\<close>

definition mapE_option :: "('a \<Rightarrow> 'b result) \<Rightarrow> 'a option \<Rightarrow> 'b option result" where
  "mapE_option f m = (case m of None \<Rightarrow> Inr None | Some x \<Rightarrow> bnd (f x) (\<lambda>y. Inr (Some y)))"

definition stored_preferences :: "string \<Rightarrow> uuid \<Rightarrow> uuid option \<Rightarrow> Setting \<Rightarrow> LocalizationPreferencesDto result" where
  "stored_preferences scope tenantId storeId s =
     bnd (parseLocalizationPreferences (Some (set_value s)) None) (\<lambda>v.
     Inr (mapPreferencesDto scope tenantId storeId v s))"

definition exportLanguagePack ::
  "RequestContext \<Rightarrow> instant \<Rightarrow> uuid option \<Rightarrow> uuid option \<Rightarrow> db \<Rightarrow> LocalizationLanguagePackDto result" where
  "exportLanguagePack context now tenantId storeId d =
     bnd (resolveScopeTx context tenantId storeId d) (\<lambda>(t, store).
     bnd (mapE_option (stored_preferences ''TENANT'' t None)
            (tenant_setting t localizationPreferencesKey d)) (\<lambda>tenant.
     bnd (mapE (\<lambda>s. stored_preferences ''STORE'' (set_tenantId s) (Some (set_ownerId s)) s)
            (sort_by (\<lambda>a b. string_le (set_ownerId a) (set_ownerId b))
              (filter (\<lambda>s. set_tenantId s = t \<and> set_key s = localizationPreferencesKey)
                (storeSettings d)))) (\<lambda>storePreferences.
     bnd (country_profiles t d) (\<lambda>profiles.
     Inr \<lparr>lpk_tenantId = Some t, lpk_generatedAt = toISOString now, lpk_tenantPreferences = tenant,
          lpk_storePreferences = storePreferences, lpk_countryProfiles = profiles,
          lpk_content = contents t d, lpk_templates = templates t d\<rparr>))))"

definition preferences_request ::
  "('a LocalizationPreferencesValue_scheme) \<Rightarrow> UpsertLocalizationPreferencesDto" where
  "preferences_request p =
     \<lparr>ulp_defaultLocale = lp_defaultLocale p, ulp_fallbackLocale = Some (lp_fallbackLocale p),
      ulp_supportedLocales = Some (lp_supportedLocales p), ulp_countryCode = lp_countryCode p,
      ulp_currency = lp_currency p, ulp_timezone = lp_timezone p,
      ulp_channelLocales = Some (JObj (map (apsnd JStr) (lp_channelLocales p)))\<rparr>"

text \<open>
  Every part of a pack is written under its key. The preferences of a store are written for the
  store they name; only a missing store is noticed, by the foreign key of a new row.
\<close>

definition import_store ::
  "RequestContext \<Rightarrow> instant \<Rightarrow> uuid \<Rightarrow> LocalizationPreferencesDto \<Rightarrow> db \<Rightarrow> db result" where
  "import_store context now tenantId p d =
     (case lpd_storeId p of
        None \<Rightarrow> Inr d
      | Some i \<Rightarrow>
          if i = '''' then Inr d
          else bnd (enforceStoreAccess context i) (\<lambda>_.
            bnd (ensure (find_setting i localizationPreferencesKey (storeSettings d) \<noteq> None \<or>
                   i \<in> st_id ` set (stores d)) (ForeignKeyViolation ''StoreSetting'')) (\<lambda>_.
            Inr (snd (upsert_setting now tenantId i localizationPreferencesKey
              (preferences_json (buildPreferencesValue (preferences_request p))) d)))))"

definition import_setting :: "instant \<Rightarrow> uuid \<Rightarrow> string \<times> json \<Rightarrow> db \<Rightarrow> db" where
  "import_setting now tenantId kv d = snd (upsert_tenant_setting now tenantId (fst kv) (snd kv) d)"

definition pack_settings :: "LocalizationLanguagePackDto \<Rightarrow> (string \<times> json) list" where
  "pack_settings pack =
     map (\<lambda>p. (buildCountryProfileKey (cpd_countryCode p),
       country_profile_json (CountryProfileValue.truncate p))) (lpk_countryProfiles pack) @
     map (\<lambda>c. (buildLocalizedContentKey (lcd_targetType c) (lcd_targetId c), content_json (lcd_entries c)))
       (lpk_content pack) @
     map (\<lambda>x. (buildLocalizedTemplateKey (lt_channel x) (ltd_templateKey x),
       template_json (LocalizedTemplateValue.truncate x))) (lpk_templates pack)"

definition importLanguagePack ::
  "RequestContext \<Rightarrow> instant \<Rightarrow> uuid option \<Rightarrow> LocalizationLanguagePackDto \<Rightarrow> db \<Rightarrow>
   (LocalizationLanguagePackDto \<times> db) result" where
  "importLanguagePack context now tenantId pack d =
     bnd (resolveTenantId context
            (orElse tenantId (orElse (lpk_tenantId pack) (ctx_tenantId context))) True) (\<lambda>t.
     bnd (ensure (\<not> (truthy (lpk_tenantId pack) \<and> lpk_tenantId pack \<noteq> Some t))
            (BadRequestException ''Language pack tenant mismatch.'')) (\<lambda>_.
     let d1 = (case lpk_tenantPreferences pack of
                 None \<Rightarrow> d
               | Some p \<Rightarrow> import_setting now t (localizationPreferencesKey,
                   preferences_json (buildPreferencesValue (preferences_request p))) d)
     in bnd (foldE (import_store context now t) (lpk_storePreferences pack) d1) (\<lambda>d2.
        let d3 = fold (import_setting now t) (pack_settings pack) d2
        in Inr (pack\<lparr>lpk_tenantId := Some t, lpk_generatedAt := toISOString now\<rparr>,
             locale_audit context t None ''localization.language_pack_imported''
               ''localization_language_pack'' t
               [(''countryProfiles'', jint (int (length (lpk_countryProfiles pack)))),
                (''contentItems'', jint (int (length (lpk_content pack)))),
                (''templates'', jint (int (length (lpk_templates pack))))] d3))))"

section \<open>The context of a request\<close>

text \<open>
  \<open>Intl.NumberFormat\<close> and \<open>Intl.DateTimeFormat\<close> throw for a locale or a currency they do not
  accept.
\<close>

record platform =
  intl_money :: "string \<Rightarrow> string \<Rightarrow> error + string"
  intl_date :: "string \<Rightarrow> error + string"
  russian_address :: string

record FormattingPreview =
  fmt_moneyExample :: string
  fmt_dateExample :: string
  fmt_addressExample :: string
  fmt_phoneExample :: string

definition buildFormattingPreview ::
  "platform \<Rightarrow> string \<Rightarrow> string \<Rightarrow> string option \<Rightarrow> error + FormattingPreview" where
  "buildFormattingPreview pf locale currency countryCode =
     bnd (intl_money pf locale currency) (\<lambda>money.
     bnd (intl_date pf locale) (\<lambda>date.
     Inr \<lparr>fmt_moneyExample = money, fmt_dateExample = date,
          fmt_addressExample = (if countryCode = Some ''RU'' then russian_address pf
            else if countryCode = Some ''DE'' then ''Unter den Linden 1, Berlin''
            else ''221B Baker Street, London''),
          fmt_phoneExample = (if countryCode = Some ''RU'' then ''+7 913 555-01-01''
            else if countryCode = Some ''DE'' then ''+49 30 123456''
            else ''+1 415 555 0101'')\<rparr>))"

record ResolveLocalizationInput =
  rli_tenantId :: "uuid option"
  rli_storeId :: "uuid option"
  rli_locale :: "string option"
  rli_customerLocale :: "string option"
  rli_countryCode :: "string option"
  rli_channel :: "string option"
  rli_currency :: "string option"

record LocalizationContextDto =
  lc_tenantId :: uuid
  lc_storeId :: "uuid option"
  lc_locale :: string
  lc_fallbackLocale :: string
  lc_resolvedBy :: "string list"
  lc_countryCode :: "string option"
  lc_supportedLocales :: "string list"
  lc_currency :: string
  lc_tax :: TaxProfile
  lc_complianceFlags :: "string list"
  lc_formatting :: FormattingPreview
  lc_localeChain :: "string list"

definition channel_locale :: "LocalizationPreferencesValue \<Rightarrow> string option \<Rightarrow> string option" where
  "channel_locale preferences channel =
     (if truthy channel
      then normalizeLocaleTag (map_of (lp_channelLocales preferences) (nullish channel ''''))
      else None)"

definition localeCandidates ::
  "ResolveLocalizationInput \<Rightarrow> LocalizationPreferencesValue \<Rightarrow> LocalizationPreferencesValue \<Rightarrow>
   CountryProfileValue option \<Rightarrow> (string option \<times> string) list" where
  "localeCandidates input store tenant profile =
     [(normalizeLocaleTag (rli_locale input), ''query.locale''),
      (normalizeLocaleTag (rli_customerLocale input), ''query.customerLocale''),
      (channel_locale store (rli_channel input), ''store.preferences.channelLocale''),
      (Some (lp_defaultLocale store), ''store.preferences.defaultLocale''),
      (channel_locale tenant (rli_channel input), ''tenant.preferences.channelLocale''),
      (Some (lp_defaultLocale tenant), ''tenant.preferences.defaultLocale''),
      (map_option cp_defaultLocale profile, ''countryProfile.defaultLocale''),
      (Some (lp_fallbackLocale store), ''store.preferences.fallbackLocale''),
      (Some (lp_fallbackLocale tenant), ''tenant.preferences.fallbackLocale''),
      (Some ''en-US'', ''platform.defaultLocale'')]"

definition supportedLocales_of ::
  "LocalizationPreferencesValue \<Rightarrow> LocalizationPreferencesValue \<Rightarrow> CountryProfileValue option \<Rightarrow> string list" where
  "supportedLocales_of store tenant profile =
     normalizeSupportedLocales (map Some (lp_supportedLocales store @ lp_supportedLocales tenant @
         (case profile of None \<Rightarrow> [] | Some p \<Rightarrow> cp_supportedLocales p)))
       (Some (case profile of None \<Rightarrow> lp_defaultLocale store | Some p \<Rightarrow> cp_defaultLocale p))
       (Some (lp_fallbackLocale store))"

definition resolvedLocale_of ::
  "(string option \<times> string) list \<Rightarrow> string list \<Rightarrow> LocalizationPreferencesValue \<Rightarrow> string" where
  "resolvedLocale_of candidates supported tenant =
     (let first = nullish (Option.bind (find (\<lambda>e. fst e \<noteq> None) candidates) fst) (lp_defaultLocale tenant)
      in if supported \<noteq> [] \<and> first \<notin> set supported
         then nullish (Option.bind
           (find (\<lambda>l. truthy l \<and> the l \<in> set supported) (map fst candidates)) id) (hd supported)
         else first)"

fun resolvedBy_of :: "(string option \<times> string) list \<Rightarrow> string \<Rightarrow> string list" where
  "resolvedBy_of [] locale = []"
| "resolvedBy_of ((candidate, source) # rest) locale =
     (if \<not> truthy candidate then resolvedBy_of rest locale
      else if candidate = Some locale then [source]
      else source # resolvedBy_of rest locale)"

definition store_preferences_of ::
  "db \<Rightarrow> Store option \<Rightarrow> LocalizationPreferencesValue \<Rightarrow> error + LocalizationPreferencesValue" where
  "store_preferences_of d store tenantPreferences =
     parseLocalizationPreferences
       (map_option set_value (store_setting (map_option st_id store) localizationPreferencesKey d))
       (Some (tenantPreferences\<lparr>lp_timezone :=
          orElse (map_option st_timezone store) (lp_timezone tenantPreferences)\<rparr>))"

definition profile_of :: "uuid \<Rightarrow> string option \<Rightarrow> db \<Rightarrow> CountryProfileValue option result" where
  "profile_of t countryCode d =
     (case countryCode of
        None \<Rightarrow> Inr None
      | Some country \<Rightarrow>
          if country = '''' then Inr None
          else bnd (parseCountryProfile
            (map_option set_value (tenant_setting t (buildCountryProfileKey country) d)) country) (\<lambda>p. Inr (Some p)))"

definition currency_of ::
  "string option \<Rightarrow> LocalizationPreferencesValue \<Rightarrow> LocalizationPreferencesValue \<Rightarrow>
   CountryProfileValue option \<Rightarrow> string" where
  "currency_of requested store tenant profile =
     nullish (orElse (Option.bind requested
         (\<lambda>s. if trim s = '''' then None else Some (toUpperCase (trim s))))
       (orElse (lp_currency store) (orElse (lp_currency tenant) (map_option cp_currency profile)))) ''USD''"

definition resolveContextTx ::
  "platform \<Rightarrow> RequestContext \<Rightarrow> ResolveLocalizationInput \<Rightarrow> db \<Rightarrow> LocalizationContextDto result" where
  "resolveContextTx pf context input d =
     bnd (resolveScopeTx context (rli_tenantId input) (rli_storeId input) d) (\<lambda>(t, store).
     bnd (parseLocalizationPreferences
            (map_option set_value (tenant_setting t localizationPreferencesKey d)) None) (\<lambda>tenantPreferences.
     bnd (store_preferences_of d store tenantPreferences) (\<lambda>storePreferences.
     let countryCode = orElse (normalizeCountryCode (rli_countryCode input))
           (orElse (lp_countryCode storePreferences) (lp_countryCode tenantPreferences)) in
     bnd (profile_of t countryCode d) (\<lambda>profile.
     let candidates = localeCandidates input storePreferences tenantPreferences profile;
         supported = supportedLocales_of storePreferences tenantPreferences profile;
         locale = resolvedLocale_of candidates supported tenantPreferences;
         fallbackLocale = lp_fallbackLocale storePreferences;
         currency = currency_of (rli_currency input) storePreferences tenantPreferences profile in
     bnd (buildFormattingPreview pf locale currency countryCode) (\<lambda>formatting.
     Inr \<lparr>lc_tenantId = t, lc_storeId = map_option st_id store, lc_locale = locale,
          lc_fallbackLocale = fallbackLocale, lc_resolvedBy = resolvedBy_of candidates locale,
          lc_countryCode = countryCode, lc_supportedLocales = supported, lc_currency = currency,
          lc_tax = (case profile of Some p \<Rightarrow> cp_tax p
            | None \<Rightarrow> \<lparr>tx_mode = ''NONE'', tx_ratePercent = None, tx_label = None\<rparr>),
          lc_complianceFlags = (case profile of None \<Rightarrow> [] | Some p \<Rightarrow> cp_complianceFlags p),
          lc_formatting = formatting,
          lc_localeChain = dedupeStrings [Some locale, Some fallbackLocale,
            map_option cp_defaultLocale profile, Some ''en-US'']\<rparr>)))))"

definition resolveContext ::
  "platform \<Rightarrow> RequestContext \<Rightarrow> ResolveLocalizationInput \<Rightarrow> db \<Rightarrow> LocalizationContextDto result" where
  "resolveContext pf context query d = resolveContextTx pf context query d"

section \<open>The texts of catalogue entries\<close>

type_synonym localized_texts =
  "((LocalizedContentTargetType \<times> string) \<times> (string option \<times> (string \<times> string) list)) list"

definition resolveLocalizedContentForTargetsTx ::
  "uuid \<Rightarrow> (LocalizedContentTargetType \<times> string) list \<Rightarrow> string list \<Rightarrow> db \<Rightarrow> localized_texts" where
  "resolveLocalizedContentForTargetsTx tenantId targets localeChain d =
     (let keys = dedupeStrings (map (\<lambda>(t, i). Some (buildLocalizedContentKey t i)) targets)
      in List.map_filter (\<lambda>s. map_option (\<lambda>target.
           let entry = resolveLocalizedEntry (parseLocalizedContentValue (Some (set_value s))) localeChain
           in (target, (map_option fst entry, (case entry of None \<Rightarrow> [] | Some e \<Rightarrow> snd e))))
           (parseLocalizedContentKey (set_key s)))
         (filter (\<lambda>s. set_ownerId s = tenantId \<and> set_key s \<in> set keys) (tenantSettings d)))"

definition localized_fields :: "localized_texts \<Rightarrow> LocalizedContentTargetType \<Rightarrow> uuid \<Rightarrow> (string \<times> string) list" where
  "localized_fields texts t i = (case js_map texts (t, i) of None \<Rightarrow> [] | Some x \<Rightarrow> snd x)"

section \<open>Rendering\<close>

record RenderLocalizedTemplateDto =
  rlt_tenantId :: "uuid option"
  rlt_storeId :: "uuid option"
  rlt_templateKey :: string
  rlt_channel :: "string option"
  rlt_locale :: "string option"
  rlt_customerLocale :: "string option"
  rlt_countryCode :: "string option"
  rlt_variables :: "(string \<times> json) list"

record RenderedTemplate =
  rt_subject :: "string option"
  rt_title :: "string option"
  rt_body :: "string option"
  rt_sms :: "string option"
  rt_pushTitle :: "string option"
  rt_pushBody :: "string option"

record RenderLocalizedTemplateResponse =
  rlr_tenantId :: uuid
  rlr_storeId :: "uuid option"
  rlr_templateKey :: string
  rlr_channel :: "string option"
  rlr_locale :: string
  rlr_fallbackLocale :: string
  rlr_rendered :: RenderedTemplate

definition render_entry :: "(string \<times> json) list \<Rightarrow> (string \<times> json) list \<Rightarrow> RenderedTemplate result" where
  "render_entry entry variables =
     bnd (interpolateTemplate (map_of entry ''subject'') variables) (\<lambda>subject.
     bnd (interpolateTemplate (map_of entry ''title'') variables) (\<lambda>title.
     bnd (interpolateTemplate (map_of entry ''body'') variables) (\<lambda>body.
     bnd (interpolateTemplate (map_of entry ''sms'') variables) (\<lambda>sms.
     bnd (interpolateTemplate (map_of entry ''pushTitle'') variables) (\<lambda>pushTitle.
     bnd (interpolateTemplate (map_of entry ''pushBody'') variables) (\<lambda>pushBody.
     Inr \<lparr>rt_subject = subject, rt_title = title, rt_body = body, rt_sms = sms,
          rt_pushTitle = pushTitle, rt_pushBody = pushBody\<rparr>))))))"

definition template_setting :: "uuid \<Rightarrow> string option \<Rightarrow> string \<Rightarrow> db \<Rightarrow> Setting option" where
  "template_setting tenantId channel templateKey d =
     (let templateKeys = dedupeStrings [Some (buildLocalizedTemplateKey channel templateKey),
            Some (buildLocalizedTemplateKey None templateKey)];
          settings = filter (\<lambda>s. set_ownerId s = tenantId \<and> set_key s \<in> set templateKeys) (tenantSettings d)
      in orElse (find (\<lambda>s. map_option fst (parseLocalizedTemplateKey (set_key s)) = Some channel) settings)
                (find (\<lambda>s. map_option fst (parseLocalizedTemplateKey (set_key s)) = Some None) settings))"

definition renderTemplate ::
  "platform \<Rightarrow> RequestContext \<Rightarrow> RenderLocalizedTemplateDto \<Rightarrow> db \<Rightarrow> RenderLocalizedTemplateResponse result" where
  "renderTemplate pf context dto d =
     bnd (resolveContextTx pf context
       \<lparr>rli_tenantId = rlt_tenantId dto, rli_storeId = rlt_storeId dto, rli_locale = rlt_locale dto,
        rli_customerLocale = rlt_customerLocale dto, rli_countryCode = rlt_countryCode dto,
        rli_channel = rlt_channel dto, rli_currency = None\<rparr> d) (\<lambda>localization.
     bnd (orThrow (template_setting (lc_tenantId localization) (rlt_channel dto) (rlt_templateKey dto) d)
            (BadRequestException ''Localized template was not found.'')) (\<lambda>setting.
     bnd (orThrow (parseLocalizedTemplateKey (set_key setting))
            (BadRequestException ''Localized template key is invalid.'')) (\<lambda>(channel, templateKey).
     let template = parseLocalizedTemplateValue (Some (set_value setting)) channel in
     bnd (orThrow (resolveLocalizedEntry (lt_entries template) (lc_localeChain localization))
            (BadRequestException ''Localized template has no entries.'')) (\<lambda>(locale, entry).
     bnd (render_entry entry (rlt_variables dto)) (\<lambda>rendered.
     Inr \<lparr>rlr_tenantId = lc_tenantId localization, rlr_storeId = lc_storeId localization,
          rlr_templateKey = templateKey, rlr_channel = lt_channel template, rlr_locale = locale,
          rlr_fallbackLocale = lc_fallbackLocale localization, rlr_rendered = rendered\<rparr>)))))"

end
