(* ===== verification/LocaleLaws.thy ===== *)
theory LocaleLaws
  imports LocaleContext FulfillmentLaws
begin

text \<open>
  The normal forms of the localization service: normalising a tag, a list of tags or stored entries
  a second time changes nothing, so every value reads back as it was written, and the keys of the
  settings name what they were built from.
\<close>

section \<open>Characters and trimming\<close>

lemma code_int_eq: "code c = code d \<longleftrightarrow> c = d"
  by (metis char_of_code)

lemma char_of_upper: "is_lower c \<Longrightarrow> code (char_of (code c - 32)) = code c - 32"
  using code_bounds [of c] by (intro code_char_of) (auto simp: is_lower_def)

lemma char_of_lower: "is_upper c \<Longrightarrow> code (char_of (code c + 32)) = code c + 32"
  by (intro code_char_of) (auto simp: is_upper_def)

lemma case_space [simp]: "js_space (upper_char c) = js_space c" "js_space (lower_char c) = js_space c"
  using char_of_upper [of c] char_of_lower [of c]
  by (auto simp: upper_char_def lower_char_def js_space_def is_lower_def is_upper_def)

lemma case_twice [simp]: "upper_char (upper_char c) = upper_char c" "lower_char (lower_char c) = lower_char c"
  using char_of_upper [of c] char_of_lower [of c]
  by (auto simp: upper_char_def lower_char_def is_lower_def is_upper_def)

lemma case_dash [simp]:
  "upper_char c = CHR ''-'' \<longleftrightarrow> c = CHR ''-''" "lower_char c = CHR ''-'' \<longleftrightarrow> c = CHR ''-''"
  "upper_char c = CHR ''_'' \<longleftrightarrow> c = CHR ''_''" "lower_char c = CHR ''_'' \<longleftrightarrow> c = CHR ''_''"
proof -
  have k: "code (CHR ''-'') = 45" "code (CHR ''_'') = 95" by (simp_all add: code_def)
  show "upper_char c = CHR ''-'' \<longleftrightarrow> c = CHR ''-''" "lower_char c = CHR ''-'' \<longleftrightarrow> c = CHR ''-''"
    "upper_char c = CHR ''_'' \<longleftrightarrow> c = CHR ''_''" "lower_char c = CHR ''_'' \<longleftrightarrow> c = CHR ''_''"
    using char_of_upper [of c] char_of_lower [of c]
    by (auto simp: code_int_eq [symmetric] k upper_char_def lower_char_def is_lower_def is_upper_def)
qed

lemmas dash_case [simp] = case_dash [unfolded eq_commute [of "upper_char _"] eq_commute [of "lower_char _"]]

lemma dash_fixed [simp]: "lower_char (CHR ''-'') = CHR ''-''" "upper_char (CHR ''-'') = CHR ''-''"
  by simp_all

lemma case_map [simp]:
  "toUpperCase (toUpperCase s) = toUpperCase s" "toLowerCase (toLowerCase s) = toLowerCase s"
  "length (toUpperCase s) = length s" "length (toLowerCase s) = length s"
  "toUpperCase s = [] \<longleftrightarrow> s = []" "toLowerCase s = [] \<longleftrightarrow> s = []"
  by (simp_all add: toUpperCase_def toLowerCase_def)

definition trimmed :: "string \<Rightarrow> bool" where
  "trimmed s \<longleftrightarrow> s \<noteq> [] \<longrightarrow> \<not> js_space (hd s) \<and> \<not> js_space (last s)"

lemma trimmed_trim [simp]: "trimmed (trim s)"
proof -
  let ?a = "dropWhile js_space s"
  have "\<not> js_space (last (trim s))" if n: "trim s \<noteq> []"
    using n hd_dropWhile [of js_space "rev ?a"] by (simp add: trim_def last_rev)
  moreover have "\<not> js_space (hd (trim s))" if n: "trim s \<noteq> []"
  proof -
    obtain y where y: "?a = trim s @ y" unfolding trim_def
      by (metis rev_append rev_rev_ident takeWhile_dropWhile_id)
    then have "?a \<noteq> []" "hd (trim s) = hd ?a" using n by auto
    then show ?thesis using hd_dropWhile [of js_space s] by simp
  qed
  ultimately show ?thesis by (simp add: trimmed_def)
qed

lemma trim_id [simp]: "trimmed s \<Longrightarrow> trim s = s"
proof -
  assume "trimmed s"
  then have "dropWhile js_space s = s" "dropWhile js_space (rev s) = rev s"
    by (auto simp: trimmed_def dropWhile_eq_self_iff hd_rev)
  then show ?thesis by (simp add: trim_def)
qed

text \<open>A change of characters that keeps the blanks keeps a trimmed string trimmed.\<close>

lemma trimmed_same_blanks:
  assumes "list_all2 (\<lambda>a b. js_space a = js_space b) s t" and "trimmed s"
  shows "trimmed t"
proof (cases "s = []")
  case False
  have "js_space (hd s) = js_space (hd t)" using assms(1) False by (cases s) (auto simp: list_all2_Cons1)
  moreover have "js_space (last s) = js_space (last t)"
    using assms(1) False by (cases s rule: rev_cases) (auto simp: list_all2_append1 list_all2_Cons1)
  moreover have "t \<noteq> []" using assms(1) False by auto
  ultimately have "t \<noteq> []" "js_space (hd s) = js_space (hd t)" "js_space (last s) = js_space (last t)" by auto
  with assms(2) False show ?thesis by (simp add: trimmed_def)
qed (use assms in \<open>simp add: trimmed_def\<close>)

section \<open>Locale tags\<close>

lemma normal_segment_length [simp]: "length (normal_segment s) = length s"
  by (simp add: normal_segment_def)

lemma normal_segment_twice [simp]: "normal_segment (normal_segment s) = normal_segment s"
  by (simp add: normal_segment_def)

lemma normal_segment_chars:
  "list_all2 (\<lambda>a b. js_space a = js_space b \<and> (b = CHR ''-'' \<longleftrightarrow> a = CHR ''-'') \<and> (b = CHR ''_'' \<longleftrightarrow> a = CHR ''_''))
     s (normal_segment s)"
  by (auto simp: normal_segment_def toUpperCase_def list_all2_map2 list_all2_same)

lemma lower_chars:
  "list_all2 (\<lambda>a b. js_space a = js_space b \<and> (b = CHR ''-'' \<longleftrightarrow> a = CHR ''-'') \<and> (b = CHR ''_'' \<longleftrightarrow> a = CHR ''_''))
     s (toLowerCase s)"
  by (auto simp: toLowerCase_def list_all2_map2 list_all2_same)

lemma list_all2_join:
  assumes "list_all2 (list_all2 P) xs ys" and "list_all2 P sep sep"
  shows "list_all2 P (join_with sep xs) (join_with sep ys)"
  using assms
proof (induction sep xs arbitrary: ys rule: join_with.induct)
  case (3 sep x y xs)
  then obtain b c ys' where ys: "ys = b # c # ys'" by (auto simp: list_all2_Cons1)
  with 3 show ?case by (auto intro!: list_all2_appendI)
qed (auto simp: list_all2_Cons1)

lemma no_char: "list_all2 (\<lambda>a b. P a b \<and> (b = c \<longleftrightarrow> a = c)) s t \<Longrightarrow> c \<notin> set s \<Longrightarrow> c \<notin> set t"
  by (induction rule: list_all2_induct) auto

lemma dashed_id: "CHR ''_'' \<notin> set s \<Longrightarrow> dashed s = s"
  by (induction s) (auto simp: dashed_def)

lemma dashed_trimmed: "trimmed s \<Longrightarrow> trimmed (dashed s)"
  by (rule trimmed_same_blanks)
    (auto simp: dashed_def list_all2_map2 list_all2_same js_space_def code_def)

text \<open>The form \<open>normalizeLocaleTag\<close> gives a tag.\<close>

lemma normalizeLocaleTag_Some:
  assumes "normalizeLocaleTag m = Some n"
  obtains l rest where "l \<noteq> []" "CHR ''-'' \<notin> set l" "\<forall>x \<in> set rest. CHR ''-'' \<notin> set x"
    "n = join_with ''-'' (toLowerCase l # map normal_segment rest)" "trimmed n" "CHR ''_'' \<notin> set n"
proof -
  from assms obtain s where m: "m = Some s" by (cases m) (simp_all add: normalizeLocaleTag_def)
  let ?t = "dashed (trim s)"
  obtain l rest where sp: "split_on (CHR ''-'') ?t = l # rest" and l: "l \<noteq> []"
    and n: "n = join_with ''-'' (toLowerCase l # map normal_segment rest)"
    using assms by (auto simp: m normalizeLocaleTag_def split: if_splits list.splits)
  have parts: "CHR ''-'' \<notin> set x" if "x \<in> set (l # rest)" for x
    using that sp split_on_parts [of x "CHR ''-''" ?t] by simp
  have t: "?t = join_with ''-'' (l # rest)" using join_split [of "CHR ''-''" ?t] sp by simp
  have same: "list_all2 (\<lambda>a b. js_space a = js_space b \<and> (b = CHR ''-'' \<longleftrightarrow> a = CHR ''-'') \<and>
      (b = CHR ''_'' \<longleftrightarrow> a = CHR ''_'')) ?t n"
    unfolding t n
    by (rule list_all2_join)
      (auto simp: lower_chars normal_segment_chars list_all2_map2 list_all2_same)
  have "trimmed n"
    by (rule trimmed_same_blanks [OF list_all2_mono [OF same]]) (simp_all add: dashed_trimmed)
  moreover have "CHR ''_'' \<notin> set n"
    by (rule no_char [OF list_all2_mono [OF same], where P = "\<lambda>_ _. True"]) (auto simp: dashed_def)
  ultimately show thesis using parts by (intro that [OF l _ _ n]) auto
qed

lemma normalizeLocaleTag_idem: "normalizeLocaleTag m = Some n \<Longrightarrow> normalizeLocaleTag (Some n) = Some n"
proof -
  assume "normalizeLocaleTag m = Some n"
  then obtain l rest where l: "l \<noteq> []" "CHR ''-'' \<notin> set l" "\<forall>x \<in> set rest. CHR ''-'' \<notin> set x"
    and n: "n = join_with ''-'' (toLowerCase l # map normal_segment rest)" "trimmed n" "CHR ''_'' \<notin> set n"
    by (rule normalizeLocaleTag_Some)
  have d: "CHR ''-'' \<notin> set x" if x: "x \<in> set (toLowerCase l # map normal_segment rest)" for x
  proof -
    consider "x = toLowerCase l" | y where "y \<in> set rest" "x = normal_segment y" using x by auto
    then show ?thesis
    proof cases
      case 1
      then show ?thesis using l(2) by (auto simp: toLowerCase_def)
    next
      case 2
      then show ?thesis using l(3) by (auto simp: normal_segment_def toUpperCase_def)
    qed
  qed
  have sp: "split_on (CHR ''-'') n = toLowerCase l # map normal_segment rest"
    unfolding n(1) by (rule split_join) (use d in auto)
  moreover have "n \<noteq> []" using l(1) n(1) by (cases rest) auto
  ultimately show ?thesis
    using l(1) n by (simp add: normalizeLocaleTag_def dashed_id comp_def)
qed

lemma normalizeLocaleTag_nonempty: "normalizeLocaleTag m = Some n \<Longrightarrow> n \<noteq> []"
  by (erule normalizeLocaleTag_Some) (metis append_is_Nil_conv case_map(6) join_with.simps(2,3) list.exhaust)

definition normal_locale :: "string \<Rightarrow> bool" where
  "normal_locale l \<longleftrightarrow> normalizeLocaleTag (Some l) = Some l"

lemma normal_localeI [simp]: "normalizeLocaleTag m = Some n \<Longrightarrow> normal_locale n"
  by (simp add: normal_locale_def normalizeLocaleTag_idem)

lemma tag_en_US [simp]: "normalizeLocaleTag (Some ''en-US'') = Some ''en-US''"
  by code_simp

lemma normal_en_US [simp]: "normal_locale ''en-US''"
  by (simp add: normal_locale_def)

lemma normal_nonempty: "normal_locale l \<Longrightarrow> l \<noteq> []"
  using normalizeLocaleTag_nonempty by (auto simp: normal_locale_def)

lemma normal_key_twice [simp]: "normal_key (normal_key s) = normal_key s"
  using normalizeLocaleTag_idem [of "Some s"]
  by (cases "normalizeLocaleTag (Some s)") (auto simp: normal_key_def)

section \<open>Lists without duplicates\<close>

lemma dedupeStrings_snoc:
  "dedupeStrings (vs @ [v]) = (if \<not> truthy v \<or> the v \<in> set (dedupeStrings vs) then dedupeStrings vs
     else dedupeStrings vs @ [the v])"
  by (simp add: dedupeStrings_def)

lemma dedupeStrings_Nil [simp]: "dedupeStrings [] = []"
  by (simp add: dedupeStrings_def)

lemma set_dedupeStrings: "set (dedupeStrings vs) = {s. Some s \<in> set vs \<and> s \<noteq> []}"
  by (induction vs rule: rev_induct) (auto simp: dedupeStrings_snoc truthy_def split: option.splits)

lemma hd_dedupeStrings: "s \<noteq> [] \<Longrightarrow> hd (dedupeStrings (Some s # vs)) = s"
proof -
  assume s: "s \<noteq> []"
  have "\<exists>xs. dedupeStrings (Some s # vs) = s # xs"
  proof (induction vs rule: rev_induct)
    case (snoc v vs)
    then show ?case using dedupeStrings_snoc [of "Some s # vs" v] by auto
  qed (use s in \<open>simp add: dedupeStrings_def truthy_def\<close>)
  then show ?thesis by auto
qed

lemma distinct_dedupeStrings [simp]: "distinct (dedupeStrings vs)"
  by (induction vs rule: rev_induct) (auto simp: dedupeStrings_snoc)

lemma dedupeStrings_id: "distinct xs \<Longrightarrow> [] \<notin> set xs \<Longrightarrow> dedupeStrings (map Some xs) = xs"
  by (induction xs rule: rev_induct) (auto simp: dedupeStrings_snoc set_dedupeStrings)

lemma dedupeStrings_extra:
  "(\<And>y. y \<in> set ys \<Longrightarrow> truthy y \<Longrightarrow> y \<in> set xs) \<Longrightarrow> dedupeStrings (xs @ ys) = dedupeStrings xs"
proof (induction ys rule: rev_induct)
  case (snoc y ys)
  have "dedupeStrings (xs @ ys) = dedupeStrings xs" using snoc by auto
  moreover have "the y \<in> set (dedupeStrings xs)" if "truthy y"
    using snoc.prems [of y] that by (auto simp: set_dedupeStrings truthy_iff)
  ultimately show ?case
    using dedupeStrings_snoc [of "xs @ ys" y] by (auto simp: append_assoc)
qed simp

lemma dedupe_twice: "dedupeStrings (map Some (dedupeStrings vs)) = dedupeStrings vs"
  by (rule dedupeStrings_id) (auto simp: set_dedupeStrings)

section \<open>Supported locales\<close>

lemma supported_normal: "l \<in> set (normalizeSupportedLocales ls a b) \<Longrightarrow> normal_locale l"
  by (auto simp: normalizeSupportedLocales_def set_dedupeStrings)

lemma supported_member:
  "normal_locale l \<Longrightarrow> Some l \<in> set (ls @ [a, b]) \<Longrightarrow> l \<in> set (normalizeSupportedLocales ls a b)"
  using normal_nonempty [of l]
  by (auto simp: normalizeSupportedLocales_def set_dedupeStrings normal_locale_def image_iff) (metis+)

lemma supported_distinct [simp]: "distinct (normalizeSupportedLocales ls a b)"
  by (simp add: normalizeSupportedLocales_def)

text \<open>A list in normal form that holds both defaults is its own normal form.\<close>

lemma supported_again:
  assumes "distinct ls" and "\<And>l. l \<in> set ls \<Longrightarrow> normal_locale l" and "a \<in> set ls" and "b \<in> set ls"
  shows "normalizeSupportedLocales (map Some ls) (Some a) (Some b) = ls"
proof -
  have m: "map normalizeLocaleTag (map Some ls @ [Some a, Some b]) = map Some ls @ [Some a, Some b]"
    using assms by (auto simp: normal_locale_def)
  have "dedupeStrings (map Some ls @ [Some a, Some b]) = dedupeStrings (map Some ls)"
    by (rule dedupeStrings_extra) (use assms(3,4) in auto)
  also have "\<dots> = ls" using assms(1,2) normal_nonempty by (intro dedupeStrings_id) auto
  finally show ?thesis unfolding normalizeSupportedLocales_def m .
qed

section \<open>Objects\<close>

lemma fst_set_entry: "fst ` set (set_entry k v kvs) = insert k (fst ` set kvs)"
  by (induction k v kvs rule: set_entry.induct) auto

lemma distinct_set_entry: "distinct (map fst kvs) \<Longrightarrow> distinct (map fst (set_entry k v kvs))"
proof (induction k v kvs rule: set_entry.induct)
  case (2 k v k' v' kvs)
  then show ?case using fst_set_entry [of k v kvs] by (auto simp: set_map [symmetric] simp del: set_map)
qed simp

lemma set_set_entry: "set (set_entry k v kvs) \<subseteq> insert (k, v) (set kvs)"
  by (induction k v kvs rule: set_entry.induct) auto

lemma set_entry_new: "k \<notin> fst ` set kvs \<Longrightarrow> set_entry k v kvs = kvs @ [(k, v)]"
  by (induction k v kvs rule: set_entry.induct) auto

lemma map_of_set_entry: "map_of (set_entry k v kvs) = (map_of kvs)(k \<mapsto> v)"
  by (induction k v kvs rule: set_entry.induct) auto

lemma fromEntries_snoc: "fromEntries (kvs @ [(k, v)]) = set_entry k v (fromEntries kvs)"
  by (simp add: fromEntries_def)

lemma distinct_fromEntries [simp]: "distinct (map fst (fromEntries kvs))"
proof (induction kvs rule: rev_induct)
  case (snoc kv kvs)
  then show ?case by (cases kv) (simp add: fromEntries_snoc distinct_set_entry)
qed (simp add: fromEntries_def)

lemma set_fromEntries: "set (fromEntries kvs) \<subseteq> set kvs"
proof (induction kvs rule: rev_induct)
  case (snoc kv kvs)
  then show ?case using set_set_entry by (cases kv) (fastforce simp: fromEntries_snoc)
qed (simp add: fromEntries_def)

lemma fromEntries_id: "distinct (map fst kvs) \<Longrightarrow> fromEntries kvs = kvs"
proof (induction kvs rule: rev_induct)
  case (snoc kv kvs)
  then show ?case by (cases kv) (auto simp: fromEntries_snoc set_entry_new)
qed (simp add: fromEntries_def)

lemma jstring_JStr [simp]: "jstring (Some (JStr s)) = Some s"
  by (simp add: jstring_def)

lemma jstring_jopt [simp]: "jstring (Some (jopt m)) = m"
  by (cases m) (simp_all add: jstring_def jopt_def)

lemma asStringRecord_strings [simp]: "asStringRecord (JObj (map (apsnd JStr) fs)) = fs"
  by (induction fs) (auto simp: asStringRecord_def object_entries_def map_filter_simps)

lemma content_round:
  "parseLocalizedContentValue (Some (content_json (content_entries_of raw))) = content_entries_of raw"
proof -
  let ?e = "content_entries_of raw"
  have k: "normal_key l = l" if "(l, fs) \<in> set ?e" for l fs
    using that set_fromEntries [of "map (\<lambda>(locale, fields). (normal_key locale, asStringRecord fields)) raw"]
    by (auto simp: content_entries_of_def)
  have "map (\<lambda>(locale, fields). (normal_key locale, asStringRecord fields))
      (map (apsnd (\<lambda>fields. JObj (map (apsnd JStr) fields))) ?e) = ?e"
    using k by (auto intro!: map_idI)
  moreover have "fromEntries ?e = ?e"
    by (rule fromEntries_id) (simp add: content_entries_of_def)
  ultimately show ?thesis
    by (simp add: parseLocalizedContentValue_def content_json_def field_def jfield_def object_entries_def
        content_entries_of_def [of "map _ _"])
qed

lemma strings_array [simp]: "asStringArray (Some (JArr (map JStr xs))) = xs"
  by (induction xs) (simp_all add: asStringArray_def map_filter_simps)

lemma template_round:
  assumes "lt_channel v = ch" and "lt_entries v = template_entries_of raw"
  shows "parseLocalizedTemplateValue (Some (template_json v)) ch = LocalizedTemplateValue.truncate v"
proof -
  let ?e = "template_entries_of raw"
  have k: "normal_key l = l" if "(l, fs) \<in> set ?e" for l fs
    using that set_fromEntries [of "map (\<lambda>(locale, t). (normal_key locale, object_entries (Some t))) raw"]
    by (auto simp: template_entries_of_def)
  have "map (\<lambda>(locale, t). (normal_key locale, object_entries (Some t))) (map (apsnd JObj) ?e) = ?e"
    using k by (auto simp: object_entries_def intro!: map_idI)
  moreover have "fromEntries ?e = ?e"
    by (rule fromEntries_id) (simp add: template_entries_of_def)
  ultimately have "template_entries_of (map (apsnd JObj) ?e) = ?e"
    by (simp add: template_entries_of_def [of "map _ _"])
  then show ?thesis
    using assms by (simp add: parseLocalizedTemplateValue_def template_json_def field_def jfield_def
        object_entries_def list_all_iff LocalizedTemplateValue.defs)
qed

section \<open>Values read back as they were built\<close>

lemma mapE_locale_element: "mapE locale_element (map JStr xs) = Inr (map Some xs)"
  by (induction xs) (simp_all add: locale_element_def)

lemma stored_locales_strings [simp]: "stored_locales (Some (JArr (map JStr xs))) = Inr (map Some xs)"
  by (simp add: stored_locales_def mapE_locale_element)

lemma channel_locales_again [simp]:
  "buildChannelLocales (Some (JObj (map (apsnd JStr) (buildChannelLocales v)))) = buildChannelLocales v"
proof -
  let ?f = "\<lambda>(channel, x). if channel \<in> set customizationChannels
       then map_option (\<lambda>s. (channel, nullish (normalizeLocaleTag (Some s)) s)) (jstring (Some x)) else None"
  let ?c = "buildChannelLocales v"
  have c: "c \<in> set customizationChannels" "nullish (normalizeLocaleTag (Some l)) l = l" if "(c, l) \<in> set ?c" for c l
  proof -
    have "(c, l) \<in> set (List.map_filter ?f (object_entries v))"
      using that set_fromEntries unfolding buildChannelLocales_def by blast
    then obtain s where "c \<in> set customizationChannels" "l = normal_key s"
      by (fastforce simp: map_filter_def normal_key_def split: if_splits)
    then show "c \<in> set customizationChannels" "nullish (normalizeLocaleTag (Some l)) l = l"
      using normal_key_twice [of s, unfolded normal_key_def [of "normal_key s"]] by simp_all
  qed
  have "List.map_filter ?f (map (apsnd JStr) xs) = xs" if "set xs \<subseteq> set ?c" for xs
    using that c by (induction xs) (auto simp: map_filter_simps)
  moreover have "fromEntries ?c = ?c" by (rule fromEntries_id) (simp add: buildChannelLocales_def)
  ultimately show ?thesis by (simp add: buildChannelLocales_def [of "Some _"] object_entries_def)
qed

lemma trim_upper [simp]: "trim (toUpperCase (trim s)) = toUpperCase (trim s)"
  by (rule trim_id, rule trimmed_same_blanks [of "trim s"])
    (simp_all add: toUpperCase_def list_all2_map2 list_all2_same)

lemma country_twice [simp]: "normalizeCountryCode (normalizeCountryCode m) = normalizeCountryCode m"
  by (cases m) (auto simp: normalizeCountryCode_def)

lemma preferences_round:
  "parseLocalizationPreferences (Some (preferences_json (buildPreferencesValue dto))) None =
     Inr (buildPreferencesValue dto)"
proof -
  let ?v = "buildPreferencesValue dto"
  define a where "a = nullish (normalizeLocaleTag (Some (ulp_defaultLocale dto))) ''en-US''"
  define b where "b = nullish (normalizeLocaleTag (ulp_fallbackLocale dto)) a"
  have v: "lp_defaultLocale ?v = a" "lp_fallbackLocale ?v = b"
    "lp_supportedLocales ?v = normalizeSupportedLocales (map Some (nullish (ulp_supportedLocales dto) []))
       (Some a) (Some b)"
    by (simp_all add: buildPreferencesValue_def a_def b_def Let_def)
  have a: "normal_locale a" by (cases "normalizeLocaleTag (Some (ulp_defaultLocale dto))") (simp_all add: a_def)
  have b: "normal_locale b" by (cases "normalizeLocaleTag (ulp_fallbackLocale dto)") (simp_all add: b_def a)
  have sup: "normalizeSupportedLocales (map Some (lp_supportedLocales ?v)) (Some a) (Some b) = lp_supportedLocales ?v"
    unfolding v by (rule supported_again) (auto intro: supported_normal supported_member a b)
  have cur: "map_option (\<lambda>s. toUpperCase (trim s)) (lp_currency ?v) = lp_currency ?v"
    by (cases "ulp_currency dto") (simp_all add: buildPreferencesValue_def Let_def)
  have f: "field (Some (preferences_json ?v)) ''defaultLocale'' = Some (JStr a)"
    "field (Some (preferences_json ?v)) ''fallbackLocale'' = Some (JStr b)"
    "field (Some (preferences_json ?v)) ''supportedLocales'' = Some (JArr (map JStr (lp_supportedLocales ?v)))"
    "field (Some (preferences_json ?v)) ''countryCode'' = Some (jopt (lp_countryCode ?v))"
    "field (Some (preferences_json ?v)) ''currency'' = Some (jopt (lp_currency ?v))"
    "field (Some (preferences_json ?v)) ''timezone'' = Some (jopt (lp_timezone ?v))"
    "field (Some (preferences_json ?v)) ''channelLocales'' = Some (JObj (map (apsnd JStr) (lp_channelLocales ?v)))"
    by (simp_all add: field_def jfield_def preferences_json_def v)
  have country: "normalizeCountryCode (lp_countryCode ?v) = lp_countryCode ?v"
    by (simp add: buildPreferencesValue_def Let_def)
  have ch: "buildChannelLocales (Some (JObj (map (apsnd JStr) (lp_channelLocales ?v)))) = lp_channelLocales ?v"
    by (simp add: buildPreferencesValue_def Let_def)
  have money: "(case lp_currency ?v of
      None \<Rightarrow> Option.bind (None :: LocalizationPreferencesValue option) lp_currency | Some s \<Rightarrow> Some (toUpperCase (trim s))) = lp_currency ?v"
    using cur by (cases "lp_currency ?v") simp_all
  have el: "orElse m None = m" for m :: "string option" by (cases m) simp_all
  have n: "normalizeLocaleTag (Some a) = Some a" "normalizeLocaleTag (Some b) = Some b"
    using a b by (simp_all add: normal_locale_def)
  have whole: "\<lparr>lp_defaultLocale = a, lp_fallbackLocale = b, lp_supportedLocales = lp_supportedLocales ?v,
      lp_countryCode = lp_countryCode ?v, lp_currency = lp_currency ?v, lp_timezone = lp_timezone ?v,
      lp_channelLocales = lp_channelLocales ?v\<rparr> = ?v"
    by (rule LocalizationPreferencesValue.equality) (simp_all add: v(1,2))
  show ?thesis
    unfolding parseLocalizationPreferences_def f by (simp add: el Let_def n sup country ch money whole)
qed

text \<open>
  A country profile reads back when it has a currency and a default locale of its own: without them
  the reader puts in \<open>USD\<close> and \<open>en-US\<close>.
\<close>

lemma tax_round [simp]: "parse_tax (Some (tax_json (parse_tax v))) = parse_tax v"
proof -
  have "tax_mode (Some (JStr (tax_mode m))) = tax_mode m" for m
    by (auto simp: tax_mode_def split: option.splits)
  then show ?thesis
    by (cases "jnumber (field v ''ratePercent'')")
      (simp_all add: parse_tax_def tax_json_def field_def jfield_def jnumber_def)
qed

lemma country_profile_round:
  assumes l: "normalizeLocaleTag (Some (ucp_defaultLocale dto)) = Some l" and c: "trim (ucp_currency dto) \<noteq> ''''"
    and m: "jrecord (nullish (ucp_metadata dto) (JObj []))"
  shows "parseCountryProfile (Some (country_profile_json (country_profile_value dto))) code' =
    Inr (country_profile_value dto)"
proof -
  let ?v = "country_profile_value dto"
  let ?s = "toUpperCase (trim (ucp_currency dto))"
  have up: "trim ?s = ?s"
    by (rule trim_id, rule trimmed_same_blanks [of "trim (ucp_currency dto)"])
      (simp_all add: toUpperCase_def list_all2_map2 list_all2_same)
  have f: "field (Some (country_profile_json ?v)) ''defaultLocale'' = Some (JStr l)"
    "field (Some (country_profile_json ?v)) ''supportedLocales'' = Some (JArr (map JStr (cp_supportedLocales ?v)))"
    "field (Some (country_profile_json ?v)) ''currency'' = Some (JStr ?s)"
    "field (Some (country_profile_json ?v)) ''tax'' = Some (tax_json (parse_tax (ucp_tax dto)))"
    "field (Some (country_profile_json ?v)) ''complianceFlags'' = Some (JArr (map JStr (cp_complianceFlags ?v)))"
    "field (Some (country_profile_json ?v)) ''metadata'' = Some (nullish (ucp_metadata dto) (JObj []))"
    by (simp_all add: field_def jfield_def country_profile_json_def country_profile_value_def l)
  have n: "normal_locale l" using l by simp
  have sup: "normalizeSupportedLocales (map Some (cp_supportedLocales ?v)) (Some l) (Some l) = cp_supportedLocales ?v"
  proof (rule supported_again)
    show "l \<in> set (cp_supportedLocales ?v)"
      using normal_nonempty [OF n] l
      by (auto simp: country_profile_value_def normalizeSupportedLocales_def set_dedupeStrings)
    then show "l \<in> set (cp_supportedLocales ?v)" .
  qed (auto simp: country_profile_value_def intro: supported_normal)
  obtain kvs where kvs: "nullish (ucp_metadata dto) (JObj []) = JObj kvs"
    using m by (cases "nullish (ucp_metadata dto) (JObj [])") (auto simp: jrecord_def)
  have whole: "\<lparr>cp_defaultLocale = l, cp_supportedLocales = cp_supportedLocales ?v, cp_currency = ?s,
      cp_tax = parse_tax (ucp_tax dto), cp_complianceFlags = cp_complianceFlags ?v,
      cp_metadata = JObj kvs\<rparr> = ?v"
    by (rule CountryProfileValue.equality) (simp_all add: country_profile_value_def l kvs)
  show ?thesis
    unfolding parseCountryProfile_def f
    using n c by (simp add: normal_locale_def sup up kvs whole)
qed

section \<open>Keys\<close>

lemma show_content_target_inj [simp]: "show_content_target a = show_content_target b \<longleftrightarrow> a = b"
  by (cases a; cases b) (simp_all add: show_content_target_def)

lemma content_target_of_show [simp]: "content_target_of (show_content_target t) = Some t"
  by (cases t) (simp_all add: content_target_of_def localizedContentTargetTypes_def)

lemma show_content_target_no_dot: "CHR ''.'' \<notin> set (show_content_target t)"
  by (cases t) (simp_all add: show_content_target_def)

text \<open>A dot in the id of a target does no harm.\<close>

lemma content_key_round [simp]: "parseLocalizedContentKey (buildLocalizedContentKey t i) = Some (t, i)"
  by (simp add: parseLocalizedContentKey_def buildLocalizedContentKey_def
      split_on_Cons [OF show_content_target_no_dot])

lemma content_key_inj [simp]:
  "buildLocalizedContentKey t i = buildLocalizedContentKey t' i' \<longleftrightarrow> t = t' \<and> i = i'"
  using content_key_round [of t i] content_key_round [of t' i'] by (metis option.inject prod.inject)

lemma content_key_prefix [simp]: "starts_with localizedContentPrefix (buildLocalizedContentKey t i)"
  by (simp add: buildLocalizedContentKey_def)

lemma channel_no_dot: "c \<in> set customizationChannels \<Longrightarrow> CHR ''.'' \<notin> set c \<and> c \<noteq> [] \<and> c \<noteq> ''shared''"
  by (auto simp: customizationChannels_def)

lemma template_key_round:
  assumes "case channel of None \<Rightarrow> True | Some c \<Rightarrow> c \<in> set customizationChannels"
  shows "parseLocalizedTemplateKey (buildLocalizedTemplateKey channel k) = Some (channel, k)"
proof -
  have "split_on (CHR ''.'') (nullish channel ''shared'' @ CHR ''.'' # k) =
      nullish channel ''shared'' # split_on (CHR ''.'') k"
    using assms channel_no_dot by (intro split_on_Cons) (cases channel; auto)
  then show ?thesis
    using assms channel_no_dot
    by (cases channel) (auto simp: parseLocalizedTemplateKey_def buildLocalizedTemplateKey_def)
qed

lemma country_code_again [simp]: "normalizeCountryCode (Some c) = Some x \<Longrightarrow> normalizeCountryCode (Some x) = Some x"
  by (metis country_twice)

lemma country_key_round:
  "normalizeCountryCode (Some c) = Some x \<Longrightarrow> parseCountryProfileKey (buildCountryProfileKey c) = Some x"
  by (simp add: parseCountryProfileKey_def buildCountryProfileKey_def)

section \<open>The choice of the locale\<close>

text \<open>
  What is chosen, said directly: the first of the requested locale, the customer's and the store's
  for the channel that is supported, or else the store's default.
\<close>

definition preferred_locale ::
  "ResolveLocalizationInput \<Rightarrow> LocalizationPreferencesValue \<Rightarrow> string list \<Rightarrow> string" where
  "preferred_locale input store supported =
     (case List.map_filter id [normalizeLocaleTag (rli_locale input),
          normalizeLocaleTag (rli_customerLocale input), channel_locale store (rli_channel input)] of
        requested \<Rightarrow> (case find (\<lambda>l. l \<in> set supported) requested of
            Some l \<Rightarrow> l | None \<Rightarrow> lp_defaultLocale store))"

lemma channel_locale_nonempty: "channel_locale p c = Some l \<Longrightarrow> l \<noteq> []"
  using normalizeLocaleTag_nonempty by (auto simp: channel_locale_def split: if_splits)

lemma resolvedLocale_preferred:
  assumes "lp_defaultLocale store \<in> set supported" and "lp_defaultLocale store \<noteq> []"
  shows "resolvedLocale_of (localeCandidates input store tenant profile) supported tenant' =
    preferred_locale input store supported"
  using assms normalizeLocaleTag_nonempty [of "rli_locale input"]
    normalizeLocaleTag_nonempty [of "rli_customerLocale input"]
    channel_locale_nonempty [of store "rli_channel input"]
  by (cases "normalizeLocaleTag (rli_locale input)"; cases "normalizeLocaleTag (rli_customerLocale input)";
      cases "channel_locale store (rli_channel input)")
    (auto simp: resolvedLocale_of_def localeCandidates_def preferred_locale_def map_filter_simps Let_def)

lemma parsed_defaults:
  assumes "parseLocalizationPreferences v fb = Inr p"
  shows "normal_locale (lp_defaultLocale p)" "normal_locale (lp_fallbackLocale p)"
    "lp_defaultLocale p \<in> set (lp_supportedLocales p)" "lp_fallbackLocale p \<in> set (lp_supportedLocales p)"
    "distinct (lp_supportedLocales p)" "\<forall>l \<in> set (lp_supportedLocales p). normal_locale l"
proof -
  define a where "a = nullish (orElse (normalizeLocaleTag (jstring (field v ''defaultLocale'')))
    (normalizeLocaleTag (map_option lp_defaultLocale fb))) ''en-US''"
  define b where "b = nullish (orElse (normalizeLocaleTag (jstring (field v ''fallbackLocale'')))
    (normalizeLocaleTag (map_option lp_fallbackLocale fb))) a"
  have or: "normal_locale (nullish (orElse (normalizeLocaleTag m) (normalizeLocaleTag m')) d)"
    if "normal_locale d" for m m' d
    using that by (cases "normalizeLocaleTag m"; cases "normalizeLocaleTag m'") simp_all
  have n: "normal_locale a" "normal_locale b" unfolding a_def b_def by (intro or normal_en_US)+
  obtain ls where p: "lp_defaultLocale p = a" "lp_fallbackLocale p = b"
    "lp_supportedLocales p = normalizeSupportedLocales ls (Some a) (Some b)"
    using assms by (auto simp: parseLocalizationPreferences_def Let_def a_def b_def)
  show "normal_locale (lp_defaultLocale p)" "normal_locale (lp_fallbackLocale p)"
    "lp_defaultLocale p \<in> set (lp_supportedLocales p)" "lp_fallbackLocale p \<in> set (lp_supportedLocales p)"
    "distinct (lp_supportedLocales p)" "\<forall>l \<in> set (lp_supportedLocales p). normal_locale l"
    unfolding p using n by (auto intro: supported_member supported_normal)
qed

lemma supported_in_context:
  assumes "\<forall>l \<in> set (lp_supportedLocales store). normal_locale l" and "l \<in> set (lp_supportedLocales store)"
  shows "l \<in> set (supportedLocales_of store tenant profile)"
  unfolding supportedLocales_of_def by (rule supported_member) (use assms in auto)

end
