(* ===== verification/LocaleSteps.thy ===== *)
theory LocaleSteps
  imports LocaleLaws
begin

text \<open>
  The localization service as a whole: its requests as a step relation, the uniqueness of settings
  they keep, the settings they leave alone, and what the context of a request is made of.
\<close>

section \<open>Settings are unique\<close>

definition setting_key :: "Setting \<Rightarrow> uuid \<times> string" where
  "setting_key s = (set_ownerId s, set_key s)"

definition settings_ok :: "db \<Rightarrow> bool" where
  "settings_ok d \<longleftrightarrow> distinct (map setting_key (tenantSettings d)) \<and>
     distinct (map setting_key (storeSettings d)) \<and>
     (\<forall>s \<in> set (tenantSettings d). set_tenantId s = set_ownerId s) \<and>
     (\<forall>s \<in> set (storeSettings d). set_ownerId s \<in> st_id ` set (stores d))"

lemma find_setting_key: "find_setting i k rows = Some s \<Longrightarrow> s \<in> set rows \<and> setting_key s = (i, k)"
  unfolding find_setting_def by (drule find_SomeD) (simp add: setting_key_def)

lemma find_setting_unique:
  "distinct (map setting_key rows) \<Longrightarrow> s \<in> set rows \<Longrightarrow> find_setting (set_ownerId s) (set_key s) rows = Some s"
  using find_key_unique [of setting_key rows s] by (simp add: find_setting_def setting_key_def)

lemma put_setting_rows:
  assumes "put_setting now i t owner key v rows = (s, rows')"
  shows "map setting_key rows' =
      map setting_key rows @ (if find_setting owner key rows = None then [(owner, key)] else [])"
    "set rows' \<subseteq> insert s (set rows \<union> {with_value now v r |r. r \<in> set rows})"
    "set_ownerId s = owner \<and> set_key s = key"
  using assms find_setting_key [of owner key rows]
  by (auto simp: put_setting_def Let_def setting_key_def with_value_def set_update_where map_update_where_key
      split: option.splits)

lemma put_setting_ok:
  assumes "put_setting now i t owner key v rows = (s, rows')" and "distinct (map setting_key rows)"
  shows "distinct (map setting_key rows')"
proof -
  have "(owner, key) \<notin> setting_key ` set rows" if "find_setting owner key rows = None"
    using that by (auto simp: find_setting_def find_None_iff setting_key_def)
  then show ?thesis using assms(2) by (auto simp: put_setting_rows(1) [OF assms(1)])
qed

lemma put_setting_tenant:
  assumes "put_setting now i t t key v rows = (s, rows')" and "\<forall>s \<in> set rows. set_tenantId s = set_ownerId s"
  shows "\<forall>s \<in> set rows'. set_tenantId s = set_ownerId s"
proof (cases "find_setting t key rows")
  case None
  then have "rows' = rows @ [s]" "set_tenantId s = set_ownerId s"
    using assms(1) by (auto simp: put_setting_def Let_def)
  then show ?thesis using assms(2) by simp
next
  case (Some r)
  then have "rows' = update_where (\<lambda>s. set_ownerId s = t \<and> set_key s = key) (with_value now v) rows"
    using assms(1) by (simp add: put_setting_def)
  then show ?thesis using assms(2) by (auto simp: set_update_where with_value_def)
qed

lemma upsert_tenant_ok:
  assumes "upsert_tenant_setting now t key v d = (s, d')" and "settings_ok d"
  shows "settings_ok d'"
proof -
  from assms(1) obtain rows where p: "put_setting now (nextId d) t t key v (tenantSettings d) = (s, rows)"
    and d': "tenantSettings d' = rows" "storeSettings d' = storeSettings d" "stores d' = stores d"
    by (auto simp: upsert_tenant_setting_def split: prod.splits)
  have "\<forall>r \<in> set rows. set_tenantId r = set_ownerId r"
    using put_setting_tenant [OF p] assms(2) by (simp add: settings_ok_def)
  then show ?thesis using assms(2) put_setting_ok [OF p] by (simp add: settings_ok_def d')
qed

lemma upsert_store_ok:
  assumes "upsert_setting now t i key v d = (s, d')" and "settings_ok d" and "i \<in> st_id ` set (stores d)"
  shows "settings_ok d'"
proof -
  from assms(1) obtain rows where p: "put_setting now (nextId d) t i key v (storeSettings d) = (s, rows)"
    and d': "storeSettings d' = rows" "tenantSettings d' = tenantSettings d" "stores d' = stores d"
    by (auto simp: upsert_setting_def split: prod.splits)
  have "\<forall>r \<in> set rows. set_ownerId r \<in> st_id ` set (stores d)"
    using put_setting_rows(2,3) [OF p] assms(2,3) by (auto simp: settings_ok_def with_value_def)
  then show ?thesis using assms(2) put_setting_ok [OF p] by (simp add: settings_ok_def d')
qed

section \<open>What a write leaves alone\<close>

text \<open>
  \<open>localized t d d'\<close>: the difference between the two databases is in the settings of tenant \<open>t\<close>
  and of stores, under keys of the localization service, and in the log.
\<close>

definition locale_key :: "string \<Rightarrow> bool" where
  "locale_key k \<longleftrightarrow> starts_with ''localization.'' k"

definition localized :: "uuid \<Rightarrow> db \<Rightarrow> db \<Rightarrow> bool" where
  "localized t d d' \<longleftrightarrow>
     (\<exists>n ts ss l. db_seq d \<le> n \<and> d' = d\<lparr>db_seq := n, tenantSettings := ts, storeSettings := ss, auditLogs := l\<rparr>) \<and>
     (\<forall>u k. u \<noteq> t \<or> \<not> locale_key k \<longrightarrow> tenant_setting u k d' = tenant_setting u k d) \<and>
     (\<forall>i k. \<not> locale_key k \<longrightarrow> find_setting i k (storeSettings d') = find_setting i k (storeSettings d)) \<and>
     (settings_ok d \<longrightarrow> settings_ok d')"

lemma localized_refl [simp]: "localized t d d"
  by (cases d) (auto simp: localized_def)

lemma localized_trans:
  assumes 1: "localized t d d1" and 2: "localized t d1 d2"
  shows "localized t d d2"
proof -
  obtain n ts ss l where n: "db_seq d \<le> n"
    and d1: "d1 = d\<lparr>db_seq := n, tenantSettings := ts, storeSettings := ss, auditLogs := l\<rparr>"
    using 1 unfolding localized_def by (elim conjE exE)
  obtain m us rs k where m: "db_seq d1 \<le> m"
    and d2: "d2 = d1\<lparr>db_seq := m, tenantSettings := us, storeSettings := rs, auditLogs := k\<rparr>"
    using 2 unfolding localized_def by (elim conjE exE)
  have "d2 = d\<lparr>db_seq := m, tenantSettings := us, storeSettings := rs, auditLogs := k\<rparr>"
    unfolding d2 d1 by simp
  moreover have "db_seq d \<le> m" using n m d1 by simp
  ultimately have "\<exists>n ts ss l. db_seq d \<le> n \<and>
      d2 = d\<lparr>db_seq := n, tenantSettings := ts, storeSettings := ss, auditLogs := l\<rparr>" by blast
  moreover have "\<forall>u k. u \<noteq> t \<or> \<not> locale_key k \<longrightarrow> tenant_setting u k d2 = tenant_setting u k d"
    using 1 2 unfolding localized_def by simp
  moreover have "\<forall>i k. \<not> locale_key k \<longrightarrow> find_setting i k (storeSettings d2) = find_setting i k (storeSettings d)"
    using 1 2 unfolding localized_def by simp
  moreover have "settings_ok d \<longrightarrow> settings_ok d2" using 1 2 unfolding localized_def by blast
  ultimately show ?thesis unfolding localized_def by blast
qed

lemma localized_tenant:
  assumes "upsert_tenant_setting now t key v d = (s, d')" and "locale_key key"
  shows "localized t d d'"
proof -
  obtain n ts where "db_seq d \<le> n" "d' = d\<lparr>db_seq := n, tenantSettings := ts\<rparr>"
    using upsert_tenant_logged [OF assms(1)] by blast
  moreover have "\<exists>n' ts' ss l. db_seq d \<le> n' \<and>
      d\<lparr>db_seq := n, tenantSettings := ts\<rparr> = d\<lparr>db_seq := n', tenantSettings := ts', storeSettings := ss, auditLogs := l\<rparr>"
    if "db_seq d \<le> n"
    using that by (intro exI [of _ n] exI [of _ ts] exI [of _ "storeSettings d"] exI [of _ "auditLogs d"]) simp
  moreover have "u \<noteq> t \<or> \<not> locale_key k \<Longrightarrow> tenant_setting u k d' = tenant_setting u k d" for u k
    using tenant_settings.read_other [OF assms(1), of u k] assms(2) by (auto simp: tenant_setting_def)
  ultimately show ?thesis using upsert_tenant_ok [OF assms(1)] by (auto simp: localized_def)
qed

lemma localized_store:
  assumes "upsert_setting now t' i key v d = (s, d')" and "locale_key key" and "i \<in> st_id ` set (stores d)"
  shows "localized t d d'"
proof -
  obtain n ss where "db_seq d \<le> n" "d' = d\<lparr>db_seq := n, storeSettings := ss\<rparr>"
    using upsert_logged [OF assms(1)] by blast
  moreover have "\<exists>n' ts' ss' l. db_seq d \<le> n' \<and>
      d\<lparr>db_seq := n, storeSettings := ss\<rparr> = d\<lparr>db_seq := n', tenantSettings := ts', storeSettings := ss', auditLogs := l\<rparr>"
    if "db_seq d \<le> n"
    using that by (intro exI [of _ n] exI [of _ "tenantSettings d"] exI [of _ ss] exI [of _ "auditLogs d"]) simp
  moreover have "\<not> locale_key k \<Longrightarrow> find_setting j k (storeSettings d') = find_setting j k (storeSettings d)" for j k
    using store_settings.read_other [OF assms(1), of j k] assms(2) by auto
  ultimately show ?thesis
    using upsert_store_ok [OF assms(1) _ assms(3)] by (auto simp: localized_def tenant_setting_def)
qed

lemma localized_log: "localized t d d1 \<Longrightarrow> localized t d (recordTx entry d1)"
  by (erule localized_trans) (cases d1, auto simp: localized_def tenant_setting_def settings_ok_def)

lemma localized_core: "localized t d d' \<Longrightarrow> core_step d d'"
  by (auto simp: localized_def core_step_def api_ok_def intro: order_grows_refl
      elim!: stock_ok_cong [rotated 3] carts_ok_cong [rotated 4] orders_ok_cong)

lemma locale_keys [simp]:
  "locale_key localizationPreferencesKey" "locale_key (buildCountryProfileKey c)"
  "locale_key (buildLocalizedContentKey t i)" "locale_key (buildLocalizedTemplateKey ch k)"
  by (simp_all add: locale_key_def starts_with_def localizationPreferencesKey_def buildCountryProfileKey_def
      countryProfilePrefix_def buildLocalizedContentKey_def localizedContentPrefix_def
      buildLocalizedTemplateKey_def localizedTemplatePrefix_def)

section \<open>The handlers\<close>

text \<open>What an accepted upsert wrote, and what it answered.\<close>

lemma upsertTenantPreferences_Inr:
  assumes "upsertTenantPreferences context now dto q d = Inr (v, d')"
  obtains t s d1 entry where "resolveTenantId context (orElse q (ctx_tenantId context)) True = Inr t"
    "upsert_tenant_setting now t localizationPreferencesKey (preferences_json (buildPreferencesValue dto)) d = (s, d1)"
    "v = mapPreferencesDto ''TENANT'' t None (buildPreferencesValue dto) s" "d' = recordTx entry d1"
  using assms unfolding upsertTenantPreferences_def locale_audit_def Let_def
  by (auto simp: case_prod_Inr simp del: recordTx_def)

lemma upsertStorePreferences_Inr:
  assumes "upsertStorePreferences context now dto d = Inr (v, d')"
  obtains t store s d1 entry where "enforceStoreAccess context (ulp_storeId dto) = Inr ()"
    "find (\<lambda>x. st_id x = ulp_storeId dto) (stores d) = Some store"
    "resolveTenantId context (Some (st_tenantId store)) True = Inr t"
    "upsert_setting now (st_tenantId store) (ulp_storeId dto) localizationPreferencesKey
       (preferences_json (buildPreferencesValue dto)) d = (s, d1)"
    "v = mapPreferencesDto ''STORE'' (st_tenantId store) (Some (ulp_storeId dto)) (buildPreferencesValue dto) s"
    "d' = recordTx entry d1"
  using assms unfolding upsertStorePreferences_def locale_audit_def Let_def
  by (auto simp: case_prod_Inr simp del: recordTx_def)

lemma upsertCountryProfile_Inr:
  assumes "upsertCountryProfile context now c dto q d = Inr (v, d')"
  obtains t country s d1 entry where "resolveTenantId context (orElse q (ctx_tenantId context)) True = Inr t"
    "normalizeCountryCode (Some c) = Some country"
    "upsert_tenant_setting now t (buildCountryProfileKey country)
       (country_profile_json (country_profile_value dto)) d = (s, d1)"
    "v = mapCountryProfileDto t country (country_profile_value dto) s" "d' = recordTx entry d1"
  using assms unfolding upsertCountryProfile_def locale_audit_def Let_def
  by (auto simp: case_prod_Inr simp del: recordTx_def)

lemma upsertLocalizedContent_Inr:
  assumes "upsertLocalizedContent context now dto d = Inr (v, d')"
  obtains t s d1 entry where "resolveTenantId context (Some (ulc_tenantId dto)) True = Inr t"
    "upsert_tenant_setting now t (buildLocalizedContentKey (ulc_targetType dto) (ulc_targetId dto))
       (content_json (content_entries_of (ulc_entries dto))) d = (s, d1)"
    "v = mapLocalizedContentDto t (ulc_targetType dto) (ulc_targetId dto) (content_entries_of (ulc_entries dto)) s"
    "d' = recordTx entry d1"
  using assms unfolding upsertLocalizedContent_def locale_audit_def Let_def
  by (auto simp: case_prod_Inr simp del: recordTx_def)

lemma upsertTemplate_Inr:
  assumes "upsertTemplate context now dto d = Inr (v, d')"
  obtains t s d1 entry where "resolveTenantId context (Some (ult_tenantId dto)) True = Inr t"
    "upsert_tenant_setting now t (buildLocalizedTemplateKey (ult_channel dto) (ult_templateKey dto))
       (template_json (template_value dto)) d = (s, d1)"
    "v = mapLocalizedTemplateDto t (ult_templateKey dto) (template_value dto) s" "d' = recordTx entry d1"
  using assms unfolding upsertTemplate_def locale_audit_def Let_def
  by (auto simp: case_prod_Inr simp del: recordTx_def)

lemma upserts_localized:
  "upsertTenantPreferences context now pdto q d = Inr (p, d') \<Longrightarrow> localized (lpd_tenantId p) d d'"
  "upsertStorePreferences context now sdto d = Inr (p, d') \<Longrightarrow> localized (lpd_tenantId p) d d'"
  "upsertCountryProfile context now c cdto q d = Inr (cp, d') \<Longrightarrow> localized (cpd_tenantId cp) d d'"
  "upsertLocalizedContent context now ldto d = Inr (lc, d') \<Longrightarrow> localized (lcd_tenantId lc) d d'"
  "upsertTemplate context now tdto d = Inr (lt, d') \<Longrightarrow> localized (ltd_tenantId lt) d d'"
proof -
  show "localized (lpd_tenantId p) d d'" if "upsertTenantPreferences context now pdto q d = Inr (p, d')"
    using that by (rule upsertTenantPreferences_Inr)
      (simp add: mapPreferencesDto_def localized_log [OF localized_tenant] del: recordTx_def)
  show "localized (lpd_tenantId p) d d'" if "upsertStorePreferences context now sdto d = Inr (p, d')"
    using that
  proof (rule upsertStorePreferences_Inr)
    fix t store s d1 entry
    assume st: "find (\<lambda>x. st_id x = ulp_storeId sdto) (stores d) = Some store"
      and w: "upsert_setting now (st_tenantId store) (ulp_storeId sdto) localizationPreferencesKey
         (preferences_json (buildPreferencesValue sdto)) d = (s, d1)" and d': "d' = recordTx entry d1"
      and v: "p = mapPreferencesDto ''STORE'' (st_tenantId store) (Some (ulp_storeId sdto)) (buildPreferencesValue sdto) s"
    have "ulp_storeId sdto \<in> st_id ` set (stores d)" using find_SomeD [OF st] by force
    then show ?thesis
      unfolding d' by (intro localized_log localized_store [OF w]) simp_all
  qed
  show "localized (cpd_tenantId cp) d d'" if "upsertCountryProfile context now c cdto q d = Inr (cp, d')"
    using that by (rule upsertCountryProfile_Inr)
      (simp add: mapCountryProfileDto_def localized_log [OF localized_tenant] del: recordTx_def)
  show "localized (lcd_tenantId lc) d d'" if "upsertLocalizedContent context now ldto d = Inr (lc, d')"
    using that by (rule upsertLocalizedContent_Inr)
      (simp add: mapLocalizedContentDto_def localized_log [OF localized_tenant] del: recordTx_def)
  show "localized (ltd_tenantId lt) d d'" if "upsertTemplate context now tdto d = Inr (lt, d')"
    using that by (rule upsertTemplate_Inr)
      (simp add: mapLocalizedTemplateDto_def localized_log [OF localized_tenant] del: recordTx_def)
qed

lemma import_setting_localized: "locale_key (fst kv) \<Longrightarrow> localized t d (import_setting now t kv d)"
  unfolding import_setting_def by (rule localized_tenant [OF surjective_pairing])

lemma import_store_localized:
  assumes "import_store context now t p d = Inr d'" and "settings_ok d"
  shows "localized t d d'"
proof (cases "lpd_storeId p")
  case (Some i)
  show ?thesis
  proof (cases "i = ''''")
    case False
    then have "i \<in> st_id ` set (stores d)"
      using assms Some find_setting_key [of i localizationPreferencesKey "storeSettings d"]
      by (auto simp: import_store_def settings_ok_def setting_key_def)
    moreover have "d' = snd (upsert_setting now t i localizationPreferencesKey
        (preferences_json (buildPreferencesValue (preferences_request p))) d)"
      using assms(1) Some False by (auto simp: import_store_def)
    ultimately show ?thesis using localized_store [OF surjective_pairing] by simp
  qed (use assms Some in \<open>simp add: import_store_def\<close>)
qed (use assms in \<open>simp add: import_store_def\<close>)

lemma fold_import_localized:
  "(\<And>kv. kv \<in> set kvs \<Longrightarrow> locale_key (fst kv)) \<Longrightarrow> localized t d (fold (import_setting now t) kvs d)"
proof (induction kvs arbitrary: d)
  case (Cons kv kvs)
  have "localized t d (import_setting now t kv d)" using Cons.prems by (intro import_setting_localized) simp
  moreover have "localized t (import_setting now t kv d) (fold (import_setting now t) kvs (import_setting now t kv d))"
    using Cons by simp
  ultimately show ?case using localized_trans by simp
qed simp

lemma localized_ok: "localized t d d' \<Longrightarrow> settings_ok d \<Longrightarrow> settings_ok d'"
  by (simp add: localized_def)

lemma importLanguagePack_Inr:
  assumes "importLanguagePack context now q pack d = Inr (v, d')"
  obtains t d1 d2 entry where
    "v = pack\<lparr>lpk_tenantId := Some t, lpk_generatedAt := toISOString now\<rparr>"
    "d1 = (case lpk_tenantPreferences pack of None \<Rightarrow> d | Some p \<Rightarrow> import_setting now t
       (localizationPreferencesKey, preferences_json (buildPreferencesValue (preferences_request p))) d)"
    "foldE (import_store context now t) (lpk_storePreferences pack) d1 = Inr d2"
    "d' = recordTx entry (fold (import_setting now t) (pack_settings pack) d2)"
    "resolveTenantId context (orElse q (orElse (lpk_tenantId pack) (ctx_tenantId context))) True = Inr t"
  using assms unfolding importLanguagePack_def locale_audit_def Let_def
  by (auto simp del: recordTx_def fold_simps)

lemma pack_keys: "kv \<in> set (pack_settings pack) \<Longrightarrow> locale_key (fst kv)"
  by (auto simp: pack_settings_def)

lemma import_localized:
  assumes run: "importLanguagePack context now q pack d = Inr (v, d')" and ok: "settings_ok d"
  shows "\<exists>t. lpk_tenantId v = Some t \<and> localized t d d'"
proof (rule importLanguagePack_Inr [OF run])
  fix t d1 d2 entry
  assume v: "v = pack\<lparr>lpk_tenantId := Some t, lpk_generatedAt := toISOString now\<rparr>"
    and d1: "d1 = (case lpk_tenantPreferences pack of None \<Rightarrow> d | Some p \<Rightarrow> import_setting now t
       (localizationPreferencesKey, preferences_json (buildPreferencesValue (preferences_request p))) d)"
    and d2: "foldE (import_store context now t) (lpk_storePreferences pack) d1 = Inr d2"
    and d': "d' = recordTx entry (fold (import_setting now t) (pack_settings pack) d2)"
  have l1: "localized t d d1" unfolding d1 by (auto split: option.split intro: import_setting_localized)
  have "localized t d1 d2 \<and> settings_ok d2"
  proof (rule foldE_invariant [OF _ d2])
    show "localized t d1 d1 \<and> settings_ok d1" using localized_ok [OF l1 ok] by simp
  qed (use import_store_localized localized_trans localized_ok in blast)
  then have "localized t d d2" using localized_trans [OF l1] by simp
  then have "localized t d (fold (import_setting now t) (pack_settings pack) d2)"
    by (rule localized_trans) (rule fold_import_localized, erule pack_keys)
  then have "localized t d d'" unfolding d' by (rule localized_log)
  then show ?thesis using v by simp
qed

text \<open>The requests of the service that write, by the tenant they answer for.\<close>

inductive locale_step :: "uuid \<Rightarrow> db \<Rightarrow> db \<Rightarrow> bool" for t where
  tenant_preferences: "upsertTenantPreferences ctx now pdto q d = Inr (v, d') \<Longrightarrow> lpd_tenantId v = t \<Longrightarrow> locale_step t d d'"
| store_preferences: "upsertStorePreferences ctx now sdto d = Inr (v, d') \<Longrightarrow> lpd_tenantId v = t \<Longrightarrow> locale_step t d d'"
| country_profile: "upsertCountryProfile ctx now c cdto q d = Inr (v', d') \<Longrightarrow> cpd_tenantId v' = t \<Longrightarrow> locale_step t d d'"
| content: "upsertLocalizedContent ctx now ldto d = Inr (v'', d') \<Longrightarrow> lcd_tenantId v'' = t \<Longrightarrow> locale_step t d d'"
| template: "upsertTemplate ctx now tdto d = Inr (v3, d') \<Longrightarrow> ltd_tenantId v3 = t \<Longrightarrow> locale_step t d d'"
| language_pack: "importLanguagePack ctx now q pack d = Inr (v4, d') \<Longrightarrow> lpk_tenantId v4 = Some t \<Longrightarrow> locale_step t d d'"

lemma locale_step_localized: "locale_step t d d' \<Longrightarrow> settings_ok d \<Longrightarrow> localized t d d'"
  by (erule locale_step.cases) (use upserts_localized import_localized in fastforce)+

lemma locale_steps_localized:
  assumes "(locale_step t)\<^sup>*\<^sup>* d d'" and "settings_ok d"
  shows "localized t d d'"
  using assms(1)
proof (induction rule: rtranclp_induct)
  case (step d1 d2)
  then show ?case using locale_step_localized localized_ok assms(2) localized_trans by blast
qed simp

end
