(* ===== verification/LocaleReads.thy ===== *)
theory LocaleReads
  imports LocaleSteps
begin

text \<open>
  What is read after a write of the localization service: preferences, the texts of a target, a
  template with the variables it needs, and the context a request is answered in.
\<close>

section \<open>Preferences\<close>

text \<open>Preferences sent back as they were answered are stored as they were.\<close>

lemma supported_stored:
  "normalizeSupportedLocales (map Some (normalizeSupportedLocales ls (Some a) (Some b))) (Some a) (Some b) =
     normalizeSupportedLocales ls (Some a) (Some b)"
  if "normal_locale a" "normal_locale b"
  by (rule supported_again) (use that in \<open>auto intro: supported_normal supported_member\<close>)

lemma preferences_again:
  "buildPreferencesValue (preferences_request (buildPreferencesValue dto)) = buildPreferencesValue dto"
proof -
  define a where "a = nullish (normalizeLocaleTag (Some (ulp_defaultLocale dto))) ''en-US''"
  define b where "b = nullish (normalizeLocaleTag (ulp_fallbackLocale dto)) a"
  have n: "normal_locale a" "normal_locale b"
    by (cases "normalizeLocaleTag (Some (ulp_defaultLocale dto))"; cases "normalizeLocaleTag (ulp_fallbackLocale dto)";
        simp add: a_def b_def)+
  have tag: "normalizeLocaleTag (Some a) = Some a" "normalizeLocaleTag (Some b) = Some b"
    using n by (simp_all add: normal_locale_def)
  show ?thesis
    by (cases "ulp_currency dto")
      (simp_all add: buildPreferencesValue_def preferences_request_def Let_def a_def [symmetric] b_def [symmetric]
        tag supported_stored [OF n])
qed

lemma request_of_answer:
  "preferences_request (mapPreferencesDto scope t i v s) = preferences_request v"
  by (simp add: preferences_request_def mapPreferencesDto_def)

lemma resolveTenantId_again:
  "resolveTenantId ctx m True = Inr t \<Longrightarrow> resolveTenantId ctx (Some t) True = Inr t"
  by (cases m) (auto simp: resolveTenantId_def truthy_def split: if_splits option.splits)

lemma scope_of_upsert:
  "resolveTenantId ctx (orElse q (ctx_tenantId ctx)) True = Inr t \<Longrightarrow> resolveScopeTx ctx q None d = Inr (t, None)"
  by (simp add: resolveScopeTx_def find_optional_def truthy_def)

lemma preferences_listed:
  assumes "resolveTenantId ctx (orElse q (ctx_tenantId ctx)) True = Inr t"
    and "tenant_setting t localizationPreferencesKey d = Some s"
    and "set_value s = preferences_json (buildPreferencesValue dto)"
  shows "listPreferences ctx q None d =
    Inr (Some (mapPreferencesDto ''TENANT'' t None (buildPreferencesValue dto) s), None)"
  using assms by (simp add: listPreferences_def scope_of_upsert preferences_round store_setting_def)

section \<open>Settings found again\<close>

lemma filter_key_single:
  "distinct (map f xs) \<Longrightarrow> find (\<lambda>x. f x = k) xs = Some s \<Longrightarrow> filter (\<lambda>x. f x = k) xs = [s]"
  by (induction xs) (auto split: if_splits simp: filter_empty_conv, metis imageI)

lemma filter_insort_none: "filter P ys = [] \<Longrightarrow> filter P (insort_by le x ys) = (if P x then [x] else [])"
  by (induction ys) (auto split: if_splits)

lemma filter_insort_other: "\<not> P x \<Longrightarrow> filter P (insort_by le x ys) = filter P ys"
  by (induction ys) auto

lemma filter_sort_single: "filter P xs = [s] \<Longrightarrow> filter P (sort_by le xs) = [s]"
proof (induction xs)
  case (Cons x xs)
  show ?case
  proof (cases "P x")
    case True
    then have "x = s" "filter P xs = []" using Cons.prems by auto
    then have "filter P (sort_by le xs) = []" by (simp add: filter_empty_conv)
    then show ?thesis using True \<open>x = s\<close> by (simp add: sort_by_def filter_insort_none)
  next
    case False
    then show ?thesis using Cons by (simp add: sort_by_def filter_insort_other)
  qed
qed simp

lemma tenant_setting_single:
  assumes "settings_ok d" and "tenant_setting t key d = Some s"
  shows "filter (\<lambda>r. set_ownerId r = t \<and> set_key r = key) (tenantSettings d) = [s]"
proof -
  have "find (\<lambda>r. setting_key r = (t, key)) (tenantSettings d) = Some s"
    using assms(2) by (simp add: tenant_setting_def find_setting_def setting_key_def)
  then have "filter (\<lambda>r. setting_key r = (t, key)) (tenantSettings d) = [s]"
    using assms(1) by (intro filter_key_single) (simp_all add: settings_ok_def)
  then show ?thesis by (simp add: setting_key_def)
qed

lemma settings_under_single:
  assumes "settings_ok d" and "tenant_setting t key d = Some s" and "starts_with p key"
  shows "filter (\<lambda>r. set_key r = key) (settings_under t p d) = [s]"
  unfolding settings_under_def
proof (rule filter_sort_single)
  show "filter (\<lambda>r. set_key r = key) (filter (\<lambda>s. set_ownerId s = t \<and> starts_with p (set_key s)) (tenantSettings d)) = [s]"
    using tenant_setting_single [OF assms(1,2)] assms(3) by (simp add: conj_commute cong: conj_cong)
qed

text \<open>A list of answers, one for each key that can be read, filtered for what one key stands for.\<close>

lemma map_filter_filter:
  assumes "\<And>x y. x \<in> set xs \<Longrightarrow> f x = Some y \<Longrightarrow> Q y \<longleftrightarrow> P x"
  shows "filter Q (List.map_filter f xs) = List.map_filter f (filter P xs)"
  using assms by (induction xs) (auto simp: map_filter_simps split: option.splits)

section \<open>Content\<close>

lemma content_target_of_Some: "content_target_of s = Some t \<Longrightarrow> show_content_target t = s"
  unfolding content_target_of_def by (drule find_SomeD) simp

lemma content_key_parsed:
  assumes "parseLocalizedContentKey key = Some (t, i)"
  shows "key = buildLocalizedContentKey t i"
proof -
  have p: "starts_with localizedContentPrefix key"
    using assms by (auto simp: parseLocalizedContentKey_def split: if_splits)
  obtain x xs where s: "split_on (CHR ''.'') (drop (length localizedContentPrefix) key) = x # xs" "xs \<noteq> []"
    "content_target_of x = Some t" "i = join_with ''.'' xs"
    using assms p by (auto simp: parseLocalizedContentKey_def split: list.splits if_splits)
  have "drop (length localizedContentPrefix) key = join_with ''.'' (x # xs)"
    using join_split [of "CHR ''.''" "drop (length localizedContentPrefix) key"] s(1) by simp
  moreover have "key = localizedContentPrefix @ drop (length localizedContentPrefix) key"
    using p by (simp add: starts_with_def) (metis append_take_drop_id)
  ultimately show ?thesis
    using s content_target_of_Some by (simp add: buildLocalizedContentKey_def join_with_Cons)
qed

lemma content_listed:
  assumes "settings_ok d" and "tenant_setting t (buildLocalizedContentKey ty i) d = Some s" and "i \<noteq> []"
    and "resolveTenantId ctx (Some t) True = Inr t"
  shows "listLocalizedContent ctx (Some t) None (Some ty) (Some i) d =
    Inr [mapLocalizedContentDto t ty i (parseLocalizedContentValue (Some (set_value s))) s]"
proof -
  have scope: "resolveScopeTx ctx (Some t) None d = Inr (t, None)"
    by (rule scope_of_upsert) (use assms(4) in simp)
  let ?f = "\<lambda>s. map_option (\<lambda>(targetType, targetId).
       mapLocalizedContentDto t targetType targetId (parseLocalizedContentValue (Some (set_value s))) s)
       (parseLocalizedContentKey (set_key s))"
  let ?Q = "\<lambda>c. lcd_targetType c = ty \<and> Some i = Some (lcd_targetId c)"
  have "filter ?Q (List.map_filter ?f (settings_under t localizedContentPrefix d)) =
      List.map_filter ?f (filter (\<lambda>s. set_key s = buildLocalizedContentKey ty i)
        (settings_under t localizedContentPrefix d))"
  proof (rule map_filter_filter)
    fix r c assume "?f r = Some c"
    then obtain ty' i' where k: "parseLocalizedContentKey (set_key r) = Some (ty', i')"
      and c: "lcd_targetType c = ty'" "lcd_targetId c = i'" by (auto simp: mapLocalizedContentDto_def)
    show "?Q c \<longleftrightarrow> set_key r = buildLocalizedContentKey ty i"
      using content_key_parsed [OF k] c by auto
  qed
  also have "\<dots> = [mapLocalizedContentDto t ty i (parseLocalizedContentValue (Some (set_value s))) s]"
    using settings_under_single [OF assms(1,2)] find_setting_key [of t _ "tenantSettings d" s] assms(2)
    by (auto simp: map_filter_simps tenant_setting_def setting_key_def)
  finally show ?thesis
    using assms(3) by (simp add: listLocalizedContent_def scope contents_def truthy_def)
qed

text \<open>The text shown for one target is read from its own setting.\<close>

lemma find_none_filter: "find P xs = None \<longleftrightarrow> filter P xs = []"
  by (auto simp: find_None_iff filter_empty_conv)

lemma texts_of_one:
  assumes "settings_ok d"
  shows "localized_fields (resolveLocalizedContentForTargetsTx t [(ty, i)] chain d) ty i =
    (case tenant_setting t (buildLocalizedContentKey ty i) d of
       None \<Rightarrow> []
     | Some s \<Rightarrow> (case resolveLocalizedEntry (parseLocalizedContentValue (Some (set_value s))) chain of
         None \<Rightarrow> [] | Some e \<Rightarrow> snd e))"
proof -
  let ?k = "buildLocalizedContentKey ty i"
  have keys: "dedupeStrings [Some ?k] = [?k]"
    by (simp add: dedupeStrings_def truthy_def buildLocalizedContentKey_def localizedContentPrefix_def)
  show ?thesis
  proof (cases "tenant_setting t ?k d")
    case None
    then have "filter (\<lambda>s. set_ownerId s = t \<and> set_key s = ?k) (tenantSettings d) = []"
      by (simp add: tenant_setting_def find_setting_def find_none_filter)
    then show ?thesis
      using None by (simp add: resolveLocalizedContentForTargetsTx_def keys localized_fields_def js_map_def map_filter_simps)
  next
    case (Some s)
    then have "set_key s = ?k"
      using find_setting_key [of t ?k "tenantSettings d" s] by (simp add: tenant_setting_def setting_key_def)
    then show ?thesis
      using tenant_setting_single [OF assms Some] Some
      by (simp add: resolveLocalizedContentForTargetsTx_def keys localized_fields_def js_map_def map_filter_simps Let_def
          split: option.splits)
  qed
qed

section \<open>Templates\<close>

definition channel_known :: "string option \<Rightarrow> bool" where
  "channel_known channel \<longleftrightarrow> (case channel of None \<Rightarrow> True | Some c \<Rightarrow> c \<in> set customizationChannels)"

lemma template_key_parsed [simp]:
  "channel_known ch \<Longrightarrow> parseLocalizedTemplateKey (buildLocalizedTemplateKey ch k) = Some (ch, k)"
  by (simp add: channel_known_def template_key_round)

lemma find_filter: "find P (filter Q xs) = find (\<lambda>x. Q x \<and> P x) xs"
  by (induction xs) auto

lemma template_setting_own:
  assumes "tenant_setting t (buildLocalizedTemplateKey ch k) d = Some s" and ch: "channel_known ch"
  shows "template_setting t ch k d = Some s"
proof -
  let ?K = "buildLocalizedTemplateKey ch k" and ?S = "buildLocalizedTemplateKey None k"
  have keys: "set (dedupeStrings [Some ?K, Some ?S]) = {?K, ?S}"
    by (auto simp: set_dedupeStrings buildLocalizedTemplateKey_def localizedTemplatePrefix_def)
  have "parseLocalizedTemplateKey ?S = Some (None, k)" by (simp add: channel_known_def)
  then have same: "((set_ownerId r = t \<and> set_key r \<in> {?K, ?S}) \<and>
      map_option fst (parseLocalizedTemplateKey (set_key r)) = Some ch) = (set_ownerId r = t \<and> set_key r = ?K)" for r
    using template_key_parsed [OF ch, of k] by auto
  have "find (\<lambda>r. (set_ownerId r = t \<and> set_key r \<in> {?K, ?S}) \<and>
      map_option fst (parseLocalizedTemplateKey (set_key r)) = Some ch) (tenantSettings d) = Some s"
    unfolding same using assms(1) by (simp only: tenant_setting_def find_setting_def)
  then show ?thesis by (simp add: template_setting_def Let_def find_filter keys)
qed

text \<open>A rendering looks at the variables its template names, and at no other.\<close>

lemma render_pieces_cong:
  "(\<And>n. Placeholder n \<in> set ps \<Longrightarrow> variable_text vs n = variable_text ws n) \<Longrightarrow> render_pieces vs ps = render_pieces ws ps"
  by (auto simp: render_pieces_def intro!: arg_cong [of _ _ concat] split: piece.splits)

lemma set_placeholders: "set (placeholders s) = {n. Placeholder n \<in> set (pieces s)}"
  by (force simp: placeholders_def map_filter_def split: piece.splits)

lemma interpolate_cong:
  assumes "\<And>v n. template = Some v \<Longrightarrow> n \<in> set (value_placeholders v) \<Longrightarrow> variable_text vs n = variable_text ws n"
  shows "interpolateTemplate template vs = interpolateTemplate template ws"
proof (cases "\<exists>s. template = Some (JStr s)")
  case True
  then obtain s where s: "template = Some (JStr s)" by blast
  have "render_pieces vs (pieces s) = render_pieces ws (pieces s)"
    by (rule render_pieces_cong) (use assms s in \<open>simp add: set_placeholders\<close>)
  then show ?thesis by (simp add: s interpolateTemplate_def)
next
  case False
  then show ?thesis by (auto simp: interpolateTemplate_def split: option.splits json.splits bool.splits)
qed

lemma render_entry_cong:
  assumes "\<And>f v n. (f, v) \<in> set entry \<Longrightarrow> n \<in> set (value_placeholders v) \<Longrightarrow> variable_text vs n = variable_text ws n"
  shows "render_entry entry vs = render_entry entry ws"
proof -
  have "interpolateTemplate (map_of entry f) vs = interpolateTemplate (map_of entry f) ws" for f
    by (rule interpolate_cong) (blast intro: assms map_of_SomeD)
  then show ?thesis by (simp add: render_entry_def)
qed

lemma resolved_entry_in:
  assumes "resolveLocalizedEntry entries chain = Some (l, e)"
  shows "(l, e) \<in> set entries"
proof (cases "find (\<lambda>v. map_of entries v \<noteq> None) (concat (map buildLocaleVariants chain))")
  case None
  then show ?thesis using assms by (auto simp: resolveLocalizedEntry_def dest: find_SomeD)
next
  case (Some v)
  then have "map_of entries v \<noteq> None" using find_SomeD by fastforce
  then show ?thesis using assms Some by (auto simp: resolveLocalizedEntry_def intro: map_of_SomeD)
qed

lemma collected_variables:
  "(l, e) \<in> set entries \<Longrightarrow> (f, v) \<in> set e \<Longrightarrow> n \<in> set (value_placeholders v) \<Longrightarrow>
    n \<in> set (collectTemplateVariables entries)"
  by (force simp: collectTemplateVariables_def)

section \<open>The context of a request\<close>

lemma resolveContextTx_Inr:
  assumes "resolveContextTx pf context input d = Inr lc"
  obtains t store tp sp profile where
    "resolveScopeTx context (rli_tenantId input) (rli_storeId input) d = Inr (t, store)"
    "parseLocalizationPreferences (map_option set_value (tenant_setting t localizationPreferencesKey d)) None = Inr tp"
    "store_preferences_of d store tp = Inr sp"
    "profile_of t (lc_countryCode lc) d = Inr profile"
    "lc_tenantId lc = t" "lc_fallbackLocale lc = lp_fallbackLocale sp"
    "lc_supportedLocales lc = supportedLocales_of sp tp profile"
    "lc_locale lc = resolvedLocale_of (localeCandidates input sp tp profile) (lc_supportedLocales lc) tp"
    "lc_currency lc = currency_of (rli_currency input) sp tp profile"
    "lc_localeChain lc = dedupeStrings [Some (lc_locale lc), Some (lp_fallbackLocale sp),
       map_option cp_defaultLocale profile, Some ''en-US'']"
    "lc_countryCode lc = orElse (normalizeCountryCode (rli_countryCode input))
       (orElse (lp_countryCode sp) (lp_countryCode tp))"
    "lc_tax lc = (case profile of Some p \<Rightarrow> cp_tax p
       | None \<Rightarrow> \<lparr>tx_mode = ''NONE'', tx_ratePercent = None, tx_label = None\<rparr>)"
  using assms unfolding resolveContextTx_def Let_def by (auto simp: Let_def)

lemma resolved_locale:
  assumes "parseLocalizationPreferences v fb = Inr sp"
  shows "resolvedLocale_of (localeCandidates input sp tp profile) (supportedLocales_of sp tp profile) tp =
      preferred_locale input sp (supportedLocales_of sp tp profile)"
    "preferred_locale input sp (supportedLocales_of sp tp profile) \<in> set (supportedLocales_of sp tp profile)"
proof -
  note p = parsed_defaults [OF assms]
  have m: "lp_defaultLocale sp \<in> set (supportedLocales_of sp tp profile)" by (rule supported_in_context [OF p(6,3)])
  show "resolvedLocale_of (localeCandidates input sp tp profile) (supportedLocales_of sp tp profile) tp =
      preferred_locale input sp (supportedLocales_of sp tp profile)"
    by (rule resolvedLocale_preferred [OF m normal_nonempty [OF p(1)]])
  show "preferred_locale input sp (supportedLocales_of sp tp profile) \<in> set (supportedLocales_of sp tp profile)"
    using m by (auto simp: preferred_locale_def Let_def dest: find_SomeD split: option.splits)
qed

lemma resolveContext_tenant:
  assumes "resolveContextTx pf context input d = Inr lc" and "rli_tenantId input = Some u"
  shows "resolveTenantId context (Some u) True = Inr (lc_tenantId lc)"
proof (rule resolveContextTx_Inr [OF assms(1)])
  fix t store
  assume "resolveScopeTx context (rli_tenantId input) (rli_storeId input) d = Inr (t, store)" "lc_tenantId lc = t"
  then show ?thesis by (auto simp: resolveScopeTx_def assms(2))
qed

text \<open>Two renderings of one stored template that agree on its entries.\<close>

lemma renderTemplate_cong:
  assumes "\<And>input lc. resolveContextTx pf ctx input d = Inr lc \<Longrightarrow> rli_tenantId input = rlt_tenantId r \<Longrightarrow> lc_tenantId lc = t"
    and "template_setting t (rlt_channel r) (rlt_templateKey r) d = Some s"
    and "parseLocalizedTemplateKey (set_key s) = Some (rlt_channel r, rlt_templateKey r)"
    and "\<And>chain l e. resolveLocalizedEntry
        (lt_entries (parseLocalizedTemplateValue (Some (set_value s)) (rlt_channel r))) chain = Some (l, e) \<Longrightarrow>
      render_entry e (rlt_variables r) = render_entry e vs"
  shows "renderTemplate pf ctx r d = renderTemplate pf ctx (r\<lparr>rlt_variables := vs\<rparr>) d"
proof -
  let ?i = "\<lparr>rli_tenantId = rlt_tenantId r, rli_storeId = rlt_storeId r, rli_locale = rlt_locale r,
        rli_customerLocale = rlt_customerLocale r, rli_countryCode = rlt_countryCode r,
        rli_channel = rlt_channel r, rli_currency = None\<rparr>"
  show ?thesis
  proof (cases "resolveContextTx pf ctx ?i d")
    case (Inr lc)
    then have "lc_tenantId lc = t" using assms(1) by simp
    then show ?thesis
      using Inr assms(2-4)
      by (cases "resolveLocalizedEntry (lt_entries (parseLocalizedTemplateValue (Some (set_value s)) (rlt_channel r)))
            (lc_localeChain lc)") (auto simp: renderTemplate_def Let_def)
  qed (simp add: renderTemplate_def)
qed

lemma tenant_setting_key:
  assumes "upsert_tenant_setting now t key v d = (s, d')"
  shows "set_key s = key"
proof -
  obtain rows where "put_setting now (nextId d) t t key v (tenantSettings d) = (s, rows)"
    using assms by (auto simp: upsert_tenant_setting_def split: prod.splits)
  then show ?thesis using put_setting_rows(3) by blast
qed

end
