(* ===== verification/LocaleProperties.thy ===== *)
theory LocaleProperties
  imports LocaleReads Demo
begin

text \<open>
  The properties of the localization service (\<open>localization/localization.module.ts\<close>), with runs of its
  handlers for the witnesses. What \<open>Intl\<close> formats is the parameter \<open>pf\<close>.
\<close>

section \<open>Runs\<close>

definition demo_preferences :: UpsertLocalizationPreferencesDto where
  "demo_preferences = \<lparr>ulp_defaultLocale = '' ru_ru'', ulp_fallbackLocale = Some ''EN'',
     ulp_supportedLocales = Some [''de-DE''], ulp_countryCode = Some ''ru'', ulp_currency = Some ''rub'',
     ulp_timezone = None, ulp_channelLocales = Some (JObj [(''KIOSK'', JStr ''de_de'')])\<rparr>"


definition demo_template :: UpsertLocalizedTemplateDto where
  "demo_template = \<lparr>ult_tenantId = ''t1'', ult_templateKey = ''order.ready'', ult_channel = Some ''KIOSK'',
     ult_description = None, ult_variables = None,
     ult_entries = [(''ru'', JObj [(''title'', JStr ''Order {{ number }}!'')])]\<rparr>"

definition demo_render :: RenderLocalizedTemplateDto where
  "demo_render = \<lparr>rlt_tenantId = Some ''t1'', rlt_storeId = None, rlt_templateKey = ''order.ready'',
     rlt_channel = Some ''KIOSK'', rlt_locale = Some ''ru-RU'', rlt_customerLocale = None,
     rlt_countryCode = None, rlt_variables = [(''number'', JStr ''7'')]\<rparr>"

definition demo_platform :: platform where
  "demo_platform = \<lparr>intl_money = \<lambda>locale currency. Inr currency, intl_date = \<lambda>locale. Inr locale,
     russian_address = ''''\<rparr>"

definition demo_input :: ResolveLocalizationInput where
  "demo_input = \<lparr>rli_tenantId = Some ''t1'', rli_storeId = None, rli_locale = Some ''fr'',
     rli_customerLocale = Some ''de_de'', rli_countryCode = None, rli_channel = None, rli_currency = None\<rparr>"

definition run_preferences :: "(LocalizationPreferencesDto \<times> db) result" where
  "run_preferences = upsertTenantPreferences demo_context 1000 demo_preferences None demo_db"


definition run_template :: "(LocalizedTemplateDto \<times> db) result" where
  "run_template = upsertTemplate demo_context 1000 demo_template (db_after run_preferences)"

definition run_context :: "LocalizationContextDto result" where
  "run_context = resolveContextTx demo_platform demo_context demo_input (db_after run_preferences)"

lemma preferences_run:
  "upsertTenantPreferences demo_context 1000 demo_preferences None demo_db = Inr (view_of run_preferences, db_after run_preferences)"
  unfolding run_preferences_def [symmetric] by (rule accepted) code_simp


lemma template_run:
  "upsertTemplate demo_context 1000 demo_template (db_after run_preferences) = Inr (view_of run_template, db_after run_template)"
  unfolding run_template_def [symmetric] by (rule accepted) code_simp


section \<open>Properties\<close>




text \<open>
  C38: The locale a request is answered in is the first of the requested locale, the customer's and
  the store's for the channel that is supported, or else the store's default, which a store without
  one takes from its tenant; it is supported, the supported locales are in normal form without
  repetition, and the chain that texts are looked up along starts with it and holds
  \<open>en-US\<close>. The channel locales of the tenant play no part.
\<close>

theorem locale_choice:
  assumes "resolveContextTx pf ctx input d = Inr lc"
  shows "\<exists>store tp sp. resolveScopeTx ctx (rli_tenantId input) (rli_storeId input) d = Inr (lc_tenantId lc, store) \<and>
    parseLocalizationPreferences
      (map_option set_value (tenant_setting (lc_tenantId lc) localizationPreferencesKey d)) None = Inr tp \<and>
    store_preferences_of d store tp = Inr sp \<and>
    lc_locale lc = preferred_locale input sp (lc_supportedLocales lc) \<and>
    lc_locale lc \<in> set (lc_supportedLocales lc) \<and> distinct (lc_supportedLocales lc) \<and>
    (\<forall>l \<in> set (lc_supportedLocales lc). normal_locale l) \<and>
    hd (lc_localeChain lc) = lc_locale lc \<and> ''en-US'' \<in> set (lc_localeChain lc)"
proof (rule resolveContextTx_Inr [OF assms])
  fix t store tp sp profile
  assume a: "resolveScopeTx ctx (rli_tenantId input) (rli_storeId input) d = Inr (t, store)"
    "parseLocalizationPreferences (map_option set_value (tenant_setting t localizationPreferencesKey d)) None = Inr tp"
    "store_preferences_of d store tp = Inr sp" "lc_tenantId lc = t"
    and s: "lc_supportedLocales lc = supportedLocales_of sp tp profile"
    and l: "lc_locale lc = resolvedLocale_of (localeCandidates input sp tp profile) (lc_supportedLocales lc) tp"
    and c: "lc_localeChain lc = dedupeStrings [Some (lc_locale lc), Some (lp_fallbackLocale sp),
       map_option cp_defaultLocale profile, Some ''en-US'']"
  note choice = resolved_locale [OF a(3) [unfolded store_preferences_of_def], of input tp profile]
  have "normal_locale l" if "l \<in> set (lc_supportedLocales lc)" for l
    using that supported_normal by (simp add: s supportedLocales_of_def)
  moreover have "distinct (lc_supportedLocales lc)" by (simp add: s supportedLocales_of_def)
  moreover have m: "lc_locale lc \<in> set (lc_supportedLocales lc)" using choice by (simp add: s l)
  ultimately have "hd (lc_localeChain lc) = lc_locale lc"
    using normal_nonempty [of "lc_locale lc"] by (simp add: c hd_dedupeStrings)
  moreover have "''en-US'' \<in> set (lc_localeChain lc)" by (simp add: c set_dedupeStrings)
  moreover have "lc_locale lc = preferred_locale input sp (lc_supportedLocales lc)" using choice by (simp add: s l)
  ultimately show ?thesis
    using a m \<open>distinct (lc_supportedLocales lc)\<close> supported_normal by (auto simp: s supportedLocales_of_def)
qed

lemma context_run:
  "resolveContextTx demo_platform demo_context demo_input (db_after run_preferences) = Inr (projr run_context)"
proof -
  have "\<not> isl run_context" by code_simp
  then have "run_context = Inr (projr run_context)" by (simp add: sum.collapse(2))
  then show ?thesis by (simp only: run_context_def)
qed

theorem locale_choice_witness:
  "lc_locale (projr run_context) = ''de-DE'' \<and> lc_locale (projr run_context) \<in> set (lc_supportedLocales (projr run_context))"
proof
  show "lc_locale (projr run_context) = ''de-DE''" by code_simp
  show "lc_locale (projr run_context) \<in> set (lc_supportedLocales (projr run_context))"
    using locale_choice [OF context_run] by blast
qed



text \<open>
  C40: A template sent without a list of its variables is answered with all it needs: every rendering of
  it, in whatever locale and for whatever store, is the same for two sets of variables that agree on
  the variables of the answer.
\<close>

theorem template_variables_suffice:
  assumes run: "upsertTemplate ctx now dto d = Inr (x, d')" and none: "nullish (ult_variables dto) [] = []"
    and channel: "channel_known (ult_channel dto)"
    and req: "rlt_tenantId r = Some (ult_tenantId dto)" "rlt_channel r = ult_channel dto"
      "rlt_templateKey r = ult_templateKey dto"
    and agree: "\<And>n. n \<in> set (lt_variables x) \<Longrightarrow> variable_text (rlt_variables r) n = variable_text vs n"
  shows "renderTemplate pf ctx r d' = renderTemplate pf ctx (r\<lparr>rlt_variables := vs\<rparr>) d'"
proof -
  let ?k = "buildLocalizedTemplateKey (ult_channel dto) (ult_templateKey dto)"
  from upsertTemplate_Inr [OF run] obtain t s d1 entry where
    t: "resolveTenantId ctx (Some (ult_tenantId dto)) True = Inr t"
    and w: "upsert_tenant_setting now t ?k (template_json (template_value dto)) d = (s, d1)"
    and x: "x = mapLocalizedTemplateDto t (ult_templateKey dto) (template_value dto) s"
    and d': "d' = recordTx entry d1" .
  have v: "set_value s = template_json (template_value dto)" using tenant_settings.put_value [OF w] by simp
  have k: "set_key s = ?k" using tenant_setting_key [OF w] .
  have "tenant_setting t ?k d' = Some s"
    using tenant_settings.get_put [OF w, of t ?k] by (simp add: tenant_setting_def d' recordTx_def)
  then have found: "template_setting t (ult_channel dto) (ult_templateKey dto) d' = Some s"
    by (rule template_setting_own [OF _ channel])
  have parsed: "lt_entries (parseLocalizedTemplateValue (Some (set_value s)) (ult_channel dto)) = lt_entries x"
    unfolding v by (subst template_round [of _ _ "ult_entries dto"])
      (simp_all add: x mapLocalizedTemplateDto_def template_value_def Let_def LocalizedTemplateValue.defs)
  have vars: "lt_variables x = collectTemplateVariables (lt_entries x)"
    using none by (simp add: x mapLocalizedTemplateDto_def template_value_def Let_def)
  have render: "render_entry e (rlt_variables r) = render_entry e vs"
    if "resolveLocalizedEntry (lt_entries x) chain = Some (l, e)" for chain l e
    by (rule render_entry_cong, rule agree, unfold vars)
      (rule collected_variables [OF resolved_entry_in [OF that]])
  have tenant: "lc_tenantId lc = t" if "resolveContextTx pf ctx input d' = Inr lc"
    and "rli_tenantId input = Some (ult_tenantId dto)" for input lc
    using resolveContext_tenant [OF that] t by simp
  show ?thesis
    by (rule renderTemplate_cong [where s = s and t = t])
      (use req found parsed render tenant k channel in simp_all)
qed

theorem template_variables_suffice_witness:
  "renderTemplate demo_platform demo_context demo_render (db_after run_template) =
     renderTemplate demo_platform demo_context
       (demo_render\<lparr>rlt_variables := [(''name'', JStr ''Ann''), (''number'', JStr ''7'')]\<rparr>) (db_after run_template) \<and>
   map_option rt_title (case renderTemplate demo_platform demo_context demo_render (db_after run_template) of
     Inl e \<Rightarrow> None | Inr a \<Rightarrow> Some (rlr_rendered a)) = Some (Some ''Order 7!'')"
proof
  have vars: "lt_variables (view_of run_template) = [''number'']" by code_simp
  show "renderTemplate demo_platform demo_context demo_render (db_after run_template) =
     renderTemplate demo_platform demo_context
       (demo_render\<lparr>rlt_variables := [(''name'', JStr ''Ann''), (''number'', JStr ''7'')]\<rparr>) (db_after run_template)"
    by (rule template_variables_suffice [OF template_run])
      (simp_all add: demo_template_def demo_render_def channel_known_def customizationChannels_def vars variable_text_def)
  show "map_option rt_title (case renderTemplate demo_platform demo_context demo_render (db_after run_template) of
     Inl e \<Rightarrow> None | Inr a \<Rightarrow> Some (rlr_rendered a)) = Some (Some ''Order 7!'')" by code_simp
qed

text \<open>
  An accepted change of a tenant's preferences is what the same user reads back, as it was
  answered. The answer sent again is accepted, keeps the id and the creation time of the setting and
  is answered as before, its time of change apart.
\<close>

theorem preferences_read_back:
  assumes run: "upsertTenantPreferences ctx now dto q d = Inr (v, d')"
  shows "listPreferences ctx q None d' = Inr (Some v, None) \<and>
    (\<exists>d''. upsertTenantPreferences ctx later (preferences_request v) q d' =
       Inr (v\<lparr>lpd_updatedAt := Some (toISOString later)\<rparr>, d''))"
proof -
  let ?k = localizationPreferencesKey and ?b = "buildPreferencesValue dto"
  from upsertTenantPreferences_Inr [OF run] obtain t s d1 entry where
    t: "resolveTenantId ctx (orElse q (ctx_tenantId ctx)) True = Inr t"
    and w: "upsert_tenant_setting now t ?k (preferences_json ?b) d = (s, d1)"
    and v: "v = mapPreferencesDto ''TENANT'' t None ?b s" and d': "d' = recordTx entry d1" .
  have look: "tenant_setting t ?k d' = Some s"
    using tenant_settings.get_put [OF w, of t ?k] by (simp add: tenant_setting_def d' recordTx_def)
  have read: "listPreferences ctx q None d' = Inr (Some v, None)"
    using preferences_listed [OF t look, of dto] tenant_settings.put_value [OF w] v by simp
  obtain s2 d2 where w2: "upsert_tenant_setting later t ?k (preferences_json ?b) d' = (s2, d2)" by fastforce
  then have "set_createdAt s2 = set_createdAt s" "set_updatedAt s2 = later"
    using tenant_settings.put_old [OF w2, of s] tenant_settings.put_value [OF w2] look
    by (simp_all add: tenant_setting_def)
  then have "mapPreferencesDto ''TENANT'' t None ?b s2 = v\<lparr>lpd_updatedAt := Some (toISOString later)\<rparr>"
    by (simp add: v mapPreferencesDto_def)
  moreover have "buildPreferencesValue (preferences_request v) = ?b"
    by (simp add: v request_of_answer preferences_again)
  ultimately have "upsertTenantPreferences ctx later (preferences_request v) q d' =
      Inr (v\<lparr>lpd_updatedAt := Some (toISOString later)\<rparr>, locale_audit ctx t None
        ''localization.tenant_preferences_upserted'' ''tenant_setting'' (set_id s2)
        [(''key'', JStr ?k), (''defaultLocale'', JStr (lp_defaultLocale ?b))] d2)"
    by (simp add: upsertTenantPreferences_def t w2 Let_def)
  with read show ?thesis by blast
qed

theorem preferences_read_back_witness:
  "listPreferences demo_context None None (db_after run_preferences) = Inr (Some (view_of run_preferences), None) \<and>
   lp_supportedLocales (view_of run_preferences) = [''de-DE'', ''ru-RU'', ''en'']"
proof
  show "listPreferences demo_context None None (db_after run_preferences) = Inr (Some (view_of run_preferences), None)"
    using preferences_read_back [OF preferences_run] by blast
  show "lp_supportedLocales (view_of run_preferences) = [''de-DE'', ''ru-RU'', ''en'']" by code_simp
qed

section \<open>What the service does not check\<close>

text \<open>
  A user of another tenant who is not tied to single stores imports a pack that names the store of the
  first tenant: the store gets a row of preferences that is the other tenant's.
\<close>

definition foreign_pack :: LocalizationLanguagePackDto where
  "foreign_pack = \<lparr>lpk_tenantId = Some ''t2'', lpk_generatedAt = '''', lpk_tenantPreferences = None,
     lpk_storePreferences = [(view_of run_preferences)\<lparr>lpd_scope := ''STORE'', lpd_storeId := Some ''s1''\<rparr>],
     lpk_countryProfiles = [], lpk_content = [], lpk_templates = []\<rparr>"

lemma foreign_store_written:
  "map_option set_tenantId (find_setting ''s1'' localizationPreferencesKey (storeSettings (db_after
     (importLanguagePack (other_context\<lparr>ctx_storeIds := []\<rparr>) 1000 None foreign_pack demo_db)))) = Some ''t2'' \<and>
   map st_tenantId (stores demo_db) = [''t1'']"
  by code_simp

text \<open>The channel locales of a tenant are stored and answered, and change nothing.\<close>

lemma tenant_channels_unused:
  "resolvedLocale_of (localeCandidates input sp (tp\<lparr>lp_channelLocales := cs\<rparr>) profile)
     (supportedLocales_of sp tp profile) tp =
   resolvedLocale_of (localeCandidates input sp tp profile) (supportedLocales_of sp tp profile) tp"
  if "parseLocalizationPreferences v fb = Inr sp"
  using resolvedLocale_preferred [OF supported_in_context [OF parsed_defaults(6,3) [OF that]]
      normal_nonempty [OF parsed_defaults(1) [OF that]]] by simp

text \<open>A country profile without a currency is answered so and read as one in dollars.\<close>

lemma blank_currency_read_as_dollars:
  "map_option cp_currency (case parseCountryProfile (Some (country_profile_json (country_profile_value
     \<lparr>ucp_defaultLocale = ''de-DE'', ucp_currency = '' '', ucp_supportedLocales = None, ucp_tax = None,
      ucp_complianceFlags = None, ucp_metadata = None\<rparr>))) ''DE'' of Inl e \<Rightarrow> None | Inr p \<Rightarrow> Some p) = Some ''USD''"
  by code_simp

end
