(* ===== verification/Spec2Isabelle.thy ===== *)
theory Spec2Isabelle
  imports OrderProperties StockProperties CoreProperties PaymentProperties FulfillmentProperties CustomerProperties
    BillingProperties LocaleProperties
begin

text \<open>
  Exetron is the back end of a multi-tenant restaurant chain: guests fill carts, carts become orders,
  the kitchen cooks them, recipes take ingredients from warehouses, and cash desks run in shifts. The
  development models the core of its API (\<open>src/apps/api/src\<close>): the services that change carts,
  orders, kitchen tickets, stock, receiving records, shifts, payments, fulfilment, customers, promotions,
  the billing of tenants and the languages of their texts, with the pure modules they call.

  \<^bold>\<open>How the code is represented.\<close> A request handler is a HOL function
  \<open>context \<Rightarrow> now \<Rightarrow> arguments \<Rightarrow> db \<Rightarrow> error + (response \<times> db)\<close> (type \<open>result\<close> of \<open>Db\<close>).
  The source runs each handler in one database transaction
  (\<open>DatabaseContextService.withRequestContext\<close>), so an error leaves the database as it was: \<open>Inl\<close>
  carries no state. The exceptions are the constructors of \<open>error\<close> with their messages. \<open>db\<close> is a
  record of tables; a table is the list of its rows in the order of creation, a row is a record with the
  columns of \<open>packages/database/prisma/schema.prisma\<close> that the modelled operations read or write.
  \<open>randomUUID\<close> is the counter \<open>db_seq\<close> with \<open>newId\<close>, \<open>new Date()\<close> is the argument
  \<open>now\<close>. Responses are \<open>json\<close> values built by the mapping functions of the modules.

  \<^bold>\<open>Theories, from the bottom.\<close>
    \<^item> \<open>Prelude\<close>: errors, sequencing (\<open>bnd\<close>, \<open>ensure\<close>, \<open>orThrow\<close>, \<open>foldE\<close>,
      \<open>mapE\<close>), \<open>update_where\<close>, strings and JSON as JavaScript has them.
    \<^item> \<open>Types\<close>: the enums of \<open>packages/types/src/index.ts\<close>.
    \<^item> \<open>Money\<close>: \<open>pricing/money.util.ts\<close>, \<open>orders/order-money.util.ts\<close>,
      \<open>pos/pos-payments.util.ts\<close>, with the same totals on integer cents and their equivalence.
    \<^item> \<open>Access\<close>: \<open>common/access-control.service.ts\<close>, \<open>common/guards/permissions.guard.ts\<close>.
    \<^item> \<open>Availability\<close>: \<open>pricing/availability.util.ts\<close>.
    \<^item> \<open>Lifecycle\<close>: \<open>orders/order-lifecycle.util.ts\<close>, \<open>kitchen/kitchen-runtime.util.ts\<close>;
      the locale \<open>lifecycle\<close> (a transition table that climbs a bounded rank) and its interpretation on
      both tables.
    \<^item> \<open>Calendar\<close>, \<open>Fulfillment\<close>: \<open>Date.toISOString\<close> and
      \<open>fulfillment/fulfillment-runtime.util.ts\<close>.
    \<^item> \<open>Database\<close>, \<open>Db\<close>, \<open>Mappers\<close>: rows, tables, the logs every handler writes
      (order events, audit, outbox, realtime), the transfer objects; the locale \<open>row_store\<close> (get,
      update, insert of one table), interpreted on carts, cart items, orders, tickets, shifts and sessions.
    \<^item> \<open>Pricing\<close>: \<open>resolveSelectionTx\<close> of \<open>pricing/pricing.module.ts\<close>.
    \<^item> \<open>Stock\<close>, \<open>StockLaws\<close>, \<open>Inventory\<close>, \<open>Planning\<close>, \<open>InventoryLaws\<close>:
      the core of \<open>inventory/inventory.service.ts\<close>; the locale \<open>stock_port\<close> is what the order
      service relies on (reserve, release, consume), with the levels \<open>onHandAt\<close>, \<open>reservedAt\<close>,
      \<open>heldBy\<close> as its abstract state.
    \<^item> \<open>Carts\<close>, \<open>CartOps\<close>, \<open>CartLaws\<close>, \<open>Orders\<close>, \<open>OrderLaws\<close>:
      \<open>orders/orders.module.ts\<close>; \<open>Kitchen\<close>, \<open>KitchenLaws\<close>:
      \<open>kitchen/kitchen.module.ts\<close>; \<open>Pos\<close>, \<open>PosLaws\<close>: \<open>pos/pos.module.ts\<close>.
    \<^item> \<open>FulfillmentOps\<close>, \<open>FulfillmentLaws\<close>: \<open>fulfillment/fulfillment.module.ts\<close>.
      A handler that runs a transaction and then reads the answer in another one is an \<open>outcome\<close>
      (\<open>Db\<close>): an error with the database it leaves, so that a failed read does not undo the write.
    \<^item> \<open>Doubles\<close>, \<open>CustomerRuntime\<close>: rounding of IEEE doubles on exact rationals
      (\<open>dbl\<close>, with its relative error \<open>eps\<close>) and \<open>customers/customer-runtime.util.ts\<close>,
      whose percentages and sums are the only arithmetic of the modelled code that leaves the integers.
    \<^item> \<open>Customers\<close>, \<open>CustomerLaws\<close>, \<open>CustomerHistory\<close>, \<open>CustomerSteps\<close>:
      \<open>customers/customers.module.ts\<close>, and the invariant \<open>customers_ok\<close> of profiles, loyalty
      accounts, ledger entries and campaigns (\<open>customers_but S\<close> while the accounts of \<open>S\<close> are
      being changed).
    \<^item> \<open>Invariants\<close>, \<open>Handlers\<close>, \<open>System\<close>: all handlers that change carts, orders,
      tickets, stock, fulfilment or customers as one step relation \<open>api_step\<close>, its invariant
      \<open>api_ok\<close>, what every history keeps (\<open>order_grows\<close>), and \<open>core_step\<close>, what each
      handler is shown to do before it becomes a case of the relation.
    \<^item> \<open>Demo\<close>, \<open>Histories\<close>: a concrete run, evaluated, for the witnesses; lemmas on
      histories.
    \<^item> \<open>Payments\<close>, \<open>PaymentOps\<close>, \<open>PaymentLaws\<close>: the payment service
      (\<open>payments/payments.module.ts\<close>, \<open>payment-runtime.util.ts\<close>, \<open>payment-adapter.util.ts\<close>,
      \<open>provider-config-secrets.util.ts\<close>). Its tables stand beside the others in \<open>pay_db\<close>, whose
      field \<open>core\<close> is the \<open>db\<close> of the other services; \<open>pay_step\<close> is a request of the payment
      service or one of the others, \<open>pay_ok\<close> its invariant. The cipher that seals provider secrets
      (Node's \<open>crypto\<close>) is the argument \<open>cipher\<close>, its random vector an argument of the handlers;
      the one law used is that it opens what it sealed. \<open>processAllocation\<close> and
      \<open>receiveWebhook\<close> run two transactions, so they answer with a database also after an error.
    \<^item> \<open>Billing\<close>, \<open>BillingOps\<close>, \<open>BillingTables\<close>, \<open>BillingLaws\<close>,
      \<open>BillingSteps\<close>, \<open>BillingReads\<close>, \<open>BillingDemo\<close>: the billing service
      (\<open>billing/billing.module.ts\<close>, \<open>billing-state.util.ts\<close>). A request loads the shared plans and
      resellers and the rows of one tenant as a \<open>BillingState\<close>, changes it and writes it all back
      (\<open>saveStateTx\<close>); its tables stand beside the core in \<open>billing_db\<close>. The locale
      \<open>tenant_table\<close> is what a save relies on of the six tables whose rows it deletes and creates again,
      \<open>upsert_table\<close> of the two it upserts by a unique key; \<open>billing_ok\<close> is the invariant,
      \<open>billing_step\<close> a request of this service or of the others. What a \<open>Decimal(12, 2)\<close> column makes
      of a text is the argument \<open>amt\<close>, with the one law \<open>amount_column\<close>.
    \<^item> \<open>Locales\<close>, \<open>Localization\<close>, \<open>LocaleContext\<close>,
      \<open>LocaleLaws\<close>, \<open>LocaleSteps\<close>, \<open>LocaleReads\<close>: the localization service
      (\<open>localization/localization.module.ts\<close>), whose documents are settings of tenants and stores under
      keys built from their names: the pure functions, the handlers, the context a request is answered in,
      the texts and templates; round trips of keys and values, the requests that write as the relation
      \<open>locale_step\<close>, with \<open>settings_ok\<close> (settings are unique) and \<open>localized\<close> (what
      they leave alone). It uses the locale \<open>settings_store\<close> of \<open>Db\<close> (a read after a write of one
      key), interpreted on the settings of stores and of tenants. What \<open>Intl\<close> formats is the argument
      \<open>pf\<close>.
    \<^item> \<open>OrderProperties\<close>, \<open>StockProperties\<close>, \<open>CoreProperties\<close>,
      \<open>PaymentProperties\<close>, \<open>FulfillmentProperties\<close>, \<open>CustomerProperties\<close>,
      \<open>BillingProperties\<close>, \<open>LocaleProperties\<close> and this theory: the properties.
  \<^bold>\<open>What the lemmas show.\<close> The invariant \<open>api_ok\<close> joins \<open>stock_ok\<close> (one row per
  warehouse and ingredient, and on every row the reserved quantity is the sum of the open reservations),
  \<open>carts_ok\<close> (the totals of a cart are those of its lines) and \<open>orders_ok\<close> (an order's totals
  are those of its lines, it stands for exactly one converted cart, a cancelled order has no open ticket).
  Every handler keeps it, so it holds along every history of accepted requests (C1). On top of it are
  effects of single handlers (what checkout, a transition, a reservation, a receipt does, and nothing
  else), the errors they raise and in which order, and refinements: handlers against abstract moves,
  string amounts against integer cents, availability against intervals of the week.

  \<^bold>\<open>Bounds and fuel.\<close> No definition needs fuel: every loop of the modelled code runs over a list,
  and the digits of a number are a terminating function. Cents are integers here and doubles in
  the source, exact up to \<open>2 ^ 53\<close>. The discount of a percentage and what a customer spent are
  computed in doubles as the source does; the doubles of \<open>Doubles\<close> have 53 bits and no overflow or
  underflow, and the properties of them bound the amounts so that none can occur. Quantities of stock are
  exact rationals; the source computes them in doubles and stores them in \<open>Decimal\<close> columns, so its
  rounding is not modelled. Characters have codes below 256 and case conversion is
  that of ASCII.

  \<^bold>\<open>Assumptions.\<close> One \<open>now\<close> per request; a read without \<open>orderBy\<close> returns the rows in
  table order; unique constraints raise, foreign keys and row-level security are not modelled; transactions
  are serial; the in-process event emitter has no listeners; a realtime emission is an entry of a log.
  A lookup in a JSON object by a product code assumes that the code is no property of
  \<open>Object.prototype\<close>.

  \<^bold>\<open>Not modelled.\<close>
  The supplier documents, jobs and background execution of the inventory service; the CRUD and compiled
  catalogue of the pricing module; organizations, enterprise,
  customization, kiosk, storefront, authentication and the remaining modules of the API; the
  web and mobile applications, which render what the API returns.
\<close>

section \<open>All services together\<close>




text \<open>
  C2: An accepted checkout turns an open cart with items into a placed order with the cart's totals and
  its lines, converts the cart, and reserves for the new order exactly what the recipes of the items
  need, in the warehouse the plan picks; nothing leaves the shelves and no ticket is opened.
\<close>

theorem checkout_places_order:
  assumes ok: "api_ok d" and run: "checkout context now cartId dto d = Inr (v, d')"
  shows "\<exists>c r. cart_get cartId d = Some c \<and> cart_status c = OPEN \<and> cart_items cartId d \<noteq> [] \<and>
    orders d' = orders d @ [r] \<and> ord_status r = PLACED \<and> ord_cartId r = Some cartId \<and>
    ord_total r = cart_total c \<and> v = mapOrder r \<and>
    map (\<lambda>x. (oi_productId x, oi_variantId x, oi_quantity x, oi_lineTotal x, oi_snapshot x)) (ord_items r) =
      map (\<lambda>x. (ci_productId x, ci_variantId x, ci_quantity x, ci_lineTotal x, ci_snapshot x))
        (cart_items cartId d) \<and>
    (\<exists>c'. cart_get cartId d' = Some c' \<and> cart_status c' = CONVERTED) \<and> tickets d' = tickets d \<and>
    (\<forall>w i. onHandAt w i d' = onHandAt w i d \<and>
       reservedAt w i d' = reservedAt w i d + recipe_need (cart_tenantId c) (cart_storeId c)
         (plan_items (cart_items cartId d)) d w i \<and>
       heldBy (cart_tenantId c) (ord_id r) w i d' = heldBy (cart_tenantId c) (ord_id r) w i d +
         recipe_need (cart_tenantId c) (cart_storeId c) (plan_items (cart_items cartId d)) d w i)"
proof -
  from checkout_effect [OF api_okD(1) [OF ok] run] obtain c plan where
    c: "cart_get cartId d = Some c" "cart_status c = OPEN" "cart_items cartId d \<noteq> []"
    and plan: "buildReservationPlanTx (cart_tenantId c) (cart_storeId c) (plan_items (cart_items cartId d)) d
        = Inr plan"
    and os: "orders d' = orders d @ [placed_order now c dto d]"
    and cs: "carts d' = update_where (\<lambda>x. cart_id x = cartId) (converted now (placed_order now c dto d)) (carts d)"
    and t: "tickets d' = tickets d" and v: "v = mapOrder (placed_order now c dto d)"
    and lv: "\<And>w i. reservedAt w i d' = reservedAt w i d + planned w i plan"
      "\<And>w i. onHandAt w i d' = onHandAt w i d"
      "\<And>t oid w i. heldBy t oid w i d' = heldBy t oid w i d +
        (if t = cart_tenantId c \<and> oid = newId (db_seq d) then planned w i plan else 0)" by metis
  have i: "cart_id c = cartId" using cart_getD [OF c(1)] by simp
  have "cart_get cartId d' = cart_get cartId (cart_update cartId (converted now (placed_order now c dto d)) d)"
    by (simp add: cart_get_def cart_update_def cs)
  also have "\<dots> = Some (converted now (placed_order now c dto d) c)"
    by (rule cart_rows.get_upd_same) (simp_all add: converted_def c)
  finally have "\<exists>c'. cart_get cartId d' = Some c' \<and> cart_status c' = CONVERTED" by (simp add: converted_def)
  with c os t v lv planned_need [OF plan] i show ?thesis
    by (intro exI [of _ c] exI [of _ "placed_order now c dto d"]) (simp add: placed_items_def order_items_products)
qed

theorem checkout_places_order_witness:
  "\<exists>r. orders (db_after run_checkout) = [r] \<and> ord_total r = 1500 \<and> ord_status r = PLACED \<and>
     reservedAt ''w1'' ''g1'' (db_after run_checkout) = 6 \<and> onHandAt ''w1'' ''g1'' (db_after run_checkout) = 10"
proof -
  have "cart_get ''c1'' cart_db = Some demo_cart" "orders cart_db = []" "cart_total demo_cart = 1500"
    "reservedAt ''w1'' ''g1'' cart_db = 0" "onHandAt ''w1'' ''g1'' cart_db = 10"
    "recipe_need (cart_tenantId demo_cart) (cart_storeId demo_cart)
       (plan_items (cart_items ''c1'' cart_db)) cart_db ''w1'' ''g1'' = 6"
    by code_simp+
  with checkout_places_order [OF cart_db_ok checkout_run]
  show ?thesis by (elim exE conjE) simp
qed

text \<open>
  C3: A cart is checked out once: after an accepted checkout and any further accepted requests, by
  anyone, every checkout of the same cart is refused, and the order it became still stands with its
  total.
\<close>

theorem checkout_once:
  assumes ok: "api_ok d" and run: "checkout context now cartId dto d = Inr (v, d1)"
    and later: "api_step\<^sup>*\<^sup>* d1 d2"
  shows "isl (checkout context' now' cartId dto' d2) \<and>
    (\<exists>c. cart_get cartId d = Some c \<and>
      (\<exists>r \<in> set (orders d2). ord_cartId r = Some cartId \<and> ord_total r = cart_total c))"
proof
  have step: "api_step d d1" using run by (rule check_out)
  have grow: "order_grows d1 d2" using api_reachable [OF later] api_step_ok [OF step ok] by simp
  from checkout_effect [OF api_okD(1) [OF ok] run] obtain c where c: "cart_get cartId d = Some c"
    and os: "orders d1 = orders d @ [placed_order now c dto d]" by metis
  have i: "cart_id c = cartId" using cart_getD [OF c] by simp
  have "Some cartId \<in> set (map ord_cartId (orders d1))" by (simp add: os i)
  then show "isl (checkout context' now' cartId dto' d2)"
    by (intro checkout_taken order_of_cart_stays [OF grow])
  have "placed_order now c dto d \<in> set (orders d1)" by (simp add: os)
  with grow obtain r where "r \<in> set (orders d2)" "ord_cartId r = Some cartId" "ord_total r = cart_total c"
    unfolding order_grows_def by (metis i placed_order_simps(4,6))
  with c show "\<exists>c. cart_get cartId d = Some c \<and>
      (\<exists>r \<in> set (orders d2). ord_cartId r = Some cartId \<and> ord_total r = cart_total c)" by blast
qed

theorem checkout_once_witness:
  "isl (checkout demo_context 2000 ''c1'' demo_checkout (db_after run_checkout)) \<and>
   (\<exists>r \<in> set (orders (db_after run_checkout)). ord_total r = 1500)"
proof -
  have "cart_get ''c1'' cart_db = Some demo_cart" "cart_total demo_cart = 1500" by code_simp+
  with checkout_once [OF cart_db_ok checkout_run
      rtranclp.rtrancl_refl, of demo_context 2000 demo_checkout]
  show ?thesis by auto
qed

end
